(* ===== verification/Prelude.thy ===== *)
theory Prelude
  imports Complex_Main "HOL-Library.Char_ord" "HOL-Library.List_Lexorder" "HOL-Library.Code_Target_Nat"
begin

text \<open>
  Shared vocabulary of the development: the error values of \<open>errors.py\<close>, the result
  type and its bind, the operations of Python's \<open>str\<close>, \<open>dict\<close> and \<open>deque\<close> that the
  sources use, and the lemma collections that carry the component proofs.

  A Python string is a list of characters with code points below 256 (\<open>char\<close>).  On this
  range \<open>strip\<close>, \<open>split\<close>, \<open>isdigit\<close> and \<open>casefold\<close> are given exactly, with one
  exception: U+00B5 (MICRO SIGN) casefolds to U+03BC, which is outside the range, and is
  left unchanged here.  A \<open>float\<close> is an exact rational; rounding is not modelled.
\<close>

section \<open>Lemma collections\<close>

named_theorems res_simps \<open>evaluation and inversion of the result type\<close>
named_theorems str_simps \<open>equations of the string operations\<close>
named_theorems dict_simps \<open>lookup after update of insertion-ordered dictionaries\<close>

section \<open>Errors and results\<close>

datatype lab_error =
    ValidationError string
  | ConfigurationError string
  | ModelError string
  | QuestionBusy string
  | QuestionCapacity string
  | QuestionInvalidated string
  | QuestionTimeout string
  | StateConflict string
  | ValueError string
  | TypeError string
  | KeyError string
  | AttributeError string
  | RecursionError
  | RuntimeError string
  | StopIteration
  | OverflowError
  | NotRepresented \<comment> \<open>a character beyond U+00FF, which this model leaves out\<close>

type_synonym 'a result = "lab_error + 'a"

definition rbind :: "'e + 'a \<Rightarrow> ('a \<Rightarrow> 'e + 'b) \<Rightarrow> 'e + 'b" where
  "rbind m f = (case m of Inl e \<Rightarrow> Inl e | Inr x \<Rightarrow> f x)"

definition ensure :: "bool \<Rightarrow> 'e \<Rightarrow> 'e + unit" where
  "ensure b e = (if b then Inr () else Inl e)"

text \<open>A comprehension \<open>[f(i, x) for i, x in enumerate(xs)]\<close> whose body may raise.\<close>

fun rmapi :: "(nat \<Rightarrow> 'a \<Rightarrow> 'e + 'b) \<Rightarrow> nat \<Rightarrow> 'a list \<Rightarrow> 'e + 'b list" where
  "rmapi f i [] = Inr []"
| "rmapi f i (x # xs) = rbind (f i x) (\<lambda>y. rbind (rmapi f (Suc i) xs) (\<lambda>ys. Inr (y # ys)))"

definition rmap :: "('a \<Rightarrow> 'e + 'b) \<Rightarrow> 'a list \<Rightarrow> 'e + 'b list" where
  "rmap f xs = rmapi (\<lambda>_. f) 0 xs"

text \<open>A loop that threads a state through the elements and stops at the first error.\<close>

fun rfold :: "('s \<Rightarrow> 'a \<Rightarrow> 'e + 's) \<Rightarrow> 's \<Rightarrow> 'a list \<Rightarrow> 'e + 's" where
  "rfold f s [] = Inr s"
| "rfold f s (x # xs) = rbind (f s x) (\<lambda>s'. rfold f s' xs)"

lemma rbind_simps [simp, res_simps]:
  "rbind (Inl e) f = Inl e" "rbind (Inr x) f = f x"
  by (simp_all add: rbind_def)

lemma rbind_Inr_iff [res_simps]: "rbind m f = Inr y \<longleftrightarrow> (\<exists>x. m = Inr x \<and> f x = Inr y)"
  by (cases m) simp_all

lemma rbind_InrE: "rbind r f = Inr y \<Longrightarrow> (\<And>x. r = Inr x \<Longrightarrow> f x = Inr y \<Longrightarrow> P) \<Longrightarrow> P"
  by (auto simp: rbind_Inr_iff)

lemma rbind_Inl_iff: "rbind m f = Inl e \<longleftrightarrow> m = Inl e \<or> (\<exists>x. m = Inr x \<and> f x = Inl e)"
  by (cases m) simp_all

lemma ensure_simps [simp, res_simps]:
  "ensure True e = Inr ()" "ensure False e = Inl e" "ensure b e = Inr u \<longleftrightarrow> b"
  by (simp_all add: ensure_def)

lemma ensure_Inl_iff [simp]: "ensure b e = Inl e' \<longleftrightarrow> \<not> b \<and> e' = e"
  by (auto simp: ensure_def)

lemma rmapi_length: "rmapi f i xs = Inr ys \<Longrightarrow> length ys = length xs"
  by (induction xs arbitrary: i ys) (auto simp: rbind_Inr_iff)

lemma rmapi_nth:
  "rmapi f i xs = Inr ys \<Longrightarrow> k < length xs \<Longrightarrow> f (i + k) (xs ! k) = Inr (ys ! k)"
proof (induction xs arbitrary: i ys k)
  case Nil
  then show ?case by simp
next
  case (Cons x xs)
  then obtain y zs where y: "f i x = Inr y" and zs: "rmapi f (Suc i) xs = Inr zs"
    and ys: "ys = y # zs" by (auto simp: rbind_Inr_iff)
  show ?case
  proof (cases k)
    case 0
    with y ys show ?thesis by simp
  next
    case (Suc j)
    with Cons.IH [OF zs, of j] Cons.prems ys show ?thesis by simp
  qed
qed

lemma rmapi_all:
  assumes "rmapi f i xs = Inr ys" and "\<And>j x y. f j x = Inr y \<Longrightarrow> P y" and "y \<in> set ys"
  shows "P y"
  using assms(1,3)
proof (induction xs arbitrary: i ys)
  case Nil
  then show ?case by simp
next
  case (Cons x xs)
  then obtain z zs where "f i x = Inr z" and "rmapi f (Suc i) xs = Inr zs" and "ys = z # zs"
    by (auto simp: rbind_Inr_iff)
  with Cons.IH [of "Suc i" zs] Cons.prems(2) assms(2) show ?case by auto
qed

lemma rmapi_fixpoint:
  assumes "rmapi f i xs = Inr ys" and "\<And>j x y. f j x = Inr y \<Longrightarrow> x \<in> set xs \<Longrightarrow> g y = Inr y"
  shows "rmapi (\<lambda>_. g) k ys = Inr ys"
  using assms
proof (induction xs arbitrary: i k ys)
  case Nil
  then show ?case by simp
next
  case (Cons x xs)
  then obtain z zs where z: "f i x = Inr z" and zs: "rmapi f (Suc i) xs = Inr zs"
    and ys: "ys = z # zs" by (auto simp: rbind_Inr_iff)
  from z Cons.prems(2) have "g z = Inr z" by simp
  moreover have "rmapi (\<lambda>_. g) (Suc k) zs = Inr zs"
    by (rule Cons.IH [OF zs]) (use Cons.prems(2) in auto)
  ultimately show ?case using ys by simp
qed

lemma rfold_invariant:
  assumes "rfold f s xs = Inr t" and "P s"
    and "\<And>s x s'. x \<in> set xs \<Longrightarrow> P s \<Longrightarrow> f s x = Inr s' \<Longrightarrow> P s'"
  shows "P t"
  using assms(1,2,3)
proof (induction xs arbitrary: s)
  case Nil
  then show ?case by simp
next
  case (Cons x xs)
  from Cons.prems(1) obtain s' where s': "f s x = Inr s'" and rest: "rfold f s' xs = Inr t"
    by (auto simp: rbind_Inr_iff)
  show ?case
  proof (rule Cons.IH [OF rest])
    show "P s'" by (rule Cons.prems(3) [of x s s']) (use Cons.prems(2) s' in simp_all)
  next
    fix u y u'
    assume "y \<in> set xs" and "P u" and "f u y = Inr u'"
    then show "P u'" by (intro Cons.prems(3) [of y u u']) simp_all
  qed
qed

section \<open>Characters and strings\<close>

definition ord :: "char \<Rightarrow> nat" where
  "ord c = of_char c"

definition is_space :: "char \<Rightarrow> bool" where
  \<comment> \<open>\<open>str.isspace\<close> below U+0100\<close>
  "is_space c = (let n = ord c in 9 \<le> n \<and> n \<le> 13 \<or> 28 \<le> n \<and> n \<le> 32 \<or> n = 133 \<or> n = 160)"

definition is_digit :: "char \<Rightarrow> bool" where
  \<comment> \<open>\<open>str.isdigit\<close> on one character: the ASCII digits and the superscripts two, three, one\<close>
  "is_digit c = (let n = ord c in 48 \<le> n \<and> n \<le> 57 \<or> n = 178 \<or> n = 179 \<or> n = 185)"

definition is_ascii_digit :: "char \<Rightarrow> bool" where
  "is_ascii_digit c = (let n = ord c in 48 \<le> n \<and> n \<le> 57)"

definition lower_char :: "char \<Rightarrow> char" where
  "lower_char c = (let n = ord c in
     if 65 \<le> n \<and> n \<le> 90 \<or> 192 \<le> n \<and> n \<le> 222 \<and> n \<noteq> 215 then char_of (n + 32) else c)"

definition casefold_char :: "char \<Rightarrow> string" where
  "casefold_char c = (if ord c = 223 then ''ss'' else [lower_char c])"

definition casefold :: "string \<Rightarrow> string" where
  "casefold s = concat (map casefold_char s)"

definition lstrip :: "string \<Rightarrow> string" where
  "lstrip s = dropWhile is_space s"

definition strip :: "string \<Rightarrow> string" where
  "strip s = rev (dropWhile is_space (rev (dropWhile is_space s)))"

definition remove_nul :: "string \<Rightarrow> string" where
  \<comment> \<open>\<open>value.replace("\\x00", "")\<close>\<close>
  "remove_nul s = filter (\<lambda>c. ord c \<noteq> 0) s"

text \<open>\<open>str.split()\<close>: the maximal runs of non-space characters.\<close>

fun split_go :: "string \<Rightarrow> string \<Rightarrow> string list" where
  "split_go acc [] = (if acc = [] then [] else [rev acc])"
| "split_go acc (c # cs) =
     (if is_space c then (if acc = [] then split_go [] cs else rev acc # split_go [] cs)
      else split_go (c # acc) cs)"

definition split_ws :: "string \<Rightarrow> string list" where
  "split_ws s = split_go [] s"

fun join :: "string \<Rightarrow> string list \<Rightarrow> string" where
  "join sep [] = []"
| "join sep [x] = x"
| "join sep (x # y # xs) = x @ sep @ join sep (y # xs)"

definition starts_with :: "string \<Rightarrow> string \<Rightarrow> bool" where
  "starts_with p s = (take (length p) s = p)"

definition ends_with :: "string \<Rightarrow> string \<Rightarrow> bool" where
  "ends_with p s = starts_with (rev p) (rev s)"

definition contains_any :: "nat list \<Rightarrow> string \<Rightarrow> bool" where
  "contains_any cs s = list_ex (\<lambda>c. ord c \<in> set cs) s"

definition str_isdigit :: "string \<Rightarrow> bool" where
  "str_isdigit s = (s \<noteq> [] \<and> list_all is_digit s)"

fun nat_str :: "nat \<Rightarrow> string" where
  "nat_str n = (if n < 10 then [char_of (48 + n)] else nat_str (n div 10) @ [char_of (48 + n mod 10)])"

declare nat_str.simps [simp del]

definition int_str :: "int \<Rightarrow> string" where
  "int_str i = (if i < 0 then CHR ''-'' # nat_str (nat (- i)) else nat_str (nat i))"

definition comma_join :: "string list \<Rightarrow> string" where
  "comma_join xs = join '', '' (sort xs)"

definition digits_value :: "string \<Rightarrow> nat" where
  "digits_value s = foldl (\<lambda>a c. 10 * a + (ord c - 48)) 0 s"

lemma ord_less [simp]: "ord c < 256"
  by (simp add: ord_def)


lemma ord_Char [simp]:
  "ord (Char b0 b1 b2 b3 b4 b5 b6 b7) =
     of_bool b0 + 2 * of_bool b1 + 4 * of_bool b2 + 8 * of_bool b3 + 16 * of_bool b4
     + 32 * of_bool b5 + 64 * of_bool b6 + 128 * of_bool b7"
  by (simp add: ord_def)

lemma ord_char_of [simp]: "ord (char_of n) = n mod 256"
  by (simp add: ord_def)

lemma ord_inject [simp]: "ord c = ord d \<longleftrightarrow> c = d"
  by (simp add: ord_def)

lemma ord_lower_char:
  "ord (lower_char c) =
     (if 65 \<le> ord c \<and> ord c \<le> 90 \<or> 192 \<le> ord c \<and> ord c \<le> 222 \<and> ord c \<noteq> 215
      then ord c + 32 else ord c)"
  by (auto simp: lower_char_def Let_def)

lemma lower_char_idem: "lower_char (lower_char c) = lower_char c"
  by (subst ord_inject [symmetric]) (simp add: ord_lower_char)

lemma is_space_lower_char [simp]: "is_space (lower_char c) = is_space c"
  by (auto simp: is_space_def Let_def ord_lower_char)

lemma casefold_char_space: "is_space c \<Longrightarrow> casefold_char c = [c]"
  unfolding casefold_char_def
  by (auto simp: is_space_def Let_def ord_lower_char simp flip: ord_inject)

lemma casefold_char_nonspace:
  "\<not> is_space c \<Longrightarrow> casefold_char c \<noteq> [] \<and> list_all (\<lambda>d. \<not> is_space d) (casefold_char c)"
  by (simp add: casefold_char_def) (simp add: is_space_def)

lemma casefold_Nil [simp, str_simps]: "casefold [] = []"
  by (simp add: casefold_def)

lemma casefold_Cons: "casefold (c # s) = casefold_char c @ casefold s"
  by (simp add: casefold_def)

lemma casefold_append [str_simps]: "casefold (s @ t) = casefold s @ casefold t"
  by (simp add: casefold_def)

lemma casefold_casefold_char: "casefold (casefold_char c) = casefold_char c"
proof (cases "ord c = 223")
  case True
  then show ?thesis by (simp add: casefold_char_def casefold_def ord_lower_char flip: ord_inject)
next
  case False
  moreover have "ord (lower_char c) \<noteq> 223"
    using False by (auto simp: ord_lower_char)
  ultimately show ?thesis by (simp add: casefold_char_def casefold_def lower_char_idem)
qed

lemma casefold_idem [simp, str_simps]: "casefold (casefold s) = casefold s"
  by (induction s) (simp_all add: casefold_Cons casefold_append casefold_casefold_char)

subsection \<open>Stripping\<close>

lemma set_strip: "set (strip s) \<subseteq> set s"
  unfolding strip_def by (metis set_dropWhileD set_rev subsetI)

lemma length_strip_le: "length (strip s) \<le> length s"
  unfolding strip_def by (metis length_dropWhile_le length_rev order_trans)

lemma dropWhile_hd: "s \<noteq> [] \<Longrightarrow> \<not> p (hd s) \<Longrightarrow> dropWhile p s = s"
  by (cases s) auto

lemma strip_fixed:
  assumes "s \<noteq> []" and "\<not> is_space (hd s)" and "\<not> is_space (last s)"
  shows "strip s = s"
  using assms by (simp add: strip_def dropWhile_hd hd_rev)

lemma strip_ends:
  assumes "strip s \<noteq> []"
  shows "\<not> is_space (hd (strip s)) \<and> \<not> is_space (last (strip s))"
proof -
  let ?t = "dropWhile is_space s"
  have ne: "dropWhile is_space (rev ?t) \<noteq> []" using assms by (simp add: strip_def)
  have l: "last (strip s) = hd (dropWhile is_space (rev ?t))"
    using ne by (simp add: strip_def last_rev)
  have "?t \<noteq> []" using ne by (metis dropWhile.simps(1) rev.simps(1))
  have "hd (strip s) = last (dropWhile is_space (rev ?t))"
    using ne by (simp add: strip_def hd_rev)
  also have "\<dots> = last (rev ?t)"
    using ne by (metis last_appendR takeWhile_dropWhile_id)
  also have "\<dots> = hd ?t" using \<open>?t \<noteq> []\<close> by (simp add: last_rev)
  finally show ?thesis
    using l hd_dropWhile [OF ne] hd_dropWhile [OF \<open>?t \<noteq> []\<close>] by simp
qed

lemma strip_idem [simp, str_simps]: "strip (strip s) = strip s"
proof (cases "strip s = []")
  case True
  then show ?thesis by (simp add: strip_def [of "[]"])
next
  case False
  with strip_ends [OF False] show ?thesis by (intro strip_fixed) auto
qed

lemma remove_nul_fixed: "(\<And>c. c \<in> set t \<Longrightarrow> ord c \<noteq> 0) \<Longrightarrow> remove_nul t = t"
  unfolding remove_nul_def by (rule filter_True) blast

lemma remove_nul_no_nul: "c \<in> set (remove_nul s) \<Longrightarrow> ord c \<noteq> 0"
  by (simp add: remove_nul_def)

lemma remove_nul_strip [simp]: "remove_nul (strip (remove_nul s)) = strip (remove_nul s)"
  by (rule remove_nul_fixed) (rule remove_nul_no_nul, rule set_strip [THEN subsetD])

subsection \<open>Splitting at white space and joining\<close>

definition is_word :: "string \<Rightarrow> bool" where
  "is_word w = (w \<noteq> [] \<and> list_all (\<lambda>c. \<not> is_space c) w)"

lemma split_go_words:
  "list_all (\<lambda>c. \<not> is_space c) acc \<Longrightarrow> w \<in> set (split_go acc s) \<Longrightarrow> is_word w"
proof (induction s arbitrary: acc)
  case Nil
  then show ?case by (auto simp: is_word_def split: if_splits)
next
  case (Cons c s)
  show ?case
  proof (cases "is_space c")
    case True
    show ?thesis
    proof (cases "w \<in> set (split_go [] s)")
      case True
      then show ?thesis by (intro Cons.IH [of "[]"]) simp_all
    next
      case False
      with Cons.prems \<open>is_space c\<close> show ?thesis by (auto simp: is_word_def split: if_splits)
    qed
  next
    case False
    with Cons.prems show ?thesis by (intro Cons.IH [of "c # acc"]) simp_all
  qed
qed

lemma split_ws_words: "w \<in> set (split_ws s) \<Longrightarrow> is_word w"
  by (rule split_go_words [of "[]" w s]) (simp_all add: split_ws_def)

lemma split_go_run:
  "list_all (\<lambda>c. \<not> is_space c) w \<Longrightarrow> split_go acc (w @ s) = split_go (rev w @ acc) s"
  by (induction w arbitrary: acc) auto

lemma split_ws_join:
  "(\<And>w. w \<in> set ws \<Longrightarrow> is_word w) \<Longrightarrow> split_ws (join '' '' ws) = ws"
proof (induction ws rule: induct_list012)
  case 1
  then show ?case by (simp add: split_ws_def)
next
  case (2 x)
  then have "is_word x" by simp
  then show ?case
    using split_go_run [of x "[]" "[]"] by (simp add: split_ws_def is_word_def)
next
  case (3 x y xs)
  then have "is_word x" and "split_ws (join '' '' (y # xs)) = y # xs" by simp_all
  then show ?case
    using split_go_run [of x "[]" "'' '' @ join '' '' (y # xs)"]
    by (simp add: split_ws_def is_word_def is_space_def)
qed

definition collapse :: "string \<Rightarrow> string" where
  \<comment> \<open>\<open>" ".join(s.split())\<close>\<close>
  "collapse s = join '' '' (split_ws s)"

lemma collapse_idem [simp, str_simps]: "collapse (collapse s) = collapse s"
  using split_ws_words by (simp add: collapse_def split_ws_join)

lemma split_go_casefold:
  "split_go (rev (casefold (rev acc))) (casefold s) = map casefold (split_go acc s)"
proof (induction acc s rule: split_go.induct)
  case (1 acc)
  have "casefold (rev acc) = [] \<longleftrightarrow> acc = []"
    by (cases "rev acc") (auto simp: casefold_Cons casefold_char_def split: if_splits)
  then show ?case by simp
next
  case (2 acc c cs)
  have e: "casefold (rev acc) = [] \<longleftrightarrow> acc = []"
    by (cases "rev acc") (auto simp: casefold_Cons casefold_char_def split: if_splits)
  show ?case
  proof (cases "is_space c")
    case True
    with 2 e show ?thesis by (simp add: casefold_Cons casefold_char_space)
  next
    case False
    note ns = casefold_char_nonspace [OF this]
    have "split_go (rev (casefold (rev acc))) (casefold_char c @ casefold cs) =
          split_go (rev (casefold_char c) @ rev (casefold (rev acc))) (casefold cs)"
      by (rule split_go_run) (use ns in simp)
    also have "\<dots> = split_go (rev (casefold (rev (c # acc)))) (casefold cs)"
      by (simp add: casefold_append casefold_def)
    finally show ?thesis using False 2 by (simp add: casefold_Cons)
  qed
qed

lemma split_ws_casefold: "split_ws (casefold s) = map casefold (split_ws s)"
  using split_go_casefold [of "[]" s] by (simp add: split_ws_def)

lemma casefold_join: "casefold (join '' '' ws) = join '' '' (map casefold ws)"
  by (induction "'' ''::string" ws rule: join.induct)
     (simp_all add: casefold_append casefold_Cons casefold_char_space is_space_def)

lemma collapse_casefold [str_simps]: "collapse (casefold s) = casefold (collapse s)"
  by (simp add: collapse_def split_ws_casefold casefold_join)

section \<open>Insertion-ordered dictionaries and bounded deques\<close>

type_synonym ('k, 'v) dict = "('k \<times> 'v) list"

fun dput :: "'k \<Rightarrow> 'v \<Rightarrow> ('k, 'v) dict \<Rightarrow> ('k, 'v) dict" where
  \<comment> \<open>\<open>d[k] = v\<close>: an existing key keeps its place\<close>
  "dput k v [] = [(k, v)]"
| "dput k v ((k', v') # d) = (if k = k' then (k, v) # d else (k', v') # dput k v d)"

definition ddel :: "'k \<Rightarrow> ('k, 'v) dict \<Rightarrow> ('k, 'v) dict" where
  \<comment> \<open>\<open>d.pop(k, None)\<close>\<close>
  "ddel k d = filter (\<lambda>p. fst p \<noteq> k) d"

definition dkeys :: "('k, 'v) dict \<Rightarrow> 'k list" where
  "dkeys d = map fst d"

definition deque_push :: "nat \<Rightarrow> 'a \<Rightarrow> 'a list \<Rightarrow> 'a list" where
  \<comment> \<open>\<open>deque(maxlen=n).append(x)\<close>: the oldest element falls off\<close>
  "deque_push n x xs = (let ys = xs @ [x] in drop (length ys - n) ys)"

lemma map_of_dput [simp, dict_simps]: "map_of (dput k v d) = (map_of d)(k \<mapsto> v)"
  by (induction d) auto

lemma dkeys_dput [dict_simps]:
  "dkeys (dput k v d) = (if k \<in> set (dkeys d) then dkeys d else dkeys d @ [k])"
proof (induction d)
  case Nil
  then show ?case by (simp add: dkeys_def)
next
  case (Cons p d)
  obtain k' v' where p: "p = (k', v')" by (cases p)
  from Cons show ?case unfolding p by (cases "k = k'") (simp_all add: dkeys_def)
qed

lemma distinct_dput [simp]: "distinct (dkeys d) \<Longrightarrow> distinct (dkeys (dput k v d))"
  by (simp add: dkeys_dput)

lemma map_of_ddel [simp, dict_simps]: "map_of (ddel k d) = (map_of d)(k := None)"
  by (induction d) (auto simp: ddel_def)

lemma distinct_ddel [simp]: "distinct (dkeys d) \<Longrightarrow> distinct (dkeys (ddel k d))"
  by (induction d) (auto simp: ddel_def dkeys_def)

lemma length_ddel_le: "length (ddel k d) \<le> length d"
  by (simp add: ddel_def)

lemma in_dkeys_iff: "k \<in> set (dkeys d) \<longleftrightarrow> map_of d k \<noteq> None"
  by (simp add: dkeys_def map_of_eq_None_iff)

lemma length_deque_push [simp]: "length (deque_push n x xs) = min n (Suc (length xs))"
  by (simp add: deque_push_def Let_def)

lemma set_deque_push: "set (deque_push n x xs) \<subseteq> insert x (set xs)"
  unfolding deque_push_def Let_def
  by (metis (no_types) Un_insert_right append_Nil2 list.simps(15) set_append set_drop_subset)

lemma last_deque_push [simp]: "0 < n \<Longrightarrow> last (deque_push n x xs) = x"
  by (simp add: deque_push_def Let_def last_drop)

section \<open>Runs and invariants\<close>

inductive reach :: "('s \<Rightarrow> bool) \<Rightarrow> ('s \<Rightarrow> 's \<Rightarrow> bool) \<Rightarrow> 's \<Rightarrow> bool" for init step where
  reach_init: "init s \<Longrightarrow> reach init step s"
| reach_step: "reach init step s \<Longrightarrow> step s t \<Longrightarrow> reach init step t"

inductive runs :: "('s \<Rightarrow> 's \<Rightarrow> bool) \<Rightarrow> 's \<Rightarrow> 's \<Rightarrow> bool" for step where
  runs_refl: "runs step s s"
| runs_step: "runs step s t \<Longrightarrow> step t u \<Longrightarrow> runs step s u"

lemma reach_runs: "runs step s t \<Longrightarrow> reach init step s \<Longrightarrow> reach init step t"
  by (induction rule: runs.induct) (auto intro: reach_step)

locale invariant_system =
  fixes init :: "'s \<Rightarrow> bool" and step :: "'s \<Rightarrow> 's \<Rightarrow> bool" and inv :: "'s \<Rightarrow> bool"
  assumes inv_init: "init s \<Longrightarrow> inv s"
    and inv_step: "inv s \<Longrightarrow> step s t \<Longrightarrow> inv t"
begin

lemma reach_inv: "reach init step s \<Longrightarrow> inv s"
  by (induction rule: reach.induct) (auto intro: inv_init inv_step)

lemma runs_inv: "runs step s t \<Longrightarrow> inv s \<Longrightarrow> inv t"
  by (induction rule: runs.induct) (auto intro: inv_step)

end

text \<open>
  A system whose states hold keyed entries that only evolve along a preorder and are never
  dropped: what one step guarantees of an entry, every run guarantees.
\<close>

locale evolving_system =
  fixes step :: "'s \<Rightarrow> 's \<Rightarrow> bool" and inv :: "'s \<Rightarrow> bool"
    and entry :: "'s \<Rightarrow> 'k \<Rightarrow> 'e option" and evolves :: "'e \<Rightarrow> 'e \<Rightarrow> bool"
  assumes evolves_refl: "evolves e e"
    and evolves_trans: "evolves e f \<Longrightarrow> evolves f g \<Longrightarrow> evolves e g"
    and inv_kept: "inv s \<Longrightarrow> step s t \<Longrightarrow> inv t"
    and step_evolves: "inv s \<Longrightarrow> step s t \<Longrightarrow> entry s k = Some e \<Longrightarrow> \<exists>f. entry t k = Some f \<and> evolves e f"
begin

lemma runs_evolve:
  assumes "runs step s t" and "inv s" and "entry s k = Some e"
  shows "inv t \<and> (\<exists>f. entry t k = Some f \<and> evolves e f)"
  using assms
proof (induction rule: runs.induct)
  case (runs_refl s)
  then show ?case by (auto intro: evolves_refl)
next
  case (runs_step s t u)
  then obtain f where t: "inv t" and f: "entry t k = Some f" "evolves e f" by blast
  from step_evolves [OF t runs_step.hyps(2) f(1)] obtain g where "entry u k = Some g" "evolves f g"
    by blast
  with f(2) inv_kept [OF t runs_step.hyps(2)] show ?case by (blast intro: evolves_trans)
qed

end

end
