(* ===== verification/PyVal.thy ===== *)
theory PyVal
  imports Prelude
begin

text \<open>
  Dynamically typed Python values, as they come from \<open>json.loads\<close> or are handed around as
  \<open>Any\<close>: the value type, \<open>isinstance\<close> tests, equality, \<open>str\<close> and \<open>repr\<close>, and the lookup
  operations of dictionaries.  A dictionary is its list of items in insertion order; JSON
  dictionaries have string keys.  \<open>bool\<close> is a subtype of \<open>int\<close> in Python, so \<open>is_int\<close> holds of
  booleans too and \<open>py_eq\<close> equates \<open>True\<close>, \<open>1\<close> and \<open>1.0\<close>.
\<close>

datatype pyfloat = Fin rat | PosInf | NegInf | NaN

datatype pyval =
    PNone
  | PBool bool
  | PInt int
  | PFloat pyfloat
  | PStr string
  | PList "pyval list"
  | PDict "(string \<times> pyval) list"

section \<open>Type tests and views\<close>

fun is_str :: "pyval \<Rightarrow> bool" where
  "is_str (PStr _) = True" | "is_str _ = False"

fun is_bool :: "pyval \<Rightarrow> bool" where
  "is_bool (PBool _) = True" | "is_bool _ = False"

fun is_int :: "pyval \<Rightarrow> bool" where
  "is_int (PInt _) = True" | "is_int (PBool _) = True" | "is_int _ = False"

fun is_list :: "pyval \<Rightarrow> bool" where
  "is_list (PList _) = True" | "is_list _ = False"

fun is_dict :: "pyval \<Rightarrow> bool" where
  "is_dict (PDict _) = True" | "is_dict _ = False"

text \<open>The numeric value of an \<open>int\<close> or \<open>float\<close>, booleans excluded, as the code's guards do.\<close>

fun num_of :: "pyval \<Rightarrow> pyfloat option" where
  "num_of (PInt i) = Some (Fin (of_int i))"
| "num_of (PFloat f) = Some f"
| "num_of _ = None"

fun truthy :: "pyval \<Rightarrow> bool" where
  "truthy PNone = False"
| "truthy (PBool b) = b"
| "truthy (PInt i) = (i \<noteq> 0)"
| "truthy (PFloat f) = (f \<noteq> Fin 0)"
| "truthy (PStr s) = (s \<noteq> [])"
| "truthy (PList xs) = (xs \<noteq> [])"
| "truthy (PDict d) = (d \<noteq> [])"

definition dget :: "string \<Rightarrow> (string \<times> pyval) list \<Rightarrow> pyval" where
  \<comment> \<open>\<open>d.get(k)\<close>\<close>
  "dget k d = (case map_of d k of None \<Rightarrow> PNone | Some v \<Rightarrow> v)"

definition dget_or :: "string \<Rightarrow> pyval \<Rightarrow> (string \<times> pyval) list \<Rightarrow> pyval" where
  \<comment> \<open>\<open>d.get(k, default)\<close>\<close>
  "dget_or k v0 d = (case map_of d k of None \<Rightarrow> v0 | Some v \<Rightarrow> v)"

definition dhas :: "string \<Rightarrow> (string \<times> pyval) list \<Rightarrow> bool" where
  "dhas k d = (map_of d k \<noteq> None)"

lemma dget_dput [simp, dict_simps]: "dget k (dput k' v d) = (if k = k' then v else dget k d)"
  by (simp add: dget_def)

lemma dhas_dput [simp, dict_simps]: "dhas k (dput k' v d) = (k = k' \<or> dhas k d)"
  by (simp add: dhas_def)

lemma dhas_iff: "dhas k d \<longleftrightarrow> k \<in> set (dkeys d)"
  by (simp add: dhas_def in_dkeys_iff)

section \<open>Equality\<close>

definition num_eq :: "pyfloat \<Rightarrow> pyfloat \<Rightarrow> bool" where
  "num_eq a b = (a \<noteq> NaN \<and> a = b)"

fun as_num :: "pyval \<Rightarrow> pyfloat option" where
  "as_num (PBool b) = Some (Fin (if b then 1 else 0))"
| "as_num v = num_of v"

function py_eq :: "pyval \<Rightarrow> pyval \<Rightarrow> bool" and py_eq_list :: "pyval list \<Rightarrow> pyval list \<Rightarrow> bool"
  and py_eq_items :: "(string \<times> pyval) list \<Rightarrow> (string \<times> pyval) list \<Rightarrow> bool" where
  "py_eq a b = (case (a, b) of
      (PNone, PNone) \<Rightarrow> True
    | (PStr s, PStr t) \<Rightarrow> s = t
    | (PList xs, PList ys) \<Rightarrow> py_eq_list xs ys
    | (PDict d, PDict e) \<Rightarrow> length d = length e \<and> py_eq_items d e
    | _ \<Rightarrow> (case (as_num a, as_num b) of (Some x, Some y) \<Rightarrow> num_eq x y | _ \<Rightarrow> False))"
| "py_eq_list [] ys = (ys = [])"
| "py_eq_list (x # xs) ys = (case ys of [] \<Rightarrow> False | y # ys' \<Rightarrow> py_eq x y \<and> py_eq_list xs ys')"
| "py_eq_items [] e = True"
| "py_eq_items ((k, v) # d) e =
     ((case map_of e k of None \<Rightarrow> False | Some w \<Rightarrow> py_eq v w) \<and> py_eq_items d e)"
  by pat_completeness auto
termination
  by (relation "measure (\<lambda>x. case x of Inl (a, b) \<Rightarrow> size a
       | Inr (Inl (xs, ys)) \<Rightarrow> size_list size xs
       | Inr (Inr (d, e)) \<Rightarrow> size_list (size_prod (\<lambda>_. 0) size) d)") auto

declare py_eq.simps [simp del]

definition py_in :: "pyval \<Rightarrow> pyval list \<Rightarrow> bool" where
  \<comment> \<open>\<open>v in xs\<close>\<close>
  "py_in v xs = list_ex (py_eq v) xs"

section \<open>Text of a value\<close>

fun scale_up :: "nat \<Rightarrow> rat \<Rightarrow> nat \<Rightarrow> int \<times> nat" where
  "scale_up 0 r k = (round r, k)"
| "scale_up (Suc f) r k = (if of_int \<lfloor>r\<rfloor> = r then (\<lfloor>r\<rfloor>, k) else scale_up f (10 * r) (Suc k))"

text \<open>
  \<open>repr\<close> of a float: the digits of its finite decimal expansion (at most 400 places),
  fixed notation for decimal exponents from -4 to 15 and scientific notation outside.
\<close>

definition rat_repr :: "rat \<Rightarrow> string" where
  "rat_repr r =
     (if r = 0 then ''0.0'' else
      let (m, k) = scale_up 400 \<bar>r\<bar> 0;
          all = nat_str (nat m);
          ds = rev (dropWhile (\<lambda>c. c = CHR ''0'') (rev all));
          x = int (length all) - 1 - int k;
          sign = (if r < 0 then ''-'' else '''')
      in if - 4 \<le> x \<and> x < 16 then
           if x < 0 then sign @ ''0.'' @ replicate (nat (- x - 1)) CHR ''0'' @ ds
           else let n = nat x + 1; padded = ds @ replicate (n - length ds) CHR ''0'' in
             sign @ take n padded @ ''.'' @ (if drop n padded = [] then ''0'' else drop n padded)
         else let e = nat_str (nat \<bar>x\<bar>) in
           sign @ take 1 ds @ (if drop 1 ds = [] then '''' else ''.'' @ drop 1 ds)
             @ ''e'' @ (if x < 0 then ''-'' else ''+'') @ (if length e < 2 then ''0'' else '''') @ e)"

fun float_repr :: "pyfloat \<Rightarrow> string" where
  "float_repr (Fin r) = rat_repr r"
| "float_repr PosInf = ''inf''"
| "float_repr NegInf = ''-inf''"
| "float_repr NaN = ''nan''"

definition hex_digit :: "nat \<Rightarrow> char" where
  "hex_digit n = (if n < 10 then char_of (48 + n) else char_of (87 + n))"

definition hex2 :: "nat \<Rightarrow> string" where
  "hex2 n = [hex_digit (n div 16), hex_digit (n mod 16)]"

definition repr_char :: "char \<Rightarrow> char \<Rightarrow> string" where
  "repr_char q c = (let n = ord c in
     if c = q \<or> n = 92 then [CHR 92, c]
     else if n = 10 then [CHR 92, CHR ''n''] else if n = 13 then [CHR 92, CHR ''r'']
     else if n = 9 then [CHR 92, CHR ''t'']
     else if n < 32 \<or> 127 \<le> n \<and> n \<le> 160 \<or> n = 173 then [CHR 92, CHR ''x''] @ hex2 n
     else [c])"

definition str_repr :: "string \<Rightarrow> string" where
  "str_repr s = (let q = (if CHR 39 \<in> set s \<and> CHR 34 \<notin> set s then CHR 34 else CHR 39)
     in [q] @ concat (map (repr_char q) s) @ [q])"

fun py_repr :: "pyval \<Rightarrow> string" where
  "py_repr PNone = ''None''"
| "py_repr (PBool b) = (if b then ''True'' else ''False'')"
| "py_repr (PInt i) = int_str i"
| "py_repr (PFloat f) = float_repr f"
| "py_repr (PStr s) = str_repr s"
| "py_repr (PList xs) = ''['' @ join '', '' (map py_repr xs) @ '']''"
| "py_repr (PDict d) =
     ''{'' @ join '', '' (map (\<lambda>(k, v). str_repr k @ '': '' @ py_repr v) d) @ ''}''"

fun py_str :: "pyval \<Rightarrow> string" where
  \<comment> \<open>\<open>str(v)\<close>\<close>
  "py_str (PStr s) = s"
| "py_str v = py_repr v"

section \<open>Strict dictionaries\<close>

definition unknown_keys :: "string list \<Rightarrow> (string \<times> pyval) list \<Rightarrow> string list" where
  "unknown_keys allowed d = filter (\<lambda>k. k \<notin> set allowed) (dkeys d)"

definition missing_keys :: "string list \<Rightarrow> (string \<times> pyval) list \<Rightarrow> string list" where
  "missing_keys required d = filter (\<lambda>k. k \<notin> set (dkeys d)) required"

lemma unknown_keys_Nil: "unknown_keys allowed d = [] \<longleftrightarrow> set (dkeys d) \<subseteq> set allowed"
  by (auto simp: unknown_keys_def filter_empty_conv)

lemma missing_keys_Nil: "missing_keys required d = [] \<longleftrightarrow> set required \<subseteq> set (dkeys d)"
  by (auto simp: missing_keys_def filter_empty_conv)

end
