(* ===== verification/Regex.thy ===== *)
theory Regex
  imports Prelude
begin

text \<open>
  The part of Python's \<open>re\<close> that the sources use: character sets, sequence, ordered
  choice, greedy repetition, named groups, the end anchor and the scoped flag \<open>(?-i:...)\<close>.
  \<open>rmatch\<close> is a backtracking matcher: it returns every way of matching a prefix, in the order
  in which Python's engine tries them, each with its captures and the rest of the input.
  \<open>fullmatch\<close> takes the first that leaves no rest.  A character set is a list of code point
  ranges, possibly negated; with IGNORECASE a character also matches through its other case.
\<close>

type_synonym captures = "(string \<times> string) list"

datatype rx =
    Eps
  | EndZ
  | CSet bool "(nat \<times> nat) list"
  | Cat rx rx
  | Alt rx rx
  | Star rx
  | UpTo nat rx
  | Group string rx
  | NoFlag rx

definition upper_char :: "char \<Rightarrow> char" where
  "upper_char c = (let n = ord c in
     if 97 \<le> n \<and> n \<le> 122 \<or> 224 \<le> n \<and> n \<le> 254 \<and> n \<noteq> 247 then char_of (n - 32) else c)"

definition in_ranges :: "(nat \<times> nat) list \<Rightarrow> char \<Rightarrow> bool" where
  "in_ranges rs c = list_ex (\<lambda>(a, b). a \<le> ord c \<and> ord c \<le> b) rs"

definition cset_matches :: "bool \<Rightarrow> bool \<Rightarrow> (nat \<times> nat) list \<Rightarrow> char \<Rightarrow> bool" where
  "cset_matches ci neg rs c =
     ((in_ranges rs c \<or> ci \<and> (in_ranges rs (lower_char c) \<or> in_ranges rs (upper_char c))) \<noteq> neg)"

type_synonym mstate = "captures \<times> string"

fun rstar :: "(mstate \<Rightarrow> mstate list) \<Rightarrow> nat \<Rightarrow> mstate \<Rightarrow> mstate list" where
  "rstar f 0 st = [st]"
| "rstar f (Suc n) st =
     concat (map (\<lambda>st'. if length (snd st') < length (snd st) then rstar f n st' else []) (f st)) @ [st]"

fun rupto :: "(mstate \<Rightarrow> mstate list) \<Rightarrow> nat \<Rightarrow> mstate \<Rightarrow> mstate list" where
  "rupto f 0 st = [st]"
| "rupto f (Suc n) st =
     concat (map (\<lambda>st'. if length (snd st') < length (snd st) then rupto f n st' else []) (f st)) @ [st]"

fun rmatch :: "bool \<Rightarrow> rx \<Rightarrow> mstate \<Rightarrow> mstate list" where
  "rmatch ci Eps st = [st]"
| "rmatch ci EndZ st = (if snd st = [] then [st] else [])"
| "rmatch ci (CSet neg rs) st = (case snd st of [] \<Rightarrow> []
     | c # cs \<Rightarrow> if cset_matches ci neg rs c then [(fst st, cs)] else [])"
| "rmatch ci (Cat r1 r2) st = concat (map (rmatch ci r2) (rmatch ci r1 st))"
| "rmatch ci (Alt r1 r2) st = rmatch ci r1 st @ rmatch ci r2 st"
| "rmatch ci (Star r) st = rstar (rmatch ci r) (length (snd st)) st"
| "rmatch ci (UpTo n r) st = rupto (rmatch ci r) n st"
| "rmatch ci (Group g r) st = map (\<lambda>(caps, rest).
     (dput g (take (length (snd st) - length rest) (snd st)) caps, rest)) (rmatch ci r st)"
| "rmatch ci (NoFlag r) st = rmatch False r st"

definition fullmatch_caps :: "bool \<Rightarrow> rx \<Rightarrow> string \<Rightarrow> captures option" where
  "fullmatch_caps ci r s = map_option fst (List.find (\<lambda>st. snd st = []) (rmatch ci r ([], s)))"

definition rx_full :: "bool \<Rightarrow> rx \<Rightarrow> string \<Rightarrow> bool" where
  "rx_full ci r s = (fullmatch_caps ci r s \<noteq> None)"

definition rx_prefix :: "bool \<Rightarrow> rx \<Rightarrow> string \<Rightarrow> bool" where
  \<comment> \<open>\<open>search\<close> with a pattern that starts with the start anchor\<close>
  "rx_prefix ci r s = (rmatch ci r ([], s) \<noteq> [])"

section \<open>Pattern construction\<close>

fun lit :: "string \<Rightarrow> rx" where
  "lit [] = Eps"
| "lit [c] = CSet False [(ord c, ord c)]"
| "lit (c # d # cs) = Cat (CSet False [(ord c, ord c)]) (lit (d # cs))"

fun seq :: "rx list \<Rightarrow> rx" where
  "seq [] = Eps"
| "seq [r] = r"
| "seq (r # q # rs) = Cat r (seq (q # rs))"

fun alts :: "rx list \<Rightarrow> rx" where
  "alts [] = Eps"
| "alts [r] = r"
| "alts (r # q # rs) = Alt r (alts (q # rs))"

abbreviation words :: "string list \<Rightarrow> rx" where
  "words ws \<equiv> alts (map lit ws)"

definition opt :: "rx \<Rightarrow> rx" where
  "opt r = Alt r Eps"

definition plus :: "rx \<Rightarrow> rx" where
  "plus r = Cat r (Star r)"

fun exactly :: "nat \<Rightarrow> rx \<Rightarrow> rx" where
  "exactly 0 r = Eps"
| "exactly (Suc n) r = Cat r (exactly n r)"

definition between :: "nat \<Rightarrow> nat \<Rightarrow> rx \<Rightarrow> rx" where
  "between m n r = Cat (exactly m r) (UpTo (n - m) r)"

definition cls :: "(char \<times> char) list \<Rightarrow> rx" where
  "cls rs = CSet False (map (\<lambda>(a, b). (ord a, ord b)) rs)"

definition not_newline :: rx where
  \<comment> \<open>\<open>[^\\r\\n]\<close>\<close>
  "not_newline = CSet True [(10, 10), (13, 13)]"

definition dot :: rx where
  \<comment> \<open>\<open>.\<close>\<close>
  "dot = CSet True [(10, 10)]"

definition space_cls :: rx where
  \<comment> \<open>\<open>\\s\<close>\<close>
  "space_cls = CSet False [(9, 13), (28, 32), (133, 133), (160, 160)]"

definition digit_cls :: rx where
  "digit_cls = cls [(CHR ''0'', CHR ''9'')]"

definition hex_cls :: rx where
  "hex_cls = cls [(CHR ''0'', CHR ''9''), (CHR ''a'', CHR ''f'')]"

end
