(* ===== verification/ControllerManifest.thy ===== *)
theory ControllerManifest
  imports PyVal Regex
begin

text \<open>
  The controller registry of \<open>controller_manifest.py\<close>: parameters, actions and controllers
  with their validation from raw JSON, the rendering of an action's command from arguments
  (\<open>ControllerAction.build\<close>) and the recognition of a command (\<open>ControllerAction.match\<close>,
  \<open>ControllerManifest.match_command\<close>).  Reading and parsing the manifest file is left
  out: \<open>manifest_load\<close> starts from the parsed JSON value.
\<close>

section \<open>Validation helpers\<close>

abbreviation CE :: "string \<Rightarrow> lab_error" where "CE \<equiv> ConfigurationError"
abbreviation VE :: "string \<Rightarrow> lab_error" where "VE \<equiv> ValidationError"

definition rx_name :: rx where
  "rx_name = Cat (cls [(CHR ''a'', CHR ''z'')])
     (UpTo 63 (cls [(CHR ''a'', CHR ''z''), (CHR ''0'', CHR ''9''), (CHR ''_'', CHR ''_''), (CHR ''-'', CHR ''-'')]))"

definition rx_global :: rx where
  "rx_global = Cat (lit ''$lab_'')
     (plus (cls [(CHR ''a'', CHR ''z''), (CHR ''0'', CHR ''9''), (CHR ''_'', CHR ''_'')]))"

definition rx_token :: rx where
  "rx_token = Cat (cls [(CHR ''a'', CHR ''z''), (CHR ''0'', CHR ''9'')])
     (UpTo 127 (cls [(CHR ''a'', CHR ''z''), (CHR ''0'', CHR ''9''), (CHR ''_'', CHR ''_''), (CHR ''-'', CHR ''-'')]))"

definition rx_action_id :: rx where
  "rx_action_id = exactly 16 hex_cls"

definition lanes_all :: "string list" where
  "lanes_all = [''movement'', ''combat'', ''inventory'', ''communication'']"

definition kinds_all :: "string list" where
  "kinds_all = [''launch'', ''stop'', ''signal'', ''status'', ''sync'', ''control'']"

definition controller_controls :: "string list" where
  "controller_controls = [''status'', ''hold'', ''resume'', ''retreat'']"

definition categories_all :: "string list" where
  "categories_all = [''inspection'', ''configuration'', ''movement'', ''combat'']"

definition parameter_types :: "string list" where
  "parameter_types = [''enum'', ''numeric'', ''flag_suffix'', ''action_id'']"

definition cm_strict :: "string \<Rightarrow> string list \<Rightarrow> string list \<Rightarrow> pyval \<Rightarrow> (string \<times> pyval) list result" where
  "cm_strict label allowed required v = (case v of
      PDict d \<Rightarrow>
        if unknown_keys allowed d \<noteq> [] then
          Inl (CE (label @ '' has unsupported field(s): '' @ comma_join (unknown_keys allowed d)))
        else if missing_keys required d \<noteq> [] then
          Inl (CE (label @ '' is missing field(s): '' @ comma_join (missing_keys required d)))
        else Inr d
    | _ \<Rightarrow> Inl (CE (label @ '' must be an object'')))"

definition cm_name :: "pyval \<Rightarrow> string \<Rightarrow> string result" where
  "cm_name v label = (if rx_full False rx_name (py_str v) then Inr (py_str v)
     else Inl (CE (label @ '' is invalid'')))"

definition cm_token :: "pyval \<Rightarrow> string \<Rightarrow> string result" where
  "cm_token v label = (if rx_full True rx_token (py_str v) then Inr (py_str v)
     else Inl (CE (label @ '' is invalid'')))"

definition chain_chars :: "nat list" where
  \<comment> \<open>the characters of \<open>"\\r\\n;|&"\<close>\<close>
  "chain_chars = [13, 10, 59, 124, 38]"

definition cm_text :: "pyval \<Rightarrow> string \<Rightarrow> bool \<Rightarrow> string result" where
  "cm_text v label allow_empty = (let r = py_str v in
     if \<not> allow_empty \<and> strip r = [] then Inl (CE (label @ '' must not be blank''))
     else if 500 < length r \<or> contains_any chain_chars r then Inl (CE (label @ '' is invalid''))
     else Inr r)"

definition fold_distinct :: "string list \<Rightarrow> bool" where
  \<comment> \<open>\<open>len({item.casefold() for item in xs}) == len(xs)\<close>\<close>
  "fold_distinct xs = distinct (map casefold xs)"

definition cm_string_array :: "pyval \<Rightarrow> string \<Rightarrow> string list result" where
  "cm_string_array v label = (case v of
      PList (x # xs) \<Rightarrow> rbind (rmap (\<lambda>item. cm_token item label) (x # xs))
        (\<lambda>r. if fold_distinct r then Inr r else Inl (CE (label @ '' contains duplicates'')))
    | _ \<Rightarrow> Inl (CE (label @ '' must be a nonempty array'')))"

section \<open>Parameters\<close>

record controller_parameter =
  p_name :: string
  p_type :: string
  p_values :: "string list"
  p_true_value :: string
  p_default :: bool

definition parameter_from_mapping :: "string \<Rightarrow> pyval \<Rightarrow> controller_parameter result" where
  "parameter_from_mapping label raw =
     rbind (cm_strict label [''name'', ''type'', ''values'', ''true_value'', ''default'']
              [''name'', ''type''] raw) (\<lambda>value.
     rbind (cm_name (dget ''name'' value) (label @ ''.name'')) (\<lambda>name.
     let ptype = py_str (dget ''type'' value) in
     if ptype \<notin> set parameter_types then Inl (CE (label @ ''.type is unsupported'')) else
     case dget_or ''values'' (PList []) value of
       PList raw_values \<Rightarrow>
         rbind (rmap (\<lambda>item. cm_token item (label @ ''.values'')) raw_values) (\<lambda>vals.
         let true_value = py_str (dget_or ''true_value'' (PStr []) value);
             def = dget_or ''default'' (PBool False) value;
             ok = Inr \<lparr>p_name = name, p_type = ptype, p_values = vals,
                       p_true_value = true_value, p_default = truthy def\<rparr>
         in if ptype = ''enum'' then
              (if vals = [] \<or> \<not> fold_distinct vals
               then Inl (CE (label @ ''.values must be nonempty and unique'')) else ok)
            else if (ptype = ''numeric'' \<or> ptype = ''action_id'') \<and> vals \<noteq> [] then
              Inl (CE (label @ '' '' @ ptype @ '' parameters do not accept values''))
            else if ptype = ''flag_suffix'' then
              (if \<not> is_bool def then Inl (CE (label @ ''.default must be boolean''))
               else if \<not> starts_with '' '' true_value \<or> contains_any chain_chars true_value
               then Inl (CE (label @ ''.true_value is invalid'')) else ok)
            else ok)
     | _ \<Rightarrow> Inl (CE (label @ ''.values must be an array''))))"

definition p_required :: "controller_parameter \<Rightarrow> bool" where
  "p_required p = (p_type p \<noteq> ''flag_suffix'')"

definition regex_fragment :: "controller_parameter \<Rightarrow> rx" where
  "regex_fragment p =
     (if p_type p = ''enum'' then words (p_values p)
      else if p_type p = ''numeric'' then plus digit_cls
      else if p_type p = ''action_id'' then NoFlag rx_action_id
      else lit (p_true_value p))"

definition find_enum :: "controller_parameter \<Rightarrow> string \<Rightarrow> string option" where
  \<comment> \<open>\<open>next((item for item in self.values if item.casefold() == candidate.casefold()), None)\<close>\<close>
  "find_enum p candidate = List.find (\<lambda>item. casefold item = casefold candidate) (p_values p)"

definition render :: "controller_parameter \<Rightarrow> pyval \<Rightarrow> string result" where
  "render p raw =
     (if p_type p = ''action_id'' then
        (case raw of
           PStr s \<Rightarrow> if rx_full False rx_action_id s then Inr s
             else Inl (VE (p_name p @ '' must be a lowercase 16-digit action ID''))
         | _ \<Rightarrow> Inl (VE (p_name p @ '' must be a lowercase 16-digit action ID'')))
      else if p_type p = ''enum'' then
        (case find_enum p (py_str raw) of
           None \<Rightarrow> Inl (VE (p_name p @ '' must be one of '' @ join '', '' (p_values p)))
         | Some c \<Rightarrow> Inr c)
      else if p_type p = ''numeric'' then
        (if is_bool raw \<or> \<not> str_isdigit (strip (py_str raw))
         then Inl (VE (p_name p @ '' must be numeric'')) else Inr (strip (py_str raw)))
      else (case (if raw = PNone then PBool (p_default p) else raw) of
           PBool b \<Rightarrow> Inr (if b then p_true_value p else '''')
         | _ \<Rightarrow> Inl (VE (p_name p @ '' must be boolean''))))"

definition normalize_capture :: "controller_parameter \<Rightarrow> string option \<Rightarrow> pyval result" where
  "normalize_capture p raw =
     (if p_type p = ''flag_suffix'' then Inr (PBool (raw \<noteq> None \<and> raw \<noteq> Some ''''))
      else let s = (case raw of None \<Rightarrow> ''None'' | Some s \<Rightarrow> s) in
        if p_type p = ''enum'' then
          (case find_enum p s of None \<Rightarrow> Inl StopIteration | Some c \<Rightarrow> Inr (PStr c))
        else Inr (PStr s))"

definition parameter_schema :: "controller_parameter \<Rightarrow> pyval" where
  "parameter_schema p =
     (if p_type p = ''enum'' then
        PDict [(''type'', PStr ''string''), (''enum'', PList (map PStr (p_values p)))]
      else if p_type p = ''numeric'' then
        PDict [(''type'', PStr ''string''), (''pattern'', PStr ''^[0-9]+$'')]
      else if p_type p = ''action_id'' then
        PDict [(''type'', PStr ''string''), (''pattern'', PStr ''^[0-9a-f]{16}$'')]
      else PDict [(''type'', PStr ''boolean''), (''default'', PBool (p_default p))])"

section \<open>Command templates\<close>

datatype piece = Lit char | Hole string

definition hole_char :: "char \<Rightarrow> bool" where
  "hole_char c = (in_ranges [(97, 122), (48, 57), (95, 95)] c)"

definition scan_hole :: "string \<Rightarrow> (string \<times> string) option" where
  \<comment> \<open>the rest of a placeholder after its opening brace, and what follows its closing brace\<close>
  "scan_hole s = (let n = takeWhile hole_char s in
     case dropWhile hole_char s of
       c # rest \<Rightarrow> if c = CHR ''}'' \<and> n \<noteq> [] \<and> in_ranges [(97, 122)] (hd n) then Some (n, rest) else None
     | [] \<Rightarrow> None)"

lemma scan_hole_length: "scan_hole s = Some (n, rest) \<Longrightarrow> length rest < length s"
proof -
  assume a: "scan_hole s = Some (n, rest)"
  then obtain c where "dropWhile hole_char s = c # rest"
    by (auto simp: scan_hole_def Let_def split: list.splits if_splits)
  then have "length (c # rest) \<le> length s" by (metis length_dropWhile_le)
  then show ?thesis by simp
qed

function pieces :: "string \<Rightarrow> piece list" where
  "pieces [] = []"
| "pieces (c # cs) =
     (case (if c = CHR ''{'' then scan_hole cs else None) of
        Some (n, rest) \<Rightarrow> Hole n # pieces rest
      | None \<Rightarrow> Lit c # pieces cs)"
  by pat_completeness auto
termination
  by (relation "measure length") (auto dest: scan_hole_length split: if_splits)

fun holes :: "piece list \<Rightarrow> string list" where
  "holes [] = []"
| "holes (Lit c # ps) = holes ps"
| "holes (Hole n # ps) = n # holes ps"

fun substitute :: "(string \<times> string) list \<Rightarrow> piece list \<Rightarrow> string result" where
  \<comment> \<open>\<open>_PLACEHOLDER.sub(lambda found: rendered[found.group(1)], template)\<close>\<close>
  "substitute rendered [] = Inr []"
| "substitute rendered (Lit c # ps) = rbind (substitute rendered ps) (\<lambda>s. Inr (c # s))"
| "substitute rendered (Hole n # ps) = (case map_of rendered n of
      None \<Rightarrow> Inl (KeyError n)
    | Some v \<Rightarrow> rbind (substitute rendered ps) (\<lambda>s. Inr (v @ s)))"

definition find_parameter :: "string \<Rightarrow> controller_parameter list \<Rightarrow> controller_parameter option" where
  "find_parameter n ps = List.find (\<lambda>p. p_name p = n) ps"

fun template_rx :: "controller_parameter list \<Rightarrow> piece list \<Rightarrow> rx result" where
  "template_rx params [] = Inr Eps"
| "template_rx params (Lit c # ps) =
     rbind (template_rx params ps) (\<lambda>r. Inr (Cat (lit [c]) r))"
| "template_rx params (Hole n # ps) = (case find_parameter n params of
      None \<Rightarrow> Inl (KeyError n)
    | Some p \<Rightarrow> rbind (template_rx params ps) (\<lambda>r.
        let capture = Group (p_name p) (regex_fragment p) in
        Inr (Cat (if p_type p = ''flag_suffix'' then opt capture else capture) r)))"

section \<open>Actions\<close>

record controller_action =
  a_name :: string
  a_kind :: string
  a_command_template :: string
  a_script_args_template :: string
  a_launch_mode :: "string option"
  a_category :: string
  a_confirmation_required :: bool
  a_parameters :: "controller_parameter list"
  a_pattern :: rx

definition control_contract :: "string \<Rightarrow> string \<Rightarrow> string option \<Rightarrow> controller_parameter list \<Rightarrow> string \<Rightarrow> bool \<Rightarrow> bool" where
  \<comment> \<open>the exact-run contract of an action of kind \<open>control\<close> (the code tests its negation)\<close>
  "control_contract name script_args launch_mode params category confirmation =
     (name \<in> set controller_controls \<and> script_args = '''' \<and> launch_mode = None
      \<and> (case params of
           [p] \<Rightarrow> p_name p = ''run_id'' \<and> p_type p = ''action_id''
         | _ \<Rightarrow> False)
      \<and> category = (if name = ''status'' then ''inspection'' else ''combat'')
      \<and> (name = ''status'' \<or> confirmation))"

definition action_checked :: "string \<Rightarrow> string \<Rightarrow> string \<Rightarrow> string \<Rightarrow> string \<Rightarrow> string option \<Rightarrow> string \<Rightarrow> bool
    \<Rightarrow> controller_parameter list \<Rightarrow> controller_action result" where
  \<comment> \<open>the checks of \<open>from_mapping\<close> after the parameters are parsed\<close>
  "action_checked label name kind command_template script_args_template launch_mode category confirmation params =
     (let names = map p_name params; cps = pieces command_template; sps = pieces script_args_template in
      if kind = ''control'' \<and> \<not> control_contract name script_args_template launch_mode params category confirmation
      then Inl (CE (label @ '' has an invalid exact-run control contract''))
      else if \<not> distinct names then Inl (CE (label @ ''.parameters contains duplicates''))
      else if sort (holes cps) \<noteq> sort names
      then Inl (CE (label @ ''.command_template placeholders do not match parameters''))
      else if \<not> set (holes sps) \<subseteq> set names
      then Inl (CE (label @ ''.script_args_template has invalid placeholders''))
      else rbind (template_rx params cps) (\<lambda>pattern.
        Inr \<lparr>a_name = name, a_kind = kind, a_command_template = command_template,
             a_script_args_template = script_args_template, a_launch_mode = launch_mode,
             a_category = category, a_confirmation_required = confirmation,
             a_parameters = params, a_pattern = pattern\<rparr>))"

definition action_from_mapping :: "string \<Rightarrow> pyval \<Rightarrow> controller_action result" where
  "action_from_mapping label raw =
     rbind (cm_strict label [''name'', ''kind'', ''command_template'', ''script_args_template'',
                             ''launch_mode'', ''policy'', ''parameters'']
              [''name'', ''kind'', ''command_template'', ''script_args_template'', ''policy'', ''parameters''] raw) (\<lambda>value.
     rbind (cm_name (dget ''name'' value) (label @ ''.name'')) (\<lambda>name.
     let kind = py_str (dget ''kind'' value) in
     if kind \<notin> set kinds_all then Inl (CE (label @ ''.kind is unsupported'')) else
     rbind (cm_text (dget ''command_template'' value) (label @ ''.command_template'') False) (\<lambda>command_template.
     rbind (cm_text (dget ''script_args_template'' value) (label @ ''.script_args_template'') True) (\<lambda>script_args_template.
     let launch_mode = (if dget ''launch_mode'' value = PNone then None
                        else Some (py_str (dget ''launch_mode'' value))) in
     if (kind = ''launch'' \<or> kind = ''sync'') \<and> launch_mode \<noteq> Some ''start'' \<and> launch_mode \<noteq> Some ''run''
     then Inl (CE (label @ ''.launch_mode must be start or run'')) else
     rbind (cm_strict (label @ ''.policy'') [''category'', ''confirmation_required'']
              [''category'', ''confirmation_required''] (dget ''policy'' value)) (\<lambda>policy.
     case dget ''confirmation_required'' policy of
       PBool confirmation \<Rightarrow>
         (let category = py_str (dget ''category'' policy) in
          if category \<notin> set categories_all then Inl (CE (label @ ''.policy is invalid'')) else
          case dget ''parameters'' value of
            PList raw_parameters \<Rightarrow>
              rbind (rmapi (\<lambda>index item. parameter_from_mapping
                       (label @ ''.parameters['' @ nat_str index @ '']'') item) 0 raw_parameters) (\<lambda>params.
              action_checked label name kind command_template script_args_template launch_mode
                category confirmation params)
          | _ \<Rightarrow> Inl (CE (label @ ''.parameters must be an array'')))
     | _ \<Rightarrow> Inl (CE (label @ ''.policy is invalid'')))))))"

fun render_all :: "(string \<times> pyval) list \<Rightarrow> controller_parameter list
    \<Rightarrow> ((string \<times> string) list \<times> (string \<times> pyval) list) result" where
  \<comment> \<open>the loop of \<open>build\<close>: the rendered text and the normalized value of each parameter\<close>
  "render_all source [] = Inr ([], [])"
| "render_all source (p # ps) =
     (let raw = dget_or (p_name p) (PBool (p_default p)) source in
      rbind (render p raw) (\<lambda>t.
      rbind (render_all source ps) (\<lambda>(rendered, normalized).
      Inr ((p_name p, t) # rendered,
           (p_name p, if p_type p = ''flag_suffix'' then PBool (truthy raw) else PStr t) # normalized))))"

definition action_build :: "controller_action \<Rightarrow> (string \<times> pyval) list
    \<Rightarrow> (string \<times> string \<times> (string \<times> pyval) list) result" where
  "action_build a source =
     (let allowed = map p_name (a_parameters a);
          required = map p_name (filter p_required (a_parameters a)) in
      if unknown_keys allowed source \<noteq> [] then
        Inl (VE (''unsupported controller argument(s): '' @ comma_join (unknown_keys allowed source)))
      else if missing_keys required source \<noteq> [] then
        Inl (VE (''missing controller argument(s): '' @ comma_join (missing_keys required source)))
      else
        rbind (render_all source (a_parameters a)) (\<lambda>(rendered, normalized).
        rbind (substitute rendered (pieces (a_command_template a))) (\<lambda>command.
        rbind (substitute rendered (pieces (a_script_args_template a))) (\<lambda>script_args.
        Inr (command, script_args, normalized)))))"

fun match_values :: "captures \<Rightarrow> controller_parameter list \<Rightarrow> (string \<times> pyval) list result" where
  "match_values found [] = Inr []"
| "match_values found (p # ps) =
     rbind (if p_type p = ''action_id''
            then rbind (render p (case map_of found (p_name p) of None \<Rightarrow> PNone | Some s \<Rightarrow> PStr s))
                   (\<lambda>s. Inr (PStr s))
            else normalize_capture p (map_of found (p_name p))) (\<lambda>v.
     rbind (match_values found ps) (\<lambda>vs. Inr ((p_name p, v) # vs)))"

definition action_match :: "controller_action \<Rightarrow> string \<Rightarrow> (string \<times> pyval) list option result" where
  "action_match a command = (case fullmatch_caps True (a_pattern a) command of
      None \<Rightarrow> Inr None
    | Some found \<Rightarrow> (case match_values found (a_parameters a) of
        Inr vs \<Rightarrow> Inr (Some vs)
      | Inl e \<Rightarrow> (case e of ValidationError m \<Rightarrow> Inr None | _ \<Rightarrow> Inl e)))"

definition argument_schema :: "controller_action \<Rightarrow> pyval" where
  "argument_schema a = PDict
     [(''type'', PStr ''object''),
      (''properties'', PDict (map (\<lambda>p. (p_name p, parameter_schema p)) (a_parameters a))),
      (''required'', PList (map (\<lambda>p. PStr (p_name p)) (filter p_required (a_parameters a)))),
      (''additionalProperties'', PBool False)]"

section \<open>Controllers\<close>

record test_suite =
  ts_manifest :: string
  ts_files :: "(string \<times> pyval) list"

record controller_definition =
  c_name :: string
  c_script :: string
  c_summary :: string
  c_characters :: "string list"
  c_result_global :: string
  c_signal_global :: "string option"
  c_lanes :: "string list"
  c_owner_scripts :: "string list"
  c_safe_handoff :: "(string \<times> pyval) list"
  c_capability_action :: string
  c_actions :: "controller_action list"
  c_test_suite :: "test_suite option"
  c_control_owner_scripts :: "string list"

definition controller_action_of :: "controller_definition \<Rightarrow> string \<Rightarrow> controller_action result" where
  "controller_action_of c name = (case List.find (\<lambda>a. a_name a = name) (c_actions c) of
      None \<Rightarrow> Inl (VE (''controller action was not found: '' @ c_name c @ ''.'' @ name))
    | Some a \<Rightarrow> Inr a)"

definition available_for :: "controller_definition \<Rightarrow> string \<Rightarrow> bool" where
  "available_for c character = list_ex (\<lambda>i. casefold i = casefold character) (c_characters c)"

definition handoff_kind :: "controller_definition \<Rightarrow> pyval" where
  "handoff_kind c = dget ''kind'' (c_safe_handoff c)"

definition safe_room :: "controller_definition \<Rightarrow> (string \<times> pyval) list \<Rightarrow> string option" where
  "safe_room c arguments =
     (if handoff_kind c \<in> {PStr ''room'', PStr ''quick_refuge'', PStr ''controller_refuge''} then
        Some (py_str (dget ''room_id'' (c_safe_handoff c)))
      else if handoff_kind c = PStr ''profile_room'' then
        (let profile = py_str (dget_or ''profile'' (PStr []) arguments) in
         case dget ''rooms'' (c_safe_handoff c) of
           PDict rooms \<Rightarrow> if dhas profile rooms then Some (py_str (dget profile rooms)) else None
         | _ \<Rightarrow> None)
      else None)"

record controller_command =
  cc_controller :: controller_definition
  cc_action :: controller_action
  cc_arguments :: "(string \<times> pyval) list"
  cc_script_args :: string

subsection \<open>Validation of one controller\<close>

definition refuge_kinds :: "string list" where
  "refuge_kinds = [''quick_refuge'', ''controller_refuge'']"

definition rx_room_number :: rx where
  \<comment> \<open>\<open>[1-9][0-9]*\<close>\<close>
  "rx_room_number = Cat (cls [(CHR ''1'', CHR ''9'')]) (Star digit_cls)"

definition refuge_ok :: "(string \<times> pyval) list \<Rightarrow> string list \<Rightarrow> bool" where
  "refuge_ok safe lanes =
     (let room = dget ''room_id'' safe in
      set (dkeys safe) = {''kind'', ''room_id'', ''return_seconds''}
      \<and> \<not> is_bool room \<and> rx_full False rx_room_number (py_str room)
      \<and> py_str room \<noteq> ''4'' \<and> length (py_str room) \<le> 12
      \<and> (case dget ''return_seconds'' safe of PInt s \<Rightarrow> 10 \<le> s \<and> s \<le> 120 | _ \<Rightarrow> False)
      \<and> {''movement'', ''combat''} \<subseteq> set lanes)"

definition cfm_handoff :: "string \<Rightarrow> string list \<Rightarrow> pyval \<Rightarrow> ((string \<times> pyval) list \<times> string) result" where
  "cfm_handoff label lanes raw =
     rbind (cm_strict (label @ ''.safe_handoff'') [''kind'', ''room_id'', ''rooms'', ''return_seconds''] [''kind''] raw) (\<lambda>safe.
     let kind = py_str (dget ''kind'' safe) in
     if kind \<notin> set ([''owners_released'', ''room'', ''profile_room'', ''quick_area''] @ refuge_kinds)
     then Inl (CE (label @ ''.safe_handoff.kind is unsupported''))
     else if dhas ''return_seconds'' safe \<and> kind \<notin> set refuge_kinds
     then Inl (CE (label @ ''.return_seconds requires a refuge handoff''))
     else if kind \<in> set refuge_kinds \<and> \<not> refuge_ok safe lanes
     then Inl (CE (label @ ''.'' @ kind @ '' requires an exact refuge and 10-120 return seconds''))
     else if kind = ''room'' \<and> \<not> str_isdigit (py_str (dget_or ''room_id'' (PStr []) safe))
     then Inl (CE (label @ ''.safe_handoff.room_id must be numeric''))
     else if kind = ''profile_room'' then
       (case dget ''rooms'' safe of
          PDict (r # rs) \<Rightarrow>
            if list_ex (\<lambda>(key, room). \<not> rx_full True rx_token key \<or> \<not> str_isdigit (py_str room)) (r # rs)
            then Inl (CE (label @ ''.safe_handoff.rooms is invalid'')) else Inr (safe, kind)
        | _ \<Rightarrow> Inl (CE (label @ ''.safe_handoff.rooms must be nonempty'')))
     else Inr (safe, kind))"

definition cfm_actions :: "string \<Rightarrow> (string \<times> pyval) list \<Rightarrow> (controller_action list \<times> string) result" where
  "cfm_actions label value = (case dget ''actions'' value of
      PList (x # xs) \<Rightarrow>
        rbind (rmapi (\<lambda>index item. action_from_mapping (label @ ''.actions['' @ nat_str index @ '']'') item) 0 (x # xs)) (\<lambda>actions.
        if \<not> distinct (map a_name actions) then Inl (CE (label @ ''.actions contains duplicates'')) else
        rbind (cm_name (dget ''capability_action'' value) (label @ ''.capability_action'')) (\<lambda>capability_action.
        if capability_action \<notin> set (map a_name actions)
        then Inl (CE (label @ ''.capability_action was not found'')) else
        if list_ex (\<lambda>i. a_kind i = ''control'') actions
           \<and> \<not> list_ex (\<lambda>i. a_name i = capability_action \<and> a_kind i = ''launch'') actions
        then Inl (CE (label @ '' controls require a launch capability''))
        else Inr (actions, capability_action)))
    | _ \<Rightarrow> Inl (CE (label @ ''.actions must be a nonempty array'')))"

definition control_owners_ok :: "string \<Rightarrow> string list \<Rightarrow> string list \<Rightarrow> bool" where
  "control_owners_ok script control_owners owner_scripts =
     (casefold script \<in> set (map casefold control_owners)
      \<and> set (map casefold control_owners) \<subseteq> set (map casefold owner_scripts))"

definition cfm_control_owners :: "string \<Rightarrow> string \<Rightarrow> string list \<Rightarrow> string list \<Rightarrow> controller_action list \<Rightarrow> unit result" where
  "cfm_control_owners label script control_owners owner_scripts actions =
     (if list_ex (\<lambda>i. a_kind i = ''control'') actions then
        ensure (control_owners_ok script control_owners owner_scripts)
          (CE (label @ '' requires explicit control_owner_scripts within owner_scripts''))
      else ensure (control_owners = []) (CE (label @ ''.control_owner_scripts requires registered controls'')))"

definition launches :: "controller_action list \<Rightarrow> controller_action list" where
  "launches actions = filter (\<lambda>i. a_kind i = ''launch'') actions"

definition may_seek :: "controller_action \<Rightarrow> bool" where
  "may_seek launch =
     (let tokens = split_ws (a_script_args_template launch);
          mode = (case tokens of t # m # _ \<Rightarrow> if casefold t = ''quick'' then m else '''' | _ \<Rightarrow> '''')
      in casefold mode = ''seek''
         \<or> list_ex (\<lambda>p. mode = ''{'' @ p_name p @ ''}'' \<and> ''seek'' \<in> set (map casefold (p_values p)))
             (a_parameters launch))"

definition cfm_seek :: "string \<Rightarrow> string \<Rightarrow> string \<Rightarrow> string list \<Rightarrow> controller_action list \<Rightarrow> unit result" where
  "cfm_seek label script kind lanes actions =
     ensure (\<not> list_ex (\<lambda>l. script = ''bigshot'' \<and> may_seek l
               \<and> (kind \<notin> {''quick_area'', ''quick_refuge''} \<or> \<not> {''movement'', ''combat''} \<subseteq> set lanes)) (launches actions))
       (CE (label @ ''.seek requires quick_area/quick_refuge and movement/combat lanes''))"

definition private_flag_free :: "controller_action \<Rightarrow> string list \<Rightarrow> bool" where
  "private_flag_free launch tokens =
     (\<not> list_ex (\<lambda>p. p_type p = ''flag_suffix'') (a_parameters launch)
      \<and> \<not> list_ex (\<lambda>t. starts_with ''--'' t \<and> CHR ''{'' \<in> set t) tokens
      \<and> ''--'' \<notin> set tokens)"

definition area_launch_ok :: "controller_action \<Rightarrow> bool" where
  "area_launch_ok launch =
     (let tokens = split_ws (a_script_args_template launch);
          area_options = filter (\<lambda>i. starts_with ''--area'' (tokens ! i)) [0..<length tokens]
      in tokens \<noteq> [] \<and> hd tokens = ''quick''
         \<and> (case area_options of [i] \<Rightarrow> take 2 (drop i tokens) = [''--area'', ''profile''] | _ \<Rightarrow> False)
         \<and> private_flag_free launch tokens)"

definition cfm_area :: "string \<Rightarrow> string \<Rightarrow> string \<Rightarrow> (string \<times> pyval) list \<Rightarrow> string list \<Rightarrow> controller_action list \<Rightarrow> unit result" where
  "cfm_area label script kind safe control_owners actions =
     (if kind = ''quick_area'' \<or> kind = ''quick_refuge'' then
        (if kind = ''quick_area'' \<and> set (dkeys safe) \<noteq> {''kind''} \<or> script \<noteq> ''bigshot''
            \<or> control_owners = [] \<or> launches actions = []
         then Inl (CE (label @ ''.'' @ kind @ '' requires native controlled Bigshot without caller room lists''))
         else ensure (list_all area_launch_ok (launches actions))
           (CE (label @ ''.'' @ kind @ '' launches require explicit --area profile'')))
      else Inr ())"

definition refuge_launch_ok :: "controller_action \<Rightarrow> bool" where
  "refuge_launch_ok launch =
     (let tokens = split_ws (a_script_args_template launch) in
      tokens \<noteq> [] \<and> private_flag_free launch tokens
      \<and> \<not> list_ex (starts_with ''--supervised-'') tokens)"

definition cfm_refuge :: "string \<Rightarrow> string \<Rightarrow> string list \<Rightarrow> controller_action list \<Rightarrow> unit result" where
  "cfm_refuge label kind control_owners actions =
     (if kind = ''controller_refuge'' then
        (if control_owners = [] \<or> launches actions = []
         then Inl (CE (label @ ''.controller_refuge requires a native controlled script''))
         else ensure (list_all refuge_launch_ok (launches actions))
           (CE (label @ ''.controller_refuge launches cannot supply private supervisor flags'')))
      else Inr ())"

subsection \<open>Test suites\<close>

definition rx_path :: rx where
  "rx_path = (let h = cls [(CHR ''A'', CHR ''Z''), (CHR ''a'', CHR ''z''), (CHR ''0'', CHR ''9''), (CHR ''_'', CHR ''_''), (CHR ''-'', CHR ''-'')];
      t = cls [(CHR ''A'', CHR ''Z''), (CHR ''a'', CHR ''z''), (CHR ''0'', CHR ''9''), (CHR ''_'', CHR ''_''), (CHR ''.'', CHR ''.''), (CHR ''-'', CHR ''-'')]
    in seq [h, Star t, Star (seq [lit ''/'', h, Star t])])"

definition pinned_file_ok :: "string \<times> pyval \<Rightarrow> bool" where
  "pinned_file_ok f = (case f of (path, digest) \<Rightarrow>
     length path \<le> 240 \<and> rx_full False rx_path path
     \<and> (case digest of PStr s \<Rightarrow> rx_full False (exactly 64 hex_cls) s | _ \<Rightarrow> False))"

definition test_suite_metadata :: "string \<Rightarrow> pyval \<Rightarrow> test_suite result" where
  "test_suite_metadata label raw =
     rbind (cm_strict (label @ ''.test_suite'') [''manifest'', ''files''] [''manifest'', ''files''] raw) (\<lambda>value.
     case dget ''files'' value of
       PDict files \<Rightarrow>
         if \<not> (4 \<le> length files \<and> length files \<le> 67)
         then Inl (CE (label @ ''.test_suite.files must contain 4-67 pinned files''))
         else if \<not> list_all pinned_file_ok files
         then Inl (CE (label @ ''.test_suite has an invalid relative path or SHA-256''))
         else (case dget ''manifest'' value of
             PStr manifest \<Rightarrow>
               if ends_with ''.json'' manifest \<and> dhas manifest files
                  \<and> dhas ''lab-test-runner.lic'' files \<and> dhas ''lab-test-runner.rb'' files
                  \<and> list_ex (\<lambda>p. ends_with ''.lic'' p \<and> p \<noteq> ''lab-test-runner.lic'') (dkeys files)
               then Inr \<lparr>ts_manifest = manifest, ts_files = files\<rparr>
               else Inl (CE (label @ ''.test_suite must pin its manifest, runner, and target''))
           | _ \<Rightarrow> Inl (CE (label @ ''.test_suite must pin its manifest, runner, and target'')))
     | _ \<Rightarrow> Inl (CE (label @ ''.test_suite.files must contain 4-67 pinned files'')))"

definition test_runner_contract :: "controller_definition \<Rightarrow> string \<Rightarrow> bool" where
  "test_runner_contract c suite_id =
     (starts_with ''test-'' (c_name c) \<and> rx_full False rx_name suite_id
      \<and> c_script c = ''lab-test-runner'' \<and> length (c_characters c) = 1
      \<and> c_result_global c = ''$lab_test_result'' \<and> c_signal_global c = Some ''$lab_test_cancel''
      \<and> set (c_lanes c) = {''movement'', ''combat''}
      \<and> handoff_kind c = PStr ''room''
      \<and> ''lab-test-runner'' \<in> set (c_owner_scripts c)
      \<and> length (c_actions c) = 1 \<and> c_capability_action c = ''start'')"

definition test_launch_ok :: "controller_action \<Rightarrow> test_suite \<Rightarrow> string \<Rightarrow> bool" where
  "test_launch_ok action suite suite_id =
     (a_kind action = ''launch'' \<and> a_launch_mode action = Some ''start''
      \<and> a_category action = ''configuration'' \<and> a_confirmation_required action
      \<and> a_command_template action = ''lab-test '' @ suite_id @ '' {revision} {case_id}''
      \<and> a_script_args_template action = suite_id @ '' {revision} {case_id}''
      \<and> set (map p_name (a_parameters action)) = {''revision'', ''case_id''}
      \<and> (case (find_parameter ''revision'' (a_parameters action), find_parameter ''case_id'' (a_parameters action)) of
           (Some revision, Some case_id) \<Rightarrow>
             p_type revision = ''enum''
             \<and> map PStr (p_values revision) = [dget (ts_manifest suite) (ts_files suite)]
             \<and> p_type case_id = ''enum'' \<and> ''all'' \<in> set (p_values case_id)
             \<and> 2 \<le> length (p_values case_id) \<and> length (p_values case_id) \<le> 21
         | _ \<Rightarrow> False))"

definition validate_test_controller :: "controller_definition \<Rightarrow> test_suite \<Rightarrow> string \<Rightarrow> unit result" where
  "validate_test_controller c suite label =
     (let suite_id = (if starts_with ''test-'' (c_name c) then drop 5 (c_name c) else c_name c) in
      if \<not> test_runner_contract c suite_id
      then Inl (CE (label @ '' does not match the fixed test-runner contract'')) else
      rbind (controller_action_of c ''start'') (\<lambda>action.
      ensure (test_launch_ok action suite suite_id) (CE (label @ '' has invalid test launch arguments or policy''))))"

definition controller_fields :: "string list" where
  "controller_fields = [''name'', ''script'', ''summary'', ''characters'', ''result_global'', ''lanes'',
     ''owner_scripts'', ''safe_handoff'', ''capability_action'', ''actions'']"

definition controller_from_mapping :: "string \<Rightarrow> pyval \<Rightarrow> controller_definition result" where
  "controller_from_mapping label raw =
     rbind (cm_strict label (controller_fields @ [''signal_global'', ''test_suite'', ''control_owner_scripts''])
              controller_fields raw) (\<lambda>value.
     rbind (cm_name (dget ''name'' value) (label @ ''.name'')) (\<lambda>name.
     rbind (cm_name (dget ''script'' value) (label @ ''.script'')) (\<lambda>script.
     rbind (cm_text (dget ''summary'' value) (label @ ''.summary'') False) (\<lambda>summary.
     rbind (cm_string_array (dget ''characters'' value) (label @ ''.characters'')) (\<lambda>characters.
     let result_global = py_str (dget ''result_global'' value);
         signal_global = (if dget ''signal_global'' value = PNone then None
                          else Some (py_str (dget ''signal_global'' value))) in
     rbind (ensure (rx_full False rx_global result_global
              \<and> (case signal_global of None \<Rightarrow> True | Some g \<Rightarrow> rx_full False rx_global g))
              (CE (label @ '' has an invalid result/signal global''))) (\<lambda>_.
     rbind (cm_string_array (dget ''lanes'' value) (label @ ''.lanes'')) (\<lambda>lanes.
     rbind (ensure (set lanes \<subseteq> set lanes_all) (CE (label @ ''.lanes is invalid''))) (\<lambda>_.
     rbind (cm_string_array (dget ''owner_scripts'' value) (label @ ''.owner_scripts'')) (\<lambda>owner_scripts.
     rbind (if dhas ''control_owner_scripts'' value
            then cm_string_array (dget ''control_owner_scripts'' value) (label @ ''.control_owner_scripts'')
            else Inr []) (\<lambda>control_owners.
     rbind (cfm_handoff label lanes (dget ''safe_handoff'' value)) (\<lambda>(safe, kind).
     rbind (cfm_actions label value) (\<lambda>(actions, capability_action).
     rbind (cfm_control_owners label script control_owners owner_scripts actions) (\<lambda>_.
     rbind (cfm_seek label script kind lanes actions) (\<lambda>_.
     rbind (cfm_area label script kind safe control_owners actions) (\<lambda>_.
     rbind (cfm_refuge label kind control_owners actions) (\<lambda>_.
     rbind (ensure (\<not> (list_ex (\<lambda>i. a_kind i = ''signal'') actions \<and> signal_global = None))
              (CE (label @ ''.signal_global is required''))) (\<lambda>_.
     rbind (if dhas ''test_suite'' value
            then rbind (test_suite_metadata label (dget ''test_suite'' value)) (\<lambda>s. Inr (Some s))
            else Inr None) (\<lambda>suite.
     let controller = \<lparr>c_name = name, c_script = script, c_summary = summary, c_characters = characters,
           c_result_global = result_global, c_signal_global = signal_global, c_lanes = lanes,
           c_owner_scripts = owner_scripts, c_safe_handoff = safe, c_capability_action = capability_action,
           c_actions = actions, c_test_suite = suite, c_control_owner_scripts = control_owners\<rparr> in
     case suite of
       None \<Rightarrow> Inr controller
     | Some s \<Rightarrow> rbind (validate_test_controller controller s label) (\<lambda>_. Inr controller)))))))))))))))))))"

section \<open>The manifest\<close>

definition manifest_init :: "controller_definition list \<Rightarrow> controller_definition list result" where
  "manifest_init controllers =
     (if \<not> distinct (map c_name controllers) then Inl (CE ''controller names must be unique'')
      else if \<not> distinct (map c_script controllers) then Inl (CE ''controller scripts must be unique'')
      else Inr controllers)"

definition manifest_load :: "pyval \<Rightarrow> controller_definition list result" where
  "manifest_load raw =
     rbind (cm_strict ''manifest'' [''version'', ''controllers''] [''version'', ''controllers''] raw) (\<lambda>root.
     if \<not> py_eq (dget ''version'' root) (PInt 1) then Inl (CE ''manifest.version must be 1'') else
     case dget ''controllers'' root of
       PList raw_controllers \<Rightarrow>
         rbind (rmapi (\<lambda>index item. controller_from_mapping (''controllers['' @ nat_str index @ '']'') item) 0 raw_controllers)
           manifest_init
     | _ \<Rightarrow> Inl (CE ''manifest.controllers must be an array''))"

definition manifest_controller :: "controller_definition list \<Rightarrow> string \<Rightarrow> controller_definition result" where
  "manifest_controller controllers name = (case List.find (\<lambda>c. c_name c = casefold name) controllers of
      None \<Rightarrow> Inl (VE (''controller was not found: '' @ name))
    | Some c \<Rightarrow> Inr c)"

fun match_actions :: "controller_definition \<Rightarrow> controller_action list \<Rightarrow> string \<Rightarrow> controller_command option result" where
  "match_actions c [] command = Inr None"
| "match_actions c (a # as) command = rbind (action_match a command) (\<lambda>m. case m of
      None \<Rightarrow> match_actions c as command
    | Some arguments \<Rightarrow> rbind (action_build a arguments) (\<lambda>(_, script_args, normalized).
        Inr (Some \<lparr>cc_controller = c, cc_action = a, cc_arguments = normalized, cc_script_args = script_args\<rparr>)))"

fun match_command :: "controller_definition list \<Rightarrow> string \<Rightarrow> controller_command option result" where
  "match_command [] command = Inr None"
| "match_command (c # cs) command = rbind (match_actions c (c_actions c) command) (\<lambda>m. case m of
      None \<Rightarrow> match_command cs command
    | Some found \<Rightarrow> Inr (Some found))"

end
