(* ===== verification/CommandPolicy.thy ===== *)
theory CommandPolicy
  imports ControllerManifest
begin

text \<open>
  The command policy of \<open>actions.py\<close>: \<open>normalize_full_access_command\<close> and
  \<open>CommandPolicy\<close>, which classifies one command against the supervised-driver vocabulary and
  returns its canonical text, its kind and whether it needs confirmation.  Each regular
  expression of the class is a definition named after its attribute.
\<close>

section \<open>Direct full-access commands\<close>

definition direct_lich_eval_commands :: "string list" where
  "direct_lich_eval_commands = [''e'', ''eq'', ''exec'', ''execq'', ''en'', ''execname'']"

definition control_chars :: "nat list" where
  \<comment> \<open>NUL, CR, LF, \<open>|\<close> and \<open>&\<close>\<close>
  "control_chars = [0, 13, 10, 124, 38]"

abbreviation chaining_error :: lab_error where
  "chaining_error \<equiv> VE ''command chaining or control characters are forbidden''"

definition has_semicolon :: "string \<Rightarrow> bool" where
  "has_semicolon s = contains_any [59] s"

definition first_word :: "string \<Rightarrow> string" where
  \<comment> \<open>\<open>s.split(None, 1)[0]\<close> of a stripped, nonempty \<open>s\<close>\<close>
  "first_word s = takeWhile (\<lambda>c. \<not> is_space c) s"

definition normalize_full_access :: "pyval \<Rightarrow> string result" where
  "normalize_full_access v = (case v of
      PStr command \<Rightarrow>
        (let normalized = strip command in
         if normalized = [] \<or> 140 < length normalized
         then Inl (VE ''command must contain 1 to 140 characters'')
         else if contains_any control_chars normalized then Inl chaining_error
         else if starts_with '','' normalized then Inl (VE ''frontend client commands are forbidden'')
         else if starts_with '';'' normalized then
           (if has_semicolon (tl normalized) then Inl chaining_error
            else let lich_command = strip (tl normalized) in
              if lich_command = [] then Inl (VE ''Lich command must not be blank'')
              else if casefold (first_word lich_command) \<in> set direct_lich_eval_commands
              then Inl (VE ''inline Ruby Lich commands are forbidden'')
              else Inr normalized)
         else if has_semicolon normalized then Inl chaining_error
         else Inr normalized)
    | _ \<Rightarrow> Inl (VE ''command must be a string''))"

section \<open>The vocabulary\<close>

definition immediate_commands :: "string list" where
  "immediate_commands =
     [''armor info'', ''armor list all'', ''ascension info'', ''bounty'', ''cman info'', ''encumbrance'',
      ''exp'', ''feat info'', ''gld'', ''health'', ''info'', ''inspect ready weapon links'', ''inventory'',
      ''look'', ''mana'', ''ready list'', ''ready weapon set'', ''resource'', ''skills'', ''shield info'',
      ''society'', ''spell active'', ''spirit'', ''stamina'', ''stow list'', ''weapon info'']"

abbreviation rest_of_line :: "nat \<Rightarrow> rx" where
  \<comment> \<open>\<open>[^\\r\\n]{1,n}\<close>\<close>
  "rest_of_line n \<equiv> between 1 n not_newline"

definition digits :: rx where
  "digits = plus digit_cls"

definition rx_configuration :: rx where
  "rx_configuration = alts
     [lit ''ready weapon clear'',
      seq [lit ''ready weapon #'', digits],
      seq [lit ''ready weapon set #'', digits],
      seq [words [''mark'', ''register''], lit '' '', rest_of_line 130],
      seq [lit ''set '', words [''nomarkeddrop'', ''saferdrop''], lit '' on''],
      seq [lit ''go2 getsilvers '', words [''on'', ''off'']],
      lit ''eloot keep closed on'',
      seq [lit ''eloot '', words [''sell'', ''stop'']],
      lit ''eherbs heal'',
      seq [lit ''bigshot '', words [''start'', ''stop'']],
      seq [lit ''ebounty '', words [''start'', ''stop'']],
      seq [words [''flag'', ''stow set'', ''store set''], lit '' '', rest_of_line 130]]"

definition alnum_cls :: rx where
  \<comment> \<open>\<open>[a-z0-9]\<close>\<close>
  "alnum_cls = cls [(CHR ''a'', CHR ''z''), (CHR ''0'', CHR ''9'')]"

definition noun_cls :: rx where
  \<comment> \<open>\<open>[a-z0-9 #'_-]\<close>\<close>
  "noun_cls = cls [(CHR ''a'', CHR ''z''), (CHR ''0'', CHR ''9''), (CHR '' '', CHR '' ''), (CHR ''#'', CHR ''#''),
     (CHR 39, CHR 39), (CHR ''_'', CHR ''_''), (CHR ''-'', CHR ''-'')]"

definition rx_go2_supervised :: rx where
  "rx_go2_supervised = seq [lit ''go2 supervised '', cls [(CHR ''1'', CHR ''9'')], UpTo 9 digit_cls]"

definition rx_movement :: rx where
  "rx_movement = alts
     [words [''north'', ''northeast'', ''east'', ''southeast'', ''south'', ''southwest'', ''west'', ''northwest'',
             ''out'', ''up'', ''down'', ''n'', ''ne'', ''e'', ''se'', ''s'', ''sw'', ''w'', ''nw'', ''u'', ''d''],
      seq [words [''go'', ''climb'', ''enter''], lit '' '', alnum_cls, UpTo 119 noun_cls],
      seq [lit ''go2 '', digits],
      rx_go2_supervised]"

definition rx_communication :: rx where
  "rx_communication = seq [words [''say'', ''whisper'', ''tell'', ''ask''], lit '' '', rest_of_line 140]"

definition rx_local_inspection :: rx where
  "rx_local_inspection = alts
     [seq [lit ''inspect item exact '', rest_of_line 120],
      seq [lit ''diagnose item '', words [''405'', ''735''], lit '' exact '', rest_of_line 120]]"

definition rx_miracle_teleport :: rx where
  "rx_miracle_teleport = lit ''beseech teleport''"

definition rx_session_recovery :: rx where
  "rx_session_recovery = seq [lit ''lab recover '', rx_action_id, lit '' confirm'']"

definition rx_direct_command :: rx where
  "rx_direct_command = Cat (lit ''lab direct '') (Group ''1'' (rest_of_line 140))"

definition rx_eloot_current_room :: rx where
  "rx_eloot_current_room = lit ''eloot loot''"

definition optional_rest :: rx where
  \<comment> \<open>\<open>(?:\\s+[^\\r\\n]{1,130})?\<close>\<close>
  "optional_rest = opt (Cat (plus space_cls) (rest_of_line 130))"

definition rx_read_only :: rx where
  "rx_read_only = Cat (words [''look'', ''read'', ''inspect'', ''analyze'', ''assess'', ''appraise'', ''browse'', ''shop'']) optional_rest"

definition rx_inventory :: rx where
  "rx_inventory = alts
     [seq [words [''get'', ''take'', ''remove'', ''wear'', ''stow'', ''sheath'', ''gird'', ''open'', ''close''], lit '' '', rest_of_line 130],
      seq [lit ''put '', rest_of_line 90, lit '' '', words [''in'', ''into'', ''on'', ''under'', ''behind''], lit '' '', rest_of_line 90]]"

definition rx_commerce :: rx where
  "rx_commerce = alts
     [words [''buy'', ''order''],
      seq [words [''buy'', ''order'', ''bid'', ''deposit'', ''withdraw'', ''tip''], lit '' '', rest_of_line 130]]"

definition object_ref :: "rx \<Rightarrow> rx" where
  \<comment> \<open>\<open>(?:#[0-9]+|my (?:[a-z0-9][a-z0-9 #'_-]{0,84} )?NOUN)\<close>\<close>
  "object_ref noun = Alt (Cat (lit ''#'') digits)
     (seq [lit ''my '', opt (seq [alnum_cls, UpTo 84 noun_cls, lit '' '']), noun])"

definition any_object_ref :: rx where
  \<comment> \<open>\<open>(?:#[0-9]+|my [a-z0-9][a-z0-9 #'_-]{0,110})\<close>\<close>
  "any_object_ref = Alt (Cat (lit ''#'') digits) (seq [lit ''my '', alnum_cls, UpTo 110 noun_cls])"

definition rx_scroll_infusion :: rx where
  "rx_scroll_infusion = (let az = cls [(CHR ''a'', CHR ''z'')] in alts
     [seq [lit ''pour '', object_ref (lit ''potion''), lit '' on '', object_ref (words [''stone'', ''runestone''])],
      seq [lit ''dip '', object_ref (lit ''brush''), lit '' in '', object_ref (words [''ink'', ''cup''])],
      seq [lit ''draw '', between 1 20 az, lit [CHR 39], between 1 20 az, lit '' rune''],
      seq [lit ''wave '', object_ref (words [''stone'', ''runestone'']), lit '' at '', any_object_ref],
      seq [words [''prep'', ''prepare''], lit '' 714''],
      seq [lit ''cast at #'', digits],
      seq [lit ''infuse '', any_object_ref]])"

definition rx_combat :: rx where
  "rx_combat = Cat (words [''attack'', ''kill'', ''berserk'', ''mstrike'', ''stance'', ''retreat'', ''advance'', ''cman'',
     ''warcry'', ''sign'', ''incant'', ''cast'', ''evoke'', ''ambush'', ''punch'', ''kick'', ''jab'', ''grapple'']) optional_rest"

definition word_end :: rx where
  \<comment> \<open>\<open>(?:\\s|\\Z)\<close>\<close>
  "word_end = Alt space_cls EndZ"

definition rx_forbidden :: "rx list" where
  "rx_forbidden =
     [Cat (words [''drop'', ''discard'', ''trash'', ''sell'', ''give'', ''offer'', ''exchange'', ''trade'', ''mail'', ''place'',
        ''throw'', ''hurl'', ''empty'', ''destroy'', ''sacrifice'']) word_end,
      Alt (Cat (lit ''unmark'') word_end) (seq [lit ''mark '', plus dot, lit '' remove'', EndZ]),
      seq [lit ''set '', words [''nomarkeddrop'', ''saferdrop''], lit '' off'', EndZ],
      seq [lit ''put '', plus dot, lit '' '', words [''on'', ''in'', ''into''], lit '' '', opt (lit ''the ''),
        words [''ground'', ''floor'', ''room''], EndZ]]"

section \<open>Classification\<close>

record policy_decision =
  pd_kind :: string
  pd_confirmation :: bool

abbreviation decision :: "string \<Rightarrow> bool \<Rightarrow> policy_decision" where
  "decision k c \<equiv> \<lparr>pd_kind = k, pd_confirmation = c\<rparr>"

type_synonym manifest = "controller_definition list"

definition is_test_launch :: "manifest \<Rightarrow> string \<Rightarrow> bool result" where
  "is_test_launch m command = rbind (match_command m command) (\<lambda>matched. Inr (case matched of
      None \<Rightarrow> False | Some f \<Rightarrow> c_test_suite (cc_controller f) \<noteq> None))"

definition is_controller_control :: "manifest \<Rightarrow> string \<Rightarrow> bool result" where
  "is_controller_control m command = rbind (match_command m command) (\<lambda>matched. Inr (case matched of
      None \<Rightarrow> False | Some f \<Rightarrow> a_kind (cc_action f) = ''control''))"

definition is_controlled_launch :: "manifest \<Rightarrow> string \<Rightarrow> bool result" where
  "is_controlled_launch m command = rbind (match_command m command) (\<lambda>matched. Inr (case matched of
      None \<Rightarrow> False
    | Some f \<Rightarrow> a_kind (cc_action f) = ''launch'' \<and> c_control_owner_scripts (cc_controller f) \<noteq> []))"

definition is_refuge_launch :: "manifest \<Rightarrow> string \<Rightarrow> bool result" where
  "is_refuge_launch m command = rbind (match_command m command) (\<lambda>matched. Inr (case matched of
      None \<Rightarrow> False
    | Some f \<Rightarrow> a_kind (cc_action f) = ''launch'' \<and> c_control_owner_scripts (cc_controller f) \<noteq> []
        \<and> handoff_kind (cc_controller f) \<in> {PStr ''quick_refuge'', PStr ''controller_refuge''}))"

definition forbidden :: "string \<Rightarrow> bool" where
  "forbidden folded = list_ex (\<lambda>r. rx_prefix False r folded) rx_forbidden"

definition vocabulary :: "string \<Rightarrow> string \<Rightarrow> (string \<times> policy_decision) result" where
  \<comment> \<open>the checks of \<open>evaluate\<close> after the registered controllers\<close>
  "vocabulary collapsed folded =
     (if rx_full False rx_eloot_current_room folded then Inr (folded, decision ''inventory'' True)
      else if rx_full False rx_local_inspection folded then Inr (collapsed, decision ''inspection'' False)
      else if rx_full False rx_read_only folded then Inr (collapsed, decision ''inspection'' False)
      else if rx_full False rx_session_recovery folded then Inr (folded, decision ''configuration'' True)
      else if rx_full False rx_configuration folded then Inr (folded, decision ''configuration'' True)
      else if rx_full False rx_movement folded then Inr (folded, decision ''movement'' True)
      else if rx_full False rx_communication folded then Inr (collapsed, decision ''communication'' True)
      else if rx_full False rx_miracle_teleport folded then Inr (folded, decision ''combat'' True)
      else if rx_full False rx_inventory folded then Inr (collapsed, decision ''inventory'' True)
      else if rx_full False rx_commerce folded then Inr (collapsed, decision ''commerce'' True)
      else if rx_full False rx_scroll_infusion folded then Inr (collapsed, decision ''crafting'' True)
      else if rx_full False rx_combat folded then Inr (collapsed, decision ''combat'' True)
      else Inl (VE ''command is not in the supervised-driver allowlist''))"

definition evaluate :: "manifest \<Rightarrow> string \<Rightarrow> (string \<times> policy_decision) result" where
  "evaluate m command =
     (if contains_any control_chars command then Inl chaining_error else
      let collapsed = collapse command; folded = casefold collapsed in
      case fullmatch_caps True rx_direct_command collapsed of
        Some found \<Rightarrow>
          rbind (normalize_full_access (PStr (the (map_of found ''1'')))) (\<lambda>inner.
          Inr (''lab direct '' @ inner, decision ''direct'' False))
      | None \<Rightarrow>
          if has_semicolon command then Inl chaining_error
          else if starts_with '','' folded \<or> forbidden folded
          then Inl (VE ''destructive item command is forbidden'')
          else if folded \<in> set immediate_commands then Inr (folded, decision ''inspection'' False)
          else rbind (match_command m collapsed) (\<lambda>found. case found of
              Some c \<Rightarrow> rbind (action_build (cc_action c) (cc_arguments c)) (\<lambda>(canonical, _, _).
                Inr (canonical, decision (a_category (cc_action c)) (a_confirmation_required (cc_action c))))
            | None \<Rightarrow> vocabulary collapsed folded))"

end
