(* ===== verification/ActionRequests.thy ===== *)
theory ActionRequests
  imports CommandPolicy
begin

text \<open>
  The request messages of \<open>actions.py\<close>: each \<open>from_mapping\<close> class method as a function
  from a raw JSON value to the record of the dataclass or a \<open>ValidationError\<close>.
\<close>

definition max_command_length :: nat where "max_command_length = 160"
definition max_sequence_commands :: nat where "max_sequence_commands = 12"
definition max_sequence_length :: nat where "max_sequence_length = 1200"
definition max_detail_length :: nat where "max_detail_length = 500"
definition max_ttl_seconds :: int where "max_ttl_seconds = 120"
definition default_ttl_seconds :: int where "default_ttl_seconds = 45"

definition act_strict_keys :: "string list \<Rightarrow> string list \<Rightarrow> pyval \<Rightarrow> (string \<times> pyval) list result" where
  "act_strict_keys allowed required v = (case v of
      PDict d \<Rightarrow>
        if unknown_keys allowed d \<noteq> [] then
          Inl (VE (''unsupported field(s): '' @ comma_join (unknown_keys allowed d)))
        else if missing_keys required d \<noteq> [] then
          Inl (VE (''missing field(s): '' @ comma_join (missing_keys required d)))
        else Inr d
    | _ \<Rightarrow> Inl (VE ''action request must be an object''))"

definition act_text :: "pyval \<Rightarrow> string \<Rightarrow> nat \<Rightarrow> string result" where
  "act_text v field maximum = (case v of
      PStr s \<Rightarrow>
        (let normalized = strip (remove_nul s) in
         if normalized = [] then Inl (VE (field @ '' must not be blank''))
         else if maximum < length normalized
         then Inl (VE (field @ '' exceeds '' @ nat_str maximum @ '' characters''))
         else Inr normalized)
    | _ \<Rightarrow> Inl (VE (field @ '' must be a string'')))"

definition act_character :: "pyval \<Rightarrow> string result" where
  "act_character v = act_text v ''character'' 40"

definition act_room :: "pyval \<Rightarrow> string result" where
  "act_room v = (if is_str v \<or> is_int v then act_text (PStr (py_str v)) ''room_id'' 80
     else Inl (VE ''room_id must be a string or integer''))"

definition act_action_id :: "pyval \<Rightarrow> string result" where
  "act_action_id v = rbind (act_text v ''action_id'' 64) (\<lambda>i.
     if rx_full False rx_action_id i then Inr i else Inl (VE ''action_id is invalid''))"

definition act_generation :: "pyval \<Rightarrow> string result" where
  "act_generation v = act_text v ''generation'' 128"

section \<open>Proposals\<close>

record action_proposal =
  pr_character :: string
  pr_command :: "string option"
  pr_commands :: "string list"
  pr_expected_room_id :: "string option"
  pr_expected_generation :: "string option"
  pr_ttl_seconds :: int
  pr_deadline :: pyval
  pr_controller_deadline :: pyval

definition optional_value :: "(pyval \<Rightarrow> 'a result) \<Rightarrow> pyval \<Rightarrow> 'a option result" where
  \<comment> \<open>\<open>None if v is None else f(v)\<close>\<close>
  "optional_value f v = (if v = PNone then Inr None else rbind (f v) (\<lambda>x. Inr (Some x)))"

definition proposal_commands :: "(string \<times> pyval) list \<Rightarrow> (string option \<times> string list) result" where
  "proposal_commands value =
     (if dhas ''command'' value then
        rbind (act_text (dget ''command'' value) ''command'' max_command_length) (\<lambda>c. Inr (Some c, []))
      else case dget ''commands'' value of
        PList raw \<Rightarrow>
          if \<not> (2 \<le> length raw \<and> length raw \<le> max_sequence_commands)
          then Inl (VE (''commands must contain between 2 and '' @ nat_str max_sequence_commands @ '' entries''))
          else rbind (rmapi (\<lambda>index c. act_text c (''commands['' @ nat_str index @ '']'') max_command_length) 0 raw) (\<lambda>cs.
            if max_sequence_length < sum_list (map length cs)
            then Inl (VE (''commands exceed '' @ nat_str max_sequence_length @ '' total characters''))
            else Inr (None, cs))
      | _ \<Rightarrow> Inl (VE ''commands must be an array''))"

definition proposal_ttl :: "pyval \<Rightarrow> int result" where
  "proposal_ttl v = (case v of
      PInt ttl \<Rightarrow> if 1 \<le> ttl \<and> ttl \<le> max_ttl_seconds then Inr ttl
        else Inl (VE (''ttl_seconds must be between 1 and '' @ int_str max_ttl_seconds))
    | _ \<Rightarrow> Inl (VE ''ttl_seconds must be an integer''))"

definition proposal_from_mapping :: "pyval \<Rightarrow> action_proposal result" where
  "proposal_from_mapping v =
     rbind (act_strict_keys [''character'', ''command'', ''commands'', ''expected_room_id'',
              ''expected_generation'', ''ttl_seconds''] [''character''] v) (\<lambda>value.
     if dhas ''command'' value = dhas ''commands'' value
     then Inl (VE ''provide exactly one of command or commands'') else
     rbind (proposal_commands value) (\<lambda>(command, commands).
     rbind (proposal_ttl (dget_or ''ttl_seconds'' (PInt default_ttl_seconds) value)) (\<lambda>ttl.
     rbind (act_character (dget ''character'' value)) (\<lambda>character.
     rbind (optional_value act_room (dget ''expected_room_id'' value)) (\<lambda>room.
     rbind (optional_value act_generation (dget ''expected_generation'' value)) (\<lambda>generation.
     Inr \<lparr>pr_character = character, pr_command = command, pr_commands = commands,
          pr_expected_room_id = room, pr_expected_generation = generation, pr_ttl_seconds = ttl,
          pr_deadline = PNone, pr_controller_deadline = PNone\<rparr>))))))"

section \<open>Bridge and user requests\<close>

record action_context =
  cx_character :: string
  cx_room_id :: string
  cx_generation :: string

definition context_fields :: "(string \<times> pyval) list \<Rightarrow> action_context result" where
  "context_fields value =
     rbind (act_character (dget ''character'' value)) (\<lambda>character.
     rbind (act_room (dget ''room_id'' value)) (\<lambda>room.
     rbind (act_generation (dget ''generation'' value)) (\<lambda>generation.
     Inr \<lparr>cx_character = character, cx_room_id = room, cx_generation = generation\<rparr>)))"

definition context_from_mapping :: "pyval \<Rightarrow> action_context result" where
  "context_from_mapping v =
     rbind (act_strict_keys [''character'', ''room_id'', ''generation''] [''character'', ''room_id'', ''generation''] v)
       context_fields"

record action_next_request =
  nx_context :: action_context
  nx_timeout_seconds :: rat

definition next_request_from_mapping :: "pyval \<Rightarrow> action_next_request result" where
  "next_request_from_mapping v =
     rbind (act_strict_keys [''character'', ''room_id'', ''generation'', ''timeout_seconds'']
              [''character'', ''room_id'', ''generation''] v) (\<lambda>value.
     case num_of (dget_or ''timeout_seconds'' (PFloat (Fin 15)) value) of
       None \<Rightarrow> Inl (VE ''timeout_seconds must be a number'')
     | Some t \<Rightarrow> (case t of
         Fin r \<Rightarrow> if 0 \<le> r \<and> r \<le> 30 then
             rbind (context_fields value) (\<lambda>c. Inr \<lparr>nx_context = c, nx_timeout_seconds = r\<rparr>)
           else Inl (VE ''timeout_seconds must be between 0 and 30'')
       | _ \<Rightarrow> Inl (VE ''timeout_seconds must be between 0 and 30'')))"

definition status_request_from_mapping :: "pyval \<Rightarrow> string result" where
  \<comment> \<open>\<open>ActionStatusRequest\<close>, whose one field is the action id\<close>
  "status_request_from_mapping v =
     rbind (act_strict_keys [''action_id''] [''action_id''] v) (\<lambda>value. act_action_id (dget ''action_id'' value))"

record action_approval =
  ap_action_id :: string
  ap_character :: string
  ap_room_id :: string
  ap_approval_mode :: string
  ap_generation :: string

definition approval_from_mapping :: "pyval \<Rightarrow> action_approval result" where
  "approval_from_mapping v =
     rbind (act_strict_keys [''action_id'', ''character'', ''room_id'', ''generation'', ''approval_mode'']
              [''action_id'', ''character'', ''room_id'', ''generation''] v) (\<lambda>value.
     rbind (act_text (dget_or ''approval_mode'' (PStr ''manual'') value) ''approval_mode'' 16) (\<lambda>raw_mode.
     let mode = casefold raw_mode in
     if mode \<noteq> ''manual'' \<and> mode \<noteq> ''auto'' then Inl (VE ''approval_mode must be manual or auto'') else
     rbind (act_action_id (dget ''action_id'' value)) (\<lambda>i.
     rbind (context_fields value) (\<lambda>c.
     Inr \<lparr>ap_action_id = i, ap_character = cx_character c, ap_room_id = cx_room_id c,
          ap_approval_mode = mode, ap_generation = cx_generation c\<rparr>))))"

record action_control =
  ct_character :: string
  ct_enabled :: bool
  ct_generation :: string

definition control_from_mapping :: "pyval \<Rightarrow> action_control result" where
  "control_from_mapping v =
     rbind (act_strict_keys [''character'', ''enabled'', ''generation''] [''character'', ''enabled'', ''generation''] v) (\<lambda>value.
     case dget ''enabled'' value of
       PBool b \<Rightarrow>
         rbind (act_character (dget ''character'' value)) (\<lambda>character.
         rbind (act_generation (dget ''generation'' value)) (\<lambda>generation.
         Inr \<lparr>ct_character = character, ct_enabled = b, ct_generation = generation\<rparr>))
     | _ \<Rightarrow> Inl (VE ''enabled must be a boolean''))"

record action_result =
  rs_action_id :: string
  rs_character :: string
  rs_outcome :: string
  rs_detail :: string
  rs_generation :: string

definition outcomes :: "string list" where
  "outcomes = [''completed'', ''failed'', ''sent_unverified'', ''succeeded'']"

definition result_from_mapping :: "pyval \<Rightarrow> action_result result" where
  "result_from_mapping v =
     rbind (act_strict_keys [''action_id'', ''character'', ''generation'', ''outcome'', ''detail'']
              [''action_id'', ''character'', ''generation'', ''outcome'', ''detail''] v) (\<lambda>value.
     rbind (act_text (dget ''outcome'' value) ''outcome'' 16) (\<lambda>raw_outcome.
     let outcome = casefold raw_outcome in
     if outcome \<notin> set outcomes
     then Inl (VE ''outcome must be completed, failed, sent_unverified, or succeeded'') else
     case dget ''detail'' value of
       PStr d \<Rightarrow>
         rbind (act_action_id (dget ''action_id'' value)) (\<lambda>i.
         rbind (act_character (dget ''character'' value)) (\<lambda>character.
         rbind (act_generation (dget ''generation'' value)) (\<lambda>generation.
         Inr \<lparr>rs_action_id = i, rs_character = character, rs_outcome = outcome,
              rs_detail = take max_detail_length (strip (remove_nul d)), rs_generation = generation\<rparr>)))
     | _ \<Rightarrow> Inl (VE ''detail must be a string'')))"

section \<open>Bounds of the parsed messages\<close>

lemma act_text_Inr:
  "act_text v field maximum = Inr t \<longleftrightarrow>
     (\<exists>s. v = PStr s \<and> t = strip (remove_nul s) \<and> t \<noteq> [] \<and> length t \<le> maximum)"
  by (cases v) (auto simp: act_text_def Let_def)

lemma act_text_bounds: "act_text v field maximum = Inr t \<Longrightarrow> t \<noteq> [] \<and> length t \<le> maximum"
  by (auto simp: act_text_Inr)

lemma act_text_fixed: "act_text v field maximum = Inr t \<Longrightarrow> act_text (PStr t) field' maximum = Inr t"
  by (auto simp: act_text_Inr)

lemma act_action_id_Inr:
  "act_action_id v = Inr i \<Longrightarrow> rx_full False rx_action_id i \<and> length i \<le> 64"
  by (auto simp: act_action_id_def rbind_Inr_iff act_text_Inr split: if_splits)

end
