(* ===== verification/ActionBroker.thy ===== *)
theory ActionBroker
  imports ActionRequests
begin

text \<open>
  \<open>ActionBroker\<close> of \<open>actions.py\<close>: the state of the broker and every operation on it.  The
  lock of the class makes each operation atomic, so an operation is a function from the
  broker state (and the readings of the clock it takes, and for \<open>submit\<close> the fresh id) to
  the new state and the returned value or the raised error; a state change made before a
  raise is in the returned state.  The audit log is the list of the events passed to the
  audit callback.
\<close>

section \<open>State\<close>

datatype status =
    ConfirmationRequired | Queued | Dispatched | Completed | Failed | Cancelled | Expired | DeniedStaleRoom

fun status_str :: "status \<Rightarrow> string" where
  "status_str ConfirmationRequired = ''confirmation_required''"
| "status_str Queued = ''queued''"
| "status_str Dispatched = ''dispatched''"
| "status_str Completed = ''completed''"
| "status_str Failed = ''failed''"
| "status_str Cancelled = ''cancelled''"
| "status_str Expired = ''expired''"
| "status_str DeniedStaleRoom = ''denied_stale_room''"

record action =
  act_id :: string
  act_character_name :: string
  act_gen :: string
  act_commands :: "string list"
  act_kind :: string
  act_status :: status
  act_expected_room_id :: "string option"
  act_created_at :: rat
  act_expires_at :: rat
  act_confirmation_required :: bool
  act_notified :: bool
  act_completion :: "string option"
  act_detail :: "string option"
  act_test_run :: bool
  act_controller_control :: bool
  act_controller_deadline :: "rat option"
  act_stop_requested :: bool
  act_return_requested :: bool

definition travel_run :: "action \<Rightarrow> bool" where
  "travel_run a = (case act_commands a of [c] \<Rightarrow> rx_full True rx_go2_supervised c | _ \<Rightarrow> False)"

definition opt_str :: "string option \<Rightarrow> pyval" where
  "opt_str x = (case x of None \<Rightarrow> PNone | Some s \<Rightarrow> PStr s)"

definition supervised :: "action \<Rightarrow> bool" where
  \<comment> \<open>a running action that observes stop requests\<close>
  "supervised a = (act_test_run a \<or> act_controller_control a \<or> act_controller_deadline a \<noteq> None \<or> travel_run a)"

definition public :: "string \<Rightarrow> action \<Rightarrow> (string \<times> pyval) list" where
  "public instruction a =
     [(''action_id'', PStr (act_id a)), (''character'', PStr (act_character_name a)),
      (''generation'', PStr (act_gen a)), (''kind'', PStr (act_kind a)), (''status'', PStr instruction),
      (''expected_room_id'', opt_str (act_expected_room_id a)), (''expires_at'', PFloat (Fin (act_expires_at a)))]
     @ (case act_commands a of
          [c] \<Rightarrow> [(''command'', PStr c)]
        | cs \<Rightarrow> [(''commands'', PList (map PStr cs)), (''step_count'', PInt (int (length cs)))])
     @ (case act_completion a of None \<Rightarrow> [] | Some c \<Rightarrow> [(''completion'', PStr c)])
     @ (case act_detail a of None \<Rightarrow> [] | Some d \<Rightarrow> [(''detail'', PStr d)])
     @ (case act_controller_deadline a of None \<Rightarrow> []
        | Some d \<Rightarrow> [(''controller_deadline'', PFloat (Fin d)), (''return_requested'', PBool (act_return_requested a))])
     @ (if supervised a then [(''stop_requested'', PBool (act_stop_requested a))] else [])"

datatype audit_event =
    GenerationReplaced string string string "string list"
  | ExecutionEnabled string string
  | KillSwitch string string
  | ActionProposed action
  | ActionApproved action string string
  | ActionDenied string action string
  | ActionResulted action string
  | ActionExpired action
  | ActionCancelled action
  | TravelStopRequested action
  | TestStopRequested action
  | ControlRevoked action
  | ReturnRequested action
  | RunRevoked action
  | ConfirmationRequested action
  | ActionDispatched action string

record broker =
  br_manifest :: manifest
  br_enabled :: "string list"
  br_generations :: "(string, string) dict"
  br_actions :: "(string, action) dict"
  br_audit :: "audit_event list"

type_synonym 'a op = "broker \<times> 'a result"

definition broker_init :: "manifest \<Rightarrow> broker" where
  "broker_init m = \<lparr>br_manifest = m, br_enabled = [], br_generations = [], br_actions = [], br_audit = []\<rparr>"

definition audit :: "audit_event list \<Rightarrow> broker \<Rightarrow> broker" where
  "audit evs b = b\<lparr>br_audit := br_audit b @ evs\<rparr>"

definition set_action :: "action \<Rightarrow> broker \<Rightarrow> broker" where
  \<comment> \<open>the effect of assigning to fields of an action the broker holds\<close>
  "set_action a b = b\<lparr>br_actions := dput (act_id a) a (br_actions b)\<rparr>"

definition map_actions :: "(action \<Rightarrow> action) \<Rightarrow> broker \<Rightarrow> broker" where
  "map_actions f b = b\<lparr>br_actions := map (\<lambda>(k, a). (k, f a)) (br_actions b)\<rparr>"

definition is_pending :: "action \<Rightarrow> bool" where
  "is_pending a = (act_status a = ConfirmationRequired \<or> act_status a = Queued)"

definition is_sent :: "action \<Rightarrow> bool" where
  \<comment> \<open>\<open>status in {"dispatched", "completed", "failed"}\<close>\<close>
  "is_sent a = (act_status a = Dispatched \<or> act_status a = Completed \<or> act_status a = Failed)"

definition same_character :: "string \<Rightarrow> action \<Rightarrow> bool" where
  "same_character key a = (casefold (act_character_name a) = key)"

section \<open>Internal helpers\<close>

definition find_locked :: "broker \<Rightarrow> string \<Rightarrow> action result" where
  "find_locked b i = (case map_of (br_actions b) i of
      None \<Rightarrow> Inl (VE ''action was not found'') | Some a \<Rightarrow> Inr a)"

definition require_active_generation :: "broker \<Rightarrow> string \<Rightarrow> string \<Rightarrow> unit result" where
  "require_active_generation b character generation =
     (case map_of (br_generations b) (casefold character) of
        None \<Rightarrow> Inl (VE (''active session generation is unavailable for '' @ character))
      | Some active \<Rightarrow> if active \<noteq> generation
          then Inl (VE ''session generation does not match active bridge'') else Inr ())"

definition expire_action :: "rat \<Rightarrow> action \<Rightarrow> action" where
  "expire_action now a = (if is_pending a \<and> act_expires_at a \<le> now then a\<lparr>act_status := Expired\<rparr> else a)"

definition expire_locked :: "rat \<Rightarrow> broker \<Rightarrow> broker" where
  "expire_locked now b =
     audit (map (\<lambda>(k, a). ActionExpired (expire_action now a))
              (filter (\<lambda>(k, a). is_pending a \<and> act_expires_at a \<le> now) (br_actions b)))
       (map_actions (expire_action now) b)"

section \<open>Session generations and the kill switch\<close>

definition replace_generation :: "string \<Rightarrow> string \<Rightarrow> action \<Rightarrow> action" where
  "replace_generation key gen a =
     (let a1 = (if supervised a \<and> same_character key a \<and> act_gen a \<noteq> gen \<and> is_sent a
                then a\<lparr>act_stop_requested := True\<rparr> else a)
      in if same_character key a1 \<and> act_gen a1 \<noteq> gen \<and> is_pending a1
         then a1\<lparr>act_status := Cancelled\<rparr> else a1)"

record generation_reply =
  gr_character :: string
  gr_generation :: string
  gr_replaced :: "string option"
  gr_cancelled :: "string list"

definition admit_generation :: "pyval \<Rightarrow> pyval \<Rightarrow> broker \<Rightarrow> generation_reply op" where
  "admit_generation character generation b =
     (case act_character character of Inl e \<Rightarrow> (b, Inl e) | Inr name \<Rightarrow>
     (case act_generation generation of Inl e \<Rightarrow> (b, Inl e) | Inr gen \<Rightarrow>
     (let key = casefold name;
          previous = map_of (br_generations b) key;
          b1 = b\<lparr>br_generations := dput key gen (br_generations b)\<rparr> in
      case previous of
        Some old \<Rightarrow>
          if old \<noteq> gen then
            (let cancelled = map (\<lambda>(k, a). act_id a)
                   (filter (\<lambda>(k, a). same_character key a \<and> act_gen a \<noteq> gen \<and> is_pending a) (br_actions b))
             in (audit [GenerationReplaced name old gen cancelled] (map_actions (replace_generation key gen) b1),
                 Inr \<lparr>gr_character = name, gr_generation = gen, gr_replaced = Some old, gr_cancelled = cancelled\<rparr>))
          else (b1, Inr \<lparr>gr_character = name, gr_generation = gen, gr_replaced = None, gr_cancelled = []\<rparr>)
      | None \<Rightarrow> (b1, Inr \<lparr>gr_character = name, gr_generation = gen, gr_replaced = None, gr_cancelled = []\<rparr>))))"

definition kill_action :: "string \<Rightarrow> action \<Rightarrow> action" where
  "kill_action key a =
     (let a1 = (if supervised a \<and> same_character key a \<and> is_sent a then a\<lparr>act_stop_requested := True\<rparr> else a)
      in if same_character key a1 \<and> is_pending a1 then a1\<lparr>act_status := Cancelled\<rparr> else a1)"

definition control :: "action_control \<Rightarrow> broker \<Rightarrow> bool op" where
  "control r b =
     (case require_active_generation b (ct_character r) (ct_generation r) of
        Inl e \<Rightarrow> (b, Inl e)
      | Inr _ \<Rightarrow>
        (let key = casefold (ct_character r) in
         if ct_enabled r then
           (audit [ExecutionEnabled (ct_character r) (ct_generation r)]
              (b\<lparr>br_enabled := (if key \<in> set (br_enabled b) then br_enabled b else key # br_enabled b)\<rparr>), Inr True)
         else
           (audit [KillSwitch (ct_character r) (ct_generation r)]
              (map_actions (kill_action key) (b\<lparr>br_enabled := filter (\<lambda>k. k \<noteq> key) (br_enabled b)\<rparr>)), Inr False)))"

section \<open>Proposals\<close>

fun evaluate_steps :: "manifest \<Rightarrow> nat \<Rightarrow> string list \<Rightarrow> string list result" where
  \<comment> \<open>the loop of \<open>_evaluate_proposal\<close> over a command sequence\<close>
  "evaluate_steps m i [] = Inr []"
| "evaluate_steps m i (c # cs) =
     rbind (act_text (PStr c) (''commands['' @ nat_str i @ '']'') max_command_length) (\<lambda>checked.
     rbind (evaluate m checked) (\<lambda>(normalized, d).
     rbind (is_controller_control m normalized) (\<lambda>ctl.
     if ctl then Inl (VE ''controller controls cannot be batched'')
     else if pd_kind d \<notin> {''inspection'', ''inventory'', ''crafting''}
     then Inl (VE ''command sequences are limited to inspection, inventory, and crafting'')
     else rbind (evaluate_steps m (Suc i) cs) (\<lambda>rest. Inr (normalized # rest)))))"

definition evaluate_proposal :: "manifest \<Rightarrow> action_proposal \<Rightarrow> (string list \<times> string \<times> bool) result" where
  "evaluate_proposal m p =
     (let has_command = (pr_command p \<noteq> None); has_commands = (pr_commands p \<noteq> []) in
      if has_command = has_commands then Inl (VE ''provide exactly one of command or commands'') else
      case pr_command p of
        Some c \<Rightarrow>
          rbind (act_text (PStr c) ''command'' max_command_length) (\<lambda>checked.
          rbind (evaluate m checked) (\<lambda>(normalized, d).
          Inr ([normalized], pd_kind d, pd_confirmation d)))
      | None \<Rightarrow>
          if \<not> (2 \<le> length (pr_commands p) \<and> length (pr_commands p) \<le> max_sequence_commands)
          then Inl (VE (''commands must contain between 2 and '' @ nat_str max_sequence_commands @ '' entries''))
          else rbind (evaluate_steps m 0 (pr_commands p)) (\<lambda>normalized.
            if max_sequence_length < sum_list (map length normalized)
            then Inl (VE (''commands exceed '' @ nat_str max_sequence_length @ '' total characters''))
            else Inr (normalized, ''sequence'', True)))"

definition future_number :: "rat \<Rightarrow> pyval \<Rightarrow> rat option" where
  \<comment> \<open>a finite number (no boolean) after \<open>now\<close>\<close>
  "future_number now v = (case num_of v of Some (Fin r) \<Rightarrow> if now < r then Some r else None | _ \<Rightarrow> None)"

definition controller_deadline_of :: "rat \<Rightarrow> bool \<Rightarrow> action_proposal \<Rightarrow> rat option result" where
  "controller_deadline_of now controlled p =
     (if controlled then
        (case future_number now (pr_controller_deadline p) of
           Some r \<Rightarrow> if pr_expected_generation p = None
             then Inl (VE ''controlled launch requires a finite future operation deadline and generation'')
             else Inr (Some r)
         | None \<Rightarrow> Inl (VE ''controlled launch requires a finite future operation deadline and generation''))
      else if pr_controller_deadline p \<noteq> PNone
      then Inl (VE ''controller deadline is only valid for a registered controlled launch'')
      else Inr None)"

definition expiry_of :: "rat \<Rightarrow> action_proposal \<Rightarrow> rat result" where
  "expiry_of now p =
     (let expires_at = now + of_int (pr_ttl_seconds p) in
      if pr_deadline p = PNone then Inr expires_at
      else case future_number now (pr_deadline p) of
        None \<Rightarrow> Inl (VE ''operation deadline expired or invalid before action admission'')
      | Some d \<Rightarrow> Inr (min expires_at d))"

definition single_flag :: "(string \<Rightarrow> bool result) \<Rightarrow> string list \<Rightarrow> bool result" where
  \<comment> \<open>\<open>len(commands) == 1 and flag(commands[0])\<close>\<close>
  "single_flag f cs = (case cs of [c] \<Rightarrow> f c | _ \<Rightarrow> Inr False)"

definition admission :: "broker \<Rightarrow> action_proposal \<Rightarrow> rat \<Rightarrow> string \<Rightarrow> action result" where
  \<comment> \<open>the checks of \<open>submit\<close> and the action they admit\<close>
  "admission b p now fresh =
     (let m = br_manifest b; key = casefold (pr_character p) in
      rbind (evaluate_proposal m p) (\<lambda>(commands, kind, confirmation).
      case map_of (br_generations b) key of
        None \<Rightarrow> Inl (VE (''active session generation is unavailable for '' @ pr_character p))
      | Some active \<Rightarrow>
          if pr_expected_generation p \<noteq> None \<and> pr_expected_generation p \<noteq> Some active
          then Inl (VE ''proposal generation does not match active session'')
          else if key \<notin> set (br_enabled b)
          then Inl (VE (''actions are disabled for '' @ pr_character p))
          else
            rbind (single_flag (is_controlled_launch m) commands) (\<lambda>controlled.
            rbind (controller_deadline_of now controlled p) (\<lambda>controller_deadline.
            rbind (expiry_of now p) (\<lambda>expires_at.
            rbind (single_flag (is_test_launch m) commands) (\<lambda>test_run.
            rbind (single_flag (is_controller_control m) commands) (\<lambda>controller_control.
            Inr \<lparr>act_id = fresh, act_character_name = pr_character p, act_gen = active, act_commands = commands,
                 act_kind = kind, act_status = (if confirmation then ConfirmationRequired else Queued),
                 act_expected_room_id = pr_expected_room_id p, act_created_at = now, act_expires_at = expires_at,
                 act_confirmation_required = confirmation, act_notified = False, act_completion = None,
                 act_detail = None, act_test_run = test_run, act_controller_control = controller_control,
                 act_controller_deadline = controller_deadline, act_stop_requested = False,
                 act_return_requested = False\<rparr>)))))))"

definition submit :: "action_proposal \<Rightarrow> rat \<Rightarrow> string \<Rightarrow> broker \<Rightarrow> (string \<times> pyval) list op" where
  "submit p now fresh b = (case admission b p now fresh of
      Inl e \<Rightarrow> (b, Inl e)
    | Inr a \<Rightarrow> (set_action a (audit [ActionProposed a] b), Inr (public (status_str (act_status a)) a)))"

section \<open>Delivery\<close>

fun poll_scan :: "action_context \<Rightarrow> (string, action) dict
    \<Rightarrow> (string, action) dict \<times> audit_event list \<times> (action \<times> string) option" where
  \<comment> \<open>the loop of \<open>_poll_locked\<close>: the rewritten actions, the audit events and the instruction\<close>
  "poll_scan cx [] = ([], [], None)"
| "poll_scan cx ((k, a) # as) =
     (if casefold (act_character_name a) \<noteq> casefold (cx_character cx) \<or> act_gen a \<noteq> cx_generation cx then
        (let (as', evs, r) = poll_scan cx as in ((k, a) # as', evs, r))
      else if act_status a = ConfirmationRequired \<and> \<not> act_notified a then
        (let a' = a\<lparr>act_notified := True\<rparr> in
         ((k, a') # as, [ConfirmationRequested a'], Some (a', ''confirmation_required'')))
      else if act_status a \<noteq> Queued then
        (let (as', evs, r) = poll_scan cx as in ((k, a) # as', evs, r))
      else if act_expected_room_id a \<noteq> None \<and> act_expected_room_id a \<noteq> Some (cx_room_id cx) then
        (let a' = a\<lparr>act_status := DeniedStaleRoom\<rparr>; (as', evs, r) = poll_scan cx as in
         ((k, a') # as', ActionDenied ''stale_room'' a' (cx_room_id cx) # evs, r))
      else
        (let a' = a\<lparr>act_status := Dispatched\<rparr> in
         ((k, a') # as, [ActionDispatched a' (cx_room_id cx)], Some (a', ''execute''))))"

definition poll_locked :: "action_context \<Rightarrow> rat \<Rightarrow> broker \<Rightarrow> (action \<times> string) option op" where
  "poll_locked cx now b =
     (let b1 = expire_locked now b in
      case require_active_generation b1 (cx_character cx) (cx_generation cx) of
        Inl e \<Rightarrow> (b1, Inl e)
      | Inr _ \<Rightarrow>
          if casefold (cx_character cx) \<notin> set (br_enabled b1) then (b1, Inr None)
          else let (as', evs, r) = poll_scan cx (br_actions b1) in
            (audit evs (b1\<lparr>br_actions := as'\<rparr>), Inr r))"

definition poll :: "action_context \<Rightarrow> rat \<Rightarrow> broker \<Rightarrow> (string \<times> pyval) list option op" where
  "poll cx now b = (case poll_locked cx now b of
      (b', Inl e) \<Rightarrow> (b', Inl e)
    | (b', Inr r) \<Rightarrow> (b', Inr (map_option (\<lambda>(a, instruction). public instruction a) r)))"

text \<open>
  \<open>poll_wait\<close> polls, and while nothing is ready and the monotonic deadline has not passed
  waits on the condition variable.  The environment is a list of wake-ups: the broker clock
  for the poll, the monotonic clock read after it, and what other threads did to the broker
  while this one waited.  \<open>None\<close> means that the call is still waiting when the list ends.
\<close>

type_synonym wakeup = "rat \<times> rat \<times> (broker \<Rightarrow> broker)"

fun poll_wait_loop :: "action_context \<Rightarrow> rat \<Rightarrow> wakeup list \<Rightarrow> broker \<Rightarrow> (string \<times> pyval) list option op option" where
  "poll_wait_loop cx deadline [] b = None"
| "poll_wait_loop cx deadline ((now, tick, env) # ws) b =
     (case poll cx now b of
        (b', Inl e) \<Rightarrow> Some (b', Inl e)
      | (b', Inr (Some instruction)) \<Rightarrow> Some (b', Inr (Some instruction))
      | (b', Inr None) \<Rightarrow> if deadline - tick \<le> 0 then Some (b', Inr None)
          else poll_wait_loop cx deadline ws (env b'))"

definition poll_wait :: "action_context \<Rightarrow> pyval \<Rightarrow> rat \<Rightarrow> wakeup list \<Rightarrow> broker
    \<Rightarrow> (string \<times> pyval) list option op option" where
  "poll_wait cx timeout start ws b = (case num_of timeout of
      None \<Rightarrow> Some (b, Inl (VE ''timeout_seconds must be a number''))
    | Some (Fin t) \<Rightarrow> if 0 \<le> t \<and> t \<le> 30 then poll_wait_loop cx (start + t) ws b
        else Some (b, Inl (VE ''timeout_seconds must be between 0 and 30''))
    | Some _ \<Rightarrow> Some (b, Inl (VE ''timeout_seconds must be between 0 and 30'')))"

section \<open>Approval and results\<close>

definition approve :: "action_approval \<Rightarrow> rat \<Rightarrow> broker \<Rightarrow> (string \<times> pyval) list op" where
  "approve ap now b =
     (let b1 = expire_locked now b in
      case find_locked b1 (ap_action_id ap) of Inl e \<Rightarrow> (b1, Inl e) | Inr a \<Rightarrow>
      if casefold (act_character_name a) \<noteq> casefold (ap_character ap)
      then (b1, Inl (VE ''action belongs to another character'')) else
      case require_active_generation b1 (ap_character ap) (ap_generation ap) of Inl e \<Rightarrow> (b1, Inl e) | Inr _ \<Rightarrow>
      if act_gen a \<noteq> ap_generation ap then (b1, Inl (VE ''action belongs to another session generation''))
      else if act_status a \<noteq> ConfirmationRequired then (b1, Inl (VE ''action is not awaiting confirmation''))
      else if act_expected_room_id a \<noteq> None \<and> act_expected_room_id a \<noteq> Some (ap_room_id ap) then
        (let a' = a\<lparr>act_status := DeniedStaleRoom\<rparr> in
         (audit [ActionDenied ''stale_room_at_approval'' a' (ap_room_id ap)] (set_action a' b1),
          Inl (VE ''room changed before confirmation'')))
      else
        (let a' = a\<lparr>act_expected_room_id := Some (ap_room_id ap), act_status := Queued\<rparr> in
         (audit [ActionApproved a' (ap_room_id ap) (ap_approval_mode ap)] (set_action a' b1),
          Inr (public ''queued'' a'))))"

definition apply_outcome :: "action_result \<Rightarrow> action \<Rightarrow> action" where
  "apply_outcome r a =
     (let (st, c) = (if rs_outcome r = ''failed'' then (Failed, ''failed'')
                     else if rs_outcome r = ''succeeded'' then (Completed, ''succeeded'')
                     else (Completed, ''sent_unverified''))
      in a\<lparr>act_status := st, act_completion := Some c, act_detail := Some (rs_detail r)\<rparr>)"

definition record_result :: "action_result \<Rightarrow> broker \<Rightarrow> (string \<times> pyval) list op" where
  "record_result r b =
     (case find_locked b (rs_action_id r) of Inl e \<Rightarrow> (b, Inl e) | Inr a \<Rightarrow>
      if casefold (act_character_name a) \<noteq> casefold (rs_character r)
      then (b, Inl (VE ''action belongs to another character'')) else
      case require_active_generation b (rs_character r) (rs_generation r) of Inl e \<Rightarrow> (b, Inl e) | Inr _ \<Rightarrow>
      if act_gen a \<noteq> rs_generation r then (b, Inl (VE ''action belongs to another session generation''))
      else if act_status a \<noteq> Dispatched then (b, Inl (VE ''action was not dispatched''))
      else let a' = apply_outcome r a in
        (audit [ActionResulted a' (rs_outcome r)] (set_action a' b),
         Inr [(''action_id'', PStr (act_id a')), (''generation'', PStr (act_gen a')),
              (''status'', PStr (status_str (act_status a'))), (''completion'', opt_str (act_completion a')),
              (''detail'', opt_str (act_detail a'))]))"

definition get_action :: "pyval \<Rightarrow> rat \<Rightarrow> broker \<Rightarrow> (string \<times> pyval) list op" where
  "get_action i now b =
     (let b1 = expire_locked now b in
      case rbind (act_action_id i) (find_locked b1) of
        Inl e \<Rightarrow> (b1, Inl e) | Inr a \<Rightarrow> (b1, Inr (public (status_str (act_status a)) a)))"

section \<open>Revocation\<close>

definition owned_by :: "action \<Rightarrow> pyval \<Rightarrow> pyval \<Rightarrow> bool result" where
  \<comment> \<open>the character and generation test of the internal revocations, with its short circuit\<close>
  "owned_by a character generation =
     rbind (act_character character) (\<lambda>c.
     if casefold (act_character_name a) \<noteq> casefold c then Inr False else
     rbind (act_generation generation) (\<lambda>g. Inr (act_gen a = g)))"

definition cancel :: "pyval \<Rightarrow> pyval \<Rightarrow> pyval \<Rightarrow> rat \<Rightarrow> broker \<Rightarrow> (string \<times> pyval) list op" where
  "cancel i character generation now b =
     (case rbind (act_action_id i) (find_locked b) of Inl e \<Rightarrow> (b, Inl e) | Inr a0 \<Rightarrow>
      case act_character character of Inl e \<Rightarrow> (b, Inl e) | Inr c \<Rightarrow>
      if casefold (act_character_name a0) \<noteq> casefold c
      then (b, Inl (VE ''action belongs to another character'')) else
      case act_generation generation of Inl e \<Rightarrow> (b, Inl e) | Inr g \<Rightarrow>
      if act_gen a0 \<noteq> g then (b, Inl (VE ''action belongs to another session generation'')) else
      let b1 = expire_locked now b; a = expire_action now a0;
          cancelled = is_pending a in
      if travel_run a \<and> act_status a = Dispatched then
        (let a' = a\<lparr>act_stop_requested := True\<rparr> in
         (audit [TravelStopRequested a'] (set_action a' b1),
          Inr (public (status_str (act_status a')) a' @ [(''cancelled'', PBool False)])))
      else if cancelled then
        (let a' = a\<lparr>act_status := Cancelled\<rparr> in
         (audit [ActionCancelled a'] (set_action a' b1),
          Inr (public (status_str (act_status a')) a' @ [(''cancelled'', PBool True)])))
      else (b1, Inr (public (status_str (act_status a)) a @ [(''cancelled'', PBool False)])))"

definition stop_marked :: "action \<Rightarrow> action" where
  \<comment> \<open>a pending action is cancelled, and the stop marker is set in any case\<close>
  "stop_marked a = (let a1 = (if is_pending a then a\<lparr>act_status := Cancelled\<rparr> else a)
     in a1\<lparr>act_stop_requested := True\<rparr>)"

definition request_test_stop :: "pyval \<Rightarrow> pyval \<Rightarrow> pyval \<Rightarrow> rat \<Rightarrow> broker \<Rightarrow> (string \<times> pyval) list op" where
  "request_test_stop i character generation now b =
     (case rbind (act_action_id i) (find_locked b) of Inl e \<Rightarrow> (b, Inl e) | Inr a0 \<Rightarrow>
      case owned_by a0 character generation of Inl e \<Rightarrow> (b, Inl e) | Inr own \<Rightarrow>
      if \<not> own then (b, Inl (VE ''test action belongs to another character or generation''))
      else if \<not> act_test_run a0 then (b, Inl (VE ''action is not a registered test launch'')) else
      let b1 = expire_locked now b; a = expire_action now a0;
          a' = (if is_pending a then a\<lparr>act_status := Cancelled\<rparr>
                else if is_sent a then a\<lparr>act_stop_requested := True\<rparr> else a) in
      (audit [TestStopRequested a'] (set_action a' b1), Inr (public (status_str (act_status a')) a')))"

definition revoke_controller_control :: "pyval \<Rightarrow> pyval \<Rightarrow> pyval \<Rightarrow> rat \<Rightarrow> broker \<Rightarrow> (string \<times> pyval) list op" where
  "revoke_controller_control i character generation now b =
     (case rbind (act_action_id i) (find_locked b) of Inl e \<Rightarrow> (b, Inl e) | Inr a0 \<Rightarrow>
      case owned_by a0 character generation of Inl e \<Rightarrow> (b, Inl e) | Inr own \<Rightarrow>
      if \<not> own \<or> \<not> act_controller_control a0
      then (b, Inl (VE ''control does not belong to this character and generation'')) else
      let b1 = expire_locked now b; a' = stop_marked (expire_action now a0) in
      (audit [ControlRevoked a'] (set_action a' b1), Inr (public (status_str (act_status a')) a')))"

definition revoke_controller_run :: "pyval \<Rightarrow> pyval \<Rightarrow> pyval \<Rightarrow> rat \<Rightarrow> broker \<Rightarrow> (string \<times> pyval) list op" where
  "revoke_controller_run i character generation now b =
     (case rbind (act_action_id i) (find_locked b) of Inl e \<Rightarrow> (b, Inl e) | Inr a0 \<Rightarrow>
      case owned_by a0 character generation of Inl e \<Rightarrow> (b, Inl e) | Inr own \<Rightarrow>
      if \<not> own \<or> act_controller_deadline a0 = None
      then (b, Inl (VE ''controlled launch does not belong to this character and generation'')) else
      let b1 = expire_locked now b; a' = stop_marked (expire_action now a0) in
      (audit [RunRevoked a'] (set_action a' b1), Inr (public (status_str (act_status a')) a')))"

definition request_controller_return :: "pyval \<Rightarrow> pyval \<Rightarrow> pyval \<Rightarrow> rat \<Rightarrow> rat \<Rightarrow> broker \<Rightarrow> (string \<times> pyval) list op" where
  "request_controller_return i character generation now now2 b =
     (case rbind (act_action_id i) (find_locked b) of Inl e \<Rightarrow> (b, Inl e) | Inr a0 \<Rightarrow>
      case rbind (owned_by a0 character generation) (\<lambda>own.
             if \<not> own \<or> act_controller_deadline a0 = None then Inr False
             else single_flag (is_refuge_launch (br_manifest b)) (act_commands a0)) of
        Inl e \<Rightarrow> (b, Inl e) | Inr ok \<Rightarrow>
      if \<not> ok then (b, Inl (VE (''return request requires this character'' @ [CHR 39] @ ''s exact refuge launch''))) else
      let b1 = expire_locked now b; a = expire_action now a0 in
      case require_active_generation b1 (act_character_name a) (act_gen a) of Inl e \<Rightarrow> (b1, Inl e) | Inr _ \<Rightarrow>
      if act_stop_requested a \<or> \<not> (act_status a = Dispatched \<or> act_status a = Completed)
         \<or> casefold (act_character_name a) \<notin> set (br_enabled b1)
         \<or> (case act_controller_deadline a of None \<Rightarrow> True | Some d \<Rightarrow> d \<le> now2)
      then (b1, Inl (VE ''refuge launch is no longer authorized''))
      else let a' = a\<lparr>act_return_requested := True\<rparr> in
        (audit [ReturnRequested a'] (set_action a' b1), Inr (public (status_str (act_status a')) a')))"

end
