(* ===== verification/BrokerLifecycle.thy ===== *)
theory BrokerLifecycle
  imports ActionBroker
begin

text \<open>
  The life cycle of an action under every operation of the broker: the order of the
  statuses, the step relation of the broker, its invariant, and what one operation may do
  to an action it holds.
\<close>

section \<open>The order of the statuses\<close>

instantiation status :: order
begin

fun less_eq_status :: "status \<Rightarrow> status \<Rightarrow> bool" where
  "less_eq_status ConfirmationRequired t = True"
| "less_eq_status Queued t = (t \<noteq> ConfirmationRequired)"
| "less_eq_status Dispatched t = (t = Dispatched \<or> t = Completed \<or> t = Failed)"
| "less_eq_status s t = (s = t)"

definition less_status :: "status \<Rightarrow> status \<Rightarrow> bool" where
  "less_status s t = (s \<le> t \<and> \<not> t \<le> (s :: status))"

instance
proof
  fix s t u :: status
  show "(s < t) = (s \<le> t \<and> \<not> t \<le> s)" by (simp add: less_status_def)
  show "s \<le> s" by (cases s) simp_all
  show "s \<le> u" if "s \<le> t" and "t \<le> u" using that by (cases s; cases t; cases u) simp_all
  show "s = t" if "s \<le> t" and "t \<le> s" using that by (cases s; cases t) simp_all
qed

end

section \<open>The step relation\<close>

text \<open>
  One rule per operation.  \<open>submit\<close> is given an id that no action of the broker has: the code
  draws 64 random bits with \<open>secrets.token_hex(8)\<close>.
\<close>

inductive broker_step :: "broker \<Rightarrow> broker \<Rightarrow> bool" where
  step_admit: "broker_step b (fst (admit_generation c g b))"
| step_control: "broker_step b (fst (control r b))"
| step_submit: "fresh \<notin> set (dkeys (br_actions b)) \<Longrightarrow> broker_step b (fst (submit p now fresh b))"
| step_poll: "broker_step b (fst (poll cx now b))"
| step_approve: "broker_step b (fst (approve ap now b))"
| step_result: "broker_step b (fst (record_result rs b))"
| step_get: "broker_step b (fst (get_action i now b))"
| step_cancel: "broker_step b (fst (cancel i c g now b))"
| step_test_stop: "broker_step b (fst (request_test_stop i c g now b))"
| step_revoke_control: "broker_step b (fst (revoke_controller_control i c g now b))"
| step_revoke_run: "broker_step b (fst (revoke_controller_run i c g now b))"
| step_return: "broker_step b (fst (request_controller_return i c g now now2 b))"

abbreviation broker_reach :: "manifest \<Rightarrow> broker \<Rightarrow> bool" where
  "broker_reach m \<equiv> reach (\<lambda>b. b = broker_init m) broker_step"

section \<open>What an operation may do to an action\<close>

definition evolves :: "action \<Rightarrow> action \<Rightarrow> bool" where
  "evolves a a' =
     (act_id a' = act_id a \<and> act_character_name a' = act_character_name a \<and> act_gen a' = act_gen a
      \<and> act_commands a' = act_commands a \<and> act_kind a' = act_kind a
      \<and> act_created_at a' = act_created_at a \<and> act_expires_at a' = act_expires_at a
      \<and> act_confirmation_required a' = act_confirmation_required a
      \<and> act_test_run a' = act_test_run a \<and> act_controller_control a' = act_controller_control a
      \<and> act_controller_deadline a' = act_controller_deadline a
      \<and> (act_expected_room_id a \<noteq> None \<longrightarrow> act_expected_room_id a' = act_expected_room_id a)
      \<and> act_status a \<le> act_status a'
      \<and> (act_stop_requested a \<longrightarrow> act_stop_requested a')
      \<and> (act_return_requested a \<longrightarrow> act_return_requested a')
      \<and> (act_notified a \<longrightarrow> act_notified a'))"

lemma evolves_refl [simp, intro!]: "evolves a a"
  by (simp add: evolves_def)

lemma evolves_trans: "evolves a b \<Longrightarrow> evolves b c \<Longrightarrow> evolves a c"
  using order.trans [of "act_status a" "act_status b" "act_status c"] by (simp add: evolves_def)

lemma evolves_id: "evolves a a' \<Longrightarrow> act_id a' = act_id a"
  by (simp add: evolves_def)

lemma evolves_expire: "evolves a (expire_action now a)"
  by (cases "act_status a") (simp_all add: evolves_def expire_action_def is_pending_def)

lemma evolves_replace: "evolves a (replace_generation key g a)"
  by (cases "act_status a")
     (simp_all add: evolves_def replace_generation_def is_pending_def is_sent_def Let_def)

lemma evolves_kill: "evolves a (kill_action key a)"
  by (cases "act_status a") (simp_all add: evolves_def kill_action_def is_pending_def is_sent_def Let_def)

lemma evolves_outcome: "act_status a = Dispatched \<Longrightarrow> evolves a (apply_outcome r a)"
  by (simp add: evolves_def apply_outcome_def)

lemma evolves_stop_marked: "evolves a (stop_marked a)"
  by (cases "act_status a") (simp_all add: evolves_def stop_marked_def is_pending_def Let_def)

lemma evolves_cancelled: "is_pending a \<Longrightarrow> evolves a (a\<lparr>act_status := Cancelled\<rparr>)"
  by (auto simp: evolves_def is_pending_def)

lemma evolves_flags:
  "evolves a (a\<lparr>act_stop_requested := True\<rparr>)" "evolves a (a\<lparr>act_return_requested := True\<rparr>)"
  "evolves a (a\<lparr>act_notified := True\<rparr>)"
  by (simp_all add: evolves_def)

lemma evolves_queued_to:
  "act_status a = Queued \<Longrightarrow> evolves a (a\<lparr>act_status := Dispatched\<rparr>)"
  "act_status a = Queued \<Longrightarrow> evolves a (a\<lparr>act_status := DeniedStaleRoom\<rparr>)"
  "act_status a = ConfirmationRequired \<Longrightarrow> evolves a (a\<lparr>act_status := DeniedStaleRoom\<rparr>)"
  by (simp_all add: evolves_def)

lemma evolves_approved:
  "act_status a = ConfirmationRequired \<Longrightarrow> act_expected_room_id a = None \<or> act_expected_room_id a = Some r
    \<Longrightarrow> evolves a (a\<lparr>act_expected_room_id := Some r, act_status := Queued\<rparr>)"
  by (auto simp: evolves_def)

lemmas evolves_steps = evolves_expire evolves_replace evolves_kill evolves_outcome evolves_stop_marked
  evolves_cancelled evolves_flags evolves_queued_to evolves_approved

section \<open>Dictionaries of actions\<close>

definition keys_ok :: "(string, action) dict \<Rightarrow> bool" where
  "keys_ok d = (distinct (dkeys d) \<and> (\<forall>k a. map_of d k = Some a \<longrightarrow> act_id a = k))"

definition acts_evolve :: "(string, action) dict \<Rightarrow> (string, action) dict \<Rightarrow> bool" where
  "acts_evolve d d' = (\<forall>k a. map_of d k = Some a \<longrightarrow> (\<exists>a'. map_of d' k = Some a' \<and> evolves a a'))"

lemma acts_evolve_refl [simp, intro!]: "acts_evolve d d"
  by (auto simp: acts_evolve_def)

lemma acts_evolve_trans: "acts_evolve d e \<Longrightarrow> acts_evolve e f \<Longrightarrow> acts_evolve d f"
  unfolding acts_evolve_def by (meson evolves_trans)

lemma acts_evolveD: "acts_evolve d d' \<Longrightarrow> map_of d k = Some a \<Longrightarrow> \<exists>a'. map_of d' k = Some a' \<and> evolves a a'"
  by (simp add: acts_evolve_def)

lemma br_actions_audit [simp]: "br_actions (audit evs b) = br_actions b"
  by (simp add: audit_def)

lemma br_fields_audit [simp]:
  "br_generations (audit evs b) = br_generations b" "br_enabled (audit evs b) = br_enabled b"
  "br_manifest (audit evs b) = br_manifest b" "br_audit (audit evs b) = br_audit b @ evs"
  by (simp_all add: audit_def)

lemma br_fields_set_action [simp]:
  "br_actions (set_action a b) = dput (act_id a) a (br_actions b)"
  "br_generations (set_action a b) = br_generations b" "br_enabled (set_action a b) = br_enabled b"
  "br_manifest (set_action a b) = br_manifest b" "br_audit (set_action a b) = br_audit b"
  by (simp_all add: set_action_def)

lemma br_fields_map_actions [simp]:
  "br_generations (map_actions f b) = br_generations b" "br_enabled (map_actions f b) = br_enabled b"
  "br_manifest (map_actions f b) = br_manifest b" "br_audit (map_actions f b) = br_audit b"
  by (simp_all add: map_actions_def)

lemma map_of_map_actions [simp]:
  "map_of (br_actions (map_actions f b)) k = map_option f (map_of (br_actions b) k)"
  by (simp add: map_actions_def map_of_map)

lemma dkeys_map_actions [simp]: "dkeys (br_actions (map_actions f b)) = dkeys (br_actions b)"
  by (simp add: map_actions_def dkeys_def comp_def case_prod_unfold)

lemma br_fields_expire [simp]:
  "br_generations (expire_locked now b) = br_generations b" "br_enabled (expire_locked now b) = br_enabled b"
  "br_manifest (expire_locked now b) = br_manifest b"
  by (simp_all add: expire_locked_def)

lemma map_of_expire [simp]:
  "map_of (br_actions (expire_locked now b)) k = map_option (expire_action now) (map_of (br_actions b) k)"
  by (simp add: expire_locked_def)

lemma dkeys_expire [simp]: "dkeys (br_actions (expire_locked now b)) = dkeys (br_actions b)"
  by (simp add: expire_locked_def)

lemma acts_evolve_map: "(\<And>a. evolves a (f a)) \<Longrightarrow> acts_evolve (br_actions b) (br_actions (map_actions f b))"
  by (auto simp: acts_evolve_def)

lemma acts_evolve_expire [intro]: "acts_evolve (br_actions b) (br_actions (expire_locked now b))"
  by (auto simp: acts_evolve_def evolves_expire)

lemma acts_evolve_put:
  "map_of d k = Some a \<Longrightarrow> evolves a a' \<Longrightarrow> acts_evolve d (dput k a' d)"
  by (auto simp: acts_evolve_def)

lemma acts_evolve_new: "k \<notin> set (dkeys d) \<Longrightarrow> acts_evolve d (dput k a d)"
  by (auto simp: acts_evolve_def in_dkeys_iff)

lemma keys_ok_map: "keys_ok (br_actions b) \<Longrightarrow> (\<And>a. evolves a (f a)) \<Longrightarrow> keys_ok (br_actions (map_actions f b))"
  by (auto simp: keys_ok_def dest!: evolves_id)

lemma keys_ok_expire: "keys_ok (br_actions b) \<Longrightarrow> keys_ok (br_actions (expire_locked now b))"
  unfolding expire_locked_def by (simp add: keys_ok_map evolves_expire)

lemma keys_ok_put: "keys_ok d \<Longrightarrow> act_id a = k \<Longrightarrow> keys_ok (dput k a d)"
  by (auto simp: keys_ok_def)

lemma evolve_list_map_of:
  assumes "list_all2 (\<lambda>p q. fst p = fst q \<and> evolves (snd p) (snd q)) d d'"
  shows "acts_evolve d d' \<and> dkeys d' = dkeys d"
  using assms
proof (induction rule: list_all2_induct)
  case Nil
  then show ?case by simp
next
  case (Cons p ps q qs)
  then show ?case by (cases p; cases q) (auto simp: acts_evolve_def dkeys_def)
qed

lemma poll_scan_evolves:
  "poll_scan cx d = (d', evs, r) \<Longrightarrow>
     list_all2 (\<lambda>p q. fst p = fst q \<and> evolves (snd p) (snd q)) d d'"
proof (induction cx d arbitrary: d' evs r rule: poll_scan.induct)
  case (1 cx)
  then show ?case by simp
next
  case (2 cx k a as)
  obtain as1 evs1 r1 where s: "poll_scan cx as = (as1, evs1, r1)" by (cases "poll_scan cx as") auto
  have refl: "list_all2 (\<lambda>p q. fst p = fst q \<and> evolves (snd p) (snd q)) as as"
    by (rule list_all2_refl) simp
  from 2 s refl show ?case by (auto simp: Let_def evolves_steps split: if_splits)
qed

lemma poll_scan_acts: "poll_scan cx d = (d', evs, r) \<Longrightarrow> acts_evolve d d' \<and> dkeys d' = dkeys d"
  by (rule evolve_list_map_of) (rule poll_scan_evolves)

lemma keys_ok_evolve:
  assumes "acts_evolve d d'" and "dkeys d' = dkeys d" and ok: "keys_ok d"
  shows "keys_ok d'"
  unfolding keys_ok_def
proof (intro conjI allI impI)
  show "distinct (dkeys d')" using assms by (simp add: keys_ok_def)
next
  fix k a' assume a': "map_of d' k = Some a'"
  then have "k \<in> set (dkeys d)" using assms(2) by (metis in_dkeys_iff option.simps(3))
  then obtain a where a: "map_of d k = Some a" by (auto simp: in_dkeys_iff)
  from acts_evolveD [OF assms(1) this] a' have "evolves a a'" by simp
  with a ok show "act_id a' = k" by (auto simp: keys_ok_def dest!: evolves_id)
qed

lemma find_locked_Inr [simp]: "find_locked b i = Inr a \<longleftrightarrow> map_of (br_actions b) i = Some a"
  by (simp add: find_locked_def split: option.splits)

text \<open>
  What every operation guarantees: it never drops an action, changes an action only along
  \<open>evolves\<close>, and keeps every action stored under its own id.
\<close>

definition op_ok :: "broker \<Rightarrow> broker \<Rightarrow> bool" where
  "op_ok b b' = (acts_evolve (br_actions b) (br_actions b') \<and> (keys_ok (br_actions b) \<longrightarrow> keys_ok (br_actions b')))"

lemma op_ok_refl [simp, intro!]: "op_ok b b"
  by (simp add: op_ok_def)

lemma op_ok_trans: "op_ok b c \<Longrightarrow> op_ok c d \<Longrightarrow> op_ok b d"
  unfolding op_ok_def by (blast intro: acts_evolve_trans)

lemma op_ok_audit [simp]: "op_ok b (audit evs c) = op_ok b c"
  by (simp add: op_ok_def)

lemma op_ok_expire [simp, intro!]: "op_ok b (expire_locked now b)"
  by (simp add: op_ok_def acts_evolve_expire keys_ok_expire)

lemma op_ok_map: "(\<And>a. evolves a (f a)) \<Longrightarrow> br_actions c = br_actions b \<Longrightarrow> op_ok b (map_actions f c)"
  using acts_evolve_map [of f c] keys_ok_map [of c f] by (simp add: op_ok_def)

lemma op_ok_set:
  assumes "keys_ok (br_actions b)" and "map_of (br_actions b) i = Some a" and "evolves a a'"
  shows "op_ok b (set_action a' b)"
proof -
  have "act_id a' = i" using assms by (auto simp: keys_ok_def dest!: evolves_id)
  with assms show ?thesis by (simp add: op_ok_def keys_ok_put acts_evolve_put)
qed

lemma op_ok_expire_set:
  assumes "keys_ok (br_actions b)" and "map_of (br_actions b) i = Some a"
    and "evolves (expire_action now a) a'"
  shows "op_ok b (set_action a' (expire_locked now b))"
  by (rule op_ok_trans [OF op_ok_expire [of b now]], rule op_ok_set [of _ i "expire_action now a"])
     (use assms in \<open>simp_all add: keys_ok_expire\<close>)

section \<open>Every operation keeps the life cycle\<close>

named_theorems broker_ops \<open>the operations of the broker keep the life cycle\<close>

lemma admit_ok [broker_ops]: "op_ok b (fst (admit_generation c g b))"
  by (auto simp: admit_generation_def Let_def evolves_steps intro: op_ok_map split: sum.splits option.splits)
     (simp_all add: op_ok_def)

lemma control_ok [broker_ops]: "op_ok b (fst (control r b))"
  by (auto simp: control_def Let_def evolves_steps intro: op_ok_map split: sum.splits)
     (simp_all add: op_ok_def)

lemma admission_id: "admission b p now fresh = Inr a \<Longrightarrow> act_id a = fresh"
  by (auto simp: admission_def Let_def rbind_Inr_iff split: option.splits if_splits)

lemma submit_ok [broker_ops]:
  assumes "fresh \<notin> set (dkeys (br_actions b))"
  shows "op_ok b (fst (submit p now fresh b))"
proof (cases "admission b p now fresh")
  case (Inl e)
  then show ?thesis by (simp add: submit_def)
next
  case (Inr a)
  with assms admission_id [OF Inr] show ?thesis
    by (simp add: submit_def op_ok_def acts_evolve_new keys_ok_put)
qed

lemma poll_locked_ok: "op_ok b (fst (poll_locked cx now b))"
proof -
  obtain as evs r where s: "poll_scan cx (br_actions (expire_locked now b)) = (as, evs, r)"
    by (cases "poll_scan cx (br_actions (expire_locked now b))") auto
  have "op_ok (expire_locked now b) (expire_locked now b\<lparr>br_actions := as\<rparr>)"
    using poll_scan_acts [OF s] keys_ok_evolve [of "br_actions (expire_locked now b)" as]
    by (simp add: op_ok_def)
  then have "op_ok b (expire_locked now b\<lparr>br_actions := as\<rparr>)"
    by (rule op_ok_trans [OF op_ok_expire])
  with s show ?thesis by (auto simp: poll_locked_def Let_def split: sum.splits)
qed

lemma fst_poll: "fst (poll cx now b) = fst (poll_locked cx now b)"
  by (auto simp: poll_def split: prod.splits sum.splits)

lemma poll_ok [broker_ops]: "op_ok b (fst (poll cx now b))"
  by (simp add: fst_poll poll_locked_ok)

lemma approve_ok [broker_ops]: "keys_ok (br_actions b) \<Longrightarrow> op_ok b (fst (approve ap now b))"
  by (auto simp: approve_def Let_def evolves_steps intro: op_ok_expire_set split: sum.splits)

lemma record_result_ok [broker_ops]: "keys_ok (br_actions b) \<Longrightarrow> op_ok b (fst (record_result r b))"
  by (auto simp: record_result_def Let_def evolves_steps intro: op_ok_set split: sum.splits)

lemma get_action_ok [broker_ops]: "op_ok b (fst (get_action i now b))"
  by (auto simp: get_action_def Let_def split: sum.splits)

lemma cancel_ok [broker_ops]: "keys_ok (br_actions b) \<Longrightarrow> op_ok b (fst (cancel i c g now b))"
  by (auto simp: cancel_def Let_def evolves_steps rbind_Inr_iff intro: op_ok_expire_set split: sum.splits)

lemma request_test_stop_ok [broker_ops]: "keys_ok (br_actions b) \<Longrightarrow> op_ok b (fst (request_test_stop i c g now b))"
  by (auto simp: request_test_stop_def Let_def evolves_steps rbind_Inr_iff intro: op_ok_expire_set split: sum.splits)

lemma revoke_control_ok [broker_ops]: "keys_ok (br_actions b) \<Longrightarrow> op_ok b (fst (revoke_controller_control i c g now b))"
  by (auto simp: revoke_controller_control_def Let_def evolves_steps rbind_Inr_iff intro: op_ok_expire_set split: sum.splits)

lemma revoke_run_ok [broker_ops]: "keys_ok (br_actions b) \<Longrightarrow> op_ok b (fst (revoke_controller_run i c g now b))"
  by (auto simp: revoke_controller_run_def Let_def evolves_steps rbind_Inr_iff intro: op_ok_expire_set split: sum.splits)

lemma request_return_ok [broker_ops]: "keys_ok (br_actions b) \<Longrightarrow> op_ok b (fst (request_controller_return i c g now now2 b))"
  by (auto simp: request_controller_return_def Let_def evolves_steps rbind_Inr_iff intro: op_ok_expire_set split: sum.splits)

lemma broker_step_ok: "broker_step b b' \<Longrightarrow> keys_ok (br_actions b) \<Longrightarrow> op_ok b b'"
  by (induction rule: broker_step.induct) (simp_all add: broker_ops)

end
