(* ===== verification/BrokerSpec.thy ===== *)
theory BrokerSpec
  imports BrokerLifecycle
begin

text \<open>
  The abstract machine of the action broker and the refinement: \<open>atom\<close> is the specification
  of the life cycle, one rule per transition with its guard, and every operation of the
  broker is a finite sequence of its transitions.  The safety invariant is proved once, on
  the abstract machine, and holds of the broker by refinement.
\<close>

section \<open>The abstract machine\<close>

fun is_dispatch :: "string \<Rightarrow> audit_event \<Rightarrow> bool" where
  "is_dispatch k (ActionDispatched a r) = (act_id a = k)"
| "is_dispatch k _ = False"

fun is_approval :: "string \<Rightarrow> audit_event \<Rightarrow> bool" where
  "is_approval k (ActionApproved a r m) = (act_id a = k)"
| "is_approval k _ = False"

definition harmless :: "audit_event \<Rightarrow> bool" where
  "harmless e = (case e of ActionDispatched a r \<Rightarrow> False | ActionApproved a r m \<Rightarrow> False | _ \<Rightarrow> True)"

definition authorised :: "broker \<Rightarrow> action \<Rightarrow> bool" where
  \<comment> \<open>the action belongs to the active session of a character whose actions are enabled\<close>
  "authorised b a = (map_of (br_generations b) (casefold (act_character_name a)) = Some (act_gen a)
     \<and> casefold (act_character_name a) \<in> set (br_enabled b))"

definition room_ok :: "action \<Rightarrow> string \<Rightarrow> bool" where
  "room_ok a r = (act_expected_room_id a = None \<or> act_expected_room_id a = Some r)"

definition fresh_action :: "action \<Rightarrow> bool" where
  "fresh_action a = (act_status a = (if act_confirmation_required a then ConfirmationRequired else Queued)
     \<and> act_completion a = None \<and> \<not> act_notified a \<and> \<not> act_stop_requested a \<and> \<not> act_return_requested a)"

definition accepted :: "broker \<Rightarrow> action \<Rightarrow> bool" where
  \<comment> \<open>every command of the action is a canonical command of the policy\<close>
  "accepted b a = (\<forall>c \<in> set (act_commands a). \<exists>raw d. evaluate (br_manifest b) raw = Inr (c, d))"

inductive atom :: "broker \<Rightarrow> broker \<Rightarrow> bool" where
  at_expire: "atom b (expire_locked now b)"
| at_submit: "fresh_action a \<Longrightarrow> authorised b a \<Longrightarrow> accepted b a \<Longrightarrow> act_id a \<notin> set (dkeys (br_actions b)) \<Longrightarrow>
    atom b (set_action a (audit [ActionProposed a] b))"
| at_notify: "map_of (br_actions b) k = Some a \<Longrightarrow> act_status a = ConfirmationRequired \<Longrightarrow>
    atom b (audit [ConfirmationRequested (a\<lparr>act_notified := True\<rparr>)] (set_action (a\<lparr>act_notified := True\<rparr>) b))"
| at_approve: "map_of (br_actions b) k = Some a \<Longrightarrow> act_status a = ConfirmationRequired \<Longrightarrow> room_ok a r \<Longrightarrow>
    a' = a\<lparr>act_expected_room_id := Some r, act_status := Queued\<rparr> \<Longrightarrow>
    atom b (audit [ActionApproved a' r mode] (set_action a' b))"
| at_deny: "map_of (br_actions b) k = Some a \<Longrightarrow> is_pending a \<Longrightarrow> \<not> room_ok a r \<Longrightarrow>
    a' = a\<lparr>act_status := DeniedStaleRoom\<rparr> \<Longrightarrow>
    atom b (audit [ActionDenied reason a' r] (set_action a' b))"
| at_dispatch: "map_of (br_actions b) k = Some a \<Longrightarrow> act_status a = Queued \<Longrightarrow> authorised b a \<Longrightarrow> room_ok a r \<Longrightarrow>
    a' = a\<lparr>act_status := Dispatched\<rparr> \<Longrightarrow>
    atom b (audit [ActionDispatched a' r] (set_action a' b))"
| at_result: "map_of (br_actions b) k = Some a \<Longrightarrow> act_status a = Dispatched \<Longrightarrow>
    atom b (audit [ActionResulted (apply_outcome rs a) (rs_outcome rs)] (set_action (apply_outcome rs a) b))"
| at_cancel: "map_of (br_actions b) k = Some a \<Longrightarrow> is_pending a \<Longrightarrow> list_all harmless evs \<Longrightarrow>
    atom b (audit evs (set_action (a\<lparr>act_status := Cancelled, act_stop_requested := stop\<rparr>) b))"
| at_flag: "map_of (br_actions b) k = Some a \<Longrightarrow> list_all harmless evs \<Longrightarrow>
    atom b (audit evs (set_action (a\<lparr>act_stop_requested := stop, act_return_requested := ret\<rparr>) b))"
| at_new_session: "map_of (br_generations b) key = None \<or> map_of (br_generations b) key = Some g \<Longrightarrow>
    atom b (b\<lparr>br_generations := dput key g (br_generations b)\<rparr>)"
| at_replace_session: "list_all harmless evs \<Longrightarrow>
    atom b (audit evs (map_actions (replace_generation key g) (b\<lparr>br_generations := dput key g (br_generations b)\<rparr>)))"
| at_enable: "atom b (audit [ExecutionEnabled c g]
    (b\<lparr>br_enabled := (if key \<in> set (br_enabled b) then br_enabled b else key # br_enabled b)\<rparr>))"
| at_kill: "atom b (audit [KillSwitch c g]
    (map_actions (kill_action key) (b\<lparr>br_enabled := filter (\<lambda>k. k \<noteq> key) (br_enabled b)\<rparr>)))"

lemma runs_one: "step s t \<Longrightarrow> runs step s t"
  by (rule runs_step [OF runs_refl])

lemma runs_two: "step s t \<Longrightarrow> step t u \<Longrightarrow> runs step s u"
  by (rule runs_step [OF runs_one])

lemma runs_trans: "runs step t u \<Longrightarrow> runs step s t \<Longrightarrow> runs step s u"
  by (induction rule: runs.induct) (auto intro: runs_step)

section \<open>Refinement of the simple operations\<close>

lemma authorised_expire [simp]: "authorised (expire_locked now b) a = authorised b a"
  by (simp add: authorised_def)

lemma admit_refines: "runs atom b (fst (admit_generation c g b))"
proof (cases "rbind (act_character c) (\<lambda>n. rbind (act_generation g) (\<lambda>g'. Inr (n, g')))")
  case (Inl e)
  then show ?thesis
    by (auto simp: admit_generation_def rbind_Inl_iff intro: runs_refl split: sum.splits)
next
  case (Inr x)
  then obtain n g' where n: "act_character c = Inr n" "act_generation g = Inr g'"
    by (auto simp: rbind_Inr_iff)
  have h: "list_all harmless [GenerationReplaced n old g' ids]" for old ids
    by (simp add: harmless_def)
  show ?thesis
    using at_new_session [of b "casefold n" g']
      at_replace_session [where b = b and key = "casefold n" and g = g', OF h]
    by (auto simp: admit_generation_def n Let_def intro!: runs_one split: option.splits)
qed

lemma control_refines: "runs atom b (fst (control r b))"
proof (cases "require_active_generation b (ct_character r) (ct_generation r)")
  case (Inl e)
  then show ?thesis by (simp add: control_def runs_refl)
next
  case (Inr u)
  then show ?thesis
    using runs_one [where step = atom, OF at_enable [where b = b and c = "ct_character r"
          and g = "ct_generation r" and key = "casefold (ct_character r)"]]
      runs_one [where step = atom, OF at_kill [where b = b and c = "ct_character r"
          and g = "ct_generation r" and key = "casefold (ct_character r)"]]
    by (cases "ct_enabled r") (simp_all add: control_def Let_def)
qed

lemma admission_Inr:
  assumes "admission b p now fresh = Inr a"
  shows "fresh_action a \<and> authorised b a \<and> act_id a = fresh \<and> act_created_at a = now
    \<and> (\<exists>kind. evaluate_proposal (br_manifest b) p = Inr (act_commands a, kind, act_confirmation_required a)
         \<and> act_kind a = kind)
    \<and> expiry_of now p = Inr (act_expires_at a)"
  using assms
  by (auto simp: admission_def Let_def rbind_Inr_iff fresh_action_def authorised_def
      split: option.splits if_splits prod.splits)

lemma evaluate_steps_Inr:
  assumes "evaluate_steps m i cs = Inr ns"
  shows "length ns = length cs
    \<and> (\<forall>n \<in> set ns. \<exists>c d. evaluate m c = Inr (n, d) \<and> c \<noteq> [] \<and> length c \<le> max_command_length
         \<and> pd_kind d \<in> {''inspection'', ''inventory'', ''crafting''} \<and> is_controller_control m n = Inr False)"
  using assms
proof (induction cs arbitrary: i ns)
  case Nil
  then show ?case by simp
next
  case (Cons c cs)
  from Cons.prems obtain checked n d rest where
    "act_text (PStr c) (''commands['' @ nat_str i @ '']'') max_command_length = Inr checked"
    "evaluate m checked = Inr (n, d)" "is_controller_control m n = Inr False"
    "pd_kind d \<in> {''inspection'', ''inventory'', ''crafting''}"
    "evaluate_steps m (Suc i) cs = Inr rest" "ns = n # rest"
    by (auto simp: rbind_Inr_iff split: if_splits)
  with Cons.IH [of "Suc i" rest] act_text_bounds show ?case by fastforce
qed

lemma evaluate_proposal_Inr:
  assumes "evaluate_proposal m p = Inr (ns, kind, conf)"
  shows "(\<forall>n \<in> set ns. \<exists>c d. evaluate m c = Inr (n, d))
    \<and> 1 \<le> length ns \<and> length ns \<le> max_sequence_commands
    \<and> (2 \<le> length ns \<longrightarrow> kind = ''sequence'' \<and> conf \<and> sum_list (map length ns) \<le> max_sequence_length
         \<and> (\<forall>n \<in> set ns. is_controller_control m n = Inr False))"
proof (cases "pr_command p")
  case None
  with assms have "evaluate_steps m 0 (pr_commands p) = Inr ns"
    and "2 \<le> length (pr_commands p)" "length (pr_commands p) \<le> max_sequence_commands"
    and "kind = ''sequence''" "conf" "sum_list (map length ns) \<le> max_sequence_length"
    by (auto simp: evaluate_proposal_def Let_def rbind_Inr_iff split: if_splits)
  with evaluate_steps_Inr [OF this(1)] show ?thesis by fastforce
next
  case (Some c)
  with assms show ?thesis
    by (auto simp: evaluate_proposal_def Let_def rbind_Inr_iff max_sequence_commands_def split: if_splits) blast+
qed

lemma submit_refines:
  assumes "fresh \<notin> set (dkeys (br_actions b))"
  shows "runs atom b (fst (submit p now fresh b))"
proof (cases "admission b p now fresh")
  case (Inl e)
  then show ?thesis by (simp add: submit_def runs_refl)
next
  case (Inr a)
  from admission_Inr [OF Inr] have a: "fresh_action a" "authorised b a" "act_id a = fresh"
    and "\<exists>k. evaluate_proposal (br_manifest b) p = Inr (act_commands a, k, act_confirmation_required a)" by blast+
  then have "accepted b a" using evaluate_proposal_Inr unfolding accepted_def by blast
  with a Inr assms show ?thesis by (auto simp: submit_def intro!: runs_one at_submit)
qed

lemma runs_expire: "runs atom b (expire_locked now b)"
  by (rule runs_one, rule at_expire)

lemma runs_expire_then: "atom (expire_locked now b) c \<Longrightarrow> runs atom b c"
  by (rule runs_two) (rule at_expire)

lemma not_room_ok: "(act_expected_room_id a \<noteq> None \<and> act_expected_room_id a \<noteq> Some r) = (\<not> room_ok a r)"
  by (simp add: room_ok_def)

lemma get_refines: "runs atom b (fst (get_action i now b))"
  by (auto simp: get_action_def Let_def runs_expire split: sum.splits)

lemma record_result_refines: "runs atom b (fst (record_result r b))"
  by (auto simp: record_result_def Let_def runs_refl
      intro!: runs_one [where step = atom, OF at_result] split: sum.splits)

lemma approve_refines: "runs atom b (fst (approve ap now b))"
  unfolding approve_def Let_def not_room_ok
  by (auto simp: runs_expire is_pending_def intro!: runs_expire_then [where now = now] at_approve at_deny split: sum.splits)

lemma atom_cancel:
  "map_of (br_actions b) k = Some a \<Longrightarrow> is_pending a \<Longrightarrow> harmless e \<Longrightarrow>
     atom b (audit [e] (set_action (a\<lparr>act_status := Cancelled\<rparr>) b))"
  using at_cancel [where b = b and k = k and a = a and evs = "[e]" and stop = "act_stop_requested a"] by simp

lemma atom_stop:
  "map_of (br_actions b) k = Some a \<Longrightarrow> harmless e \<Longrightarrow> atom b (audit [e] (set_action (a\<lparr>act_stop_requested := True\<rparr>) b))"
  using at_flag [where b = b and k = k and a = a and evs = "[e]" and stop = True and ret = "act_return_requested a"] by simp

lemma atom_return:
  "map_of (br_actions b) k = Some a \<Longrightarrow> harmless e \<Longrightarrow> atom b (audit [e] (set_action (a\<lparr>act_return_requested := True\<rparr>) b))"
  using at_flag [where b = b and k = k and a = a and evs = "[e]" and stop = "act_stop_requested a" and ret = True] by simp

lemma atom_keep: "map_of (br_actions b) k = Some a \<Longrightarrow> harmless e \<Longrightarrow> atom b (audit [e] (set_action a b))"
  using at_flag [where b = b and k = k and a = a and evs = "[e]" and stop = "act_stop_requested a" and ret = "act_return_requested a"]
  by simp

lemma atom_stop_marked:
  "map_of (br_actions b) k = Some a \<Longrightarrow> harmless e \<Longrightarrow> atom b (audit [e] (set_action (stop_marked a) b))"
  using at_cancel [where b = b and k = k and a = a and evs = "[e]" and stop = True] atom_stop [of b k a e]
  by (simp add: stop_marked_def Let_def)

lemma map_of_expired:
  "map_of (br_actions b) k = Some a \<Longrightarrow> map_of (br_actions (expire_locked now b)) k = Some (expire_action now a)"
  by simp

lemmas runs_cancel = runs_expire_then [OF atom_cancel, OF map_of_expired]
  and runs_stop = runs_expire_then [OF atom_stop, OF map_of_expired]
  and runs_keep = runs_expire_then [OF atom_keep, OF map_of_expired]
  and runs_return = runs_expire_then [OF atom_return, OF map_of_expired]
  and runs_stop_marked = runs_expire_then [OF atom_stop_marked, OF map_of_expired]

lemma cancel_refines: "runs atom b (fst (cancel i c g now b))"
  by (auto simp: cancel_def Let_def rbind_Inr_iff runs_refl runs_expire harmless_def
      intro!: runs_cancel runs_stop split: sum.splits)

lemma test_stop_refines: "runs atom b (fst (request_test_stop i c g now b))"
  by (auto simp: request_test_stop_def Let_def rbind_Inr_iff runs_refl harmless_def
      intro!: runs_cancel runs_stop runs_keep split: sum.splits)

lemma revoke_control_refines: "runs atom b (fst (revoke_controller_control i c g now b))"
  by (auto simp: revoke_controller_control_def Let_def rbind_Inr_iff runs_refl harmless_def
      intro!: runs_stop_marked split: sum.splits)

lemma revoke_run_refines: "runs atom b (fst (revoke_controller_run i c g now b))"
  by (auto simp: revoke_controller_run_def Let_def rbind_Inr_iff runs_refl harmless_def
      intro!: runs_stop_marked split: sum.splits)

lemma return_refines: "runs atom b (fst (request_controller_return i c g now now2 b))"
  by (auto simp: request_controller_return_def Let_def rbind_Inr_iff runs_refl runs_expire harmless_def
      intro!: runs_return split: sum.splits)

section \<open>Refinement of delivery\<close>

lemma dput_middle: "k \<notin> set (dkeys pre) \<Longrightarrow> dput k v (pre @ (k, a) # post) = pre @ (k, v) # post"
  by (induction pre) (auto simp: dkeys_def)

lemma keys_ok_middle:
  "keys_ok (pre @ (k, a) # post) \<Longrightarrow>
     k \<notin> set (dkeys pre) \<and> act_id a = k \<and> map_of (pre @ (k, a) # post) k = Some a"
proof -
  assume ok: "keys_ok (pre @ (k, a) # post)"
  then have k: "k \<notin> set (dkeys pre)" by (auto simp: keys_ok_def dkeys_def)
  then have "map_of pre k = None" by (simp add: in_dkeys_iff)
  then have "map_of (pre @ (k, a) # post) k = Some a" by (simp add: map_add_def)
  with ok k show ?thesis by (auto simp: keys_ok_def)
qed

lemma set_action_middle:
  assumes "keys_ok (br_actions b)" and "br_actions b = pre @ (k, a) # post" and "act_id a' = act_id a"
  shows "set_action a' b = b\<lparr>br_actions := pre @ (k, a') # post\<rparr>"
  using assms keys_ok_middle [of pre k a post] dput_middle [of k pre a' a post]
  by (simp add: set_action_def)

definition serves :: "broker \<Rightarrow> action_context \<Rightarrow> bool" where
  "serves b cx = (map_of (br_generations b) (casefold (cx_character cx)) = Some (cx_generation cx)
     \<and> casefold (cx_character cx) \<in> set (br_enabled b))"

lemma poll_scan_refines:
  assumes "poll_scan cx as = (as', evs, r)" and "br_actions b = pre @ as"
    and "keys_ok (br_actions b)" and "serves b cx"
  shows "runs atom b (audit evs (b\<lparr>br_actions := pre @ as'\<rparr>))"
  using assms
proof (induction as arbitrary: b pre as' evs r)
  case Nil
  then have "audit evs (b\<lparr>br_actions := pre @ as'\<rparr>) = b" by (simp add: audit_def)
  then show ?case by (simp add: runs_refl)
next
  case (Cons p as)
  obtain k a where p: "p = (k, a)" by (cases p)
  note acts = Cons.prems(2) [unfolded p]
  note ok = Cons.prems(3) and sv = Cons.prems(4)
  from keys_ok_middle [of pre k a as] ok acts
  have k: "act_id a = k" "map_of (br_actions b) k = Some a" by simp_all
  obtain as1 evs1 r1 where s: "poll_scan cx as = (as1, evs1, r1)" by (cases "poll_scan cx as") auto
  let ?mine = "\<not> (casefold (act_character_name a) \<noteq> casefold (cx_character cx) \<or> act_gen a \<noteq> cx_generation cx)"
  note mid = set_action_middle [OF ok acts]
  show ?case
  proof (cases "?mine \<and> act_status a = ConfirmationRequired \<and> \<not> act_notified a")
    case True
    then have e: "as' = (k, a\<lparr>act_notified := True\<rparr>) # as" "evs = [ConfirmationRequested (a\<lparr>act_notified := True\<rparr>)]"
      using Cons.prems(1) [unfolded p] by (simp_all add: Let_def)
    from True at_notify [OF k(2)] show ?thesis
      unfolding e by (intro runs_one) (simp add: mid)
  next
    case not_notify: False
    show ?thesis
    proof (cases "?mine \<and> act_status a = Queued")
      case False
      then have e: "as' = (k, a) # as1" "evs = evs1"
        using not_notify Cons.prems(1) [unfolded p] s by (auto simp: Let_def split: if_splits)
      have "runs atom b (audit evs1 (b\<lparr>br_actions := (pre @ [(k, a)]) @ as1\<rparr>))"
        by (rule Cons.IH [OF s]) (use acts ok sv in simp_all)
      then show ?thesis unfolding e by simp
    next
      case queued: True
      show ?thesis
      proof (cases "room_ok a (cx_room_id cx)")
        case True
        let ?a = "a\<lparr>act_status := Dispatched\<rparr>"
        have e: "as' = (k, ?a) # as" "evs = [ActionDispatched ?a (cx_room_id cx)]"
          using True queued Cons.prems(1) [unfolded p] by (auto simp: Let_def room_ok_def)
        have "authorised b a" using queued sv by (simp add: authorised_def serves_def)
        then have "atom b (audit [ActionDispatched ?a (cx_room_id cx)] (set_action ?a b))"
          using queued True by (intro at_dispatch [OF k(2)]) simp_all
        then show ?thesis unfolding e by (intro runs_one) (simp add: mid)
      next
        case False
        let ?a = "a\<lparr>act_status := DeniedStaleRoom\<rparr>"
        let ?e = "ActionDenied ''stale_room'' ?a (cx_room_id cx)"
        let ?b = "audit [?e] (set_action ?a b)"
        have e: "as' = (k, ?a) # as1" "evs = ?e # evs1"
          using False queued Cons.prems(1) [unfolded p] s by (auto simp: Let_def room_ok_def)
        have one: "atom b ?b" by (rule at_deny [OF k(2)]) (use queued False in \<open>simp_all add: is_pending_def\<close>)
        have acts': "br_actions ?b = (pre @ [(k, ?a)]) @ as" by (simp add: mid)
        have ok': "keys_ok (br_actions ?b)"
          using ok k by (simp add: keys_ok_put)
        have sv': "serves ?b cx" using sv by (simp add: serves_def)
        have "runs atom ?b (audit evs1 (?b\<lparr>br_actions := (pre @ [(k, ?a)]) @ as1\<rparr>))"
          by (rule Cons.IH [OF s acts' ok' sv'])
        then have "runs atom b (audit evs1 (?b\<lparr>br_actions := (pre @ [(k, ?a)]) @ as1\<rparr>))"
          by (rule runs_trans) (rule runs_one [where step = atom, OF one])
        moreover have "audit evs1 (?b\<lparr>br_actions := (pre @ [(k, ?a)]) @ as1\<rparr>) =
            audit evs (b\<lparr>br_actions := pre @ as'\<rparr>)"
          by (simp add: e mid audit_def)
        ultimately show ?thesis by simp
      qed
    qed
  qed
qed

lemma require_active_generation_Inr [simp]:
  "require_active_generation b c g = Inr u \<longleftrightarrow> map_of (br_generations b) (casefold c) = Some g"
  by (auto simp: require_active_generation_def split: option.splits)

lemma poll_refines:
  assumes "keys_ok (br_actions b)"
  shows "runs atom b (fst (poll cx now b))"
proof -
  let ?b = "expire_locked now b"
  obtain as evs r where s: "poll_scan cx (br_actions ?b) = (as, evs, r)"
    by (cases "poll_scan cx (br_actions ?b)") auto
  have "runs atom b (audit evs (?b\<lparr>br_actions := as\<rparr>))" if "serves ?b cx"
    using poll_scan_refines [OF s, of ?b "[]"] that keys_ok_expire [OF assms]
    by (auto intro: runs_trans [OF _ runs_expire])
  then show ?thesis
    by (auto simp: fst_poll poll_locked_def Let_def s serves_def runs_expire split: sum.splits)
qed

lemmas op_refines = admit_refines control_refines submit_refines poll_refines approve_refines
  record_result_refines get_refines cancel_refines test_stop_refines revoke_control_refines
  revoke_run_refines return_refines

theorem broker_step_refines: "broker_step b b' \<Longrightarrow> keys_ok (br_actions b) \<Longrightarrow> runs atom b b'"
  by (induction rule: broker_step.induct) (simp_all add: op_refines)

end
