(* ===== verification/BrokerSafety.thy ===== *)
theory BrokerSafety
  imports BrokerSpec
begin

text \<open>
  The safety invariant of the action broker, proved on the abstract machine of \<open>BrokerSpec\<close>
  and transferred to the operations: pending actions are authorised, every action is
  dispatched at most once and only after its approval, and completion data agrees with the
  status.  The properties of the broker follow from it and from the single operations.
\<close>

section \<open>The audit trail\<close>

definition dispatches :: "string \<Rightarrow> audit_event list \<Rightarrow> nat" where
  "dispatches k evs = length (filter (is_dispatch k) evs)"

definition approved :: "string \<Rightarrow> audit_event list \<Rightarrow> bool" where
  "approved k evs = list_ex (is_approval k) evs"

fun dispatch_ok :: "audit_event \<Rightarrow> audit_event list \<Rightarrow> bool" where
  \<comment> \<open>what a dispatch requires of the events before it\<close>
  "dispatch_ok (ActionDispatched a r) evs =
     (room_ok a r \<and> (act_confirmation_required a \<longrightarrow> approved (act_id a) evs))"
| "dispatch_ok _ evs = True"

definition well_ordered :: "audit_event list \<Rightarrow> bool" where
  "well_ordered evs = (\<forall>n < length evs. dispatch_ok (evs ! n) (take n evs))"

lemma dispatches_append [simp]: "dispatches k (xs @ ys) = dispatches k xs + dispatches k ys"
  by (simp add: dispatches_def)

lemma approved_append [simp]: "approved k (xs @ ys) = (approved k xs \<or> approved k ys)"
  by (auto simp: approved_def)

lemma harmless_dispatches [simp]: "list_all harmless evs \<Longrightarrow> dispatches k evs = 0"
  by (induction evs) (auto simp: dispatches_def harmless_def split: audit_event.splits)

lemma harmless_dispatch_ok: "harmless e \<Longrightarrow> dispatch_ok e evs"
  by (cases e) (simp_all add: harmless_def)

lemma well_ordered_snoc: "well_ordered (evs @ [e]) \<longleftrightarrow> well_ordered evs \<and> dispatch_ok e evs"
  unfolding well_ordered_def by (auto simp: nth_append less_Suc_eq)

lemma well_ordered_harmless: "list_all harmless fs \<Longrightarrow> well_ordered (evs @ fs) = well_ordered evs"
proof (induction fs rule: rev_induct)
  case Nil
  then show ?case by simp
next
  case (snoc f fs)
  then show ?case
    using well_ordered_snoc [of "evs @ fs" f] by (auto simp: harmless_dispatch_ok)
qed

section \<open>The invariant\<close>

definition action_inv :: "broker \<Rightarrow> action \<Rightarrow> bool" where
  "action_inv b a =
     ((is_pending a \<longrightarrow> authorised b a)
      \<and> (act_confirmation_required a \<longrightarrow> act_status a = Queued \<or> is_sent a \<longrightarrow> approved (act_id a) (br_audit b))
      \<and> (\<not> act_confirmation_required a \<longrightarrow> act_status a \<noteq> ConfirmationRequired)
      \<and> (act_completion a \<noteq> None \<longleftrightarrow> act_status a = Completed \<or> act_status a = Failed)
      \<and> (act_status a = Failed \<longleftrightarrow> act_completion a = Some ''failed'')
      \<and> dispatches (act_id a) (br_audit b) = (if is_sent a then 1 else 0))"

definition broker_inv :: "broker \<Rightarrow> bool" where
  "broker_inv b =
     (keys_ok (br_actions b)
      \<and> (\<forall>k a. map_of (br_actions b) k = Some a \<longrightarrow> action_inv b a)
      \<and> (\<forall>k. map_of (br_actions b) k = None \<longrightarrow> dispatches k (br_audit b) = 0)
      \<and> well_ordered (br_audit b))"

lemma broker_invI:
  assumes "keys_ok (br_actions b)"
    and "\<And>k a. map_of (br_actions b) k = Some a \<Longrightarrow> act_id a = k \<Longrightarrow> action_inv b a"
    and "\<And>k. map_of (br_actions b) k = None \<Longrightarrow> dispatches k (br_audit b) = 0"
    and "well_ordered (br_audit b)"
  shows "broker_inv b"
  using assms unfolding broker_inv_def keys_ok_def by blast

lemma broker_invD:
  assumes "broker_inv b"
  shows "keys_ok (br_actions b)" and "map_of (br_actions b) k = Some a \<Longrightarrow> action_inv b a \<and> act_id a = k"
    and "map_of (br_actions b) k = None \<Longrightarrow> dispatches k (br_audit b) = 0" and "well_ordered (br_audit b)"
  using assms unfolding broker_inv_def keys_ok_def by blast+

lemma broker_inv_init: "broker_inv (broker_init m)"
  by (simp add: broker_inv_def broker_init_def keys_ok_def dkeys_def dispatches_def well_ordered_def)

text \<open>Replacing one action by an evolved one, with audit events.\<close>

lemma inv_set:
  assumes inv: "broker_inv b" and a: "map_of (br_actions b) k = Some a" and ev: "act_id a' = act_id a"
    and new: "action_inv (audit evs (set_action a' b)) a'"
    and others: "\<And>k'. k' \<noteq> k \<Longrightarrow> dispatches k' evs = 0"
    and wo: "well_ordered (br_audit b @ evs)"
  shows "broker_inv (audit evs (set_action a' b))"
proof (rule broker_invI)
  note D = broker_invD [OF inv]
  have id: "act_id a = k" using D(2) [OF a] by simp
  show "keys_ok (br_actions (audit evs (set_action a' b)))"
    using D(1) by (simp add: keys_ok_put)
  show "well_ordered (br_audit (audit evs (set_action a' b)))" using wo by simp
  fix k1 a1
  show "action_inv (audit evs (set_action a' b)) a1"
    if "map_of (br_actions (audit evs (set_action a' b))) k1 = Some a1" and "act_id a1 = k1"
  proof (cases "k1 = k")
    case True
    with that id ev new show ?thesis by simp
  next
    case False
    with that id ev D(2) [of k1 a1] others [of k1] show ?thesis
      by (auto simp: action_inv_def authorised_def)
  qed
  show "dispatches k1 (br_audit (audit evs (set_action a' b))) = 0"
    if "map_of (br_actions (audit evs (set_action a' b))) k1 = None"
    using that id ev a D(3) [of k1] others [of k1] by (auto split: if_splits)
qed

text \<open>Changing all actions without touching the audit trail.\<close>

lemma inv_map:
  assumes inv: "broker_inv b" and h: "list_all harmless evs"
    and acts: "\<And>k. map_of (br_actions c) k = map_option f (map_of (br_actions b) k)"
    and keys: "dkeys (br_actions c) = dkeys (br_actions b)"
    and aud: "br_audit c = br_audit b"
    and fid: "\<And>a. act_id (f a) = act_id a"
    and new: "\<And>a. action_inv b a \<Longrightarrow> action_inv c (f a)"
  shows "broker_inv (audit evs c)"
proof (rule broker_invI)
  note D = broker_invD [OF inv]
  show "keys_ok (br_actions (audit evs c))"
    using D(1) acts keys fid by (auto simp: keys_ok_def)
  show "well_ordered (br_audit (audit evs c))" using D(4) h aud by (simp add: well_ordered_harmless)
  fix k a
  show "action_inv (audit evs c) a" if "map_of (br_actions (audit evs c)) k = Some a" and "act_id a = k"
  proof -
    from that acts obtain a0 where a0: "map_of (br_actions b) k = Some a0" "a = f a0" by auto
    with new D(2) have "action_inv c a" by blast
    with h show ?thesis by (auto simp: action_inv_def authorised_def)
  qed
  show "dispatches k (br_audit (audit evs c)) = 0" if "map_of (br_actions (audit evs c)) k = None"
    using that acts aud h D(3) [of k] by simp
qed

section \<open>Every transition keeps the invariant\<close>

lemma harmless_simps [simp]:
  "harmless (ActionProposed a)" "harmless (ActionExpired a)" "harmless (ConfirmationRequested a)"
  "harmless (ActionDenied s a r)" "harmless (ActionResulted a s)" "harmless (ExecutionEnabled c g)"
  "harmless (KillSwitch c g)" "\<not> harmless (ActionDispatched a r)" "\<not> harmless (ActionApproved a r m)"
  by (simp_all add: harmless_def)

lemma single_dispatches [simp]:
  "dispatches k [ActionDispatched a r] = (if act_id a = k then 1 else 0)"
  "dispatches k [ActionApproved a r m] = 0" "approved k [ActionApproved a r m] = (act_id a = k)"
  "approved k [ActionDispatched a r] = False"
  by (simp_all add: dispatches_def approved_def)

lemma inv_set_harmless:
  assumes "broker_inv b" and "map_of (br_actions b) k = Some a" and "act_id a' = act_id a"
    and "list_all harmless evs" and "action_inv b a \<Longrightarrow> action_inv (audit evs (set_action a' b)) a'"
  shows "broker_inv (audit evs (set_action a' b))"
  by (rule inv_set [OF assms(1,2,3)])
     (use assms broker_invD [OF assms(1)] in \<open>auto simp: well_ordered_harmless\<close>)

lemma inv_expire: "broker_inv b \<Longrightarrow> broker_inv (expire_locked now b)"
  unfolding expire_locked_def
  by (rule inv_map [where f = "expire_action now" and b = b])
     (auto simp: list_all_iff expire_action_def action_inv_def authorised_def is_pending_def is_sent_def)

lemma inv_submit:
  assumes inv: "broker_inv b" and f: "fresh_action a" "authorised b a"
    and new: "act_id a \<notin> set (dkeys (br_actions b))"
  shows "broker_inv (set_action a (audit [ActionProposed a] b))"
proof (rule broker_invI)
  let ?b = "set_action a (audit [ActionProposed a] b)"
  note D = broker_invD [OF inv]
  from new have none: "map_of (br_actions b) (act_id a) = None" by (simp add: in_dkeys_iff)
  show "keys_ok (br_actions ?b)" using D(1) by (simp add: keys_ok_put)
  show "well_ordered (br_audit ?b)" using D(4) by (simp add: well_ordered_harmless)
  fix k a1
  show "action_inv ?b a1" if "map_of (br_actions ?b) k = Some a1" and "act_id a1 = k"
  proof (cases "k = act_id a")
    case True
    with that f D(3) [OF none] show ?thesis
      by (auto simp: action_inv_def fresh_action_def authorised_def is_sent_def split: if_splits)
  next
    case False
    with that D(2) [of k a1] show ?thesis by (auto simp: action_inv_def authorised_def)
  qed
  show "dispatches k (br_audit ?b) = 0" if "map_of (br_actions ?b) k = None"
    using that D(3) [of k] by (simp split: if_splits)
qed

lemma inv_dispatch:
  assumes inv: "broker_inv b" and a: "map_of (br_actions b) k = Some a" and q: "act_status a = Queued"
    and "room_ok a r" and a': "a' = a\<lparr>act_status := Dispatched\<rparr>"
  shows "broker_inv (audit [ActionDispatched a' r] (set_action a' b))"
proof (rule inv_set [OF inv a])
  note D = broker_invD [OF inv]
  from D(2) [OF a] have ai: "action_inv b a" "act_id a = k" by simp_all
  show "act_id a' = act_id a" by (simp add: a')
  show "action_inv (audit [ActionDispatched a' r] (set_action a' b)) a'"
    using ai q by (auto simp: action_inv_def a' is_pending_def is_sent_def)
  show "dispatches k' [ActionDispatched a' r] = 0" if "k' \<noteq> k" for k'
    using that ai by (simp add: a')
  show "well_ordered (br_audit b @ [ActionDispatched a' r])"
    using D(4) ai q assms(4) by (auto simp: well_ordered_snoc action_inv_def a' room_ok_def)
qed

lemma inv_approve:
  assumes inv: "broker_inv b" and a: "map_of (br_actions b) k = Some a" and c: "act_status a = ConfirmationRequired"
    and a': "a' = a\<lparr>act_expected_room_id := Some r, act_status := Queued\<rparr>"
  shows "broker_inv (audit [ActionApproved a' r m] (set_action a' b))"
proof (rule inv_set [OF inv a])
  note D = broker_invD [OF inv]
  from D(2) [OF a] have ai: "action_inv b a" by simp
  show "act_id a' = act_id a" by (simp add: a')
  show "action_inv (audit [ActionApproved a' r m] (set_action a' b)) a'"
    using ai c by (auto simp: action_inv_def a' is_pending_def is_sent_def authorised_def)
  show "dispatches k' [ActionApproved a' r m] = 0" for k' by simp
  show "well_ordered (br_audit b @ [ActionApproved a' r m])" using D(4) by (simp add: well_ordered_snoc)
qed

lemma inv_sessions:
  assumes "broker_inv b" and "map_of (br_generations b) key = None \<or> map_of (br_generations b) key = Some g"
  shows "broker_inv (b\<lparr>br_generations := dput key g (br_generations b)\<rparr>)"
proof -
  have "broker_inv (audit [] (b\<lparr>br_generations := dput key g (br_generations b)\<rparr>))"
    by (rule inv_map [where f = "\<lambda>a. a" and b = b])
       (use assms in \<open>auto simp: action_inv_def authorised_def option.map_ident\<close>)
  then show ?thesis by (simp add: audit_def)
qed

lemma inv_replace:
  assumes "broker_inv b" and "list_all harmless evs"
  shows "broker_inv (audit evs (map_actions (replace_generation key g)
            (b\<lparr>br_generations := dput key g (br_generations b)\<rparr>)))"
proof (rule inv_map [where f = "replace_generation key g" and b = b])
  fix a assume "action_inv b a"
  then show "action_inv (map_actions (replace_generation key g)
      (b\<lparr>br_generations := dput key g (br_generations b)\<rparr>)) (replace_generation key g a)"
    by (cases "act_status a")
       (auto simp: action_inv_def replace_generation_def Let_def authorised_def is_pending_def is_sent_def same_character_def)
qed (use assms in \<open>simp_all add: evolves_id [OF evolves_replace]\<close>)

lemma inv_enable:
  assumes "broker_inv b"
  shows "broker_inv (audit [ExecutionEnabled c g]
    (b\<lparr>br_enabled := (if key \<in> set (br_enabled b) then br_enabled b else key # br_enabled b)\<rparr>))"
  by (rule inv_map [where f = "\<lambda>a. a" and b = b])
     (use assms in \<open>auto simp: action_inv_def authorised_def option.map_ident\<close>)

lemma inv_kill:
  assumes "broker_inv b"
  shows "broker_inv (audit [KillSwitch c g]
    (map_actions (kill_action key) (b\<lparr>br_enabled := filter (\<lambda>k. k \<noteq> key) (br_enabled b)\<rparr>)))"
proof (rule inv_map [where f = "kill_action key" and b = b])
  fix a assume "action_inv b a"
  then show "action_inv (map_actions (kill_action key) (b\<lparr>br_enabled := filter (\<lambda>k. k \<noteq> key) (br_enabled b)\<rparr>)) (kill_action key a)"
    by (cases "act_status a")
       (auto simp: action_inv_def kill_action_def Let_def authorised_def is_pending_def is_sent_def same_character_def)
qed (use assms in \<open>simp_all add: evolves_id [OF evolves_kill]\<close>)

lemma atom_inv: "atom b c \<Longrightarrow> broker_inv b \<Longrightarrow> broker_inv c"
proof (induction rule: atom.induct)
  case (at_expire b now)
  then show ?case by (simp add: inv_expire)
next
  case (at_submit a b)
  then show ?case by (simp add: inv_submit)
next
  case (at_notify b k a)
  then show ?case
    by (intro inv_set_harmless [of b k a])
       (auto simp: action_inv_def is_pending_def is_sent_def authorised_def)
next
  case (at_approve b k a r a' mode)
  then show ?case by (intro inv_approve [of b k a])
next
  case (at_deny b k a r a' reason)
  then show ?case
    by (intro inv_set_harmless [of b k a])
       (auto simp: action_inv_def is_pending_def is_sent_def authorised_def)
next
  case (at_dispatch b k a r a')
  then show ?case by (intro inv_dispatch [of b k a])
next
  case (at_result b k a rs)
  then show ?case
    by (intro inv_set_harmless [of b k a])
       (auto simp: action_inv_def is_pending_def is_sent_def authorised_def apply_outcome_def)
next
  case (at_cancel b k a evs stop)
  then show ?case
    by (intro inv_set_harmless [of b k a])
       (auto simp: action_inv_def is_pending_def is_sent_def authorised_def)
next
  case (at_flag b k a evs stop ret)
  then show ?case
    by (intro inv_set_harmless [of b k a])
       (auto simp: action_inv_def is_pending_def is_sent_def authorised_def)
next
  case (at_new_session b key g)
  then show ?case by (simp add: inv_sessions)
next
  case (at_replace_session evs b key g)
  then show ?case by (simp add: inv_replace)
next
  case (at_enable b c g key)
  then show ?case by (rule inv_enable)
next
  case (at_kill b c g key)
  then show ?case by (simp add: inv_kill)
qed

interpretation spec: invariant_system "\<lambda>b. b = broker_init m" atom broker_inv for m
  by unfold_locales (auto simp: broker_inv_init intro: atom_inv)

lemma broker_step_inv: "broker_inv b \<Longrightarrow> broker_step b b' \<Longrightarrow> broker_inv b'"
  using spec.runs_inv broker_step_refines broker_invD(1) by blast

interpretation brk: invariant_system "\<lambda>b. b = broker_init m" broker_step broker_inv for m
  by unfold_locales (auto simp: broker_inv_init intro: broker_step_inv)

interpretation life: evolving_system broker_step broker_inv "\<lambda>b k. map_of (br_actions b) k" evolves
proof unfold_locales
  show "evolves e f \<Longrightarrow> evolves f g \<Longrightarrow> evolves e g" for e f g by (rule evolves_trans)
  show "broker_inv s \<Longrightarrow> broker_step s t \<Longrightarrow> broker_inv t" for s t by (rule broker_step_inv)
  show "\<exists>f. map_of (br_actions t) k = Some f \<and> evolves e f"
    if "broker_inv s" "broker_step s t" "map_of (br_actions s) k = Some e" for s t k e
    using broker_step_ok [OF that(2)] broker_invD(1) [OF that(1)] that(3)
    by (auto simp: op_ok_def acts_evolve_def)
qed simp

end
