(* ===== verification/BrokerProperties.thy ===== *)
theory BrokerProperties
  imports BrokerSafety
begin

text \<open>
  The properties of the action broker: at-most-once dispatch, dispatch only after approval
  in the approved room and the active session, monotone life cycles, the kill switch,
  session replacement, complete delivery, and truthful results.
\<close>

section \<open>Reachable brokers\<close>

lemma broker_reach_inv: "broker_reach m b \<Longrightarrow> broker_inv b"
  by (rule brk.reach_inv)

lemma reach_keys_ok: "broker_reach m b \<Longrightarrow> keys_ok (br_actions b)"
  by (rule broker_invD(1)) (rule broker_reach_inv)

lemma dispatches_le_one: "broker_inv b \<Longrightarrow> dispatches k (br_audit b) \<le> 1"
proof (cases "map_of (br_actions b) k")
  case None
  then show "broker_inv b \<Longrightarrow> dispatches k (br_audit b) \<le> 1" by (simp add: broker_invD(3))
next
  case (Some a)
  assume "broker_inv b"
  from broker_invD(2) [OF this Some] have "dispatches k (br_audit b) = (if is_sent a then 1 else 0)"
    unfolding action_inv_def by blast
  then show ?thesis by simp
qed

lemma well_orderedD:
  assumes "well_ordered (xs @ ActionDispatched a r # ys)"
  shows "room_ok a r \<and> (act_confirmation_required a \<longrightarrow> approved (act_id a) xs)"
  using assms [unfolded well_ordered_def, rule_format, of "length xs"] by simp

section \<open>Single operations\<close>

definition addressed :: "action_context \<Rightarrow> action \<Rightarrow> bool" where
  "addressed cx a = (casefold (act_character_name a) = casefold (cx_character cx) \<and> act_gen a = cx_generation cx)"

definition delivered :: "action_context \<Rightarrow> action \<Rightarrow> action \<Rightarrow> string \<Rightarrow> bool" where
  \<comment> \<open>an action \<open>a\<close> handed out as \<open>a'\<close> with an instruction\<close>
  "delivered cx a a' i =
     (addressed cx a
      \<and> (i = ''execute'' \<and> act_status a = Queued \<and> room_ok a (cx_room_id cx) \<and> a' = a\<lparr>act_status := Dispatched\<rparr>
         \<or> i = ''confirmation_required'' \<and> act_status a = ConfirmationRequired \<and> \<not> act_notified a
           \<and> a' = a\<lparr>act_notified := True\<rparr>))"

definition deliverable :: "action_context \<Rightarrow> action \<Rightarrow> bool" where
  "deliverable cx a = (addressed cx a
     \<and> (act_status a = Queued \<or> act_status a = ConfirmationRequired \<and> \<not> act_notified a))"

lemma poll_scan_Cons:
  assumes "poll_scan cx ((k, a) # d) = (d', evs, r)"
  shows "(\<exists>a' i. r = Some (a', i) \<and> delivered cx a a' i \<and> d' = (k, a') # d)
     \<or> (\<exists>b d1 evs1. poll_scan cx d = (d1, evs1, r) \<and> d' = (k, b) # d1 \<and> \<not> deliverable cx b)"
proof -
  obtain d1 evs1 r1 where s: "poll_scan cx d = (d1, evs1, r1)" by (cases "poll_scan cx d") auto
  consider (skip) "\<not> deliverable cx a" | (notify) "addressed cx a" "act_status a = ConfirmationRequired" "\<not> act_notified a"
    | (run) "addressed cx a" "act_status a = Queued" "room_ok a (cx_room_id cx)"
    | (deny) "addressed cx a" "act_status a = Queued" "\<not> room_ok a (cx_room_id cx)"
    by (auto simp: deliverable_def)
  then show ?thesis
  proof cases
    case skip
    then have "d' = (k, a) # d1 \<and> r = r1"
      using assms s by (auto simp: deliverable_def addressed_def Let_def split: if_splits)
    with skip s show ?thesis by blast
  next
    case notify
    then have "d' = (k, a\<lparr>act_notified := True\<rparr>) # d \<and> r = Some (a\<lparr>act_notified := True\<rparr>, ''confirmation_required'')"
      using assms by (auto simp: addressed_def Let_def)
    with notify show ?thesis by (simp add: delivered_def)
  next
    case run
    then have "d' = (k, a\<lparr>act_status := Dispatched\<rparr>) # d \<and> r = Some (a\<lparr>act_status := Dispatched\<rparr>, ''execute'')"
      using assms by (auto simp: addressed_def Let_def room_ok_def)
    with run show ?thesis by (simp add: delivered_def)
  next
    case deny
    then have "d' = (k, a\<lparr>act_status := DeniedStaleRoom\<rparr>) # d1 \<and> r = r1"
      using assms s by (auto simp: addressed_def Let_def room_ok_def)
    moreover have "\<not> deliverable cx (a\<lparr>act_status := DeniedStaleRoom\<rparr>)" by (simp add: deliverable_def)
    ultimately show ?thesis using s by blast
  qed
qed

lemma poll_scan_result:
  assumes "poll_scan cx d = (d', evs, Some (a', i))" and "distinct (dkeys d)"
  shows "\<exists>k a. map_of d k = Some a \<and> map_of d' k = Some a' \<and> delivered cx a a' i"
  using assms
proof (induction d arbitrary: d' evs)
  case Nil
  then show ?case by simp
next
  case (Cons p d)
  obtain k a where p: "p = (k, a)" by (cases p)
  have k: "k \<notin> set (dkeys d)" "distinct (dkeys d)" using Cons.prems(2) p by (simp_all add: dkeys_def)
  from poll_scan_Cons [OF Cons.prems(1) [unfolded p]] show ?case
  proof (elim disjE exE conjE)
    fix b i'
    assume "Some (a', i) = Some (b, i')" "delivered cx a b i'" "d' = (k, b) # d"
    then show ?case unfolding p by (intro exI [of _ k] exI [of _ a]) simp
  next
    fix b d1 evs1
    assume "poll_scan cx d = (d1, evs1, Some (a', i))" and d': "d' = (k, b) # d1"
    from Cons.IH [OF this(1) k(2)] obtain k1 a1 where
      "map_of d k1 = Some a1" "map_of d1 k1 = Some a'" "delivered cx a1 a' i" by blast
    moreover have "k1 \<noteq> k" using k(1) calculation(1) by (auto simp: in_dkeys_iff)
    ultimately show ?case unfolding p d' by (intro exI [of _ k1] exI [of _ a1]) simp
  qed
qed

lemma poll_scan_none:
  assumes "poll_scan cx d = (d', evs, None)" and "(k, a) \<in> set d'"
  shows "\<not> deliverable cx a"
  using assms
proof (induction d arbitrary: d' evs)
  case Nil
  then show ?case by simp
next
  case (Cons p d)
  obtain k1 a1 where p: "p = (k1, a1)" by (cases p)
  from poll_scan_Cons [OF Cons.prems(1) [unfolded p]] Cons show ?case by fastforce
qed

lemma expire_action_pending: "is_pending (expire_action now a) \<Longrightarrow> now < act_expires_at a \<and> expire_action now a = a"
  by (cases "is_pending a \<and> act_expires_at a \<le> now") (auto simp: expire_action_def is_pending_def)

lemma not_pending_after_expire:
  assumes "map_of (br_actions (expire_locked now b)) k = Some a" and "is_pending a"
  shows "now < act_expires_at a \<and> map_of (br_actions b) k = Some a"
proof -
  from assms(1) obtain a0 where a0: "map_of (br_actions b) k = Some a0" "a = expire_action now a0" by auto
  with expire_action_pending [of now a0] assms(2) show ?thesis by simp
qed

lemma poll_locked_cases:
  assumes "poll_locked cx now b = (b', Inr r)"
  obtains (disabled) "casefold (cx_character cx) \<notin> set (br_enabled b)" "r = None" "b' = expire_locked now b"
    | (scan) as evs where "serves b cx" "poll_scan cx (br_actions (expire_locked now b)) = (as, evs, r)"
        "b' = audit evs (expire_locked now b\<lparr>br_actions := as\<rparr>)"
proof (cases "casefold (cx_character cx) \<in> set (br_enabled b)")
  case True
  obtain as evs r1 where s: "poll_scan cx (br_actions (expire_locked now b)) = (as, evs, r1)"
    by (cases "poll_scan cx (br_actions (expire_locked now b))") auto
  with assms True show ?thesis
    by (intro scan [of as evs]) (auto simp: poll_locked_def Let_def serves_def split: sum.splits)
next
  case False
  with assms show ?thesis by (intro disabled) (auto simp: poll_locked_def Let_def split: sum.splits)
qed

section \<open>A concrete session\<close>

text \<open>
  The session used by the witnesses: Bob's bridge registers, actions are enabled, a movement
  command is proposed, approved in room 7 and delivered to the bridge.
\<close>

definition demo_enabled :: broker where
  "demo_enabled = fst (control \<lparr>ct_character = ''Bob'', ct_enabled = True, ct_generation = ''g1''\<rparr>
     (fst (admit_generation (PStr ''Bob'') (PStr ''g1'') (broker_init []))))"

definition demo_proposal :: action_proposal where
  "demo_proposal = \<lparr>pr_character = ''Bob'', pr_command = Some ''North'', pr_commands = [],
     pr_expected_room_id = None, pr_expected_generation = None, pr_ttl_seconds = 45,
     pr_deadline = PNone, pr_controller_deadline = PNone\<rparr>"

definition demo_context :: action_context where
  "demo_context = \<lparr>cx_character = ''Bob'', cx_room_id = ''7'', cx_generation = ''g1''\<rparr>"

definition demo_id :: string where "demo_id = ''00000000000000a1''"

definition demo_submitted :: broker where
  "demo_submitted = fst (submit demo_proposal 0 demo_id demo_enabled)"

definition demo_approved :: broker where
  "demo_approved = fst (approve \<lparr>ap_action_id = demo_id, ap_character = ''bob'', ap_room_id = ''7'',
     ap_approval_mode = ''manual'', ap_generation = ''g1''\<rparr> 1 demo_submitted)"

definition demo_action :: "status \<Rightarrow> string option \<Rightarrow> action" where
  "demo_action st room = \<lparr>act_id = demo_id, act_character_name = ''Bob'', act_gen = ''g1'', act_commands = [''north''],
     act_kind = ''movement'', act_status = st, act_expected_room_id = room, act_created_at = 0,
     act_expires_at = 45, act_confirmation_required = True, act_notified = False, act_completion = None,
     act_detail = None, act_test_run = False, act_controller_control = False, act_controller_deadline = None,
     act_stop_requested = False, act_return_requested = False\<rparr>"

definition demo_broker :: "(string, action) dict \<Rightarrow> audit_event list \<Rightarrow> broker" where
  "demo_broker acts evs = \<lparr>br_manifest = [], br_enabled = [''bob''], br_generations = [(''bob'', ''g1'')],
     br_actions = acts, br_audit = ExecutionEnabled ''Bob'' ''g1'' # evs\<rparr>"

lemma demo_enabled_value: "demo_enabled = demo_broker [] []"
  by code_simp

lemma demo_submitted_value: "demo_submitted = demo_broker [(demo_id, demo_action ConfirmationRequired None)]
    [ActionProposed (demo_action ConfirmationRequired None)]"
  unfolding demo_submitted_def demo_enabled_value by code_simp

lemma demo_approved_value: "demo_approved = demo_broker [(demo_id, demo_action Queued (Some ''7''))]
    [ActionProposed (demo_action ConfirmationRequired None),
     ActionApproved (demo_action Queued (Some ''7'')) ''7'' ''manual'']"
  unfolding demo_approved_def demo_submitted_value by code_simp

definition demo_dispatched :: broker where
  "demo_dispatched = fst (poll demo_context 2 demo_approved)"

lemma demo_dispatched_value: "demo_dispatched = demo_broker [(demo_id, demo_action Dispatched (Some ''7''))]
    [ActionProposed (demo_action ConfirmationRequired None),
     ActionApproved (demo_action Queued (Some ''7'')) ''7'' ''manual'',
     ActionDispatched (demo_action Dispatched (Some ''7'')) ''7'']"
  unfolding demo_dispatched_def demo_approved_value by code_simp

lemma demo_enabled_reach: "broker_reach [] demo_enabled"
  unfolding demo_enabled_def
  by (rule reach_step, rule reach_step, rule reach_init, rule refl, rule step_admit, rule step_control)

lemma demo_submitted_reach: "broker_reach [] demo_submitted"
  unfolding demo_submitted_def
  by (rule reach_step [OF demo_enabled_reach], rule step_submit) (simp add: demo_enabled_value demo_broker_def dkeys_def)

lemma demo_approved_reach: "broker_reach [] demo_approved"
  unfolding demo_approved_def by (rule reach_step [OF demo_submitted_reach]) (rule step_approve)

lemma demo_dispatched_reach: "broker_reach [] demo_dispatched"
  unfolding demo_dispatched_def by (rule reach_step [OF demo_approved_reach]) (rule step_poll)

section \<open>Properties of reachable brokers\<close>

text \<open>C1: in every reachable broker, an action has been dispatched to the bridge at most once.\<close>

theorem at_most_once_dispatch:
  assumes "broker_reach m b"
  shows "dispatches i (br_audit b) \<le> 1"
  by (rule dispatches_le_one [OF broker_reach_inv [OF assms]])

lemma at_most_once_dispatch_witness:
  "dispatches demo_id (br_audit demo_dispatched) = 1 \<and> dispatches demo_id (br_audit demo_dispatched) \<le> 1"
proof
  show "dispatches demo_id (br_audit demo_dispatched) = 1"
    unfolding demo_dispatched_value by code_simp
  show "dispatches demo_id (br_audit demo_dispatched) \<le> 1"
    by (rule at_most_once_dispatch [OF demo_dispatched_reach])
qed

text \<open>
  C2: whenever a command was dispatched, the bridge was in the room the action was bound to,
  and if the command needs confirmation then the approval of that very action precedes the
  dispatch in the audit log.
\<close>

theorem dispatch_after_approval:
  assumes "broker_reach m b" and "br_audit b = xs @ ActionDispatched a r # ys"
  shows "room_ok a r \<and> (act_confirmation_required a \<longrightarrow> approved (act_id a) xs)"
proof (rule well_orderedD)
  show "well_ordered (xs @ ActionDispatched a r # ys)"
    using broker_invD(4) [OF broker_reach_inv [OF assms(1)]] assms(2) by simp
qed

lemma dispatch_after_approval_witness:
  "approved demo_id [ExecutionEnabled ''Bob'' ''g1'', ActionProposed (demo_action ConfirmationRequired None),
     ActionApproved (demo_action Queued (Some ''7'')) ''7'' ''manual'']"
proof -
  let ?xs = "[ExecutionEnabled ''Bob'' ''g1'', ActionProposed (demo_action ConfirmationRequired None),
     ActionApproved (demo_action Queued (Some ''7'')) ''7'' ''manual'']"
  have "br_audit demo_dispatched = ?xs @ ActionDispatched (demo_action Dispatched (Some ''7'')) ''7'' # []"
    unfolding demo_dispatched_value by (simp add: demo_broker_def)
  from dispatch_after_approval [OF demo_dispatched_reach this] show ?thesis
    by (simp add: demo_action_def)
qed

text \<open>
  C3: in every reachable broker, an action that is still pending belongs to the active
  session generation of its character, and the actions of that character are enabled.
\<close>

theorem pending_is_authorised:
  assumes "broker_reach m b" and "map_of (br_actions b) k = Some a" and "is_pending a"
  shows "map_of (br_generations b) (casefold (act_character_name a)) = Some (act_gen a)
    \<and> casefold (act_character_name a) \<in> set (br_enabled b)"
  using broker_invD(2) [OF broker_reach_inv [OF assms(1)] assms(2)] assms(3)
  unfolding action_inv_def authorised_def by blast

lemma pending_is_authorised_witness:
  "map_of (br_generations demo_approved) (casefold ''Bob'') = Some ''g1''"
proof -
  have "map_of (br_actions demo_approved) demo_id = Some (demo_action Queued (Some ''7''))"
    by (simp add: demo_approved_value demo_broker_def)
  from pending_is_authorised [OF demo_approved_reach this] show ?thesis
    by (simp add: is_pending_def demo_action_def)
qed

text \<open>
  C4: along any sequence of operations an action is never dropped, its identity, commands,
  authority and deadlines never change, a room it is bound to stays, its status only moves
  forward in the life cycle, and a stop or return request is never withdrawn.
\<close>

theorem life_cycle_monotone:
  assumes "broker_reach m b" and "runs broker_step b b'" and "map_of (br_actions b) k = Some a"
  shows "\<exists>a'. map_of (br_actions b') k = Some a' \<and> evolves a a'"
  using life.runs_evolve [OF assms(2) broker_reach_inv [OF assms(1)] assms(3)] by blast

lemma life_cycle_monotone_witness:
  "\<exists>a'. map_of (br_actions demo_dispatched) demo_id = Some a' \<and> evolves (demo_action Queued (Some ''7'')) a'"
proof (rule life_cycle_monotone [OF demo_approved_reach])
  show "runs broker_step demo_approved demo_dispatched"
    unfolding demo_dispatched_def by (rule runs_one) (rule step_poll)
  show "map_of (br_actions demo_approved) demo_id = Some (demo_action Queued (Some ''7''))"
    by (simp add: demo_approved_value demo_broker_def)
qed

text \<open>
  C5: the broker refines the abstract life-cycle machine: every operation, errors included,
  is a finite sequence of its guarded transitions.
\<close>

theorem broker_refines_life_cycle:
  assumes "broker_reach m b" and "broker_step b b'"
  shows "runs atom b b'"
  using broker_step_refines [OF assms(2)] reach_keys_ok [OF assms(1)] by blast

lemma broker_refines_life_cycle_witness: "runs atom demo_approved demo_dispatched"
  by (rule broker_refines_life_cycle [OF demo_approved_reach])
     (simp add: demo_dispatched_def step_poll)

section \<open>Properties of single operations\<close>

text \<open>
  C6: when a poll tells the bridge to execute an action, that action was queued, its deadline
  had not passed, the polling bridge is the active session of its character, actions are
  enabled, the bridge is in the room the action is bound to, and the stored action is now
  marked dispatched.
\<close>

theorem poll_executes_only_authorised:
  assumes "keys_ok (br_actions b)" and "poll_locked cx now b = (b', Inr (Some (a, ''execute'')))"
  shows "\<exists>k a0. map_of (br_actions b) k = Some a0 \<and> act_status a0 = Queued \<and> a = a0\<lparr>act_status := Dispatched\<rparr>
    \<and> map_of (br_actions b') k = Some a \<and> now < act_expires_at a \<and> serves b cx \<and> addressed cx a
    \<and> room_ok a (cx_room_id cx)"
  using assms(2)
proof (cases rule: poll_locked_cases)
  case disabled
  then show ?thesis by simp
next
  case (scan as evs)
  from assms(1) have "distinct (dkeys (br_actions (expire_locked now b)))" by (simp add: keys_ok_def)
  from poll_scan_result [OF scan(2) this] obtain k a0 where
    k: "map_of (br_actions (expire_locked now b)) k = Some a0" "map_of as k = Some a" "delivered cx a0 a ''execute''"
    by blast
  then have "is_pending a0" by (simp add: delivered_def is_pending_def)
  from not_pending_after_expire [OF k(1) this] k scan show ?thesis
    by (intro exI [of _ k] exI [of _ a0]) (auto simp: delivered_def addressed_def room_ok_def)
qed

lemma poll_executes_only_authorised_witness:
  "poll_locked demo_context 2 demo_approved = (demo_dispatched, Inr (Some (demo_action Dispatched (Some ''7''), ''execute'')))
   \<and> serves demo_approved demo_context"
proof
  show p: "poll_locked demo_context 2 demo_approved =
      (demo_dispatched, Inr (Some (demo_action Dispatched (Some ''7''), ''execute'')))"
    unfolding demo_dispatched_value demo_approved_value by code_simp
  from poll_executes_only_authorised [OF reach_keys_ok [OF demo_approved_reach] p]
  show "serves demo_approved demo_context" by blast
qed

text \<open>
  a poll that returns nothing to an enabled character leaves no action behind that this
  bridge could have been given: none queued and none with an unannounced confirmation.
\<close>

theorem poll_leaves_nothing_deliverable:
  assumes "poll_locked cx now b = (b', Inr None)" and "casefold (cx_character cx) \<in> set (br_enabled b)"
    and "(k, a) \<in> set (br_actions b')"
  shows "\<not> deliverable cx a"
  using assms(1)
proof (cases rule: poll_locked_cases)
  case disabled
  with assms(2) show ?thesis by simp
next
  case (scan as evs)
  with assms(3) poll_scan_none [OF scan(2)] show ?thesis by simp
qed

lemma poll_leaves_nothing_deliverable_witness:
  "\<not> deliverable demo_context (demo_action Dispatched (Some ''7''))"
proof (rule poll_leaves_nothing_deliverable [of demo_context 3 demo_dispatched demo_dispatched demo_id])
  show "poll_locked demo_context 3 demo_dispatched = (demo_dispatched, Inr None)"
    unfolding demo_dispatched_value by code_simp
  show "casefold (cx_character demo_context) \<in> set (br_enabled demo_dispatched)"
    unfolding demo_dispatched_value by code_simp
qed (simp add: demo_dispatched_value demo_broker_def)

lemma poll_disabled: "casefold (cx_character cx) \<notin> set (br_enabled b) \<Longrightarrow> snd (poll_locked cx now b) \<noteq> Inr (Some r)"
  by (auto simp: poll_locked_def Let_def split: sum.splits)

lemma submit_disabled: "casefold (pr_character p) \<notin> set (br_enabled b) \<Longrightarrow> \<exists>e. snd (submit p now fresh b) = Inl e"
  by (cases "admission b p now fresh") (auto simp: submit_def dest: admission_Inr split: sum.splits
      simp: admission_def Let_def rbind_Inr_iff split: option.splits if_splits)

lemma kill_action_result:
  "same_character key (kill_action key a) \<Longrightarrow> \<not> is_pending (kill_action key a)
     \<and> (supervised (kill_action key a) \<and> is_sent (kill_action key a) \<longrightarrow> act_stop_requested (kill_action key a))"
  by (cases "act_status a")
     (auto simp: kill_action_def Let_def is_pending_def is_sent_def same_character_def supervised_def travel_run_def
       split: if_splits)

text \<open>
  C7: the kill switch.  After a disable request of the active bridge, no action of the
  character is pending, every sent test run, controller control, controlled launch and
  supervised travel of the character carries a stop request, no poll hands out an
  instruction for the character and no proposal for it is admitted.
\<close>

theorem kill_switch_stops_everything:
  assumes "control \<lparr>ct_character = c, ct_enabled = False, ct_generation = g\<rparr> b = (b', Inr r)"
  shows "(\<forall>k a. map_of (br_actions b') k = Some a \<and> same_character (casefold c) a \<longrightarrow>
            \<not> is_pending a \<and> (supervised a \<and> is_sent a \<longrightarrow> act_stop_requested a))
    \<and> (\<forall>cx now x. casefold (cx_character cx) = casefold c \<longrightarrow> snd (poll_locked cx now b') \<noteq> Inr (Some x))
    \<and> (\<forall>p now fresh. casefold (pr_character p) = casefold c \<longrightarrow> (\<exists>e. snd (submit p now fresh b') = Inl e))"
proof -
  from assms have b': "b' = audit [KillSwitch c g] (map_actions (kill_action (casefold c))
      (b\<lparr>br_enabled := filter (\<lambda>k. k \<noteq> casefold c) (br_enabled b)\<rparr>))"
    by (auto simp: control_def Let_def split: sum.splits)
  then have off: "casefold c \<notin> set (br_enabled b')" by simp
  then show ?thesis
    using kill_action_result poll_disabled submit_disabled by (auto simp: b')
qed

lemma kill_switch_stops_everything_witness:
  "(\<exists>b'. control \<lparr>ct_character = ''BOB'', ct_enabled = False, ct_generation = ''g1''\<rparr> demo_approved = (b', Inr False)
     \<and> (\<forall>p now fresh. casefold (pr_character p) = casefold ''BOB'' \<longrightarrow> (\<exists>e. snd (submit p now fresh b') = Inl e)))"
proof -
  let ?r = "control \<lparr>ct_character = ''BOB'', ct_enabled = False, ct_generation = ''g1''\<rparr> demo_approved"
  have s: "snd ?r = Inr False" unfolding demo_approved_value by code_simp
  have "?r = (fst ?r, Inr False)" by (rule prod_eqI) (simp_all add: s)
  from kill_switch_stops_everything [OF this] this show ?thesis by blast
qed

lemma replace_generation_result:
  "same_character key (replace_generation key g a) \<Longrightarrow> act_gen (replace_generation key g a) \<noteq> g \<Longrightarrow>
     \<not> is_pending (replace_generation key g a)
     \<and> (supervised (replace_generation key g a) \<and> is_sent (replace_generation key g a)
          \<longrightarrow> act_stop_requested (replace_generation key g a))"
  by (cases "act_status a")
     (auto simp: replace_generation_def Let_def is_pending_def is_sent_def same_character_def supervised_def travel_run_def
       split: if_splits)

text \<open>
  C8: when a new session generation replaces another, it becomes the active one, no action of
  an older generation of that character stays pending, and every sent supervised action of an
  older generation carries a stop request; actions of other characters are untouched.
\<close>

theorem replaced_session_loses_authority:
  assumes "admit_generation (PStr name) (PStr gen) b = (b', Inr r)" and "gr_replaced r = Some old"
  shows "map_of (br_generations b') (casefold (gr_character r)) = Some (gr_generation r)
    \<and> old \<noteq> gr_generation r
    \<and> (\<forall>k a. map_of (br_actions b') k = Some a \<and> same_character (casefold (gr_character r)) a \<and> act_gen a \<noteq> gr_generation r
         \<longrightarrow> \<not> is_pending a \<and> (supervised a \<and> is_sent a \<longrightarrow> act_stop_requested a))
    \<and> (\<forall>k a. map_of (br_actions b) k = Some a \<and> \<not> same_character (casefold (gr_character r)) a
         \<longrightarrow> map_of (br_actions b') k = Some a)"
proof -
  from assms obtain evs where
    b': "b' = audit evs (map_actions (replace_generation (casefold (gr_character r)) (gr_generation r))
      (b\<lparr>br_generations := dput (casefold (gr_character r)) (gr_generation r) (br_generations b)\<rparr>))"
    and "old \<noteq> gr_generation r"
    by (auto simp: admit_generation_def Let_def split: sum.splits option.splits if_splits)
  moreover have "replace_generation key g a = a" if "\<not> same_character key a" for key g a
    using that by (simp add: replace_generation_def Let_def)
  ultimately show ?thesis using replace_generation_result by auto
qed

lemma replaced_session_loses_authority_witness:
  "\<exists>b' r. admit_generation (PStr ''Bob'') (PStr ''g2'') demo_approved = (b', Inr r) \<and> gr_replaced r = Some ''g1''
     \<and> map_of (br_generations b') (casefold (gr_character r)) = Some (gr_generation r)"
proof -
  let ?x = "admit_generation (PStr ''Bob'') (PStr ''g2'') demo_approved"
  let ?r = "\<lparr>gr_character = ''Bob'', gr_generation = ''g2'', gr_replaced = Some ''g1'', gr_cancelled = [demo_id]\<rparr>"
  have s: "snd ?x = Inr ?r" unfolding demo_approved_value by code_simp
  have x: "?x = (fst ?x, Inr ?r)" by (rule prod_eqI) (simp_all add: s)
  from replaced_session_loses_authority [OF x, of "''g1''"] x show ?thesis by fastforce
qed

end
