(* ===== verification/BrokerRequests.thy ===== *)
theory BrokerRequests
  imports BrokerProperties
begin

text \<open>
  What the single requests of the action broker promise their callers: admission of a
  proposal, approval, the truthful result, cancellation, and the blocking poll.
\<close>

section \<open>Admission\<close>

lemma expiry_bound: "expiry_of now p = Inr e \<Longrightarrow> e \<le> now + of_int (pr_ttl_seconds p)"
  by (auto simp: expiry_of_def Let_def split: if_splits option.splits)

lemma future_number_later: "future_number now v = Some r \<Longrightarrow> now < r"
  by (auto simp: future_number_def split: option.splits pyfloat.splits if_splits)

lemma expiry_later: "expiry_of now p = Inr e \<Longrightarrow> 0 < pr_ttl_seconds p \<Longrightarrow> now < e"
  by (auto simp: expiry_of_def Let_def dest: future_number_later split: if_splits option.splits)

text \<open>
  C18: an admitted proposal is stored under the fresh id for the active session of the enabled
  character; every command of it is a canonical command of the policy; it is one command or a
  confirmation-gated sequence of at most twelve without controller controls; and it expires
  in the future, no later than its time to live.
\<close>

theorem submit_admits_policy_commands:
  assumes "submit p now fresh b = (b', Inr r)" and "0 < pr_ttl_seconds p"
  shows "\<exists>a. map_of (br_actions b') fresh = Some a \<and> authorised b' a
    \<and> (\<forall>c \<in> set (act_commands a). \<exists>raw d. evaluate (br_manifest b) raw = Inr (c, d))
    \<and> 1 \<le> length (act_commands a) \<and> length (act_commands a) \<le> max_sequence_commands
    \<and> (2 \<le> length (act_commands a) \<longrightarrow> act_confirmation_required a
         \<and> (\<forall>c \<in> set (act_commands a). is_controller_control (br_manifest b) c = Inr False))
    \<and> act_status a = (if act_confirmation_required a then ConfirmationRequired else Queued)
    \<and> now < act_expires_at a \<and> act_expires_at a \<le> now + of_int (pr_ttl_seconds p)"
proof -
  from assms(1) obtain a where a: "admission b p now fresh = Inr a"
    and b': "b' = set_action a (audit [ActionProposed a] b)"
    by (auto simp: submit_def split: sum.splits)
  from admission_Inr [OF a] have f: "fresh_action a" "authorised b a" "act_id a = fresh"
      "expiry_of now p = Inr (act_expires_at a)"
    and e: "\<exists>k. evaluate_proposal (br_manifest b) p = Inr (act_commands a, k, act_confirmation_required a)"
    by blast+
  from e evaluate_proposal_Inr obtain k where "evaluate_proposal (br_manifest b) p = Inr (act_commands a, k, act_confirmation_required a)"
    by blast
  note evaluate_proposal_Inr [OF this]
  moreover have "map_of (br_actions b') fresh = Some a" "authorised b' a"
    using f b' by (simp_all add: set_action_def authorised_def)
  moreover have "act_status a = (if act_confirmation_required a then ConfirmationRequired else Queued)"
    using f(1) by (simp add: fresh_action_def)
  ultimately show ?thesis using expiry_bound [OF f(4)] expiry_later [OF f(4) assms(2)] by blast
qed

lemma submit_admits_policy_commands_witness:
  "authorised demo_submitted (demo_action ConfirmationRequired None)"
proof -
  let ?x = "submit demo_proposal 0 demo_id demo_enabled"
  have s: "\<exists>r. snd ?x = Inr r"
    unfolding demo_enabled_value by (rule exI [of _ "public ''confirmation_required'' (demo_action ConfirmationRequired None)"]) code_simp
  then obtain r where "?x = (demo_submitted, Inr r)"
    unfolding demo_submitted_def by (metis prod.collapse)
  from submit_admits_policy_commands [OF this] obtain a where
    "map_of (br_actions demo_submitted) demo_id = Some a" "authorised demo_submitted a"
    by (auto simp: demo_proposal_def)
  then show ?thesis by (simp add: demo_submitted_value demo_broker_def)
qed

section \<open>Approval and results\<close>

text \<open>
  an approval succeeds only for an unexpired action that awaits confirmation, made by the
  owner's active session; it binds the action to the room of the approval unless it is already
  bound to that room, and queues it.
\<close>

theorem approval_binds_room:
  assumes "keys_ok (br_actions b)" and "approve ap now b = (b', Inr r)"
  shows "\<exists>a a'. map_of (br_actions b) (ap_action_id ap) = Some a \<and> map_of (br_actions b') (ap_action_id ap) = Some a'
    \<and> act_status a = ConfirmationRequired \<and> now < act_expires_at a
    \<and> map_of (br_generations b) (casefold (ap_character ap)) = Some (act_gen a)
    \<and> room_ok a (ap_room_id ap)
    \<and> a' = a\<lparr>act_expected_room_id := Some (ap_room_id ap), act_status := Queued\<rparr>"
proof -
  let ?b1 = "expire_locked now b"
  from assms(2) obtain a where a: "map_of (br_actions ?b1) (ap_action_id ap) = Some a"
    "act_status a = ConfirmationRequired" "act_gen a = ap_generation ap" "room_ok a (ap_room_id ap)"
    "require_active_generation ?b1 (ap_character ap) (ap_generation ap) = Inr ()"
    and b': "b' = audit [ActionApproved (a\<lparr>act_expected_room_id := Some (ap_room_id ap), act_status := Queued\<rparr>)
        (ap_room_id ap) (ap_approval_mode ap)]
      (set_action (a\<lparr>act_expected_room_id := Some (ap_room_id ap), act_status := Queued\<rparr>) ?b1)"
    by (auto simp: approve_def Let_def find_locked_def room_ok_def split: sum.splits if_splits option.splits)
  from a(1, 2) not_pending_after_expire [OF a(1)] have "now < act_expires_at a"
    "map_of (br_actions b) (ap_action_id ap) = Some a" by (simp_all add: is_pending_def)
  moreover from assms(1) this(2) have "act_id a = ap_action_id ap" by (auto simp: keys_ok_def dest: map_of_SomeD)
  moreover have "map_of (br_generations b) (casefold (ap_character ap)) = Some (act_gen a)"
    using a(3, 5) by (auto simp: require_active_generation_def split: option.splits if_splits)
  ultimately show ?thesis using a b' by (simp add: set_action_def)
qed

lemma approval_binds_room_witness:
  "room_ok (demo_action ConfirmationRequired None) ''7''"
proof -
  let ?ap = "\<lparr>ap_action_id = demo_id, ap_character = ''bob'', ap_room_id = ''7'',
     ap_approval_mode = ''manual'', ap_generation = ''g1''\<rparr>"
  have s: "snd (approve ?ap 1 demo_submitted) = Inr (public ''queued'' (demo_action Queued (Some ''7'')))"
    unfolding demo_submitted_value by code_simp
  have "approve ?ap 1 demo_submitted = (demo_approved, Inr (public ''queued'' (demo_action Queued (Some ''7''))))"
    by (rule prod_eqI) (simp_all add: s demo_approved_def)
  from approval_binds_room [OF reach_keys_ok this] demo_submitted_reach show ?thesis
    by (auto simp: demo_submitted_value demo_broker_def)
qed

lemma record_result_Inr:
  assumes "record_result r b = (b', Inr x)"
  obtains a where "map_of (br_actions b) (rs_action_id r) = Some a" and "act_status a = Dispatched"
    and "act_gen a = rs_generation r" and "casefold (act_character_name a) = casefold (rs_character r)"
    and "b' = audit [ActionResulted (apply_outcome r a) (rs_outcome r)] (set_action (apply_outcome r a) b)"
  using assms by (auto simp: record_result_def Let_def find_locked_def split: sum.splits if_splits option.splits)

text \<open>
  C19: a result is recorded only for a dispatched action of the reporting session, it claims
  success exactly when the bridge reported success, keeps the detail, and every later report
  for the same action is refused without changing the broker.
\<close>

theorem result_is_truthful:
  assumes "keys_ok (br_actions b)" and "record_result r b = (b', Inr x)"
  shows "\<exists>a a'. map_of (br_actions b) (rs_action_id r) = Some a \<and> act_status a = Dispatched
    \<and> map_of (br_actions b') (rs_action_id r) = Some a'
    \<and> (act_status a' = Failed \<longleftrightarrow> rs_outcome r = ''failed'') \<and> act_status a' \<in> {Completed, Failed}
    \<and> (act_completion a' = Some ''succeeded'' \<longleftrightarrow> rs_outcome r = ''succeeded'')
    \<and> act_detail a' = Some (rs_detail r)
    \<and> (\<forall>r2. rs_action_id r2 = rs_action_id r \<longrightarrow> (\<exists>e. record_result r2 b' = (b', Inl e)))"
  using assms(2)
proof (cases rule: record_result_Inr)
  case (1 a)
  let ?a = "apply_outcome r a"
  have id: "act_id ?a = rs_action_id r"
    using assms(1) 1(1) by (auto simp: keys_ok_def apply_outcome_def Let_def dest: map_of_SomeD)
  have st: "(act_status ?a = Failed \<longleftrightarrow> rs_outcome r = ''failed'')" "act_status ?a \<in> {Completed, Failed}"
    "(act_completion ?a = Some ''succeeded'' \<longleftrightarrow> rs_outcome r = ''succeeded'')" "act_detail ?a = Some (rs_detail r)"
    by (auto simp: apply_outcome_def)
  have m: "map_of (br_actions b') (rs_action_id r) = Some ?a" using 1(5) id by (simp add: set_action_def)
  have "\<exists>e. record_result r2 b' = (b', Inl e)" if "rs_action_id r2 = rs_action_id r" for r2
    using m st(2) that by (auto simp: record_result_def find_locked_def split: sum.splits)
  with 1(1, 2) m st show ?thesis by blast
qed

lemma result_is_truthful_witness:
  "\<exists>b' x. record_result \<lparr>rs_action_id = demo_id, rs_character = ''BOB'', rs_outcome = ''completed'',
       rs_detail = ''sent'', rs_generation = ''g1''\<rparr> demo_dispatched = (b', Inr x)
     \<and> (\<exists>a'. map_of (br_actions b') demo_id = Some a' \<and> act_completion a' \<noteq> Some ''succeeded'')"
proof -
  let ?r = "\<lparr>rs_action_id = demo_id, rs_character = ''BOB'', rs_outcome = ''completed'',
       rs_detail = ''sent'', rs_generation = ''g1''\<rparr>"
  have "snd (record_result ?r demo_dispatched) = Inr [(''action_id'', PStr demo_id), (''generation'', PStr ''g1''),
     (''status'', PStr ''completed''), (''completion'', PStr ''sent_unverified''), (''detail'', PStr ''sent'')]"
    unfolding demo_dispatched_value by code_simp
  then obtain b' x where x: "record_result ?r demo_dispatched = (b', Inr x)" by (metis prod.collapse)
  from result_is_truthful [OF reach_keys_ok [OF demo_dispatched_reach] x] x show ?thesis by fastforce
qed

section \<open>Cancellation\<close>

definition cancel_owned :: "rat \<Rightarrow> broker \<Rightarrow> action \<Rightarrow> (string \<times> pyval) list op" where
  \<comment> \<open>the part of \<open>cancel\<close> after the identity checks\<close>
  "cancel_owned now b a0 =
     (let b1 = expire_locked now b; a = expire_action now a0;
          reply = (\<lambda>a v. public (status_str (act_status a)) a @ [(''cancelled'', PBool v)]);
          stopped = a\<lparr>act_stop_requested := True\<rparr>; dropped = a\<lparr>act_status := Cancelled\<rparr> in
      if travel_run a \<and> act_status a = Dispatched
      then (audit [TravelStopRequested stopped] (set_action stopped b1), Inr (reply stopped False))
      else if is_pending a
      then (audit [ActionCancelled dropped] (set_action dropped b1), Inr (reply dropped True))
      else (b1, Inr (reply a False)))"

lemma cancel_Inr:
  assumes "act_action_id i = Inr k" and "cancel i c g now b = (b', Inr x)"
  shows "\<exists>a. map_of (br_actions b) k = Some a \<and> cancel_owned now b a = (b', Inr x)"
  using assms
  by (auto simp: cancel_def cancel_owned_def find_locked_def Let_def split: sum.splits option.splits if_splits)

lemma public_cancelled:
  "map_of (public s y @ [(''cancelled'', PBool v)]) ''cancelled'' = Some (PBool v)"
  by (simp add: public_def map_add_Some_iff split: list.splits option.splits)

text \<open>
  cancelling never unsends a command: afterwards the action is as it was, or a pending
  action has become cancelled or expired, or a dispatched supervised travel carries a stop
  request; and the reply says that it was cancelled exactly when a pending, unexpired action was.
\<close>

theorem cancel_never_unsends:
  assumes "keys_ok (br_actions b)" and "act_action_id i = Inr k"
    and "cancel i c g now b = (b', Inr x)"
  shows "\<exists>a a'. map_of (br_actions b) k = Some a \<and> map_of (br_actions b') k = Some a'
    \<and> \<not> is_pending a'
    \<and> (is_sent a \<longrightarrow> a' = (if travel_run a \<and> act_status a = Dispatched then a\<lparr>act_stop_requested := True\<rparr> else a))
    \<and> (is_pending a \<longrightarrow> act_status a' = (if now < act_expires_at a then Cancelled else Expired))
    \<and> map_of x ''cancelled'' = Some (PBool (is_pending a \<and> now < act_expires_at a))"
proof -
  from cancel_Inr [OF assms(2, 3)] obtain a where a: "map_of (br_actions b) k = Some a"
    and c: "cancel_owned now b a = (b', Inr x)" by blast
  with assms(1) have id: "act_id a = k" by (auto simp: keys_ok_def dest: map_of_SomeD)
  consider (travel) "travel_run a" "act_status a = Dispatched"
    | (pending) "is_pending a" "now < act_expires_at a"
    | (expired) "is_pending a" "act_expires_at a \<le> now"
    | (other) "\<not> (travel_run a \<and> act_status a = Dispatched)" "\<not> is_pending a" by fastforce
  then show ?thesis
  proof cases
    case travel
    then have "expire_action now a = a" "\<not> is_pending a" by (simp_all add: expire_action_def is_pending_def)
    with c travel have "b' = audit [TravelStopRequested (a\<lparr>act_stop_requested := True\<rparr>)]
        (set_action (a\<lparr>act_stop_requested := True\<rparr>) (expire_locked now b))"
      and "map_of x ''cancelled'' = Some (PBool False)"
      by (auto simp: cancel_owned_def Let_def public_cancelled simp del: map_of_append)
    with \<open>\<not> is_pending a\<close> travel a id show ?thesis by (simp add: set_action_def is_pending_def)
  next
    case pending
    then have "expire_action now a = a" "\<not> is_sent a" "act_status a \<noteq> Dispatched"
      by (auto simp: expire_action_def is_pending_def is_sent_def)
    with c pending have "b' = audit [ActionCancelled (a\<lparr>act_status := Cancelled\<rparr>)]
        (set_action (a\<lparr>act_status := Cancelled\<rparr>) (expire_locked now b))"
      and "map_of x ''cancelled'' = Some (PBool True)"
      by (auto simp: cancel_owned_def Let_def public_cancelled simp del: map_of_append)
    with \<open>\<not> is_sent a\<close> pending a id show ?thesis by (simp add: set_action_def is_pending_def)
  next
    case expired
    then have "expire_action now a = a\<lparr>act_status := Expired\<rparr>" "\<not> is_sent a"
      by (auto simp: expire_action_def is_pending_def is_sent_def)
    with c expired have "b' = expire_locked now b" "map_of x ''cancelled'' = Some (PBool False)"
      by (auto simp: cancel_owned_def Let_def public_cancelled is_pending_def simp del: map_of_append)
    with \<open>\<not> is_sent a\<close> expired a show ?thesis by (simp add: is_pending_def expire_action_def)
  next
    case other
    then have e: "expire_action now a = a" by (simp add: expire_action_def)
    with c other have "b' = expire_locked now b" "map_of x ''cancelled'' = Some (PBool False)"
      by (auto simp: cancel_owned_def Let_def public_cancelled simp del: map_of_append)
    with other a e show ?thesis by auto
  qed
qed

lemma cancel_never_unsends_witness:
  "\<exists>b' x. cancel (PStr demo_id) (PStr ''Bob'') (PStr ''g1'') 2 demo_approved = (b', Inr x)
     \<and> map_of x ''cancelled'' = Some (PBool True)"
proof -
  let ?x = "cancel (PStr demo_id) (PStr ''Bob'') (PStr ''g1'') 2 demo_approved"
  have "(case snd ?x of Inr _ \<Rightarrow> True | Inl _ \<Rightarrow> False)" unfolding demo_approved_value by code_simp
  then obtain b' x where x: "?x = (b', Inr x)" by (cases ?x) (auto split: sum.splits)
  have "act_action_id (PStr demo_id) = Inr demo_id" by code_simp
  from cancel_never_unsends [OF reach_keys_ok [OF demo_approved_reach] this x] x show ?thesis
    by (auto simp: demo_approved_value demo_broker_def demo_action_def is_pending_def)
qed

section \<open>The blocking poll\<close>

lemma poll_loop_returns:
  "\<exists>(now, tick, env) \<in> set ws. deadline \<le> tick \<Longrightarrow> poll_wait_loop cx deadline ws b \<noteq> None"
proof (induction ws arbitrary: b)
  case (Cons w ws)
  then show ?case by (cases w) (fastforce split: prod.splits sum.splits option.splits)
qed simp

lemma poll_loop_times_out:
  "poll_wait_loop cx deadline ws b = Some (b', Inr None) \<Longrightarrow>
     \<exists>earlier now tick env later. ws = earlier @ (now, tick, env) # later \<and> deadline \<le> tick
       \<and> (\<forall>(now, tick, env) \<in> set earlier. tick < deadline)"
proof (induction ws arbitrary: b)
  case (Cons w ws)
  obtain now tick env where w: "w = (now, tick, env)" by (cases w)
  show ?case
  proof (cases "deadline \<le> tick")
    case True
    then show ?thesis using w by (intro exI [of _ "[]"]) auto
  next
    case False
    obtain b1 r where p: "poll cx now b = (b1, r)" by (cases "poll cx now b")
    with Cons.prems w False have "poll_wait_loop cx deadline ws (env b1) = Some (b', Inr None)"
      by (auto split: sum.splits option.splits)
    from Cons.IH [OF this] obtain earlier now' tick' env' later where
      "ws = earlier @ (now', tick', env') # later" "deadline \<le> tick'" "\<forall>(now, tick, env) \<in> set earlier. tick < deadline" by blast
    then show ?thesis using w False
      by (intro exI [of _ "w # earlier"] exI [of _ now'] exI [of _ tick'] exI [of _ env'] exI [of _ later]) auto
  qed
qed simp

text \<open>
  C21: a blocking poll with a timeout that it accepts waits for that long and no longer.  It has returned once
  the monotonic clock reads its own deadline or more at one of its wake-ups, whatever other threads did to the
  broker meanwhile; and if it returns that nothing is ready, then the clock had reached the deadline at the
  wake-up it returned at, and not at any wake-up before.
\<close>

theorem poll_wait_returns:
  assumes "num_of timeout = Some (Fin t)" and "0 \<le> t" and "t \<le> 30"
  shows "((\<exists>(now, tick, env) \<in> set ws. start + t \<le> tick) \<longrightarrow> poll_wait cx timeout start ws b \<noteq> None)
    \<and> (\<forall>b'. poll_wait cx timeout start ws b = Some (b', Inr None) \<longrightarrow>
         (\<exists>earlier now tick env later. ws = earlier @ (now, tick, env) # later \<and> start + t \<le> tick
            \<and> (\<forall>(now, tick, env) \<in> set earlier. tick < start + t)))"
proof -
  have p: "poll_wait cx timeout start ws b = poll_wait_loop cx (start + t) ws b"
    using assms by (simp add: poll_wait_def)
  show ?thesis unfolding p using poll_loop_returns poll_loop_times_out by blast
qed

lemma poll_wait_returns_witness:
  "poll_wait demo_context (PInt 5) 100 [(2, 101, id), (3, 105, id)] demo_enabled \<noteq> None"
proof -
  have "num_of (PInt 5) = Some (Fin 5)" by code_simp
  from poll_wait_returns [OF this, of "[(2, 101, id), (3, 105, id)]" 100 demo_context demo_enabled] show ?thesis by simp
qed

end
