(* ===== verification/RegexLanguage.thy ===== *)
theory RegexLanguage
  imports Regex
begin

text \<open>
  The language of a pattern and the correctness of the backtracking matcher against it:
  \<open>rx_full\<close> accepts exactly the words of the language, for patterns without the end anchor.
  \<open>rx_alphabet\<close> bounds the characters of a word, and \<open>captured\<close> what a group captures.
\<close>

section \<open>The language of a pattern\<close>

inductive accepts :: "bool \<Rightarrow> rx \<Rightarrow> string \<Rightarrow> bool" where
  acc_eps: "accepts ci Eps []"
| acc_cset: "cset_matches ci neg rs c \<Longrightarrow> accepts ci (CSet neg rs) [c]"
| acc_cat: "accepts ci r u \<Longrightarrow> accepts ci q v \<Longrightarrow> accepts ci (Cat r q) (u @ v)"
| acc_alt1: "accepts ci r u \<Longrightarrow> accepts ci (Alt r q) u"
| acc_alt2: "accepts ci q u \<Longrightarrow> accepts ci (Alt r q) u"
| acc_star0: "accepts ci (Star r) []"
| acc_star: "accepts ci r u \<Longrightarrow> u \<noteq> [] \<Longrightarrow> accepts ci (Star r) v \<Longrightarrow> accepts ci (Star r) (u @ v)"
| acc_upto0: "accepts ci (UpTo n r) []"
| acc_upto: "accepts ci r u \<Longrightarrow> u \<noteq> [] \<Longrightarrow> accepts ci (UpTo n r) v \<Longrightarrow> accepts ci (UpTo (Suc n) r) (u @ v)"
| acc_group: "accepts ci r u \<Longrightarrow> accepts ci (Group g r) u"
| acc_noflag: "accepts False r u \<Longrightarrow> accepts ci (NoFlag r) u"

inductive_simps accepts_simps [simp]:
  "accepts ci Eps w" "accepts ci EndZ w" "accepts ci (CSet neg rs) w" "accepts ci (Cat r q) w"
  "accepts ci (Alt r q) w" "accepts ci (Group g r) w" "accepts ci (NoFlag r) w"

primrec end_free :: "rx \<Rightarrow> bool" where
  "end_free Eps = True"
| "end_free EndZ = False"
| "end_free (CSet neg rs) = True"
| "end_free (Cat r q) = (end_free r \<and> end_free q)"
| "end_free (Alt r q) = (end_free r \<and> end_free q)"
| "end_free (Star r) = end_free r"
| "end_free (UpTo n r) = end_free r"
| "end_free (Group g r) = end_free r"
| "end_free (NoFlag r) = end_free r"

section \<open>Soundness\<close>

definition splits :: "bool \<Rightarrow> rx \<Rightarrow> mstate \<Rightarrow> mstate \<Rightarrow> bool" where
  "splits ci r st st' = (\<exists>w. snd st = w @ snd st' \<and> accepts ci r w)"

lemma splitsI: "snd st = w @ snd st' \<Longrightarrow> accepts ci r w \<Longrightarrow> splits ci r st st'"
  by (auto simp: splits_def)

lemma rstar_sound:
  assumes "\<And>s s'. s' \<in> set (f s) \<Longrightarrow> splits ci r s s'" and "st' \<in> set (rstar f n st)"
  shows "splits ci (Star r) st st'"
  using assms(2)
proof (induction n arbitrary: st)
  case 0
  then show ?case by (auto intro: splitsI acc_star0)
next
  case (Suc n)
  from Suc.prems consider "st' = st" | s1 where "s1 \<in> set (f st)" "length (snd s1) < length (snd st)"
      "st' \<in> set (rstar f n s1)"
    by (auto split: if_splits)
  then show ?case
  proof cases
    case 1
    then show ?thesis by (auto intro: splitsI acc_star0)
  next
    case 2
    from assms(1) [OF 2(1)] obtain u where u: "snd st = u @ snd s1" "accepts ci r u" by (auto simp: splits_def)
    from Suc.IH [OF 2(3)] obtain v where "snd s1 = v @ snd st'" "accepts ci (Star r) v" by (auto simp: splits_def)
    with u 2(2) show ?thesis by (intro splitsI [of _ "u @ v"]) (auto intro: acc_star)
  qed
qed

lemma rupto_sound:
  assumes "\<And>s s'. s' \<in> set (f s) \<Longrightarrow> splits ci r s s'" and "st' \<in> set (rupto f n st)"
  shows "splits ci (UpTo n r) st st'"
  using assms(2)
proof (induction n arbitrary: st)
  case 0
  then show ?case by (auto intro: splitsI acc_upto0)
next
  case (Suc n)
  from Suc.prems consider "st' = st" | s1 where "s1 \<in> set (f st)" "length (snd s1) < length (snd st)"
      "st' \<in> set (rupto f n s1)"
    by (auto split: if_splits)
  then show ?case
  proof cases
    case 1
    then show ?thesis by (auto intro: splitsI acc_upto0)
  next
    case 2
    from assms(1) [OF 2(1)] obtain u where u: "snd st = u @ snd s1" "accepts ci r u" by (auto simp: splits_def)
    from Suc.IH [OF 2(3)] obtain v where "snd s1 = v @ snd st'" "accepts ci (UpTo n r) v" by (auto simp: splits_def)
    with u 2(2) show ?thesis by (intro splitsI [of _ "u @ v"]) (auto intro: acc_upto)
  qed
qed

lemma rmatch_sound: "end_free r \<Longrightarrow> st' \<in> set (rmatch ci r st) \<Longrightarrow> splits ci r st st'"
proof (induction r arbitrary: ci st st')
  case (CSet neg rs)
  then show ?case by (cases "snd st") (auto simp: splits_def split: if_splits)
next
  case (Cat r q)
  from Cat.prems(2) obtain s1 where "s1 \<in> set (rmatch ci r st)" "st' \<in> set (rmatch ci q s1)" by auto
  with Cat.IH Cat.prems(1) have "splits ci r st s1" "splits ci q s1 st'" by auto
  then obtain u v where "snd st = (u @ v) @ snd st'" "accepts ci r u" "accepts ci q v"
    by (auto simp: splits_def)
  note this(1) and acc_cat [OF this(2, 3)]
  then show ?case by (rule splitsI)
next
  case (Alt r q)
  from Alt.prems(2) have "st' \<in> set (rmatch ci r st) \<or> st' \<in> set (rmatch ci q st)" by simp
  moreover from Alt.prems(1) have "end_free r" "end_free q" by simp_all
  ultimately have "splits ci r st st' \<or> splits ci q st st'" using Alt.IH by blast
  then show ?case unfolding splits_def accepts_simps by blast
next
  case (Star r)
  show ?case by (rule rstar_sound [OF Star.IH]) (use Star.prems in simp_all)
next
  case (UpTo n r)
  show ?case by (rule rupto_sound [OF UpTo.IH]) (use UpTo.prems in simp_all)
next
  case (Group g r)
  from Group.prems(2) obtain s1 where "s1 \<in> set (rmatch ci r st)" "snd s1 = snd st'" by force
  with Group.IH [OF _ this(1)] Group.prems(1) show ?case by (simp add: splits_def)
next
  case (NoFlag r)
  then show ?case by (simp add: splits_def)
qed (auto simp: splits_def split: if_splits)

section \<open>Completeness\<close>

definition reaches :: "(mstate \<Rightarrow> mstate list) \<Rightarrow> string \<Rightarrow> bool" where
  \<comment> \<open>the matcher can consume the word, whatever it has captured and whatever follows\<close>
  "reaches f w = (\<forall>caps rest. \<exists>caps'. (caps', rest) \<in> set (f (caps, w @ rest)))"

lemma reachesD: "reaches f w \<Longrightarrow> \<exists>caps'. (caps', rest) \<in> set (f (caps, w @ rest))"
  by (simp add: reaches_def)

lemma reaches_step:
  assumes "reaches f u" and "u \<noteq> []" and "\<And>caps. \<exists>caps'. (caps', rest) \<in> set (g (caps, v @ rest))"
  shows "\<exists>caps'. (caps', rest) \<in> set (concat (map (\<lambda>st'. if length (snd st') < length (snd (caps, (u @ v) @ rest))
            then g st' else []) (f (caps, (u @ v) @ rest))) @ [(caps, (u @ v) @ rest)])"
proof -
  from reachesD [OF assms(1), of "v @ rest" caps] obtain c1 where "(c1, v @ rest) \<in> set (f (caps, (u @ v) @ rest))"
    by auto
  moreover from assms(3) [of c1] obtain c2 where "(c2, rest) \<in> set (g (c1, v @ rest))" by blast
  ultimately show ?thesis using assms(2) by (intro exI [of _ c2]) force
qed

lemma rstar_complete:
  assumes "accepts ci (Star r) w" and "\<And>u. accepts ci r u \<Longrightarrow> reaches f u" and "length w \<le> n"
  shows "\<exists>caps'. (caps', rest) \<in> set (rstar f n (caps, w @ rest))"
  using assms
proof (induction ci "Star r" w arbitrary: n caps rule: accepts.induct)
  case (acc_star0 ci)
  then show ?case by (cases n) auto
next
  case (acc_star ci u v)
  from acc_star.prems(2) acc_star.hyps obtain m where n: "n = Suc m" "length v \<le> m"
    by (cases n; cases u) auto
  have "\<exists>caps'. (caps', rest) \<in> set (rstar f m (c, v @ rest))" for c
    by (rule acc_star.hyps(5)) (use acc_star.prems n in auto)
  then show ?case unfolding n rstar.simps
    by (intro reaches_step acc_star.prems(1) acc_star.hyps(1, 3))
qed

lemma rupto_complete:
  assumes "accepts ci (UpTo n r) w" and "\<And>u. accepts ci r u \<Longrightarrow> reaches f u"
  shows "\<exists>caps'. (caps', rest) \<in> set (rupto f n (caps, w @ rest))"
  using assms
proof (induction ci "UpTo n r" w arbitrary: n caps rule: accepts.induct)
  case (acc_upto0 ci n)
  then show ?case by (cases n) auto
next
  case (acc_upto ci u n v)
  have "\<exists>caps'. (caps', rest) \<in> set (rupto f n (c, v @ rest))" for c
    by (rule acc_upto.hyps(5)) (use acc_upto.prems in auto)
  then show ?case unfolding rupto.simps
    by (intro reaches_step acc_upto.prems(1) acc_upto.hyps(1, 3))
qed

lemma rmatch_complete: "accepts ci r w \<Longrightarrow> reaches (rmatch ci r) w"
proof (induction r arbitrary: ci w)
  case (Cat r q)
  then obtain u v where "w = u @ v" "reaches (rmatch ci r) u" "reaches (rmatch ci q) v" by auto
  then show ?case unfolding reaches_def by simp (metis case_prodI prod.collapse)
next
  case (Alt r q)
  then show ?case by (fastforce simp: reaches_def)
next
  case (Star r)
  from rstar_complete [OF Star.prems Star.IH] show ?case by (simp add: reaches_def)
next
  case (UpTo n r)
  from rupto_complete [OF UpTo.prems UpTo.IH] show ?case by (simp add: reaches_def)
next
  case (Group g r)
  then show ?case by (fastforce simp: reaches_def)
next
  case (NoFlag r)
  then show ?case by (fastforce simp: reaches_def)
qed (auto simp: reaches_def)

lemma rx_full_exists: "rx_full ci r s \<longleftrightarrow> (\<exists>st \<in> set (rmatch ci r ([], s)). snd st = [])"
  using find_None_iff [of "\<lambda>st. snd st = []" "rmatch ci r ([], s)"]
  by (simp add: rx_full_def fullmatch_caps_def Bex_def del: split_paired_Ex split_paired_All)

theorem rx_full_iff: "end_free r \<Longrightarrow> rx_full ci r s \<longleftrightarrow> accepts ci r s"
proof
  assume "end_free r" and "rx_full ci r s"
  then obtain st where "st \<in> set (rmatch ci r ([], s))" "snd st = []"
    by (auto simp: rx_full_exists)
  with rmatch_sound [OF \<open>end_free r\<close> this(1)] show "accepts ci r s" by (auto simp: splits_def)
next
  assume "accepts ci r s"
  from reachesD [OF rmatch_complete [OF this], of "[]" "[]"] show "rx_full ci r s"
    unfolding rx_full_exists by (metis append_Nil2 snd_conv)
qed

section \<open>The alphabet of a pattern\<close>

primrec rx_alphabet :: "rx \<Rightarrow> bool \<Rightarrow> char \<Rightarrow> bool" where
  "rx_alphabet Eps ci c = False"
| "rx_alphabet EndZ ci c = False"
| "rx_alphabet (CSet neg rs) ci c = cset_matches ci neg rs c"
| "rx_alphabet (Cat r q) ci c = (rx_alphabet r ci c \<or> rx_alphabet q ci c)"
| "rx_alphabet (Alt r q) ci c = (rx_alphabet r ci c \<or> rx_alphabet q ci c)"
| "rx_alphabet (Star r) ci c = rx_alphabet r ci c"
| "rx_alphabet (UpTo n r) ci c = rx_alphabet r ci c"
| "rx_alphabet (Group g r) ci c = rx_alphabet r ci c"
| "rx_alphabet (NoFlag r) ci c = rx_alphabet r False c"

lemma accepts_alphabet: "accepts ci r w \<Longrightarrow> c \<in> set w \<Longrightarrow> rx_alphabet r ci c"
  by (induction rule: accepts.induct) auto

end
