(* ===== verification/ManifestSafety.thy ===== *)
theory ManifestSafety
  imports RegexLanguage CommandPolicy
begin

text \<open>
  The well-formedness of a loaded manifest and what it buys: the facts about patterns that the
  manifest relies on (a locale, interpreted on the matcher), the invariant \<open>wf_action\<close> that
  the validation establishes for every action of a loaded manifest, and the lemmas on
  rendering, template substitution and captures.
\<close>

section \<open>What the clients of the matcher rely on\<close>

locale full_matcher =
  fixes full :: "bool \<Rightarrow> rx \<Rightarrow> string \<Rightarrow> bool"
    and lang :: "bool \<Rightarrow> rx \<Rightarrow> string \<Rightarrow> bool"
  assumes full_iff: "end_free r \<Longrightarrow> full ci r s \<longleftrightarrow> lang ci r s"
    and lang_alphabet: "lang ci r w \<Longrightarrow> c \<in> set w \<Longrightarrow> rx_alphabet r ci c"
begin

lemma full_alphabet: "end_free r \<Longrightarrow> full ci r s \<Longrightarrow> c \<in> set s \<Longrightarrow> rx_alphabet r ci c"
  using full_iff lang_alphabet by blast

lemma full_avoids:
  assumes "end_free r" and "full ci r s" and "\<And>c. rx_alphabet r ci c \<Longrightarrow> ord c \<notin> set bad"
  shows "\<not> contains_any bad s"
  using assms full_alphabet [OF assms(1, 2)] by (auto simp: contains_any_def list_ex_iff)

end

interpretation rx: full_matcher rx_full accepts
  by unfold_locales (auto simp: rx_full_iff accepts_alphabet)

lemma end_free_lit [simp]: "end_free (lit w)"
  by (induction w rule: lit.induct) simp_all

lemma end_free_alts [simp]: "list_all end_free rs \<Longrightarrow> end_free (alts rs)"
  by (induction rs rule: alts.induct) simp_all

lemma end_free_exactly [simp]: "end_free r \<Longrightarrow> end_free (exactly n r)"
  by (induction n) simp_all

lemma end_free_derived [simp]: "end_free (cls rs)" "end_free r \<Longrightarrow> end_free (plus r)"
  "end_free r \<Longrightarrow> end_free (opt r)" "end_free r \<Longrightarrow> end_free (between m n r)"
  by (simp_all add: cls_def plus_def opt_def between_def)

primrec group_free :: "rx \<Rightarrow> bool" where
  "group_free Eps = True"
| "group_free EndZ = True"
| "group_free (CSet neg rs) = True"
| "group_free (Cat r q) = (group_free r \<and> group_free q)"
| "group_free (Alt r q) = (group_free r \<and> group_free q)"
| "group_free (Star r) = group_free r"
| "group_free (UpTo n r) = group_free r"
| "group_free (Group g r) = False"
| "group_free (NoFlag r) = group_free r"

lemma group_free_lit [simp]: "group_free (lit w)"
  by (induction w rule: lit.induct) simp_all

lemma group_free_alts [simp]: "list_all group_free rs \<Longrightarrow> group_free (alts rs)"
  by (induction rs rule: alts.induct) simp_all

lemma group_free_exactly [simp]: "group_free r \<Longrightarrow> group_free (exactly n r)"
  by (induction n) simp_all

lemma rstar_caps: "(\<And>s s'. s' \<in> set (f s) \<Longrightarrow> fst s' = fst s) \<Longrightarrow> st' \<in> set (rstar f n st) \<Longrightarrow> fst st' = fst st"
  by (induction n arbitrary: st) (fastforce split: if_splits)+

lemma rupto_caps: "(\<And>s s'. s' \<in> set (f s) \<Longrightarrow> fst s' = fst s) \<Longrightarrow> st' \<in> set (rupto f n st) \<Longrightarrow> fst st' = fst st"
  by (induction n arbitrary: st) (fastforce split: if_splits)+

lemma rmatch_caps: "group_free r \<Longrightarrow> st' \<in> set (rmatch ci r st) \<Longrightarrow> fst st' = fst st"
proof (induction r arbitrary: ci st st')
  case (Star r)
  show ?case by (rule rstar_caps [OF Star.IH]) (use Star.prems in simp_all)
next
  case (UpTo n r)
  show ?case by (rule rupto_caps [OF UpTo.IH]) (use UpTo.prems in simp_all)
qed (fastforce split: if_splits list.splits)+

section \<open>Tokens\<close>

abbreviation chain_free :: "string \<Rightarrow> bool" where
  "chain_free s \<equiv> \<not> contains_any chain_chars s"

lemma contains_any_append [simp]: "contains_any cs (s @ t) = (contains_any cs s \<or> contains_any cs t)"
  by (simp add: contains_any_def)

lemma contains_any_Nil [simp]: "\<not> contains_any cs []"
  by (simp add: contains_any_def)

lemma contains_any_Cons [simp]: "contains_any cs (c # s) = (ord c \<in> set cs \<or> contains_any cs s)"
  by (simp add: contains_any_def)

lemma contains_any_mono: "set s \<subseteq> set t \<Longrightarrow> contains_any cs s \<Longrightarrow> contains_any cs t"
  by (auto simp: contains_any_def list_ex_iff)

definition token_char :: "char \<Rightarrow> bool" where
  "token_char c = (let n = ord c in 97 \<le> n \<and> n \<le> 122 \<or> 65 \<le> n \<and> n \<le> 90 \<or> 48 \<le> n \<and> n \<le> 57 \<or> n = 95 \<or> n = 45)"

lemma ord_upper_char:
  "ord (upper_char c) = (if 97 \<le> ord c \<and> ord c \<le> 122 \<or> 224 \<le> ord c \<and> ord c \<le> 254 \<and> ord c \<noteq> 247 then ord c - 32 else ord c)"
  using ord_less [of c] by (auto simp: upper_char_def Let_def)

lemma token_alphabet: "rx_alphabet rx_token True c \<Longrightarrow> token_char c"
  unfolding rx_token_def cls_def token_char_def Let_def rx_alphabet.simps cset_matches_def in_ranges_def
  by (simp add: ord_lower_char ord_upper_char) presburger

lemma token_chars: "rx_full True rx_token t \<Longrightarrow> list_all token_char t"
  using rx.full_alphabet [of rx_token True t] token_alphabet by (auto simp: list_all_iff rx_token_def)

lemma token_chain_free: "list_all token_char t \<Longrightarrow> chain_free t"
  by (auto simp: contains_any_def list_ex_iff list_all_iff token_char_def chain_chars_def Let_def)

lemma action_id_chain_free: "rx_full False rx_action_id t \<Longrightarrow> chain_free t"
proof (rule rx.full_avoids)
  fix c
  have "rx_alphabet (exactly n hex_cls) False c \<Longrightarrow> rx_alphabet hex_cls False c" for n
    by (induction n) auto
  then show "rx_alphabet rx_action_id False c \<Longrightarrow> ord c \<notin> set chain_chars"
    by (force simp: rx_action_id_def hex_cls_def cls_def cset_matches_def in_ranges_def chain_chars_def)
qed (simp_all add: rx_action_id_def hex_cls_def)

lemma digits_chain_free: "str_isdigit t \<Longrightarrow> chain_free t"
  by (auto simp: str_isdigit_def contains_any_def list_ex_iff list_all_iff is_digit_def chain_chars_def Let_def)

section \<open>Well-formed parameters and actions\<close>

definition wf_parameter :: "controller_parameter \<Rightarrow> bool" where
  "wf_parameter p =
     (p_type p \<in> set parameter_types
      \<and> list_all (list_all token_char) (p_values p)
      \<and> (p_type p = ''enum'' \<longrightarrow> p_values p \<noteq> [] \<and> fold_distinct (p_values p))
      \<and> (p_type p = ''flag_suffix'' \<longrightarrow> chain_free (p_true_value p) \<and> p_true_value p \<noteq> []))"

definition wf_action :: "controller_action \<Rightarrow> bool" where
  "wf_action a =
     (list_all wf_parameter (a_parameters a)
      \<and> distinct (map p_name (a_parameters a))
      \<and> distinct (holes (pieces (a_command_template a)))
      \<and> set (holes (pieces (a_command_template a))) = set (map p_name (a_parameters a))
      \<and> set (holes (pieces (a_script_args_template a))) \<subseteq> set (map p_name (a_parameters a))
      \<and> chain_free (a_command_template a) \<and> chain_free (a_script_args_template a)
      \<and> template_rx (a_parameters a) (pieces (a_command_template a)) = Inr (a_pattern a)
      \<and> a_kind a \<in> set kinds_all \<and> a_category a \<in> set categories_all
      \<and> (a_kind a = ''control'' \<longrightarrow> control_contract (a_name a) (a_script_args_template a) (a_launch_mode a)
           (a_parameters a) (a_category a) (a_confirmation_required a)))"

lemma cm_token_Inr: "cm_token v l = Inr t \<Longrightarrow> list_all token_char t"
  by (auto simp: cm_token_def token_chars split: if_splits)

lemma cm_text_Inr: "cm_text v l e = Inr t \<Longrightarrow> chain_free t"
  by (auto simp: cm_text_def Let_def split: if_splits)

lemma starts_with_nonempty: "starts_with '' '' s \<Longrightarrow> s \<noteq> []"
  by (cases s) (auto simp: starts_with_def)

lemma rmap_all: "rmap f xs = Inr ys \<Longrightarrow> (\<And>x y. f x = Inr y \<Longrightarrow> P y) \<Longrightarrow> list_all P ys"
  unfolding rmap_def list_all_iff using rmapi_all [of "\<lambda>_. f" 0 xs ys P] by blast

lemma parameter_wf: "parameter_from_mapping label raw = Inr p \<Longrightarrow> wf_parameter p"
  by (auto simp: parameter_from_mapping_def rbind_Inr_iff wf_parameter_def Let_def
      intro: rmap_all [where P = "list_all token_char"]
      dest!: starts_with_nonempty dest: cm_token_Inr split: if_splits pyval.splits)

lemma pieces_find: "find_parameter n ps = Some p \<Longrightarrow> p \<in> set ps \<and> p_name p = n"
  unfolding find_parameter_def find_Some_iff by auto

lemma find_parameter_name: "distinct (map p_name ps) \<Longrightarrow> p \<in> set ps \<Longrightarrow> find_parameter (p_name p) ps = Some p"
proof (induction ps)
  case (Cons q ps)
  then show ?case by (cases "q = p") (auto simp: find_parameter_def image_iff)
qed simp



lemma action_checked_wf:
  assumes "action_checked label name kind ct sa lm cat conf params = Inr a"
    and "list_all wf_parameter params" and "chain_free ct" and "chain_free sa"
    and "kind \<in> set kinds_all" and "cat \<in> set categories_all"
  shows "wf_action a"
proof -
  from assms(1) have a: "sort (holes (pieces ct)) = sort (map p_name params)" "distinct (map p_name params)"
      "set (holes (pieces sa)) \<subseteq> set (map p_name params)"
      "template_rx params (pieces ct) = Inr (a_pattern a)"
      "kind = ''control'' \<Longrightarrow> control_contract name sa lm params cat conf"
    and f: "a_name a = name" "a_kind a = kind" "a_command_template a = ct" "a_script_args_template a = sa"
      "a_launch_mode a = lm" "a_category a = cat" "a_confirmation_required a = conf" "a_parameters a = params"
    by (auto simp: action_checked_def Let_def rbind_Inr_iff split: if_splits)
  from a(1) have "set (holes (pieces ct)) = set (map p_name params)" by (metis set_sort)
  moreover from a(1, 2) have "distinct (holes (pieces ct))" by (metis distinct_sort)
  ultimately show ?thesis using a f assms(2-6) by (simp add: wf_action_def)
qed

lemma rmapi_list_all:
  "rmapi f i xs = Inr ys \<Longrightarrow> (\<And>j x y. f j x = Inr y \<Longrightarrow> P y) \<Longrightarrow> list_all P ys"
  unfolding list_all_iff using rmapi_all [of f i xs ys P] by blast

lemma list_case_InrE:
  assumes "(case v of PList xs \<Rightarrow> f xs | _ \<Rightarrow> Inl e) = Inr y"
  obtains xs where "v = PList xs" and "f xs = Inr y"
  using assms by (cases v) auto

lemma bool_case_InrE:
  assumes "(case v of PBool b \<Rightarrow> f b | _ \<Rightarrow> Inl e) = Inr y"
  obtains b where "v = PBool b" and "f b = Inr y"
  using assms by (cases v) auto

lemma if_error_InrE:
  assumes "(if b then Inl e else r) = Inr y"
  obtains "\<not> b" and "r = Inr y"
  using assms by (cases b) auto

lemmas loaded_elims = rbind_InrE list_case_InrE bool_case_InrE if_error_InrE

lemma action_wf: "action_from_mapping label raw = Inr a \<Longrightarrow> wf_action a"
  unfolding action_from_mapping_def Let_def
  by (elim loaded_elims)
     (rule action_checked_wf, assumption,
       auto intro: rmapi_list_all [where P = wf_parameter] parameter_wf dest: cm_text_Inr simp del: rmapi.simps)

definition wf_manifest :: "manifest \<Rightarrow> bool" where
  "wf_manifest m = (\<forall>c \<in> set m. \<forall>a \<in> set (c_actions c). wf_action a)"

lemma cfm_actions_wf: "cfm_actions label value = Inr (as, cap) \<Longrightarrow> list_all wf_action as"
proof -
  assume "cfm_actions label value = Inr (as, cap)"
  then obtain raws where "rmapi (\<lambda>i. action_from_mapping (label @ ''.actions['' @ nat_str i @ '']'')) 0 raws = Inr as"
    unfolding cfm_actions_def by (auto simp: rbind_Inr_iff Let_def simp del: rmapi.simps split: if_splits pyval.splits list.splits)
  then show ?thesis by (rule rmapi_list_all) (rule action_wf)
qed

lemma controller_wf: "controller_from_mapping label raw = Inr c \<Longrightarrow> list_all wf_action (c_actions c)"
proof -
  assume "controller_from_mapping label raw = Inr c"
  then obtain v cap where "cfm_actions label v = Inr (c_actions c, cap)"
    unfolding controller_from_mapping_def Let_def
    by (elim rbind_InrE) (auto simp: rbind_Inr_iff split: option.split_asm prod.split_asm)
  then show ?thesis by (rule cfm_actions_wf)
qed

lemma manifest_wf: "manifest_load raw = Inr m \<Longrightarrow> wf_manifest m"
proof -
  assume "manifest_load raw = Inr m"
  then obtain raws where "rmapi (\<lambda>i. controller_from_mapping (''controllers['' @ nat_str i @ '']'')) 0 raws = Inr m"
    by (auto simp: manifest_load_def manifest_init_def rbind_Inr_iff split: if_splits pyval.splits)
  from rmapi_list_all [OF this controller_wf] show ?thesis by (simp add: wf_manifest_def list_all_iff)
qed

section \<open>Rendering\<close>

lemma find_enum_Some: "find_enum p s = Some v \<Longrightarrow> v \<in> set (p_values p) \<and> casefold v = casefold s"
  unfolding find_enum_def find_Some_iff by auto

lemma find_enum_member: "v \<in> set (p_values p) \<Longrightarrow> casefold v = casefold s \<Longrightarrow> \<exists>w. find_enum p s = Some w"
  unfolding find_enum_def using find_None_iff [of "\<lambda>item. casefold item = casefold s" "p_values p"] by auto

lemma find_enum_self: "fold_distinct (p_values p) \<Longrightarrow> v \<in> set (p_values p) \<Longrightarrow> find_enum p v = Some v"
  using find_enum_member [of v p v] find_enum_Some [of p v]
  by (auto simp: fold_distinct_def distinct_map inj_on_def)

lemma render_cases:
  assumes "wf_parameter p" and "render p v = Inr t"
  obtains (enum) "p_type p = ''enum''" "t \<in> set (p_values p)"
    | (numeric) "p_type p = ''numeric''" "t = strip (py_str v)" "str_isdigit t"
    | (action_id) "p_type p = ''action_id''" "v = PStr t" "rx_full False rx_action_id t"
    | (flag) "p_type p = ''flag_suffix''" "t = [] \<or> t = p_true_value p"
proof -
  from assms(1) have "p_type p \<in> {''enum'', ''numeric'', ''flag_suffix'', ''action_id''}"
    by (simp add: wf_parameter_def parameter_types_def)
  with assms(2) that show thesis
    by (auto simp: render_def dest: find_enum_Some split: if_splits pyval.splits option.splits)
qed

lemma render_chain_free:
  assumes "wf_parameter p" and "render p v = Inr t"
  shows "chain_free t"
  using assms
proof (cases rule: render_cases)
  case enum
  with assms(1) show ?thesis by (auto simp: wf_parameter_def list_all_iff intro!: token_chain_free)
next
  case numeric
  then show ?thesis by (simp add: digits_chain_free)
next
  case action_id
  then show ?thesis by (simp add: action_id_chain_free)
next
  case flag
  with assms(1) show ?thesis by (auto simp: wf_parameter_def)
qed

lemma render_error: "render p v = Inl e \<Longrightarrow> \<exists>m. e = VE m"
  by (auto simp: render_def split: if_splits pyval.splits option.splits)

lemma render_all_error: "render_all source ps = Inl e \<Longrightarrow> \<exists>m. e = VE m"
  by (induction ps) (auto simp: Let_def rbind_Inl_iff dest: render_error)

lemma render_all_Inr:
  assumes "render_all source ps = Inr (rendered, normalized)"
  shows "map fst rendered = map p_name ps
    \<and> (\<forall>p \<in> set ps. \<exists>t. (p_name p, t) \<in> set rendered \<and> render p (dget_or (p_name p) (PBool (p_default p)) source) = Inr t)
    \<and> (\<forall>x \<in> set rendered. \<exists>p \<in> set ps. fst x = p_name p
         \<and> render p (dget_or (p_name p) (PBool (p_default p)) source) = Inr (snd x))"
  using assms
  by (induction ps arbitrary: rendered normalized) (fastforce simp: Let_def rbind_Inr_iff)+

lemma substitute_total: "set (holes ps) \<subseteq> fst ` set rendered \<Longrightarrow> \<exists>s. substitute rendered ps = Inr s"
proof (induction rendered ps rule: substitute.induct)
  case (3 rendered n ps)
  then have "map_of rendered n \<noteq> None" by (auto simp: map_of_eq_None_iff)
  with 3 show ?case by auto
qed auto

lemma substitute_chain_free:
  assumes "substitute rendered (pieces s) = Inr t" and "chain_free s" and "\<forall>x \<in> set rendered. chain_free (snd x)"
  shows "chain_free t"
  using assms(1, 2)
proof (induction s arbitrary: t rule: pieces.induct)
  case 1
  then show ?case by simp
next
  case (2 c cs)
  show ?case
  proof (cases "if c = CHR ''{'' then scan_hole cs else None")
    case None
    with 2 show ?thesis by (auto simp: rbind_Inr_iff)
  next
    case (Some x)
    obtain n rest where x: "x = (n, rest)" by (cases x)
    from Some x have "scan_hole cs = Some (n, rest)" by (simp split: if_splits)
    then obtain d where "dropWhile hole_char cs = d # rest"
      by (auto simp: scan_hole_def Let_def split: list.splits if_splits)
    then have "set rest \<subseteq> set cs" by (metis set_dropWhileD set_subset_Cons subset_trans subsetI)
    with 2(4) contains_any_mono have "chain_free rest" by auto
    moreover from 2(3) Some x obtain v u where "map_of rendered n = Some v" "substitute rendered (pieces rest) = Inr u" "t = v @ u"
      by (auto simp: rbind_Inr_iff split: option.splits)
    moreover from this assms(3) have "chain_free v" by (fastforce dest: map_of_SomeD)
    ultimately show ?thesis using 2(2) [OF Some x [symmetric]] by auto
  qed
qed

lemma build_Inr:
  assumes "action_build a source = Inr (command, script_args, normalized)"
  obtains rendered where "render_all source (a_parameters a) = Inr (rendered, normalized)"
    and "substitute rendered (pieces (a_command_template a)) = Inr command"
    and "substitute rendered (pieces (a_script_args_template a)) = Inr script_args"
  using assms unfolding action_build_def Let_def
  by (auto simp: rbind_Inr_iff split: if_splits)

lemma build_chain_free:
  assumes "wf_action a" and "action_build a source = Inr (command, script_args, normalized)"
  shows "chain_free command \<and> chain_free script_args"
  using assms(2)
proof (cases rule: build_Inr)
  case (1 rendered)
  have "\<forall>x \<in> set rendered. chain_free (snd x)"
    using render_all_Inr [OF 1(1)] assms(1) render_chain_free unfolding wf_action_def list_all_iff by metis
  with substitute_chain_free [OF 1(2)] substitute_chain_free [OF 1(3)] assms(1) show ?thesis
    by (simp add: wf_action_def)
qed

lemma build_error:
  assumes "wf_action a" and "action_build a source = Inl e"
  shows "\<exists>m. e = VE m"
proof (rule ccontr)
  assume no: "\<nexists>m. e = VE m"
  have "unknown_keys (map p_name (a_parameters a)) source = []"
    "missing_keys (map p_name (filter p_required (a_parameters a))) source = []"
    using assms(2) no unfolding action_build_def Let_def by (auto split: if_splits)
  note ok = this
  show False
  proof (cases "render_all source (a_parameters a)")
    case (Inl e')
    with assms(2) ok no render_all_error [OF Inl] show False unfolding action_build_def Let_def by simp
  next
    case (Inr x)
    obtain rendered normalized where x: "x = (rendered, normalized)" by (cases x)
    from render_all_Inr [OF Inr [unfolded x]] have "fst ` set rendered = set (map p_name (a_parameters a))"
      by (metis list.set_map)
    with assms(1) substitute_total [of "pieces (a_command_template a)" rendered]
      substitute_total [of "pieces (a_script_args_template a)" rendered]
    obtain s1 s2 where "substitute rendered (pieces (a_command_template a)) = Inr s1"
      "substitute rendered (pieces (a_script_args_template a)) = Inr s2" by (auto simp: wf_action_def)
    with assms(2) ok Inr x show False unfolding action_build_def Let_def by simp
  qed
qed

section \<open>Patterns and captures\<close>

lemma fragment_regular [simp]: "end_free (regex_fragment p)" "group_free (regex_fragment p)"
  by (auto simp: regex_fragment_def list_all_iff rx_action_id_def plus_def hex_cls_def digit_cls_def cls_def)

definition captured :: "controller_parameter \<Rightarrow> string option \<Rightarrow> bool" where
  "captured p w = (p_type p = ''flag_suffix'' \<or> (\<exists>s. w = Some s \<and> accepts True (regex_fragment p) s))"

lemma group_match:
  assumes "group_free r" and "end_free r" and "st' \<in> set (rmatch ci (Group g r) st)"
  shows "\<exists>w. fst st' = dput g w (fst st) \<and> accepts ci r w"
proof -
  from assms(3) obtain caps rest where m: "(caps, rest) \<in> set (rmatch ci r st)"
    and st': "st' = (dput g (take (length (snd st) - length rest) (snd st)) caps, rest)" by auto
  from rmatch_sound [OF assms(2) m] obtain w where "snd st = w @ rest" "accepts ci r w" by (auto simp: splits_def)
  with st' rmatch_caps [OF assms(1) m] show ?thesis by auto
qed

lemma rmatch_opt: "set (rmatch ci (opt r) st) = insert st (set (rmatch ci r st))"
  by (simp add: opt_def)

lemma template_captures:
  assumes "template_rx params ps = Inr r" and "distinct (holes ps)" and "st' \<in> set (rmatch True r st)"
  shows "(\<forall>n. n \<notin> set (holes ps) \<longrightarrow> map_of (fst st') n = map_of (fst st) n)
    \<and> (\<forall>n \<in> set (holes ps). \<forall>p. find_parameter n params = Some p \<longrightarrow> captured p (map_of (fst st') n))"
  using assms
proof (induction params ps arbitrary: r st rule: template_rx.induct)
  case (1 params)
  then show ?case by simp
next
  case (2 params c ps)
  from 2(2) obtain r1 where r1: "template_rx params ps = Inr r1" "r = Cat (lit [c]) r1" by (auto simp: rbind_Inr_iff)
  with 2(4) obtain s1 where s1: "s1 \<in> set (rmatch True (lit [c]) st)" "st' \<in> set (rmatch True r1 s1)" by auto
  have "fst s1 = fst st" by (rule rmatch_caps [OF group_free_lit s1(1)])
  with 2(1) [OF r1(1) _ s1(2)] 2(3) show ?case by simp
next
  case (3 params n ps)
  then obtain p r1 where p: "find_parameter n params = Some p" and r1: "template_rx params ps = Inr r1"
    and r: "r = Cat (if p_type p = ''flag_suffix'' then opt (Group (p_name p) (regex_fragment p))
                     else Group (p_name p) (regex_fragment p)) r1"
    by (auto simp: rbind_Inr_iff Let_def split: option.splits)
  from pieces_find [OF p] have n: "p_name p = n" by simp
  from 3(4) r [unfolded n] obtain s1 where s1: "s1 \<in> set (rmatch True (if p_type p = ''flag_suffix''
        then opt (Group n (regex_fragment p)) else Group n (regex_fragment p)) st)" "st' \<in> set (rmatch True r1 s1)"
    by auto
  have "(\<forall>k. k \<noteq> n \<longrightarrow> map_of (fst s1) k = map_of (fst st) k) \<and> captured p (map_of (fst s1) n)"
  proof (cases "p_type p = ''flag_suffix''")
    case True
    with s1(1) have "s1 \<in> set (rmatch True (opt (Group n (regex_fragment p))) st)" by (simp only: if_True simp_thms)
    then consider "s1 = st" | "s1 \<in> set (rmatch True (Group n (regex_fragment p)) st)"
      unfolding rmatch_opt insert_iff by (elim disjE)
    then have "s1 = st \<or> (\<exists>w. fst s1 = dput n w (fst st))"
      by cases (blast, metis group_match fragment_regular)
    with True show ?thesis by (auto simp: captured_def)
  next
    case False
    with s1(1) have "s1 \<in> set (rmatch True (Group n (regex_fragment p)) st)" by (simp only: if_False)
    from group_match [OF _ _ this] show ?thesis by (auto simp: captured_def)
  qed
  moreover from 3(3) have "n \<notin> set (holes ps)" "distinct (holes ps)" by simp_all
  moreover note 3(1) [OF p r1 _ s1(2)]
  ultimately show ?case using p by auto
qed

lemma action_id_captured: "accepts ci (NoFlag rx_action_id) w \<Longrightarrow> rx_full False rx_action_id w"
  by (simp add: rx.full_iff rx_action_id_def hex_cls_def)

lemma casefold_char_eqI: "ord c \<noteq> 223 \<Longrightarrow> ord d \<noteq> 223 \<Longrightarrow> ord (lower_char c) = ord (lower_char d) \<Longrightarrow> casefold_char c = casefold_char d"
  by (simp add: casefold_char_def)

lemma upper_token:
  assumes "token_char (upper_char d)"
  shows "casefold_char d = casefold_char (upper_char d)"
proof -
  consider (lower) "97 \<le> ord d" "ord d \<le> 122" | (latin) "224 \<le> ord d" "ord d \<le> 254" "ord d \<noteq> 247" | (same) "ord (upper_char d) = ord d"
    unfolding ord_upper_char by argo
  then show ?thesis
  proof cases
    case lower
    then have "ord (upper_char d) = ord d - 32" by (simp add: ord_upper_char)
    with lower show ?thesis by (intro casefold_char_eqI) (auto simp: ord_lower_char)
  next
    case latin
    then have "ord (upper_char d) = ord d - 32" by (simp add: ord_upper_char)
    with assms latin show ?thesis by (auto simp: token_char_def Let_def)
  qed simp
qed

lemma lower_token: "token_char (lower_char d) \<Longrightarrow> casefold_char d = casefold_char (lower_char d)"
  by (rule casefold_char_eqI) (auto simp: token_char_def Let_def ord_lower_char split: if_splits)

lemma ci_char_casefold:
  assumes "cset_matches True False [(ord c, ord c)] d" and "token_char c"
  shows "casefold_char d = casefold_char c"
proof -
  from assms(1) have "d = c \<or> lower_char d = c \<or> upper_char d = c"
    by (auto simp: cset_matches_def in_ranges_def ord_inject)
  with assms(2) upper_token lower_token show ?thesis by blast
qed

lemma lit_ci_casefold: "accepts True (lit v) w \<Longrightarrow> list_all token_char v \<Longrightarrow> casefold w = casefold v"
  by (induction v arbitrary: w rule: lit.induct) (auto simp: casefold_Cons ci_char_casefold)

lemma lit_accepts: "accepts True (lit v) v"
proof (induction v rule: lit.induct)
  case (3 c d cs)
  have "accepts True (CSet False [(ord c, ord c)]) [c]" by (simp add: cset_matches_def in_ranges_def)
  from acc_cat [OF this 3] show ?case by simp
qed (simp_all add: cset_matches_def in_ranges_def)

lemma alts_accepts: "accepts ci (alts rs) w \<longleftrightarrow> (if rs = [] then w = [] else (\<exists>r \<in> set rs. accepts ci r w))"
  by (induction rs rule: alts.induct) auto

lemma enum_captured:
  assumes "wf_parameter p" and "p_type p = ''enum''" and "accepts True (regex_fragment p) w"
  shows "\<exists>v. find_enum p w = Some v"
proof -
  from assms obtain v where "v \<in> set (p_values p)" "accepts True (lit v) w"
    by (auto simp: regex_fragment_def wf_parameter_def alts_accepts)
  moreover from this assms(1) have "casefold v = casefold w"
    by (metis lit_ci_casefold list_all_iff wf_parameter_def)
  ultimately show ?thesis by (auto intro: find_enum_member)
qed

section \<open>Recognition is total\<close>

definition renderable :: "controller_parameter \<Rightarrow> pyval \<Rightarrow> bool" where
  "renderable p v = (\<exists>t. render p v = Inr t)"

lemma ascii_digit_facts: "is_ascii_digit c \<Longrightarrow> is_digit c \<and> \<not> is_space c"
  by (auto simp: is_ascii_digit_def is_digit_def is_space_def Let_def)

lemma digits_render:
  assumes "list_all is_ascii_digit s" and "s \<noteq> []"
  shows "strip s = s \<and> str_isdigit s"
proof -
  from assms have "\<not> is_space (hd s)" "\<not> is_space (last s)"
    by (auto simp: list_all_iff dest: ascii_digit_facts)
  with assms show ?thesis by (auto simp: strip_fixed str_isdigit_def list_all_iff dest: ascii_digit_facts)
qed

lemma digit_alphabet: "rx_alphabet digit_cls ci c \<Longrightarrow> is_ascii_digit c"
proof -
  assume "rx_alphabet digit_cls ci c"
  then have "is_ascii_digit c \<or> is_ascii_digit (lower_char c) \<or> is_ascii_digit (upper_char c)"
    by (auto simp: digit_cls_def cls_def cset_matches_def in_ranges_def is_ascii_digit_def Let_def)
  moreover have "is_ascii_digit (lower_char c) \<Longrightarrow> is_ascii_digit c"
    by (auto simp: is_ascii_digit_def Let_def ord_lower_char split: if_splits)
  moreover have "is_ascii_digit (upper_char c) \<Longrightarrow> is_ascii_digit c"
    by (auto simp: is_ascii_digit_def Let_def ord_upper_char split: if_splits)
  ultimately show ?thesis by blast
qed

lemma plus_digits: "accepts ci (plus digit_cls) s \<longleftrightarrow> s \<noteq> [] \<and> list_all is_ascii_digit s"
proof
  assume "accepts ci (plus digit_cls) s"
  then obtain u v where "s = u @ v" "accepts ci digit_cls u" "accepts ci (Star digit_cls) v" by (auto simp: plus_def)
  moreover from this(2) have "u \<noteq> []" by (auto simp: digit_cls_def cls_def)
  ultimately show "s \<noteq> [] \<and> list_all is_ascii_digit s"
    using digit_alphabet by (auto simp: list_all_iff dest!: accepts_alphabet)
next
  assume s: "s \<noteq> [] \<and> list_all is_ascii_digit s"
  have one: "accepts ci digit_cls [c]" if "is_ascii_digit c" for c
    using that by (simp add: digit_cls_def cls_def cset_matches_def in_ranges_def is_ascii_digit_def Let_def)
  have star: "list_all is_ascii_digit w \<Longrightarrow> accepts ci (Star digit_cls) w" for w
  proof (induction w)
    case (Cons c w)
    then have "accepts ci digit_cls [c]" "accepts ci (Star digit_cls) w" using one by auto
    from acc_star [OF this(1) _ this(2)] show ?case by simp
  qed (rule acc_star0)
  from s obtain c w where "s = [c] @ w" by (cases s) auto
  with s acc_cat [OF one star, of c w] show "accepts ci (plus digit_cls) s" unfolding plus_def by simp
qed

lemma match_value:
  assumes "wf_parameter p" and "captured p w"
  shows "\<exists>v. (if p_type p = ''action_id''
              then rbind (render p (case w of None \<Rightarrow> PNone | Some s \<Rightarrow> PStr s)) (\<lambda>s. Inr (PStr s))
              else normalize_capture p w) = Inr v \<and> renderable p v"
proof -
  from assms(1) have "p_type p \<in> {''enum'', ''numeric'', ''flag_suffix'', ''action_id''}"
    by (simp add: wf_parameter_def parameter_types_def)
  then consider (flag) "p_type p = ''flag_suffix''" | (enum) s where "p_type p = ''enum''" "w = Some s" "accepts True (regex_fragment p) s"
    | (numeric) s where "p_type p = ''numeric''" "w = Some s" "accepts True (regex_fragment p) s"
    | (action_id) s where "p_type p = ''action_id''" "w = Some s" "accepts True (regex_fragment p) s"
    using assms(2) by (auto simp: captured_def)
  then show ?thesis
  proof cases
    case flag
    then show ?thesis by (simp add: normalize_capture_def renderable_def render_def)
  next
    case enum
    from enum_captured [OF assms(1) enum(1, 3)] obtain v where v: "find_enum p s = Some v" by blast
    with find_enum_self assms(1) enum(1) find_enum_Some [OF v] have "find_enum p v = Some v" by (simp add: wf_parameter_def)
    with v enum show ?thesis by (simp add: normalize_capture_def renderable_def render_def)
  next
    case numeric
    then have "s \<noteq> []" "list_all is_ascii_digit s" by (simp_all add: regex_fragment_def plus_digits)
    with digits_render numeric show ?thesis by (simp add: normalize_capture_def renderable_def render_def)
  next
    case action_id
    then have "rx_full False rx_action_id s" by (intro action_id_captured) (simp add: regex_fragment_def)
    with action_id show ?thesis by (simp add: renderable_def render_def)
  qed
qed

lemma match_values_total:
  assumes "\<forall>p \<in> set ps. wf_parameter p \<and> captured p (map_of found (p_name p))"
  shows "\<exists>vs. match_values found ps = Inr vs \<and> list_all2 (\<lambda>p x. fst x = p_name p \<and> renderable p (snd x)) ps vs"
  using assms
proof (induction ps)
  case Nil
  then show ?case by simp
next
  case (Cons p ps)
  from Cons.prems match_value obtain v where
    v: "(if p_type p = ''action_id''
         then rbind (render p (case map_of found (p_name p) of None \<Rightarrow> PNone | Some s \<Rightarrow> PStr s)) (\<lambda>s. Inr (PStr s))
         else normalize_capture p (map_of found (p_name p))) = Inr v" "renderable p v"
    by (metis list.set_intros(1))
  from Cons obtain vs where vs: "match_values found ps = Inr vs"
    "list_all2 (\<lambda>p x. fst x = p_name p \<and> renderable p (snd x)) ps vs" by auto
  have "match_values found (p # ps) = Inr ((p_name p, v) # vs)"
    unfolding match_values.simps v(1) vs(1) rbind_simps ..
  with v vs show ?case by auto
qed

lemma render_all_total:
  assumes "\<forall>p \<in> set ps. renderable p (dget_or (p_name p) (PBool (p_default p)) source)"
  shows "\<exists>x. render_all source ps = Inr x"
  using assms by (induction ps) (auto simp: Let_def renderable_def)

lemma matched_lookup:
  assumes "list_all2 (\<lambda>p x. fst x = p_name p \<and> renderable p (snd x)) ps vs" and "distinct (map p_name ps)"
  shows "map fst vs = map p_name ps \<and> (\<forall>p \<in> set ps. renderable p (dget_or (p_name p) d vs))"
  using assms
proof (induction rule: list_all2_induct)
  case Nil
  then show ?case by simp
next
  case (Cons p ps x vs)
  then have "map fst vs = map p_name ps" and "\<forall>q \<in> set ps. renderable q (dget_or (p_name q) d vs)" by auto
  moreover have "dget_or (p_name q) d (x # vs) = dget_or (p_name q) d vs" if "q \<in> set ps" for q
  proof -
    from Cons(4) that have "p_name q \<noteq> p_name p" by (auto simp: image_iff)
    with Cons show ?thesis by (cases x) (auto simp: dget_or_def)
  qed
  moreover have "dget_or (p_name p) d (x # vs) = snd x" using Cons by (cases x) (auto simp: dget_or_def)
  ultimately show ?case using Cons by auto
qed

lemma build_matched:
  assumes "wf_action a" and "list_all2 (\<lambda>p x. fst x = p_name p \<and> renderable p (snd x)) (a_parameters a) vs"
  shows "\<exists>x. action_build a vs = Inr x"
proof (cases "action_build a vs")
  case (Inl e)
  let ?names = "map p_name (a_parameters a)"
  from assms(1) have d: "distinct ?names" by (simp add: wf_action_def)
  from matched_lookup [OF assms(2) d] have keys: "dkeys vs = ?names"
    and "\<exists>x. render_all vs (a_parameters a) = Inr x"
    using render_all_total [of "a_parameters a" vs] matched_lookup [OF assms(2) d] by (auto simp: dkeys_def)
  then obtain rendered normalized where r: "render_all vs (a_parameters a) = Inr (rendered, normalized)" by auto
  from render_all_Inr [OF r] have "fst ` set rendered = set ?names" by (metis list.set_map)
  with assms(1) substitute_total [of "pieces (a_command_template a)" rendered]
    substitute_total [of "pieces (a_script_args_template a)" rendered]
  obtain s1 s2 where "substitute rendered (pieces (a_command_template a)) = Inr s1"
    "substitute rendered (pieces (a_script_args_template a)) = Inr s2" by (auto simp: wf_action_def)
  moreover from keys have "unknown_keys ?names vs = []" "missing_keys (map p_name (filter p_required (a_parameters a))) vs = []"
    by (auto simp: unknown_keys_Nil missing_keys_Nil)
  ultimately show ?thesis using r unfolding action_build_def Let_def by simp
qed auto

lemma fullmatch_state: "fullmatch_caps ci r s = Some found \<Longrightarrow> \<exists>st \<in> set (rmatch ci r ([], s)). fst st = found \<and> snd st = []"
  unfolding fullmatch_caps_def by (auto simp: find_Some_iff) (metis fst_conv nth_mem snd_conv)

lemma action_match_total:
  assumes "wf_action a"
  shows "action_match a command = Inr None \<and> fullmatch_caps True (a_pattern a) command = None
    \<or> (\<exists>vs x. action_match a command = Inr (Some vs) \<and> action_build a vs = Inr x)"
proof (cases "fullmatch_caps True (a_pattern a) command")
  case None
  then show ?thesis by (simp add: action_match_def)
next
  case (Some found)
  from fullmatch_state [OF Some] obtain st where st: "st \<in> set (rmatch True (a_pattern a) ([], command))" "fst st = found" by blast
  from assms template_captures [OF _ _ st(1), of "a_parameters a" "pieces (a_command_template a)"]
  have "\<forall>n \<in> set (map p_name (a_parameters a)). \<forall>p. find_parameter n (a_parameters a) = Some p \<longrightarrow> captured p (map_of found n)"
    by (simp add: wf_action_def st(2))
  with assms have "\<forall>p \<in> set (a_parameters a). wf_parameter p \<and> captured p (map_of found (p_name p))"
    by (auto simp: wf_action_def list_all_iff find_parameter_name)
  from match_values_total [OF this] obtain vs where "match_values found (a_parameters a) = Inr vs"
    "list_all2 (\<lambda>p x. fst x = p_name p \<and> renderable p (snd x)) (a_parameters a) vs" by blast
  with build_matched [OF assms this(2)] Some show ?thesis by (simp add: action_match_def)
qed

lemma match_actions_total:
  assumes "\<forall>a \<in> set as. wf_action a"
  shows "\<exists>r. match_actions c as command = Inr r
    \<and> (\<forall>f. r = Some f \<longrightarrow> cc_controller f = c \<and> cc_action f \<in> set as
         \<and> (\<exists>vs command'. action_match (cc_action f) command = Inr (Some vs)
              \<and> action_build (cc_action f) vs = Inr (command', cc_script_args f, cc_arguments f)))"
  using assms
proof (induction as)
  case Nil
  then show ?case by simp
next
  case (Cons a as)
  from action_match_total [of a command] Cons.prems
  consider "action_match a command = Inr None"
    | vs x where "action_match a command = Inr (Some vs)" "action_build a vs = Inr x" by auto
  then show ?case
  proof cases
    case 1
    with Cons show ?thesis by auto
  next
    case 2
    then show ?thesis by (cases x) auto
  qed
qed

lemma match_command_total:
  assumes "wf_manifest m"
  shows "\<exists>r. match_command m command = Inr r
    \<and> (\<forall>f. r = Some f \<longrightarrow> cc_controller f \<in> set m \<and> cc_action f \<in> set (c_actions (cc_controller f))
         \<and> (\<exists>vs command'. action_match (cc_action f) command = Inr (Some vs)
              \<and> action_build (cc_action f) vs = Inr (command', cc_script_args f, cc_arguments f)))"
  using assms
proof (induction m)
  case Nil
  then show ?case by simp
next
  case (Cons c m)
  from Cons.prems have "\<forall>a \<in> set (c_actions c). wf_action a" and m: "wf_manifest m" by (simp_all add: wf_manifest_def)
  from match_actions_total [OF this(1), of c command] obtain r where
    r: "match_actions c (c_actions c) command = Inr r"
    "\<forall>f. r = Some f \<longrightarrow> cc_controller f = c \<and> cc_action f \<in> set (c_actions c)
         \<and> (\<exists>vs command'. action_match (cc_action f) command = Inr (Some vs)
              \<and> action_build (cc_action f) vs = Inr (command', cc_script_args f, cc_arguments f))" by blast
  show ?case
  proof (cases r)
    case None
    with r(1) Cons.IH [OF m] show ?thesis by auto
  next
    case (Some f)
    with r show ?thesis by auto
  qed
qed

section \<open>A built command is recognised\<close>

definition is_ascii :: "string \<Rightarrow> bool" where
  "is_ascii s = list_all (\<lambda>c. ord c < 128) s"

lemma rendered_accepted:
  assumes "wf_parameter p" and "render p v = Inr t" and "p_type p = ''numeric'' \<Longrightarrow> is_ascii (py_str v)"
  shows "accepts True (if p_type p = ''flag_suffix'' then opt (Group n (regex_fragment p)) else Group n (regex_fragment p)) t"
  using assms(1, 2)
proof (cases rule: render_cases)
  case enum
  then have "\<exists>r \<in> set (map lit (p_values p)). accepts True r t" using lit_accepts by auto
  with enum show ?thesis by (auto simp: regex_fragment_def alts_accepts)
next
  case numeric
  with assms(3) have "\<forall>c \<in> set t. ord c < 128" using set_strip [of "py_str v"] by (auto simp: is_ascii_def list_all_iff)
  moreover have "is_digit c \<Longrightarrow> ord c < 128 \<Longrightarrow> is_ascii_digit c" for c
    by (auto simp: is_digit_def is_ascii_digit_def Let_def)
  moreover from numeric have "t \<noteq> []" "\<forall>c \<in> set t. is_digit c" by (auto simp: str_isdigit_def list_all_iff)
  ultimately have "list_all is_ascii_digit t" "t \<noteq> []" by (auto simp: list_all_iff)
  with numeric show ?thesis by (simp add: regex_fragment_def plus_digits)
next
  case action_id
  then show ?thesis by (simp add: regex_fragment_def rx.full_iff rx_action_id_def hex_cls_def)
next
  case flag
  then show ?thesis using lit_accepts by (auto simp: regex_fragment_def opt_def)
qed

lemma template_accepts:
  assumes "template_rx params ps = Inr r" and "substitute rendered ps = Inr s"
    and "\<And>n p t. find_parameter n params = Some p \<Longrightarrow> map_of rendered n = Some t \<Longrightarrow>
      accepts True (if p_type p = ''flag_suffix'' then opt (Group (p_name p) (regex_fragment p))
        else Group (p_name p) (regex_fragment p)) t"
  shows "accepts True r s"
  using assms
proof (induction params ps arbitrary: r s rule: template_rx.induct)
  case (1 params)
  then show ?case by simp
next
  case (2 params c ps)
  from 2(2, 3) obtain r1 s1 where r1: "template_rx params ps = Inr r1" "substitute rendered ps = Inr s1"
      "r = Cat (lit [c]) r1" "s = [c] @ s1" by (auto simp: rbind_Inr_iff)
  with acc_cat [OF lit_accepts [of "[c]"] 2(1) [OF r1(1, 2) 2(4)]] show ?case by simp
next
  case (3 params n ps)
  from 3(2, 3) obtain p t r1 s1 where p: "find_parameter n params = Some p" "map_of rendered n = Some t"
    and r1: "template_rx params ps = Inr r1" "substitute rendered ps = Inr s1"
    and rs: "r = Cat (if p_type p = ''flag_suffix'' then opt (Group (p_name p) (regex_fragment p))
                     else Group (p_name p) (regex_fragment p)) r1" "s = t @ s1"
    by (auto simp: rbind_Inr_iff Let_def split: option.splits)
  from acc_cat [OF 3(4) [OF p] 3(1) [OF p(1) r1 3(4)]] rs show ?case by simp
qed

lemma end_free_template: "template_rx params ps = Inr r \<Longrightarrow> end_free r"
  by (induction params ps arbitrary: r rule: template_rx.induct)
     (auto simp: rbind_Inr_iff Let_def opt_def split: option.splits)

lemma build_recognised:
  assumes "wf_action a" and "action_build a args = Inr (command, sa, nz)"
    and "\<And>p. p \<in> set (a_parameters a) \<Longrightarrow> p_type p = ''numeric'' \<Longrightarrow> is_ascii (py_str (dget_or (p_name p) (PBool (p_default p)) args))"
  shows "rx_full True (a_pattern a) command"
  using assms(2)
proof (cases rule: build_Inr)
  case (1 rendered)
  from assms(1) have t: "template_rx (a_parameters a) (pieces (a_command_template a)) = Inr (a_pattern a)"
    and d: "distinct (map p_name (a_parameters a))" by (simp_all add: wf_action_def)
  have "accepts True (a_pattern a) command"
  proof (rule template_accepts [OF t 1(2)])
    fix n p t
    assume f: "find_parameter n (a_parameters a) = Some p" and "map_of rendered n = Some t"
    then have p: "p \<in> set (a_parameters a)" "p_name p = n" and "(n, t) \<in> set rendered"
      by (auto dest: pieces_find map_of_SomeD)
    from render_all_Inr [OF 1(1)] this(3) obtain q where "q \<in> set (a_parameters a)" "p_name q = n"
      "render q (dget_or (p_name q) (PBool (p_default q)) args) = Inr t" by fastforce
    with p d have "render p (dget_or (p_name p) (PBool (p_default p)) args) = Inr t"
      by (metis find_parameter_name option.inject)
    with assms(1, 3) p(1) show "accepts True (if p_type p = ''flag_suffix'' then opt (Group (p_name p) (regex_fragment p))
        else Group (p_name p) (regex_fragment p)) t"
      by (intro rendered_accepted) (auto simp: wf_action_def list_all_iff)
  qed
  with end_free_template [OF t] show ?thesis by (simp add: rx.full_iff)
qed

end
