(* ===== verification/ManifestReading.thy ===== *)
theory ManifestReading
  imports ManifestSafety
begin

text \<open>
  How a manifest reads a command: the command that the matched action rebuilds has the letters of the
  command that was matched, but for their case, and two commands with the same letters and the same
  action ids are read alike, since an action id is the only part of a pattern that minds the case.
\<close>

section \<open>The same letters\<close>

definition same_letters :: "string \<Rightarrow> string \<Rightarrow> bool" where
  "same_letters s t = (map lower_char s = map lower_char t)"

lemma same_letters_simps [simp]:
  "same_letters s s" "same_letters (c # s) (d # t) = (lower_char c = lower_char d \<and> same_letters s t)"
  "same_letters [] t = (t = [])" "same_letters s [] = (s = [])"
  by (auto simp: same_letters_def)

lemma same_letters_sym: "same_letters s t \<Longrightarrow> same_letters t s"
  by (simp add: same_letters_def)

lemma same_letters_append: "same_letters s s' \<Longrightarrow> same_letters t t' \<Longrightarrow> same_letters (s @ t) (s' @ t')"
  by (simp add: same_letters_def)

lemma same_letters_length: "same_letters s t \<Longrightarrow> length s = length t"
  unfolding same_letters_def by (rule map_eq_imp_length_eq)

lemma same_letters_drop: "same_letters s t \<Longrightarrow> same_letters (drop n s) (drop n t)"
  unfolding same_letters_def by (metis drop_map)

lemma same_letters_take: "same_letters s t \<Longrightarrow> same_letters (take n s) (take n t)"
  unfolding same_letters_def by (metis take_map)

lemma lower_is_sharp: "ord (lower_char c) = 223 \<longleftrightarrow> ord c = 223"
  by (auto simp: ord_lower_char)

lemma same_letter_fold: "lower_char c = lower_char d \<Longrightarrow> casefold_char c = casefold_char d"
  using lower_is_sharp [of c] lower_is_sharp [of d] by (simp add: casefold_char_def)

lemma same_letters_fold: "same_letters s t \<Longrightarrow> casefold s = casefold t"
proof (induction s arbitrary: t)
  case (Cons c s)
  from Cons.prems obtain d t' where t: "t = d # t'" by (cases t) simp_all
  with Cons.prems have "lower_char c = lower_char d" and "same_letters s t'" by simp_all
  from same_letter_fold [OF this(1)] Cons.IH [OF this(2)] t show ?case by (simp add: casefold_Cons)
qed simp

lemma fold_same_letters:
  assumes "casefold s = casefold t" and "list_all token_char s" and "list_all token_char t"
  shows "same_letters s t"
proof -
  have "token_char c \<Longrightarrow> ord c \<noteq> 223" for c by (cases "ord c = 223") (simp_all add: token_char_def)
  then have "list_all token_char w \<Longrightarrow> casefold w = map lower_char w" for w
    by (induction w) (simp_all add: casefold_Cons casefold_char_def)
  with assms show ?thesis by (simp add: same_letters_def)
qed

lemma lower_upper: "lower_char (upper_char c) = lower_char c"
  by (subst ord_inject [symmetric]) (auto simp: ord_lower_char ord_upper_char)

lemma upper_lower: "upper_char (lower_char c) = upper_char c"
  by (subst ord_inject [symmetric]) (auto simp: ord_lower_char ord_upper_char)

lemma lower_or_upper: "c = lower_char c \<or> c = upper_char c"
  by (simp add: ord_lower_char ord_upper_char flip: ord_inject)

lemma letter_cases: "{c, lower_char c, upper_char c} = {lower_char c, upper_char (lower_char c)}"
  using lower_or_upper [of c] by (auto simp: upper_lower)

lemma cset_same_letter:
  assumes "lower_char c = lower_char d"
  shows "cset_matches True neg rs c = cset_matches True neg rs d"
proof -
  have "cset_matches True neg rs x = ((\<exists>y \<in> {lower_char x, upper_char (lower_char x)}. in_ranges rs y) \<noteq> neg)" for x
    by (simp add: cset_matches_def flip: letter_cases)
  with assms show ?thesis by simp
qed

lemma lower_is_space: "lower_char c = CHR '' '' \<longleftrightarrow> c = CHR '' ''"
  by (simp add: ord_lower_char flip: ord_inject)

lemma same_letters_word: "same_letters v w \<Longrightarrow> is_word w \<Longrightarrow> is_word v"
proof -
  have "list_all (\<lambda>c. \<not> is_space c) u = list_all (\<lambda>c. \<not> is_space c) (map lower_char u)" for u by (induction u) simp_all
  then show "same_letters v w \<Longrightarrow> is_word w \<Longrightarrow> is_word v"
    unfolding is_word_def same_letters_def by (metis map_is_Nil_conv)
qed

lemma same_letters_join:
  assumes "\<forall>w \<in> set ws. is_word w" and "same_letters c (join '' '' ws)"
  shows "\<exists>vs. c = join '' '' vs \<and> (\<forall>v \<in> set vs. is_word v)"
  using assms
proof (induction "'' ''::string" ws arbitrary: c rule: join.induct)
  case 1
  then show ?case by (intro exI [of _ "[]"]) simp
next
  case (2 x)
  then have "is_word c" using same_letters_word [of c x] by simp
  then show ?case by (intro exI [of _ "[c]"]) simp
next
  case (3 x y xs)
  let ?rest = "join '' '' (y # xs)"
  from 3(3) have "map lower_char c = map lower_char x @ CHR '' '' # map lower_char ?rest"
    by (simp add: same_letters_def lower_is_space)
  then obtain u w where uw: "c = u @ w" "map lower_char x = map lower_char u" "CHR '' '' # map lower_char ?rest = map lower_char w"
    unfolding map_eq_append_conv by (elim exE conjE)
  from uw(3) obtain e v where ev: "w = e # v" "CHR '' '' = lower_char e" "map lower_char ?rest = map lower_char v"
    unfolding Cons_eq_map_conv by (elim exE conjE)
  from uw ev have c: "c = u @ e # v" and u: "same_letters u x" and e: "lower_char e = CHR '' ''" and v: "same_letters v ?rest"
    by (simp_all only: same_letters_def)
  from 3(1) [OF _ v] 3(2) obtain vs where vs: "v = join '' '' vs" "\<forall>v \<in> set vs. is_word v" by auto
  from e have "e = CHR '' ''" by (simp add: lower_is_space)
  moreover from u 3(2) have "is_word u" using same_letters_word [of u x] by simp
  moreover have "vs \<noteq> []"
  proof
    assume "vs = []"
    with v vs have "?rest = []" by simp
    with 3(2) show False by (cases xs) (auto simp: is_word_def)
  qed
  ultimately show ?case using c vs by (intro exI [of _ "u # vs"]) (cases vs; simp)
qed

lemma same_letters_collapsed:
  assumes "same_letters c s" and "collapse s = s"
  shows "collapse c = c"
proof -
  from assms have "same_letters c (join '' '' (split_ws s))" by (simp add: collapse_def)
  from same_letters_join [OF _ this] obtain vs where "c = join '' '' vs" "\<forall>v \<in> set vs. is_word v"
    using split_ws_words by blast
  then show ?thesis by (simp add: collapse_def split_ws_join)
qed

lemma same_letters_avoid:
  assumes "same_letters c s" and "\<not> contains_any ks s" and "\<forall>k \<in> set ks. k < 65 \<or> 122 < k \<and> k < 192"
  shows "\<not> contains_any ks c"
proof -
  have "ord (lower_char x) = k \<longleftrightarrow> ord x = k" if "k \<in> set ks" for k x
    using assms(3) that by (auto simp: ord_lower_char)
  then have "contains_any ks w = contains_any ks (map lower_char w)" for w
    by (induction w) (simp_all, metis)
  with assms(1, 2) show ?thesis by (metis same_letters_def)
qed

section \<open>What a template reads\<close>

lemma lit_letters: "accepts True (lit v) w \<Longrightarrow> same_letters v w"
proof (induction v arbitrary: w rule: lit.induct)
  case (2 c)
  then obtain d where "w = [d]" "cset_matches True False [(ord c, ord c)] d" by auto
  then show ?case using lower_upper [of d] lower_char_idem [of d] by (auto simp: cset_matches_def in_ranges_def)
next
  case (3 c d cs)
  then obtain x u where w: "w = x # u" "cset_matches True False [(ord c, ord c)] x" "accepts True (lit (d # cs)) u" by auto
  then have "lower_char c = lower_char x" using lower_upper [of x] lower_char_idem [of x]
    by (auto simp: cset_matches_def in_ranges_def)
  with 3(1) [OF w(3)] w(1) show ?case by simp
qed simp

definition reads :: "controller_parameter \<Rightarrow> string option \<Rightarrow> string \<Rightarrow> bool" where
  \<comment> \<open>what is rendered for a capture has the letters that were captured\<close>
  "reads p w t = (if p_type p = ''flag_suffix'' then t = (if w = None \<or> w = Some [] then [] else p_true_value p)
     else (\<exists>s. w = Some s \<and> same_letters t s))"

lemma template_reads:
  assumes "template_rx params ps = Inr r" and "distinct (holes ps)" and "st' \<in> set (rmatch True r st)"
    and "\<forall>n \<in> set (holes ps). map_of (fst st) n = None" and "substitute rendered ps = Inr out"
    and "\<forall>n p t. find_parameter n params = Some p \<longrightarrow> map_of rendered n = Some t \<longrightarrow> n \<in> set (holes ps) \<longrightarrow> reads p (map_of (fst st') n) t"
  shows "\<exists>w. snd st = w @ snd st' \<and> same_letters out w"
  using assms
proof (induction params ps arbitrary: r st out rule: template_rx.induct)
  case (1 params)
  then show ?case by (intro exI [of _ "[]"]) simp
next
  case (2 params c ps)
  from 2(2) obtain r1 where r1: "template_rx params ps = Inr r1" "r = Cat (lit [c]) r1" by (auto simp: rbind_Inr_iff)
  with 2(4) obtain s1 where s1: "s1 \<in> set (rmatch True (lit [c]) st)" "st' \<in> set (rmatch True r1 s1)" by auto
  have same: "fst s1 = fst st" by (rule rmatch_caps [OF group_free_lit s1(1)])
  from rmatch_sound [OF end_free_lit s1(1)] obtain u where u: "snd st = u @ snd s1" "accepts True (lit [c]) u"
    by (auto simp: splits_def)
  from 2(6) obtain out1 where out: "substitute rendered ps = Inr out1" "out = [c] @ out1" by (auto simp: rbind_Inr_iff)
  from 2(1) [OF r1(1) _ s1(2) _ out(1)] 2(3,5,7) same obtain w where "snd s1 = w @ snd st'" "same_letters out1 w" by auto
  with u out(2) same_letters_append [OF lit_letters [OF u(2)], of out1 w] show ?case by (intro exI [of _ "u @ w"]) simp
next
  case (3 params n ps)
  then obtain p r1 where p: "find_parameter n params = Some p" and r1: "template_rx params ps = Inr r1"
    and r: "r = Cat (if p_type p = ''flag_suffix'' then opt (Group (p_name p) (regex_fragment p))
                     else Group (p_name p) (regex_fragment p)) r1"
    by (auto simp: rbind_Inr_iff Let_def split: option.splits)
  from pieces_find [OF p] have n: "p_name p = n" by simp
  from 3(4) r [unfolded n] obtain s1 where s1: "s1 \<in> set (rmatch True (if p_type p = ''flag_suffix''
        then opt (Group n (regex_fragment p)) else Group n (regex_fragment p)) st)" "st' \<in> set (rmatch True r1 s1)"
    by auto
  from 3(3) have d: "n \<notin> set (holes ps)" "distinct (holes ps)" by simp_all
  from template_captures [OF r1 d(2) s1(2)] d(1) have keep: "map_of (fst st') n = map_of (fst s1) n" by blast
  from 3(6) obtain t out1 where t: "map_of rendered n = Some t" and out: "substitute rendered ps = Inr out1" "out = t @ out1"
    by (auto simp: rbind_Inr_iff split: option.splits)
  from 3(7) p t have "reads p (map_of (fst st') n) t" by simp
  then have reads: "reads p (map_of (fst s1) n) t" by (simp only: keep)
  have grouped: "\<exists>u. snd st = u @ snd s1 \<and> fst s1 = dput n u (fst st) \<and> accepts True (regex_fragment p) u"
    if "s1 \<in> set (rmatch True (Group n (regex_fragment p)) st)"
  proof -
    from that obtain caps rest where m: "(caps, rest) \<in> set (rmatch True (regex_fragment p) st)"
      and s1: "s1 = (dput n (take (length (snd st) - length rest) (snd st)) caps, rest)" by auto
    from rmatch_sound [OF fragment_regular(1) m] obtain u where "snd st = u @ rest" "accepts True (regex_fragment p) u"
      by (auto simp: splits_def)
    with s1 rmatch_caps [OF fragment_regular(2) m] show ?thesis by auto
  qed
  have "\<exists>u. snd st = u @ snd s1 \<and> same_letters t u \<and> (\<forall>k. k \<noteq> n \<longrightarrow> map_of (fst s1) k = map_of (fst st) k)"
  proof (cases "p_type p = ''flag_suffix''")
    case True
    with s1(1) have "s1 \<in> set (rmatch True (opt (Group n (regex_fragment p))) st)" by (simp only: if_True simp_thms)
    then consider "s1 = st" | "s1 \<in> set (rmatch True (Group n (regex_fragment p)) st)"
      unfolding rmatch_opt insert_iff by (elim disjE)
    then show ?thesis
    proof cases
      case 1
      with 3(5) have "map_of (fst s1) n = None" by simp
      with reads True 1 show ?thesis by (simp add: reads_def)
    next
      case 2
      from grouped [OF this] obtain u where u: "snd st = u @ snd s1" "fst s1 = dput n u (fst st)"
        "accepts True (lit (p_true_value p)) u" using True by (auto simp: regex_fragment_def)
      from lit_letters [OF u(3)] have "same_letters (if u = [] then [] else p_true_value p) u" by simp
      with u reads True show ?thesis by (auto simp: reads_def)
    qed
  next
    case False
    with s1(1) have "s1 \<in> set (rmatch True (Group n (regex_fragment p)) st)" by (simp only: if_False)
    from grouped [OF this] reads False show ?thesis by (auto simp: reads_def)
  qed
  then obtain u where u: "snd st = u @ snd s1" "same_letters t u" "\<forall>k. k \<noteq> n \<longrightarrow> map_of (fst s1) k = map_of (fst st) k" by blast
  have none: "\<forall>k \<in> set (holes ps). map_of (fst s1) k = None" using 3(5) u(3) d(1) by (metis holes.simps(3) list.set_intros(2))
  from 3(1) [OF p r1 d(2) s1(2) none out(1)] 3(7) obtain w where "snd s1 = w @ snd st'" "same_letters out1 w" by auto
  with u out(2) same_letters_append [OF u(2), of out1 w] show ?case by (intro exI [of _ "u @ w"]) simp
qed

section \<open>The rebuilt command\<close>

abbreviation match_value :: "captures \<Rightarrow> controller_parameter \<Rightarrow> pyval result" where
  "match_value found p \<equiv> (if p_type p = ''action_id''
     then rbind (render p (case map_of found (p_name p) of None \<Rightarrow> PNone | Some s \<Rightarrow> PStr s)) (\<lambda>s. Inr (PStr s))
     else normalize_capture p (map_of found (p_name p)))"

lemma token_lower: "token_char (lower_char c) = token_char c"
  unfolding token_char_def Let_def ord_lower_char by presburger

lemma token_captured:
  assumes "wf_parameter p" and "p_type p = ''enum''" and "accepts True (regex_fragment p) w"
  shows "list_all token_char w"
proof -
  from assms obtain v where v: "list_all token_char v" "accepts True (lit v) w"
    by (auto simp: regex_fragment_def wf_parameter_def alts_accepts list_all_iff)
  have "list_all token_char u = list_all token_char (map lower_char u)" for u
    by (induction u) (simp_all add: token_lower)
  with lit_letters [OF v(2)] v(1) show ?thesis by (metis same_letters_def)
qed

lemma enum_letters:
  assumes "wf_parameter p" and "p_type p = ''enum''" and "accepts True (regex_fragment p) w" and "find_enum p w = Some v"
  shows "same_letters v w"
proof -
  from find_enum_Some [OF assms(4)] have v: "v \<in> set (p_values p)" "casefold v = casefold w" by simp_all
  with assms(1) have "list_all token_char v" by (auto simp: wf_parameter_def list_all_iff)
  from fold_same_letters [OF v(2) this token_captured [OF assms(1-3)]] show ?thesis .
qed

lemma value_reads:
  assumes "wf_parameter p" and "captured p (map_of found (p_name p))" and "match_value found p = Inr v"
    and "render p v = Inr t"
  shows "reads p (map_of found (p_name p)) t
    \<and> render p (if p_type p = ''flag_suffix'' then PBool (truthy v) else PStr t) = Inr t"
proof -
  from assms(1) have "p_type p \<in> {''enum'', ''numeric'', ''flag_suffix'', ''action_id''}"
    by (simp add: wf_parameter_def parameter_types_def)
  then consider (flag) "p_type p = ''flag_suffix''"
    | (enum) s where "p_type p = ''enum''" "map_of found (p_name p) = Some s" "accepts True (regex_fragment p) s"
    | (numeric) s where "p_type p = ''numeric''" "map_of found (p_name p) = Some s" "accepts True (regex_fragment p) s"
    | (action_id) s where "p_type p = ''action_id''" "map_of found (p_name p) = Some s"
    using assms(2) by (auto simp: captured_def)
  then show ?thesis
  proof cases
    case flag
    with assms(3, 4) show ?thesis by (auto simp: normalize_capture_def render_def reads_def split: if_splits)
  next
    case enum
    from enum assms(3) obtain u where u: "find_enum p s = Some u" "v = PStr u"
      by (auto simp: normalize_capture_def split: option.splits)
    with find_enum_self assms(1) enum(1) find_enum_Some [OF u(1)] have self: "find_enum p u = Some u"
      by (simp add: wf_parameter_def)
    with u assms(4) enum have "t = u" by (simp add: render_def)
    with self enum enum_letters [OF assms(1) enum(1, 3) u(1)] show ?thesis by (simp add: reads_def render_def)
  next
    case numeric
    then have "s \<noteq> []" "list_all is_ascii_digit s" by (simp_all add: regex_fragment_def plus_digits)
    with digits_render numeric assms(3, 4) show ?thesis by (auto simp: normalize_capture_def render_def reads_def)
  next
    case action_id
    with assms(3, 4) show ?thesis by (auto simp: render_def reads_def split: if_splits)
  qed
qed

lemma match_values_Inr:
  assumes "match_values found ps = Inr vs"
  shows "list_all2 (\<lambda>p x. fst x = p_name p \<and> match_value found p = Inr (snd x)) ps vs"
  using assms
proof (induction ps arbitrary: vs)
  case (Cons p ps)
  then obtain v ws where v: "match_value found p = Inr v" and ws: "match_values found ps = Inr ws"
    and vs: "vs = (p_name p, v) # ws"
    by (auto simp: rbind_Inr_iff simp del: if_split split: if_split_asm)
  from Cons.IH [OF ws] v vs show ?case by simp
qed simp

lemma list_all2_lookup:
  assumes "list_all2 (\<lambda>p x. fst x = p_name p \<and> P p (snd x)) ps vs" and "distinct (map p_name ps)" and "p \<in> set ps"
  shows "\<exists>x. map_of vs (p_name p) = Some x \<and> P p x"
  using assms
proof (induction rule: list_all2_induct)
  case (Cons q qs x xs)
  obtain k v where x: "x = (k, v)" by (cases x)
  show ?case
  proof (cases "p = q")
    case True
    with Cons x show ?thesis by simp
  next
    case False
    with Cons have p: "p \<in> set qs" "p_name p \<noteq> p_name q" by (auto simp: image_iff)
    with Cons x show ?thesis by simp
  qed
qed simp

definition given :: "(string \<times> pyval) list \<Rightarrow> controller_parameter \<Rightarrow> pyval" where
  "given source p = dget_or (p_name p) (PBool (p_default p)) source"

definition normal :: "controller_parameter \<Rightarrow> pyval \<Rightarrow> string \<Rightarrow> pyval" where
  "normal p v t = (if p_type p = ''flag_suffix'' then PBool (truthy v) else PStr t)"

lemma render_all_Cons:
  "render_all source (p # ps) = rbind (render p (given source p)) (\<lambda>t. rbind (render_all source ps) (\<lambda>(rendered, normalized).
     Inr ((p_name p, t) # rendered, (p_name p, normal p (given source p) t) # normalized)))"
  by (simp add: Let_def given_def normal_def)

lemma render_all_values:
  assumes "render_all source ps = Inr (rendered, normalized)"
  shows "list_all2 (\<lambda>p x. fst x = p_name p \<and> render p (given source p) = Inr (snd x)) ps rendered
    \<and> list_all2 (\<lambda>p x. fst x = p_name p \<and> (\<exists>t. render p (given source p) = Inr t \<and> snd x = normal p (given source p) t)) ps normalized"
  using assms
proof (induction ps arbitrary: rendered normalized)
  case (Cons p ps)
  then show ?case unfolding render_all_Cons by (auto simp: rbind_Inr_iff)
qed simp

lemma render_all_again:
  assumes "\<forall>p \<in> set ps. render p (given source p) = render p (given source' p)
      \<and> (\<forall>t. normal p (given source p) t = normal p (given source' p) t)"
  shows "render_all source ps = render_all source' ps"
  using assms
proof (induction ps)
  case (Cons p ps)
  then have "render p (given source p) = render p (given source' p)" "normal p (given source p) = normal p (given source' p)"
    "render_all source ps = render_all source' ps" by auto
  then show ?case unfolding render_all_Cons by simp
qed simp

lemma matched_command:
  assumes "wf_action a" and "action_match a command = Inr (Some vs)" and "action_build a vs = Inr (c, sa, nz)"
  shows "same_letters c command \<and> action_build a nz = Inr (c, sa, nz)"
proof -
  let ?ps = "a_parameters a"
  from assms(2) obtain found where f: "fullmatch_caps True (a_pattern a) command = Some found"
    and vs: "match_values found ?ps = Inr vs"
    by (auto simp: action_match_def split: option.splits sum.splits lab_error.splits)
  from fullmatch_state [OF f] obtain st where
    st: "st \<in> set (rmatch True (a_pattern a) ([], command))" "fst st = found" "snd st = []" by blast
  from assms(1) have t: "template_rx ?ps (pieces (a_command_template a)) = Inr (a_pattern a)"
    and holes: "distinct (holes (pieces (a_command_template a)))" "set (holes (pieces (a_command_template a))) = set (map p_name ?ps)"
    and d: "distinct (map p_name ?ps)" and wf: "\<forall>p \<in> set ?ps. wf_parameter p"
    by (simp_all add: wf_action_def list_all_iff)
  from assms(3) obtain rendered where r: "render_all vs ?ps = Inr (rendered, nz)"
    "substitute rendered (pieces (a_command_template a)) = Inr c"
    "substitute rendered (pieces (a_script_args_template a)) = Inr sa" by (rule build_Inr)
  note rv = render_all_values [OF r(1)] and mv = match_values_Inr [OF vs]
  have cap: "captured p (map_of found (p_name p))" if "p \<in> set ?ps" for p
    using template_captures [OF t holes(1) st(1)] holes(2) find_parameter_name [OF d that] that st(2) by auto
  have one: "reads p (map_of found (p_name p)) u \<and> render p (normal p (given vs p) u) = Inr u"
    if "p \<in> set ?ps" and "render p (given vs p) = Inr u" for p u
  proof -
    from list_all2_lookup [where P = "\<lambda>p v. match_value found p = Inr v", OF mv d that(1)]
    have "match_value found p = Inr (given vs p)" unfolding given_def dget_or_def by auto
    from value_reads [OF _ cap [OF that(1)] this that(2)] wf that(1) show ?thesis by (simp add: normal_def)
  qed
  have "reads p (map_of (fst st) n) u" if "find_parameter n ?ps = Some p" "map_of rendered n = Some u" for n p u
  proof -
    from that(1) have p: "p \<in> set ?ps" "p_name p = n" by (auto dest: pieces_find)
    from list_all2_lookup [where P = "\<lambda>p x. render p (given vs p) = Inr x", OF conjunct1 [OF rv] d p(1)] that(2) p(2)
    have "render p (given vs p) = Inr u" by simp
    from one [OF p(1) this] st(2) p(2) show ?thesis by simp
  qed
  with template_reads [OF t holes(1) st(1) _ r(2)] st(3) have letters: "same_letters c command" by auto
  have again: "render p (given nz p) = render p (given vs p) \<and> (\<forall>u. normal p (given nz p) u = normal p (given vs p) u)"
    if p: "p \<in> set ?ps" for p
  proof -
    from list_all2_lookup [where P = "\<lambda>p x. \<exists>t. render p (given vs p) = Inr t \<and> x = normal p (given vs p) t", OF conjunct2 [OF rv] d p]
    obtain u where u: "render p (given vs p) = Inr u" "given nz p = normal p (given vs p) u"
      unfolding given_def [of nz] dget_or_def by auto
    with one [OF p u(1)] show ?thesis by (simp add: normal_def)
  qed
  have "render_all nz ?ps = render_all vs ?ps" by (rule render_all_again) (use again in blast)
  moreover have "dkeys nz = map p_name ?ps"
    using conjunct2 [OF rv] unfolding dkeys_def by (induction rule: list_all2_induct) auto
  then have "unknown_keys (map p_name ?ps) nz = []" "missing_keys (map p_name (filter p_required ?ps)) nz = []"
    by (auto simp: unknown_keys_Nil missing_keys_Nil)
  ultimately have "action_build a nz = Inr (c, sa, nz)" using r unfolding action_build_def Let_def by simp
  with letters show ?thesis by blast
qed

section \<open>Commands that are read alike\<close>

definition same_ids :: "string \<Rightarrow> string \<Rightarrow> bool" where
  \<comment> \<open>the two strings have action ids at the same places\<close>
  "same_ids s t = (\<forall>i. rx_full False rx_action_id (take 16 (drop i s)) = rx_full False rx_action_id (take 16 (drop i t)))"

definition alike :: "string \<Rightarrow> string \<Rightarrow> bool" where
  "alike s t = (same_letters s t \<and> same_ids s t)"

lemma same_ids_drop: "same_ids s t \<Longrightarrow> same_ids (drop n s) (drop n t)"
  by (simp add: same_ids_def)

lemma alike_drop: "alike s t \<Longrightarrow> alike (drop n s) (drop n t)"
  by (simp add: alike_def same_ids_drop same_letters_drop)

lemma alike_length: "alike s t \<Longrightarrow> length s = length t"
  by (simp add: alike_def same_letters_length)

definition same_captures :: "captures \<Rightarrow> captures \<Rightarrow> bool" where
  "same_captures = list_all2 (\<lambda>x y. fst x = fst y \<and> same_letters (snd x) (snd y))"

definition alike_state :: "mstate \<Rightarrow> mstate \<Rightarrow> bool" where
  "alike_state st st' = (same_captures (fst st) (fst st') \<and> alike (snd st) (snd st'))"

lemma same_captures_dput:
  assumes "same_captures d e" and "same_letters s t"
  shows "same_captures (dput k s d) (dput k t e)"
  using assms unfolding same_captures_def
proof (induction rule: list_all2_induct)
  case (Cons x xs y ys)
  then show ?case by (cases x; cases y) auto
qed simp

lemma same_captures_lookup:
  "same_captures d e \<Longrightarrow> rel_option same_letters (map_of d k) (map_of e k)"
  unfolding same_captures_def
proof (induction rule: list_all2_induct)
  case (Cons x xs y ys)
  then show ?case by (cases x; cases y) auto
qed simp

lemma list_all2_concat_map:
  assumes "list_all2 R xs ys" and "\<And>x y. R x y \<Longrightarrow> list_all2 Q (f x) (g y)"
  shows "list_all2 Q (concat (map f xs)) (concat (map g ys))"
  using assms(1) by (induction rule: list_all2_induct) (auto intro: list_all2_appendI assms(2))

definition preserves_alike :: "(mstate \<Rightarrow> mstate list) \<Rightarrow> bool" where
  "preserves_alike f = (\<forall>st st'. alike_state st st' \<longrightarrow> list_all2 alike_state (f st) (f st'))"

lemma preserves_alikeD: "preserves_alike f \<Longrightarrow> alike_state st st' \<Longrightarrow> list_all2 alike_state (f st) (f st')"
  unfolding preserves_alike_def by blast

lemma alike_state_length: "alike_state st st' \<Longrightarrow> length (snd st) = length (snd st')"
  by (simp add: alike_state_def alike_length)

lemma preserves_rstar: "preserves_alike f \<Longrightarrow> preserves_alike (rstar f n)"
proof (induction n)
  case (Suc n)
  show ?case unfolding preserves_alike_def
  proof (intro allI impI)
    fix st st' assume s: "alike_state st st'"
    note f = preserves_alikeD [OF Suc.prems s]
    from Suc.IH [OF Suc.prems] have "list_all2 alike_state
        (concat (map (\<lambda>x. if length (snd x) < length (snd st) then rstar f n x else []) (f st)))
        (concat (map (\<lambda>x. if length (snd x) < length (snd st') then rstar f n x else []) (f st')))"
      by (intro list_all2_concat_map [OF f]) (simp add: alike_state_length [OF s] alike_state_length preserves_alikeD)
    with s show "list_all2 alike_state (rstar f (Suc n) st) (rstar f (Suc n) st')" by (simp add: list_all2_appendI)
  qed
qed (simp add: preserves_alike_def)

lemma preserves_rupto: "preserves_alike f \<Longrightarrow> preserves_alike (rupto f n)"
proof -
  have "rupto f n = rstar f n"
  proof (induction n)
    case (Suc n)
    show ?case by (rule ext) (simp add: Suc.IH cong: if_cong)
  qed (rule ext, simp)
  then show "preserves_alike f \<Longrightarrow> preserves_alike (rupto f n)" by (simp add: preserves_rstar)
qed

lemma rmatch_hex: "rmatch False (exactly n hex_cls) (caps, s) =
    (if n \<le> length s \<and> list_all (cset_matches False False [(48, 57), (97, 102)]) (take n s) then [(caps, drop n s)] else [])"
proof (induction n arbitrary: s)
  case (Suc n)
  then show ?case by (cases s) (simp_all add: hex_cls_def cls_def)
qed simp

lemma rmatch_action_id: "rmatch False rx_action_id (caps, s) =
    (if rx_full False rx_action_id (take 16 s) then [(caps, drop 16 s)] else [])"
  unfolding rx_action_id_def rx_full_def fullmatch_caps_def rmatch_hex by simp

primrec cased :: "rx \<Rightarrow> bool" where
  \<comment> \<open>only an action id minds the case\<close>
  "cased Eps = True"
| "cased EndZ = True"
| "cased (CSet neg rs) = True"
| "cased (Cat r q) = (cased r \<and> cased q)"
| "cased (Alt r q) = (cased r \<and> cased q)"
| "cased (Star r) = cased r"
| "cased (UpTo n r) = cased r"
| "cased (Group g r) = cased r"
| "cased (NoFlag r) = (r = rx_action_id)"

lemma alike_cases:
  assumes "alike s t"
  obtains "s = []" "t = []" | c d s' t' where "s = c # s'" "t = d # t'" "lower_char c = lower_char d" "alike s' t'"
proof (cases s)
  case (Cons c s')
  with assms obtain d t' where t: "t = d # t'" by (cases t) (auto simp: alike_def)
  from assms alike_drop [OF assms, of 1] Cons t that show thesis by (simp add: alike_def)
qed (use assms that in \<open>auto simp: alike_def\<close>)

lemma rmatch_alike: "cased r \<Longrightarrow> preserves_alike (rmatch True r)"
proof (induction r)
  case (CSet neg rs)
  show ?case unfolding preserves_alike_def
  proof (intro allI impI)
    fix st st' assume "alike_state st st'"
    then have c: "same_captures (fst st) (fst st')" and a: "alike (snd st) (snd st')" by (simp_all add: alike_state_def)
    from a show "list_all2 alike_state (rmatch True (CSet neg rs) st) (rmatch True (CSet neg rs) st')"
    proof (cases rule: alike_cases)
      case (2 x y s t)
      from cset_same_letter [OF 2(3), of neg rs] 2(1,2,4) c show ?thesis by (simp add: alike_state_def)
    qed simp
  qed
next
  case (Cat r q)
  then have "preserves_alike (rmatch True r)" "preserves_alike (rmatch True q)" by simp_all
  then show ?case unfolding preserves_alike_def by (auto intro!: list_all2_concat_map)
next
  case (Star r)
  then have "preserves_alike (rstar (rmatch True r) n)" for n by (simp add: preserves_rstar)
  then show ?case by (simp add: preserves_alike_def alike_state_length)
next
  case (UpTo n r)
  then have "preserves_alike (rupto (rmatch True r) n)" by (simp add: preserves_rupto)
  then show ?case by (simp add: preserves_alike_def)
next
  case (Group g r)
  show ?case unfolding preserves_alike_def
  proof (intro allI impI)
    fix st st' assume s: "alike_state st st'"
    then have a: "alike (snd st) (snd st')" by (simp add: alike_state_def)
    from Group s have "list_all2 alike_state (rmatch True r st) (rmatch True r st')" by (simp add: preserves_alikeD)
    then show "list_all2 alike_state (rmatch True (Group g r) st) (rmatch True (Group g r) st')"
      unfolding rmatch.simps list_all2_map1 list_all2_map2
    proof (rule list_all2_mono, clarify)
      fix x y x' y' assume h: "alike_state (x, y) (x', y')"
      from a have "same_letters (take (length (snd st) - length y) (snd st)) (take (length (snd st') - length y') (snd st'))"
        using alike_state_length [OF h] by (simp add: alike_length alike_def same_letters_take same_letters_length)
      with h show "alike_state (dput g (take (length (snd st) - length y) (snd st)) x, y)
          (dput g (take (length (snd st') - length y') (snd st')) x', y')"
        by (simp add: alike_state_def same_captures_dput)
    qed
  qed
next
  case (NoFlag r)
  show ?case unfolding preserves_alike_def
  proof (intro allI impI)
    fix st st' assume s: "alike_state st st'"
    then have "rx_full False rx_action_id (take 16 (snd st)) = rx_full False rx_action_id (take 16 (snd st'))"
      unfolding alike_state_def alike_def same_ids_def by (metis drop0)
    with NoFlag s show "list_all2 alike_state (rmatch True (NoFlag r) st) (rmatch True (NoFlag r) st')"
      by (cases st; cases st') (simp add: rmatch_action_id alike_state_def alike_drop)
  qed
qed (auto simp: preserves_alike_def alike_state_def alike_def intro: list_all2_appendI)

lemma cased_lit: "cased (lit w)"
  by (induction w rule: lit.induct) simp_all

lemma cased_alts: "list_all cased rs \<Longrightarrow> cased (alts rs)"
  by (induction rs rule: alts.induct) simp_all

lemma cased_template: "template_rx params ps = Inr r \<Longrightarrow> cased r"
proof (induction params ps arbitrary: r rule: template_rx.induct)
  case (3 params n ps)
  have "cased (regex_fragment p)" for p
    by (auto simp: regex_fragment_def plus_def digit_cls_def cls_def list_all_iff cased_lit intro!: cased_alts)
  with 3 show ?case by (auto simp: rbind_Inr_iff Let_def opt_def split: option.splits)
qed (auto simp: rbind_Inr_iff cased_lit)

lemma find_alike:
  "list_all2 alike_state xs ys \<Longrightarrow> rel_option same_captures (map_option fst (List.find (\<lambda>st. snd st = []) xs))
     (map_option fst (List.find (\<lambda>st. snd st = []) ys))"
proof (induction rule: list_all2_induct)
  case (Cons x xs y ys)
  from alike_state_length [OF Cons(1)] have "snd x = [] \<longleftrightarrow> snd y = []" by (metis length_0_conv)
  with Cons show ?case by (simp add: alike_state_def)
qed simp

lemma fullmatch_alike: "cased r \<Longrightarrow> alike s t \<Longrightarrow> rel_option same_captures (fullmatch_caps True r s) (fullmatch_caps True r t)"
  unfolding fullmatch_caps_def
  by (intro find_alike preserves_alikeD [OF rmatch_alike]) (simp_all add: alike_state_def same_captures_def)

lemma same_letters_fixed:
  assumes "same_letters s t" and "\<forall>c \<in> set s. lower_char c = c" and "\<forall>c \<in> set t. lower_char c = c"
  shows "s = t"
proof -
  have "(\<forall>c \<in> set w. lower_char c = c) \<Longrightarrow> map lower_char w = w" for w by (induction w) simp_all
  with assms show ?thesis by (simp add: same_letters_def)
qed

lemma action_id_lower:
  assumes "accepts True (NoFlag rx_action_id) s"
  shows "\<forall>c \<in> set s. lower_char c = c"
proof
  fix c assume "c \<in> set s"
  have "rx_alphabet (exactly n hex_cls) False c \<Longrightarrow> rx_alphabet hex_cls False c" for n by (induction n) auto
  with rx.full_alphabet [OF _ action_id_captured [OF assms] \<open>c \<in> set s\<close>] have "rx_alphabet hex_cls False c"
    by (simp add: rx_action_id_def hex_cls_def cls_def)
  then have "48 \<le> ord c \<and> ord c \<le> 57 \<or> 97 \<le> ord c \<and> ord c \<le> 102"
    by (auto simp: hex_cls_def cls_def cset_matches_def in_ranges_def)
  then show "lower_char c = c" by (auto simp: ord_lower_char simp flip: ord_inject)
qed

lemma match_value_alike:
  assumes "wf_parameter p" and "captured p (map_of d (p_name p))" and "captured p (map_of e (p_name p))" and "same_captures d e"
  shows "match_value d p = match_value e p"
proof -
  from same_captures_lookup [OF assms(4)] have r: "rel_option same_letters (map_of d (p_name p)) (map_of e (p_name p))" .
  show ?thesis
  proof (cases "p_type p = ''flag_suffix''")
    case True
    with r show ?thesis by (auto simp: normalize_capture_def elim!: option.rel_cases)
  next
    case False
    with assms(2, 3) r obtain s t where st: "map_of d (p_name p) = Some s" "map_of e (p_name p) = Some t" "same_letters s t"
      "accepts True (regex_fragment p) s" "accepts True (regex_fragment p) t" by (auto simp: captured_def)
    from assms(1) False have "p_type p \<in> {''enum'', ''numeric'', ''action_id''}"
      by (simp add: wf_parameter_def parameter_types_def)
    then consider (enum) "p_type p = ''enum''" | (numeric) "p_type p = ''numeric''" | (action_id) "p_type p = ''action_id''" by auto
    then show ?thesis
    proof cases
      case enum
      with st same_letters_fold [OF st(3)] show ?thesis by (simp add: normalize_capture_def find_enum_def)
    next
      case numeric
      with st have "list_all is_ascii_digit s" "list_all is_ascii_digit t" by (simp_all add: regex_fragment_def plus_digits)
      moreover have "is_ascii_digit c \<Longrightarrow> lower_char c = c" for c
        by (simp add: is_ascii_digit_def Let_def ord_lower_char flip: ord_inject)
      ultimately have "s = t" by (intro same_letters_fixed [OF st(3)]) (auto simp: list_all_iff)
      with st show ?thesis by simp
    next
      case action_id
      with st have "accepts True (NoFlag rx_action_id) s" "accepts True (NoFlag rx_action_id) t" by (simp_all add: regex_fragment_def)
      then have "s = t" by (intro same_letters_fixed [OF st(3)] action_id_lower)
      with st show ?thesis by simp
    qed
  qed
qed

lemma matched_captured:
  assumes "wf_action a" and "fullmatch_caps True (a_pattern a) command = Some found" and "p \<in> set (a_parameters a)"
  shows "captured p (map_of found (p_name p))"
proof -
  from fullmatch_state [OF assms(2)] obtain st where
    st: "st \<in> set (rmatch True (a_pattern a) ([], command))" "fst st = found" by blast
  from assms template_captures [OF _ _ st(1), of "a_parameters a" "pieces (a_command_template a)"] st(2)
  show ?thesis by (auto simp: wf_action_def find_parameter_name)
qed

lemma action_match_alike:
  assumes "wf_action a" and "alike s t"
  shows "action_match a s = action_match a t"
proof -
  from assms(1) have "cased (a_pattern a)" using cased_template by (auto simp: wf_action_def)
  from fullmatch_alike [OF this assms(2)] show ?thesis
  proof (cases rule: option.rel_cases)
    case (Some d e)
    have "match_values d ps = match_values e ps" if "set ps \<subseteq> set (a_parameters a)" for ps
      using that
    proof (induction ps)
      case (Cons p ps)
      then have p: "p \<in> set (a_parameters a)" by simp
      have "match_value d p = match_value e p"
        by (rule match_value_alike [OF _ matched_captured [OF assms(1) Some(1) p] matched_captured [OF assms(1) Some(2) p] Some(3)])
           (use assms(1) p in \<open>simp add: wf_action_def list_all_iff\<close>)
      with Cons show ?case by simp
    qed simp
    with Some show ?thesis by (simp add: action_match_def)
  qed (simp add: action_match_def)
qed

lemma match_actions_alike:
  "\<forall>a \<in> set as. wf_action a \<Longrightarrow> alike s t \<Longrightarrow> match_actions c as s = match_actions c as t"
  by (induction as) (simp_all add: action_match_alike)

lemma match_command_alike: "wf_manifest m \<Longrightarrow> alike s t \<Longrightarrow> match_command m s = match_command m t"
proof (induction m)
  case (Cons c m)
  then have "match_actions c (c_actions c) s = match_actions c (c_actions c) t" and "wf_manifest m"
    by (simp_all add: wf_manifest_def match_actions_alike)
  with Cons show ?case by simp
qed simp

lemma matched_letters:
  assumes "wf_manifest m" and "match_command m command = Inr (Some f)"
    and "action_build (cc_action f) (cc_arguments f) = Inr (c, sa, nz)"
  shows "same_letters c command"
proof -
  from match_command_total [OF assms(1), of command] assms(2) obtain vs c' where
    f: "cc_controller f \<in> set m" "cc_action f \<in> set (c_actions (cc_controller f))"
    "action_match (cc_action f) command = Inr (Some vs)"
    "action_build (cc_action f) vs = Inr (c', cc_script_args f, cc_arguments f)" by auto
  with assms(1) have "wf_action (cc_action f)" by (simp add: wf_manifest_def)
  from matched_command [OF this f(3,4)] assms(3) show ?thesis by simp
qed

end
