(* ===== verification/PolicyProperties.thy ===== *)
theory PolicyProperties
  imports ManifestReading
begin

text \<open>
  What the command policy promises the action broker: an accepted command carries no chaining
  character, a direct command is a normalized one, forbidden item commands are refused, and
  classification is stable.  The promise to the broker is the locale \<open>command_gate\<close>, which is
  interpreted on \<open>evaluate\<close>.
\<close>

section \<open>Characters of collapsed and folded commands\<close>

lemma lower_chain: "ord (lower_char c) \<in> set chain_chars \<Longrightarrow> ord c \<in> set chain_chars"
  by (auto simp: chain_chars_def ord_lower_char split: if_splits)

lemma casefold_chain_free: "chain_free s \<Longrightarrow> chain_free (casefold s)"
proof (induction s)
  case (Cons c s)
  have "chain_free (casefold_char c)"
    using lower_chain [of c] Cons.prems by (auto simp: casefold_char_def chain_chars_def)
  with Cons show ?case by (simp add: casefold_Cons)
qed simp

lemma set_join: "set (join '' '' ws) \<subseteq> insert (CHR '' '') (\<Union> (set ` set ws))"
  by (induction ws rule: induct_list012) auto

lemma set_split_go: "w \<in> set (split_go acc s) \<Longrightarrow> set w \<subseteq> set acc \<union> set s"
proof (induction s arbitrary: acc)
  case (Cons c s)
  then show ?case by (fastforce split: if_splits)
qed (auto split: if_splits)

lemma set_collapse: "set (collapse s) \<subseteq> insert (CHR '' '') (set s)"
  using set_join [of "split_ws s"] set_split_go [of _ "[]" s] by (auto simp: collapse_def split_ws_def)

lemma collapse_avoids:
  assumes "\<not> contains_any cs s" and "32 \<notin> set cs"
  shows "\<not> contains_any cs (collapse s)"
  using assms set_collapse [of s] by (auto simp: contains_any_def list_ex_iff)

section \<open>Direct commands\<close>

lemma normalize_stable: "normalize_full_access v = Inr t \<Longrightarrow> normalize_full_access (PStr t) = Inr t"
  by (cases v) (auto simp: normalize_full_access_def Let_def strip_idem split: if_splits)

lemma normalize_facts:
  assumes "normalize_full_access v = Inr t"
  shows "t \<noteq> [] \<and> length t \<le> 140 \<and> \<not> contains_any control_chars t \<and> \<not> has_semicolon (tl t)
    \<and> \<not> starts_with '','' t
    \<and> (starts_with '';'' t \<longrightarrow> strip (tl t) \<noteq> []
         \<and> casefold (first_word (strip (tl t))) \<notin> set direct_lich_eval_commands)"
  using assms by (cases v; cases t) (auto simp: normalize_full_access_def Let_def has_semicolon_def starts_with_def split: if_splits)

section \<open>The branches of the classification\<close>

lemma vocabulary_Inr:
  "vocabulary collapsed folded = Inr (c, d) \<Longrightarrow> (c = collapsed \<or> c = folded) \<and> pd_kind d \<noteq> ''direct''"
  by (auto simp: vocabulary_def split: if_splits)

lemma evaluate_cases:
  assumes "evaluate m command = Inr (c, d)"
  obtains (direct) found inner where
      "fullmatch_caps True rx_direct_command (collapse command) = Some found"
      "normalize_full_access (PStr (the (map_of found ''1''))) = Inr inner"
      "c = ''lab direct '' @ inner" "d = decision ''direct'' False"
    | (plain) "fullmatch_caps True rx_direct_command (collapse command) = None"
      "\<not> contains_any control_chars command" "\<not> has_semicolon command"
      "\<not> starts_with '','' (casefold (collapse command))" "\<not> forbidden (casefold (collapse command))"
      "casefold (collapse command) \<in> set immediate_commands \<and> c = casefold (collapse command) \<and> d = decision ''inspection'' False
       \<or> casefold (collapse command) \<notin> set immediate_commands
          \<and> (\<exists>f sa nz. match_command m (collapse command) = Inr (Some f)
               \<and> action_build (cc_action f) (cc_arguments f) = Inr (c, sa, nz)
               \<and> d = decision (a_category (cc_action f)) (a_confirmation_required (cc_action f)))
       \<or> casefold (collapse command) \<notin> set immediate_commands \<and> match_command m (collapse command) = Inr None
          \<and> vocabulary (collapse command) (casefold (collapse command)) = Inr (c, d)"
proof (cases "fullmatch_caps True rx_direct_command (collapse command)")
  case None
  with assms show ?thesis
    by (intro plain) (auto simp: evaluate_def Let_def rbind_Inr_iff split: if_splits option.splits)
next
  case (Some found)
  with assms obtain inner where "normalize_full_access (PStr (the (map_of found ''1''))) = Inr inner"
      "c = ''lab direct '' @ inner" "d = decision ''direct'' False"
    by (auto simp: evaluate_def Let_def rbind_Inr_iff split: if_splits)
  with Some show ?thesis by (rule direct)
qed

lemma plain_chain_free: "\<not> contains_any control_chars s \<Longrightarrow> \<not> has_semicolon s \<Longrightarrow> chain_free s"
  by (auto simp: contains_any_def list_ex_iff control_chars_def has_semicolon_def chain_chars_def)

lemma wf_matched:
  assumes "wf_manifest m" and "match_command m command = Inr (Some f)"
  shows "wf_action (cc_action f)"
proof -
  from match_command_total [OF assms(1), of command] assms(2)
  have "cc_controller f \<in> set m" "cc_action f \<in> set (c_actions (cc_controller f))" by auto
  with assms(1) show ?thesis by (simp add: wf_manifest_def)
qed

definition safe_command :: "string \<Rightarrow> policy_decision \<Rightarrow> bool" where
  \<comment> \<open>one direct full-access command, or a command without a chaining character\<close>
  "safe_command c d =
     (if pd_kind d = ''direct'' then \<exists>inner. c = ''lab direct '' @ inner \<and> normalize_full_access (PStr inner) = Inr inner
      else chain_free c)"

section \<open>The direct-command pattern\<close>

definition direct_prefix :: string where
  "direct_prefix = ''lab direct ''"

lemma length_direct_prefix [simp]: "length direct_prefix = 11"
  by (simp add: direct_prefix_def)

lemma direct_pattern: "rx_direct_command = Cat (lit direct_prefix) (Group ''1'' (rest_of_line 140))"
  by (simp add: direct_prefix_def rx_direct_command_def)

lemma ord_case_low: "k < 48 \<Longrightarrow> ord (lower_char c) = k \<longleftrightarrow> ord c = k" "k < 48 \<Longrightarrow> ord (upper_char c) = k \<longleftrightarrow> ord c = k"
  by (simp_all add: ord_lower_char ord_upper_char) linarith+

lemma rest_of_line_accepts:
  "accepts ci (rest_of_line n) v \<longleftrightarrow> v \<noteq> [] \<and> length v \<le> max 1 n \<and> \<not> contains_any [10, 13] v"
proof -
  have nl: "cset_matches ci True [(10, 10), (13, 13)] c \<longleftrightarrow> ord c \<notin> {10, 13}" for ci c
  proof -
    have r: "in_ranges [(10, 10), (13, 13)] d \<longleftrightarrow> ord d = 10 \<or> ord d = 13" for d
      by (auto simp: in_ranges_def)
    show ?thesis unfolding cset_matches_def r by (simp add: ord_case_low) blast
  qed
  have upto: "accepts ci (UpTo k not_newline) v \<longleftrightarrow> length v \<le> k \<and> \<not> contains_any [10, 13] v" for k v
  proof
    assume "accepts ci (UpTo k not_newline) v"
    then show "length v \<le> k \<and> \<not> contains_any [10, 13] v"
      by (induction ci "UpTo k not_newline" v arbitrary: k rule: accepts.induct)
         (auto simp: not_newline_def nl)
  next
    assume "length v \<le> k \<and> \<not> contains_any [10, 13] v"
    then show "accepts ci (UpTo k not_newline) v"
    proof (induction v arbitrary: k)
      case (Cons c v)
      then obtain j where k: "k = Suc j" by (cases k) auto
      with Cons have "accepts ci not_newline [c]" "accepts ci (UpTo j not_newline) v" by (auto simp: not_newline_def nl)
      from acc_upto [OF this(1) _ this(2)] show ?case by (simp add: k)
    qed (simp add: acc_upto0)
  qed
  show ?thesis
  proof (cases v)
    case (Cons c w)
    have "accepts ci (rest_of_line n) (c # w) \<longleftrightarrow> accepts ci not_newline [c] \<and> accepts ci (UpTo (n - 1) not_newline) w"
      by (auto simp: between_def not_newline_def Cons_eq_append_conv) (rule exI [of _ "[c]"], simp)
    also have "\<dots> \<longleftrightarrow> ord c \<notin> {10, 13} \<and> length w \<le> n - 1 \<and> \<not> contains_any [10, 13] w"
      unfolding upto by (simp add: not_newline_def nl)
    finally show ?thesis unfolding Cons by auto
  qed (auto simp: between_def not_newline_def)
qed

lemma lit_length: "accepts ci (lit w) u \<Longrightarrow> length u = length w"
  by (induction w arbitrary: u rule: lit.induct) auto

lemma literal_then_group:
  "accepts ci (Cat (lit w) (Group g r)) s \<longleftrightarrow> accepts ci (lit w) (take (length w) s) \<and> accepts ci r (drop (length w) s)"
proof
  assume "accepts ci (Cat (lit w) (Group g r)) s"
  then obtain u v where "s = u @ v" "accepts ci (lit w) u" "accepts ci r v" by auto
  with lit_length [OF this(2)] show "accepts ci (lit w) (take (length w) s) \<and> accepts ci r (drop (length w) s)" by simp
next
  assume "accepts ci (lit w) (take (length w) s) \<and> accepts ci r (drop (length w) s)"
  then show "accepts ci (Cat (lit w) (Group g r)) s"
    using acc_cat [of ci "lit w" "take (length w) s" "Group g r" "drop (length w) s"] by simp
qed

lemma literal_then_captured:
  assumes "fullmatch_caps ci (Cat (lit w) (Group g r)) s = Some found"
  shows "map_of found g = Some (drop (length w) s)"
proof -
  from fullmatch_state [OF assms] obtain st where st: "st \<in> set (rmatch ci (Cat (lit w) (Group g r)) ([], s))"
    "fst st = found" "snd st = []" by blast
  then obtain s1 where s1: "s1 \<in> set (rmatch ci (lit w) ([], s))" "st \<in> set (rmatch ci (Group g r) s1)"
    unfolding rmatch.simps(4) set_concat set_map by blast
  from rmatch_sound [OF end_free_lit s1(1)] obtain u where "s = u @ snd s1" "accepts ci (lit w) u"
    by (auto simp: splits_def)
  with lit_length [OF this(2)] have "snd s1 = drop (length w) s" by simp
  with s1(2) st(2, 3) show ?thesis by auto
qed

lemma direct_full: "rx_full True rx_direct_command s \<longleftrightarrow>
    accepts True (lit direct_prefix) (take 11 s) \<and> accepts True (rest_of_line 140) (drop 11 s)"
proof -
  have "end_free rx_direct_command" by (simp add: direct_pattern not_newline_def)
  from rx.full_iff [OF this, of True s] show ?thesis
    unfolding direct_pattern literal_then_group length_direct_prefix .
qed

lemma direct_captured:
  "fullmatch_caps True rx_direct_command s = Some found \<Longrightarrow> map_of found ''1'' = Some (drop 11 s)"
  using literal_then_captured [of True direct_prefix "''1''" "rest_of_line 140" s found]
  unfolding direct_pattern length_direct_prefix .

lemma direct_None: "fullmatch_caps True rx_direct_command s = None \<longleftrightarrow> \<not> rx_full True rx_direct_command s"
  by (simp add: rx_full_def)

section \<open>Classification is stable\<close>

lemma casefold_length: "length s \<le> length (casefold s)"
  by (induction s) (simp_all add: casefold_Cons casefold_char_def)

lemma casefold_char_cases:
  obtains (same) "casefold_char c = [c]" | (sharp) "casefold_char c = ''ss''"
    | (lower) d where "casefold_char c = [d]" "d = lower_char c" "ord d = ord c + 32" "97 \<le> ord d \<and> ord d \<le> 122 \<or> 224 \<le> ord d"
proof (cases "ord c = 223")
  case False
  show ?thesis
  proof (cases "lower_char c = c")
    case True
    with False show ?thesis by (intro same) (simp add: casefold_char_def)
  next
    case neq: False
    then have "ord (lower_char c) \<noteq> ord c" by simp
    then have "ord (lower_char c) = ord c + 32 \<and> (65 \<le> ord c \<and> ord c \<le> 90 \<or> 192 \<le> ord c)"
      unfolding ord_lower_char by argo
    with False show ?thesis by (intro lower [of "lower_char c"]) (auto simp: casefold_char_def)
  qed
qed (simp add: casefold_char_def sharp)

lemma casefold_avoids:
  assumes "\<not> contains_any cs s" and "\<forall>k \<in> set cs. k < 97 \<or> 122 < k \<and> k < 224"
  shows "\<not> contains_any cs (casefold s)"
  using assms(1)
proof (induction s)
  case (Cons c s)
  have "\<not> contains_any cs (casefold_char c)"
    by (rule casefold_char_cases [of c]) (use Cons.prems assms(2) in force)+
  with Cons show ?case by (simp add: casefold_Cons)
qed simp

lemma contains_any_casefold:
  assumes "contains_any cs s" and "\<forall>k \<in> set cs. k < 65"
  shows "contains_any cs (casefold s)"
  using assms(1)
proof (induction s)
  case (Cons c s)
  have "casefold_char c = [c]" if "ord c < 65"
    using that by (simp add: casefold_char_def ord_lower_char flip: ord_inject)
  with Cons assms(2) show ?case by (auto simp: casefold_Cons)
qed simp

lemma unfold_char:
  assumes "cset_matches True False [(ord c, ord c)] x" and "casefold (y # s) = x # v"
    and "c \<noteq> CHR ''s''" and "c \<noteq> CHR ''S''" and "ord c < 128"
  shows "cset_matches True False [(ord c, ord c)] y \<and> casefold s = v"
proof -
  from assms(1) have x: "ord c = ord x \<or> ord c = ord (lower_char x) \<or> ord c = ord (upper_char x)"
    by (auto simp: cset_matches_def in_ranges_def)
  show ?thesis
  proof (cases rule: casefold_char_cases [of y])
    case same
    with assms(1, 2) show ?thesis by (simp add: casefold_Cons)
  next
    case sharp
    with assms(2) have "x = CHR ''s''" by (simp add: casefold_Cons)
    with x have "ord c = 115 \<or> ord c = 83" by (simp add: ord_lower_char ord_upper_char)
    then have "ord c = ord (CHR ''s'') \<or> ord c = ord (CHR ''S'')" by simp
    with assms(3, 4) have False unfolding ord_inject by blast
    then show ?thesis ..
  next
    case (lower d)
    with assms(2) have d: "x = lower_char y" "casefold s = v" by (simp_all add: casefold_Cons)
    from x d lower assms(5) have "ord c = ord (lower_char y) \<or> ord c = ord y"
      by (auto simp: ord_lower_char ord_upper_char split: if_splits)
    with d(2) show ?thesis by (auto simp: cset_matches_def in_ranges_def)
  qed
qed

lemma unfold_literal:
  assumes "accepts True (lit w) u" and "casefold s = u @ v"
    and "\<forall>c \<in> set w. c \<noteq> CHR ''s'' \<and> c \<noteq> CHR ''S'' \<and> ord c < 128"
  shows "w = [] \<or> (\<exists>u' v'. s = u' @ v' \<and> accepts True (lit w) u' \<and> casefold v' = v)"
  using assms
proof (induction w arbitrary: u s rule: lit.induct)
  case 1
  then show ?case by simp
next
  case (2 c)
  then obtain x where u: "u = [x]" "cset_matches True False [(ord c, ord c)] x" by auto
  with 2 obtain y s' where s: "s = y # s'" by (cases s) auto
  with unfold_char [OF u(2), of y s' v] 2 u show ?case by (intro disjI2 exI [of _ "[y]"] exI [of _ s']) auto
next
  case (3 c d cs)
  then obtain x u1 where u: "u = x # u1" "cset_matches True False [(ord c, ord c)] x" "accepts True (lit (d # cs)) u1" by auto
  with 3 obtain y s' where s: "s = y # s'" by (cases s) auto
  with unfold_char [OF u(2), of y s' "u1 @ v"] 3 u
  have y: "cset_matches True False [(ord c, ord c)] y" "casefold s' = u1 @ v" by auto
  with 3(1) [OF u(3) y(2)] 3(4) obtain u' v' where
    "s' = u' @ v'" "accepts True (lit (d # cs)) u'" "casefold v' = v" by auto
  moreover have "accepts True (lit [c]) [y]" using y(1) by simp
  ultimately show ?case using acc_cat [of True "CSet False [(ord c, ord c)]" "[y]" "lit (d # cs)" u'] s
    by (intro disjI2 exI [of _ "y # u'"] exI [of _ v']) simp
qed

lemma direct_unfold:
  assumes "rx_full True rx_direct_command (casefold s)"
  shows "rx_full True rx_direct_command s"
proof -
  from assms [unfolded direct_full] have "accepts True (lit direct_prefix) (take 11 (casefold s))"
    and r: "accepts True (rest_of_line 140) (drop 11 (casefold s))" by blast+
  have p: "\<forall>c \<in> set direct_prefix. c \<noteq> CHR ''s'' \<and> c \<noteq> CHR ''S'' \<and> ord c < 128" "direct_prefix \<noteq> []"
    by (simp_all add: direct_prefix_def)
  from unfold_literal [OF \<open>accepts True (lit direct_prefix) _\<close>, of s "drop 11 (casefold s)"] p obtain u v where
    uv: "s = u @ v" "accepts True (lit direct_prefix) u" "casefold v = drop 11 (casefold s)"
    by (metis append_take_drop_id)
  from lit_length [OF uv(2)] have "length u = 11" by simp
  moreover from r have "casefold v \<noteq> []" "length (casefold v) \<le> 140" "\<not> contains_any [10, 13] (casefold v)"
    unfolding rest_of_line_accepts uv(3) by auto
  then have "accepts True (rest_of_line 140) v"
    using casefold_length [of v] contains_any_casefold [of "[10, 13]" v] unfolding rest_of_line_accepts by auto
  ultimately show ?thesis unfolding direct_full using uv by simp
qed

lemma if_result_InrE:
  assumes "(if b then Inr x else r) = Inr y"
  obtains b "x = y" | "\<not> b" "r = Inr y"
  using assms by (cases b) auto

lemma vocabulary_stable: "vocabulary collapsed folded = Inr (c, d) \<Longrightarrow> vocabulary c folded = Inr (c, d)"
  unfolding vocabulary_def by (elim if_result_InrE) simp_all

lemma control_char_low: "\<forall>k \<in> set (59 # control_chars). k < 97 \<or> 122 < k \<and> k < 224" "32 \<notin> set (59 # control_chars)"
  by (simp_all add: control_chars_def)

lemma plain_output:
  assumes "\<not> contains_any control_chars command" and "\<not> has_semicolon command"
    and "c = collapse command \<or> c = casefold (collapse command)"
  shows "\<not> contains_any control_chars c \<and> \<not> has_semicolon c \<and> collapse c = c \<and> casefold c = casefold (collapse command)"
proof -
  have split: "contains_any (59 # control_chars) s \<longleftrightarrow> contains_any control_chars s \<or> has_semicolon s" for s
    by (auto simp: contains_any_def has_semicolon_def list_ex_iff)
  from assms(1, 2) collapse_avoids [OF _ control_char_low(2)] casefold_avoids [OF _ control_char_low(1)]
  have "\<not> contains_any (59 # control_chars) (collapse command)"
    "\<not> contains_any (59 # control_chars) (casefold (collapse command))" unfolding split by blast+
  with assms(3) show ?thesis by (auto simp: split collapse_casefold casefold_idem)
qed

lemma stable_plain:
  assumes "fullmatch_caps True rx_direct_command (collapse command) = None"
    and "\<not> contains_any control_chars command" and "\<not> has_semicolon command"
    and "\<not> starts_with '','' (casefold (collapse command))" and "\<not> forbidden (casefold (collapse command))"
    and c: "c = collapse command \<or> c = casefold (collapse command)"
  shows "evaluate m c =
     (if casefold c \<in> set immediate_commands then Inr (casefold c, decision ''inspection'' False)
      else rbind (match_command m c) (\<lambda>found. case found of
          Some f \<Rightarrow> rbind (action_build (cc_action f) (cc_arguments f)) (\<lambda>(canonical, _, _).
            Inr (canonical, decision (a_category (cc_action f)) (a_confirmation_required (cc_action f))))
        | None \<Rightarrow> vocabulary c (casefold c)))"
proof -
  note o = plain_output [OF assms(2, 3) c]
  have "fullmatch_caps True rx_direct_command c = None"
    using assms(1) c direct_unfold unfolding direct_None by blast
  with o assms(4, 5) show ?thesis by (simp add: evaluate_def Let_def)
qed

lemma direct_words:
  assumes "accepts True (lit direct_prefix) u" and "collapse (u @ w) = u @ w" and "w \<noteq> []"
  shows "collapse w = w \<and> collapse (direct_prefix @ w) = direct_prefix @ w"
proof -
  have ss: "is_space (CHR '' '')" by (simp add: is_space_def)
  have "\<exists>a b. u = a @ '' '' @ b @ '' '' \<and> is_word a \<and> is_word b"
  proof -
    from lit_length [OF assms(1)] have "length u = 11" by simp
    then obtain c0 c1 c2 c3 c4 c5 c6 c7 c8 c9 c10 where
      u: "u = [c0, c1, c2, c3, c4, c5, c6, c7, c8, c9, c10]"
      by (auto simp: numeral_eq_Suc length_Suc_conv)
    have sp: "cset_matches True False [(32, 32)] c \<Longrightarrow> c = CHR '' ''" for c
      by (simp add: cset_matches_def in_ranges_def ord_case_low flip: ord_inject) linarith
    have nsp: "cset_matches True False [(k, k)] c \<Longrightarrow> 97 \<le> k \<Longrightarrow> k \<le> 122 \<Longrightarrow> \<not> is_space c" for k c
      by (auto simp: cset_matches_def in_ranges_def ord_lower_char ord_upper_char is_space_def Let_def split: if_splits)
    from assms(1) have m: "cset_matches True False [(108, 108)] c0" "cset_matches True False [(97, 97)] c1"
        "cset_matches True False [(98, 98)] c2" "cset_matches True False [(32, 32)] c3"
        "cset_matches True False [(100, 100)] c4" "cset_matches True False [(105, 105)] c5"
        "cset_matches True False [(114, 114)] c6" "cset_matches True False [(101, 101)] c7"
        "cset_matches True False [(99, 99)] c8" "cset_matches True False [(116, 116)] c9"
        "cset_matches True False [(32, 32)] c10"
      by (auto simp: u direct_prefix_def)
    show ?thesis
      using sp [OF m(4)] sp [OF m(11)] m [THEN nsp]
      by (intro exI [of _ "[c0, c1, c2]"] exI [of _ "[c4, c5, c6, c7, c8, c9]"]) (simp add: u is_word_def)
  qed
  then obtain a b where u: "u = a @ '' '' @ b @ '' ''" and ab: "is_word a" "is_word b" by blast
  have lead: "split_ws (x @ '' '' @ s) = x # split_ws s" if "is_word x" for x s
    using that split_go_run [of x "[]" "'' '' @ s"] ss by (simp add: split_ws_def is_word_def)
  have sw: "split_ws (x @ '' '' @ y @ '' '' @ w) = x # y # split_ws w" if "is_word x" "is_word y" for x y
    using lead that by simp
  have cw: "collapse (x @ '' '' @ y @ '' '' @ w) = (case split_ws w of [] \<Rightarrow> x @ '' '' @ y | _ \<Rightarrow> x @ '' '' @ y @ '' '' @ collapse w)"
    if "is_word x" "is_word y" for x y
    unfolding collapse_def sw [OF that] by (cases "split_ws w") auto
  from assms(2) cw [OF ab] have w: "split_ws w \<noteq> []" "collapse w = w" unfolding u by (auto split: list.splits)
  have "is_word ''lab''" "is_word ''direct''" by (simp_all add: is_word_def is_space_def)
  from cw [OF this] w show ?thesis by (auto simp: direct_prefix_def split: list.splits)
qed

lemma strip_join: "(\<And>w. w \<in> set ws \<Longrightarrow> is_word w) \<Longrightarrow> strip (join '' '' ws) = join '' '' ws"
proof (cases ws)
  case Nil
  then show ?thesis by (simp add: strip_def)
next
  case (Cons x xs)
  assume w: "\<And>w. w \<in> set ws \<Longrightarrow> is_word w"
  have h: "join '' '' (y # ys) \<noteq> [] \<and> hd (join '' '' (y # ys)) = hd y" if "is_word y" for y ys
    using that by (cases ys) (auto simp: is_word_def)
  have l: "(\<And>w. w \<in> set ys \<Longrightarrow> is_word w) \<Longrightarrow> ys \<noteq> [] \<Longrightarrow> last (join '' '' ys) = last (last ys)" for ys
    by (induction ys rule: induct_list012) (use h in \<open>auto simp: is_word_def\<close>)
  have "is_word (last ws)" "is_word x" using w Cons by simp_all
  with h l [of ws] w Cons show ?thesis
    by (intro strip_fixed) (auto simp: is_word_def list_all_iff)
qed

lemma strip_collapse: "strip (collapse s) = collapse s"
  unfolding collapse_def by (rule strip_join) (rule split_ws_words)

lemma direct_evaluate:
  assumes "accepts True (rest_of_line 140) w" and "normalize_full_access (PStr w) = Inr w"
    and "collapse (direct_prefix @ w) = direct_prefix @ w"
  shows "evaluate m (direct_prefix @ w) = Inr (direct_prefix @ w, decision ''direct'' False)"
proof -
  have "rx_full True rx_direct_command (direct_prefix @ w)"
    unfolding direct_full using assms(1) lit_accepts [of direct_prefix] by simp
  then obtain found where f: "fullmatch_caps True rx_direct_command (direct_prefix @ w) = Some found"
    by (auto simp: rx_full_def)
  from direct_captured [OF f] have "map_of found ''1'' = Some w" by simp
  moreover have "\<not> contains_any control_chars (direct_prefix @ w)"
    using normalize_facts [OF assms(2)] by (simp add: direct_prefix_def control_chars_def)
  ultimately show ?thesis using f assms by (simp add: evaluate_def Let_def direct_prefix_def)
qed

lemma direct_inner:
  assumes "fullmatch_caps True rx_direct_command (collapse command) = Some found"
    and "normalize_full_access (PStr (the (map_of found ''1''))) = Inr inner"
  obtains u where "collapse command = u @ inner" and "accepts True (lit direct_prefix) u"
    and "accepts True (rest_of_line 140) inner" and "collapse (direct_prefix @ inner) = direct_prefix @ inner"
proof -
  let ?s = "collapse command" let ?w = "drop 11 ?s"
  from assms(1) have "rx_full True rx_direct_command ?s" by (simp add: rx_full_def)
  then have f: "accepts True (lit direct_prefix) (take 11 ?s)" "accepts True (rest_of_line 140) ?w"
    unfolding direct_full by blast+
  from f(2) have "?w \<noteq> []" unfolding rest_of_line_accepts by blast
  from direct_words [OF f(1) _ this] have w: "collapse ?w = ?w" "collapse (direct_prefix @ ?w) = direct_prefix @ ?w" by simp_all
  from strip_collapse [of ?w] w(1) have "strip ?w = ?w" by simp
  with assms(2) direct_captured [OF assms(1)] have "inner = ?w"
    by (auto simp: normalize_full_access_def Let_def split: if_splits)
  with that [of "take 11 ?s"] f w show thesis by simp
qed

section \<open>Accepted commands\<close>

lemma evaluate_letters:
  assumes "wf_manifest m" and "evaluate m command = Inr (c, d)"
  shows "casefold c = casefold (collapse command)"
  using assms(2)
proof (cases rule: evaluate_cases)
  case (direct found inner)
  from direct_inner [OF direct(1, 2)] obtain u where u: "collapse command = u @ inner" "accepts True (lit direct_prefix) u" .
  from direct(3) have "c = direct_prefix @ inner" by (simp add: direct_prefix_def)
  with same_letters_fold [OF lit_letters [OF u(2)]] u(1) show ?thesis by (simp only: casefold_append)
next
  case plain
  from plain(6) show ?thesis
  proof (elim disjE conjE exE)
    fix f sa nz
    assume "match_command m (collapse command) = Inr (Some f)"
      and "action_build (cc_action f) (cc_arguments f) = Inr (c, sa, nz)"
    from same_letters_fold [OF matched_letters [OF assms(1) this]] show ?thesis .
  next
    assume "vocabulary (collapse command) (casefold (collapse command)) = Inr (c, d)"
    from vocabulary_Inr [OF this] show ?thesis by auto
  qed simp
qed

lemma evaluate_safe:
  assumes "wf_manifest m" and "evaluate m command = Inr (c, d)"
  shows "safe_command c d \<and> casefold c = casefold (collapse command) \<and> (pd_kind d \<noteq> ''direct'' \<longrightarrow> \<not> forbidden (casefold c))"
proof -
  note letters = evaluate_letters [OF assms]
  from assms(2) show ?thesis
  proof (cases rule: evaluate_cases)
    case (direct found inner)
    with normalize_stable letters show ?thesis by (simp add: safe_command_def)
  next
    case plain
    have s: "chain_free (collapse command)"
      using plain_chain_free [OF plain(2, 3)] by (intro collapse_avoids) (simp_all add: chain_chars_def)
    then have t: "chain_free (casefold (collapse command))" by (rule casefold_chain_free)
    from plain(6) have "pd_kind d \<noteq> ''direct'' \<and> chain_free c"
    proof (elim disjE conjE exE)
      fix f sa nz
      assume f: "match_command m (collapse command) = Inr (Some f)"
        and b: "action_build (cc_action f) (cc_arguments f) = Inr (c, sa, nz)"
        and d: "d = decision (a_category (cc_action f)) (a_confirmation_required (cc_action f))"
      note wf = wf_matched [OF assms(1) f]
      with build_chain_free [OF wf b] d show ?thesis by (auto simp: wf_action_def categories_all_def)
    qed (use s t vocabulary_Inr in auto)
    with plain(5) letters show ?thesis by (simp add: safe_command_def)
  qed
qed

section \<open>The promise to the broker\<close>

locale command_gate =
  fixes accept :: "'m \<Rightarrow> string \<Rightarrow> (string \<times> policy_decision) result"
    and valid :: "'m \<Rightarrow> bool"
    and safe :: "string \<Rightarrow> policy_decision \<Rightarrow> bool"
  assumes accept_safe: "valid m \<Longrightarrow> accept m raw = Inr (c, d) \<Longrightarrow> safe c d"
begin

lemma accepted_list_safe:
  "valid m \<Longrightarrow> \<forall>c \<in> set cs. \<exists>raw d. accept m raw = Inr (c, d) \<Longrightarrow> \<forall>c \<in> set cs. \<exists>d. safe c d"
  using accept_safe by blast

end

interpretation gate: command_gate evaluate wf_manifest safe_command
  by unfold_locales (simp add: evaluate_safe)

section \<open>Evaluating a canonical command\<close>

lemma stable_claimed:
  assumes "wf_manifest m" and "fullmatch_caps True rx_direct_command (collapse command) = None"
    and "\<not> contains_any control_chars command" and "\<not> has_semicolon command"
    and "\<not> starts_with '','' (casefold (collapse command))" and "\<not> forbidden (casefold (collapse command))"
    and "casefold (collapse command) \<notin> set immediate_commands"
    and "match_command m (collapse command) = Inr (Some f)" and "action_build (cc_action f) (cc_arguments f) = Inr (c, sa, nz)"
    and "same_ids c (collapse command)"
  shows "evaluate m c = Inr (c, decision (a_category (cc_action f)) (a_confirmation_required (cc_action f)))"
proof -
  let ?s = "collapse command"
  from matched_letters [OF assms(1, 8, 9)] have letters: "same_letters c ?s" .
  with assms(10) have alike: "alike c ?s" by (simp add: alike_def)
  have "\<not> contains_any (59 # control_chars) ?s"
    using assms(3, 4) by (intro collapse_avoids) (auto simp: contains_any_def has_semicolon_def list_ex_iff control_chars_def)
  from same_letters_avoid [OF letters this] have "\<not> contains_any (59 # control_chars) c" by (simp add: control_chars_def)
  then have "\<not> contains_any control_chars c" "\<not> has_semicolon c"
    by (auto simp: contains_any_def has_semicolon_def list_ex_iff)
  moreover have "collapse c = c" by (rule same_letters_collapsed [OF letters]) simp
  moreover have "cased rx_direct_command" by (simp add: direct_pattern cased_lit between_def not_newline_def)
  from fullmatch_alike [OF this alike] assms(2) have "fullmatch_caps True rx_direct_command c = None" by simp
  ultimately show ?thesis
    using assms(5-9) same_letters_fold [OF letters] match_command_alike [OF assms(1) alike] by (simp add: evaluate_def Let_def)
qed

lemma evaluate_stable:
  assumes "wf_manifest m" and "evaluate m command = Inr (c, d)"
    and "pd_kind d = ''direct'' \<or> (if match_command m (collapse command) = Inr None then match_command m c = Inr None
      else same_ids c (collapse command))"
  shows "evaluate m c = Inr (c, d)"
  using assms(2)
proof (cases rule: evaluate_cases)
  case (direct found inner)
  from direct_inner [OF direct(1, 2)] have "accepts True (rest_of_line 140) inner \<and> collapse (direct_prefix @ inner) = direct_prefix @ inner"
    by metis
  with direct_evaluate [of inner m] normalize_stable [OF direct(2)] direct(3, 4) show ?thesis by (simp add: direct_prefix_def)
next
  case plain
  have immediate: "casefold (collapse command) \<in> set immediate_commands \<Longrightarrow> c = casefold (collapse command) \<Longrightarrow>
      evaluate m c = Inr (c, decision ''inspection'' False)"
    using stable_plain [OF plain(1-5), of c m] plain_output [OF plain(2, 3), of c] by simp
  from plain(6) show ?thesis
  proof (elim disjE conjE exE)
    fix f sa nz
    assume n: "casefold (collapse command) \<notin> set immediate_commands" and f: "match_command m (collapse command) = Inr (Some f)"
      and d: "d = decision (a_category (cc_action f)) (a_confirmation_required (cc_action f))"
      and b: "action_build (cc_action f) (cc_arguments f) = Inr (c, sa, nz)"
    from wf_matched [OF assms(1) f] d have "pd_kind d \<noteq> ''direct''" by (auto simp: wf_action_def categories_all_def)
    with assms(3) f have "same_ids c (collapse command)" by simp
    from stable_claimed [OF assms(1) plain(1-5) n f b this] d show ?thesis by simp
  next
    assume n: "casefold (collapse command) \<notin> set immediate_commands" "match_command m (collapse command) = Inr None"
      and v: "vocabulary (collapse command) (casefold (collapse command)) = Inr (c, d)"
    from vocabulary_Inr [OF v] have c: "c = collapse command \<or> c = casefold (collapse command)" and k: "pd_kind d \<noteq> ''direct''" by blast+
    from plain_output [OF plain(2, 3) c] have o: "casefold c = casefold (collapse command)" by blast
    from stable_plain [OF plain(1-5) c, of m] assms(3) k n vocabulary_stable [OF v] show ?thesis by (simp add: o)
  qed (use immediate in simp_all)
qed

end
