(* ===== verification/BrokerCommands.thy ===== *)
theory BrokerCommands
  imports BrokerRequests PolicyProperties
begin

text \<open>
  The commands held by a reachable broker are canonical commands of its policy.
\<close>

definition commands_inv :: "manifest \<Rightarrow> broker \<Rightarrow> bool" where
  "commands_inv m b = (br_manifest b = m \<and> (\<forall>k a. map_of (br_actions b) k = Some a \<longrightarrow> accepted b a))"

lemma accepted_same:
  "act_commands a' = act_commands a \<Longrightarrow> br_manifest b' = br_manifest b \<Longrightarrow> accepted b' a' = accepted b a"
  by (simp add: accepted_def)

lemma commands_set:
  assumes "commands_inv m b" and "map_of (br_actions b) k = Some a" and "act_commands a' = act_commands a"
  shows "commands_inv m (audit evs (set_action a' b))"
  using assms by (auto simp: commands_inv_def accepted_def split: if_splits)

lemma commands_map:
  assumes "commands_inv m b" and "br_actions c = br_actions b" and "br_manifest c = br_manifest b"
    and "\<And>a. act_commands (f a) = act_commands a"
  shows "commands_inv m (audit evs (map_actions f c))"
  using assms by (auto simp: commands_inv_def accepted_def)

lemma commands_kept: "evolves a a' \<Longrightarrow> act_commands a' = act_commands a"
  by (simp add: evolves_def)

lemma atom_commands: "atom b c \<Longrightarrow> commands_inv m b \<Longrightarrow> commands_inv m c"
proof (induction rule: atom.induct)
  case (at_expire b now)
  then show ?case unfolding expire_locked_def by (intro commands_map commands_kept evolves_expire) simp_all
next
  case (at_submit a b)
  then show ?case by (auto simp: commands_inv_def accepted_def split: if_splits)
next
  case (at_new_session b key g)
  then show ?case by (auto simp: commands_inv_def accepted_def)
next
  case (at_replace_session evs b key g)
  then show ?case by (intro commands_map commands_kept evolves_replace) simp_all
next
  case (at_enable b c g key)
  then show ?case by (auto simp: commands_inv_def accepted_def)
next
  case (at_kill b c g key)
  then show ?case by (intro commands_map commands_kept evolves_kill) simp_all
qed (erule (1) commands_set, simp add: apply_outcome_def)+

interpretation cmds: invariant_system "\<lambda>b. b = broker_init m" broker_step "\<lambda>b. broker_inv b \<and> commands_inv m b" for m
proof unfold_locales
  show "broker_inv b \<and> commands_inv m b" if "b = broker_init m" for b
    using that broker_inv_init by (auto simp: commands_inv_def broker_init_def)
  fix b b'
  assume inv: "broker_inv b \<and> commands_inv m b" and st: "broker_step b b'"
  have "runs atom b b'" by (rule broker_step_refines [OF st]) (use inv broker_invD(1) in blast)
  then have "commands_inv m b'" using inv by (induction rule: runs.induct) (auto intro: atom_commands)
  with broker_step_inv inv st show "broker_inv b' \<and> commands_inv m b'" by blast
qed

text \<open>
  C17: in every reachable broker over a loaded manifest, every command of every action is a
  normalized direct command or free of chaining characters.
\<close>

theorem stored_commands_are_safe:
  assumes "manifest_load raw = Inr m" and "broker_reach m b" and "map_of (br_actions b) k = Some a"
  shows "\<forall>c \<in> set (act_commands a). \<exists>d. safe_command c d"
proof (rule gate.accepted_list_safe)
  show "wf_manifest m" by (rule manifest_wf [OF assms(1)])
  from cmds.reach_inv [OF assms(2)] assms(3) show "\<forall>c \<in> set (act_commands a). \<exists>raw d. evaluate m raw = Inr (c, d)"
    by (auto simp: commands_inv_def accepted_def)
qed

lemma stored_commands_are_safe_witness: "\<exists>d. safe_command ''north'' d"
proof -
  have m: "manifest_load (PDict [(''version'', PInt 1), (''controllers'', PList [])]) = Inr []" by code_simp
  have "map_of (br_actions demo_approved) demo_id = Some (demo_action Queued (Some ''7''))"
    by (simp add: demo_approved_value demo_broker_def)
  from stored_commands_are_safe [OF m demo_approved_reach this] show ?thesis by (simp add: demo_action_def)
qed

end
