(* ===== verification/ManifestProperties.thy ===== *)
theory ManifestProperties
  imports PolicyProperties
begin

text \<open>
  The properties of a loaded controller manifest and of the command policy over it: built
  commands never chain, recognition is total, a built command is recognised, controls obey
  their contract, and classification is safe and stable.
\<close>

section \<open>A concrete manifest\<close>

definition demo_raw :: pyval where
  "demo_raw = PDict [(''version'', PInt 1), (''controllers'', PList [PDict
     [(''name'', PStr ''hunter''), (''script'', PStr ''hunter''), (''summary'', PStr ''demo''),
      (''characters'', PList [PStr ''Bob'']), (''result_global'', PStr ''$lab_hunt''),
      (''lanes'', PList [PStr ''movement'', PStr ''combat'']), (''owner_scripts'', PList [PStr ''hunter'']),
      (''safe_handoff'', PDict [(''kind'', PStr ''controller_refuge''), (''room_id'', PInt 228), (''return_seconds'', PInt 60)]),
      (''capability_action'', PStr ''start''),
      (''control_owner_scripts'', PList [PStr ''hunter'']),
      (''actions'', PList
        [PDict [(''name'', PStr ''start''), (''kind'', PStr ''launch''), (''launch_mode'', PStr ''start''),
           (''command_template'', PStr ''hunt {mode} {count}''),
           (''script_args_template'', PStr ''{mode} {count}''),
           (''policy'', PDict [(''category'', PStr ''combat''), (''confirmation_required'', PBool True)]),
           (''parameters'', PList
             [PDict [(''name'', PStr ''mode''), (''type'', PStr ''enum''), (''values'', PList [PStr ''Fast'', PStr ''slow''])],
              PDict [(''name'', PStr ''count''), (''type'', PStr ''numeric'')]])],
         PDict [(''name'', PStr ''stop''), (''kind'', PStr ''stop''),
           (''command_template'', PStr ''hunt stop{quiet}''), (''script_args_template'', PStr ''''),
           (''policy'', PDict [(''category'', PStr ''configuration''), (''confirmation_required'', PBool True)]),
           (''parameters'', PList
             [PDict [(''name'', PStr ''quiet''), (''type'', PStr ''flag_suffix''), (''true_value'', PStr '' quietly''),
                (''default'', PBool True)]])],
         PDict [(''name'', PStr ''hold''), (''kind'', PStr ''control''),
           (''command_template'', PStr ''hold {run_id}''), (''script_args_template'', PStr ''''),
           (''policy'', PDict [(''category'', PStr ''combat''), (''confirmation_required'', PBool True)]),
           (''parameters'', PList [PDict [(''name'', PStr ''run_id''), (''type'', PStr ''action_id'')]])]])]])]"

definition demo_manifest :: manifest where
  "demo_manifest = (case manifest_load demo_raw of Inr m \<Rightarrow> m | Inl _ \<Rightarrow> [])"



definition demo_item :: "nat \<Rightarrow> controller_action" where
  "demo_item i = c_actions (hd demo_manifest) ! i"

lemma demo_loaded: "manifest_load demo_raw = Inr demo_manifest"
proof -
  have "case manifest_load demo_raw of Inr m \<Rightarrow> True | Inl _ \<Rightarrow> False" by code_simp
  then show ?thesis unfolding demo_manifest_def by (cases "manifest_load demo_raw") auto
qed

lemma demo_shape: "length demo_manifest = 1 \<and> length (c_actions (hd demo_manifest)) = 3"
  by code_simp

lemma demo_hd: "hd demo_manifest \<in> set demo_manifest"
  by (rule hd_in_set) (use demo_shape in auto)

lemma demo_item_in: "i < 3 \<Longrightarrow> demo_item i \<in> set (c_actions (hd demo_manifest))"
  using demo_shape by (simp add: demo_item_def)

section \<open>Built commands\<close>

lemma loaded_wf: "manifest_load raw = Inr m \<Longrightarrow> c \<in> set m \<Longrightarrow> a \<in> set (c_actions c) \<Longrightarrow> wf_action a"
  using manifest_wf by (auto simp: wf_manifest_def)

text \<open>
  C24: whatever arguments it is given, an action of a loaded manifest never builds a command or
  script arguments with a newline, semicolon, pipe or ampersand.
\<close>

theorem built_commands_never_chain:
  assumes "manifest_load raw = Inr m" and "c \<in> set m" and "a \<in> set (c_actions c)"
    and "action_build a args = Inr (command, script_args, normalized)"
  shows "\<not> contains_any chain_chars command \<and> \<not> contains_any chain_chars script_args"
  by (rule build_chain_free [OF loaded_wf [OF assms(1-3)] assms(4)])

lemma built_commands_never_chain_witness:
  "\<not> contains_any chain_chars ''hunt Fast 12'' \<and> \<not> contains_any chain_chars ''Fast 12''"
proof (rule built_commands_never_chain [OF demo_loaded demo_hd demo_item_in [of 0]])
  show "action_build (demo_item 0) [(''count'', PInt 12), (''mode'', PStr ''FAST'')]
     = Inr (''hunt Fast 12'', ''Fast 12'', [(''mode'', PStr ''Fast''), (''count'', PStr ''12'')])" by code_simp
qed simp

text \<open>
  building a command of a loaded manifest either succeeds or raises a validation error; it
  never fails with a missing placeholder.
\<close>

theorem build_raises_only_validation:
  assumes "manifest_load raw = Inr m" and "c \<in> set m" and "a \<in> set (c_actions c)"
    and "action_build a args = Inl e"
  shows "\<exists>message. e = ValidationError message"
  by (rule build_error [OF loaded_wf [OF assms(1-3)] assms(4)])

lemma build_raises_only_validation_witness:
  "\<exists>e. action_build (demo_item 0) [(''count'', PStr ''x''), (''mode'', PStr ''fast'')] = Inl e
     \<and> (\<exists>message. e = ValidationError message)"
proof -
  have "action_build (demo_item 0) [(''count'', PStr ''x''), (''mode'', PStr ''fast'')]
      = Inl (ValidationError ''count must be numeric'')" by code_simp
  from this build_raises_only_validation [OF demo_loaded demo_hd demo_item_in [of 0] this] show ?thesis by simp
qed

text \<open>
  recognising a command against a loaded manifest never raises, and when it finds an action
  that action belongs to the controller it names, matched the command, and rebuilt its
  arguments without error.
\<close>

theorem recognition_is_total:
  assumes "manifest_load raw = Inr m"
  shows "\<exists>r. match_command m command = Inr r
    \<and> (\<forall>f. r = Some f \<longrightarrow> cc_controller f \<in> set m \<and> cc_action f \<in> set (c_actions (cc_controller f))
         \<and> (\<exists>vs command'. action_match (cc_action f) command = Inr (Some vs)
              \<and> action_build (cc_action f) vs = Inr (command', cc_script_args f, cc_arguments f)))"
  by (rule match_command_total [OF manifest_wf [OF assms]])

lemma recognition_is_total_witness: "\<exists>r. match_command demo_manifest ''HUNT slow 7'' = Inr r"
  using recognition_is_total [OF demo_loaded, of "''HUNT slow 7''"] by blast

text \<open>
  C25: a command built from ASCII arguments is recognised by the action that built it.
\<close>

theorem built_command_recognised:
  assumes "manifest_load raw = Inr m" and "c \<in> set m" and "a \<in> set (c_actions c)"
    and "action_build a args = Inr (command, script_args, normalized)"
    and "\<forall>x \<in> set args. is_ascii (py_str (snd x))"
  shows "\<exists>vs. action_match a command = Inr (Some vs)"
proof -
  note wf = loaded_wf [OF assms(1-3)]
  have "is_ascii (py_str (dget_or k (PBool b) args))" for k b
    using assms(5) by (cases b) (auto simp: dget_or_def is_ascii_def dest!: map_of_SomeD split: option.splits)
  with build_recognised [OF wf assms(4)] have "rx_full True (a_pattern a) command" by blast
  then have "fullmatch_caps True (a_pattern a) command \<noteq> None" by (simp add: rx_full_def)
  with action_match_total [OF wf, of command] show ?thesis by auto
qed

lemma built_command_recognised_witness:
  "\<exists>vs. action_match (demo_item 0) ''hunt Fast 12'' = Inr (Some vs)"
proof (rule built_command_recognised [OF demo_loaded demo_hd demo_item_in [of 0]])
  show "action_build (demo_item 0) [(''count'', PStr ''12''), (''mode'', PStr ''FAST'')]
     = Inr (''hunt Fast 12'', ''Fast 12'', [(''mode'', PStr ''Fast''), (''count'', PStr ''12'')])" by code_simp
  show "\<forall>x \<in> set [(''count'', PStr ''12''), (''mode'', PStr ''FAST'')]. is_ascii (py_str (snd x))" by code_simp
qed simp

section \<open>Controllers\<close>

lemma ensure_InrE: "ensure b e = Inr y \<Longrightarrow> (b \<Longrightarrow> P) \<Longrightarrow> P"
  by (cases b) (auto simp: ensure_def)

lemma handoff_facts:
  assumes "cfm_handoff label lanes raw = Inr (safe, kind)"
  shows "kind = py_str (dget ''kind'' safe) \<and> (kind \<in> set refuge_kinds \<longrightarrow> refuge_ok safe lanes)"
  using assms unfolding cfm_handoff_def Let_def
  by (elim loaded_elims) (auto split: if_splits pyval.splits list.splits)

lemma actions_facts:
  assumes "cfm_actions label v = Inr (as, cap)"
  shows "list_ex (\<lambda>i. a_kind i = ''control'') as \<longrightarrow> list_ex (\<lambda>i. a_name i = cap \<and> a_kind i = ''launch'') as"
  using assms unfolding cfm_actions_def
  by (auto simp: rbind_Inr_iff simp del: rmapi.simps split: if_splits pyval.splits list.splits)

lemma loaded_controller:
  assumes "controller_from_mapping label raw = Inr c"
  shows "\<exists>cap kind. kind = py_str (handoff_kind c) \<and> cap = c_capability_action c
    \<and> (list_ex (\<lambda>i. a_kind i = ''control'') (c_actions c)
         \<longrightarrow> list_ex (\<lambda>i. a_name i = cap \<and> a_kind i = ''launch'') (c_actions c))
    \<and> (kind \<in> set refuge_kinds \<longrightarrow> refuge_ok (c_safe_handoff c) (c_lanes c))
    \<and> cfm_control_owners label (c_script c) (c_control_owner_scripts c) (c_owner_scripts c) (c_actions c) = Inr ()
    \<and> cfm_refuge label kind (c_control_owner_scripts c) (c_actions c) = Inr ()"
proof -
  from assms obtain v raws safe kind cap where "cfm_handoff label (c_lanes c) raws = Inr (safe, kind)"
      "cfm_actions label v = Inr (c_actions c, cap)"
      "cfm_control_owners label (c_script c) (c_control_owner_scripts c) (c_owner_scripts c) (c_actions c) = Inr ()"
      "cfm_refuge label kind (c_control_owner_scripts c) (c_actions c) = Inr ()"
      "c_safe_handoff c = safe" "c_capability_action c = cap"
    unfolding controller_from_mapping_def Let_def
    by (elim rbind_InrE) (auto simp: rbind_Inr_iff split: option.split_asm prod.split_asm)
  with handoff_facts [OF this(1)] actions_facts [OF this(2)] show ?thesis by (simp add: handoff_kind_def)
qed

lemma loaded_controllers:
  "manifest_load raw = Inr m \<Longrightarrow> c \<in> set m \<Longrightarrow> \<exists>label item. controller_from_mapping label item = Inr c"
proof -
  assume a: "manifest_load raw = Inr m" "c \<in> set m"
  then obtain raws where "rmapi (\<lambda>i. controller_from_mapping (''controllers['' @ nat_str i @ '']'')) 0 raws = Inr m"
    by (auto simp: manifest_load_def manifest_init_def rbind_Inr_iff split: if_splits pyval.splits)
  from rmapi_list_all [OF this, of "\<lambda>c. \<exists>label item. controller_from_mapping label item = Inr c"] a(2)
  show ?thesis by (auto simp: list_all_iff)
qed

text \<open>
  in a loaded manifest every control action addresses exactly one run by its action id, is
  one of the four controls, needs confirmation unless it only reads the status, and its
  controller declares a launch capability and lists its own script among the control owners.
\<close>

theorem controls_obey_contract:
  assumes "manifest_load raw = Inr m" and "c \<in> set m" and "a \<in> set (c_actions c)" and "a_kind a = ''control''"
  shows "(\<exists>p. a_parameters a = [p] \<and> p_name p = ''run_id'' \<and> p_type p = ''action_id'')
    \<and> a_name a \<in> set controller_controls \<and> (a_confirmation_required a \<or> a_name a = ''status'')
    \<and> list_ex (\<lambda>i. a_name i = c_capability_action c \<and> a_kind i = ''launch'') (c_actions c)
    \<and> control_owners_ok (c_script c) (c_control_owner_scripts c) (c_owner_scripts c)"
proof -
  have "control_contract (a_name a) (a_script_args_template a) (a_launch_mode a) (a_parameters a)
      (a_category a) (a_confirmation_required a)"
    using loaded_wf [OF assms(1-3)] assms(4) by (simp add: wf_action_def)
  then have "\<exists>p. a_parameters a = [p] \<and> p_name p = ''run_id'' \<and> p_type p = ''action_id''"
    and "a_name a \<in> set controller_controls" and "a_confirmation_required a \<or> a_name a = ''status''"
    by (auto simp: control_contract_def split: list.splits)
  moreover from loaded_controllers [OF assms(1, 2)] obtain label item where "controller_from_mapping label item = Inr c" by blast
  note loaded_controller [OF this]
  moreover have "list_ex (\<lambda>i. a_kind i = ''control'') (c_actions c)" using assms(3, 4) by (auto simp: list_ex_iff)
  ultimately show ?thesis by (auto simp: cfm_control_owners_def ensure_def split: if_splits)
qed

lemma controls_obey_contract_witness:
  "control_owners_ok (c_script (hd demo_manifest)) (c_control_owner_scripts (hd demo_manifest)) (c_owner_scripts (hd demo_manifest))"
proof -
  have "a_kind (demo_item 2) = ''control''" by code_simp
  from controls_obey_contract [OF demo_loaded demo_hd demo_item_in [of 2] this] show ?thesis by simp
qed

text \<open>
  a controller of a loaded manifest that hands off to a refuge names an exact numeric room
  other than 4, returns within 10 to 120 seconds and holds the movement and combat lanes; a
  controller refuge moreover is a controlled script whose launches have no private flags.
\<close>

theorem refuge_is_bounded:
  assumes "manifest_load raw = Inr m" and "c \<in> set m" and "py_str (handoff_kind c) \<in> set refuge_kinds"
  shows "(\<exists>s. dget ''return_seconds'' (c_safe_handoff c) = PInt s \<and> 10 \<le> s \<and> s \<le> 120)
    \<and> rx_full False rx_room_number (py_str (dget ''room_id'' (c_safe_handoff c)))
    \<and> {''movement'', ''combat''} \<subseteq> set (c_lanes c)
    \<and> (py_str (handoff_kind c) = ''controller_refuge'' \<longrightarrow>
         c_control_owner_scripts c \<noteq> [] \<and> launches (c_actions c) \<noteq> [] \<and> list_all refuge_launch_ok (launches (c_actions c)))"
proof -
  from loaded_controllers [OF assms(1, 2)] obtain label item where "controller_from_mapping label item = Inr c" by blast
  from loaded_controller [OF this] assms(3) have "refuge_ok (c_safe_handoff c) (c_lanes c)"
    and "cfm_refuge label (py_str (handoff_kind c)) (c_control_owner_scripts c) (c_actions c) = Inr ()" by blast+
  then show ?thesis
    by (auto simp: refuge_ok_def Let_def cfm_refuge_def ensure_def split: pyval.splits if_splits)
qed

lemma refuge_is_bounded_witness:
  "\<exists>s. dget ''return_seconds'' (c_safe_handoff (hd demo_manifest)) = PInt s \<and> 10 \<le> s \<and> s \<le> 120"
proof -
  have "py_str (handoff_kind (hd demo_manifest)) \<in> set refuge_kinds" by code_simp
  from refuge_is_bounded [OF demo_loaded demo_hd this] show ?thesis by blast
qed

section \<open>Two corner cases of rendering\<close>

text \<open>
  \<open>str.isdigit\<close> accepts superscript digits, which the pattern of the same action refuses: the
  command that \<open>build\<close> returns is not recognised.
\<close>

lemma superscript_digit_not_recognised:
  "action_build (demo_item 0) [(''count'', PStr [char_of (178 :: nat)]), (''mode'', PStr ''fast'')]
     = Inr (''hunt Fast '' @ [char_of (178 :: nat)], ''Fast '' @ [char_of (178 :: nat)],
            [(''mode'', PStr ''Fast''), (''count'', PStr [char_of (178 :: nat)])])
   \<and> action_match (demo_item 0) (''hunt Fast '' @ [char_of (178 :: nat)]) = Inr None"
  by code_simp

text \<open>
  A flag given as \<open>None\<close> renders its default but is normalized to \<open>False\<close>: with a true default
  the command carries the flag while the recorded arguments deny it.
\<close>

lemma none_flag_misreported:
  "action_build (demo_item 1) [(''quiet'', PNone)]
     = Inr (''hunt stop quietly'', '''', [(''quiet'', PBool False)])"
  by code_simp

section \<open>The command policy\<close>

text \<open>
  C22: the canonical form of an accepted command is the given command with its white space collapsed,
  up to letter case.  It is either one direct full-access command (\<open>lab direct\<close> and a normalized
  inner command), which the code exempts from the item ban, or it has no chaining character and
  is not a forbidden item command, in the given form and in the canonical one.
\<close>

theorem accepted_command_is_safe:
  assumes "manifest_load raw = Inr m" and "evaluate m command = Inr (c, d)"
  shows "safe_command c d \<and> casefold c = casefold (collapse command)
    \<and> (pd_kind d \<noteq> ''direct'' \<longrightarrow> \<not> forbidden (casefold (collapse command)) \<and> \<not> forbidden (casefold c))"
  using evaluate_safe [OF manifest_wf [OF assms(1)] assms(2)] by auto

lemma accepted_command_is_safe_witness:
  "safe_command ''hunt Fast 12'' (decision ''combat'' True) \<and> \<not> forbidden (casefold ''hunt Fast 12'')"
proof -
  have "evaluate demo_manifest ''HUNT  fast 12'' = Inr (''hunt Fast 12'', decision ''combat'' True)" by code_simp
  from accepted_command_is_safe [OF demo_loaded this] show ?thesis by simp
qed

text \<open>
  a direct full-access command is never empty, longer than 140 characters, chained, a
  frontend command or an inline Ruby command.
\<close>

theorem direct_command_is_bounded:
  assumes "normalize_full_access v = Inr t"
  shows "t \<noteq> [] \<and> length t \<le> 140 \<and> \<not> contains_any control_chars t \<and> \<not> has_semicolon (tl t)
    \<and> \<not> starts_with '','' t
    \<and> (starts_with '';'' t \<longrightarrow> strip (tl t) \<noteq> []
         \<and> casefold (first_word (strip (tl t))) \<notin> set direct_lich_eval_commands)
    \<and> normalize_full_access (PStr t) = Inr t"
  using normalize_facts [OF assms] normalize_stable [OF assms] by blast

lemma direct_command_is_bounded_witness:
  "casefold (first_word (strip ''go2 bank'')) \<notin> set direct_lich_eval_commands"
proof -
  have "normalize_full_access (PStr ''  ;go2 bank '') = Inr '';go2 bank''" by code_simp
  from direct_command_is_bounded [OF this] show ?thesis by (simp add: starts_with_def)
qed

text \<open>
  C23: classification is stable: evaluating the canonical form of an accepted command gives the same
  form and the same decision.  This holds for every direct command; for a command that a controller
  claims if the canonical form has action ids at the same places as the given command, since an action
  id is the only part of a pattern that minds the case; and for any other command if no controller
  claims its canonical form.
\<close>

theorem classification_is_stable:
  assumes "manifest_load raw = Inr m" and "evaluate m command = Inr (c, d)"
    and "pd_kind d = ''direct'' \<or> (if match_command m (collapse command) = Inr None then match_command m c = Inr None
      else same_ids c (collapse command))"
  shows "evaluate m c = Inr (c, d)"
  by (rule evaluate_stable [OF manifest_wf [OF assms(1)] assms(2, 3)])

lemma short_ids: "length s < 16 \<Longrightarrow> length t < 16 \<Longrightarrow> same_ids s t"
proof -
  have "\<not> rx_full False rx_action_id (take 16 (drop i u))" if "length u < 16" for i u
    using that by (simp add: rx_full_def fullmatch_caps_def rx_action_id_def rmatch_hex)
  then show "length s < 16 \<Longrightarrow> length t < 16 \<Longrightarrow> same_ids s t" by (simp add: same_ids_def)
qed

lemma classification_is_stable_witness:
  "evaluate demo_manifest ''hunt Fast 12'' = Inr (''hunt Fast 12'', decision ''combat'' True)"
proof -
  have run: "evaluate demo_manifest ''HUNT  fast 12'' = Inr (''hunt Fast 12'', decision ''combat'' True)" by code_simp
  have words: "collapse ''HUNT  fast 12'' = ''HUNT fast 12''" by code_simp
  have claimed: "match_command demo_manifest ''HUNT fast 12'' \<noteq> Inr None" by code_simp
  have "same_ids ''hunt Fast 12'' ''HUNT fast 12''" by (rule short_ids) simp_all
  with claimed classification_is_stable [OF demo_loaded run] show ?thesis unfolding words by simp
qed

section \<open>A canonical form that another action reads\<close>

text \<open>
  The condition is needed.  A value that looks like an action id is matched whatever its case, but the
  action id of an earlier action only in lower case: the command is classified as a launch that must be
  confirmed, and its canonical form as another action of another category.
\<close>
definition shadow_raw :: pyval where
  "shadow_raw = PDict [(''version'', PInt 1), (''controllers'', PList [PDict
     [(''name'', PStr ''hunter''), (''script'', PStr ''hunter''), (''summary'', PStr ''demo''),
      (''characters'', PList [PStr ''Bob'']), (''result_global'', PStr ''$lab_hunt''),
      (''lanes'', PList [PStr ''movement'', PStr ''combat'']), (''owner_scripts'', PList [PStr ''hunter'']),
      (''safe_handoff'', PDict [(''kind'', PStr ''controller_refuge''), (''room_id'', PInt 228), (''return_seconds'', PInt 60)]),
      (''capability_action'', PStr ''start''),
      (''control_owner_scripts'', PList [PStr ''hunter'']),
      (''actions'', PList
        [PDict [(''name'', PStr ''status''), (''kind'', PStr ''control''),
           (''command_template'', PStr ''hunt {run_id}''), (''script_args_template'', PStr ''''),
           (''policy'', PDict [(''category'', PStr ''inspection''), (''confirmation_required'', PBool False)]),
           (''parameters'', PList [PDict [(''name'', PStr ''run_id''), (''type'', PStr ''action_id'')]])],
         PDict [(''name'', PStr ''start''), (''kind'', PStr ''launch''), (''launch_mode'', PStr ''start''),
           (''command_template'', PStr ''hunt {mode}''),
           (''script_args_template'', PStr ''{mode}''),
           (''policy'', PDict [(''category'', PStr ''combat''), (''confirmation_required'', PBool True)]),
           (''parameters'', PList
             [PDict [(''name'', PStr ''mode''), (''type'', PStr ''enum''), (''values'', PList [PStr ''abcdef0123456789''])]])]])]])]"

definition shadow_manifest :: manifest where
  "shadow_manifest = (case manifest_load shadow_raw of Inr m \<Rightarrow> m | Inl _ \<Rightarrow> [])"

lemma canonical_form_reclassified:
  "manifest_load shadow_raw = Inr shadow_manifest
   \<and> evaluate shadow_manifest ''hunt ABCDEF0123456789'' = Inr (''hunt abcdef0123456789'', decision ''combat'' True)
   \<and> evaluate shadow_manifest ''hunt abcdef0123456789'' = Inr (''hunt abcdef0123456789'', decision ''inspection'' False)"
proof -
  have "case manifest_load shadow_raw of Inr m \<Rightarrow> True | Inl _ \<Rightarrow> False" by code_simp
  then have "manifest_load shadow_raw = Inr shadow_manifest" unfolding shadow_manifest_def by (cases "manifest_load shadow_raw") auto
  moreover have "evaluate shadow_manifest ''hunt ABCDEF0123456789'' = Inr (''hunt abcdef0123456789'', decision ''combat'' True)"
    by code_simp
  moreover have "evaluate shadow_manifest ''hunt abcdef0123456789'' = Inr (''hunt abcdef0123456789'', decision ''inspection'' False)"
    by code_simp
  ultimately show ?thesis by blast
qed

end
