(* ===== verification/IsoTime.thy ===== *)
theory IsoTime
  imports Prelude
begin

text \<open>
  \<open>datetime.fromisoformat\<close> of Python's standard library, as far as the sources depend on it:
  whether a text is a timestamp, whether it carries a timezone, and which instant it names.  The definitions follow
  the scanner of CPython 3.11, the oldest version the project supports: a calendar or ISO week
  date, one separator character, a time with optional seconds and fraction, and \<open>Z\<close> or an offset.
\<close>

definition iso_digits :: "nat \<Rightarrow> string \<Rightarrow> bool" where
  \<comment> \<open>the text starts with \<open>k\<close> ASCII digits\<close>
  "iso_digits k s = (k \<le> length s \<and> list_all is_ascii_digit (take k s))"

definition leap_year :: "nat \<Rightarrow> bool" where
  "leap_year y = (y mod 4 = 0 \<and> (y mod 100 \<noteq> 0 \<or> y mod 400 = 0))"

definition days_in_month :: "nat \<Rightarrow> nat \<Rightarrow> nat" where
  "days_in_month y m = (if m = 2 then (if leap_year y then 29 else 28)
     else if m \<in> {4, 6, 9, 11} then 30 else 31)"

definition jan1_weekday :: "nat \<Rightarrow> nat" where
  \<comment> \<open>Monday is 0\<close>
  "jan1_weekday y = (let n = y - 1 in (n * 365 + n div 4 - n div 100 + n div 400) mod 7)"

definition iso_week_ok :: "nat \<Rightarrow> nat \<Rightarrow> nat \<Rightarrow> bool" where
  "iso_week_ok y w d =
     (let j = jan1_weekday y;
          monday = (if j \<le> 3 then - int j else 7 - int j);
          offset = monday + 7 * (int w - 1) + int d - 1
      in 1 \<le> y \<and> 1 \<le> d \<and> d \<le> 7
         \<and> (1 \<le> w \<and> w \<le> 52 \<or> w = 53 \<and> (j = 3 \<or> j = 2 \<and> leap_year y))
         \<and> \<not> (y = 9999 \<and> 365 \<le> offset))"

definition iso_separator :: "string \<Rightarrow> nat option" where
  \<comment> \<open>where the date ends\<close>
  "iso_separator s =
     (let n = length s in
      if n = 7 then Some 7
      else if s ! 4 = CHR ''-'' then
        (if s ! 5 = CHR ''W'' then
           (if 8 < n \<and> s ! 8 = CHR ''-'' then
              (if n = 9 then None else if 10 < n \<and> is_ascii_digit (s ! 10) then Some 8 else Some 10)
            else Some 8)
         else Some 10)
      else if s ! 4 = CHR ''W'' then
        (let k = 7 + length (takeWhile is_ascii_digit (drop 7 s)) in
         if k < 9 then Some k else if even k then Some 7 else Some 8)
      else Some 8)"

definition iso_date :: "string \<Rightarrow> bool" where
  "iso_date d =
     (iso_digits 4 d \<and>
      (let y = digits_value (take 4 d); dash = (take 1 (drop 4 d) = ''-'');
           r = (if dash then drop 5 d else drop 4 d) in
       if take 1 r = ''W'' then
         iso_digits 2 (drop 1 r) \<and>
         (let w = digits_value (take 2 (drop 1 r)); r2 = drop 3 r in
          if r2 = [] then iso_week_ok y w 1
          else if dash \<and> hd r2 \<noteq> CHR ''-'' then False
          else let r3 = (if dash then tl r2 else r2) in
            iso_digits 1 r3 \<and> iso_week_ok y w (digits_value (take 1 r3)))
       else
         iso_digits 2 r \<and>
         (let m = digits_value (take 2 r); r2 = drop 2 r in
          if dash \<and> take 1 r2 \<noteq> ''-'' then False
          else let r3 = (if dash then drop 1 r2 else r2); day = digits_value (take 2 r3) in
            iso_digits 2 r3 \<and> length r3 = 2 \<and> 1 \<le> y \<and> 1 \<le> m \<and> m \<le> 12
            \<and> 1 \<le> day \<and> day \<le> days_in_month y m)))"

record iso_clock =
  ic_more :: bool \<comment> \<open>characters are left after the scanned part\<close>
  ic_hms :: "nat list"
  ic_micro :: nat

definition iso_fraction :: "string \<Rightarrow> nat \<Rightarrow> nat \<Rightarrow> nat list \<Rightarrow> iso_clock option" where
  "iso_fraction s n p vs =
     (let k = min 6 (n - p); ds = take k (drop p s) in
      if iso_digits k (drop p s)
      then Some \<lparr>ic_more = (dropWhile is_ascii_digit (drop (p + k) s) \<noteq> []), ic_hms = vs,
                 ic_micro = digits_value ds * 10 ^ (6 - k)\<rparr>
      else None)"

fun iso_fields :: "string \<Rightarrow> nat \<Rightarrow> nat \<Rightarrow> bool \<Rightarrow> nat \<Rightarrow> nat list \<Rightarrow> iso_clock option" where
  \<comment> \<open>\<open>todo\<close> fields remain, the scanner stands at \<open>p\<close> and the part ends at \<open>n\<close>\<close>
  "iso_fields s n p sep 0 vs = iso_fraction s n p vs"
| "iso_fields s n p sep (Suc todo) vs =
     (if \<not> iso_digits 2 (drop p s) then None
      else
        let vs' = vs @ [digits_value (take 2 (drop p s))];
            next = take 1 (drop (p + 2) s);
            sep' = (if todo = 2 then next = '':'' else sep) in
        if list_ex (\<lambda>c. 128 \<le> ord c) next then None
        else if n \<le> p + 3
        then Some \<lparr>ic_more = (next \<noteq> []), ic_hms = take 3 (vs' @ [0, 0]), ic_micro = 0\<rparr>
        else if sep' \<and> next = '':'' then iso_fields s n (p + 3) sep' todo vs'
        else if next = ''.'' \<or> next = '','' then iso_fraction s n (p + 3) (take 3 (vs' @ [0, 0]))
        else if \<not> sep' then iso_fields s n (p + 2) sep' todo vs'
        else None)"

definition iso_clock_of :: "string \<Rightarrow> nat \<Rightarrow> iso_clock option" where
  "iso_clock_of s n = iso_fields s n 0 True 3 []"

definition iso_time :: "string \<Rightarrow> bool option" where
  \<comment> \<open>\<open>None\<close> is a malformed time, otherwise whether it has a timezone\<close>
  "iso_time t =
     (let zone = length (takeWhile (\<lambda>c. c \<notin> {CHR ''+'', CHR ''-'', CHR ''Z''}) t) in
      case iso_clock_of t zone of None \<Rightarrow> None | Some c \<Rightarrow>
        (let ok = (ic_hms c ! 0 < 24 \<and> ic_hms c ! 1 < 60 \<and> ic_hms c ! 2 < 60) in
         if zone = length t then (if ic_more c \<or> \<not> ok then None else Some False)
         else if t ! zone = CHR ''Z'' then (if zone + 1 = length t \<and> ok then Some True else None)
         else let z = drop (zone + 1) t in
           case iso_clock_of z (length z) of None \<Rightarrow> None | Some q \<Rightarrow>
             if ic_more q \<or> \<not> ok
                \<or> 86400 * 1000000 \<le> (ic_hms q ! 0 * 3600 + ic_hms q ! 1 * 60 + ic_hms q ! 2) * 1000000 + ic_micro q
             then None else Some True))"

definition iso_parse :: "string \<Rightarrow> bool option" where
  "iso_parse s =
     (if length s < 7 then None else
      case iso_separator s of None \<Rightarrow> None | Some p \<Rightarrow>
        if \<not> iso_date (take p s) then None
        else if length s \<le> p then Some False
        else iso_time (drop (p + 1) s))"

lemma iso_samples:
  "iso_parse ''2024-02-29T12:30:45.123456+00:00'' = Some True"
  "iso_parse ''20240229T123045Z'' = Some True" "iso_parse ''2024-W09-4T10'' = Some False"
  "iso_parse ''2023-02-29T10:00:00+00:00'' = None" "iso_parse ''2024-01-01T10:00+24:00'' = None"
  by code_simp+

section \<open>The instant\<close>

definition date_ordinal :: "nat \<Rightarrow> nat \<Rightarrow> nat \<Rightarrow> int" where
  \<comment> \<open>days up to a date of the proleptic Gregorian calendar; January 1 of year 1 is day 1\<close>
  "date_ordinal y m d = (let n = int y - 1 in 365 * n + n div 4 - n div 100 + n div 400)
     + int (sum_list (map (days_in_month y) [1..<m])) + int d"

definition iso_days :: "string \<Rightarrow> int" where
  \<comment> \<open>the day of a well-formed date\<close>
  "iso_days d =
     (let y = digits_value (take 4 d); dash = (take 1 (drop 4 d) = ''-'');
          r = (if dash then drop 5 d else drop 4 d) in
      if take 1 r = ''W'' then
        (let w = digits_value (take 2 (drop 1 r)); r2 = drop 3 r; j = jan1_weekday y;
             wd = (if r2 = [] then 1 else digits_value (take 1 (if dash then tl r2 else r2)));
             monday = (if j \<le> 3 then - int j else 7 - int j)
         in date_ordinal y 1 1 + monday + 7 * (int w - 1) + int wd - 1)
      else
        (let m = digits_value (take 2 r); r2 = drop 2 r; r3 = (if dash then drop 1 r2 else r2)
         in date_ordinal y m (digits_value (take 2 r3))))"

definition clock_seconds :: "iso_clock \<Rightarrow> rat" where
  "clock_seconds c = of_nat (ic_hms c ! 0 * 3600 + ic_hms c ! 1 * 60 + ic_hms c ! 2) + of_nat (ic_micro c) / 1000000"

definition iso_timestamp :: "string \<Rightarrow> rat option" where
  \<comment> \<open>\<open>datetime.fromisoformat(s).timestamp()\<close> of a text with a timezone, \<open>None\<close> for any other\<close>
  "iso_timestamp s =
     (if iso_parse s \<noteq> Some True then None else
      case iso_separator s of None \<Rightarrow> None | Some p \<Rightarrow>
      let t = drop (p + 1) s;
          zone = length (takeWhile (\<lambda>c. c \<notin> {CHR ''+'', CHR ''-'', CHR ''Z''}) t);
          z = drop (zone + 1) t in
      case (iso_clock_of t zone, if t ! zone = CHR ''Z'' then Some \<lparr>ic_more = False, ic_hms = [0, 0, 0], ic_micro = 0\<rparr>
                                 else iso_clock_of z (length z)) of
        (Some c, Some q) \<Rightarrow> Some (of_int (86400 * (iso_days (take p s) - 719163)) + clock_seconds c
          - (if t ! zone = CHR ''-'' then - clock_seconds q else clock_seconds q))
      | _ \<Rightarrow> None)"

lemma timestamp_samples:
  "iso_timestamp ''1970-01-01T00:00:00Z'' = Some 0" "iso_timestamp ''2024-02-29T12:30:45.5-01:30'' = Some (3418430491 / 2)"
  "iso_timestamp ''2024-W09-4T10:00+01:00'' = Some 1709197200" "iso_timestamp ''2024-02-29'' = None"
  by code_simp+

end
