(* ===== verification/Protocol.thy ===== *)
theory Protocol
  imports PyVal IsoTime
begin

text \<open>
  The strict messages of \<open>protocol.py\<close>: the scalar validators, \<open>_bounded_json\<close>, one validator
  per optional snapshot field, and the message classes with their \<open>from_mapping\<close> and
  \<open>to_mapping\<close>.  A \<open>Mapping\<close> argument is a Python dictionary value; a validator returns the
  normalized value or raises.  Optional fields are Python values, \<open>PNone\<close> when unknown.
\<close>

section \<open>Scalar validators\<close>

definition max_character_length :: nat where "max_character_length = 40"
definition max_event_text_length :: nat where "max_event_text_length = 4000"
definition max_question_length :: nat where "max_question_length = 2000"
definition max_generation_length :: nat where "max_generation_length = 128"
definition max_session_id_length :: nat where "max_session_id_length = 128"
definition max_state_text_length :: nat where "max_state_text_length = 512"
definition max_state_items :: nat where "max_state_items = 256"
definition max_json_depth :: nat where "max_json_depth = 5"
definition max_json_keys :: nat where "max_json_keys = 64"
definition max_sequence :: int where "max_sequence = 9223372036854775807"

abbreviation invalid :: "string \<Rightarrow> 'a result" where
  "invalid m \<equiv> Inl (ValidationError m)"

definition proto_strict :: "string list \<Rightarrow> string list \<Rightarrow> (string \<times> pyval) list \<Rightarrow> unit result" where
  "proto_strict allowed required d =
     (if unknown_keys allowed d \<noteq> [] then invalid (''unsupported field(s): '' @ comma_join (unknown_keys allowed d))
      else if missing_keys required d \<noteq> [] then invalid (''missing field(s): '' @ comma_join (missing_keys required d))
      else Inr ())"

definition proto_text :: "pyval \<Rightarrow> string \<Rightarrow> nat \<Rightarrow> string result" where
  "proto_text v field maximum = (case v of
      PStr s \<Rightarrow>
        (let normalized = strip (remove_nul s) in
         if normalized = [] then invalid (field @ '' must not be blank'')
         else if maximum < length normalized
         then invalid (field @ '' exceeds '' @ nat_str maximum @ '' characters'')
         else Inr normalized)
    | _ \<Rightarrow> invalid (field @ '' must be a string''))"

definition text_value :: "pyval \<Rightarrow> string \<Rightarrow> nat \<Rightarrow> pyval result" where
  \<comment> \<open>\<open>proto_text\<close> as a Python value\<close>
  "text_value v field maximum = rbind (proto_text v field maximum) (\<lambda>s. Inr (PStr s))"

definition optional_text :: "pyval \<Rightarrow> string \<Rightarrow> nat \<Rightarrow> pyval result" where
  "optional_text v field maximum = (if v = PNone then Inr PNone else text_value v field maximum)"

definition proto_integer :: "pyval \<Rightarrow> string \<Rightarrow> int \<Rightarrow> int \<Rightarrow> int result" where
  "proto_integer v field minimum maximum = (case v of
      PInt i \<Rightarrow> if minimum \<le> i \<and> i \<le> maximum then Inr i
        else invalid (field @ '' must be between '' @ int_str minimum @ '' and '' @ int_str maximum)
    | _ \<Rightarrow> invalid (field @ '' must be an integer''))"

definition integer_value :: "pyval \<Rightarrow> string \<Rightarrow> int \<Rightarrow> int \<Rightarrow> pyval result" where
  "integer_value v field minimum maximum = rbind (proto_integer v field minimum maximum) (\<lambda>i. Inr (PInt i))"

definition format_g :: "nat \<Rightarrow> string" where
  \<comment> \<open>\<open>f"{n:g}"\<close>: six significant digits, scientific from \<open>10^6\<close>, trailing zeros dropped\<close>
  "format_g n = (let x = length (nat_str n) - 1 in
     if x < 6 then nat_str n
     else let u = 10 ^ (x - 5); ds = nat_str ((2 * n + u) div (2 * u));
              tail = rev (dropWhile (\<lambda>c. c = CHR ''0'') (rev (tl ds))) in
       take 1 ds @ (if tail = [] then '''' else ''.'' @ tail) @ ''e+'' @ (if x < 10 then ''0'' else '''') @ nat_str x)"

definition float_of_number :: "pyval \<Rightarrow> pyfloat result option" where
  \<comment> \<open>\<open>float(value)\<close> of an \<open>int\<close> or \<open>float\<close> that is no \<open>bool\<close>; the integers that round beyond the
    largest float raise \<open>OverflowError\<close>\<close>
  "float_of_number v = (case v of
      PInt i \<Rightarrow> Some (if 2 ^ 1024 - 2 ^ 970 \<le> \<bar>i\<bar> then Inl OverflowError else Inr (Fin (of_int i)))
    | PFloat f \<Rightarrow> Some (Inr f)
    | _ \<Rightarrow> None)"

definition proto_number :: "pyval \<Rightarrow> string \<Rightarrow> nat \<Rightarrow> pyval result" where
  "proto_number v field maximum = (case float_of_number v of
      None \<Rightarrow> invalid (field @ '' must be a number'')
    | Some converted \<Rightarrow> rbind converted (\<lambda>f. case f of
        Fin r \<Rightarrow> if 0 \<le> r \<and> r \<le> of_nat maximum then Inr (PFloat (Fin r))
          else invalid (field @ '' must be between 0 and '' @ format_g maximum)
      | _ \<Rightarrow> invalid (field @ '' must be between 0 and '' @ format_g maximum)))"

definition replace_z :: "string \<Rightarrow> string" where
  "replace_z s = concat (map (\<lambda>c. if c = CHR ''Z'' then ''+00:00'' else [c]) s)"

definition proto_timestamp :: "pyval \<Rightarrow> string \<Rightarrow> string result" where
  "proto_timestamp v field =
     rbind (proto_text v field 64) (\<lambda>s. case iso_parse (replace_z s) of
        None \<Rightarrow> invalid (field @ '' must be an ISO-8601 timestamp'')
      | Some zone \<Rightarrow> if zone then Inr s else invalid (field @ '' must include a timezone''))"

section \<open>Bounded JSON\<close>

function bounded_json :: "pyval \<Rightarrow> string \<Rightarrow> nat \<Rightarrow> pyval result"
  and bounded_list :: "pyval list \<Rightarrow> string \<Rightarrow> nat \<Rightarrow> nat \<Rightarrow> pyval list result"
  and bounded_items :: "(string \<times> pyval) list \<Rightarrow> string \<Rightarrow> nat \<Rightarrow> (string \<times> pyval) list result" where
  "bounded_json v field depth =
     (if max_json_depth < depth then invalid (field @ '' is nested too deeply'') else
      case v of
        PInt i \<Rightarrow> if max_sequence < \<bar>i\<bar> then invalid (field @ '' integer is out of range'') else Inr v
      | PFloat f \<Rightarrow> (case f of Fin r \<Rightarrow> Inr v | _ \<Rightarrow> invalid (field @ '' number must be finite''))
      | PStr s \<Rightarrow> if max_event_text_length < length s
          then invalid (field @ '' string exceeds '' @ nat_str max_event_text_length @ '' characters'')
          else Inr (PStr (remove_nul s))
      | PList xs \<Rightarrow> if max_state_items < length xs then invalid (field @ '' has too many items'')
          else rbind (bounded_list xs field 0 (Suc depth)) (\<lambda>ys. Inr (PList ys))
      | PDict d \<Rightarrow> if max_json_keys < length d then invalid (field @ '' has too many fields'')
          else rbind (bounded_items d field (Suc depth)) (\<lambda>e. Inr (PDict e))
      | _ \<Rightarrow> Inr v)"
| "bounded_list [] field i depth = Inr []"
| "bounded_list (x # xs) field i depth =
     rbind (bounded_json x (field @ ''['' @ nat_str i @ '']'') depth) (\<lambda>y.
     rbind (bounded_list xs field (Suc i) depth) (\<lambda>ys. Inr (y # ys)))"
| "bounded_items [] field depth = Inr []"
| "bounded_items ((k, v) # d) field depth =
     (if k = [] \<or> 64 < length k then invalid (field @ '' keys must be nonblank bounded strings'')
      else rbind (bounded_json v (field @ ''.'' @ k) depth) (\<lambda>w.
           rbind (bounded_items d field depth) (\<lambda>e. Inr ((k, w) # e))))"
  by pat_completeness auto
termination
  by (relation "measure (\<lambda>x. case x of Inl (v, _) \<Rightarrow> size v
       | Inr (Inl (xs, _)) \<Rightarrow> size_list size xs
       | Inr (Inr (d, _)) \<Rightarrow> size_list (size_prod (\<lambda>_. 0) size) d)") auto

declare bounded_json.simps [simp del]

section \<open>Snapshot fields\<close>

definition object_or_null :: "string \<Rightarrow> ((string \<times> pyval) list \<Rightarrow> pyval result) \<Rightarrow> pyval \<Rightarrow> pyval result" where
  "object_or_null message f v = (case v of PNone \<Rightarrow> Inr PNone | PDict d \<Rightarrow> f d | _ \<Rightarrow> invalid message)"

definition bounded_array :: "string \<Rightarrow> (pyval list \<Rightarrow> pyval result) \<Rightarrow> pyval \<Rightarrow> pyval result" where
  "bounded_array message f v = (case v of
      PList xs \<Rightarrow> if max_state_items < length xs then invalid message else f xs
    | _ \<Rightarrow> invalid message)"

definition id_text :: "pyval \<Rightarrow> string \<Rightarrow> string \<Rightarrow> nat \<Rightarrow> pyval result" where
  \<comment> \<open>an id that may be a string or an integer, as text\<close>
  "id_text v message field maximum = (case v of
      PStr s \<Rightarrow> text_value v field maximum
    | PInt i \<Rightarrow> text_value (PStr (int_str i)) field maximum
    | _ \<Rightarrow> invalid message)"

definition known :: "string \<Rightarrow> (pyval \<Rightarrow> pyval result) \<Rightarrow> (string \<times> pyval) list \<Rightarrow> (string \<times> pyval) list result" where
  \<comment> \<open>\<open>if value.get(key) is not None: result[key] = f(value[key])\<close>\<close>
  "known key f d = (if dget key d = PNone then Inr [] else rbind (f (dget key d)) (\<lambda>x. Inr [(key, x)]))"

definition each_item :: "(string \<Rightarrow> pyval \<Rightarrow> pyval result) \<Rightarrow> (string \<times> pyval) list \<Rightarrow> (string \<times> pyval) list result" where
  "each_item f d = rmap (\<lambda>(k, v). rbind (f k v) (\<lambda>x. Inr (k, x))) d"

definition room_field :: "pyval \<Rightarrow> pyval result" where
  "room_field = object_or_null ''room must be an object or null'' (\<lambda>d.
     rbind (proto_strict [''id'', ''title''] [] d) (\<lambda>_.
     rbind (known ''id'' (\<lambda>v. id_text v ''room.id must be a string, integer, or null'' ''room.id'' 64) d) (\<lambda>i.
     rbind (known ''title'' (\<lambda>v. text_value v ''room.title'' 256) d) (\<lambda>t.
     if i @ t = [] then invalid ''room must contain id or title'' else Inr (PDict (i @ t))))))"

definition vital_pair :: "string \<Rightarrow> pyval \<Rightarrow> pyval result" where
  "vital_pair name v = (case v of
      PDict pair \<Rightarrow>
        rbind (proto_strict [''current'', ''max''] [''current'', ''max''] pair) (\<lambda>_.
        rbind (integer_value (dget ''current'' pair) (''vitals.'' @ name @ ''.current'') (-1000000) 1000000) (\<lambda>current.
        rbind (integer_value (dget ''max'' pair) (''vitals.'' @ name @ ''.max'') 0 1000000) (\<lambda>maximum.
        Inr (PDict [(''current'', current), (''max'', maximum)]))))
    | _ \<Rightarrow> invalid (''vitals.'' @ name @ '' must be an object''))"

definition vitals_field :: "pyval \<Rightarrow> pyval result" where
  "vitals_field = object_or_null ''vitals must be an object or null'' (\<lambda>d.
     rbind (proto_strict [''health'', ''mana'', ''spirit'', ''stamina''] [] d) (\<lambda>_.
     rbind (each_item vital_pair d) (\<lambda>r. Inr (PDict r))))"

definition hand_item :: "string \<Rightarrow> pyval \<Rightarrow> pyval result" where
  "hand_item side = object_or_null (''hands.'' @ side @ '' must be an object or null'') (\<lambda>item.
     rbind (proto_strict [''id'', ''name''] [''id'', ''name''] item) (\<lambda>_.
     rbind (id_text (dget ''id'' item) (''hands.'' @ side @ ''.id must be a string or integer'')
              (''hands.'' @ side @ ''.id'') 64) (\<lambda>i.
     rbind (text_value (dget ''name'' item) (''hands.'' @ side @ ''.name'') 256) (\<lambda>n.
     Inr (PDict [(''id'', i), (''name'', n)])))))"

definition hands_field :: "pyval \<Rightarrow> pyval result" where
  "hands_field = object_or_null ''hands must be an object or null'' (\<lambda>d.
     rbind (proto_strict [''right'', ''left''] [] d) (\<lambda>_.
     rbind (each_item hand_item d) (\<lambda>r. Inr (PDict r))))"

definition spell_item :: "nat \<Rightarrow> pyval \<Rightarrow> pyval result" where
  "spell_item index v = (let label = ''active_spells['' @ nat_str index @ '']'' in case v of
      PDict spell \<Rightarrow>
        rbind (proto_strict [''id'', ''remaining_seconds''] [''id''] spell) (\<lambda>_.
        rbind (id_text (dget ''id'' spell) (label @ ''.id must be a string or integer'') (label @ ''.id'') 32) (\<lambda>i.
        rbind (known ''remaining_seconds'' (\<lambda>n. proto_number n (label @ ''.remaining_seconds'') 31536000) spell) (\<lambda>r.
        Inr (PDict ((''id'', i) # r)))))
    | _ \<Rightarrow> invalid (label @ '' must be an object''))"

definition spells_field :: "pyval \<Rightarrow> pyval result" where
  "spells_field v = (if v = PNone then Inr PNone else
     bounded_array ''active_spells must be a bounded array or null''
       (\<lambda>xs. rbind (rmapi spell_item 0 xs) (\<lambda>r. Inr (PList r))) v)"

definition nearby_item :: "string \<Rightarrow> nat \<Rightarrow> pyval \<Rightarrow> pyval result" where
  "nearby_item grp index v = (let label = ''nearby.'' @ grp @ ''['' @ nat_str index @ '']'' in case v of
      PDict item \<Rightarrow>
        rbind (proto_strict [''id'', ''noun'', ''name''] [''id'', ''noun''] item) (\<lambda>_.
        rbind (id_text (dget ''id'' item) (label @ ''.id must be a string or integer'') (label @ ''.id'') 64) (\<lambda>i.
        rbind (text_value (dget ''noun'' item) (label @ ''.noun'') 128) (\<lambda>noun.
        rbind (known ''name'' (\<lambda>n. text_value n (label @ ''.name'') 256) item) (\<lambda>n.
        Inr (PDict ([(''id'', i), (''noun'', noun)] @ n))))))
    | _ \<Rightarrow> invalid (label @ '' must be an object''))"

definition nearby_group :: "string \<Rightarrow> pyval \<Rightarrow> pyval result" where
  "nearby_group grp = bounded_array (''nearby.'' @ grp @ '' must be a bounded array'')
     (\<lambda>xs. rbind (rmapi (nearby_item grp) 0 xs) (\<lambda>r. Inr (PList r)))"

definition nearby_field :: "pyval \<Rightarrow> pyval result" where
  "nearby_field = object_or_null ''nearby must be an object or null'' (\<lambda>d.
     rbind (proto_strict [''creatures'', ''corpses''] [] d) (\<lambda>_.
     rbind (each_item nearby_group d) (\<lambda>r. Inr (PDict r))))"

definition scripts_field :: "pyval \<Rightarrow> pyval result" where
  "scripts_field v = (if v = PNone then Inr PNone else
     bounded_array ''scripts must be a bounded array or null''
       (\<lambda>xs. rbind (rmapi (\<lambda>index item. text_value item (''scripts['' @ nat_str index @ '']'') 128) 0 xs)
               (\<lambda>r. Inr (PList r))) v)"

definition owners_field :: "pyval \<Rightarrow> pyval result" where
  "owners_field = object_or_null ''owners must be an object or null'' (\<lambda>d.
     rbind (proto_strict [''movement'', ''combat'', ''inventory'', ''communication''] [] d) (\<lambda>_.
     rbind (each_item (\<lambda>lane owner. optional_text owner (''owners.'' @ lane) 128) d) (\<lambda>r. Inr (PDict r))))"

definition keyed :: "(string \<Rightarrow> pyval \<Rightarrow> (string \<times> pyval) result) \<Rightarrow> (string \<times> pyval) list \<Rightarrow> (string \<times> pyval) list result" where
  \<comment> \<open>a dictionary built under normalized keys: a later entry replaces an earlier one\<close>
  "keyed f d = rfold (\<lambda>r (k, v). rbind (f k v) (\<lambda>(k', x). Inr (dput k' x r))) [] d"

definition status_entry :: "string \<Rightarrow> pyval \<Rightarrow> (string \<times> pyval) result" where
  "status_entry name status =
     rbind (proto_text (PStr name) ''script_status key'' 128) (\<lambda>n.
     rbind (text_value status (''script_status.'' @ n) 64) (\<lambda>s. Inr (n, s)))"

definition script_status_field :: "pyval \<Rightarrow> pyval result" where
  "script_status_field = object_or_null ''script_status must be an object or null'' (\<lambda>d.
     if max_json_keys < length d then invalid ''script_status has too many fields'' else
     rbind (keyed status_entry d) (\<lambda>r. Inr (PDict r)))"

definition string_or_integer :: "pyval \<Rightarrow> string \<Rightarrow> pyval result" where
  "string_or_integer v field = (case v of
      PNone \<Rightarrow> Inr PNone
    | PStr s \<Rightarrow> text_value v field max_state_text_length
    | PInt i \<Rightarrow> integer_value v field 0 1000000
    | _ \<Rightarrow> invalid (field @ '' must be a string, integer, or null''))"

section \<open>Character data\<close>

definition stat_fields :: "string list" where
  "stat_fields = [''value'', ''bonus'', ''base_value'', ''base_bonus'', ''enhanced_value'', ''enhanced_bonus'']"

definition stat_codes :: "string list" where
  "stat_codes = [''STR'', ''CON'', ''DEX'', ''AGI'', ''DIS'', ''AUR'', ''LOG'', ''INT'', ''WIS'', ''INF'']"

definition known_items :: "(string \<times> pyval) list \<Rightarrow> (string \<times> pyval) list" where
  "known_items d = filter (\<lambda>(k, v). v \<noteq> PNone) d"

definition stat_entry :: "string \<Rightarrow> pyval \<Rightarrow> pyval result" where
  "stat_entry code v = (case v of
      PDict numbers \<Rightarrow>
        rbind (proto_strict stat_fields [] numbers) (\<lambda>_.
        rbind (each_item (\<lambda>field n. integer_value n (''stats.'' @ code @ ''.'' @ field) (-1000) 1000)
                 (known_items numbers)) (\<lambda>r. Inr (PDict r)))
    | _ \<Rightarrow> invalid (''stat '' @ code @ '' must be an object''))"

definition info_stats :: "(string \<times> pyval) list \<Rightarrow> (string \<times> pyval) list result" where
  "info_stats values = (if \<not> dhas ''stats'' values then Inr [] else case dget ''stats'' values of
      PDict stats \<Rightarrow>
        rbind (proto_strict stat_codes [] stats) (\<lambda>_.
        rbind (each_item stat_entry stats) (\<lambda>r. Inr [(''stats'', PDict r)]))
    | _ \<Rightarrow> invalid ''character_data.info.stats must be an object'')"

definition info_values :: "(string \<times> pyval) list \<Rightarrow> (string \<times> pyval) list result" where
  "info_values values =
     rbind (proto_strict [''level'', ''profession'', ''race'', ''gender'', ''age'', ''experience'', ''stats''] [] values) (\<lambda>_.
     rbind (known ''level'' (\<lambda>v. integer_value v ''level'' 0 100) values) (\<lambda>level.
     rbind (known ''age'' (\<lambda>v. integer_value v ''age'' 0 max_sequence) values) (\<lambda>age.
     rbind (known ''experience'' (\<lambda>v. integer_value v ''experience'' 0 max_sequence) values) (\<lambda>experience.
     rbind (known ''profession'' (\<lambda>v. text_value v ''profession'' 100) values) (\<lambda>profession.
     rbind (known ''race'' (\<lambda>v. text_value v ''race'' 100) values) (\<lambda>race.
     rbind (known ''gender'' (\<lambda>v. text_value v ''gender'' 100) values) (\<lambda>gender.
     rbind (info_stats values) (\<lambda>stats.
     Inr (level @ age @ experience @ profession @ race @ gender @ stats)))))))))"

definition skill_entry :: "string \<Rightarrow> pyval \<Rightarrow> (string \<times> pyval) result" where
  "skill_entry name entry =
     rbind (proto_text (PStr name) ''skills'' 80) (\<lambda>key.
     case entry of
       PDict d \<Rightarrow>
         rbind (proto_strict [''ranks'', ''bonus''] [''ranks''] d) (\<lambda>_.
         rbind (each_item (\<lambda>field n. integer_value n (''skills.'' @ key @ ''.'' @ field) 0 10000) (known_items d)) (\<lambda>r.
         if \<not> dhas ''ranks'' r then invalid (''skill '' @ key @ '' ranks must be known, including zero'')
         else Inr (key, PDict r)))
     | _ \<Rightarrow> invalid (''skill '' @ key @ '' must be an object''))"

definition circle_entry :: "string \<Rightarrow> pyval \<Rightarrow> (string \<times> pyval) result" where
  "circle_entry name entry =
     rbind (proto_text (PStr name) ''spell_circles'' 80) (\<lambda>key.
     rbind (integer_value entry (''spell_circles.'' @ key) 0 10000) (\<lambda>n. Inr (key, n)))"

definition skill_group :: "string \<Rightarrow> nat \<Rightarrow> (string \<Rightarrow> pyval \<Rightarrow> (string \<times> pyval) result)
    \<Rightarrow> (string \<times> pyval) list \<Rightarrow> (string \<times> pyval) list result" where
  "skill_group name limit f values = (if \<not> dhas name values then Inr [] else
     let message = ''character_data.'' @ name @ '' must contain at most '' @ nat_str limit @ '' entries'' in
     case dget name values of
       PDict entries \<Rightarrow> if limit < length entries then invalid message
         else rbind (keyed f entries) (\<lambda>r. Inr [(name, PDict r)])
     | _ \<Rightarrow> invalid message)"

definition training_points :: "(string \<times> pyval) list \<Rightarrow> (string \<times> pyval) list result" where
  "training_points values = (if \<not> dhas ''training_points'' values then Inr [] else case dget ''training_points'' values of
      PDict points \<Rightarrow>
        rbind (proto_strict [''physical'', ''mental''] [] points) (\<lambda>_.
        rbind (each_item (\<lambda>name n. integer_value n (''training_points.'' @ name) 0 max_sequence) (known_items points)) (\<lambda>r.
        Inr [(''training_points'', PDict r)]))
    | _ \<Rightarrow> invalid ''training_points must be an object'')"

definition skills_values :: "(string \<times> pyval) list \<Rightarrow> (string \<times> pyval) list result" where
  "skills_values values =
     rbind (proto_strict [''skills'', ''spell_circles'', ''training_points''] [] values) (\<lambda>_.
     rbind (skill_group ''skills'' 64 skill_entry values) (\<lambda>skills.
     rbind (skill_group ''spell_circles'' 32 circle_entry values) (\<lambda>circles.
     rbind (training_points values) (\<lambda>points.
     Inr (skills @ circles @ points)))))"

definition observed_time :: "pyval \<Rightarrow> pyval result" where
  "observed_time v = (if v = PNone then Inr PNone
     else rbind (proto_timestamp v ''observed_at'') (\<lambda>t. Inr (PStr t)))"

definition observed_level :: "pyval \<Rightarrow> pyval result" where
  "observed_level v = (if v = PNone then Inr PNone else integer_value v ''observed_level'' 0 100)"

definition category_fields :: "string \<Rightarrow> string \<Rightarrow> bool \<Rightarrow> (string \<times> pyval) list \<Rightarrow> pyval result" where
  \<comment> \<open>the entry of a category once its source and completeness are known\<close>
  "category_fields category source whole item =
     rbind (observed_time (dget ''observed_at'' item)) (\<lambda>observed_at.
     if source = ''infomon_cache'' \<and> (observed_at \<noteq> PNone \<or> whole)
     then invalid ''infomon_cache has unknown observation time and is not complete''
     else if whole \<and> observed_at = PNone
     then invalid ''complete character_data requires observed_at''
     else case dget ''values'' item of
       PDict values \<Rightarrow>
         rbind (if category = ''info'' then info_values values else skills_values values) (\<lambda>normalized.
         rbind (observed_level (dget ''observed_level'' item)) (\<lambda>level.
         Inr (PDict [(''source'', PStr source), (''observed_at'', observed_at), (''complete'', PBool whole),
           (''observed_level'', level), (''values'', PDict normalized)])))
     | _ \<Rightarrow> invalid (''character_data.'' @ category @ ''.values must be an object''))"

definition category_entry :: "string \<Rightarrow> pyval \<Rightarrow> pyval result" where
  "category_entry category v = (let label = ''character_data.'' @ category in case v of
      PDict item \<Rightarrow>
        rbind (proto_strict [''source'', ''observed_at'', ''complete'', ''observed_level'', ''values'']
                 [''source'', ''observed_at'', ''complete'', ''values''] item) (\<lambda>_.
        case dget ''source'' item of
          PStr source \<Rightarrow>
            if source \<noteq> category \<and> source \<noteq> ''infomon_cache'' then invalid (label @ ''.source is invalid'') else
            (case dget ''complete'' item of
               PBool whole \<Rightarrow> category_fields category source whole item
             | _ \<Rightarrow> invalid (label @ ''.complete must be a boolean''))
        | _ \<Rightarrow> invalid (label @ ''.source is invalid''))
    | _ \<Rightarrow> invalid (label @ '' must be an object''))"

definition character_data_field :: "pyval \<Rightarrow> pyval result" where
  "character_data_field = object_or_null ''character_data must be an object or null'' (\<lambda>d.
     rbind (proto_strict [''info'', ''skills''] [] d) (\<lambda>_.
     rbind (each_item category_entry d) (\<lambda>r. Inr (PDict r))))"

section \<open>Character snapshots\<close>

record character_snapshot =
  sn_character :: string
  sn_generation :: string
  sn_sequence :: int
  sn_observed_at :: string
  sn_game :: string
  sn_session_id :: pyval
  sn_room :: pyval
  sn_vitals :: pyval
  sn_stance :: pyval
  sn_roundtime :: pyval
  sn_stunned :: pyval
  sn_dead :: pyval
  sn_mind :: pyval
  sn_encumbrance :: pyval
  sn_hands :: pyval
  sn_wounds :: pyval
  sn_active_spells :: pyval
  sn_nearby :: pyval
  sn_scripts :: pyval
  sn_owners :: pyval
  sn_script_status :: pyval
  sn_character_data :: pyval

definition snapshot_required :: "string list" where
  "snapshot_required = [''character'', ''generation'', ''sequence'', ''observed_at'']"

definition snapshot_optional :: "string list" where
  \<comment> \<open>the optional fields in the order of \<open>to_mapping\<close>\<close>
  "snapshot_optional = [''session_id'', ''room'', ''vitals'', ''stance'', ''roundtime'', ''stunned'', ''dead'', ''mind'',
     ''encumbrance'', ''hands'', ''wounds'', ''active_spells'', ''nearby'', ''scripts'', ''owners'', ''script_status'',
     ''character_data'']"

definition null_or_bool :: "pyval \<Rightarrow> bool" where
  "null_or_bool v = (v = PNone \<or> is_bool v)"

definition snapshot_from_mapping :: "pyval \<Rightarrow> character_snapshot result" where
  "snapshot_from_mapping v = (case v of
      PDict d \<Rightarrow>
        rbind (proto_strict (snapshot_required @ [''game''] @ snapshot_optional) snapshot_required d) (\<lambda>_.
        if \<not> null_or_bool (dget ''stunned'' d) then invalid ''stunned must be a boolean or null''
        else if \<not> null_or_bool (dget ''dead'' d) then invalid ''dead must be a boolean or null''
        else if dget ''wounds'' d \<noteq> PNone \<and> \<not> is_dict (dget ''wounds'' d) then invalid ''wounds must be an object or null''
        else
        rbind (proto_text (dget ''character'' d) ''character'' max_character_length) (\<lambda>character.
        rbind (proto_text (dget ''generation'' d) ''generation'' max_generation_length) (\<lambda>generation.
        rbind (proto_integer (dget ''sequence'' d) ''sequence'' 0 max_sequence) (\<lambda>sequence.
        rbind (proto_timestamp (dget ''observed_at'' d) ''observed_at'') (\<lambda>observed_at.
        rbind (proto_text (dget_or ''game'' (PStr ''GSIV'') d) ''game'' 16) (\<lambda>game.
        rbind (optional_text (dget ''session_id'' d) ''session_id'' max_session_id_length) (\<lambda>session_id.
        rbind (room_field (dget ''room'' d)) (\<lambda>room.
        rbind (vitals_field (dget ''vitals'' d)) (\<lambda>vitals.
        rbind (optional_text (dget ''stance'' d) ''stance'' 64) (\<lambda>stance.
        rbind (if dget ''roundtime'' d = PNone then Inr PNone else proto_number (dget ''roundtime'' d) ''roundtime'' 3600) (\<lambda>roundtime.
        rbind (string_or_integer (dget ''mind'' d) ''mind'') (\<lambda>mind.
        rbind (string_or_integer (dget ''encumbrance'' d) ''encumbrance'') (\<lambda>encumbrance.
        rbind (hands_field (dget ''hands'' d)) (\<lambda>hands.
        rbind (if dget ''wounds'' d = PNone then Inr PNone else bounded_json (dget ''wounds'' d) ''wounds'' 0) (\<lambda>wounds.
        rbind (spells_field (dget ''active_spells'' d)) (\<lambda>active_spells.
        rbind (nearby_field (dget ''nearby'' d)) (\<lambda>nearby.
        rbind (scripts_field (dget ''scripts'' d)) (\<lambda>scripts.
        rbind (owners_field (dget ''owners'' d)) (\<lambda>owners.
        rbind (script_status_field (dget ''script_status'' d)) (\<lambda>script_status.
        rbind (character_data_field (dget ''character_data'' d)) (\<lambda>character_data.
        Inr \<lparr>sn_character = character, sn_generation = generation, sn_sequence = sequence, sn_observed_at = observed_at,
             sn_game = game, sn_session_id = session_id, sn_room = room, sn_vitals = vitals, sn_stance = stance,
             sn_roundtime = roundtime, sn_stunned = dget ''stunned'' d, sn_dead = dget ''dead'' d, sn_mind = mind,
             sn_encumbrance = encumbrance, sn_hands = hands, sn_wounds = wounds, sn_active_spells = active_spells,
             sn_nearby = nearby, sn_scripts = scripts, sn_owners = owners, sn_script_status = script_status,
             sn_character_data = character_data\<rparr>)))))))))))))))))))))
    | _ \<Rightarrow> invalid ''snapshot must be an object'')"

definition snapshot_fields :: "character_snapshot \<Rightarrow> (string \<times> pyval) list" where
  \<comment> \<open>\<open>getattr(self, name)\<close> for the optional names\<close>
  "snapshot_fields s = zip snapshot_optional
     [sn_session_id s, sn_room s, sn_vitals s, sn_stance s, sn_roundtime s, sn_stunned s, sn_dead s, sn_mind s,
      sn_encumbrance s, sn_hands s, sn_wounds s, sn_active_spells s, sn_nearby s, sn_scripts s, sn_owners s,
      sn_script_status s, sn_character_data s]"

definition snapshot_to_mapping :: "character_snapshot \<Rightarrow> (string \<times> pyval) list result" where
  "snapshot_to_mapping s =
     rbind (each_item (\<lambda>name v. bounded_json v name 0) (known_items (snapshot_fields s))) (\<lambda>opt.
     Inr ([(''character'', PStr (sn_character s)), (''generation'', PStr (sn_generation s)),
           (''sequence'', PInt (sn_sequence s)), (''observed_at'', PStr (sn_observed_at s)),
           (''game'', PStr (sn_game s))] @ opt))"

section \<open>Events, observations and requests\<close>

record meaningful_event =
  ev_character :: string
  ev_generation :: string
  ev_observed_at :: string
  ev_kind :: string
  ev_summary :: string
  ev_data :: pyval

definition event_from_mapping :: "pyval \<Rightarrow> meaningful_event result" where
  "event_from_mapping v = (case v of
      PDict d \<Rightarrow>
        rbind (proto_strict [''character'', ''generation'', ''observed_at'', ''kind'', ''summary'', ''data'']
                 [''character'', ''generation'', ''observed_at'', ''kind'', ''summary''] d) (\<lambda>_.
        if \<not> is_dict (dget_or ''data'' (PDict []) d) then invalid ''data must be an object'' else
        rbind (proto_text (dget ''character'' d) ''character'' max_character_length) (\<lambda>character.
        rbind (proto_text (dget ''generation'' d) ''generation'' max_generation_length) (\<lambda>generation.
        rbind (proto_timestamp (dget ''observed_at'' d) ''observed_at'') (\<lambda>observed_at.
        rbind (proto_text (dget ''kind'' d) ''kind'' 64) (\<lambda>kind.
        rbind (proto_text (dget ''summary'' d) ''summary'' max_event_text_length) (\<lambda>summary.
        rbind (bounded_json (dget_or ''data'' (PDict []) d) ''data'' 0) (\<lambda>data.
        Inr \<lparr>ev_character = character, ev_generation = generation, ev_observed_at = observed_at, ev_kind = kind,
             ev_summary = summary, ev_data = data\<rparr>)))))))
    | _ \<Rightarrow> invalid ''event must be an object'')"

definition event_to_mapping :: "meaningful_event \<Rightarrow> (string \<times> pyval) list result" where
  "event_to_mapping e =
     rbind (bounded_json (ev_data e) ''data'' 0) (\<lambda>data.
     Inr [(''character'', PStr (ev_character e)), (''generation'', PStr (ev_generation e)),
          (''observed_at'', PStr (ev_observed_at e)), (''kind'', PStr (ev_kind e)),
          (''summary'', PStr (ev_summary e)), (''data'', data)])"

record observation =
  ob_timestamp :: string
  ob_character :: string
  ob_text :: string
  ob_game :: string
  ob_room_id :: "string option"
  ob_source :: string

definition observation_from_mapping :: "pyval \<Rightarrow> observation result" where
  "observation_from_mapping v = (case v of
      PDict d \<Rightarrow>
        rbind (proto_strict [''timestamp'', ''character'', ''text'', ''game'', ''room_id'', ''source'']
                 [''timestamp'', ''character'', ''text''] d) (\<lambda>_.
        let room = dget ''room_id'' d in
        if room \<noteq> PNone \<and> \<not> is_str room \<and> \<not> is_int room then invalid ''room_id must be a string, integer, or null'' else
        rbind (proto_text (dget ''timestamp'' d) ''timestamp'' 64) (\<lambda>timestamp.
        rbind (proto_text (dget ''character'' d) ''character'' max_character_length) (\<lambda>character.
        rbind (proto_text (dget ''text'' d) ''text'' max_event_text_length) (\<lambda>body.
        rbind (proto_text (dget_or ''game'' (PStr ''GSIV'') d) ''game'' 16) (\<lambda>game.
        rbind (proto_text (dget_or ''source'' (PStr ''game'') d) ''source'' 32) (\<lambda>source.
        Inr \<lparr>ob_timestamp = timestamp, ob_character = character, ob_text = body, ob_game = game,
             ob_room_id = (if room = PNone then None else Some (py_str room)), ob_source = source\<rparr>))))))
    | _ \<Rightarrow> invalid ''each observation must be an object'')"

record ask_request =
  aq_character :: string
  aq_question :: string
  aq_read_only :: bool
  aq_expected_generation :: "string option"

definition ask_from_mapping :: "pyval \<Rightarrow> ask_request result" where
  "ask_from_mapping v = (case v of
      PDict d \<Rightarrow>
        rbind (proto_strict [''character'', ''question'', ''read_only'', ''expected_generation'']
                 [''character'', ''question''] d) (\<lambda>_.
        case dget_or ''read_only'' (PBool False) d of
          PBool read_only \<Rightarrow>
            rbind (if dhas ''expected_generation'' d
                   then rbind (proto_text (dget ''expected_generation'' d) ''expected_generation'' max_generation_length)
                          (\<lambda>g. Inr (Some g))
                   else Inr None) (\<lambda>generation.
            rbind (proto_text (dget ''character'' d) ''character'' max_character_length) (\<lambda>character.
            rbind (proto_text (dget ''question'' d) ''question'' max_question_length) (\<lambda>question.
            Inr \<lparr>aq_character = character, aq_question = question, aq_read_only = read_only,
                 aq_expected_generation = generation\<rparr>)))
        | _ \<Rightarrow> invalid ''read_only must be a boolean'')
    | _ \<Rightarrow> invalid ''ask request must be an object'')"

definition character_request_from_mapping :: "pyval \<Rightarrow> string result" where
  \<comment> \<open>\<open>CharacterRequest\<close>, whose one field is the character\<close>
  "character_request_from_mapping v = (case v of
      PDict d \<Rightarrow>
        rbind (proto_strict [''character''] [''character''] d) (\<lambda>_.
        proto_text (dget ''character'' d) ''character'' max_character_length)
    | _ \<Rightarrow> invalid ''character request must be an object'')"

record answer =
  an_request_id :: string
  an_character :: string
  an_text :: string
  an_observed_event_count :: int
  an_sources :: "(string \<times> pyval) list list"
  an_source_diagnostics :: "(string \<times> pyval) list list"
  an_capability :: string

definition answer_to_mapping :: "answer \<Rightarrow> (string \<times> pyval) list" where
  "answer_to_mapping a =
     [(''request_id'', PStr (an_request_id a)), (''character'', PStr (an_character a)), (''text'', PStr (an_text a)),
      (''observed_event_count'', PInt (an_observed_event_count a)), (''capability'', PStr (an_capability a)),
      (''sources'', PList (map PDict (an_sources a))),
      (''source_diagnostics'', PList (map PDict (an_source_diagnostics a)))]"

end
