(* ===== verification/ProtocolLaws.thy ===== *)
theory ProtocolLaws
  imports Protocol
begin

text \<open>
  The laws of the validators of \<open>protocol.py\<close>.  \<open>_bounded_json\<close> accepts exactly the bounded JSON
  values up to NUL characters.  Every field validator is a retraction: it accepts what it
  returns and returns it unchanged, which the locale \<open>retraction\<close> states for a validator.
\<close>

section \<open>Bounded JSON\<close>

fun json_ok :: "nat \<Rightarrow> pyval \<Rightarrow> bool" where
  \<comment> \<open>the values that \<open>_bounded_json\<close> returns at a depth\<close>
  "json_ok n PNone = (n \<le> max_json_depth)"
| "json_ok n (PBool b) = (n \<le> max_json_depth)"
| "json_ok n (PInt i) = (n \<le> max_json_depth \<and> \<bar>i\<bar> \<le> max_sequence)"
| "json_ok n (PFloat f) = (n \<le> max_json_depth \<and> (\<exists>r. f = Fin r))"
| "json_ok n (PStr s) = (n \<le> max_json_depth \<and> length s \<le> max_event_text_length \<and> list_all (\<lambda>c. ord c \<noteq> 0) s)"
| "json_ok n (PList xs) = (n \<le> max_json_depth \<and> length xs \<le> max_state_items \<and> list_all (json_ok (Suc n)) xs)"
| "json_ok n (PDict d) = (n \<le> max_json_depth \<and> length d \<le> max_json_keys
     \<and> list_all (\<lambda>(k, v). k \<noteq> [] \<and> length k \<le> 64 \<and> json_ok (Suc n) v) d)"

fun no_nul :: "pyval \<Rightarrow> bool" where
  "no_nul (PStr s) = list_all (\<lambda>c. ord c \<noteq> 0) s"
| "no_nul (PList xs) = list_all no_nul xs"
| "no_nul (PDict d) = list_all (\<lambda>(k, v). no_nul v) d"
| "no_nul v = True"

lemma remove_nul_all: "list_all (\<lambda>c. ord c \<noteq> 0) (remove_nul s)"
  by (simp add: remove_nul_def list_all_iff)

lemma remove_nul_id: "list_all (\<lambda>c. ord c \<noteq> 0) s \<Longrightarrow> remove_nul s = s"
  by (simp add: remove_nul_def list_all_iff)

lemma remove_nul_length: "length (remove_nul s) \<le> length s"
  by (simp add: remove_nul_def)

lemma bounded_json_ok:
  "bounded_json v field n = Inr w \<Longrightarrow> json_ok n w"
  "bounded_list xs field i n = Inr ys \<Longrightarrow> length ys = length xs \<and> list_all (json_ok n) ys"
  "bounded_items d field n = Inr e \<Longrightarrow>
     length e = length d \<and> list_all (\<lambda>(k, v). k \<noteq> [] \<and> length k \<le> 64 \<and> json_ok n v) e"
proof (induction v field n and xs field i n and d field n arbitrary: w and ys and e
    rule: bounded_json_bounded_list_bounded_items.induct)
  case (1 v field depth)
  note w = 1(3) [unfolded bounded_json.simps [of v]]
  show ?case
  proof (cases v)
    case (PStr s)
    with w remove_nul_length [of s] remove_nul_all [of s] show ?thesis by (auto split: if_splits)
  next
    case (PList xs)
    with w 1(1) [OF _ PList] show ?thesis by (auto simp: rbind_Inr_iff split: if_splits)
  next
    case (PDict d)
    with w 1(2) [OF _ PDict] show ?thesis by (auto simp: rbind_Inr_iff split: if_splits)
  qed (use w in \<open>auto split: if_splits pyfloat.splits\<close>)
qed (auto simp: rbind_Inr_iff split: if_splits)

lemma bounded_json_fixed:
  "json_ok n v \<Longrightarrow> bounded_json v field n = Inr v"
  "list_all (json_ok n) xs \<Longrightarrow> bounded_list xs field i n = Inr xs"
  "list_all (\<lambda>(k, v). k \<noteq> [] \<and> length k \<le> 64 \<and> json_ok n v) d \<Longrightarrow> bounded_items d field n = Inr d"
proof (induction v field n and xs field i n and d field n rule: bounded_json_bounded_list_bounded_items.induct)
  case (1 v field depth)
  then show ?case by (subst bounded_json.simps) (cases v; auto simp: remove_nul_id)
qed auto

lemma bounded_json_clean:
  "bounded_json v field n = Inr w \<Longrightarrow> no_nul v \<Longrightarrow> w = v"
  "bounded_list xs field i n = Inr ys \<Longrightarrow> list_all no_nul xs \<Longrightarrow> ys = xs"
  "bounded_items d field n = Inr e \<Longrightarrow> list_all (\<lambda>(k, v). no_nul v) d \<Longrightarrow> e = d"
proof (induction v field n and xs field i n and d field n arbitrary: w and ys and e
    rule: bounded_json_bounded_list_bounded_items.induct)
  case (1 v field depth)
  note w = 1(3) [unfolded bounded_json.simps [of v]]
  show ?case
  proof (cases v)
    case (PStr s)
    with w 1(4) show ?thesis by (auto simp: remove_nul_id split: if_splits)
  next
    case (PList xs)
    with w 1(4) 1(1) [OF _ PList] show ?thesis by (auto simp: rbind_Inr_iff split: if_splits)
  next
    case (PDict d)
    with w 1(4) 1(2) [OF _ PDict] show ?thesis by (auto simp: rbind_Inr_iff split: if_splits)
  qed (use w in \<open>auto split: if_splits pyfloat.splits\<close>)
qed (auto simp: rbind_Inr_iff split: if_splits)


lemma json_ok_no_nul: "json_ok n v \<Longrightarrow> no_nul v"
  by (induction n v rule: json_ok.induct) (auto simp: list_all_iff)

section \<open>Validators as retractions\<close>

locale retraction =
  fixes f :: "pyval \<Rightarrow> pyval result"
  assumes fixed: "f v = Inr w \<Longrightarrow> f w = Inr w"
    and clean: "f v = Inr w \<Longrightarrow> no_nul w"
begin

lemma absent_or_fixed: "(if v = PNone then Inr PNone else f v) = Inr w \<Longrightarrow>
    (if w = PNone then Inr PNone else f w) = Inr w \<and> no_nul w"
  using fixed clean by (auto split: if_splits)

end

definition only :: "string \<Rightarrow> (string \<times> pyval) list \<Rightarrow> bool" where
  \<comment> \<open>what \<open>known\<close> contributes to a dictionary: at most entries of one key\<close>
  "only key r = list_all (\<lambda>(k, v). k = key \<and> v \<noteq> PNone \<and> no_nul v) r"

locale solid_retraction = retraction +
  assumes solid: "f v \<noteq> Inr PNone"
begin

lemma known_again:
  assumes "known key f d = Inr r"
  shows "known key f (r @ e) = (if r = [] then known key f e else Inr r)"
    and "only key r"
    and "known key f r = Inr r"
  using assms fixed clean solid
  by (auto simp: known_def only_def rbind_Inr_iff dget_def split: if_splits)

end

lemma proto_text_fixed: "proto_text v field n = Inr s \<Longrightarrow> proto_text (PStr s) field' n = Inr s"
  by (auto simp: proto_text_def Let_def split: pyval.splits if_splits)

lemma proto_text_clean: "proto_text v field n = Inr s \<Longrightarrow> list_all (\<lambda>c. ord c \<noteq> 0) s"
  using remove_nul_no_nul set_strip
  by (fastforce simp: proto_text_def Let_def list_all_iff split: pyval.splits if_splits)

interpretation text_r: solid_retraction "\<lambda>v. text_value v field n" for field n
  by unfold_locales (auto simp: text_value_def rbind_Inr_iff dest: proto_text_fixed proto_text_clean)

interpretation integer_r: solid_retraction "\<lambda>v. integer_value v field low high" for field low high
  by unfold_locales
     (auto simp: integer_value_def proto_integer_def rbind_Inr_iff split: pyval.splits if_splits)

lemma proto_number_Inr: "proto_number v field high = Inr w \<Longrightarrow>
    \<exists>r. w = PFloat (Fin r) \<and> 0 \<le> r \<and> r \<le> of_nat high"
  unfolding proto_number_def
  by (cases "float_of_number v"; simp only: option.simps rbind_Inr_iff sum.simps; elim exE conjE)
     (auto split: pyfloat.split_asm if_split_asm)

interpretation number_r: solid_retraction "\<lambda>v. proto_number v field high" for field high
  by unfold_locales
     (auto dest!: proto_number_Inr simp: proto_number_def [of "PFloat f" for f] float_of_number_def)

interpretation id_text_r: solid_retraction "\<lambda>v. id_text v message field n" for message field n
  by unfold_locales
     (auto simp: id_text_def text_value_def rbind_Inr_iff dest: proto_text_fixed proto_text_clean split: pyval.splits)

interpretation json_r: retraction "\<lambda>v. bounded_json v field n" for field n
  by unfold_locales (auto dest: bounded_json_ok(1) bounded_json_fixed(1) json_ok_no_nul)


section \<open>Combinators\<close>

lemma rmapi_shift: "rmapi (\<lambda>_. f) i xs = rmapi (\<lambda>_. f) j xs"
proof (induction xs arbitrary: i j)
  case (Cons x xs)
  show ?case by (simp add: Cons [of "Suc i" "Suc j"])
qed simp

lemma each_item_simps [simp]:
  "each_item f [] = Inr []"
  "each_item f ((k, v) # d) = rbind (f k v) (\<lambda>x. rbind (each_item f d) (\<lambda>r. Inr ((k, x) # r)))"
  by (auto simp: each_item_def rmap_def rmapi_shift [of _ "Suc 0" _ 0] rbind_def split: sum.splits)

lemma each_item_keys: "each_item f d = Inr r \<Longrightarrow> dkeys r = dkeys d"
  by (induction d arbitrary: r) (auto simp: rbind_Inr_iff dkeys_def)

lemma each_item_again:
  assumes "each_item f d = Inr r" and "\<And>k. k \<in> set (dkeys d) \<Longrightarrow> retraction (f k)"
  shows "each_item f r = Inr r \<and> no_nul (PDict r)"
  using assms
proof (induction d arbitrary: r)
  case (Cons kv d)
  obtain k v where kv: "kv = (k, v)" by (cases kv)
  with Cons.prems(1) obtain x s where x: "f k v = Inr x" and s: "each_item f d = Inr s" "r = (k, x) # s"
    by (auto simp: rbind_Inr_iff)
  from kv Cons.prems(2) [of k] have "retraction (f k)" by (simp add: dkeys_def)
  from retraction.fixed [OF this x] retraction.clean [OF this x] Cons.IH [OF s(1)] Cons.prems(2) s(2) kv
  show ?case by (simp add: dkeys_def)
qed simp

lemma each_item_known:
  assumes "each_item f d = Inr r" and "\<And>k. solid_retraction (f k)"
  shows "known_items r = r"
  using assms(1) solid_retraction.solid [OF assms(2)]
  by (induction d arbitrary: r) (auto simp: rbind_Inr_iff known_items_def)

lemma rmapi_again:
  assumes "rmapi f i xs = Inr ys" and "\<And>i. retraction (f i)"
  shows "rmapi f i ys = Inr ys \<and> list_all no_nul ys"
  using assms(1) retraction.fixed [OF assms(2)] retraction.clean [OF assms(2)]
  by (induction xs arbitrary: i ys) (auto simp: rbind_Inr_iff)

lemma keyed_result:
  assumes "keyed f d = Inr r" and "\<And>k v k' x. f k v = Inr (k', x) \<Longrightarrow> P k' x"
  shows "distinct (dkeys r) \<and> length r \<le> length d \<and> (\<forall>(k, x) \<in> set r. P k x)"
proof -
  have "distinct (dkeys acc) \<Longrightarrow> (\<forall>(k, x) \<in> set acc. P k x) \<Longrightarrow>
      rfold (\<lambda>r (k, v). rbind (f k v) (\<lambda>(k', x). Inr (dput k' x r))) acc d = Inr r \<Longrightarrow>
      distinct (dkeys r) \<and> length r \<le> length acc + length d \<and> (\<forall>(k, x) \<in> set r. P k x)" for acc
  proof (induction d arbitrary: acc)
    case (Cons kv d)
    obtain k v where kv: "kv = (k, v)" by (cases kv)
    from Cons.prems(3) obtain k' x where x: "f k v = Inr (k', x)"
      and rest: "rfold (\<lambda>r (k, v). rbind (f k v) (\<lambda>(k', x). Inr (dput k' x r))) (dput k' x acc) d = Inr r"
      by (auto simp: kv rbind_Inr_iff)
    have "set (dput k' x acc) \<subseteq> insert (k', x) (set acc)" by (induction acc) (auto split: if_splits)
    moreover have "length (dput k' x acc) \<le> Suc (length acc)" by (induction acc) auto
    ultimately show ?case
      using Cons.IH [OF _ _ rest] Cons.prems(1,2) assms(2) [OF x] by fastforce
  qed simp
  from this [of "[]"] assms(1) show ?thesis by (simp add: keyed_def dkeys_def)
qed

lemma dput_new: "k \<notin> set (dkeys d) \<Longrightarrow> dput k v d = d @ [(k, v)]"
  by (induction d) (auto simp: dkeys_def)

lemma keyed_again:
  assumes "distinct (dkeys d)" and "\<forall>(k, x) \<in> set d. f k x = Inr (k, x)"
  shows "keyed f d = Inr d"
proof -
  have "distinct (dkeys (acc @ d)) \<Longrightarrow> \<forall>(k, x) \<in> set d. f k x = Inr (k, x) \<Longrightarrow>
      rfold (\<lambda>r (k, v). rbind (f k v) (\<lambda>(k', x). Inr (dput k' x r))) acc d = Inr (acc @ d)" for acc
  proof (induction d arbitrary: acc)
    case (Cons kv d)
    obtain k v where kv: "kv = (k, v)" by (cases kv)
    from Cons.prems kv have "k \<notin> set (dkeys acc)" by (auto simp: dkeys_def)
    with Cons kv show ?case by (simp add: dput_new)
  qed simp
  from this [of "[]"] assms show ?thesis by (simp add: keyed_def)
qed

lemma proto_strict_iff: "proto_strict allowed required d = Inr u \<longleftrightarrow>
    set (dkeys d) \<subseteq> set allowed \<and> set required \<subseteq> set (dkeys d)"
  by (auto simp: proto_strict_def unknown_keys_Nil missing_keys_Nil)

lemma proto_strict_ok: "set (dkeys d) \<subseteq> set allowed \<Longrightarrow> set required \<subseteq> set (dkeys d) \<Longrightarrow>
    proto_strict allowed required d = Inr ()"
  by (simp add: proto_strict_iff)

lemma dget_simps [simp]:
  "dget k [] = PNone" "dget k ((k', v) # d) = (if k = k' then v else dget k d)"
  "dhas k [] = False" "dhas k ((k', v) # d) = (k = k' \<or> dhas k d)"
  by (simp_all add: dget_def dhas_def)

lemma dkeys_simps [simp]: "dkeys [] = []" "dkeys ((k, v) # d) = k # dkeys d" "dkeys (d @ e) = dkeys d @ dkeys e"
  by (simp_all add: dkeys_def)

lemma only_skip:
  assumes "only key r" and "key \<noteq> key'"
  shows "known key' f (r @ e) = known key' f e" and "dget key' (r @ e) = dget key' e"
    and "dhas key' (r @ e) = dhas key' e"
  using assms by (induction r) (auto simp: only_def known_def)

lemma only_skip_Nil:
  assumes "only key r" and "key \<noteq> key'"
  shows "known key' f r = Inr []" and "dget key' r = PNone" and "\<not> dhas key' r"
  using only_skip [OF assms, where e = "[]"] by (simp_all add: known_def)

lemma known_Nil [simp]: "known key f [] = Inr []"
  by (simp add: known_def)

lemma known_Cons [simp]: "key \<noteq> key' \<Longrightarrow> known key f ((key', v) # d) = known key f d"
  by (simp add: known_def)

lemma only_keys: "only key r \<Longrightarrow> set (dkeys r) \<subseteq> {key}"
  by (induction r) (auto simp: only_def)

lemma only_no_nul: "only key r \<Longrightarrow> list_all (\<lambda>(k, v). no_nul v) r"
  by (auto simp: only_def list_all_iff)

section \<open>The snapshot fields\<close>

lemma object_retraction:
  assumes "\<And>d w. f d = Inr w \<Longrightarrow> \<exists>e. w = PDict e \<and> f e = Inr w \<and> no_nul w"
  shows "retraction (object_or_null message f)"
  by unfold_locales (auto simp: object_or_null_def split: pyval.splits dest: assms)

lemma array_retraction:
  assumes "\<And>i. retraction (f i)"
  shows "retraction (bounded_array message (\<lambda>xs. rbind (rmapi f 0 xs) (\<lambda>r. Inr (PList r))))"
proof (unfold_locales, goal_cases)
  case (1 v w)
  then obtain xs r where r: "rmapi f 0 xs = Inr r" "w = PList r" "length xs \<le> max_state_items"
    by (auto simp: bounded_array_def rbind_Inr_iff split: pyval.splits if_splits)
  with rmapi_again [OF r(1) assms] rmapi_length [OF r(1)] show ?case by (simp add: bounded_array_def)
next
  case (2 v w)
  then obtain xs r where r: "rmapi f 0 xs = Inr r" "w = PList r"
    by (auto simp: bounded_array_def rbind_Inr_iff split: pyval.splits if_splits)
  with rmapi_again [OF r(1) assms] show ?case by simp
qed

lemma strict_each_retraction:
  assumes "\<And>k. k \<in> set allowed \<Longrightarrow> retraction (f k)"
  shows "retraction (object_or_null message (\<lambda>d. rbind (proto_strict allowed [] d)
           (\<lambda>_. rbind (each_item f d) (\<lambda>r. Inr (PDict r)))))"
proof (rule object_retraction, goal_cases)
  case (1 d w)
  then obtain r where r: "proto_strict allowed [] d = Inr ()" "each_item f d = Inr r" "w = PDict r"
    by (auto simp: rbind_Inr_iff)
  then have "each_item f r = Inr r \<and> no_nul (PDict r)"
    by (intro each_item_again [OF r(2) assms]) (auto simp: proto_strict_iff)
  moreover from r(1) each_item_keys [OF r(2)] have "proto_strict allowed [] r = Inr ()"
    by (simp add: proto_strict_iff)
  ultimately show ?case using r by simp
qed

lemma text_value_Inr: "text_value v field n = Inr w \<Longrightarrow> \<exists>s. w = PStr s"
  by (auto simp: text_value_def rbind_Inr_iff)

lemma integer_value_Inr: "integer_value v field low high = Inr w \<Longrightarrow> \<exists>i. w = PInt i"
  by (auto simp: integer_value_def rbind_Inr_iff)

lemmas id_text_known = id_text_r.known_again
lemmas text_known = text_r.known_again
lemmas integer_known = integer_r.known_again
lemmas number_known = number_r.known_again

interpretation room_r: retraction room_field
  unfolding room_field_def
proof (rule object_retraction)
  fix d w
  assume "rbind (proto_strict [''id'', ''title''] [] d) (\<lambda>_.
     rbind (known ''id'' (\<lambda>v. id_text v ''room.id must be a string, integer, or null'' ''room.id'' 64) d) (\<lambda>i.
     rbind (known ''title'' (\<lambda>v. text_value v ''room.title'' 256) d) (\<lambda>t.
     if i @ t = [] then invalid ''room must contain id or title'' else Inr (PDict (i @ t))))) = Inr w"
    (is "?f d = _")
  then obtain i t where i: "known ''id'' (\<lambda>v. id_text v ''room.id must be a string, integer, or null'' ''room.id'' 64) d = Inr i"
    and t: "known ''title'' (\<lambda>v. text_value v ''room.title'' 256) d = Inr t" and w: "i @ t \<noteq> []" "w = PDict (i @ t)"
    by (auto simp: rbind_Inr_iff split: if_splits)
  note oi = id_text_known(2) [OF i] and ot = text_known(2) [OF t]
  have a: "proto_strict [''id'', ''title''] [] (i @ t) = Inr ()"
    using only_keys [OF oi] only_keys [OF ot] by (intro proto_strict_ok) auto
  have b: "known ''id'' (\<lambda>v. id_text v ''room.id must be a string, integer, or null'' ''room.id'' 64) (i @ t) = Inr i"
    using only_skip_Nil(1) [OF ot] by (simp add: id_text_known(1) [OF i])
  have c: "known ''title'' (\<lambda>v. text_value v ''room.title'' 256) (i @ t) = Inr t"
    using text_known(3) [OF t] by (simp add: only_skip(1) [OF oi])
  have "?f (i @ t) = Inr w" using w by (simp add: a b c)
  with w only_no_nul [OF oi] only_no_nul [OF ot]
  show "\<exists>e. w = PDict e \<and> ?f e = Inr w \<and> no_nul w" by simp
qed


interpretation vital_r: retraction "vital_pair name" for name
  by unfold_locales
     (auto simp: vital_pair_def rbind_Inr_iff proto_strict_iff split: pyval.splits
        dest: integer_r.fixed integer_r.clean)

interpretation vitals_r: retraction vitals_field
  unfolding vitals_field_def by (rule strict_each_retraction) unfold_locales

interpretation hand_r: retraction "hand_item side" for side
  unfolding hand_item_def
  by (rule object_retraction)
     (auto simp: rbind_Inr_iff proto_strict_iff dest: id_text_r.fixed id_text_r.clean text_r.fixed text_r.clean)

interpretation hands_r: retraction hands_field
  unfolding hands_field_def by (rule strict_each_retraction) unfold_locales

lemma spell_item_again:
  assumes "spell_item index v = Inr w"
  shows "spell_item index w = Inr w \<and> no_nul w"
proof -
  define label where "label = ''active_spells['' @ nat_str index @ '']''"
  let ?n = "\<lambda>n. proto_number n (label @ ''.remaining_seconds'') 31536000"
  from assms obtain spell i r
    where i: "id_text (dget ''id'' spell) (label @ ''.id must be a string or integer'') (label @ ''.id'') 32 = Inr i"
    and r: "known ''remaining_seconds'' ?n spell = Inr r" and w: "w = PDict ((''id'', i) # r)"
    by (auto simp: spell_item_def Let_def rbind_Inr_iff label_def split: pyval.splits)
  note r_only = number_known(2) [OF r]
  have "known ''remaining_seconds'' ?n ((''id'', i) # r) = Inr r"
    using number_known(3) [OF r] by simp
  moreover have "proto_strict [''id'', ''remaining_seconds''] [''id''] ((''id'', i) # r) = Inr ()"
    using only_keys [OF r_only] by (intro proto_strict_ok) auto
  ultimately show ?thesis
    using id_text_r.fixed [OF i] id_text_r.clean [OF i] only_no_nul [OF r_only]
    unfolding w spell_item_def Let_def label_def [symmetric] by simp
qed

interpretation spell_r: retraction "spell_item index" for index
  by unfold_locales (simp_all add: spell_item_again)

lemma null_or_array_retraction:
  assumes "retraction (bounded_array message g)"
  shows "retraction (\<lambda>v. if v = PNone then Inr PNone else bounded_array message g v)"
  by unfold_locales
     (use retraction.fixed [OF assms] retraction.clean [OF assms] in \<open>auto split: if_splits\<close>)

interpretation spells_r: retraction spells_field
  unfolding spells_field_def by (intro null_or_array_retraction array_retraction) unfold_locales

lemma nearby_item_again:
  assumes "nearby_item grp index v = Inr w"
  shows "nearby_item grp index w = Inr w \<and> no_nul w"
proof -
  define label where "label = ''nearby.'' @ grp @ ''['' @ nat_str index @ '']''"
  let ?n = "\<lambda>n. text_value n (label @ ''.name'') 256"
  from assms obtain item i noun r
    where i: "id_text (dget ''id'' item) (label @ ''.id must be a string or integer'') (label @ ''.id'') 64 = Inr i"
    and noun: "text_value (dget ''noun'' item) (label @ ''.noun'') 128 = Inr noun"
    and r: "known ''name'' ?n item = Inr r" and w: "w = PDict ([(''id'', i), (''noun'', noun)] @ r)"
    by (auto simp: nearby_item_def Let_def rbind_Inr_iff label_def split: pyval.splits)
  note r_only = text_known(2) [OF r]
  have "known ''name'' ?n ((''id'', i) # (''noun'', noun) # r) = Inr r"
    using text_known(3) [OF r] by simp
  moreover have "proto_strict [''id'', ''noun'', ''name''] [''id'', ''noun''] ((''id'', i) # (''noun'', noun) # r) = Inr ()"
    using only_keys [OF r_only] by (intro proto_strict_ok) auto
  ultimately show ?thesis
    using id_text_r.fixed [OF i] id_text_r.clean [OF i] text_r.fixed [OF noun] text_r.clean [OF noun]
      only_no_nul [OF r_only]
    unfolding w nearby_item_def Let_def label_def [symmetric] by simp
qed

interpretation nearby_r: retraction "nearby_item grp index" for grp index
  by unfold_locales (simp_all add: nearby_item_again)

interpretation nearby_group_r: retraction "nearby_group grp" for grp
  unfolding nearby_group_def by (intro array_retraction) unfold_locales

interpretation nearby_field_r: retraction nearby_field
  unfolding nearby_field_def by (rule strict_each_retraction) unfold_locales

interpretation scripts_r: retraction scripts_field
  unfolding scripts_field_def by (intro null_or_array_retraction array_retraction) unfold_locales

lemma optional_text_retraction: "retraction (\<lambda>v. optional_text v field n)"
  unfolding optional_text_def by unfold_locales (use text_r.absent_or_fixed in auto)

interpretation owners_r: retraction owners_field
  unfolding owners_field_def by (intro strict_each_retraction optional_text_retraction)

lemma string_or_integer_again:
  assumes "string_or_integer v field = Inr w"
  shows "string_or_integer w field = Inr w \<and> no_nul w"
proof (cases v)
  case (PStr s)
  with assms have *: "text_value (PStr s) field max_state_text_length = Inr w" by (simp add: string_or_integer_def)
  from text_value_Inr [OF *] text_r.fixed [OF *] text_r.clean [OF *] show ?thesis
    by (auto simp: string_or_integer_def)
next
  case (PInt i)
  with assms have *: "integer_value (PInt i) field 0 1000000 = Inr w" by (simp add: string_or_integer_def)
  from integer_value_Inr [OF *] integer_r.fixed [OF *] integer_r.clean [OF *] show ?thesis
    by (auto simp: string_or_integer_def)
qed (use assms in \<open>auto simp: string_or_integer_def\<close>)

interpretation mind_r: retraction "\<lambda>v. string_or_integer v field" for field
  by unfold_locales (simp_all add: string_or_integer_again)

lemma keyed_retraction:
  assumes "keyed f d = Inr r" and "\<And>k v k' x. f k v = Inr (k', x) \<Longrightarrow> f k' x = Inr (k', x) \<and> no_nul x"
  shows "keyed f r = Inr r" and "no_nul (PDict r)" and "length r \<le> length d"
proof -
  from keyed_result [OF assms(1), of "\<lambda>k x. f k x = Inr (k, x) \<and> no_nul x"] assms(2)
  have *: "distinct (dkeys r)" "length r \<le> length d" "\<forall>(k, x) \<in> set r. f k x = Inr (k, x) \<and> no_nul x"
    by blast+
  then show "keyed f r = Inr r" by (intro keyed_again) auto
  from * show "no_nul (PDict r)" "length r \<le> length d" by (auto simp: list_all_iff)
qed

lemma status_entry_again:
  assumes "status_entry name v = Inr (k, x)"
  shows "status_entry k x = Inr (k, x) \<and> no_nul x"
proof -
  from assms have n: "proto_text (PStr name) ''script_status key'' 128 = Inr k"
    and s: "text_value v (''script_status.'' @ k) 64 = Inr x" by (auto simp: status_entry_def rbind_Inr_iff)
  from proto_text_fixed [OF n] text_r.fixed [OF s] text_r.clean [OF s] show ?thesis
    by (simp add: status_entry_def)
qed

interpretation status_r: retraction script_status_field
  unfolding script_status_field_def
proof (rule object_retraction, goal_cases)
  case (1 d w)
  then obtain r where r: "keyed status_entry d = Inr r"
    and w: "w = PDict r" "length d \<le> max_json_keys"
    by (auto simp: rbind_Inr_iff split: if_splits)
  have "keyed status_entry r = Inr r" "no_nul (PDict r)" "length r \<le> length d"
    by (rule keyed_retraction [OF r], erule status_entry_again)+
  with w show ?case by simp
qed

section \<open>Character data\<close>

lemma each_known_again:
  assumes "each_item f (known_items d) = Inr r" and "\<And>k. solid_retraction (f k)"
  shows "each_item f (known_items r) = Inr r" and "no_nul (PDict r)" and "set (dkeys r) \<subseteq> set (dkeys d)"
proof -
  have "retraction (f k)" for k using assms(2) by (simp add: solid_retraction_def)
  from each_item_again [OF assms(1) this] each_item_known [OF assms]
  show "each_item f (known_items r) = Inr r" "no_nul (PDict r)" by simp_all
  show "set (dkeys r) \<subseteq> set (dkeys d)"
    using each_item_keys [OF assms(1)] by (auto simp: known_items_def dkeys_def)
qed

lemma stat_entry_again:
  assumes "stat_entry code v = Inr w"
  shows "stat_entry code w = Inr w \<and> no_nul w"
proof -
  let ?f = "\<lambda>field n. integer_value n (''stats.'' @ code @ ''.'' @ field) (-1000) 1000"
  from assms obtain d r where r: "each_item ?f (known_items d) = Inr r" and w: "w = PDict r"
    and d: "proto_strict stat_fields [] d = Inr ()"
    by (auto simp: stat_entry_def rbind_Inr_iff split: pyval.splits)
  have f: "solid_retraction (?f k)" for k by unfold_locales
  from d each_known_again(3) [OF r f] have "proto_strict stat_fields [] r = Inr ()"
    by (auto simp: proto_strict_iff)
  with each_known_again(1,2) [OF r f] show ?thesis unfolding w stat_entry_def by simp
qed

interpretation stat_r: retraction "stat_entry code" for code
  by unfold_locales (simp_all add: stat_entry_again)

lemma info_stats_again:
  assumes "info_stats values = Inr r"
  shows "only ''stats'' r" and "info_stats r = Inr r"
proof -
  have "retraction (stat_entry k)" for k by unfold_locales
  note again = each_item_again [OF _ this]
  show "only ''stats'' r" "info_stats r = Inr r"
    using assms
    by (auto simp: info_stats_def only_def rbind_Inr_iff proto_strict_iff each_item_keys
        dest: again split: if_splits pyval.splits)
qed


lemma info_values_again:
  assumes "info_values values = Inr r"
  shows "info_values r = Inr r \<and> no_nul (PDict r)"
proof -
  from assms obtain l a x p c g s
    where l: "known ''level'' (\<lambda>v. integer_value v ''level'' 0 100) values = Inr l"
    and a: "known ''age'' (\<lambda>v. integer_value v ''age'' 0 max_sequence) values = Inr a"
    and x: "known ''experience'' (\<lambda>v. integer_value v ''experience'' 0 max_sequence) values = Inr x"
    and p: "known ''profession'' (\<lambda>v. text_value v ''profession'' 100) values = Inr p"
    and c: "known ''race'' (\<lambda>v. text_value v ''race'' 100) values = Inr c"
    and g: "known ''gender'' (\<lambda>v. text_value v ''gender'' 100) values = Inr g"
    and s: "info_stats values = Inr s"
    and r: "r = l @ a @ x @ p @ c @ g @ s"
    by (auto simp: info_values_def rbind_Inr_iff)
  note only = integer_known(2) [OF l] integer_known(2) [OF a] integer_known(2) [OF x]
    text_known(2) [OF p] text_known(2) [OF c] text_known(2) [OF g] info_stats_again(1) [OF s]
  note skip = only [THEN only_skip(1)] only [THEN only_skip_Nil(1)]
  have "info_stats r = info_stats s"
    by (simp add: r info_stats_def only [THEN only_skip(2)] only [THEN only_skip(3)])
  then have s': "info_stats r = Inr s" using info_stats_again(2) [OF s] by simp
  have l': "known ''level'' (\<lambda>v. integer_value v ''level'' 0 100) r = Inr l"
    by (simp add: r integer_known(1) [OF l] skip)
  have a': "known ''age'' (\<lambda>v. integer_value v ''age'' 0 max_sequence) r = Inr a"
    by (simp add: r integer_known(1) [OF a] skip)
  have x': "known ''experience'' (\<lambda>v. integer_value v ''experience'' 0 max_sequence) r = Inr x"
    by (simp add: r integer_known(1) [OF x] skip)
  have p': "known ''profession'' (\<lambda>v. text_value v ''profession'' 100) r = Inr p"
    by (simp add: r text_known(1) [OF p] skip)
  have c': "known ''race'' (\<lambda>v. text_value v ''race'' 100) r = Inr c"
    by (simp add: r text_known(1) [OF c] skip)
  have g': "known ''gender'' (\<lambda>v. text_value v ''gender'' 100) r = Inr g"
    by (simp add: r text_known(1) [OF g] skip)
  have k: "proto_strict [''level'', ''profession'', ''race'', ''gender'', ''age'', ''experience'', ''stats''] [] r = Inr ()"
    by (intro proto_strict_ok) (simp_all add: r only [THEN only_keys, THEN subset_trans])
  have "no_nul (PDict r)" using only [THEN only_no_nul] by (simp add: r)
  moreover have "info_values r = Inr (l @ a @ x @ p @ c @ g @ s)"
    unfolding info_values_def k l' a' x' p' c' g' s' rbind_simps by (rule refl)
  ultimately show ?thesis using r by blast
qed

lemma skill_entry_again:
  assumes "skill_entry name v = Inr (k, x)"
  shows "skill_entry k x = Inr (k, x) \<and> no_nul x"
proof -
  let ?f = "\<lambda>field n. integer_value n (''skills.'' @ k @ ''.'' @ field) 0 10000"
  from assms obtain d r where n: "proto_text (PStr name) ''skills'' 80 = Inr k"
    and d: "proto_strict [''ranks'', ''bonus''] [''ranks''] d = Inr ()"
    and r: "each_item ?f (known_items d) = Inr r" and h: "dhas ''ranks'' r" and x: "x = PDict r"
    by (cases v) (auto simp: skill_entry_def rbind_Inr_iff split: if_splits)
  have f: "solid_retraction (?f k)" for k by unfold_locales
  from d h each_known_again(3) [OF r f] have "proto_strict [''ranks'', ''bonus''] [''ranks''] r = Inr ()"
    by (auto simp: proto_strict_iff dhas_iff)
  with each_known_again(1,2) [OF r f] h proto_text_fixed [OF n] show ?thesis
    unfolding x skill_entry_def by simp
qed

lemma circle_entry_again:
  assumes "circle_entry name v = Inr (k, x)"
  shows "circle_entry k x = Inr (k, x) \<and> no_nul x"
proof -
  from assms have n: "proto_text (PStr name) ''spell_circles'' 80 = Inr k"
    and i: "integer_value v (''spell_circles.'' @ k) 0 10000 = Inr x"
    by (auto simp: circle_entry_def rbind_Inr_iff)
  from proto_text_fixed [OF n] integer_r.fixed [OF i] integer_r.clean [OF i] show ?thesis
    by (simp add: circle_entry_def)
qed

lemma skill_group_again:
  assumes "skill_group name limit f values = Inr r"
    and "\<And>k v k' x. f k v = Inr (k', x) \<Longrightarrow> f k' x = Inr (k', x) \<and> no_nul x"
  shows "only name r" and "skill_group name limit f (r @ e) = (if r = [] then skill_group name limit f e else Inr r)"
proof -
  have "r = [] \<or> (\<exists>s. r = [(name, PDict s)] \<and> keyed f s = Inr s \<and> no_nul (PDict s) \<and> length s \<le> limit)"
  proof (cases "dhas name values")
    case True
    then obtain d s where d: "\<not> limit < length d" and s: "keyed f d = Inr s" and r: "r = [(name, PDict s)]"
      using assms(1) by (cases "dget name values") (auto simp: skill_group_def Let_def rbind_Inr_iff split: if_splits)
    have "keyed f s = Inr s" "no_nul (PDict s)" "length s \<le> length d"
      by (rule keyed_retraction [OF s], erule assms(2))+
    with d r show ?thesis by simp
  qed (use assms(1) in \<open>simp add: skill_group_def\<close>)
  then show "only name r" "skill_group name limit f (r @ e) = (if r = [] then skill_group name limit f e else Inr r)"
    by (auto simp: only_def skill_group_def Let_def)
qed

lemma training_points_again:
  assumes "training_points values = Inr r"
  shows "only ''training_points'' r" and "training_points r = Inr r"
proof -
  let ?f = "\<lambda>name n. integer_value n (''training_points.'' @ name) 0 max_sequence"
  have f: "solid_retraction (?f k)" for k by unfold_locales
  have "r = [] \<or> (\<exists>s. r = [(''training_points'', PDict s)] \<and> each_item ?f (known_items s) = Inr s
      \<and> no_nul (PDict s) \<and> proto_strict [''physical'', ''mental''] [] s = Inr ())"
  proof (cases "dhas ''training_points'' values")
    case True
    then obtain d s where d: "proto_strict [''physical'', ''mental''] [] d = Inr ()"
      and s: "each_item ?f (known_items d) = Inr s" and r: "r = [(''training_points'', PDict s)]"
      using assms by (cases "dget ''training_points'' values") (auto simp: training_points_def rbind_Inr_iff)
    from d each_known_again(3) [OF s f] have "proto_strict [''physical'', ''mental''] [] s = Inr ()"
      by (auto simp: proto_strict_iff)
    with each_known_again(1,2) [OF s f] r show ?thesis by blast
  qed (use assms in \<open>simp add: training_points_def\<close>)
  then show "only ''training_points'' r" "training_points r = Inr r"
    by (auto simp: only_def training_points_def)
qed


lemma group_skip:
  assumes "only key r" and "key \<noteq> name"
  shows "skill_group name limit f (r @ e) = skill_group name limit f e" and "skill_group name limit f r = Inr []"
  by (simp_all add: skill_group_def only_skip [OF assms] only_skip_Nil [OF assms])

lemma skills_values_again:
  assumes "skills_values values = Inr r"
  shows "skills_values r = Inr r \<and> no_nul (PDict r)"
proof -
  from assms obtain s c t
    where s: "skill_group ''skills'' 64 skill_entry values = Inr s"
    and c: "skill_group ''spell_circles'' 32 circle_entry values = Inr c"
    and t: "training_points values = Inr t"
    and r: "r = s @ c @ t"
    by (auto simp: skills_values_def rbind_Inr_iff)
  have "only ''skills'' s" "only ''spell_circles'' c" "only ''training_points'' t"
    by (rule skill_group_again(1) [OF s], erule skill_entry_again)
       (rule skill_group_again(1) [OF c], erule circle_entry_again, rule training_points_again(1) [OF t])
  note only = this
  note skip = only [THEN group_skip(1)] only [THEN group_skip(2)]
  have "skill_group ''skills'' 64 skill_entry (s @ (c @ t))
      = (if s = [] then skill_group ''skills'' 64 skill_entry (c @ t) else Inr s)"
    by (rule skill_group_again(2) [OF s], erule skill_entry_again)
  then have s': "skill_group ''skills'' 64 skill_entry r = Inr s" by (simp add: r skip)
  have "skill_group ''spell_circles'' 32 circle_entry (c @ t)
      = (if c = [] then skill_group ''spell_circles'' 32 circle_entry t else Inr c)"
    by (rule skill_group_again(2) [OF c], erule circle_entry_again)
  then have c': "skill_group ''spell_circles'' 32 circle_entry r = Inr c" by (simp add: r skip)
  have "training_points r = training_points t"
    by (simp add: r training_points_def only [THEN only_skip(2)] only [THEN only_skip(3)])
  then have t': "training_points r = Inr t" using training_points_again(2) [OF t] by simp
  have k: "proto_strict [''skills'', ''spell_circles'', ''training_points''] [] r = Inr ()"
    by (intro proto_strict_ok) (simp_all add: r only [THEN only_keys, THEN subset_trans])
  have "no_nul (PDict r)" using only [THEN only_no_nul] by (simp add: r)
  moreover have "skills_values r = Inr (s @ c @ t)"
    unfolding skills_values_def k s' c' t' rbind_simps by (rule refl)
  ultimately show ?thesis using r by blast
qed

lemma proto_timestamp_fixed:
  assumes "proto_timestamp v field = Inr s"
  shows "proto_timestamp (PStr s) field' = Inr s" and "list_all (\<lambda>c. ord c \<noteq> 0) s"
proof -
  from assms obtain t where t: "proto_text v field 64 = Inr t"
    by (cases "proto_text v field 64") (simp_all add: proto_timestamp_def)
  with assms have "iso_parse (replace_z t) = Some True \<and> s = t"
    by (cases "iso_parse (replace_z t)") (simp_all add: proto_timestamp_def split: if_split_asm)
  with t have s: "proto_text v field 64 = Inr s" and zone: "iso_parse (replace_z s) = Some True" by simp_all
  from proto_text_fixed [OF s] zone show "proto_timestamp (PStr s) field' = Inr s"
    by (simp add: proto_timestamp_def)
  from proto_text_clean [OF s] show "list_all (\<lambda>c. ord c \<noteq> 0) s" .
qed

interpretation time_r: retraction observed_time
  by unfold_locales
     (auto simp: observed_time_def rbind_Inr_iff dest: proto_timestamp_fixed(2)
        intro: proto_timestamp_fixed(1) split: if_splits)

interpretation level_r: retraction observed_level
  unfolding observed_level_def by unfold_locales (use integer_r.absent_or_fixed in auto)

lemma category_values_again:
  assumes "(if category = ''info'' then info_values values else skills_values values) = Inr r"
  shows "(if category = ''info'' then info_values r else skills_values r) = Inr r" and "no_nul (PDict r)"
  using assms info_values_again skills_values_again by (auto split: if_splits)

lemma category_fields_again:
  assumes "category_fields category source whole item = Inr w"
  obtains e where "w = PDict e" and "category_fields category source whole e = Inr w"
    and "no_nul (PStr source) \<Longrightarrow> no_nul w"
    and "dget ''source'' e = PStr source" and "dget ''complete'' e = PBool whole"
    and "set (dkeys e) = {''source'', ''observed_at'', ''complete'', ''observed_level'', ''values''}"
proof -
  from assms obtain t where t: "observed_time (dget ''observed_at'' item) = Inr t"
    and ok: "\<not> (source = ''infomon_cache'' \<and> (t \<noteq> PNone \<or> whole))" "\<not> (whole \<and> t = PNone)"
    by (auto simp: category_fields_def rbind_Inr_iff split: if_splits)
  from assms t ok obtain "values" r l where "dget ''values'' item = PDict values"
    and r: "(if category = ''info'' then info_values values else skills_values values) = Inr r"
    and l: "observed_level (dget ''observed_level'' item) = Inr l"
    and w: "w = PDict [(''source'', PStr source), (''observed_at'', t), (''complete'', PBool whole),
       (''observed_level'', l), (''values'', PDict r)]"
    by (cases "dget ''values'' item") (auto simp: category_fields_def rbind_Inr_iff simp del: if_split split: if_split_asm)
  let ?e = "[(''source'', PStr source), (''observed_at'', t), (''complete'', PBool whole),
       (''observed_level'', l), (''values'', PDict r)]"
  show thesis
  proof (rule that [of ?e])
    show "category_fields category source whole ?e = Inr w"
      using ok by (simp add: category_fields_def w time_r.fixed [OF t] level_r.fixed [OF l] category_values_again(1) [OF r]
        del: if_not_P if_split)
    show "no_nul (PStr source) \<Longrightarrow> no_nul w"
      using time_r.clean [OF t] level_r.clean [OF l] category_values_again(2) [OF r] by (simp add: w)
  qed (auto simp: w)
qed


lemma category_entry_again:
  assumes "category_entry category v = Inr w"
  shows "category_entry category w = Inr w" and "no_nul (PStr category) \<Longrightarrow> no_nul w"
proof -
  from assms obtain item source whole where "v = PDict item"
    and source: "\<not> (source \<noteq> category \<and> source \<noteq> ''infomon_cache'')"
    and w: "category_fields category source whole item = Inr w"
    unfolding category_entry_def Let_def
    by (cases v; simp; cases "dget ''source'' (case v of PDict d \<Rightarrow> d)"; simp;
        cases "dget ''complete'' (case v of PDict d \<Rightarrow> d)") (auto simp: rbind_Inr_iff split: if_splits)
  obtain e where e: "w = PDict e" "category_fields category source whole e = Inr w"
    "no_nul (PStr source) \<Longrightarrow> no_nul w"
    "dget ''source'' e = PStr source" "dget ''complete'' e = PBool whole"
    "set (dkeys e) = {''source'', ''observed_at'', ''complete'', ''observed_level'', ''values''}"
    using w by (rule category_fields_again) blast
  from e(6) have "proto_strict [''source'', ''observed_at'', ''complete'', ''observed_level'', ''values'']
                 [''source'', ''observed_at'', ''complete'', ''values''] e = Inr ()"
    by (intro proto_strict_ok) auto
  with e source show "category_entry category w = Inr w" by (simp add: category_entry_def Let_def)
  show "no_nul (PStr category) \<Longrightarrow> no_nul w" using source e(3) by (cases "source = category") auto
qed

interpretation character_data_r: retraction character_data_field
  unfolding character_data_field_def
proof (rule strict_each_retraction)
  fix k assume "k \<in> set [''info'', ''skills'']"
  then have "no_nul (PStr k)" by auto
  then show "retraction (category_entry k)" by unfold_locales (auto dest: category_entry_again)
qed

end
