(* ===== verification/ProtocolErrors.thy ===== *)
theory ProtocolErrors
  imports Protocol
begin

text \<open>
  Which exceptions the parsers of \<open>protocol.py\<close> raise.  The locale \<open>error_class\<close> is a class of
  exceptions that holds the validation errors; every validator stays inside it.  The snapshot
  parser also calls \<open>float\<close> on integers, which needs the overflow error (\<open>overflow_class\<close>).
\<close>

definition raises_only :: "(lab_error \<Rightarrow> bool) \<Rightarrow> 'a result \<Rightarrow> bool" where
  "raises_only P r = (\<forall>e. r = Inl e \<longrightarrow> P e)"

lemma raises_basic: "raises_only P (Inr x)" "P e \<Longrightarrow> raises_only P (Inl e)"
  by (simp_all add: raises_only_def)

lemma raises_rbind: "raises_only P m \<Longrightarrow> (\<And>x. raises_only P (f x)) \<Longrightarrow> raises_only P (rbind m f)"
  by (cases m) (auto simp: raises_only_def)

lemma raises_branch:
  "raises_only P a \<Longrightarrow> raises_only P b \<Longrightarrow> raises_only P (if c then a else b)"
  "raises_only P n \<Longrightarrow> (\<And>b. raises_only P (fb b)) \<Longrightarrow> (\<And>i. raises_only P (fi i)) \<Longrightarrow> (\<And>x. raises_only P (fx x))
    \<Longrightarrow> (\<And>s. raises_only P (fs s)) \<Longrightarrow> (\<And>l. raises_only P (fl l)) \<Longrightarrow> (\<And>d. raises_only P (fd d))
    \<Longrightarrow> raises_only P (case v of PNone \<Rightarrow> n | PBool b \<Rightarrow> fb b | PInt i \<Rightarrow> fi i | PFloat x \<Rightarrow> fx x | PStr s \<Rightarrow> fs s
          | PList l \<Rightarrow> fl l | PDict d \<Rightarrow> fd d)"
  "raises_only P n \<Longrightarrow> (\<And>y. raises_only P (g y)) \<Longrightarrow> raises_only P (case z of None \<Rightarrow> n | Some y \<Rightarrow> g y)"
  "(\<And>r. raises_only P (ff r)) \<Longrightarrow> raises_only P a1 \<Longrightarrow> raises_only P a2 \<Longrightarrow> raises_only P a3 \<Longrightarrow>
    raises_only P (case x of Fin r \<Rightarrow> ff r | PosInf \<Rightarrow> a1 | NegInf \<Rightarrow> a2 | NaN \<Rightarrow> a3)"
  "(\<And>a b. raises_only P (h a b)) \<Longrightarrow> raises_only P (case q of (a, b) \<Rightarrow> h a b)"
  by (simp_all split: pyval.split option.split pyfloat.split prod.split)

lemma raises_rmapi: "(\<And>i x. raises_only P (f i x)) \<Longrightarrow> raises_only P (rmapi f i xs)"
  by (induction xs arbitrary: i) (simp_all add: raises_basic raises_rbind)

lemma raises_rfold: "(\<And>s x. raises_only P (f s x)) \<Longrightarrow> raises_only P (rfold f s xs)"
  by (induction xs arbitrary: s) (simp_all add: raises_basic raises_rbind)

locale error_class =
  fixes P :: "lab_error \<Rightarrow> bool"
  assumes validation: "P (ValidationError m)"
begin

lemmas raise = raises_basic raises_rbind raises_branch raises_rmapi raises_rfold validation

lemma strict_raises: "raises_only P (proto_strict allowed required d)"
  unfolding proto_strict_def by (intro raise)

lemma text_raises: "raises_only P (proto_text v field n)"
  unfolding proto_text_def Let_def by (intro raise)

lemma text_value_raises: "raises_only P (text_value v field n)"
  unfolding text_value_def by (intro raise text_raises)

lemma optional_raises: "raises_only P (optional_text v field n)"
  unfolding optional_text_def by (intro raise text_value_raises)

lemma integer_raises: "raises_only P (proto_integer v field low high)"
  unfolding proto_integer_def by (intro raise)

lemma integer_value_raises: "raises_only P (integer_value v field low high)"
  unfolding integer_value_def by (intro raise integer_raises)

lemma timestamp_raises: "raises_only P (proto_timestamp v field)"
  unfolding proto_timestamp_def by (intro raise text_raises)

lemma bounded_raises:
  "raises_only P (bounded_json v field n)" "raises_only P (bounded_list xs field i n)"
  "raises_only P (bounded_items d field n)"
proof (induction v field n and xs field i n and d field n rule: bounded_json_bounded_list_bounded_items.induct)
  case (1 v field depth)
  note ih = 1(1) [OF _ _ _] 1(2) [OF _ _ _]
  show ?case
    by (subst bounded_json.simps) (cases v; auto intro!: raise ih split: pyfloat.split)
qed (auto intro!: raise)

lemma id_text_raises: "raises_only P (id_text v m field n)"
  unfolding id_text_def by (intro raise text_value_raises)

lemma known_raises: "(\<And>v. raises_only P (f v)) \<Longrightarrow> raises_only P (known key f d)"
  unfolding known_def by (intro raise)

lemma each_raises: "(\<And>k v. raises_only P (f k v)) \<Longrightarrow> raises_only P (each_item f d)"
  unfolding each_item_def rmap_def by (intro raise)

lemma keyed_raises: "(\<And>k v. raises_only P (f k v)) \<Longrightarrow> raises_only P (keyed f d)"
  unfolding keyed_def by (intro raise)

lemma object_raises: "(\<And>d. raises_only P (f d)) \<Longrightarrow> raises_only P (object_or_null m f v)"
  unfolding object_or_null_def by (intro raise)

lemma array_raises: "(\<And>xs. raises_only P (f xs)) \<Longrightarrow> raises_only P (bounded_array m f v)"
  unfolding bounded_array_def by (intro raise)

lemmas field_raises = raise strict_raises text_raises text_value_raises optional_raises integer_raises
  integer_value_raises timestamp_raises bounded_raises id_text_raises known_raises each_raises keyed_raises
  object_raises array_raises

lemma event_raises: "raises_only P (event_from_mapping v)"
  unfolding event_from_mapping_def by (intro field_raises)

lemma snapshot_printing_raises: "raises_only P (snapshot_to_mapping s)"
  unfolding snapshot_to_mapping_def by (intro field_raises)

lemma event_printing_raises: "raises_only P (event_to_mapping e)"
  unfolding event_to_mapping_def by (intro field_raises)

lemma observation_raises: "raises_only P (observation_from_mapping v)"
  unfolding observation_from_mapping_def Let_def by (intro field_raises)

lemma ask_raises: "raises_only P (ask_from_mapping v)"
  unfolding ask_from_mapping_def by (intro field_raises)

lemma character_request_raises: "raises_only P (character_request_from_mapping v)"
  unfolding character_request_from_mapping_def by (intro field_raises)

lemma category_raises: "raises_only P (character_data_field v)"
  unfolding character_data_field_def category_entry_def Let_def category_fields_def observed_time_def observed_level_def
    info_values_def info_stats_def stat_entry_def skills_values_def skill_group_def training_points_def
    skill_entry_def circle_entry_def
  by (intro field_raises)

end

locale overflow_class = error_class +
  assumes overflow: "P OverflowError"
begin

lemma number_raises: "raises_only P (proto_number v field high)"
  unfolding proto_number_def float_of_number_def by (cases v) (auto intro!: raise overflow)

lemma snapshot_raises: "raises_only P (snapshot_from_mapping v)"
  unfolding snapshot_from_mapping_def room_field_def vitals_field_def vital_pair_def hands_field_def hand_item_def
    spells_field_def spell_item_def nearby_field_def nearby_group_def nearby_item_def scripts_field_def owners_field_def
    script_status_field_def status_entry_def string_or_integer_def Let_def
  by (intro field_raises number_raises category_raises)

end

definition validation_error :: "lab_error \<Rightarrow> bool" where
  "validation_error e = (\<exists>m. e = ValidationError m)"

definition parse_error :: "lab_error \<Rightarrow> bool" where
  "parse_error e = (validation_error e \<or> e = OverflowError)"

interpretation strict_errors: error_class validation_error
  by unfold_locales (simp add: validation_error_def)

interpretation number_errors: overflow_class parse_error
  by unfold_locales (simp_all add: parse_error_def validation_error_def)

end
