(* ===== verification/ProtocolProperties.thy ===== *)
theory ProtocolProperties
  imports ProtocolLaws ProtocolErrors
begin

text \<open>
  The properties of the messages of \<open>protocol.py\<close>: which snapshots and events exist, that
  what is parsed can be printed and read back unchanged, and which exceptions the parsers raise.
\<close>

section \<open>Well-formed snapshots\<close>

definition field_ok :: "(pyval \<Rightarrow> pyval result) \<Rightarrow> pyval \<Rightarrow> bool" where
  \<comment> \<open>the validator returns this value for itself, and it holds no NUL character\<close>
  "field_ok f v = (f v = Inr v \<and> no_nul v)"

definition text_ok :: "string \<Rightarrow> nat \<Rightarrow> bool" where
  \<comment> \<open>stripped, not blank, without NUL and bounded\<close>
  "text_ok s n = (s \<noteq> [] \<and> strip s = s \<and> list_all (\<lambda>c. ord c \<noteq> 0) s \<and> length s \<le> n)"

definition snapshot_ok :: "character_snapshot \<Rightarrow> bool" where
  "snapshot_ok s =
     (text_ok (sn_character s) max_character_length \<and> text_ok (sn_generation s) max_generation_length
      \<and> 0 \<le> sn_sequence s \<and> sn_sequence s \<le> max_sequence
      \<and> text_ok (sn_observed_at s) 64 \<and> iso_parse (replace_z (sn_observed_at s)) = Some True
      \<and> text_ok (sn_game s) 16
      \<and> field_ok (\<lambda>v. optional_text v ''session_id'' max_session_id_length) (sn_session_id s)
      \<and> field_ok room_field (sn_room s) \<and> field_ok vitals_field (sn_vitals s)
      \<and> field_ok (\<lambda>v. optional_text v ''stance'' 64) (sn_stance s)
      \<and> field_ok (\<lambda>v. if v = PNone then Inr PNone else proto_number v ''roundtime'' 3600) (sn_roundtime s)
      \<and> null_or_bool (sn_stunned s) \<and> null_or_bool (sn_dead s)
      \<and> field_ok (\<lambda>v. string_or_integer v ''mind'') (sn_mind s)
      \<and> field_ok (\<lambda>v. string_or_integer v ''encumbrance'') (sn_encumbrance s)
      \<and> field_ok hands_field (sn_hands s)
      \<and> field_ok (\<lambda>v. if v = PNone then Inr PNone else bounded_json v ''wounds'' 0) (sn_wounds s)
      \<and> (sn_wounds s = PNone \<or> is_dict (sn_wounds s))
      \<and> field_ok spells_field (sn_active_spells s) \<and> field_ok nearby_field (sn_nearby s)
      \<and> field_ok scripts_field (sn_scripts s) \<and> field_ok owners_field (sn_owners s)
      \<and> field_ok script_status_field (sn_script_status s)
      \<and> field_ok character_data_field (sn_character_data s))"

lemma proto_text_iff: "proto_text v field n = Inr s \<longleftrightarrow>
    (\<exists>t. v = PStr t \<and> s = strip (remove_nul t) \<and> s \<noteq> [] \<and> length s \<le> n)"
  by (cases v) (auto simp: proto_text_def Let_def split: if_splits)

lemma proto_text_ok: "proto_text v field n = Inr s \<Longrightarrow> text_ok s n"
  using proto_text_clean [of v field n s] by (auto simp: text_ok_def proto_text_iff)

lemma text_ok_proto: "text_ok s n \<Longrightarrow> proto_text (PStr s) field n = Inr s"
  by (simp add: proto_text_iff text_ok_def remove_nul_id)

lemma text_ok_timestamp:
  "text_ok s 64 \<Longrightarrow> iso_parse (replace_z s) = Some True \<Longrightarrow> proto_timestamp (PStr s) field = Inr s"
  by (simp add: proto_timestamp_def text_ok_proto)

lemma proto_timestamp_ok:
  assumes "proto_timestamp v field = Inr s"
  shows "text_ok s 64 \<and> iso_parse (replace_z s) = Some True"
proof -
  from assms obtain t where t: "proto_text v field 64 = Inr t"
    by (cases "proto_text v field 64") (simp_all add: proto_timestamp_def)
  with assms have "iso_parse (replace_z t) = Some True \<and> s = t"
    by (cases "iso_parse (replace_z t)") (simp_all add: proto_timestamp_def split: if_split_asm)
  with proto_text_ok [OF t] show ?thesis by simp
qed

lemma field_okI: "retraction f \<Longrightarrow> f v = Inr w \<Longrightarrow> field_ok f w"
  by (simp add: field_ok_def retraction.fixed retraction.clean)

lemma null_or_retraction: "retraction f \<Longrightarrow> retraction (\<lambda>v. if v = PNone then Inr PNone else f v)"
  by unfold_locales (drule (1) retraction.absent_or_fixed, simp)+

lemma roundtime_retraction: "retraction (\<lambda>v. if v = PNone then Inr PNone else proto_number v field n)"
  by (rule null_or_retraction) unfold_locales

lemma wounds_retraction: "retraction (\<lambda>v. if v = PNone then Inr PNone else bounded_json v field n)"
  by (rule null_or_retraction) unfold_locales

lemma null_or_object:
  assumes "(if v = PNone then Inr PNone else bounded_json v field 0) = Inr w" and "v = PNone \<or> is_dict v"
  shows "w = PNone \<or> is_dict w"
  using assms by (cases v) (auto simp: bounded_json.simps [of "PDict d" for d] rbind_Inr_iff split: if_splits)

lemmas snapshot_field_oks = proto_text_ok proto_timestamp_ok [THEN conjunct1]
  optional_text_retraction [THEN field_okI] room_r.retraction_axioms [THEN field_okI]
  vitals_r.retraction_axioms [THEN field_okI] roundtime_retraction [THEN field_okI]
  mind_r.retraction_axioms [THEN field_okI] hands_r.retraction_axioms [THEN field_okI]
  wounds_retraction [THEN field_okI] spells_r.retraction_axioms [THEN field_okI]
  nearby_field_r.retraction_axioms [THEN field_okI] scripts_r.retraction_axioms [THEN field_okI]
  owners_r.retraction_axioms [THEN field_okI] status_r.retraction_axioms [THEN field_okI]
  character_data_r.retraction_axioms [THEN field_okI]

lemma proto_integer_bounds:
  assumes "proto_integer v field low high = Inr i" shows "low \<le> i" and "i \<le> high"
  using assms by (auto simp: proto_integer_def split: pyval.splits if_splits)

lemma snapshot_from_ok:
  assumes "snapshot_from_mapping v = Inr s"
  shows "snapshot_ok s"
proof (cases v)
  case (PDict d)
  have bools: "null_or_bool (dget ''stunned'' d)" "null_or_bool (dget ''dead'' d)"
    and wounds: "dget ''wounds'' d = PNone \<or> is_dict (dget ''wounds'' d)"
    using assms by (auto simp: snapshot_from_mapping_def PDict rbind_Inr_iff split: if_splits)
  then have "\<not> \<not> null_or_bool (dget ''stunned'' d)" "\<not> \<not> null_or_bool (dget ''dead'' d)"
    "\<not> (dget ''wounds'' d \<noteq> PNone \<and> \<not> is_dict (dget ''wounds'' d))" by blast+
  note guards = this [THEN if_not_P]
  from assms show ?thesis
    unfolding snapshot_from_mapping_def PDict pyval.case guards
    apply (elim rbind_InrE)
    apply (drule sum.inject(2) [THEN iffD1])
    apply hypsubst
    apply (simp only: snapshot_ok_def character_snapshot.simps bools simp_thms)
    apply (intro conjI; (erule snapshot_field_oks | erule proto_timestamp_ok [THEN conjunct2]
        | erule proto_integer_bounds | rule null_or_object [OF _ wounds]; assumption)?)
    done
qed (use assms in \<open>simp_all add: snapshot_from_mapping_def\<close>)

lemma bounded_items_clean:
  "each_item (\<lambda>name v. bounded_json v name 0) d = Inr r \<Longrightarrow> no_nul (PDict d) \<Longrightarrow> r = d"
  by (induction d arbitrary: r) (auto simp: rbind_Inr_iff dest: bounded_json_clean(1))

lemma dget_absent: "k \<notin> set (dkeys d) \<Longrightarrow> dget k (known_items d) = PNone"
  by (induction d) (auto simp: known_items_def dkeys_def)

lemma dget_known_items: "distinct (dkeys d) \<Longrightarrow> dget k (known_items d) = dget k d"
proof (induction d)
  case (Cons kv d)
  obtain k' v where kv: "kv = (k', v)" by (cases kv)
  have "known_items (kv # d) = (if v = PNone then known_items d else kv # known_items d)"
    by (simp add: known_items_def kv)
  with Cons dget_absent [of k' d] show ?case by (auto simp: kv)
qed (simp add: known_items_def)

lemma dkeys_known_items: "set (dkeys (known_items d)) \<subseteq> set (dkeys d)"
  by (auto simp: known_items_def dkeys_def)

lemma snapshot_fields_keys: "dkeys (snapshot_fields s) = snapshot_optional"
  by (simp add: snapshot_fields_def dkeys_def snapshot_optional_def)

lemma field_ok_no_nul: "field_ok f v \<Longrightarrow> no_nul v"
  by (simp add: field_ok_def)

lemma null_or_bool_no_nul: "null_or_bool v \<Longrightarrow> no_nul v"
  by (cases v) (auto simp: null_or_bool_def)

lemma field_okD: "field_ok f v \<Longrightarrow> f v = Inr v"
  by (simp add: field_ok_def)

lemma snapshot_ok_fields:
  assumes "snapshot_ok s"
  shows "field_ok (\<lambda>v. optional_text v ''session_id'' max_session_id_length) (sn_session_id s)"
    and "field_ok room_field (sn_room s)" and "field_ok vitals_field (sn_vitals s)"
    and "field_ok (\<lambda>v. optional_text v ''stance'' 64) (sn_stance s)"
    and "field_ok (\<lambda>v. if v = PNone then Inr PNone else proto_number v ''roundtime'' 3600) (sn_roundtime s)"
    and "field_ok (\<lambda>v. string_or_integer v ''mind'') (sn_mind s)"
    and "field_ok (\<lambda>v. string_or_integer v ''encumbrance'') (sn_encumbrance s)"
    and "field_ok hands_field (sn_hands s)"
    and "field_ok (\<lambda>v. if v = PNone then Inr PNone else bounded_json v ''wounds'' 0) (sn_wounds s)"
    and "field_ok spells_field (sn_active_spells s)" and "field_ok nearby_field (sn_nearby s)"
    and "field_ok scripts_field (sn_scripts s)" and "field_ok owners_field (sn_owners s)"
    and "field_ok script_status_field (sn_script_status s)"
    and "field_ok character_data_field (sn_character_data s)"
  using assms unfolding snapshot_ok_def by simp_all

lemma snapshot_fields_no_nul:
  assumes "snapshot_ok s" shows "no_nul (PDict (snapshot_fields s))"
proof -
  note ok = assms [unfolded snapshot_ok_def]
  show ?thesis
    unfolding snapshot_fields_def snapshot_optional_def zip_Cons_Cons zip_Nil no_nul.simps list.pred_inject prod.case
    using ok by (elim conjE) (intro conjI TrueI; (erule field_ok_no_nul | erule null_or_bool_no_nul | simp))
qed

lemma snapshot_to_mapping_fields:
  assumes "snapshot_to_mapping s = Inr m" and "snapshot_ok s"
  shows "m = [(''character'', PStr (sn_character s)), (''generation'', PStr (sn_generation s)),
           (''sequence'', PInt (sn_sequence s)), (''observed_at'', PStr (sn_observed_at s)),
           (''game'', PStr (sn_game s))] @ known_items (snapshot_fields s)"
proof -
  from assms(1) obtain r where r: "each_item (\<lambda>name v. bounded_json v name 0) (known_items (snapshot_fields s)) = Inr r"
    and m: "m = [(''character'', PStr (sn_character s)), (''generation'', PStr (sn_generation s)),
           (''sequence'', PInt (sn_sequence s)), (''observed_at'', PStr (sn_observed_at s)),
           (''game'', PStr (sn_game s))] @ r"
    by (auto simp: snapshot_to_mapping_def rbind_Inr_iff)
  have "no_nul (PDict (known_items (snapshot_fields s)))"
    using snapshot_fields_no_nul [OF assms(2)] by (auto simp: known_items_def list_all_iff)
  from bounded_items_clean [OF r this] m show ?thesis by simp
qed

lemma snapshot_reparse:
  assumes ok: "snapshot_ok s" and m: "snapshot_to_mapping s = Inr m"
  shows "snapshot_from_mapping (PDict m) = Inr s"
proof -
  note m' = snapshot_to_mapping_fields [OF m ok]
  have distinct: "distinct (dkeys (snapshot_fields s))" by (simp add: snapshot_fields_keys snapshot_optional_def)
  have strict: "proto_strict (snapshot_required @ [''game''] @ snapshot_optional) snapshot_required m = Inr ()"
    using dkeys_known_items [of "snapshot_fields s"]
    by (intro proto_strict_ok) (auto simp: m' snapshot_required_def snapshot_fields_keys)
  have get: "dget ''character'' m = PStr (sn_character s)" "dget ''generation'' m = PStr (sn_generation s)"
    "dget ''sequence'' m = PInt (sn_sequence s)" "dget ''observed_at'' m = PStr (sn_observed_at s)"
    "dget_or ''game'' (PStr ''GSIV'') m = PStr (sn_game s)"
    "dget ''session_id'' m = sn_session_id s" "dget ''room'' m = sn_room s" "dget ''vitals'' m = sn_vitals s"
    "dget ''stance'' m = sn_stance s" "dget ''roundtime'' m = sn_roundtime s" "dget ''stunned'' m = sn_stunned s"
    "dget ''dead'' m = sn_dead s" "dget ''mind'' m = sn_mind s" "dget ''encumbrance'' m = sn_encumbrance s"
    "dget ''hands'' m = sn_hands s" "dget ''wounds'' m = sn_wounds s" "dget ''active_spells'' m = sn_active_spells s"
    "dget ''nearby'' m = sn_nearby s" "dget ''scripts'' m = sn_scripts s" "dget ''owners'' m = sn_owners s"
    "dget ''script_status'' m = sn_script_status s" "dget ''character_data'' m = sn_character_data s"
    by (simp_all add: m' dget_or_def dget_known_items [OF distinct])
       (simp_all add: snapshot_fields_def snapshot_optional_def)
  note parts = ok [unfolded snapshot_ok_def]
  have texts: "proto_text (PStr (sn_character s)) ''character'' max_character_length = Inr (sn_character s)"
    "proto_text (PStr (sn_generation s)) ''generation'' max_generation_length = Inr (sn_generation s)"
    "proto_integer (PInt (sn_sequence s)) ''sequence'' 0 max_sequence = Inr (sn_sequence s)"
    "proto_timestamp (PStr (sn_observed_at s)) ''observed_at'' = Inr (sn_observed_at s)"
    "proto_text (PStr (sn_game s)) ''game'' 16 = Inr (sn_game s)"
    using parts by (simp_all add: text_ok_proto text_ok_timestamp proto_integer_def)
  have guards: "(\<not> null_or_bool (sn_stunned s)) = False" "(\<not> null_or_bool (sn_dead s)) = False"
    "(sn_wounds s \<noteq> PNone \<and> \<not> is_dict (sn_wounds s)) = False"
    using parts by simp_all
  have fields: "optional_text (sn_session_id s) ''session_id'' max_session_id_length = Inr (sn_session_id s)"
    "room_field (sn_room s) = Inr (sn_room s)" "vitals_field (sn_vitals s) = Inr (sn_vitals s)"
    "optional_text (sn_stance s) ''stance'' 64 = Inr (sn_stance s)"
    "(if sn_roundtime s = PNone then Inr PNone else proto_number (sn_roundtime s) ''roundtime'' 3600) = Inr (sn_roundtime s)"
    "string_or_integer (sn_mind s) ''mind'' = Inr (sn_mind s)"
    "string_or_integer (sn_encumbrance s) ''encumbrance'' = Inr (sn_encumbrance s)"
    "hands_field (sn_hands s) = Inr (sn_hands s)"
    "(if sn_wounds s = PNone then Inr PNone else bounded_json (sn_wounds s) ''wounds'' 0) = Inr (sn_wounds s)"
    "spells_field (sn_active_spells s) = Inr (sn_active_spells s)" "nearby_field (sn_nearby s) = Inr (sn_nearby s)"
    "scripts_field (sn_scripts s) = Inr (sn_scripts s)" "owners_field (sn_owners s) = Inr (sn_owners s)"
    "script_status_field (sn_script_status s) = Inr (sn_script_status s)"
    "character_data_field (sn_character_data s) = Inr (sn_character_data s)"
    by (rule snapshot_ok_fields [OF ok, THEN field_okD])+
  show ?thesis
    unfolding snapshot_from_mapping_def pyval.case strict rbind_simps get guards if_False texts fields
    by simp
qed

lemma roundtime_bounds:
  assumes "field_ok (\<lambda>v. if v = PNone then Inr PNone else proto_number v field 3600) x"
  shows "x = PNone \<or> (\<exists>r. x = PFloat (Fin r) \<and> 0 \<le> r \<and> r \<le> 3600)"
proof (cases "x = PNone")
  case False
  with field_okD [OF assms] have "proto_number x field 3600 = Inr x" by simp
  from proto_number_Inr [OF this] show ?thesis by simp
qed simp

lemma string_or_integer_bounds:
  assumes "field_ok (\<lambda>v. string_or_integer v field) x"
  shows "x = PNone \<or> (\<exists>t. x = PStr t \<and> text_ok t 512) \<or> (\<exists>i. x = PInt i \<and> 0 \<le> i \<and> i \<le> 1000000)"
proof (cases x)
  case (PStr t)
  with field_okD [OF assms] have "proto_text (PStr t) field 512 = Inr t"
    by (auto simp: string_or_integer_def text_value_def rbind_Inr_iff max_state_text_length_def)
  with proto_text_ok [OF this] PStr show ?thesis by simp
next
  case (PInt i)
  with field_okD [OF assms] show ?thesis
    by (auto simp: string_or_integer_def integer_value_def proto_integer_def rbind_Inr_iff split: if_splits)
qed (use field_okD [OF assms] in \<open>simp_all add: string_or_integer_def\<close>)

lemma wounds_bounds:
  assumes "field_ok (\<lambda>v. if v = PNone then Inr PNone else bounded_json v field 0) x" and "x = PNone \<or> is_dict x"
  shows "x = PNone \<or> (\<exists>d. x = PDict d \<and> json_ok 0 (PDict d))"
proof (cases x)
  case (PDict d)
  with field_okD [OF assms(1)] have "bounded_json x field 0 = Inr x" by simp
  from bounded_json_ok(1) [OF this] PDict show ?thesis by blast
qed (use assms(2) in simp_all)

lemma event_from_facts:
  assumes "event_from_mapping v = Inr e"
  shows "text_ok (ev_character e) max_character_length \<and> text_ok (ev_generation e) max_generation_length
    \<and> text_ok (ev_observed_at e) 64 \<and> iso_parse (replace_z (ev_observed_at e)) = Some True
    \<and> text_ok (ev_kind e) 64 \<and> text_ok (ev_summary e) max_event_text_length
    \<and> is_dict (ev_data e) \<and> bounded_json (ev_data e) ''data'' 0 = Inr (ev_data e)"
proof (cases v)
  case (PDict d)
  have dict: "is_dict (dget_or ''data'' (PDict []) d)"
    using assms by (auto simp: event_from_mapping_def PDict rbind_Inr_iff split: if_splits)
  then have "\<not> \<not> is_dict (dget_or ''data'' (PDict []) d)" by blast
  note guard = this [THEN if_not_P]
  have object: "bounded_json (dget_or ''data'' (PDict []) d) ''data'' 0 = Inr w \<Longrightarrow> is_dict w" for w
    using dict null_or_object [of "dget_or ''data'' (PDict []) d" "''data''" w]
    by (cases "dget_or ''data'' (PDict []) d")
       (auto simp: bounded_json.simps [of "PDict d" for d] rbind_Inr_iff split: if_splits)
  from assms show ?thesis
    unfolding event_from_mapping_def PDict pyval.case guard
    apply (elim rbind_InrE)
    apply (drule sum.inject(2) [THEN iffD1])
    apply hypsubst
    apply (simp only: meaningful_event.simps)
    apply (intro conjI; (erule proto_text_ok | erule proto_timestamp_ok [THEN conjunct1] | erule proto_timestamp_ok [THEN conjunct2]
        | erule object | erule json_r.fixed))
    done
qed (use assms in \<open>simp_all add: event_from_mapping_def\<close>)

section \<open>Concrete messages\<close>

definition demo_raw :: pyval where
  \<comment> \<open>a snapshot as a bridge may send it\<close>
  "demo_raw = PDict [(''character'', PStr '' Ann''), (''generation'', PStr ''g1''), (''sequence'', PInt 7),
     (''observed_at'', PStr ''2026-01-02T03:04:05Z''), (''mind'', PStr ''clear''),
     (''room'', PDict [(''id'', PInt 228)]), (''dead'', PBool False),
     (''script_status'', PDict [(''go2'', PStr ''running'')])]"

definition demo_snapshot :: character_snapshot where
  "demo_snapshot = \<lparr>sn_character = ''Ann'', sn_generation = ''g1'', sn_sequence = 7,
     sn_observed_at = ''2026-01-02T03:04:05Z'', sn_game = ''GSIV'', sn_session_id = PNone,
     sn_room = PDict [(''id'', PStr ''228'')], sn_vitals = PNone, sn_stance = PNone,
     sn_roundtime = PNone, sn_stunned = PNone, sn_dead = PBool False, sn_mind = PStr ''clear'',
     sn_encumbrance = PNone, sn_hands = PNone, sn_wounds = PNone, sn_active_spells = PNone, sn_nearby = PNone,
     sn_scripts = PNone, sn_owners = PNone, sn_script_status = PDict [(''go2'', PStr ''running'')],
     sn_character_data = PNone\<rparr>"

definition demo_printed :: "(string \<times> pyval) list" where
  "demo_printed = [(''character'', PStr ''Ann''), (''generation'', PStr ''g1''), (''sequence'', PInt 7),
     (''observed_at'', PStr ''2026-01-02T03:04:05Z''), (''game'', PStr ''GSIV''),
     (''room'', PDict [(''id'', PStr ''228'')]), (''dead'', PBool False), (''mind'', PStr ''clear''),
     (''script_status'', PDict [(''go2'', PStr ''running'')])]"

lemma demo_parsed: "snapshot_from_mapping demo_raw = Inr demo_snapshot"
  by code_simp

lemma demo_to_mapping: "snapshot_to_mapping demo_snapshot = Inr demo_printed"
  by code_simp

definition demo_event_raw :: pyval where
  "demo_event_raw = PDict [(''character'', PStr ''Ann''), (''generation'', PStr ''g1''),
     (''observed_at'', PStr ''2026-01-02T03:04:05Z''), (''kind'', PStr ''death''), (''summary'', PStr ''Ann died.''),
     (''data'', PDict [(''room'', PInt 4)])]"

definition demo_event :: meaningful_event where
  "demo_event = \<lparr>ev_character = ''Ann'', ev_generation = ''g1'', ev_observed_at = ''2026-01-02T03:04:05Z'',
     ev_kind = ''death'', ev_summary = ''Ann died.'', ev_data = PDict [(''room'', PInt 4)]\<rparr>"

lemma demo_event_parsed: "event_from_mapping demo_event_raw = Inr demo_event"
  by code_simp

section \<open>Properties\<close>

text \<open>What \<open>_bounded_json\<close> returns at a depth is exactly the JSON values within the limits of that
  depth (finite floats, 63-bit integers, strings of at most 4000 characters without NUL, at most 256
  items and 64 short keys, five levels), and it returns such a value unchanged.\<close>

theorem bounded_json_range:
  "(\<exists>v. bounded_json v field n = Inr w) \<longleftrightarrow> json_ok n w"
  using bounded_json_ok(1) [of _ field n w] bounded_json_fixed(1) [of n w field] by blast

text \<open>C39: A snapshot that was parsed and can be printed is parsed back from what it printed.\<close>

theorem snapshot_round_trip:
  assumes "snapshot_from_mapping v = Inr s" and "snapshot_to_mapping s = Inr m"
  shows "snapshot_from_mapping (PDict m) = Inr s"
  by (rule snapshot_reparse [OF snapshot_from_ok [OF assms(1)] assms(2)])

lemma snapshot_round_trip_witness: "snapshot_from_mapping (PDict demo_printed) = Inr demo_snapshot"
  by (rule snapshot_round_trip [OF demo_parsed demo_to_mapping])

text \<open>The scalar fields of a parsed snapshot are within the bounds the protocol documents: names,
  generation and game are stripped, not blank and bounded, the observation time is an ISO timestamp
  with a time zone, the sequence is a nonnegative 63-bit integer, the round time is unknown or
  between 0 and 3600 seconds, mind and encumbrance are unknown, a short text or a bounded integer.\<close>

theorem snapshot_is_bounded:
  assumes "snapshot_from_mapping v = Inr s"
  shows "text_ok (sn_character s) 40 \<and> text_ok (sn_generation s) 128 \<and> text_ok (sn_game s) 16
    \<and> text_ok (sn_observed_at s) 64 \<and> iso_parse (replace_z (sn_observed_at s)) = Some True
    \<and> 0 \<le> sn_sequence s \<and> sn_sequence s < 2 ^ 63
    \<and> (sn_roundtime s = PNone \<or> (\<exists>r. sn_roundtime s = PFloat (Fin r) \<and> 0 \<le> r \<and> r \<le> 3600))
    \<and> (\<forall>x \<in> {sn_mind s, sn_encumbrance s}. x = PNone \<or> (\<exists>t. x = PStr t \<and> text_ok t 512)
          \<or> (\<exists>i. x = PInt i \<and> 0 \<le> i \<and> i \<le> 1000000))
    \<and> (\<forall>x \<in> {sn_stunned s, sn_dead s}. x = PNone \<or> is_bool x)
    \<and> (sn_wounds s = PNone \<or> (\<exists>d. sn_wounds s = PDict d \<and> json_ok 0 (PDict d)))"
proof -
  have ok: "snapshot_ok s" using assms by (rule snapshot_from_ok)
  note parts = snapshot_ok_fields [OF ok]
  show ?thesis
    using roundtime_bounds [OF parts(5)] string_or_integer_bounds [OF parts(6)] string_or_integer_bounds [OF parts(7)]
      wounds_bounds [OF parts(9)] ok
    unfolding snapshot_ok_def max_character_length_def max_generation_length_def max_sequence_def null_or_bool_def
    by (simp add: ball_simps)
qed

lemma snapshot_is_bounded_witness:
  "text_ok (sn_character demo_snapshot) 40 \<and> sn_sequence demo_snapshot < 2 ^ 63
   \<and> sn_mind demo_snapshot = PStr ''clear''"
  using snapshot_is_bounded [OF demo_parsed] by (simp add: demo_snapshot_def)

text \<open>A parsed event can always be printed, and is parsed back from what it printed.\<close>

theorem event_round_trip:
  assumes "event_from_mapping v = Inr e"
  shows "\<exists>m. event_to_mapping e = Inr m \<and> event_from_mapping (PDict m) = Inr e"
proof -
  note facts = event_from_facts [OF assms]
  let ?m = "[(''character'', PStr (ev_character e)), (''generation'', PStr (ev_generation e)),
          (''observed_at'', PStr (ev_observed_at e)), (''kind'', PStr (ev_kind e)),
          (''summary'', PStr (ev_summary e)), (''data'', ev_data e)]"
  have "event_to_mapping e = Inr ?m" using facts by (simp add: event_to_mapping_def)
  moreover have "event_from_mapping (PDict ?m) = Inr e"
    using facts
    by (simp add: event_from_mapping_def proto_strict_ok dget_or_def text_ok_proto text_ok_timestamp)
  ultimately show ?thesis by blast
qed

lemma event_round_trip_witness:
  "\<exists>m. event_to_mapping demo_event = Inr m \<and> event_from_mapping (PDict m) = Inr demo_event"
  by (rule event_round_trip [OF demo_event_parsed])

text \<open>C40: Parsing a snapshot raises no exception other than a validation error or the overflow
  error of a float conversion; the other request parsers raise validation errors only.\<close>

theorem parsers_raise_only:
  "raises_only parse_error (snapshot_from_mapping v) \<and> raises_only validation_error (event_from_mapping v)
   \<and> raises_only validation_error (observation_from_mapping v) \<and> raises_only validation_error (ask_from_mapping v)
   \<and> raises_only validation_error (character_request_from_mapping v)"
  using number_errors.snapshot_raises strict_errors.event_raises strict_errors.observation_raises
    strict_errors.ask_raises strict_errors.character_request_raises by blast

section \<open>What modelling showed\<close>

definition long_status :: pyval where
  \<comment> \<open>a script status under a name of 70 characters\<close>
  "long_status = PDict [(''character'', PStr ''Ann''), (''generation'', PStr ''g1''), (''sequence'', PInt 7),
     (''observed_at'', PStr ''2026-01-02T03:04:05Z''),
     (''script_status'', PDict [(replicate 70 (CHR ''x''), PStr ''running'')])]"

lemma long_status_not_printed:
  "case snapshot_from_mapping long_status of Inl e \<Rightarrow> False | Inr s \<Rightarrow>
     snapshot_to_mapping s = Inl (ValidationError ''script_status keys must be nonblank bounded strings'')"
  by code_simp

lemma huge_number_overflows: "proto_number (PInt (10 ^ 400)) ''roundtime'' 3600 = Inl OverflowError"
  by (simp add: proto_number_def float_of_number_def)

end
