(* ===== verification/WorldState.thy ===== *)
theory WorldState
  imports Protocol
begin

text \<open>
  The current state and the bounded event log per character (\<open>world_state.py\<close>).  The condition
  variable's lock makes each operation atomic.  An operation returns the new state together with
  its reply or exception: the code changes its state before some calls that can raise.  A clock
  is an argument: \<open>age\<close> gives the seconds since an ISO time stamp.
\<close>

section \<open>State\<close>

definition default_event_capacity :: int where "default_event_capacity = 128"
definition default_freshness_seconds :: rat where "default_freshness_seconds = 30"
definition max_watch_timeout_seconds :: nat where "max_watch_timeout_seconds = 30"

record stored_event =
  se_cursor :: int
  se_event :: meaningful_event

definition stored_to_mapping :: "stored_event \<Rightarrow> (string \<times> pyval) list result" where
  "stored_to_mapping x = rbind (event_to_mapping (se_event x)) (\<lambda>m. Inr ((''cursor'', PInt (se_cursor x)) # m))"

record character_state =
  cs_display_name :: string
  cs_generation :: "string option"
  cs_sequence :: "int option"
  cs_snapshot :: "character_snapshot option"
  cs_retired_generations :: "string list"
  cs_cursor :: int
  cs_events :: "stored_event list"

record world_state =
  ws_event_capacity :: nat
  ws_freshness_seconds :: rat
  ws_characters :: "(string, character_state) dict"

type_synonym 'a world_op = "world_state \<times> 'a result"

definition world_init :: "pyval \<Rightarrow> rat \<Rightarrow> world_state result" where
  "world_init capacity freshness = (case capacity of
      PInt c \<Rightarrow>
        if c < 1 then Inl (ValueError ''event_capacity must be positive'')
        else if freshness \<le> 0 then Inl (ValueError ''freshness_seconds must be positive'')
        else Inr \<lparr>ws_event_capacity = nat c, ws_freshness_seconds = freshness, ws_characters = []\<rparr>
    | _ \<Rightarrow> Inl (ValueError ''event_capacity must be an integer''))"

definition find_state :: "string \<Rightarrow> world_state \<Rightarrow> character_state option" where
  "find_state key w = map_of (ws_characters w) key"

definition put_state :: "string \<Rightarrow> character_state \<Rightarrow> world_state \<Rightarrow> world_state" where
  "put_state key s w = w\<lparr>ws_characters := dput key s (ws_characters w)\<rparr>"

definition new_character :: "string \<Rightarrow> character_state" where
  "new_character name = \<lparr>cs_display_name = name, cs_generation = None, cs_sequence = None, cs_snapshot = None,
     cs_retired_generations = [], cs_cursor = 0, cs_events = []\<rparr>"

definition append_event_locked :: "nat \<Rightarrow> meaningful_event \<Rightarrow> character_state \<Rightarrow> character_state" where
  \<comment> \<open>the stored event is the last one of the new state\<close>
  "append_event_locked capacity e s =
     s\<lparr>cs_cursor := cs_cursor s + 1,
       cs_events := deque_push capacity \<lparr>se_cursor = cs_cursor s + 1, se_event = e\<rparr> (cs_events s)\<rparr>"

section \<open>Publishing\<close>

definition semantic_snapshot :: "character_snapshot \<Rightarrow> (string \<times> pyval) list result" where
  "semantic_snapshot s =
     rbind (snapshot_to_mapping s) (\<lambda>m. Inr (ddel ''sequence'' (ddel ''observed_at'' m)))"

definition changed_fields :: "character_snapshot option \<Rightarrow> character_snapshot \<Rightarrow> string list result" where
  "changed_fields previous current =
     rbind (semantic_snapshot current) (\<lambda>c. case previous of
       None \<Rightarrow> Inr (sort (dkeys c))
     | Some p \<Rightarrow> rbind (semantic_snapshot p) (\<lambda>q.
         Inr (sort (filter (\<lambda>k. \<not> py_eq (dget k c) (dget k q)) (remdups (dkeys c @ dkeys q))))))"

definition snapshot_changed :: "character_snapshot option \<Rightarrow> character_snapshot \<Rightarrow> bool result" where
  \<comment> \<open>\<open>previous is None or _semantic_snapshot(previous) != _semantic_snapshot(snapshot)\<close>\<close>
  "snapshot_changed previous current = (case previous of
      None \<Rightarrow> Inr True
    | Some p \<Rightarrow> rbind (semantic_snapshot p) (\<lambda>q. rbind (semantic_snapshot current) (\<lambda>c.
        Inr (\<not> py_eq (PDict q) (PDict c)))))"

definition snapshot_event :: "character_snapshot \<Rightarrow> bool \<Rightarrow> string list \<Rightarrow> string option \<Rightarrow> meaningful_event" where
  "snapshot_event s first changed replaced =
     \<lparr>ev_character = sn_character s, ev_generation = sn_generation s, ev_observed_at = sn_observed_at s,
      ev_kind = ''snapshot'',
      ev_summary = (if first then ''session snapshot admitted'' else ''session snapshot changed''),
      ev_data = PDict ((''changed_fields'', PList (map PStr changed))
        # (case replaced of None \<Rightarrow> [] | Some g \<Rightarrow> [(''replaced_generation'', PStr g)]))\<rparr>"

record snapshot_reply =
  sr_character :: string
  sr_generation :: string
  sr_sequence :: int
  sr_cursor :: int
  sr_replaced_generation :: "string option"

definition admit_snapshot_generation :: "string \<Rightarrow> character_state \<Rightarrow> (character_state \<times> string option) result" where
  \<comment> \<open>the generation check, with the generation it replaced\<close>
  "admit_snapshot_generation g s = (case cs_generation s of
      None \<Rightarrow> Inr (s\<lparr>cs_generation := Some g\<rparr>, None)
    | Some old \<Rightarrow>
        if g = old then Inr (s, None)
        else if g \<in> set (cs_retired_generations s)
        then Inl (StateConflict ''snapshot generation is stale for this character'')
        else Inr (s\<lparr>cs_retired_generations := List.insert old (cs_retired_generations s),
               cs_generation := Some g, cs_sequence := None, cs_snapshot := None\<rparr>, Some old))"

definition store_snapshot :: "nat \<Rightarrow> character_snapshot \<Rightarrow> string option \<Rightarrow> character_state
    \<Rightarrow> character_state \<times> snapshot_reply result" where
  \<comment> \<open>the rest of \<open>publish_snapshot\<close>, once the generation is the active one\<close>
  "store_snapshot capacity snap replaced s =
     (if (case cs_sequence s of None \<Rightarrow> False | Some n \<Rightarrow> sn_sequence snap \<le> n)
      then (s, Inl (StateConflict ''snapshot sequence must strictly increase within its generation''))
      else case snapshot_changed (cs_snapshot s) snap of
        Inl e \<Rightarrow> (s, Inl e)
      | Inr changed \<Rightarrow>
        let s2 = s\<lparr>cs_display_name := sn_character snap, cs_sequence := Some (sn_sequence snap), cs_snapshot := Some snap\<rparr>;
            reply = (\<lambda>t. \<lparr>sr_character = sn_character snap, sr_generation = sn_generation snap,
              sr_sequence = sn_sequence snap, sr_cursor = cs_cursor t, sr_replaced_generation = replaced\<rparr>)
        in if \<not> changed then (s2, Inr (reply s2))
           else case changed_fields (cs_snapshot s) snap of
             Inl e \<Rightarrow> (s2, Inl e)
           | Inr names \<Rightarrow>
             let s3 = append_event_locked capacity (snapshot_event snap (cs_snapshot s = None) names replaced) s2
             in (s3, Inr (reply s3)))"

definition publish_snapshot :: "character_snapshot \<Rightarrow> world_state \<Rightarrow> snapshot_reply world_op" where
  "publish_snapshot snap w =
     (let key = casefold (sn_character snap);
          s0 = (case find_state key w of None \<Rightarrow> new_character (sn_character snap) | Some s \<Rightarrow> s);
          w0 = put_state key s0 w
      in case admit_snapshot_generation (sn_generation snap) s0 of
           Inl e \<Rightarrow> (w0, Inl e)
         | Inr (s1, replaced) \<Rightarrow>
           (case store_snapshot (ws_event_capacity w) snap replaced s1 of (s2, r) \<Rightarrow> (put_state key s2 w0, r)))"

record event_reply =
  er_character :: string
  er_generation :: string
  er_cursor :: int

definition publish_event :: "meaningful_event \<Rightarrow> world_state \<Rightarrow> event_reply world_op" where
  "publish_event e w =
     (let key = casefold (ev_character e) in
      case find_state key w of
        None \<Rightarrow> (w, Inl (StateConflict ''event has no active snapshot generation''))
      | Some s \<Rightarrow> (case cs_generation s of
          None \<Rightarrow> (w, Inl (StateConflict ''event has no active snapshot generation''))
        | Some g \<Rightarrow>
          if ev_generation e \<noteq> g then (w, Inl (StateConflict ''event generation is stale for this character''))
          else let s' = append_event_locked (ws_event_capacity w) e s
               in (put_state key s' w,
                   Inr \<lparr>er_character = cs_display_name s', er_generation = g, er_cursor = cs_cursor s'\<rparr>)))"

section \<open>Reading\<close>

definition character_key :: "pyval \<Rightarrow> string result" where
  "character_key v = (case v of
      PStr s \<Rightarrow>
        (let normalized = strip (remove_nul s) in
         if normalized = [] then invalid ''character must not be blank''
         else if 40 < length normalized then invalid ''character exceeds 40 characters''
         else Inr (casefold normalized))
    | _ \<Rightarrow> invalid ''character must be a string'')"

definition round3 :: "rat \<Rightarrow> rat" where
  \<comment> \<open>\<open>round(x, 3)\<close>: to the nearest thousandth, ties to even\<close>
  "round3 r = (let n = \<lfloor>1000 * r\<rfloor>; d = 1000 * r - of_int n in
     of_int (if d < 1 / 2 then n else if 1 / 2 < d then n + 1 else if even n then n else n + 1) / 1000)"

record snapshot_view =
  sv_snapshot :: "(string \<times> pyval) list"
  sv_cursor :: int
  sv_observed_at :: string
  sv_age_seconds :: rat
  sv_stale :: bool

definition read_snapshot :: "pyval \<Rightarrow> (string \<Rightarrow> rat) \<Rightarrow> world_state \<Rightarrow> snapshot_view option result" where
  "read_snapshot character age w =
     rbind (character_key character) (\<lambda>key.
     case find_state key w of
       None \<Rightarrow> Inr None
     | Some s \<Rightarrow> (case cs_snapshot s of
         None \<Rightarrow> Inr None
       | Some snap \<Rightarrow>
         let a = max 0 (age (sn_observed_at snap)) in
         rbind (snapshot_to_mapping snap) (\<lambda>m.
         Inr (Some \<lparr>sv_snapshot = m, sv_cursor = cs_cursor s, sv_observed_at = sn_observed_at snap,
           sv_age_seconds = round3 a, sv_stale = (ws_freshness_seconds w < a)\<rparr>))))"

record watch_reply =
  wr_character :: string
  wr_cursor :: int
  wr_events :: "(string \<times> pyval) list list"
  wr_timed_out :: bool
  wr_truncated :: bool

definition available_events :: "int \<Rightarrow> character_state option \<Rightarrow> stored_event list" where
  "available_events cursor st = (case st of None \<Rightarrow> [] | Some s \<Rightarrow> filter (\<lambda>x. cursor < se_cursor x) (cs_events s))"

definition watch_found :: "int \<Rightarrow> character_state \<Rightarrow> stored_event list \<Rightarrow> watch_reply result" where
  "watch_found cursor s available =
     rbind (rmap stored_to_mapping available) (\<lambda>events.
     Inr \<lparr>wr_character = cs_display_name s, wr_cursor = se_cursor (last available), wr_events = events,
       wr_timed_out = False, wr_truncated = (cursor < se_cursor (hd (cs_events s)) - 1)\<rparr>)"

definition watch_empty :: "string \<Rightarrow> character_state option \<Rightarrow> watch_reply" where
  "watch_empty character st =
     \<lparr>wr_character = (case st of None \<Rightarrow> character | Some s \<Rightarrow> cs_display_name s),
      wr_cursor = (case st of None \<Rightarrow> 0 | Some s \<Rightarrow> cs_cursor s), wr_events = [],
      wr_timed_out = True, wr_truncated = False\<rparr>"

text \<open>
  \<open>watch\<close> waits on the condition variable.  The environment is a list of wake-ups: the monotonic
  clock read after an empty look, and what other threads did to the state during the wait.
  \<open>None\<close> means that the call is still waiting when the list ends.
\<close>

type_synonym world_wakeup = "rat \<times> (world_state \<Rightarrow> world_state)"

fun watch_loop :: "string \<Rightarrow> string \<Rightarrow> int \<Rightarrow> rat \<Rightarrow> world_wakeup list \<Rightarrow> world_state \<Rightarrow> watch_reply world_op option" where
  "watch_loop character key cursor deadline [] w =
     (case (find_state key w, available_events cursor (find_state key w)) of
        (Some s, x # xs) \<Rightarrow> Some (w, watch_found cursor s (x # xs))
      | _ \<Rightarrow> None)"
| "watch_loop character key cursor deadline ((tick, env) # ws) w =
     (case (find_state key w, available_events cursor (find_state key w)) of
        (Some s, x # xs) \<Rightarrow> Some (w, watch_found cursor s (x # xs))
      | _ \<Rightarrow> if deadline - tick \<le> 0 then Some (w, Inr (watch_empty character (find_state key w)))
             else watch_loop character key cursor deadline ws (env w))"

definition watch_arguments :: "pyval \<Rightarrow> pyval \<Rightarrow> pyval \<Rightarrow> (string \<times> int \<times> rat) result" where
  "watch_arguments character cursor timeout =
     rbind (character_key character) (\<lambda>key.
     case cursor of
       PInt c \<Rightarrow>
         if c < 0 then invalid ''cursor must be a nonnegative integer'' else
         (case float_of_number timeout of
            None \<Rightarrow> invalid ''timeout must be a number''
          | Some converted \<Rightarrow> rbind converted (\<lambda>f. case f of
              Fin t \<Rightarrow> if 0 \<le> t \<and> t \<le> of_nat max_watch_timeout_seconds then Inr (key, c, t)
                else invalid ''timeout must be between 0 and 30 seconds''
            | _ \<Rightarrow> invalid ''timeout must be between 0 and 30 seconds''))
     | _ \<Rightarrow> invalid ''cursor must be a nonnegative integer'')"

definition watch :: "pyval \<Rightarrow> pyval \<Rightarrow> pyval \<Rightarrow> rat \<Rightarrow> world_wakeup list \<Rightarrow> world_state \<Rightarrow> watch_reply world_op option" where
  "watch character cursor timeout start ws w = (case watch_arguments character cursor timeout of
      Inl e \<Rightarrow> Some (w, Inl e)
    | Inr (key, c, t) \<Rightarrow> watch_loop (py_str character) key c (start + t) ws w)"

end
