(* ===== verification/WorldProperties.thy ===== *)
theory WorldProperties
  imports WorldState ProtocolProperties
begin

text \<open>
  The timeline of a character: a generation that was replaced never becomes active again, sequence
  numbers increase within a generation, and the event log is a window of consecutively numbered
  events that a watcher replays without gaps or duplicates.
\<close>

section \<open>Steps and invariant\<close>

inductive world_step :: "world_state \<Rightarrow> world_state \<Rightarrow> bool" where
  step_snapshot: "world_step w (fst (publish_snapshot snap w))"
| step_event: "world_step w (fst (publish_event e w))"

inductive_cases world_stepE: "world_step w w'"

definition cursors :: "stored_event list \<Rightarrow> int list" where
  "cursors xs = map se_cursor xs"

definition log_ok :: "nat \<Rightarrow> character_state \<Rightarrow> bool" where
  \<comment> \<open>the last events, at most the capacity, numbered consecutively up to the cursor\<close>
  "log_ok capacity s =
     (0 \<le> cs_cursor s \<and> int (length (cs_events s)) = min (int capacity) (cs_cursor s)
      \<and> cursors (cs_events s) = [cs_cursor s + 1 - int (length (cs_events s))..cs_cursor s])"

definition timeline_ok :: "character_state \<Rightarrow> bool" where
  "timeline_ok s = (\<exists>g. cs_generation s = Some g \<and> g \<notin> set (cs_retired_generations s)
     \<and> (case cs_snapshot s of None \<Rightarrow> cs_sequence s = None
        | Some snap \<Rightarrow> sn_generation snap = g \<and> cs_sequence s = Some (sn_sequence snap)))"

definition world_inv :: "world_state \<Rightarrow> bool" where
  "world_inv w = (0 < ws_event_capacity w \<and>
     (\<forall>k s. find_state k w = Some s \<longrightarrow> log_ok (ws_event_capacity w) s \<and> timeline_ok s))"

definition world_start :: "world_state \<Rightarrow> bool" where
  "world_start w = (\<exists>capacity freshness. world_init capacity freshness = Inr w)"

lemma find_put_state [simp]: "find_state k (put_state key s w) = (if k = key then Some s else find_state k w)"
  by (simp add: find_state_def put_state_def)

lemma capacity_put_state [simp]:
  "ws_event_capacity (put_state key s w) = ws_event_capacity w"
  "ws_freshness_seconds (put_state key s w) = ws_freshness_seconds w"
  by (simp_all add: put_state_def)

lemma dput_same: "map_of d k = Some v \<Longrightarrow> dput k v d = d"
  by (induction d) (auto split: if_splits)

lemma put_state_same: "find_state k w = Some s \<Longrightarrow> put_state k s w = w"
  by (simp add: put_state_def find_state_def dput_same)

lemma put_state_twice [simp]: "put_state k t (put_state k s w) = put_state k t w"
proof -
  have "dput k t (dput k s d) = dput k t d" for d :: "(string, character_state) dict"
    by (induction d) auto
  then show ?thesis by (simp add: put_state_def)
qed

lemma drop_upto: "drop n [a..b] = [a + int n..b]"
proof (induction n arbitrary: a)
  case (Suc n)
  show ?case
  proof (cases "a \<le> b")
    case True
    then show ?thesis using Suc [of "a + 1"] by (simp add: upto_rec1 [of a b] algebra_simps)
  qed simp
qed simp

lemma deque_push_numbered:
  assumes "map f xs = [c + 1 - int (length xs)..c]" and "f x = c + 1" and "0 < n"
  shows "map f (deque_push n x xs) = [c + 2 - int (length (deque_push n x xs))..c + 1]"
proof -
  have "[c + 1 - int (length xs)..c] @ [c + 1] = [c + 1 - int (length xs)..c + 1]"
    by (subst (2) upto_rec2) auto
  with assms(1,2) have "map f (xs @ [x]) = [c + 1 - int (length xs)..c + 1]" by simp
  moreover have "map f (deque_push n x xs) = drop (Suc (length xs) - n) (map f (xs @ [x]))"
    using drop_map [of "Suc 0 - n" f "[x]"] by (simp add: deque_push_def drop_map)
  ultimately have "map f (deque_push n x xs) = [c + 1 - int (length xs) + int (Suc (length xs) - n)..c + 1]"
    by (simp only: drop_upto)
  also have "c + 1 - int (length xs) + int (Suc (length xs) - n) = c + 2 - int (length (deque_push n x xs))"
    by (auto simp: min_def)
  finally show ?thesis .
qed

lemma append_event_log:
  assumes "log_ok n s" and "0 < n"
  shows "log_ok n (append_event_locked n e s)"
proof -
  let ?x = "\<lparr>se_cursor = cs_cursor s + 1, se_event = e\<rparr>"
  have "map se_cursor (cs_events s) = [cs_cursor s + 1 - int (length (cs_events s))..cs_cursor s]"
    and len: "0 \<le> cs_cursor s" "int (length (cs_events s)) = min (int n) (cs_cursor s)"
    using assms(1) by (simp_all add: log_ok_def cursors_def)
  from deque_push_numbered [OF this(1), of ?x n] assms(2)
  have "map se_cursor (deque_push n ?x (cs_events s))
      = [cs_cursor s + 2 - int (length (deque_push n ?x (cs_events s)))..cs_cursor s + 1]" by simp
  moreover have "int (length (deque_push n ?x (cs_events s))) = min (int n) (cs_cursor s + 1)"
    using len by (simp add: of_nat_min)
  ultimately show ?thesis
    using len(1) by (simp add: log_ok_def append_event_locked_def cursors_def algebra_simps del: length_deque_push)
qed

lemma append_event_other [simp]:
  "cs_generation (append_event_locked n e s) = cs_generation s"
  "cs_sequence (append_event_locked n e s) = cs_sequence s"
  "cs_snapshot (append_event_locked n e s) = cs_snapshot s"
  "cs_retired_generations (append_event_locked n e s) = cs_retired_generations s"
  "cs_display_name (append_event_locked n e s) = cs_display_name s"
  "cs_cursor (append_event_locked n e s) = cs_cursor s + 1"
  by (simp_all add: append_event_locked_def)
section \<open>What publishing does\<close>

definition stored_snapshot :: "character_snapshot \<Rightarrow> character_state \<Rightarrow> character_state \<Rightarrow> bool" where
  \<comment> \<open>the state after a snapshot was stored in it, with or without an event\<close>
  "stored_snapshot snap s s' =
     (cs_snapshot s' = Some snap \<and> cs_generation s' = cs_generation s \<and> cs_sequence s' = Some (sn_sequence snap)
      \<and> cs_display_name s' = sn_character snap \<and> cs_retired_generations s' = cs_retired_generations s
      \<and> (\<forall>n. cs_sequence s = Some n \<longrightarrow> n < sn_sequence snap) \<and> cs_cursor s \<le> cs_cursor s')"

lemma semantic_raises: "raises_only validation_error (semantic_snapshot s)"
  unfolding semantic_snapshot_def by (intro strict_errors.raise strict_errors.snapshot_printing_raises)

lemma changed_fields_raises: "raises_only validation_error (changed_fields p s)"
  unfolding changed_fields_def by (intro strict_errors.raise semantic_raises)

lemma store_snapshot_cases:
  assumes "store_snapshot n snap replaced s = (s', r)" and "log_ok n s" and "0 < n"
  obtains (refused) e where "r = Inl e" and "s' = s" and "cs_sequence s \<noteq> None \<or> cs_snapshot s \<noteq> None"
    | (stored) "stored_snapshot snap s s'" and "log_ok n s'" and "\<And>e. r = Inl e \<Longrightarrow> validation_error e"
proof (cases "case cs_sequence s of None \<Rightarrow> False | Some n \<Rightarrow> sn_sequence snap \<le> n")
  case True
  with assms(1) show thesis by (intro refused) (auto simp: store_snapshot_def split: option.splits)
next
  case False
  then have newer: "\<forall>n. cs_sequence s = Some n \<longrightarrow> n < sn_sequence snap" by (simp split: option.splits)
  show thesis
  proof (cases "snapshot_changed (cs_snapshot s) snap")
    case (Inl e)
    with assms(1) False have "r = Inl e" "s' = s" by (simp_all add: store_snapshot_def)
    moreover from Inl have "cs_snapshot s \<noteq> None" by (cases "cs_snapshot s") (simp_all add: snapshot_changed_def)
    ultimately show thesis by (intro refused) simp_all
  next
    case (Inr changed)
    let ?s2 = "s\<lparr>cs_display_name := sn_character snap, cs_sequence := Some (sn_sequence snap), cs_snapshot := Some snap\<rparr>"
    have "s' = ?s2 \<or> (\<exists>e. s' = append_event_locked n e ?s2)"
      and error: "r = Inl e \<Longrightarrow> changed_fields (cs_snapshot s) snap = Inl e" for e
      using assms(1) False Inr by (auto simp: store_snapshot_def Let_def split: if_splits sum.splits)
    moreover have "log_ok n ?s2" using assms(2) by (simp add: log_ok_def)
    moreover have "r = Inl e \<Longrightarrow> validation_error e" for e
      using error changed_fields_raises [of "cs_snapshot s" snap] by (auto simp: raises_only_def)
    ultimately show thesis
      using newer append_event_log [OF _ assms(3)] by (intro stored) (auto simp: stored_snapshot_def)
  qed
qed

lemma publish_snapshot_cases:
  assumes "world_inv w" and "publish_snapshot snap w = (w', r)"
  obtains (rejected) e where "r = Inl e" and "w' = w"
    | (first) s' where "find_state (casefold (sn_character snap)) w = None"
        and "w' = put_state (casefold (sn_character snap)) s' w"
        and "stored_snapshot snap ((new_character (sn_character snap))\<lparr>cs_generation := Some (sn_generation snap)\<rparr>) s'"
        and "log_ok (ws_event_capacity w) s'" and "\<And>e. r = Inl e \<Longrightarrow> validation_error e"
    | (same) s s' where "find_state (casefold (sn_character snap)) w = Some s"
        and "w' = put_state (casefold (sn_character snap)) s' w" and "cs_generation s = Some (sn_generation snap)"
        and "stored_snapshot snap s s'" and "log_ok (ws_event_capacity w) s'"
        and "\<And>e. r = Inl e \<Longrightarrow> validation_error e"
    | (replaced) s s' old where "find_state (casefold (sn_character snap)) w = Some s"
        and "w' = put_state (casefold (sn_character snap)) s' w" and "cs_generation s = Some old"
        and "old \<noteq> sn_generation snap" and "sn_generation snap \<notin> set (cs_retired_generations s)"
        and "stored_snapshot snap (s\<lparr>cs_retired_generations := List.insert old (cs_retired_generations s),
               cs_generation := Some (sn_generation snap), cs_sequence := None, cs_snapshot := None\<rparr>) s'"
        and "log_ok (ws_event_capacity w) s'" and "\<And>e. r = Inl e \<Longrightarrow> validation_error e"
proof -
  have pos: "0 < ws_event_capacity w" using assms(1) by (simp add: world_inv_def)
  show thesis
proof (cases "find_state (casefold (sn_character snap)) w")
  case None
  let ?s = "(new_character (sn_character snap))\<lparr>cs_generation := Some (sn_generation snap)\<rparr>"
  obtain s' r' where st: "store_snapshot (ws_event_capacity w) snap None ?s = (s', r')" by fastforce
  with assms(2) None have w': "w' = put_state (casefold (sn_character snap)) s' w" "r' = r"
    by (simp_all add: publish_snapshot_def Let_def admit_snapshot_generation_def new_character_def)
  have "log_ok (ws_event_capacity w) ?s" by (simp add: log_ok_def new_character_def cursors_def)
  from st this pos show thesis
  proof (cases rule: store_snapshot_cases)
    case (refused e)
    then show thesis by (simp add: new_character_def)
  next
    case stored
    then show thesis using first [OF None w'(1)] w'(2) by blast
  qed
next
  case (Some s)
  note s = this
  with assms(1) obtain g where g: "cs_generation s = Some g" and log: "log_ok (ws_event_capacity w) s"
    by (auto simp: world_inv_def timeline_ok_def)
  show thesis
  proof (cases "sn_generation snap = g")
    case True
    obtain s' r' where st: "store_snapshot (ws_event_capacity w) snap None s = (s', r')" by fastforce
    with assms(2) s g True have w': "w' = put_state (casefold (sn_character snap)) s' w" "r' = r"
      by (simp_all add: publish_snapshot_def Let_def admit_snapshot_generation_def)
    from st log pos show thesis
    proof (cases rule: store_snapshot_cases)
      case (refused e)
      with w' s show thesis by (intro rejected) (auto simp: put_state_same)
    next
      case stored
      then show thesis using same [OF s w'(1)] g True w'(2) by blast
    qed
  next
    case False
    show thesis
    proof (cases "sn_generation snap \<in> set (cs_retired_generations s)")
      case True
      with assms(2) s g False show thesis
        by (intro rejected) (auto simp: publish_snapshot_def Let_def admit_snapshot_generation_def put_state_same)
    next
      case new: False
      let ?s = "s\<lparr>cs_retired_generations := List.insert g (cs_retired_generations s),
               cs_generation := Some (sn_generation snap), cs_sequence := None, cs_snapshot := None\<rparr>"
      obtain s' r' where st: "store_snapshot (ws_event_capacity w) snap (Some g) ?s = (s', r')" by fastforce
      with assms(2) s g False new have w': "w' = put_state (casefold (sn_character snap)) s' w" "r' = r"
        by (simp_all add: publish_snapshot_def Let_def admit_snapshot_generation_def)
      have "log_ok (ws_event_capacity w) ?s" using log by (simp add: log_ok_def)
      from st this pos show thesis
      proof (cases rule: store_snapshot_cases)
        case (refused e)
        then show thesis by simp
      next
        case stored
        then show thesis using replaced [OF s w'(1) g] False new w'(2) by blast
      qed
    qed
  qed
qed
qed

lemma publish_event_cases:
  assumes "publish_event e w = (w', r)"
  obtains (rejected) m where "r = Inl (StateConflict m)" and "w' = w"
    | (logged) s where "find_state (casefold (ev_character e)) w = Some s" and "cs_generation s = Some (ev_generation e)"
        and "w' = put_state (casefold (ev_character e)) (append_event_locked (ws_event_capacity w) e s) w"
        and "r = Inr \<lparr>er_character = cs_display_name s, er_generation = ev_generation e, er_cursor = cs_cursor s + 1\<rparr>"
  using assms unfolding publish_event_def Let_def
  by (auto split: option.splits if_splits)

lemma stored_timeline:
  "stored_snapshot snap s s' \<Longrightarrow> cs_generation s = Some (sn_generation snap)
    \<Longrightarrow> sn_generation snap \<notin> set (cs_retired_generations s) \<Longrightarrow> timeline_ok s'"
  by (simp add: stored_snapshot_def timeline_ok_def)

lemma world_inv_put:
  assumes "world_inv w" and "log_ok (ws_event_capacity w) s" and "timeline_ok s"
  shows "world_inv (put_state k s w)"
  using assms by (simp add: world_inv_def)

lemma publish_snapshot_inv:
  assumes "world_inv w" shows "world_inv (fst (publish_snapshot snap w))"
proof -
  obtain w' r where p: "publish_snapshot snap w = (w', r)" by fastforce
  from assms p show ?thesis
  proof (cases rule: publish_snapshot_cases)
    case (first s')
    then have "timeline_ok s'" by (intro stored_timeline [OF first(3)]) (simp_all add: new_character_def)
    with first p assms show ?thesis by (simp add: world_inv_put)
  next
    case (same s s')
    with assms have "timeline_ok s" by (auto simp: world_inv_def)
    with same have "timeline_ok s'" by (intro stored_timeline [of snap s]) (auto simp: timeline_ok_def)
    with same p assms show ?thesis by (simp add: world_inv_put)
  next
    case (replaced s s' old)
    then have "timeline_ok s'" by (intro stored_timeline [OF replaced(6)]) auto
    with replaced p assms show ?thesis by (simp add: world_inv_put)
  qed (use p assms in simp_all)
qed

lemma publish_event_inv:
  assumes "world_inv w" shows "world_inv (fst (publish_event e w))"
proof -
  obtain w' r where p: "publish_event e w = (w', r)" by fastforce
  from p show ?thesis
  proof (cases rule: publish_event_cases)
    case (logged s)
    with assms have s: "log_ok (ws_event_capacity w) s" "timeline_ok s" "0 < ws_event_capacity w"
      by (auto simp: world_inv_def)
    then have "timeline_ok (append_event_locked (ws_event_capacity w) e s)"
      by (simp only: timeline_ok_def append_event_other)
    with s p logged(3) assms show ?thesis by (simp add: world_inv_put append_event_log)
  qed (use p assms in simp)
qed

definition state_evolves :: "character_state \<Rightarrow> character_state \<Rightarrow> bool" where
  \<comment> \<open>what a later state of a character owes to an earlier one\<close>
  "state_evolves s t =
     (set (cs_retired_generations s) \<subseteq> set (cs_retired_generations t) \<and> cs_cursor s \<le> cs_cursor t
      \<and> (cs_generation t = cs_generation s
           \<and> (\<forall>n. cs_sequence s = Some n \<longrightarrow> (\<exists>m. cs_sequence t = Some m \<and> n \<le> m))
         \<or> (\<forall>g. cs_generation s = Some g \<longrightarrow> g \<in> set (cs_retired_generations t))))"

lemma evolves_self: "state_evolves s s"
  by (simp add: state_evolves_def)

interpretation world: invariant_system world_start world_step world_inv
proof
  fix s t
  show "world_inv t" if "world_inv s" "world_step s t"
    using that(2,1) by (cases rule: world_step.cases) (simp_all add: publish_snapshot_inv publish_event_inv)
  show "world_inv s" if "world_start s"
  proof -
    from that obtain capacity freshness where "world_init capacity freshness = Inr s"
      unfolding world_start_def by blast
    then show ?thesis
      by (cases capacity) (auto simp: world_init_def world_inv_def find_state_def split: if_splits)
  qed
qed

interpretation world_timeline: evolving_system world_step world_inv "\<lambda>w k. find_state k w" state_evolves
proof
  show "state_evolves e e" for e by (simp add: state_evolves_def)
  show "state_evolves e g" if "state_evolves e f" "state_evolves f g" for e f g
    using that unfolding state_evolves_def by (fastforce)
  show "world_inv t" if "world_inv s" "world_step s t" for s t by (rule world.inv_step [OF that])
  show "\<exists>f. find_state k t = Some f \<and> state_evolves e f"
    if "world_inv s" "world_step s t" "find_state k s = Some e" for s t k e
    using that(2)
  proof (cases rule: world_step.cases)
    case (step_snapshot snap)
    obtain w' r where p: "publish_snapshot snap s = (w', r)" by fastforce
    from that(1) p show ?thesis
    proof (cases rule: publish_snapshot_cases)
      case (same s' t')
      then have "state_evolves s' t'" by (auto simp: stored_snapshot_def state_evolves_def)
      with same p that step_snapshot show ?thesis by (auto simp: evolves_self)
    next
      case (replaced s' t' old)
      then have "state_evolves s' t'" by (auto simp: stored_snapshot_def state_evolves_def)
      with replaced p that step_snapshot show ?thesis by (auto simp: evolves_self)
    qed (use p that step_snapshot in \<open>auto simp: evolves_self\<close>)
  next
    case (step_event x)
    obtain w' r where p: "publish_event x s = (w', r)" by fastforce
    from p show ?thesis
    proof (cases rule: publish_event_cases)
      case (logged s')
      have "state_evolves s' (append_event_locked n x s')" for n by (simp add: state_evolves_def)
      with logged p that step_event show ?thesis by (auto simp: evolves_self)
    qed (use p that step_event in \<open>auto simp: evolves_self\<close>)
  qed
qed

section \<open>Watching\<close>

lemma filter_upto: "filter (\<lambda>i. c < i) [a..b] = [max a (c + 1)..b]"
proof (induction a b rule: upto.induct)
  case (1 a b)
  show ?case
  proof (cases "a \<le> b")
    case True
    then have e: "filter (\<lambda>i. c < i) [a..b] = (if c < a then [a] else []) @ [max (a + 1) (c + 1)..b]"
      using 1 by (simp add: upto_rec1 [of a b])
    show ?thesis
    proof (cases "c < a")
      case True
      then have "max a (c + 1) = a" "max (a + 1) (c + 1) = a + 1" by simp_all
      with True \<open>a \<le> b\<close> show ?thesis using e by (simp add: upto_rec1 [of a b])
    next
      case False
      with e show ?thesis by (simp add: max_def)
    qed
  qed simp
qed

lemma available_cursors:
  assumes "log_ok n s"
  shows "cursors (available_events c (Some s)) = [max (cs_cursor s + 1 - int (length (cs_events s))) (c + 1)..cs_cursor s]"
proof -
  have "cursors (available_events c (Some s)) = filter (\<lambda>i. c < i) (cursors (cs_events s))"
    by (simp add: available_events_def cursors_def filter_map comp_def)
  with assms filter_upto show ?thesis by (simp add: log_ok_def)
qed

lemma stored_to_mapping_cursor: "stored_to_mapping x = Inr m \<Longrightarrow> dget ''cursor'' m = PInt (se_cursor x)"
  by (auto simp: stored_to_mapping_def rbind_Inr_iff dget_def)

lemma rmap_cursors:
  "rmap stored_to_mapping xs = Inr ms \<Longrightarrow> map (dget ''cursor'') ms = map PInt (cursors xs)"
proof (induction xs arbitrary: ms)
  case (Cons x xs)
  from Cons.prems obtain m ns where "stored_to_mapping x = Inr m" "rmap stored_to_mapping xs = Inr ns" "ms = m # ns"
    by (auto simp: rmap_def rbind_Inr_iff rmapi_shift [of _ "Suc 0" _ 0])
  with Cons.IH [of ns] stored_to_mapping_cursor [of x m] show ?case by (simp add: cursors_def)
qed (simp add: rmap_def cursors_def)

lemma watch_loop_found:
  assumes "watch_loop character key c deadline ws w = Some (w', Inr r)" and "\<not> wr_timed_out r"
    and "world_inv w" and "\<forall>(tick, env) \<in> set ws. \<forall>w. runs world_step w (env w)"
  shows "world_inv w' \<and> (\<exists>s. find_state key w' = Some s \<and> available_events c (Some s) \<noteq> []
    \<and> watch_found c s (available_events c (Some s)) = Inr r)"
  using assms
proof (induction ws arbitrary: w)
  case Nil
  then show ?case by (auto split: option.splits list.splits)
next
  case (Cons x ws)
  obtain tick env where x: "x = (tick, env)" by fastforce
  show ?case
  proof (cases "\<exists>s y ys. find_state key w = Some s \<and> available_events c (find_state key w) = y # ys")
    case True
    with Cons.prems x show ?thesis by auto
  next
    case False
    then have look: "(case (find_state key w, available_events c (find_state key w)) of
        (Some s, x # xs) \<Rightarrow> Some (w, watch_found c s (x # xs)) | _ \<Rightarrow> z) = z" for z
      by (auto split: option.splits list.splits)
    have empty: "wr_timed_out (watch_empty character st)" for st by (simp add: watch_empty_def)
    from Cons.prems(1,2) empty have "watch_loop character key c deadline ws (env w) = Some (w', Inr r)"
      unfolding x watch_loop.simps look by (auto split: if_splits)
    moreover have "world_inv (env w)"
      using Cons.prems(3,4) x world.runs_inv [of w "env w"] by simp
    ultimately show ?thesis using Cons.IH [of "env w"] Cons.prems(2,4) by simp
  qed
qed

lemma watch_found_replays:
  assumes "log_ok n s" and "0 \<le> c" and "available_events c (Some s) \<noteq> []"
    and "watch_found c s (available_events c (Some s)) = Inr r"
  shows "wr_cursor r = cs_cursor s \<and> c < cs_cursor s
    \<and> map (dget ''cursor'') (wr_events r) = map PInt [if wr_truncated r then cs_cursor s + 1 - int n else c + 1..cs_cursor s]
    \<and> (wr_truncated r \<longleftrightarrow> c + 1 < cs_cursor s + 1 - int n)"
proof -
  let ?av = "available_events c (Some s)"
  let ?lo = "cs_cursor s + 1 - int (length (cs_events s))"
  from assms(1) have len: "int (length (cs_events s)) = min (int n) (cs_cursor s)" and "0 \<le> cs_cursor s"
    and all: "map se_cursor (cs_events s) = [?lo..cs_cursor s]"
    by (simp_all add: log_ok_def cursors_def)
  have av: "map se_cursor ?av = [max ?lo (c + 1)..cs_cursor s]"
    using available_cursors [OF assms(1), of c] by (simp add: cursors_def)
  with assms(3) have le: "max ?lo (c + 1) \<le> cs_cursor s" by (metis Nil_is_map_conv upto_Nil linorder_not_le)
  have "se_cursor (last ?av) = last [max ?lo (c + 1)..cs_cursor s]"
    using assms(3) by (simp add: av [symmetric] last_map)
  with le have last: "se_cursor (last ?av) = cs_cursor s" by (simp add: upto_rec2 [of "max ?lo (c + 1)"])
  have "cs_events s \<noteq> []" using assms(3) by (auto simp: available_events_def)
  then have "se_cursor (hd (cs_events s)) = hd [?lo..cs_cursor s]" by (simp add: all [symmetric] hd_map)
  with le have hd: "se_cursor (hd (cs_events s)) = ?lo" by (simp add: upto_rec1 [of ?lo])
  from assms(4) obtain ms where ms: "rmap stored_to_mapping ?av = Inr ms" "wr_events r = ms"
    and r: "wr_cursor r = cs_cursor s" "wr_truncated r = (c < ?lo - 1)"
    unfolding watch_found_def last hd by (auto simp: rbind_Inr_iff)
  have "map (dget ''cursor'') (wr_events r) = map PInt [max ?lo (c + 1)..cs_cursor s]"
    using rmap_cursors [OF ms(1)] ms(2) by (simp add: cursors_def av)
  moreover have "max ?lo (c + 1) = (if wr_truncated r then cs_cursor s + 1 - int n else c + 1)"
    and "wr_truncated r \<longleftrightarrow> c + 1 < cs_cursor s + 1 - int n"
    using r(2) len assms(2) by (auto simp: min_def max_def)
  ultimately show ?thesis using r(1) le by auto
qed

lemma watch_arguments_Inr:
  assumes "watch_arguments character cursor timeout = Inr (key, c, t)"
  shows "character_key character = Inr key" and "cursor = PInt c" and "0 \<le> c"
proof -
  from assms obtain k where k: "character_key character = Inr k"
    by (cases "character_key character") (simp_all add: watch_arguments_def)
  from assms k obtain i where i: "cursor = PInt i" "0 \<le> i"
    by (cases cursor) (auto simp: watch_arguments_def split: if_splits)
  from assms k i obtain r where r: "float_of_number timeout = Some r"
    by (cases "float_of_number timeout") (simp_all add: watch_arguments_def)
  from assms k i r obtain f where f: "r = Inr f" by (cases r) (simp_all add: watch_arguments_def)
  from assms k i r f have "key = k \<and> c = i"
    by (cases f) (simp_all add: watch_arguments_def split: if_splits)
  with k i show "character_key character = Inr key" "cursor = PInt c" "0 \<le> c" by simp_all
qed

section \<open>Concrete states\<close>

definition demo_next :: character_snapshot where
  \<comment> \<open>the next snapshot of the same session, one room further\<close>
  "demo_next = demo_snapshot\<lparr>sn_sequence := 8, sn_room := PDict [(''id'', PStr ''229'')]\<rparr>"

definition demo_restart :: character_snapshot where
  "demo_restart = demo_snapshot\<lparr>sn_generation := ''g2'', sn_sequence := 1\<rparr>"

definition world0 :: world_state where
  "world0 = \<lparr>ws_event_capacity = 2, ws_freshness_seconds = 30, ws_characters = []\<rparr>"

definition world1 :: world_state where "world1 = fst (publish_snapshot demo_snapshot world0)"
definition world2 :: world_state where "world2 = fst (publish_snapshot demo_next world1)"
definition world3 :: world_state where "world3 = fst (publish_snapshot demo_restart world2)"

lemma world_reachable:
  "reach world_start world_step world0" "reach world_start world_step world1"
  "reach world_start world_step world2" "reach world_start world_step world3"
proof -
  have "world_init (PInt 2) 30 = Inr world0" by (simp add: world_init_def world0_def)
  then show 0: "reach world_start world_step world0" by (intro reach_init) (auto simp: world_start_def)
  show 1: "reach world_start world_step world1"
    unfolding world1_def by (rule reach_step [OF 0 step_snapshot])
  show 2: "reach world_start world_step world2"
    unfolding world2_def by (rule reach_step [OF 1 step_snapshot])
  show "reach world_start world_step world3"
    unfolding world3_def by (rule reach_step [OF 2 step_snapshot])
qed

section \<open>Properties\<close>

lemma replaced_is_retired:
  assumes "world_inv w0" and "find_state k w0 = Some s0" and "cs_generation s0 = Some g"
    and "runs world_step w0 w1" and "find_state k w1 = Some s1" and "cs_generation s1 \<noteq> Some g"
  shows "world_inv w1 \<and> g \<in> set (cs_retired_generations s1)"
  using world_timeline.runs_evolve [OF assms(4,1,2)] assms(3,5,6) by (auto simp: state_evolves_def)

text \<open>C26: A session generation that was active for a character and then replaced never becomes the active one
  again, whatever is published afterwards: its snapshots and its events are refused and change nothing.\<close>

theorem retired_generation_stays_out:
  assumes "reach world_start world_step w0" and "find_state k w0 = Some s0" and "cs_generation s0 = Some g"
    and "runs world_step w0 w1" and "find_state k w1 = Some s1" and "cs_generation s1 \<noteq> Some g"
    and "runs world_step w1 w"
  shows "(\<exists>s. find_state k w = Some s \<and> cs_generation s \<noteq> Some g)
    \<and> (\<forall>snap. casefold (sn_character snap) = k \<and> sn_generation snap = g \<longrightarrow>
         publish_snapshot snap w = (w, Inl (StateConflict ''snapshot generation is stale for this character'')))
    \<and> (\<forall>e. casefold (ev_character e) = k \<and> ev_generation e = g \<longrightarrow>
         publish_event e w = (w, Inl (StateConflict ''event generation is stale for this character'')))"
proof -
  from replaced_is_retired [OF world.reach_inv [OF assms(1)] assms(2-6)]
  have w1: "world_inv w1" "g \<in> set (cs_retired_generations s1)" by simp_all
  from world_timeline.runs_evolve [OF assms(7) w1(1) assms(5)] obtain t
    where inv: "world_inv w" and t: "find_state k w = Some t" "state_evolves s1 t" by blast
  from t(2) w1(2) have g: "g \<in> set (cs_retired_generations t)" by (auto simp: state_evolves_def)
  from inv t(1) obtain h where h: "cs_generation t = Some h" "h \<notin> set (cs_retired_generations t)"
    by (auto simp: world_inv_def timeline_ok_def)
  with g have "g \<noteq> h" by blast
  with t(1) h(1) g show ?thesis
    by (auto simp: publish_snapshot_def publish_event_def Let_def admit_snapshot_generation_def put_state_same)
qed

lemma retired_generation_stays_out_witness:
  "publish_snapshot demo_next world3 =
     (world3, Inl (StateConflict ''snapshot generation is stale for this character''))"
proof -
  have "map_option cs_generation (find_state ''ann'' world2) = Some (Some ''g1'')"
    "map_option cs_generation (find_state ''ann'' world3) = Some (Some ''g2'')" by code_simp+
  then obtain s0 s1 where s: "find_state ''ann'' world2 = Some s0" "cs_generation s0 = Some ''g1''"
      "find_state ''ann'' world3 = Some s1" "cs_generation s1 \<noteq> Some ''g1''"
    by auto
  have "runs world_step world2 world3" unfolding world3_def by (rule runs_step, rule runs_refl, rule step_snapshot)
  from retired_generation_stays_out [OF world_reachable(3) s(1,2) this s(3,4) runs_refl]
  have "\<forall>snap. casefold (sn_character snap) = ''ann'' \<and> sn_generation snap = ''g1'' \<longrightarrow>
      publish_snapshot snap world3 = (world3, Inl (StateConflict ''snapshot generation is stale for this character''))" by blast
  moreover have "casefold (sn_character demo_next) = ''ann''" "sn_generation demo_next = ''g1''" by code_simp+
  ultimately show ?thesis by blast
qed

text \<open>An accepted snapshot becomes the current one of its character and of no other.  Its sequence
  number is greater than that of the snapshot it follows in its generation, or its generation is new
  and the replaced one is retired.\<close>

theorem accepted_snapshot_is_newest:
  assumes "reach world_start world_step w" and "publish_snapshot snap w = (w', Inr r)"
  shows "(\<exists>s'. find_state (casefold (sn_character snap)) w' = Some s' \<and> cs_snapshot s' = Some snap
        \<and> cs_generation s' = Some (sn_generation snap) \<and> cs_sequence s' = Some (sn_sequence snap)
        \<and> (\<forall>s. find_state (casefold (sn_character snap)) w = Some s \<longrightarrow>
              cs_generation s = Some (sn_generation snap) \<and> (\<forall>n. cs_sequence s = Some n \<longrightarrow> n < sn_sequence snap)
            \<or> sn_generation snap \<notin> set (cs_retired_generations s)
              \<and> (\<exists>old. cs_generation s = Some old \<and> old \<noteq> sn_generation snap \<and> old \<in> set (cs_retired_generations s'))))
    \<and> (\<forall>k. k \<noteq> casefold (sn_character snap) \<longrightarrow> find_state k w' = find_state k w)"
proof -
  have "world_inv w" using assms(1) by (rule world.reach_inv)
  from this assms(2) show ?thesis
    by (cases rule: publish_snapshot_cases) (auto simp: stored_snapshot_def)
qed

lemma accepted_snapshot_is_newest_witness:
  "\<exists>s'. find_state ''ann'' world2 = Some s' \<and> cs_snapshot s' = Some demo_next \<and> cs_sequence s' = Some 8"
proof -
  have "isl (snd (publish_snapshot demo_next world1)) = False" by code_simp
  then obtain r where "publish_snapshot demo_next world1 = (world2, Inr r)"
    by (cases "publish_snapshot demo_next world1"; cases "snd (publish_snapshot demo_next world1)")
       (auto simp: world2_def)
  from accepted_snapshot_is_newest [OF world_reachable(2) this]
  have "\<exists>s'. find_state (casefold (sn_character demo_next)) world2 = Some s' \<and> cs_snapshot s' = Some demo_next
    \<and> cs_sequence s' = Some (sn_sequence demo_next)" by blast
  moreover have "casefold (sn_character demo_next) = ''ann''" "sn_sequence demo_next = 8" by code_simp+
  ultimately show ?thesis by simp
qed

text \<open>A publication refused because of the session timeline changes nothing.\<close>

theorem conflict_changes_nothing:
  assumes "reach world_start world_step w"
    and "publish_snapshot snap w = (w', Inl (StateConflict m)) \<or> publish_event e w = (w', Inl (StateConflict m))"
  shows "w' = w"
  using assms(2)
proof
  assume p: "publish_snapshot snap w = (w', Inl (StateConflict m))"
  have "world_inv w" using assms(1) by (rule world.reach_inv)
  from this p show ?thesis by (cases rule: publish_snapshot_cases) (auto simp: validation_error_def)
next
  assume "publish_event e w = (w', Inl (StateConflict m))"
  then show ?thesis by (cases rule: publish_event_cases) auto
qed

lemma conflict_changes_nothing_witness:
  "fst (publish_snapshot demo_snapshot world2) = world2"
proof -
  have "snd (publish_snapshot demo_snapshot world2)
      = Inl (StateConflict ''snapshot sequence must strictly increase within its generation'')" by code_simp
  then have "publish_snapshot demo_snapshot world2 = (fst (publish_snapshot demo_snapshot world2),
      Inl (StateConflict ''snapshot sequence must strictly increase within its generation''))"
    by (metis prod.collapse)
  from conflict_changes_nothing [OF world_reachable(3) disjI1 [OF this]] show ?thesis .
qed

text \<open>C27: A watch that returns before its deadline replays the log: the events it returns are those
  numbered from its cursor on, consecutively and up to the current cursor, which it returns.  When
  it reports truncation, and only then, older events had already left the bounded log, and it starts
  with the oldest one kept.  Other threads may publish anything while it waits.\<close>

theorem watch_replays_log:
  assumes "reach world_start world_step w"
    and "watch character cursor timeout start ws w = Some (w', Inr r)" and "\<not> wr_timed_out r"
    and "\<forall>(tick, env) \<in> set ws. \<forall>w. runs world_step w (env w)"
  shows "\<exists>c key s. cursor = PInt c \<and> character_key character = Inr key \<and> find_state key w' = Some s
    \<and> wr_cursor r = cs_cursor s \<and> c < cs_cursor s
    \<and> map (dget ''cursor'') (wr_events r)
        = map PInt [if wr_truncated r then cs_cursor s + 1 - int (ws_event_capacity w') else c + 1..cs_cursor s]
    \<and> (wr_truncated r \<longleftrightarrow> c < cs_cursor s - int (ws_event_capacity w'))"
proof -
  have inv: "world_inv w" using assms(1) by (rule world.reach_inv)
  from assms(2) obtain key c t where args: "watch_arguments character cursor timeout = Inr (key, c, t)"
    and loop: "watch_loop (py_str character) key c (start + t) ws w = Some (w', Inr r)"
    by (auto simp: watch_def split: sum.splits)
  from args have arg: "character_key character = Inr key" "cursor = PInt c" "0 \<le> c"
    by (simp_all add: watch_arguments_Inr)
  from watch_loop_found [OF loop assms(3) inv assms(4)] obtain s where w': "world_inv w'"
    and s: "find_state key w' = Some s" "available_events c (Some s) \<noteq> []"
      "watch_found c s (available_events c (Some s)) = Inr r" by blast
  from w' s(1) have "log_ok (ws_event_capacity w') s" by (simp add: world_inv_def)
  from watch_found_replays [OF this arg(3) s(2,3)] arg(1,2) s(1) show ?thesis by (auto simp: algebra_simps)
qed

lemma watch_replays_log_witness:
  "\<exists>r. watch (PStr ''ANN'') (PInt 1) (PFloat (Fin 5)) 100 [(101, id)] world2 = Some (world2, Inr r) \<and> \<not> wr_timed_out r
     \<and> map (dget ''cursor'') (wr_events r) = [PInt 2]"
proof -
  have "case watch (PStr ''ANN'') (PInt 1) (PFloat (Fin 5)) 100 [(101, id)] world2 of
      Some (w, Inr r) \<Rightarrow> w = world2 \<and> \<not> wr_timed_out r \<and> \<not> wr_truncated r \<and> wr_cursor r = 2 | _ \<Rightarrow> False" by code_simp
  then obtain r where r: "watch (PStr ''ANN'') (PInt 1) (PFloat (Fin 5)) 100 [(101, id)] world2 = Some (world2, Inr r)"
    "\<not> wr_timed_out r" "\<not> wr_truncated r" "wr_cursor r = 2" by (auto split: option.splits prod.splits sum.splits)
  have "\<forall>(tick, env) \<in> set [(101 :: rat, id)]. \<forall>w. runs world_step w (env w)" by (simp add: runs_refl)
  from watch_replays_log [OF world_reachable(3) r(1,2) this] r show ?thesis by (auto simp: upto_rec1)
qed

section \<open>What modelling showed\<close>

definition bad_world :: "snapshot_reply world_op" where
  \<comment> \<open>publish a snapshot that cannot be printed\<close>
  "bad_world = publish_snapshot (case snapshot_from_mapping long_status of Inr s \<Rightarrow> s) world0"

lemma unprintable_snapshot_is_stored:
  "snd bad_world = Inl (ValidationError ''script_status keys must be nonblank bounded strings'')
   \<and> map_option cs_sequence (find_state ''ann'' (fst bad_world)) = Some (Some 7)
   \<and> snd (publish_snapshot demo_next (fst bad_world))
       = Inl (ValidationError ''script_status keys must be nonblank bounded strings'')"
  by code_simp

end
