(* ===== verification/Watchers.thy ===== *)
theory Watchers
  imports Protocol
begin

text \<open>
  The alert reducer of \<open>watchers.py\<close>: per character it compares each snapshot with the alerts that
  are active and emits only the transitions.  A Python set of strings is a list; where the code
  iterates over a set its order is an argument, \<open>order\<close>.  The optional snapshot fields have the
  shapes that \<open>CharacterSnapshot.from_mapping\<close> gives them.  The lock makes each operation atomic.
\<close>

section \<open>Profiles and state\<close>

definition alert_severities :: "string list" where
  "alert_severities = [''info'', ''warning'', ''critical'']"

record profile =
  pf_character :: string
  pf_expected_hand_item_names :: "string list"
  pf_expected_hand_item_label :: string
  pf_encumbrance_warning :: pyval
  pf_encumbrance_emergency :: pyval
  pf_required_defensive_spell_ids :: "string list"
  pf_severe_wound_level :: int

definition threshold_ok :: "pyval \<Rightarrow> bool" where
  "threshold_ok v = (case v of PNone \<Rightarrow> True | PInt i \<Rightarrow> 1 \<le> i | _ \<Rightarrow> False)"

definition profile_check :: "profile \<Rightarrow> unit result" where
  \<comment> \<open>\<open>CharacterProfile.__post_init__\<close>\<close>
  "profile_check p =
     (if strip (pf_character p) = [] then Inl (ValueError ''profile character must not be blank'')
      else if \<not> threshold_ok (pf_encumbrance_warning p)
      then Inl (ValueError ''encumbrance_warning must be a positive integer or None'')
      else if \<not> threshold_ok (pf_encumbrance_emergency p)
      then Inl (ValueError ''encumbrance_emergency must be a positive integer or None'')
      else if pf_severe_wound_level p < 1 then Inl (ValueError ''severe_wound_level must be positive'')
      else if (case (pf_encumbrance_warning p, pf_encumbrance_emergency p) of
                 (PInt w, PInt e) \<Rightarrow> e < w | _ \<Rightarrow> False)
      then Inl (ValueError ''encumbrance_emergency must not be below encumbrance_warning'')
      else if 256 < length (remdups (pf_expected_hand_item_names p))
      then Inl (ValueError ''expected_hand_item_names is too large'')
      else if 256 < length (remdups (pf_required_defensive_spell_ids p))
      then Inl (ValueError ''required_defensive_spell_ids is too large'')
      else if list_ex (\<lambda>s. strip s = []) (pf_expected_hand_item_names p)
      then Inl (ValueError ''expected hand item names must not be blank'')
      else if list_ex (\<lambda>s. strip s = []) (pf_required_defensive_spell_ids p)
      then Inl (ValueError ''required defensive spell IDs must not be blank'')
      else Inr ())"

record watcher_alert =
  wa_code :: string
  wa_severity :: string
  wa_status :: string
  wa_character :: string
  wa_generation :: string
  wa_snapshot_sequence :: int
  wa_evidence :: "(string \<times> pyval) list"

definition alert_to_mapping :: "watcher_alert \<Rightarrow> (string \<times> pyval) list" where
  "alert_to_mapping a =
     [(''code'', PStr (wa_code a)), (''severity'', PStr (wa_severity a)), (''status'', PStr (wa_status a)),
      (''character'', PStr (wa_character a)), (''generation'', PStr (wa_generation a)),
      (''snapshot_sequence'', PInt (wa_snapshot_sequence a)), (''evidence'', PDict (wa_evidence a))]"

record watcher_state =
  wt_generation :: string
  wt_sequence :: "int option"
  wt_active :: "(string, watcher_alert) dict"
  wt_history :: "watcher_alert list"
  wt_corpse_counts :: "(string, int) dict"
  wt_corpse_evidence :: "(string, (string \<times> pyval) list) dict"
  wt_seen_required_spells :: "string list"
  wt_previous :: "character_snapshot option"

record reducer =
  rd_profiles :: "(string, profile) dict"
  rd_corpse_persistence_snapshots :: int
  rd_active_limit :: nat
  rd_history_limit :: nat
  rd_states :: "(string, watcher_state) dict"

fun select_profiles :: "(string, profile) dict \<Rightarrow> profile list \<Rightarrow> (string, profile) dict result" where
  "select_profiles d [] = Inr d"
| "select_profiles d (p # ps) =
     (if map_of d (casefold (pf_character p)) \<noteq> None
      then Inl (ValueError (''duplicate profile for '' @ pf_character p))
      else select_profiles (dput (casefold (pf_character p)) p d) ps)"

definition reducer_init :: "profile list \<Rightarrow> int \<Rightarrow> int \<Rightarrow> int \<Rightarrow> reducer result" where
  "reducer_init profiles persistence active_limit history_limit =
     (if persistence < 1 then Inl (ValueError ''corpse_persistence_snapshots must be positive'')
      else if active_limit < 1 then Inl (ValueError ''active_limit must be positive'')
      else if history_limit < 1 then Inl (ValueError ''history_limit must be positive'')
      else rbind (select_profiles [] profiles) (\<lambda>d.
        Inr \<lparr>rd_profiles = d, rd_corpse_persistence_snapshots = persistence, rd_active_limit = nat active_limit,
          rd_history_limit = nat history_limit, rd_states = []\<rparr>))"

definition supports :: "string \<Rightarrow> reducer \<Rightarrow> bool" where
  "supports character r = (map_of (rd_profiles r) (casefold character) \<noteq> None)"

definition active_alerts :: "string \<Rightarrow> reducer \<Rightarrow> watcher_alert list" where
  "active_alerts character r = (case map_of (rd_states r) (casefold character) of
      None \<Rightarrow> [] | Some st \<Rightarrow> map snd (wt_active st))"

definition alert_history :: "string \<Rightarrow> reducer \<Rightarrow> watcher_alert list" where
  "alert_history character r = (case map_of (rd_states r) (casefold character) of
      None \<Rightarrow> [] | Some st \<Rightarrow> wt_history st)"

definition new_watcher_state :: "string \<Rightarrow> watcher_state" where
  "new_watcher_state g = \<lparr>wt_generation = g, wt_sequence = None, wt_active = [], wt_history = [],
     wt_corpse_counts = [], wt_corpse_evidence = [], wt_seen_required_spells = [], wt_previous = None\<rparr>"

section \<open>Alert transitions\<close>

type_synonym alert_step = "watcher_state \<times> watcher_alert list"

definition make_alert :: "character_snapshot \<Rightarrow> string \<Rightarrow> string \<Rightarrow> string \<Rightarrow> (string \<times> pyval) list \<Rightarrow> watcher_alert" where
  "make_alert snap code severity status evidence =
     \<lparr>wa_code = code, wa_severity = severity, wa_status = status, wa_character = sn_character snap,
      wa_generation = sn_generation snap, wa_snapshot_sequence = sn_sequence snap, wa_evidence = evidence\<rparr>"

definition record_alert :: "nat \<Rightarrow> watcher_alert \<Rightarrow> alert_step \<Rightarrow> alert_step" where
  \<comment> \<open>\<open>state.history.append(alert); emitted.append(alert)\<close>\<close>
  "record_alert limit a = (\<lambda>(st, emitted). (st\<lparr>wt_history := deque_push limit a (wt_history st)\<rparr>, emitted @ [a]))"

definition set_condition :: "reducer \<Rightarrow> character_snapshot \<Rightarrow> string \<Rightarrow> bool option \<Rightarrow> string
    \<Rightarrow> (string \<times> pyval) list \<Rightarrow> alert_step \<Rightarrow> alert_step" where
  "set_condition r snap code condition severity evidence = (\<lambda>(st, emitted).
     let existing = map_of (wt_active st) code in
     case condition of
       None \<Rightarrow> (st, emitted)
     | Some True \<Rightarrow>
         if (case existing of None \<Rightarrow> False | Some a \<Rightarrow> wa_severity a = severity) then (st, emitted)
         else if existing = None \<and> rd_active_limit r \<le> length (wt_active st) then (st, emitted)
         else let a = make_alert snap code severity ''active'' evidence in
           record_alert (rd_history_limit r) a (st\<lparr>wt_active := ddel code (wt_active st) @ [(code, a)]\<rparr>, emitted)
     | Some False \<Rightarrow>
         if existing = None then (st, emitted)
         else record_alert (rd_history_limit r) (make_alert snap code ''info'' ''cleared'' evidence)
                (st\<lparr>wt_active := ddel code (wt_active st)\<rparr>, emitted))"

section \<open>The rules\<close>

definition dict_items :: "pyval \<Rightarrow> (string \<times> pyval) list" where
  "dict_items v = (case v of PDict d \<Rightarrow> d | _ \<Rightarrow> [])"

definition list_items :: "pyval \<Rightarrow> pyval list" where
  "list_items v = (case v of PList xs \<Rightarrow> xs | _ \<Rightarrow> [])"

definition item_text :: "string \<Rightarrow> pyval \<Rightarrow> string" where
  \<comment> \<open>\<open>str(item[key])\<close>\<close>
  "item_text key v = py_str (dget key (dict_items v))"

fun squeeze :: "string \<Rightarrow> string" where
  \<comment> \<open>a run of white space becomes one space\<close>
  "squeeze [] = []"
| "squeeze [c] = (if is_space c then '' '' else [c])"
| "squeeze (c # d # cs) =
     (if is_space c then if is_space d then squeeze (d # cs) else '' '' @ squeeze (d # cs)
      else c # squeeze (d # cs))"

definition drop_word :: "string \<Rightarrow> string \<Rightarrow> string option" where
  \<comment> \<open>the text after this word and the white space behind it, if it starts with both\<close>
  "drop_word word s =
     (let rest = drop (length word) s in
      if map lower_char (take (length word) s) = word \<and> rest \<noteq> [] \<and> is_space (hd rest)
      then Some (dropWhile is_space rest) else None)"

definition drop_article :: "string \<Rightarrow> string" where
  "drop_article s = (case drop_word ''a'' s of Some t \<Rightarrow> t | None \<Rightarrow>
     (case drop_word ''an'' s of Some t \<Rightarrow> t | None \<Rightarrow>
     (case drop_word ''some'' s of Some t \<Rightarrow> t | None \<Rightarrow> s)))"

definition normalize_item_name :: "string \<Rightarrow> string" where
  "normalize_item_name s = casefold (squeeze (drop_article (strip s)))"

definition weapon_alert :: "profile \<Rightarrow> reducer \<Rightarrow> character_snapshot \<Rightarrow> alert_step \<Rightarrow> alert_step" where
  "weapon_alert p r snap step =
     (if pf_expected_hand_item_names p = [] then step else
      let observed = (if sn_hands snap = PNone then []
            else map (item_text ''name'') (filter (\<lambda>v. v \<noteq> PNone) (map snd (dict_items (sn_hands snap)))));
          expected = map normalize_item_name (pf_expected_hand_item_names p);
          condition = (if sn_hands snap = PNone then None
            else Some (\<not> list_ex (\<lambda>n. normalize_item_name n \<in> set expected) observed))
      in set_condition r snap ''expected_weapon_missing'' condition ''critical''
           [(''expected'', PStr (pf_expected_hand_item_label p)), (''observed_hands'', PList (map PStr observed))] step)"

definition encumbrance_names :: "(string \<times> int) list" where
  "encumbrance_names = [(''none'', 0), (''unencumbered'', 0), (''not encumbered'', 0), (''no noticeable encumbrance'', 0),
     (''light'', 1), (''lightly encumbered'', 1), (''moderate'', 2), (''moderately encumbered'', 2),
     (''heavy'', 3), (''heavily encumbered'', 3), (''very heavy'', 4), (''severely encumbered'', 4), (''overburdened'', 5)]"

definition encumbrance_level :: "pyval \<Rightarrow> int option result" where
  \<comment> \<open>\<open>int\<close> refuses the superscript digits that \<open>isdigit\<close> accepts\<close>
  "encumbrance_level v = (case v of
      PInt i \<Rightarrow> Inr (Some (max 0 i))
    | PStr s \<Rightarrow>
        (let folded = collapse (casefold s) in
         if str_isdigit folded then
           (if list_all is_ascii_digit folded then Inr (Some (int (digits_value folded)))
            else Inl (ValueError (''invalid literal for int() with base 10: '' @ str_repr folded)))
         else Inr (map_of encumbrance_names folded))
    | _ \<Rightarrow> Inr None)"

definition encumbrance_alert :: "profile \<Rightarrow> reducer \<Rightarrow> character_snapshot \<Rightarrow> alert_step \<Rightarrow> alert_step result" where
  "encumbrance_alert p r snap step =
     (if pf_encumbrance_warning p = PNone \<and> pf_encumbrance_emergency p = PNone then Inr step else
      rbind (encumbrance_level (sn_encumbrance snap)) (\<lambda>level. case level of
        None \<Rightarrow> Inr (set_condition r snap ''encumbrance'' None ''warning'' [(''observed'', sn_encumbrance snap)] step)
      | Some n \<Rightarrow>
        let reaches = (\<lambda>v. case v of PInt t \<Rightarrow> t \<le> n | _ \<Rightarrow> False);
            warning = pf_encumbrance_warning p; emergency = pf_encumbrance_emergency p;
            (severity, threshold, condition) =
              (if reaches emergency then (''critical'', emergency, True)
               else if reaches warning then (''warning'', warning, True)
               else (''warning'', if warning \<noteq> PNone then warning else emergency, False))
        in Inr (set_condition r snap ''encumbrance'' (Some condition) severity
             [(''observed'', sn_encumbrance snap), (''level'', PInt n), (''threshold'', threshold)] step)))"

definition bool_condition :: "pyval \<Rightarrow> bool option" where
  "bool_condition v = (case v of PBool b \<Rightarrow> Some b | _ \<Rightarrow> None)"

definition boolean_alerts :: "reducer \<Rightarrow> character_snapshot \<Rightarrow> alert_step \<Rightarrow> alert_step" where
  "boolean_alerts r snap step =
     set_condition r snap ''stunned'' (bool_condition (sn_stunned snap)) ''warning'' [(''observed'', sn_stunned snap)]
       (set_condition r snap ''dead'' (bool_condition (sn_dead snap)) ''critical'' [(''observed'', sn_dead snap)] step)"

definition severe_wounds :: "int \<Rightarrow> pyval \<Rightarrow> (string \<times> pyval) list" where
  "severe_wounds minimum wounds =
     List.map_filter (\<lambda>(part, levels). case levels of
        PDict d \<Rightarrow> (case dget ''wound'' d of PInt n \<Rightarrow> if minimum \<le> n then Some (part, PInt n) else None | _ \<Rightarrow> None)
      | _ \<Rightarrow> None) (dict_items wounds)"

definition wound_alert :: "reducer \<Rightarrow> character_snapshot \<Rightarrow> profile \<Rightarrow> alert_step \<Rightarrow> alert_step" where
  "wound_alert r snap p step =
     (let severe = severe_wounds (pf_severe_wound_level p) (sn_wounds snap);
          condition = (if sn_wounds snap = PNone then None else Some (severe \<noteq> []))
      in set_condition r snap ''severe_wounds'' condition ''critical''
           [(''minimum_level'', PInt (pf_severe_wound_level p)), (''wounds'', PDict severe)] step)"

definition spell_alerts :: "profile \<Rightarrow> reducer \<Rightarrow> character_snapshot \<Rightarrow> alert_step \<Rightarrow> alert_step" where
  "spell_alerts p r snap = (\<lambda>(st, emitted).
     if pf_required_defensive_spell_ids p = [] \<or> sn_active_spells snap = PNone then (st, emitted) else
     let active = map (item_text ''id'') (list_items (sn_active_spells snap));
         required = remdups (pf_required_defensive_spell_ids p);
         seen = List.union (filter (\<lambda>s. s \<in> set required) active) (wt_seen_required_spells st)
     in fold (\<lambda>spell. set_condition r snap (''defensive_spell_dropped:'' @ spell)
                (Some (spell \<in> set seen \<and> spell \<notin> set active)) ''warning''
                [(''spell_id'', PStr spell), (''active_spell_ids'', PList (map PStr (sort (remdups active))))])
          (sort required) (st\<lparr>wt_seen_required_spells := seen\<rparr>, emitted))"

definition script_code :: "string \<Rightarrow> string \<Rightarrow> string" where
  "script_code lane owner = ''owning_script_missing:'' @ lane @ '':'' @ casefold owner"

definition lane_owner :: "string \<Rightarrow> pyval \<Rightarrow> string option" where
  \<comment> \<open>\<open>owners.get(lane)\<close>\<close>
  "lane_owner lane owners = (case dget lane (dict_items owners) of PStr s \<Rightarrow> Some s | _ \<Rightarrow> None)"

definition current_or_previous :: "string option \<Rightarrow> string option \<Rightarrow> string option" where
  \<comment> \<open>\<open>a or b\<close>: an empty text counts as absent\<close>
  "current_or_previous a b = (case a of None \<Rightarrow> b | Some s \<Rightarrow> if s = [] then b else Some s)"

definition lowered :: "pyval \<Rightarrow> string list" where
  \<comment> \<open>the casefolded texts of an array\<close>
  "lowered v = map (\<lambda>x. casefold (py_str x)) (list_items v)"

definition was_running :: "character_snapshot option \<Rightarrow> string \<Rightarrow> string \<Rightarrow> bool" where
  "was_running previous lane owner_key = (case previous of None \<Rightarrow> False | Some q \<Rightarrow>
     sn_scripts q \<noteq> PNone
     \<and> (case lane_owner lane (sn_owners q) of None \<Rightarrow> False | Some o1 \<Rightarrow> casefold o1 = owner_key)
     \<and> owner_key \<in> set (lowered (sn_scripts q)))"

definition previous_owners :: "character_snapshot option \<Rightarrow> pyval" where
  "previous_owners previous = (case previous of None \<Rightarrow> PDict []
     | Some q \<Rightarrow> if sn_owners q = PNone then PDict [] else sn_owners q)"

definition script_lane :: "reducer \<Rightarrow> character_snapshot \<Rightarrow> string \<Rightarrow> alert_step \<times> string list \<Rightarrow> alert_step \<times> string list" where
  \<comment> \<open>one lane of the loop, with the codes seen so far\<close>
  "script_lane r snap lane = (\<lambda>((st, emitted), codes).
     let now_owner = lane_owner lane (sn_owners snap);
         before = lane_owner lane (previous_owners (wt_previous st)) in
     case current_or_previous now_owner before of
       None \<Rightarrow> ((st, emitted), codes)
     | Some owner \<Rightarrow>
       let owner_key = casefold owner; code = script_code lane owner;
           gone = (owner_key \<notin> set (lowered (sn_scripts snap)));
           condition = (if map_of (wt_active st) code \<noteq> None then now_owner \<noteq> None \<and> gone
                        else was_running (wt_previous st) lane owner_key \<and> gone)
       in (set_condition r snap code (Some condition) ''warning''
             [(''lane'', PStr lane), (''owner'', PStr owner),
              (''running_scripts'', PList (map PStr (sort (map py_str (list_items (sn_scripts snap))))))] (st, emitted),
           code # codes))"

definition clear_codes :: "reducer \<Rightarrow> character_snapshot \<Rightarrow> (string \<Rightarrow> (string \<times> pyval) list option) \<Rightarrow> alert_step \<Rightarrow> alert_step" where
  \<comment> \<open>\<open>for code in tuple(state.active)\<close>: clear the alerts that the test gives an evidence for\<close>
  "clear_codes r snap test = (\<lambda>(st, emitted).
     fold (\<lambda>code step. case test code of None \<Rightarrow> step
       | Some evidence \<Rightarrow> set_condition r snap code (Some False) ''warning'' evidence step)
       (dkeys (wt_active st)) (st, emitted))"

definition script_alerts :: "(string list \<Rightarrow> string list) \<Rightarrow> reducer \<Rightarrow> character_snapshot \<Rightarrow> alert_step \<Rightarrow> alert_step" where
  "script_alerts order r snap = (\<lambda>(st, emitted).
     if sn_owners snap = PNone \<or> sn_scripts snap = PNone then (st, emitted) else
     let lanes = order (remdups (dkeys (dict_items (previous_owners (wt_previous st))) @ dkeys (dict_items (sn_owners snap))));
         (step, codes) = fold (script_lane r snap) lanes ((st, emitted), [])
     in clear_codes r snap (\<lambda>code. if starts_with ''owning_script_missing:'' code \<and> code \<notin> set codes
          then Some [(''owner_released'', PBool True)] else None) step)"

definition corpse_code :: "string \<Rightarrow> string" where
  "corpse_code object_id = ''unlooted_corpse:'' @ object_id"

definition after_last_colon :: "string \<Rightarrow> string" where
  \<comment> \<open>\<open>code.rsplit(":", 1)[-1]\<close>\<close>
  "after_last_colon s = rev (takeWhile (\<lambda>c. c \<noteq> CHR '':'') (rev s))"

definition forget_corpse :: "string \<Rightarrow> watcher_state \<Rightarrow> watcher_state" where
  "forget_corpse i st = st\<lparr>wt_corpse_counts := ddel i (wt_corpse_counts st),
     wt_corpse_evidence := ddel i (wt_corpse_evidence st)\<rparr>"

definition forget_corpses :: "(string \<Rightarrow> bool) \<Rightarrow> watcher_state \<Rightarrow> watcher_state" where
  \<comment> \<open>\<open>for object_id in tuple(state.corpse_counts)\<close>\<close>
  "forget_corpses test st = fold (\<lambda>i t. if test i then forget_corpse i t else t) (dkeys (wt_corpse_counts st)) st"

definition see_corpse :: "reducer \<Rightarrow> character_snapshot \<Rightarrow> pyval \<Rightarrow> alert_step \<Rightarrow> alert_step" where
  "see_corpse r snap corpse = (\<lambda>(st, emitted).
     let i = item_text ''id'' corpse;
         n = (case map_of (wt_corpse_counts st) i of None \<Rightarrow> 1 | Some k \<Rightarrow> k + 1);
         st' = st\<lparr>wt_corpse_counts := dput i n (wt_corpse_counts st),
                  wt_corpse_evidence := dput i (dict_items corpse) (wt_corpse_evidence st)\<rparr>
     in set_condition r snap (corpse_code i) (Some (rd_corpse_persistence_snapshots r \<le> n)) ''warning''
          (dput ''consecutive_snapshots'' (PInt n) (dict_items corpse)) (st', emitted))"

definition corpse_alerts :: "reducer \<Rightarrow> character_snapshot \<Rightarrow> alert_step \<Rightarrow> alert_step" where
  "corpse_alerts r snap = (\<lambda>(st, emitted).
     if sn_nearby snap = PNone \<or> \<not> dhas ''corpses'' (dict_items (sn_nearby snap))
     then (forget_corpses (\<lambda>i. map_of (wt_active st) (corpse_code i) = None) st, emitted)
     else
     let corpses = list_items (dget ''corpses'' (dict_items (sn_nearby snap)));
         ids = map (item_text ''id'') corpses;
         step = fold (see_corpse r snap) corpses (forget_corpses (\<lambda>i. i \<notin> set ids) st, emitted)
     in clear_codes r snap (\<lambda>code. if starts_with ''unlooted_corpse:'' code \<and> after_last_colon code \<notin> set ids
          then Some [(''object_id'', PStr (after_last_colon code)), (''corpse_absent'', PBool True)] else None) step)"

section \<open>Reduction\<close>

definition alert_rules :: "(string list \<Rightarrow> string list) \<Rightarrow> profile \<Rightarrow> reducer \<Rightarrow> character_snapshot \<Rightarrow> alert_step \<Rightarrow> alert_step" where
  \<comment> \<open>the rules after the encumbrance rule, in their order\<close>
  "alert_rules order p r snap step =
     corpse_alerts r snap (script_alerts order r snap (spell_alerts p r snap
       (wound_alert r snap p (boolean_alerts r snap step))))"

definition put_watcher :: "string \<Rightarrow> watcher_state \<Rightarrow> reducer \<Rightarrow> reducer" where
  "put_watcher key st r = r\<lparr>rd_states := dput key st (rd_states r)\<rparr>"

definition reduce :: "(string list \<Rightarrow> string list) \<Rightarrow> character_snapshot \<Rightarrow> reducer \<Rightarrow> reducer \<times> watcher_alert list result" where
  "reduce order snap r =
     (let key = casefold (sn_character snap) in
      case map_of (rd_profiles r) key of
        None \<Rightarrow> (r, invalid (''no watcher profile for '' @ sn_character snap))
      | Some p \<Rightarrow>
        let known = (case map_of (rd_states r) key of None \<Rightarrow> None
              | Some st \<Rightarrow> if wt_generation st = sn_generation snap then Some st else None);
            st = (case known of None \<Rightarrow> new_watcher_state (sn_generation snap) | Some st \<Rightarrow> st)
        in if (case known of None \<Rightarrow> False | Some t \<Rightarrow>
                 (case wt_sequence t of None \<Rightarrow> False | Some n \<Rightarrow> sn_sequence snap \<le> n))
           then (r, invalid ''watcher snapshot sequence must strictly increase within a generation'')
           else let step = weapon_alert p r snap (st, []) in
             case encumbrance_alert p r snap step of
               Inl e \<Rightarrow> (put_watcher key (fst step) r, Inl e)
             | Inr step' \<Rightarrow>
               (case alert_rules order p r snap step' of (st', emitted) \<Rightarrow>
                  (put_watcher key (st'\<lparr>wt_sequence := Some (sn_sequence snap), wt_previous := Some snap\<rparr>) r, Inr emitted)))"

end
