(* ===== verification/WatcherProperties.thy ===== *)
theory WatcherProperties
  imports Watchers ProtocolProperties
begin

text \<open>
  The alert reducer emits exactly the transitions of its active alerts.  A rule of the reducer is a
  \<open>reporter\<close>: what it emits, replayed on the active alerts, gives the new active alerts, no
  transition is redundant, and the history records each of them.  Every rule is an
  interpretation of that locale, and so is their composition.
\<close>

section \<open>Replaying transitions\<close>

definition transition_ok :: "nat \<Rightarrow> (string, watcher_alert) dict \<Rightarrow> watcher_alert \<Rightarrow> bool" where
  \<comment> \<open>a new alert within the limit, a changed severity, or the end of an active alert\<close>
  "transition_ok limit act a =
     (if wa_status a = ''active'' then
        (case map_of act (wa_code a) of None \<Rightarrow> length act < limit | Some e \<Rightarrow> wa_severity e \<noteq> wa_severity a)
      else wa_status a = ''cleared'' \<and> map_of act (wa_code a) \<noteq> None)"

definition apply_alert :: "(string, watcher_alert) dict \<Rightarrow> watcher_alert \<Rightarrow> (string, watcher_alert) dict" where
  "apply_alert act a = ddel (wa_code a) act @ (if wa_status a = ''active'' then [(wa_code a, a)] else [])"

fun replay :: "nat \<Rightarrow> (string, watcher_alert) dict \<Rightarrow> watcher_alert list \<Rightarrow> (string, watcher_alert) dict option" where
  "replay limit act [] = Some act"
| "replay limit act (a # as) = (if transition_ok limit act a then replay limit (apply_alert act a) as else None)"

definition from_snapshot :: "character_snapshot \<Rightarrow> watcher_alert \<Rightarrow> bool" where
  "from_snapshot snap a = (wa_character a = sn_character snap \<and> wa_generation a = sn_generation snap
     \<and> wa_snapshot_sequence a = sn_sequence snap)"

definition accounted :: "reducer \<Rightarrow> character_snapshot \<Rightarrow> watcher_state \<Rightarrow> watcher_alert list \<Rightarrow> watcher_state \<Rightarrow> bool" where
  "accounted r snap s new t =
     (replay (rd_active_limit r) (wt_active s) new = Some (wt_active t)
      \<and> wt_history t = foldl (\<lambda>h a. deque_push (rd_history_limit r) a h) (wt_history s) new
      \<and> wt_generation t = wt_generation s \<and> wt_previous t = wt_previous s
      \<and> list_all (from_snapshot snap) new)"

lemma replay_append:
  "replay limit act xs = Some act' \<Longrightarrow> replay limit act' ys = Some act'' \<Longrightarrow> replay limit act (xs @ ys) = Some act''"
  by (induction xs arbitrary: act) (auto split: if_splits)

lemma accounted_refl: "accounted r snap s [] s"
  by (simp add: accounted_def)

lemma accounted_append:
  "accounted r snap s xs t \<Longrightarrow> accounted r snap t ys u \<Longrightarrow> accounted r snap s (xs @ ys) u"
  by (auto simp: accounted_def intro: replay_append)

lemma accounted_same_alerts:
  "accounted r snap s new t \<Longrightarrow> wt_active s' = wt_active s \<Longrightarrow> wt_history s' = wt_history s \<Longrightarrow>
    wt_generation s' = wt_generation s \<Longrightarrow> wt_previous s' = wt_previous s \<Longrightarrow> accounted r snap s' new t"
  by (simp add: accounted_def)

section \<open>Reporters\<close>

locale reporter =
  fixes r :: reducer and snap :: character_snapshot and f :: "alert_step \<Rightarrow> alert_step"
  assumes reports: "f (s, emitted) = (t, emitted') \<Longrightarrow> \<exists>new. emitted' = emitted @ new \<and> accounted r snap s new t"
begin

lemma reported: "\<exists>new. snd (f step) = snd step @ new \<and> accounted r snap (fst step) new (fst (f step))"
  using reports [of "fst step" "snd step" "fst (f step)" "snd (f step)"] by simp

end

lemma reporterI:
  assumes "\<And>step. \<exists>new. snd (f step) = snd step @ new \<and> accounted r snap (fst step) new (fst (f step))"
  shows "reporter r snap f"
proof
  fix s emitted t emitted' assume "f (s, emitted) = (t, emitted')"
  with assms [of "(s, emitted)"] show "\<exists>new. emitted' = emitted @ new \<and> accounted r snap s new t" by simp
qed

lemma reporter_id: "reporter r snap (\<lambda>step. step)"
  by (rule reporterI) (auto intro: accounted_refl)

lemma reporter_comp:
  assumes "reporter r snap f" and "reporter r snap g" shows "reporter r snap (\<lambda>step. g (f step))"
proof (rule reporterI)
  fix step
  from reporter.reported [OF assms(1), of step] reporter.reported [OF assms(2), of "f step"]
  show "\<exists>new. snd (g (f step)) = snd step @ new \<and> accounted r snap (fst step) new (fst (g (f step)))"
    by (auto intro: accounted_append)
qed

lemma reporter_fold:
  assumes "\<And>x. reporter r snap (f x)" shows "reporter r snap (fold f xs)"
proof (induction xs)
  case Nil
  then show ?case using reporter_id by (simp add: id_def)
next
  case (Cons x xs)
  from reporter_comp [OF assms Cons] show ?case by (simp add: comp_def)
qed

lemma reporter_if: "reporter r snap f \<Longrightarrow> reporter r snap g \<Longrightarrow> reporter r snap (\<lambda>step. if c step then f step else g step)"
  by (rule reporterI) (auto dest: reporter.reported)

lemma reporter_dependent:
  \<comment> \<open>a rule that reads the state to choose what to do\<close>
  assumes "\<And>st. reporter r snap (f st)" shows "reporter r snap (\<lambda>(st, emitted). f st (st, emitted))"
  by (rule reporterI) (use reporter.reported [OF assms] in \<open>auto simp: case_prod_beta\<close>)

lemma reporter_prepared:
  \<comment> \<open>a rule that first changes bookkeeping fields\<close>
  assumes "reporter r snap f"
    and "\<And>st. wt_active (h st) = wt_active st \<and> wt_history (h st) = wt_history st
           \<and> wt_generation (h st) = wt_generation st \<and> wt_previous (h st) = wt_previous st"
  shows "reporter r snap (\<lambda>(st, emitted). f (h st, emitted))"
proof (rule reporterI)
  fix step :: alert_step
  obtain st emitted where step: "step = (st, emitted)" by fastforce
  from reporter.reported [OF assms(1), of "(h st, emitted)"] assms(2) [of st]
  show "\<exists>new. snd (case step of (st, emitted) \<Rightarrow> f (h st, emitted)) = snd step @ new
      \<and> accounted r snap (fst step) new (fst (case step of (st, emitted) \<Rightarrow> f (h st, emitted)))"
    unfolding step by (auto simp: accounted_def)
qed

interpretation set_condition: reporter r snap "set_condition r snap code condition severity evidence"
  for r snap code condition severity evidence
proof (rule reporterI)
  fix step :: alert_step
  obtain st emitted where step: "step = (st, emitted)" by fastforce
  show "\<exists>new. snd (set_condition r snap code condition severity evidence step) = snd step @ new
      \<and> accounted r snap (fst step) new (fst (set_condition r snap code condition severity evidence step))"
    unfolding step
    by (auto simp: set_condition_def record_alert_def Let_def accounted_def make_alert_def from_snapshot_def
        transition_ok_def apply_alert_def split: option.splits bool.splits)
qed

section \<open>The rules are reporters\<close>

lemmas reported = set_condition.reported

lemma no_report: "\<exists>new. snd step = snd step @ new \<and> accounted r snap (fst step) new (fst step)"
  using accounted_refl by auto

interpretation weapon: reporter r snap "weapon_alert p r snap" for p r snap
  by (rule reporterI) (simp add: weapon_alert_def Let_def reported accounted_refl)

lemma encumbrance_reported:
  assumes "encumbrance_alert p r snap step = Inr step'"
  shows "\<exists>new. snd step' = snd step @ new \<and> accounted r snap (fst step) new (fst step')"
  using assms
  by (auto simp: encumbrance_alert_def rbind_Inr_iff Let_def reported accounted_refl
      split: if_splits option.splits prod.splits)

interpretation boolean: reporter r snap "boolean_alerts r snap" for r snap
  unfolding boolean_alerts_def [abs_def]
  by (rule reporter_comp [OF set_condition.reporter_axioms set_condition.reporter_axioms])

interpretation wound: reporter r snap "\<lambda>step. wound_alert r snap p step" for p r snap
  by (rule reporterI) (simp add: wound_alert_def Let_def reported)

interpretation spell: reporter r snap "spell_alerts p r snap" for p r snap
proof (rule reporterI)
  fix step :: alert_step
  obtain st emitted where step: "step = (st, emitted)" by fastforce
  show "\<exists>new. snd (spell_alerts p r snap step) = snd step @ new
      \<and> accounted r snap (fst step) new (fst (spell_alerts p r snap step))"
  proof (cases "pf_required_defensive_spell_ids p = [] \<or> sn_active_spells snap = PNone")
    case True
    then show ?thesis by (simp add: step spell_alerts_def accounted_refl)
  next
    case False
    let ?active = "map (item_text ''id'') (list_items (sn_active_spells snap))"
    let ?required = "remdups (pf_required_defensive_spell_ids p)"
    define seen where "seen = List.union (filter (\<lambda>s. s \<in> set ?required) ?active) (wt_seen_required_spells st)"
    let ?f = "\<lambda>spell. set_condition r snap (''defensive_spell_dropped:'' @ spell)
                (Some (spell \<in> set seen \<and> spell \<notin> set ?active)) ''warning''
                [(''spell_id'', PStr spell), (''active_spell_ids'', PList (map PStr (sort (remdups ?active))))]"
    have "spell_alerts p r snap step = fold ?f (sort ?required) (st\<lparr>wt_seen_required_spells := seen\<rparr>, emitted)"
      using False unfolding step spell_alerts_def Let_def seen_def by simp
    moreover have "reporter r snap (fold ?f (sort ?required))"
      by (rule reporter_fold) (rule set_condition.reporter_axioms)
    ultimately show ?thesis
      using reporter.reported [of r snap "fold ?f (sort ?required)" "(st\<lparr>wt_seen_required_spells := seen\<rparr>, emitted)"]
      by (auto simp: step accounted_def)
  qed
qed

interpretation clear: reporter r snap "clear_codes r snap test" for r snap test
proof -
  let ?f = "\<lambda>code step. case test code of None \<Rightarrow> step
       | Some evidence \<Rightarrow> set_condition r snap code (Some False) ''warning'' evidence step"
  have "reporter r snap (?f code)" for code
    by (cases "test code") (simp_all add: reporter_id set_condition.reporter_axioms)
  then have "reporter r snap (fold ?f xs)" for xs by (rule reporter_fold)
  then have "reporter r snap (\<lambda>(st, emitted). fold ?f (dkeys (wt_active st)) (st, emitted))"
    by (rule reporter_dependent)
  then show "reporter r snap (clear_codes r snap test)" by (simp add: clear_codes_def)
qed

lemma script_lanes_reported:
  "\<exists>new. snd (fst (fold (script_lane r snap) lanes (step, codes))) = snd step @ new
     \<and> accounted r snap (fst step) new (fst (fst (fold (script_lane r snap) lanes (step, codes))))"
proof (induction lanes arbitrary: step codes)
  case Nil
  then show ?case by (simp add: accounted_refl)
next
  case (Cons lane lanes)
  obtain st emitted where step: "step = (st, emitted)" by fastforce
  obtain step' codes' where lane: "script_lane r snap lane (step, codes) = (step', codes')" by fastforce
  then have "\<exists>new. snd step' = snd step @ new \<and> accounted r snap (fst step) new (fst step')"
    using reported by (auto simp: step script_lane_def Let_def accounted_refl split: option.splits)
  with Cons [of step' codes'] lane show ?case by (auto intro: accounted_append)
qed

interpretation script: reporter r snap "script_alerts order r snap" for order r snap
proof (rule reporterI)
  fix step :: alert_step
  obtain st emitted where step: "step = (st, emitted)" by fastforce
  show "\<exists>new. snd (script_alerts order r snap step) = snd step @ new
      \<and> accounted r snap (fst step) new (fst (script_alerts order r snap step))"
  proof (cases "sn_owners snap = PNone \<or> sn_scripts snap = PNone")
    case True
    then show ?thesis by (simp add: step script_alerts_def accounted_refl)
  next
    case False
    define lanes where
      "lanes = order (remdups (dkeys (dict_items (previous_owners (wt_previous st))) @ dkeys (dict_items (sn_owners snap))))"
    obtain step' codes where fold: "fold (script_lane r snap) lanes (step, []) = (step', codes)" by fastforce
    define test where "test code = (if starts_with ''owning_script_missing:'' code \<and> code \<notin> set codes
          then Some [(''owner_released'', PBool True)] else None)" for code
    have "script_alerts order r snap step = clear_codes r snap test step'"
      using False fold unfolding step script_alerts_def Let_def lanes_def test_def [abs_def] by simp
    with script_lanes_reported [of r snap lanes step "[]"] clear.reported [of r snap test step'] fold
    show ?thesis by (auto intro: accounted_append)
  qed
qed

lemma forget_corpses_keeps:
  "wt_active (forget_corpses test st) = wt_active st \<and> wt_history (forget_corpses test st) = wt_history st
   \<and> wt_generation (forget_corpses test st) = wt_generation st \<and> wt_previous (forget_corpses test st) = wt_previous st"
proof -
  have "wt_active (fold (\<lambda>i t. if test i then forget_corpse i t else t) xs u) = wt_active u
    \<and> wt_history (fold (\<lambda>i t. if test i then forget_corpse i t else t) xs u) = wt_history u
    \<and> wt_generation (fold (\<lambda>i t. if test i then forget_corpse i t else t) xs u) = wt_generation u
    \<and> wt_previous (fold (\<lambda>i t. if test i then forget_corpse i t else t) xs u) = wt_previous u" for xs u
    by (induction xs arbitrary: u) (simp_all add: forget_corpse_def)
  then show ?thesis by (simp add: forget_corpses_def)
qed

interpretation see: reporter r snap "see_corpse r snap corpse" for r snap corpse
proof (rule reporterI)
  fix step :: alert_step
  obtain st emitted where step: "step = (st, emitted)" by fastforce
  define n where "n = (case map_of (wt_corpse_counts st) (item_text ''id'' corpse) of None \<Rightarrow> 1 | Some k \<Rightarrow> k + 1)"
  define st' where "st' = st\<lparr>wt_corpse_counts := dput (item_text ''id'' corpse) n (wt_corpse_counts st),
                  wt_corpse_evidence := dput (item_text ''id'' corpse) (dict_items corpse) (wt_corpse_evidence st)\<rparr>"
  have "see_corpse r snap corpse step = set_condition r snap (corpse_code (item_text ''id'' corpse))
      (Some (rd_corpse_persistence_snapshots r \<le> n)) ''warning''
      (dput ''consecutive_snapshots'' (PInt n) (dict_items corpse)) (st', emitted)"
    unfolding step see_corpse_def Let_def n_def st'_def by simp
  with reported [of r snap "corpse_code (item_text ''id'' corpse)" "Some (rd_corpse_persistence_snapshots r \<le> n)"
      "''warning''" "dput ''consecutive_snapshots'' (PInt n) (dict_items corpse)" "(st', emitted)"]
  show "\<exists>new. snd (see_corpse r snap corpse step) = snd step @ new
      \<and> accounted r snap (fst step) new (fst (see_corpse r snap corpse step))"
    by (auto simp: step accounted_def st'_def)
qed

interpretation corpse: reporter r snap "corpse_alerts r snap" for r snap
proof (rule reporterI)
  fix step :: alert_step
  obtain st emitted where step: "step = (st, emitted)" by fastforce
  show "\<exists>new. snd (corpse_alerts r snap step) = snd step @ new
      \<and> accounted r snap (fst step) new (fst (corpse_alerts r snap step))"
  proof (cases "sn_nearby snap = PNone \<or> \<not> dhas ''corpses'' (dict_items (sn_nearby snap))")
    case True
    then show ?thesis
      using forget_corpses_keeps by (simp add: step corpse_alerts_def accounted_def)
  next
    case False
    define corpses where "corpses = list_items (dget ''corpses'' (dict_items (sn_nearby snap)))"
    define ids where "ids = map (item_text ''id'') corpses"
    define test where "test code = (if starts_with ''unlooted_corpse:'' code \<and> after_last_colon code \<notin> set ids
          then Some [(''object_id'', PStr (after_last_colon code)), (''corpse_absent'', PBool True)] else None)" for code
    have eq: "corpse_alerts r snap step
        = clear_codes r snap test (fold (see_corpse r snap) corpses (forget_corpses (\<lambda>i. i \<notin> set ids) st, emitted))"
      using False unfolding step corpse_alerts_def Let_def corpses_def ids_def test_def [abs_def] by simp
    have "reporter r snap (\<lambda>step. clear_codes r snap test (fold (see_corpse r snap) corpses step))"
      by (rule reporter_comp [OF reporter_fold [OF see.reporter_axioms] clear.reporter_axioms])
    from reporter.reported [OF this, of "(forget_corpses (\<lambda>i. i \<notin> set ids) st, emitted)"]
      forget_corpses_keeps [of "\<lambda>i. i \<notin> set ids" st]
    show ?thesis unfolding eq by (auto simp: step accounted_def)
  qed
qed

interpretation rules: reporter r snap "alert_rules order p r snap" for order p r snap
  unfolding alert_rules_def [abs_def]
  by (rule reporter_comp [OF boolean.reporter_axioms reporter_comp [OF wound.reporter_axioms
        reporter_comp [OF spell.reporter_axioms reporter_comp [OF script.reporter_axioms corpse.reporter_axioms]]]])

section \<open>Invariant\<close>

definition alerts_ok :: "nat \<Rightarrow> string \<Rightarrow> (string, watcher_alert) dict \<Rightarrow> bool" where
  "alerts_ok limit g act = (distinct (dkeys act) \<and> length act \<le> limit
     \<and> (\<forall>(code, a) \<in> set act. wa_code a = code \<and> wa_status a = ''active'' \<and> wa_generation a = g))"

definition watcher_ok :: "reducer \<Rightarrow> watcher_state \<Rightarrow> bool" where
  "watcher_ok r st = (alerts_ok (rd_active_limit r) (wt_generation st) (wt_active st)
     \<and> length (wt_history st) \<le> rd_history_limit r)"

definition reducer_inv :: "reducer \<Rightarrow> bool" where
  "reducer_inv r = (\<forall>k st. map_of (rd_states r) k = Some st \<longrightarrow> watcher_ok r st)"

lemma length_ddel: "distinct (dkeys d) \<Longrightarrow> map_of d k \<noteq> None \<Longrightarrow> Suc (length (ddel k d)) = length d"
proof (induction d)
  case (Cons kv d)
  obtain k' v where kv: "kv = (k', v)" by (cases kv)
  show ?case
  proof (cases "k = k'")
    case True
    with Cons.prems kv have "k \<notin> fst ` set d" by (simp add: dkeys_def)
    then have "ddel k d = d" by (auto simp: ddel_def filter_id_conv)
    with True kv show ?thesis by (simp add: ddel_def)
  next
    case False
    with Cons kv show ?thesis by (simp add: ddel_def dkeys_def)
  qed
qed simp

lemma dkeys_ddel: "set (dkeys (ddel k d)) = set (dkeys d) - {k}"
  by (auto simp: ddel_def dkeys_def)

lemma apply_alert_ok:
  assumes "alerts_ok limit g act" and "transition_ok limit act a" and "wa_generation a = g"
  shows "alerts_ok limit g (apply_alert act a)"
proof -
  have act: "distinct (dkeys act)" "length act \<le> limit"
    "\<forall>(code, a) \<in> set act. wa_code a = code \<and> wa_status a = ''active'' \<and> wa_generation a = g"
    using assms(1) by (auto simp: alerts_ok_def)
  have "length (apply_alert act a) \<le> limit"
  proof (cases "wa_status a = ''active''")
    case True
    show ?thesis
    proof (cases "map_of act (wa_code a)")
      case None
      with assms(2) True have "length act < limit" by (simp add: transition_ok_def)
      with True length_ddel_le [of "wa_code a" act] show ?thesis by (simp add: apply_alert_def)
    next
      case (Some e)
      with length_ddel [OF act(1), of "wa_code a"] act(2) True show ?thesis by (simp add: apply_alert_def)
    qed
  next
    case False
    then show ?thesis using length_ddel_le [of "wa_code a" act] act(2) by (simp add: apply_alert_def)
  qed
  moreover have "distinct (dkeys (apply_alert act a))"
    using distinct_ddel [OF act(1), of "wa_code a"] dkeys_ddel [of "wa_code a" act] by (simp add: apply_alert_def)
  moreover have "set (apply_alert act a) \<subseteq> set act \<union> (if wa_status a = ''active'' then {(wa_code a, a)} else {})"
    by (auto simp: apply_alert_def ddel_def)
  ultimately show ?thesis using act(3) assms(3) unfolding alerts_ok_def by (fastforce split: if_splits)
qed

lemma replay_ok:
  "replay limit act new = Some act' \<Longrightarrow> alerts_ok limit g act \<Longrightarrow> list_all (\<lambda>a. wa_generation a = g) new
    \<Longrightarrow> alerts_ok limit g act'"
  by (induction new arbitrary: act) (auto split: if_splits dest: apply_alert_ok)

lemma history_bounded: "length h \<le> n \<Longrightarrow> length (foldl (\<lambda>h a. deque_push n a h) h new) \<le> n"
  by (induction new arbitrary: h) simp_all

lemma accounted_ok:
  assumes "accounted r snap s new t" and "watcher_ok r s" and "sn_generation snap = wt_generation s"
  shows "watcher_ok r t"
proof -
  have "list_all (\<lambda>a. wa_generation a = wt_generation s) new"
    using assms(1,3) by (auto simp: accounted_def from_snapshot_def list_all_iff)
  with assms(1,2) replay_ok [of "rd_active_limit r" "wt_active s" new "wt_active t" "wt_generation s"]
  show ?thesis by (simp add: watcher_ok_def accounted_def history_bounded)
qed

definition session_state :: "character_snapshot \<Rightarrow> reducer \<Rightarrow> watcher_state" where
  \<comment> \<open>the state that a snapshot is compared with: a new session starts empty\<close>
  "session_state snap r = (case map_of (rd_states r) (casefold (sn_character snap)) of
      None \<Rightarrow> new_watcher_state (sn_generation snap)
    | Some st \<Rightarrow> if wt_generation st = sn_generation snap then st else new_watcher_state (sn_generation snap))"

lemma session_generation: "wt_generation (session_state snap r) = sn_generation snap"
  by (simp add: session_state_def new_watcher_state_def split: option.splits)

lemma session_ok: "reducer_inv r \<Longrightarrow> watcher_ok r (session_state snap r)"
proof -
  have "watcher_ok r (new_watcher_state g)" for g
    by (simp add: watcher_ok_def new_watcher_state_def alerts_ok_def dkeys_def)
  then show "reducer_inv r \<Longrightarrow> watcher_ok r (session_state snap r)"
    by (simp add: session_state_def reducer_inv_def split: option.split)
qed

lemma reduce_cases:
  assumes "reduce order snap r = (r', result)"
  obtains (refused) e where "result = Inl e" and "r' = r"
    | (failed) e st new where "result = Inl e" and "r' = put_watcher (casefold (sn_character snap)) st r"
        and "accounted r snap (session_state snap r) new st"
    | (reduced) p emitted st' step where "result = Inr emitted"
        and "map_of (rd_profiles r) (casefold (sn_character snap)) = Some p"
        and "r' = put_watcher (casefold (sn_character snap))
               (st'\<lparr>wt_sequence := Some (sn_sequence snap), wt_previous := Some snap\<rparr>) r"
        and "encumbrance_alert p r snap (weapon_alert p r snap (session_state snap r, [])) = Inr step"
        and "alert_rules order p r snap step = (st', emitted)"
        and "accounted r snap (session_state snap r) emitted st'"
proof (cases "map_of (rd_profiles r) (casefold (sn_character snap))")
  case None
  with assms show thesis by (intro refused) (auto simp: reduce_def Let_def)
next
  case (Some p)
  note p = this
  let ?step = "weapon_alert p r snap (session_state snap r, [])"
  obtain new where new: "snd ?step = new" "accounted r snap (session_state snap r) new (fst ?step)"
    using weapon.reported [of p r snap "(session_state snap r, [])"] by auto
  show thesis
  proof (cases "\<exists>st n. map_of (rd_states r) (casefold (sn_character snap)) = Some st
        \<and> wt_generation st = sn_generation snap \<and> wt_sequence st = Some n \<and> sn_sequence snap \<le> n")
    case True
    with assms p show thesis by (intro refused) (auto simp: reduce_def Let_def)
  next
    case False
    let ?known = "case map_of (rd_states r) (casefold (sn_character snap)) of None \<Rightarrow> None
              | Some st \<Rightarrow> if wt_generation st = sn_generation snap then Some st else None"
    have known: "(case ?known of None \<Rightarrow> new_watcher_state (sn_generation snap) | Some st \<Rightarrow> st) = session_state snap r"
      by (simp add: session_state_def split: option.split)
    have guard: "(case ?known of None \<Rightarrow> False | Some t \<Rightarrow>
                 (case wt_sequence t of None \<Rightarrow> False | Some n \<Rightarrow> sn_sequence snap \<le> n)) = False"
      using False by (auto split: option.splits)
    from assms have eq: "(case encumbrance_alert p r snap ?step of
               Inl e \<Rightarrow> (put_watcher (casefold (sn_character snap)) (fst ?step) r, Inl e)
             | Inr step' \<Rightarrow>
               (case alert_rules order p r snap step' of (st', emitted) \<Rightarrow>
                  (put_watcher (casefold (sn_character snap)) (st'\<lparr>wt_sequence := Some (sn_sequence snap),
                     wt_previous := Some snap\<rparr>) r, Inr emitted))) = (r', result)"
      unfolding reduce_def Let_def p option.case known guard if_False .
    show thesis
    proof (cases "encumbrance_alert p r snap ?step")
      case (Inl e)
      with eq new show thesis by (intro failed) auto
    next
      case (Inr step)
      obtain st' emitted where rules: "alert_rules order p r snap step = (st', emitted)" by fastforce
      from encumbrance_reported [OF Inr] rules.reported [of order p r snap step] new rules
      have "accounted r snap (session_state snap r) emitted st'"
        by (auto intro: accounted_append [OF _ accounted_append])
      with eq Inr rules p show thesis by (intro reduced) auto
    qed
  qed
qed

definition reducer_start :: "reducer \<Rightarrow> bool" where
  "reducer_start r = (\<exists>profiles persistence active_limit history_limit.
     reducer_init profiles persistence active_limit history_limit = Inr r)"

inductive reducer_step :: "reducer \<Rightarrow> reducer \<Rightarrow> bool" where
  step_reduce: "reducer_step r (fst (reduce order snap r))"

lemma watcher_ok_put [simp]: "watcher_ok (put_watcher k st r) = watcher_ok r"
  by (rule ext) (simp add: watcher_ok_def put_watcher_def)

lemma states_put [simp]: "map_of (rd_states (put_watcher k st r)) = (map_of (rd_states r))(k \<mapsto> st)"
  by (simp add: put_watcher_def)

lemma reducer_inv_put: "reducer_inv r \<Longrightarrow> watcher_ok r st \<Longrightarrow> reducer_inv (put_watcher k st r)"
  by (simp add: reducer_inv_def)

lemma watcher_ok_stamp: "watcher_ok r (st\<lparr>wt_sequence := n, wt_previous := q\<rparr>) = watcher_ok r st"
  by (simp add: watcher_ok_def)

interpretation watchers: invariant_system reducer_start reducer_step reducer_inv
proof
  show "reducer_inv s" if "reducer_start s" for s
    using that by (auto simp: reducer_start_def reducer_init_def rbind_Inr_iff reducer_inv_def split: if_splits)
  show "reducer_inv t" if "reducer_inv s" "reducer_step s t" for s t
    using that(2)
  proof cases
    case (step_reduce order snap)
    obtain r' res where eq: "reduce order snap s = (r', res)" by fastforce
    note ok = session_ok [OF that(1), of snap]
    from eq show ?thesis
    proof (cases rule: reduce_cases)
      case (failed e st new)
      from accounted_ok [OF failed(3) ok] session_generation [of snap s] failed(2) that(1) eq step_reduce
      show ?thesis by (simp add: reducer_inv_put)
    next
      case (reduced p emitted st' step)
      from accounted_ok [OF reduced(6) ok] session_generation [of snap s] reduced(3) that(1) eq step_reduce
      show ?thesis by (simp add: reducer_inv_put watcher_ok_stamp)
    qed (use that(1) eq step_reduce in simp)
  qed
qed

section \<open>Concrete snapshots\<close>

definition demo_profile :: profile where
  "demo_profile = \<lparr>pf_character = ''Ann'', pf_expected_hand_item_names = [''a steel  Broadsword''],
     pf_expected_hand_item_label = ''broadsword'', pf_encumbrance_warning = PInt 2, pf_encumbrance_emergency = PInt 4,
     pf_required_defensive_spell_ids = [], pf_severe_wound_level = 2\<rparr>"

definition demo_reducer :: reducer where
  "demo_reducer = (case reducer_init [demo_profile] 3 64 256 of Inr r \<Rightarrow> r)"

definition armed :: character_snapshot where
  "armed = demo_snapshot\<lparr>sn_dead := PBool True,
     sn_hands := PDict [(''right'', PDict [(''id'', PStr ''1''), (''name'', PStr ''steel broadsword'')])]\<rparr>"

definition disarmed :: character_snapshot where
  "disarmed = armed\<lparr>sn_sequence := 8, sn_dead := PBool False, sn_hands := PDict []\<rparr>"

definition unknown_next :: character_snapshot where
  "unknown_next = armed\<lparr>sn_sequence := 8, sn_dead := PNone, sn_hands := PNone\<rparr>"

definition reducer1 :: reducer where "reducer1 = fst (reduce id armed demo_reducer)"

lemma demo_reports:
  "snd (reduce id armed demo_reducer) = Inr [make_alert armed ''dead'' ''critical'' ''active'' [(''observed'', PBool True)]]"
  "snd (reduce id disarmed reducer1) = Inr [
     make_alert disarmed ''expected_weapon_missing'' ''critical'' ''active''
       [(''expected'', PStr ''broadsword''), (''observed_hands'', PList [])],
     make_alert disarmed ''dead'' ''info'' ''cleared'' [(''observed'', PBool False)]]"
  by code_simp+

lemma demo_reachable:
  "reach reducer_start reducer_step demo_reducer" "reach reducer_start reducer_step reducer1"
proof -
  have "isl (reducer_init [demo_profile] 3 64 256) = False" by code_simp
  then have "reducer_init [demo_profile] 3 64 256 = Inr demo_reducer"
    by (cases "reducer_init [demo_profile] 3 64 256") (simp_all add: demo_reducer_def)
  then show 0: "reach reducer_start reducer_step demo_reducer"
    by (intro reach_init) (unfold reducer_start_def, blast)
  show "reach reducer_start reducer_step reducer1"
    unfolding reducer1_def by (rule reach_step [OF 0 step_reduce])
qed

section \<open>Properties\<close>

text \<open>C28: A reduction emits exactly the transitions of the active alerts: replayed in order on the
  alerts that were active in the session, the emitted alerts give the alerts that are active
  afterwards, and none of them is redundant (a new alert was not active and fits the limit, or
  its severity changed; a cleared alert was active).  The history gets each of them, each of them
  names the snapshot, and no other character is affected.  A new session starts without alerts.\<close>

theorem reduce_emits_transitions:
  assumes "reduce order snap r = (r', Inr emitted)"
  shows "\<exists>st. map_of (rd_states r') (casefold (sn_character snap)) = Some st
    \<and> replay (rd_active_limit r) (wt_active (session_state snap r)) emitted = Some (wt_active st)
    \<and> wt_history st = foldl (\<lambda>h a. deque_push (rd_history_limit r) a h) (wt_history (session_state snap r)) emitted
    \<and> wt_generation st = sn_generation snap \<and> wt_sequence st = Some (sn_sequence snap)
    \<and> list_all (from_snapshot snap) emitted
    \<and> (\<forall>k. k \<noteq> casefold (sn_character snap) \<longrightarrow> map_of (rd_states r') k = map_of (rd_states r) k)"
  using assms
proof (cases rule: reduce_cases)
  case (reduced p em st' step)
  then show ?thesis using session_generation [of snap r] by (simp add: accounted_def)
qed simp_all

lemma reduce_emits_transitions_witness:
  "\<exists>st. map_of (rd_states reducer1) ''ann'' = Some st
     \<and> replay 64 [] [make_alert armed ''dead'' ''critical'' ''active'' [(''observed'', PBool True)]] = Some (wt_active st)"
proof -
  have "reduce id armed demo_reducer = (reducer1,
      Inr [make_alert armed ''dead'' ''critical'' ''active'' [(''observed'', PBool True)]])"
    using demo_reports(1) by (metis prod.collapse reducer1_def)
  from reduce_emits_transitions [OF this]
  have "\<exists>st. map_of (rd_states reducer1) (casefold (sn_character armed)) = Some st
     \<and> replay (rd_active_limit demo_reducer) (wt_active (session_state armed demo_reducer))
         [make_alert armed ''dead'' ''critical'' ''active'' [(''observed'', PBool True)]] = Some (wt_active st)" by blast
  moreover have "casefold (sn_character armed) = ''ann''" "rd_active_limit demo_reducer = 64"
    "wt_active (session_state armed demo_reducer) = []" by code_simp+
  ultimately show ?thesis by simp
qed

text \<open>In every reachable reducer the active alerts of a character are keyed by distinct codes, at
  most the active limit, all raised in the current session generation, and the history is
  bounded; this holds for any order in which the code enumerates its sets.\<close>

theorem active_alerts_bounded:
  assumes "reach reducer_start reducer_step r" and "map_of (rd_states r) k = Some st"
  shows "distinct (map wa_code (map snd (wt_active st))) \<and> length (wt_active st) \<le> rd_active_limit r
    \<and> length (wt_history st) \<le> rd_history_limit r
    \<and> (\<forall>a \<in> set (map snd (wt_active st)). wa_status a = ''active'' \<and> wa_generation a = wt_generation st)"
proof -
  have "watcher_ok r st" using watchers.reach_inv [OF assms(1)] assms(2) by (simp add: reducer_inv_def)
  moreover from this have "map wa_code (map snd (wt_active st)) = map fst (wt_active st)"
    by (auto simp: watcher_ok_def alerts_ok_def)
  ultimately show ?thesis by (auto simp: watcher_ok_def alerts_ok_def dkeys_def simp del: map_map)
qed

lemma active_alerts_bounded_witness:
  "\<exists>st. map_of (rd_states reducer1) ''ann'' = Some st \<and> length (wt_active st) \<le> 64"
proof -
  have "map_of (rd_states reducer1) ''ann'' \<noteq> None" "rd_active_limit reducer1 = 64" by code_simp+
  then obtain st where st: "map_of (rd_states reducer1) ''ann'' = Some st" by auto
  from active_alerts_bounded [OF demo_reachable(2) st] st \<open>rd_active_limit reducer1 = 64\<close> show ?thesis by auto
qed

text \<open>A snapshot of the same session in which every watched field is unknown emits nothing and
  leaves the active alerts and their history as they were.\<close>

theorem unknown_fields_keep_alerts:
  assumes "reduce order snap r = (r', Inr emitted)"
    and "sn_hands snap = PNone" and "sn_encumbrance snap = PNone" and "sn_dead snap = PNone" and "sn_stunned snap = PNone"
    and "sn_wounds snap = PNone" and "sn_active_spells snap = PNone"
    and "sn_owners snap = PNone \<or> sn_scripts snap = PNone" and "sn_nearby snap = PNone"
  shows "emitted = [] \<and> (\<exists>st. map_of (rd_states r') (casefold (sn_character snap)) = Some st
    \<and> wt_active st = wt_active (session_state snap r) \<and> wt_history st = wt_history (session_state snap r))"
  using assms(1)
proof (cases rule: reduce_cases)
  case (reduced p em st' step)
  have unknown: "set_condition r snap code None severity evidence s = s" for code severity evidence s
    by (simp add: set_condition_def Let_def case_prod_beta)
  have "weapon_alert p r snap s = s" for s
    using assms(2) by (simp add: weapon_alert_def Let_def unknown)
  moreover have "encumbrance_alert p r snap s = Inr s" for s
    using assms(3) by (simp add: encumbrance_alert_def encumbrance_level_def unknown)
  ultimately have step: "step = (session_state snap r, [])" using reduced(4) by simp
  have rules: "boolean_alerts r snap s = s" "wound_alert r snap p s = s" "spell_alerts p r snap s = s"
    "script_alerts order r snap s = s" for s
    using assms(4-8)
    by (auto simp: boolean_alerts_def bool_condition_def wound_alert_def Let_def unknown spell_alerts_def script_alerts_def
        case_prod_beta)
  from reduced(5) have "st' = forget_corpses (\<lambda>i. map_of (wt_active (session_state snap r)) (corpse_code i) = None)
      (session_state snap r) \<and> emitted = []"
    using assms(9) reduced(1) by (simp add: alert_rules_def rules step corpse_alerts_def)
  with reduced(3) forget_corpses_keeps show ?thesis by simp
qed simp_all

lemma unknown_fields_keep_alerts_witness:
  "\<exists>st. map_of (rd_states (fst (reduce id unknown_next reducer1))) ''ann'' = Some st
     \<and> map fst (wt_active st) = [''dead'']"
proof -
  have "snd (reduce id unknown_next reducer1) = Inr []" by code_simp
  then have r: "reduce id unknown_next reducer1 = (fst (reduce id unknown_next reducer1), Inr [])" by (metis prod.collapse)
  have "casefold (sn_character unknown_next) = ''ann''"
    "map fst (wt_active (session_state unknown_next reducer1)) = [''dead'']" by code_simp+
  moreover have "sn_hands unknown_next = PNone" "sn_encumbrance unknown_next = PNone" "sn_dead unknown_next = PNone"
    "sn_stunned unknown_next = PNone" "sn_wounds unknown_next = PNone" "sn_active_spells unknown_next = PNone"
    "sn_owners unknown_next = PNone \<or> sn_scripts unknown_next = PNone" "sn_nearby unknown_next = PNone"
    by (simp_all add: unknown_next_def armed_def demo_snapshot_def)
  note unknown_fields_keep_alerts [OF r this]
  ultimately show ?thesis by auto
qed

section \<open>What modelling showed\<close>

lemma superscript_encumbrance_raises:
  "snd (reduce id (armed\<lparr>sn_encumbrance := PStr [CHR 0xB2]\<rparr>) demo_reducer)
     = Inl (ValueError (''invalid literal for int() with base 10: '' @ str_repr [CHR 0xB2]))"
  by code_simp

definition colon_corpse :: character_snapshot where
  "colon_corpse = demo_snapshot\<lparr>sn_nearby := PDict [(''corpses'', PList [PDict [(''id'', PStr ''1:2''), (''noun'', PStr ''kobold'')]])]\<rparr>"

lemma colon_corpse_flaps:
  "(case snd (reduce id colon_corpse (demo_reducer\<lparr>rd_corpse_persistence_snapshots := 1\<rparr>)) of
      Inl e \<Rightarrow> [] | Inr emitted \<Rightarrow> map (\<lambda>a. (wa_code a, wa_status a)) emitted)
   = [(''unlooted_corpse:1:2'', ''active''), (''unlooted_corpse:1:2'', ''cleared'')]"
  by code_simp

end
