(* ===== verification/Question.thy ===== *)
theory Question
  imports Prelude
begin

text \<open>
  The deadline and cancellation token of one question (\<open>question.py\<close>).  A cancellation callback is
  opaque; running it is recorded with the token it was registered under.  The lock makes each
  operation atomic, and, as the code asks of them, callbacks do not call back into the control.
  An exception of a callback is caught, so it does not show in the state.
\<close>

section \<open>State and operations\<close>

record 'cb question_control =
  qc_deadline :: rat
  qc_cancelled :: bool
  qc_changed :: bool
  qc_reason :: string
  qc_cancel_callbacks :: "(nat, 'cb) dict"
  qc_next_token :: nat
  qc_ran :: "(nat \<times> 'cb) list"

definition new_control :: "rat \<Rightarrow> rat \<Rightarrow> 'cb question_control" where
  "new_control timeout_seconds now = \<lparr>qc_deadline = now + timeout_seconds, qc_cancelled = False, qc_changed = False,
     qc_reason = [], qc_cancel_callbacks = [], qc_next_token = 0, qc_ran = []\<rparr>"

definition cancel_question :: "string \<Rightarrow> 'cb question_control \<Rightarrow> 'cb question_control" where
  "cancel_question reason c =
     (if qc_cancelled c then c
      else c\<lparr>qc_reason := reason, qc_cancelled := True, qc_cancel_callbacks := [],
             qc_ran := qc_ran c @ qc_cancel_callbacks c, qc_changed := True\<rparr>)"

definition on_cancel :: "'cb option \<Rightarrow> 'cb question_control \<Rightarrow> 'cb question_control \<times> nat result" where
  \<comment> \<open>the result is the token that the remover holds; no callback stands for an argument that is not callable\<close>
  "on_cancel callback c = (case callback of
      None \<Rightarrow> (c, Inl (TypeError ''cancellation callback must be callable''))
    | Some cb \<Rightarrow>
        (let token = qc_next_token c; c1 = c\<lparr>qc_next_token := Suc token\<rparr> in
         if qc_cancelled c then (c1\<lparr>qc_ran := qc_ran c @ [(token, cb)]\<rparr>, Inr token)
         else (c1\<lparr>qc_cancel_callbacks := dput token cb (qc_cancel_callbacks c)\<rparr>, Inr token)))"

definition remove_callback :: "nat \<Rightarrow> 'cb question_control \<Rightarrow> 'cb question_control" where
  "remove_callback token c = c\<lparr>qc_cancel_callbacks := ddel token (qc_cancel_callbacks c)\<rparr>"

definition discarded :: "lab_error" where
  "discarded = QuestionInvalidated ''question discarded because conversation or session changed''"

definition timed_out :: "lab_error" where
  "timed_out = QuestionTimeout ''question deadline exceeded; no answer was retained''"

definition remaining :: "rat \<Rightarrow> 'cb question_control \<Rightarrow> 'cb question_control \<times> rat result" where
  "remaining now c =
     (if qc_cancelled c then (c, Inl (if qc_reason c = ''timeout'' then timed_out else discarded))
      else let left = qc_deadline c - now in
        if left \<le> 0 then
          (let c' = cancel_question ''timeout'' c in (c', Inl (if qc_reason c' \<noteq> ''timeout'' then discarded else timed_out)))
        else (c, Inr left))"

section \<open>Runs\<close>

inductive question_step :: "'cb question_control \<Rightarrow> 'cb question_control \<Rightarrow> bool" where
  step_cancel: "question_step c (cancel_question reason c)"
| step_on_cancel: "question_step c (fst (on_cancel callback c))"
| step_remove: "question_step c (remove_callback token c)"
| step_remaining: "question_step c (fst (remaining now c))"

definition question_start :: "'cb question_control \<Rightarrow> bool" where
  "question_start c = (\<exists>timeout now. c = new_control timeout now)"

definition question_inv :: "'cb question_control \<Rightarrow> bool" where
  "question_inv c =
     (distinct (map fst (qc_ran c) @ dkeys (qc_cancel_callbacks c))
      \<and> (\<forall>t \<in> set (map fst (qc_ran c) @ dkeys (qc_cancel_callbacks c)). t < qc_next_token c)
      \<and> (if qc_cancelled c then qc_cancel_callbacks c = [] \<and> qc_changed c else qc_ran c = [] \<and> \<not> qc_changed c))"

lemma cancel_inv: "question_inv c \<Longrightarrow> question_inv (cancel_question reason c)"
  by (auto simp: question_inv_def cancel_question_def dkeys_def)

lemma on_cancel_inv: "question_inv c \<Longrightarrow> question_inv (fst (on_cancel callback c))"
  by (cases callback)
     (auto simp: question_inv_def on_cancel_def Let_def dkeys_dput dkeys_def [of "[]"] less_Suc_eq split: if_splits)

lemma remove_inv: "question_inv c \<Longrightarrow> question_inv (remove_callback token c)"
  by (auto simp: question_inv_def remove_callback_def ddel_def dkeys_def distinct_map_filter)

lemma remaining_inv: "question_inv c \<Longrightarrow> question_inv (fst (remaining now c))"
  by (simp add: remaining_def Let_def cancel_inv)

interpretation question: invariant_system question_start question_step question_inv
proof
  show "question_inv c" if "question_start c" for c :: "'a question_control"
    using that by (auto simp: question_start_def new_control_def question_inv_def dkeys_def)
  show "question_inv d" if "question_inv c" "question_step c d" for c d :: "'a question_control"
    using that(2,1) by cases (simp_all add: cancel_inv on_cancel_inv remove_inv remaining_inv)
qed

definition cancellation_kept :: "'cb question_control \<Rightarrow> 'cb question_control \<Rightarrow> bool" where
  \<comment> \<open>a cancellation is final, and what ran stays recorded\<close>
  "cancellation_kept c d = (qc_deadline d = qc_deadline c \<and> (\<exists>new. qc_ran d = qc_ran c @ new)
     \<and> (qc_cancelled c \<longrightarrow> qc_cancelled d \<and> qc_reason d = qc_reason c))"

interpretation cancellation: evolving_system question_step question_inv "\<lambda>c (_ :: unit). Some c" cancellation_kept
proof
  show "cancellation_kept e g" if "cancellation_kept e f" "cancellation_kept f g" for e f g :: "'a question_control"
    using that by (auto simp: cancellation_kept_def)
  show "\<exists>f. Some t = Some f \<and> cancellation_kept e f"
    if "question_inv s" "question_step s t" "Some s = Some e" for s t e :: "'a question_control"
    using that(2,3)
    by cases (auto simp: cancellation_kept_def cancel_question_def on_cancel_def Let_def remove_callback_def
        remaining_def split: option.splits)
qed (auto simp: cancellation_kept_def intro: question.inv_step)

section \<open>Properties\<close>

text \<open>C29: Every registered cleanup callback runs at most once, and once the question is cancelled none is
  left waiting: a callback registered later runs at once.  A cancellation is final: its first
  reason stays, and no operation takes back a cleanup that ran.\<close>

theorem cleanup_runs_once:
  assumes "reach question_start question_step c" and "runs question_step c d"
  shows "distinct (map fst (qc_ran d)) \<and> (qc_cancelled d \<longrightarrow> qc_cancel_callbacks d = [] \<and> qc_changed d)
    \<and> (qc_cancelled c \<longrightarrow> qc_cancelled d \<and> qc_reason d = qc_reason c)
    \<and> (\<exists>new. qc_ran d = qc_ran c @ new)
    \<and> (qc_cancelled d \<longrightarrow> (\<forall>cb. qc_ran (fst (on_cancel (Some cb) d)) = qc_ran d @ [(qc_next_token d, cb)]))
    \<and> (\<forall>reason. \<not> qc_cancelled d \<longrightarrow> qc_ran (cancel_question reason d) = qc_cancel_callbacks d)"
proof -
  from assms(1) have c: "question_inv c" by (rule question.reach_inv)
  from cancellation.runs_evolve [OF assms(2) c refl] have d: "question_inv d" "cancellation_kept c d" by auto
  then show ?thesis
    by (auto simp: question_inv_def cancellation_kept_def on_cancel_def cancel_question_def Let_def)
qed

lemma cleanup_runs_once_witness:
  "qc_ran (cancel_question ''timeout'' (fst (on_cancel (Some ''close'') (new_control 30 100)))) = [(0, ''close'')]"
proof -
  let ?c = "new_control 30 100 :: string question_control"
  have "reach question_start question_step ?c" by (rule reach_init) (auto simp: question_start_def)
  moreover have "runs question_step ?c (fst (on_cancel (Some ''close'') ?c))"
    by (rule runs_step) (rule runs_refl, rule step_on_cancel)
  ultimately have "\<not> qc_cancelled (fst (on_cancel (Some ''close'') ?c)) \<longrightarrow>
      qc_ran (cancel_question ''timeout'' (fst (on_cancel (Some ''close'') ?c)))
        = qc_cancel_callbacks (fst (on_cancel (Some ''close'') ?c))"
    using cleanup_runs_once by blast
  then show ?thesis by (simp add: on_cancel_def new_control_def Let_def)
qed

end
