(* ===== verification/ContextBuffer.thy ===== *)
theory ContextBuffer
  imports Protocol
begin

text \<open>
  The bounded observation memory of \<open>context.py\<close>: per character a bounded deque, and a snapshot that
  takes the latest observations within a budget of characters.  The lock makes each operation atomic.
\<close>

record context_buffer =
  cb_max_events :: nat
  cb_max_characters :: int
  cb_events :: "(string, observation list) dict"

definition context_init :: "int \<Rightarrow> int \<Rightarrow> context_buffer result" where
  "context_init max_events max_characters =
     (if max_events < 1 \<or> max_characters < 1 then Inl (ValueError ''context limits must be positive'')
      else Inr \<lparr>cb_max_events = nat max_events, cb_max_characters = max_characters, cb_events = []\<rparr>)"

definition stored_events :: "string \<Rightarrow> context_buffer \<Rightarrow> observation list" where
  \<comment> \<open>\<open>self._events.get(key, ())\<close>\<close>
  "stored_events key b = (case map_of (cb_events b) key of None \<Rightarrow> [] | Some xs \<Rightarrow> xs)"

definition append_observation :: "observation \<Rightarrow> context_buffer \<Rightarrow> context_buffer" where
  "append_observation x b = (let key = casefold (ob_character x) in
     b\<lparr>cb_events := dput key (deque_push (cb_max_events b) x (stored_events key b)) (cb_events b)\<rparr>)"

definition observe :: "observation list \<Rightarrow> context_buffer \<Rightarrow> context_buffer \<times> nat" where
  "observe observations b = (fold append_observation observations b, length observations)"

definition observation_cost :: "observation \<Rightarrow> int" where
  "observation_cost x = int (length (ob_text x)) + int (length (ob_timestamp x)) + 32"

fun select_recent :: "int \<Rightarrow> observation list \<Rightarrow> int \<Rightarrow> observation list \<Rightarrow> observation list" where
  \<comment> \<open>the loop over the reversed observations; \<open>selected\<close> is kept in reversed order\<close>
  "select_recent limit selected used [] = selected"
| "select_recent limit selected used (x # xs) =
     (if selected \<noteq> [] \<and> limit < used + observation_cost x then selected
      else select_recent limit (x # selected) (used + observation_cost x) xs)"

definition context_snapshot :: "string \<Rightarrow> context_buffer \<Rightarrow> observation list" where
  \<comment> \<open>appending and reversing at the end is the same as collecting in front\<close>
  "context_snapshot character b =
     select_recent (cb_max_characters b) [] 0 (rev (stored_events (casefold character) b))"

definition context_clear :: "string \<Rightarrow> context_buffer \<Rightarrow> context_buffer" where
  "context_clear character b = b\<lparr>cb_events := ddel (casefold character) (cb_events b)\<rparr>"

section \<open>Laws\<close>

definition total_cost :: "observation list \<Rightarrow> int" where
  "total_cost xs = sum_list (map observation_cost xs)"

lemma cost_positive: "0 < observation_cost x"
  by (simp add: observation_cost_def)

lemma select_recent_window:
  assumes "used = total_cost selected" and "selected = [] \<or> used \<le> limit \<or> length selected = 1"
  shows "\<exists>older newer. xs = newer @ older \<and> select_recent limit selected used xs = rev newer @ selected
    \<and> (let w = rev newer @ selected in
        (w = [] \<longrightarrow> xs = []) \<and> (total_cost w \<le> limit \<or> length w \<le> 1)
        \<and> (older \<noteq> [] \<longrightarrow> limit < total_cost (hd older # w)))"
  using assms
proof (induction limit selected used xs rule: select_recent.induct)
  case (1 limit selected used)
  then show ?case by (auto simp: total_cost_def)
next
  case (2 limit selected used x xs)
  show ?case
  proof (cases "selected \<noteq> [] \<and> limit < used + observation_cost x")
    case True
    with 2(2,3) show ?thesis
      by (intro exI [of _ "x # xs"] exI [of _ "[]"]) (auto simp: total_cost_def Let_def)
  next
    case False
    have "\<exists>older newer. xs = newer @ older
        \<and> select_recent limit (x # selected) (used + observation_cost x) xs = rev newer @ (x # selected)
        \<and> (let w = rev newer @ (x # selected) in
            (w = [] \<longrightarrow> xs = []) \<and> (total_cost w \<le> limit \<or> length w \<le> 1)
            \<and> (older \<noteq> [] \<longrightarrow> limit < total_cost (hd older # w)))"
      using 2(1) [OF False] 2(2) False by (auto simp: total_cost_def)
    then obtain older newer where "xs = newer @ older"
      and "select_recent limit (x # selected) (used + observation_cost x) xs = rev newer @ (x # selected)"
      and "let w = rev newer @ (x # selected) in
            (w = [] \<longrightarrow> xs = []) \<and> (total_cost w \<le> limit \<or> length w \<le> 1)
            \<and> (older \<noteq> [] \<longrightarrow> limit < total_cost (hd older # w))" by blast
    with False show ?thesis
      by (intro exI [of _ older] exI [of _ "x # newer"]) (auto simp: Let_def)
  qed
qed

lemma empty_stored: "stored_events key \<lparr>cb_max_events = n, cb_max_characters = m, cb_events = []\<rparr> = []"
  by (simp add: stored_events_def)

lemma fold_append_stored:
  "stored_events key (fold append_observation xs b)
     = foldl (\<lambda>h x. deque_push (cb_max_events b) x h) (stored_events key b)
         (filter (\<lambda>x. casefold (ob_character x) = key) xs)"
proof (induction xs arbitrary: b)
  case (Cons x xs)
  have "stored_events key (append_observation x b) = (if casefold (ob_character x) = key
      then deque_push (cb_max_events b) x (stored_events key b) else stored_events key b)"
    and "cb_max_events (append_observation x b) = cb_max_events b"
    by (auto simp: append_observation_def Let_def stored_events_def)
  with Cons show ?case by simp
qed simp

lemma deque_push_short: "length h < n \<Longrightarrow> deque_push n x h = h @ [x]"
  by (simp add: deque_push_def)

lemma deque_push_full: "length h = n \<Longrightarrow> 0 < n \<Longrightarrow> deque_push n x h = tl h @ [x]"
  by (cases h) (simp_all add: deque_push_def)

lemma deque_fold:
  assumes "0 < n"
  shows "length h \<le> n \<Longrightarrow> foldl (\<lambda>h x. deque_push n x h) h xs = drop (length (h @ xs) - n) (h @ xs)"
proof (induction xs arbitrary: h)
  case (Cons x xs)
  have "foldl (\<lambda>h x. deque_push n x h) h (x # xs)
      = drop (length (deque_push n x h @ xs) - n) (deque_push n x h @ xs)"
    using Cons.IH [of "deque_push n x h"] by simp
  also have "\<dots> = drop (length (h @ x # xs) - n) (h @ x # xs)"
  proof (cases "length h < n")
    case True
    then show ?thesis by (simp add: deque_push_short)
  next
    case False
    with Cons.prems assms obtain y ys where "length h = n" "h = y # ys" by (cases h) auto
    then show ?thesis using assms by (auto simp: deque_push_full Suc_diff_le)
  qed
  finally show ?case .
qed simp

section \<open>Properties\<close>

text \<open>C30: The observations given to a question are the latest of the latest: of all observations of the
  character, in order, the buffer keeps the last \<open>max_events\<close>, and a snapshot is the longest suffix of
  them within the budget of characters (at least one observation, if there is any).\<close>

theorem context_is_longest_recent_window:
  assumes "context_init max_events max_characters = Inr b0"
  shows "let b = fst (observe observations b0); kept = stored_events (casefold character) b;
             mine = filter (\<lambda>x. casefold (ob_character x) = casefold character) observations;
             w = context_snapshot character b
    in kept = drop (length mine - nat max_events) mine
       \<and> (\<exists>older. kept = older @ w \<and> (older \<noteq> [] \<longrightarrow> max_characters < total_cost (last older # w)))
       \<and> (w = [] \<longrightarrow> mine = []) \<and> (total_cost w \<le> max_characters \<or> length w = 1)"
proof -
  let ?key = "casefold character"
  let ?b = "fst (observe observations b0)"
  let ?mine = "filter (\<lambda>x. casefold (ob_character x) = ?key) observations"
  let ?w = "context_snapshot character ?b"
  from assms have b0: "b0 = \<lparr>cb_max_events = nat max_events, cb_max_characters = max_characters, cb_events = []\<rparr>"
    and pos: "0 < nat max_events" "0 < max_characters"
    by (auto simp: context_init_def split: if_splits)
  have limits: "cb_max_characters (fold append_observation xs c) = cb_max_characters c" for xs c
    by (induction xs arbitrary: c) (simp_all add: append_observation_def Let_def)
  have kept: "stored_events ?key ?b = drop (length ?mine - nat max_events) ?mine"
    using deque_fold [OF pos(1), of "[]" ?mine] fold_append_stored [of ?key observations b0]
    by (simp add: observe_def b0 empty_stored)
  have "total_cost [] = 0" by (simp add: total_cost_def)
  from select_recent_window [of 0 "[]" max_characters "rev (stored_events ?key ?b)", OF this [symmetric]]
  obtain older newer where split: "rev (stored_events ?key ?b) = newer @ older"
    and w: "select_recent max_characters [] 0 (rev (stored_events ?key ?b)) = rev newer"
    and window: "rev newer = [] \<longrightarrow> rev (stored_events ?key ?b) = []"
      "total_cost (rev newer) \<le> max_characters \<or> length (rev newer) \<le> 1"
      "older \<noteq> [] \<longrightarrow> max_characters < total_cost (hd older # rev newer)"
    unfolding Let_def append_Nil2 by blast
  have w': "?w = rev newer" using w by (simp add: context_snapshot_def observe_def limits b0)
  have "stored_events ?key ?b = rev older @ ?w" using split w' by (metis rev_append rev_rev_ident)
  moreover have "older \<noteq> [] \<longrightarrow> last (rev older) = hd older" by (simp add: last_rev)
  moreover have "?w = [] \<longrightarrow> ?mine = []"
  proof
    assume "?w = []"
    with window(1) w' kept have "length ?mine \<le> length ?mine - nat max_events" by simp
    with pos(1) have "length ?mine = 0" by linarith
    then show "?mine = []" by simp
  qed
  moreover have "total_cost ?w \<le> max_characters \<or> length ?w = 1"
    using window(2) w' pos(2) by (cases newer) (auto simp: total_cost_def)
  ultimately show ?thesis using kept window(3) w' unfolding Let_def by (auto intro: exI [of _ "rev older"])
qed

definition demo_observation :: "string \<Rightarrow> observation" where
  "demo_observation text = \<lparr>ob_timestamp = ''12:00'', ob_character = ''Ann'', ob_text = text, ob_game = ''GSIV'',
     ob_room_id = None, ob_source = ''game''\<rparr>"

lemma context_is_longest_recent_window_witness:
  "\<exists>b0. context_init 2 100 = Inr b0
     \<and> stored_events ''ann'' (fst (observe (map demo_observation [''a'', ''bb'', ''ccc'']) b0))
         = [demo_observation ''bb'', demo_observation ''ccc'']"
proof -
  obtain b0 where b0: "context_init 2 100 = Inr b0" by (simp add: context_init_def)
  have "casefold ''ANN'' = ''ann''" "casefold ''Ann'' = ''ann''" by code_simp+
  with context_is_longest_recent_window [OF b0, of "map demo_observation [''a'', ''bb'', ''ccc'']" "''ANN''"] b0
  show ?thesis by (simp add: Let_def demo_observation_def)
qed

end
