(* ===== verification/Json.thy ===== *)
theory Json
  imports PyVal
begin

text \<open>
  \<open>json.dumps\<close> (with \<open>ensure_ascii=False\<close>) and \<open>json.loads\<close> of Python's standard library, with
  the options that the sources use.  \<open>rl\<close> is the nesting that the interpreter's recursion limit
  still allows; a deeper value or text raises \<open>RecursionError\<close>.  An integer of more than 4300
  digits is refused in both directions.  The scanner follows CPython's: a value is read from the
  front of the text and the rest is returned.  A unicode escape beyond U+00FF is not represented.
\<close>

section \<open>Printing\<close>

record json_style =
  js_sort_keys :: bool
  js_item_separator :: string
  js_key_separator :: string

definition compact_sorted :: json_style where
  \<comment> \<open>\<open>sort_keys=True, separators=(",", ":")\<close>\<close>
  "compact_sorted = \<lparr>js_sort_keys = True, js_item_separator = '','', js_key_separator = '':''\<rparr>"

definition default_style :: json_style where
  "default_style = \<lparr>js_sort_keys = False, js_item_separator = '', '', js_key_separator = '': ''\<rparr>"

definition json_escape_char :: "char \<Rightarrow> string" where
  "json_escape_char c = (let n = ord c in
     if n = 34 \<or> n = 92 then [CHR 92, c]
     else if n = 10 then [CHR 92, CHR ''n''] else if n = 13 then [CHR 92, CHR ''r'']
     else if n = 9 then [CHR 92, CHR ''t''] else if n = 12 then [CHR 92, CHR ''f'']
     else if n = 8 then [CHR 92, CHR ''b'']
     else if n < 32 then [CHR 92] @ ''u00'' @ hex2 n
     else [c])"

definition json_quote :: "string \<Rightarrow> string" where
  "json_quote s = [CHR 34] @ concat (map json_escape_char s) @ [CHR 34]"

fun json_float :: "pyfloat \<Rightarrow> string" where
  "json_float (Fin r) = rat_repr r"
| "json_float PosInf = ''Infinity''"
| "json_float NegInf = ''-Infinity''"
| "json_float NaN = ''NaN''"

definition order_items :: "bool \<Rightarrow> (string \<times> 'a) list \<Rightarrow> (string \<times> 'a) list" where
  "order_items sorted_keys d = (if sorted_keys then sort_key fst d else d)"

fun json_text :: "json_style \<Rightarrow> pyval \<Rightarrow> string" where
  "json_text st PNone = ''null''"
| "json_text st (PBool b) = (if b then ''true'' else ''false'')"
| "json_text st (PInt i) = int_str i"
| "json_text st (PFloat f) = json_float f"
| "json_text st (PStr s) = json_quote s"
| "json_text st (PList xs) = ''['' @ join (js_item_separator st) (map (json_text st) xs) @ '']''"
| "json_text st (PDict d) = ''{'' @ join (js_item_separator st)
     (map snd (order_items (js_sort_keys st)
        (map (\<lambda>(k, v). (k, json_quote k @ js_key_separator st @ json_text st v)) d))) @ ''}''"

fun json_depth :: "pyval \<Rightarrow> nat" where
  "json_depth (PList xs) = Suc (Max (set (0 # map json_depth xs)))"
| "json_depth (PDict d) = Suc (Max (set (0 # map (\<lambda>(k, v). json_depth v) d)))"
| "json_depth _ = 0"

definition max_int_digits :: nat where "max_int_digits = 4300"

fun json_finite :: "pyval \<Rightarrow> bool" where
  \<comment> \<open>no number that \<open>allow_nan=False\<close> or the digit limit of \<open>int.__repr__\<close> refuses\<close>
  "json_finite (PInt i) = (length (nat_str (nat \<bar>i\<bar>)) \<le> max_int_digits)"
| "json_finite (PFloat f) = (case f of Fin r \<Rightarrow> True | _ \<Rightarrow> False)"
| "json_finite (PList xs) = list_all json_finite xs"
| "json_finite (PDict d) = list_all (\<lambda>(k, v). json_finite v) d"
| "json_finite _ = True"

definition json_dumps :: "nat \<Rightarrow> json_style \<Rightarrow> pyval \<Rightarrow> string result" where
  "json_dumps rl st v =
     (if rl < json_depth v then Inl RecursionError
      else if \<not> json_finite v then Inl (ValueError ''Out of range float values are not JSON compliant'')
      else Inr (json_text st v))"

section \<open>Scanning\<close>

definition json_error :: lab_error where
  \<comment> \<open>\<open>json.JSONDecodeError\<close>, a \<open>ValueError\<close>\<close>
  "json_error = ValueError ''invalid JSON''"

definition json_space :: "char \<Rightarrow> bool" where
  "json_space c = (ord c \<in> {32, 9, 10, 13})"

definition skip_space :: "string \<Rightarrow> string" where
  "skip_space s = dropWhile json_space s"

definition hex_value :: "char \<Rightarrow> nat option" where
  "hex_value c = (let n = ord c in
     if 48 \<le> n \<and> n \<le> 57 then Some (n - 48) else if 65 \<le> n \<and> n \<le> 70 then Some (n - 55)
     else if 97 \<le> n \<and> n \<le> 102 then Some (n - 87) else None)"

definition simple_escape :: "char \<Rightarrow> char option" where
  "simple_escape c = (let n = ord c in
     if n = 34 \<or> n = 92 \<or> n = 47 then Some c
     else if c = CHR ''b'' then Some (char_of (8 :: nat)) else if c = CHR ''f'' then Some (char_of (12 :: nat))
     else if c = CHR ''n'' then Some (char_of (10 :: nat)) else if c = CHR ''r'' then Some (char_of (13 :: nat))
     else if c = CHR ''t'' then Some (char_of (9 :: nat)) else None)"

definition unicode_escape :: "char \<Rightarrow> char \<Rightarrow> char \<Rightarrow> char \<Rightarrow> char result" where
  "unicode_escape a b c d = (case (hex_value a, hex_value b, hex_value c, hex_value d) of
      (Some h, Some i, Some j, Some k) \<Rightarrow>
        if 0 < h \<or> 0 < i then Inl NotRepresented else Inr (char_of (16 * j + k))
    | _ \<Rightarrow> Inl json_error)"

fun scan_string :: "string \<Rightarrow> (string \<times> string) result" where
  \<comment> \<open>\<open>py_scanstring\<close> after the opening quote: the decoded string and the rest\<close>
  "scan_string [] = Inl json_error"
| "scan_string (c # s) =
     (if ord c = 34 then Inr ([], s)
      else if ord c < 32 then Inl json_error
      else if ord c \<noteq> 92 then rbind (scan_string s) (\<lambda>(t, r). Inr (c # t, r))
      else case s of
        [] \<Rightarrow> Inl json_error
      | e # s1 \<Rightarrow>
          if e = CHR ''u'' then (case s1 of
              a # b # h # d # s2 \<Rightarrow> rbind (unicode_escape a b h d) (\<lambda>x.
                rbind (scan_string s2) (\<lambda>(t, r). Inr (x # t, r)))
            | _ \<Rightarrow> Inl json_error)
          else (case simple_escape e of
              None \<Rightarrow> Inl json_error
            | Some x \<Rightarrow> rbind (scan_string s1) (\<lambda>(t, r). Inr (x # t, r))))"

definition int_part :: "string \<Rightarrow> (string \<times> string) option" where
  \<comment> \<open>\<open>0|[1-9][0-9]*\<close>\<close>
  "int_part s = (case s of
      [] \<Rightarrow> None
    | c # r \<Rightarrow> if c = CHR ''0'' then Some (''0'', r)
        else if is_ascii_digit c then Some (takeWhile is_ascii_digit s, dropWhile is_ascii_digit s)
        else None)"

definition fraction_part :: "string \<Rightarrow> string \<times> string" where
  \<comment> \<open>the digits of \<open>(\\.[0-9]+)?\<close>\<close>
  "fraction_part s = (case s of
      c # d # r \<Rightarrow> if c = CHR ''.'' \<and> is_ascii_digit d
        then (takeWhile is_ascii_digit (d # r), dropWhile is_ascii_digit (d # r)) else ([], s)
    | _ \<Rightarrow> ([], s))"

definition exponent_part :: "string \<Rightarrow> int option \<times> string" where
  \<comment> \<open>the value of \<open>([eE][-+]?[0-9]+)?\<close>\<close>
  "exponent_part s = (case s of
      e # r \<Rightarrow>
        if e \<noteq> CHR ''e'' \<and> e \<noteq> CHR ''E'' then (None, s) else
        (let (negative, ds) = (case r of
               c # r' \<Rightarrow> if c = CHR ''-'' then (True, r') else if c = CHR ''+'' then (False, r') else (False, r)
             | [] \<Rightarrow> (False, r));
             value_digits = takeWhile is_ascii_digit ds in
         if value_digits = [] then (None, s)
         else (Some ((if negative then -1 else 1) * int (digits_value value_digits)), dropWhile is_ascii_digit ds))
    | [] \<Rightarrow> (None, s))"

definition scale10 :: "int \<Rightarrow> rat" where
  "scale10 e = (if 0 \<le> e then 10 ^ nat e else 1 / 10 ^ nat (- e))"

definition to_pyfloat :: "rat \<Rightarrow> pyfloat" where
  "to_pyfloat r = (if 2 ^ 1024 - 2 ^ 970 \<le> r then PosInf else if r \<le> 2 ^ 970 - 2 ^ 1024 then NegInf else Fin r)"

definition signed :: "bool \<Rightarrow> 'a :: uminus \<Rightarrow> 'a" where
  "signed negative x = (if negative then - x else x)"

definition match_number :: "bool \<Rightarrow> string \<Rightarrow> (pyval \<times> string) result" where
  \<comment> \<open>\<open>_match_number_unicode\<close> after the sign\<close>
  "match_number negative s = (case int_part s of
      None \<Rightarrow> Inl json_error
    | Some (ip, r1) \<Rightarrow>
       (case fraction_part r1 of (fp, r2) \<Rightarrow> case exponent_part r2 of (ex, r3) \<Rightarrow>
          if fp = [] \<and> ex = None then
            (if max_int_digits < length ip then Inl (ValueError ''Exceeds the limit for integer string conversion'')
             else Inr (PInt (signed negative (int (digits_value ip))), r3))
          else
            (let m = of_nat (digits_value (ip @ fp));
                 e = (case ex of None \<Rightarrow> 0 | Some x \<Rightarrow> x) - int (length fp) in
             Inr (PFloat (to_pyfloat (signed negative (m * scale10 e))), r3))))"

record json_options =
  jo_unique_keys :: bool \<comment> \<open>\<open>object_pairs_hook\<close> that refuses a repeated key\<close>
  jo_constants :: bool \<comment> \<open>\<open>NaN\<close>, \<open>Infinity\<close> and \<open>-Infinity\<close> are accepted\<close>

definition after_prefix :: "string \<Rightarrow> string \<Rightarrow> string option" where
  "after_prefix p s = (if starts_with p s then Some (drop (length p) s) else None)"

definition scan_constant :: "json_options \<Rightarrow> string \<Rightarrow> (pyval \<times> string) option result" where
  \<comment> \<open>the words that the scanner knows; \<open>None\<close> for any other text\<close>
  "scan_constant opt s =
     (let constant = (\<lambda>f r. if jo_constants opt then Inr (Some (PFloat f, r)) else Inl (ValueError ''non-finite JSON value'')) in
      case after_prefix ''null'' s of Some r \<Rightarrow> Inr (Some (PNone, r)) | None \<Rightarrow>
      case after_prefix ''true'' s of Some r \<Rightarrow> Inr (Some (PBool True, r)) | None \<Rightarrow>
      case after_prefix ''false'' s of Some r \<Rightarrow> Inr (Some (PBool False, r)) | None \<Rightarrow>
      case after_prefix ''NaN'' s of Some r \<Rightarrow> constant NaN r | None \<Rightarrow>
      case after_prefix ''Infinity'' s of Some r \<Rightarrow> constant PosInf r | None \<Rightarrow>
      case after_prefix ''-Infinity'' s of Some r \<Rightarrow> constant NegInf r | None \<Rightarrow> Inr None)"

definition object_of_pairs :: "json_options \<Rightarrow> (string \<times> pyval) list \<Rightarrow> pyval result" where
  "object_of_pairs opt pairs =
     (if jo_unique_keys opt \<and> \<not> distinct (map fst pairs) then Inl (ValueError ''duplicate JSON field'')
      else Inr (PDict (fold (\<lambda>(k, v). dput k v) pairs [])))"

fun scan_elements :: "(string \<Rightarrow> (pyval \<times> string) result) \<Rightarrow> nat \<Rightarrow> string \<Rightarrow> (pyval list \<times> string) result" where
  \<comment> \<open>the loop of \<open>JSONArray\<close>; each round consumes text, so a bound by its length is enough\<close>
  "scan_elements scan 0 s = Inl json_error"
| "scan_elements scan (Suc n) s =
     rbind (scan s) (\<lambda>(v, r). case skip_space r of
         c # r1 \<Rightarrow>
           if c = CHR '']'' then Inr ([v], r1)
           else if c = CHR '','' then
             rbind (scan_elements scan n (skip_space r1)) (\<lambda>(vs, r2). Inr (v # vs, r2))
           else Inl json_error
       | [] \<Rightarrow> Inl json_error)"

definition scan_key :: "string \<Rightarrow> (string \<times> string) result" where
  \<comment> \<open>a member name and the colon after it\<close>
  "scan_key s = (case s of
      c # r \<Rightarrow> if ord c \<noteq> 34 then Inl json_error else
        rbind (scan_string r) (\<lambda>(k, r1). case skip_space r1 of
            d # r2 \<Rightarrow> if d = CHR '':'' then Inr (k, skip_space r2) else Inl json_error
          | [] \<Rightarrow> Inl json_error)
    | [] \<Rightarrow> Inl json_error)"

fun scan_members :: "(string \<Rightarrow> (pyval \<times> string) result) \<Rightarrow> nat \<Rightarrow> string
    \<Rightarrow> ((string \<times> pyval) list \<times> string) result" where
  \<comment> \<open>the loop of \<open>JSONObject\<close>\<close>
  "scan_members scan 0 s = Inl json_error"
| "scan_members scan (Suc n) s =
     rbind (scan_key s) (\<lambda>(k, r0). rbind (scan r0) (\<lambda>(v, r). case skip_space r of
         c # r1 \<Rightarrow>
           if c = CHR ''}'' then Inr ([(k, v)], r1)
           else if c = CHR '','' then
             rbind (scan_members scan n (skip_space r1)) (\<lambda>(ms, r2). Inr ((k, v) # ms, r2))
           else Inl json_error
       | [] \<Rightarrow> Inl json_error))"

definition scan_array :: "(string \<Rightarrow> (pyval \<times> string) result) \<Rightarrow> string \<Rightarrow> (pyval \<times> string) result" where
  "scan_array scan s = (let r = skip_space s in case r of
      c # r1 \<Rightarrow> if c = CHR '']'' then Inr (PList [], r1)
        else rbind (scan_elements scan (length r) r) (\<lambda>(vs, r2). Inr (PList vs, r2))
    | [] \<Rightarrow> Inl json_error)"

definition scan_object :: "json_options \<Rightarrow> (string \<Rightarrow> (pyval \<times> string) result) \<Rightarrow> string \<Rightarrow> (pyval \<times> string) result" where
  "scan_object opt scan s = (let r = skip_space s in case r of
      c # r1 \<Rightarrow> if c = CHR ''}'' then rbind (object_of_pairs opt []) (\<lambda>v. Inr (v, r1))
        else rbind (scan_members scan (length r) r) (\<lambda>(ms, r2). rbind (object_of_pairs opt ms) (\<lambda>v. Inr (v, r2)))
    | [] \<Rightarrow> Inl json_error)"

definition scan_value :: "json_options \<Rightarrow> (string \<Rightarrow> (pyval \<times> string) result) option \<Rightarrow> string
    \<Rightarrow> (pyval \<times> string) result" where
  \<comment> \<open>\<open>scan_once\<close>; \<open>deeper\<close> scans the values inside a container, if the recursion limit allows one\<close>
  "scan_value opt deeper s = (case s of
      [] \<Rightarrow> Inl json_error
    | c # r \<Rightarrow>
        if ord c = 34 then rbind (scan_string r) (\<lambda>(t, r1). Inr (PStr t, r1))
        else if c = CHR ''{'' then (case deeper of None \<Rightarrow> Inl RecursionError | Some scan \<Rightarrow> scan_object opt scan r)
        else if c = CHR ''['' then (case deeper of None \<Rightarrow> Inl RecursionError | Some scan \<Rightarrow> scan_array scan r)
        else rbind (scan_constant opt s) (\<lambda>found. case found of
            Some x \<Rightarrow> Inr x
          | None \<Rightarrow> if c = CHR ''-'' then match_number True r else match_number False s))"

primrec scan_once :: "json_options \<Rightarrow> nat \<Rightarrow> string \<Rightarrow> (pyval \<times> string) result" where
  "scan_once opt 0 = scan_value opt None"
| "scan_once opt (Suc n) = scan_value opt (Some (scan_once opt n))"

definition json_loads :: "nat \<Rightarrow> json_options \<Rightarrow> string \<Rightarrow> pyval result" where
  "json_loads rl opt s =
     rbind (scan_once opt rl (skip_space s)) (\<lambda>(v, r). if skip_space r = [] then Inr v else Inl json_error)"

end
