(* ===== verification/EvidenceWorkspace.thy ===== *)
theory EvidenceWorkspace
  imports Json "HOL-Library.Product_Lexorder"
begin

text \<open>
  The question-local evidence store of \<open>evidence_workspace.py\<close>.  Requests, results and records are
  dictionaries of JSON values that print: the evidence loop checks them before it stores them, and
  checks that a request names its tool and a result its status and lists of sources and diagnostics.
  The digest of an identity is an argument, \<open>digest\<close>.  An operation that raises leaves nothing
  behind that is read again, so it returns the new workspace or the error.
\<close>

type_synonym pydict = "(string \<times> pyval) list"

definition json_compact :: "pyval \<Rightarrow> string" where
  \<comment> \<open>\<open>_json\<close>, on a value that prints\<close>
  "json_compact v = json_text compact_sorted v"

record evidence_entry =
  en_record :: pydict
  en_touched :: nat
  en_priority :: nat
  en_reactivated :: bool

record workspace =
  ew_max_result_chars :: nat
  ew_max_context_chars :: nat
  ew_max_requests :: nat
  ew_entries :: "evidence_entry list"
  ew_requests :: "(string, nat) dict"
  ew_identities :: "(string, nat) dict"
  ew_clock :: nat
  ew_diagnostics :: "pyval list"

definition workspace_init :: "nat \<Rightarrow> nat \<Rightarrow> nat \<Rightarrow> workspace" where
  "workspace_init result_chars context_chars requests =
     \<lparr>ew_max_result_chars = result_chars, ew_max_context_chars = context_chars, ew_max_requests = requests,
      ew_entries = [], ew_requests = [], ew_identities = [], ew_clock = 0, ew_diagnostics = []\<rparr>"

section \<open>Locators and keys\<close>

definition sub_dict :: "string \<Rightarrow> pydict \<Rightarrow> pydict" where
  \<comment> \<open>\<open>d[k]\<close> where it is known to be a dictionary\<close>
  "sub_dict k d = (case dget k d of PDict e \<Rightarrow> e | _ \<Rightarrow> [])"

definition list_field :: "string \<Rightarrow> pydict \<Rightarrow> pyval list" where
  \<comment> \<open>\<open>d.get(k, ())\<close> where it is known to be a list\<close>
  "list_field k d = (case dget k d of PList xs \<Rightarrow> xs | _ \<Rightarrow> [])"

definition get_of :: "string \<Rightarrow> pyval \<Rightarrow> pyval result" where
  \<comment> \<open>\<open>v.get(k)\<close>\<close>
  "get_of k v = (case v of PDict d \<Rightarrow> Inr (dget k d) | _ \<Rightarrow> Inl (AttributeError k))"

definition locator_fields :: "string list" where
  "locator_fields = [''source_id'', ''section_id'', ''start'', ''end'', ''next_cursor'']"

definition short_scalar :: "pyval \<Rightarrow> bool" where
  "short_scalar v = ((is_str v \<or> is_int v) \<and> length (py_str v) \<le> 160)"

fun collect_handles :: "string list \<Rightarrow> pyval list \<Rightarrow> string list" where
  \<comment> \<open>the loop over the items: at most six handles that print within 200 characters\<close>
  "collect_handles handles [] = handles"
| "collect_handles handles (item # items) =
     (case item of PDict d \<Rightarrow> (case dget ''source_id'' d of
          PStr s \<Rightarrow>
            if length s \<le> 160 then
              (let candidate = PDict [(''source_ids'', PList (map PStr (handles @ [s])))];
                   handles1 = (if length (json_compact candidate) \<le> 200 then handles @ [s] else handles)
               in if length handles1 = 6 then handles1 else collect_handles handles1 items)
            else collect_handles handles items
        | _ \<Rightarrow> collect_handles handles items)
      | _ \<Rightarrow> collect_handles handles items)"

definition compact_locator :: "pydict \<Rightarrow> pydict" where
  "compact_locator l = (if length (json_compact (PDict l)) \<le> 200 then l
     else if dhas ''source_id'' l then [(''source_id'', dget ''source_id'' l)] else [])"

definition locator :: "pydict \<Rightarrow> pydict option" where
  "locator result = (case dget ''data'' result of
      PDict data \<Rightarrow>
        (let l = map (\<lambda>n. (n, dget n data)) (filter (\<lambda>n. short_scalar (dget n data)) locator_fields);
             l1 = (case dget ''items'' data of
                 PList items \<Rightarrow> if l = [] then
                     (let handles = collect_handles [] items
                      in if handles = [] then [] else [(''source_ids'', PList (map PStr handles))])
                   else l
               | _ \<Rightarrow> l);
             l2 = compact_locator l1
         in if l2 = [] then None else Some l2)
    | _ \<Rightarrow> None)"

definition opt_dict :: "pydict option \<Rightarrow> pyval" where
  "opt_dict d = (case d of None \<Rightarrow> PNone | Some l \<Rightarrow> PDict l)"

definition not_supplied :: string where
  "not_supplied = ''Retained, not supplied. Repeat the original request to reactivate, or read a listed source handle.''"

definition manifest_of :: "pydict \<Rightarrow> pydict" where
  "manifest_of r =
     (if dget ''status'' (sub_dict ''result'' r) = PStr ''omitted'' then r else
      let request = sub_dict ''request'' r;
          shown = (if 180 < length (json_compact (PDict request)) then [(''tool'', dget ''tool'' request)] else request);
          l = (case locator (sub_dict ''result'' r) of
              None \<Rightarrow> None
            | Some l \<Rightarrow> if 200 < length (json_compact (PDict l))
                then (if dhas ''source_id'' l then Some [(''source_id'', dget ''source_id'' l)] else None) else Some l)
      in [(''evidence_id'', dget ''evidence_id'' r), (''request'', PDict shown),
          (''result'', PDict [(''status'', PStr ''not_in_context''), (''data'', opt_dict l), (''detail'', PStr not_supplied)])])"

definition identity_value :: "pydict \<Rightarrow> pydict \<Rightarrow> pyval option result" where
  \<comment> \<open>the list whose digest is the identity of a result, if it has one\<close>
  "identity_value request result =
     (let tool = dget ''tool'' request; status = dget ''status'' result; data = dget ''data'' result in
      if tool \<noteq> PStr ''knowledge.search'' \<and> tool \<noteq> PStr ''knowledge.read'' then Inr None else
      case data of
        PDict d \<Rightarrow>
          if truthy (dget ''source_id'' d) \<and> dhas ''text'' d then
            rbind (get_of ''revision_id'' (dget_or ''provenance'' (PDict []) d)) (\<lambda>revision.
            Inr (Some (PList [tool, dget ''source_id'' d, revision, dget ''section_id'' d, dget ''start'' d, dget ''end'' d,
              status, dget ''text'' d, dget ''complete'' d, dget ''next_cursor'' d])))
          else Inr (Some (PList [tool, status, data, dget_or ''sources'' (PList []) result]))
      | _ \<Rightarrow> Inr (Some (PList [tool, status, data, dget_or ''sources'' (PList []) result])))"

definition identity_of :: "(string \<Rightarrow> string) \<Rightarrow> pydict \<Rightarrow> pydict \<Rightarrow> string option result" where
  "identity_of digest request result =
     rbind (identity_value request result) (\<lambda>v. Inr (map_option (\<lambda>v. digest (json_compact v)) v))"

definition item_key :: "pydict \<Rightarrow> string result" where
  "item_key item = rbind (get_of ''revision_id'' (dget_or ''provenance'' (PDict []) item)) (\<lambda>revision.
     Inr (json_compact (PList [dget ''source_id'' item, revision, dget ''section_id'' item, dget ''start'' item,
       dget ''end'' item, dget ''snippet'' item])))"

definition sourced :: "pyval \<Rightarrow> pydict option" where
  \<comment> \<open>\<open>isinstance(item, dict) and item.get("source_id")\<close>\<close>
  "sourced item = (case item of PDict d \<Rightarrow> if truthy (dget ''source_id'' d) then Some d else None | _ \<Rightarrow> None)"

definition iterated :: "pyval \<Rightarrow> pyval list result" where
  \<comment> \<open>the elements of a \<open>for\<close> loop over a value; characters and keys are strings\<close>
  "iterated v = (case v of PList xs \<Rightarrow> Inr xs | PStr s \<Rightarrow> Inr (map (\<lambda>c. PStr [c]) s)
     | PDict d \<Rightarrow> Inr (map (\<lambda>(k, _). PStr k) d) | _ \<Rightarrow> Inl (TypeError ''object is not iterable''))"

definition data_items :: "pydict \<Rightarrow> pyval list result" where
  \<comment> \<open>\<open>data.get("items", ()) if isinstance(data, dict) else ()\<close>\<close>
  "data_items result = (case dget ''data'' result of
      PDict d \<Rightarrow> iterated (dget_or ''items'' (PList []) d) | _ \<Rightarrow> Inr [])"

definition is_search :: "pydict \<Rightarrow> bool" where
  "is_search r = (dget ''tool'' (sub_dict ''request'' r) = PStr ''knowledge.search'')"

definition discovery_keys :: "pydict \<Rightarrow> string list result" where
  "discovery_keys r = (if \<not> is_search r then Inr []
     else rbind (data_items (sub_dict ''result'' r)) (\<lambda>items. rmap item_key (List.map_filter sourced items)))"

definition py_hashable :: "pyval \<Rightarrow> bool" where
  "py_hashable v = (\<not> is_list v \<and> \<not> is_dict v)"

definition hashed :: "pyval \<Rightarrow> pyval result" where
  "hashed v = (if py_hashable v then Inr v else Inl (TypeError ''unhashable type''))"

fun rfilter :: "('a \<Rightarrow> 'e + bool) \<Rightarrow> 'a list \<Rightarrow> 'e + 'a list" where
  "rfilter p [] = Inr []"
| "rfilter p (x # xs) = rbind (p x) (\<lambda>b. rbind (rfilter p xs) (\<lambda>ys. Inr (if b then x # ys else ys)))"

definition unseen :: "string list \<Rightarrow> pyval \<Rightarrow> bool result" where
  "unseen seen item = (case sourced item of None \<Rightarrow> Inr True
     | Some d \<Rightarrow> rbind (item_key d) (\<lambda>k. Inr (k \<notin> set seen)))"

definition kept_source :: "pyval list \<Rightarrow> pyval \<Rightarrow> bool result" where
  "kept_source ids source = rbind (get_of ''source_id'' source) (\<lambda>i. rbind (hashed i) (\<lambda>i. Inr (py_in i ids)))"

definition discovery_note :: string where
  "discovery_note = ''Duplicate discovery candidates already supplied in other selected results were removed.''"

definition item_ids :: "pyval list \<Rightarrow> pyval list result" where
  \<comment> \<open>the set \<open>{item.get("source_id") for item in items if isinstance(item, dict)}\<close>\<close>
  "item_ids items = rmap hashed (List.map_filter (\<lambda>i. case i of PDict d \<Rightarrow> Some (dget ''source_id'' d) | _ \<Rightarrow> None) items)"

definition deduplicate_discovery :: "pydict \<Rightarrow> string list \<Rightarrow> pydict result" where
  "deduplicate_discovery r seen =
     (if seen = [] \<or> \<not> is_search r then Inr r else
      let result = sub_dict ''result'' r in
      case dget ''data'' result of
        PDict data \<Rightarrow> (case dget ''items'' data of
            PList all_items \<Rightarrow>
              rbind (rfilter (unseen seen) all_items) (\<lambda>items.
              if length items = length all_items then Inr r else
              rbind (item_ids items) (\<lambda>ids.
              rbind (rfilter (kept_source ids) (list_field ''sources'' result)) (\<lambda>sources.
              let data1 = dput ''discovery_note'' (PStr discovery_note) (dput ''items'' (PList items) data) in
              Inr (dput ''result'' (PDict (dput ''sources'' (PList sources) (dput ''data'' (PDict data1) result))) r))))
          | _ \<Rightarrow> Inr r)
      | _ \<Rightarrow> Inr r)"

section \<open>Storing\<close>

definition touch :: "nat \<Rightarrow> (evidence_entry \<Rightarrow> evidence_entry) \<Rightarrow> workspace \<Rightarrow> workspace" where
  \<comment> \<open>advance the clock and stamp one entry with it\<close>
  "touch i f w = (let c = Suc (ew_clock w); e = ew_entries w ! i in
     w\<lparr>ew_clock := c, ew_entries := (ew_entries w)[i := f (e\<lparr>en_touched := c\<rparr>)]\<rparr>)"

definition request_key :: "pydict \<Rightarrow> string" where
  "request_key request = json_compact (PDict request)"

definition activate :: "pydict \<Rightarrow> workspace \<Rightarrow> workspace \<times> bool" where
  "activate request w = (case map_of (ew_requests w) (request_key request) of
      None \<Rightarrow> (w, False)
    | Some i \<Rightarrow> (touch i (\<lambda>e. e\<lparr>en_reactivated := True\<rparr>) w, True))"

definition tool_priority :: "pyval \<Rightarrow> nat" where
  "tool_priority tool = (case tool of PStr t \<Rightarrow>
       if t = ''knowledge.read'' \<or> t = ''combat.report'' then 3
       else if t = ''state.read'' \<or> t = ''character.read'' then 2
       else if t = ''inventory.search'' then 1 else 0
     | _ \<Rightarrow> 0)"

definition omitted_detail :: string where
  "omitted_detail = ''Entire result omitted because it exceeded the evidence output budget; contents are unknown.''"

definition omitted_record :: "string \<Rightarrow> pydict \<Rightarrow> pydict \<Rightarrow> pydict" where
  "omitted_record evidence_id request result =
     [(''evidence_id'', PStr evidence_id), (''request'', PDict [(''tool'', dget ''tool'' request)]),
      (''result'', PDict [(''status'', PStr ''omitted''), (''data'', opt_dict (locator result)), (''detail'', PStr omitted_detail)])]"

definition omitted_diagnostic :: "workspace \<Rightarrow> pydict \<Rightarrow> nat \<Rightarrow> pyval" where
  "omitted_diagnostic w request chars =
     PDict [(''source'', PStr ''evidence_loop''), (''status'', PStr ''result_omitted''), (''tool'', dget ''tool'' request),
       (''detail'', PStr (py_str (dget ''tool'' request) @ '' result omitted: per_result evidence budget exceeded.'')),
       (''limit'', PStr ''per_result''), (''configured_limit_chars'', PInt (int (ew_max_result_chars w))),
       (''result_chars'', PInt (int chars)), (''remaining_chars'', PInt (int (ew_max_context_chars w)))]"

definition append_unique :: "pyval list \<Rightarrow> pyval list \<Rightarrow> pyval list" where
  \<comment> \<open>append each value that is not in the list yet\<close>
  "append_unique target values = fold (\<lambda>v t. if py_in v t then t else t @ [v]) values target"

definition full_record :: "string \<Rightarrow> pydict \<Rightarrow> pydict \<Rightarrow> pydict" where
  "full_record evidence_id request result =
     [(''evidence_id'', PStr evidence_id), (''request'', PDict request), (''result'', PDict result)]"

definition add_evidence :: "(string \<Rightarrow> string) \<Rightarrow> pydict \<Rightarrow> pydict \<Rightarrow> workspace \<Rightarrow> workspace result" where
  "add_evidence digest request result w =
     (let key = request_key request; (w0, active) = activate request w in
      if active then Inr w0
      else if ew_max_requests w \<le> length (ew_requests w)
      then Inl (ValueError ''question evidence request ceiling exceeded'')
      else rbind (identity_of digest request result) (\<lambda>identity.
        case (case identity of None \<Rightarrow> None | Some d \<Rightarrow> map_of (ew_identities w) d) of
          Some i \<Rightarrow> Inr (touch i (\<lambda>e. e) (w\<lparr>ew_requests := dput key i (ew_requests w)\<rparr>))
        | None \<Rightarrow>
          let n = length (ew_entries w); evidence_id = ''evidence-'' @ nat_str (Suc n);
              complete = full_record evidence_id request result;
              chars = length (json_compact (PDict complete));
              oversized = ew_max_result_chars w < chars;
              r = (if oversized then omitted_record evidence_id request result else complete);
              w1 = w\<lparr>ew_diagnostics := (if oversized then ew_diagnostics w @ [omitted_diagnostic w request chars]
                       else append_unique (ew_diagnostics w) (list_field ''diagnostics'' result))\<rparr>;
              c = Suc (ew_clock w)
          in Inr (w1\<lparr>ew_clock := c, ew_requests := dput key n (ew_requests w),
               ew_identities := (case (if oversized then None else identity) of
                   None \<Rightarrow> ew_identities w | Some d \<Rightarrow> dput d n (ew_identities w)),
               ew_entries := ew_entries w @ [\<lparr>en_record = r, en_touched = c,
                 en_priority = tool_priority (dget ''tool'' request), en_reactivated = False\<rparr>]\<rparr>)))"

section \<open>Selection\<close>

definition records_text :: "pydict list \<Rightarrow> string" where
  "records_text rs = json_compact (PList (map PDict rs))"

definition entry_rank :: "evidence_entry \<Rightarrow> nat \<times> nat" where
  "entry_rank e = (if en_reactivated e then 4 else en_priority e, en_touched e)"

definition selection_order :: "evidence_entry list \<Rightarrow> nat list" where
  \<comment> \<open>\<open>sorted(range(n), key=rank, reverse=True)\<close>, which keeps the order of equal ranks\<close>
  "selection_order es = rev (sort_key (\<lambda>i. entry_rank (es ! i)) (rev [0..<length es]))"

fun select_loop :: "workspace \<Rightarrow> nat list \<Rightarrow> pydict list \<times> nat list \<times> string list
    \<Rightarrow> (pydict list \<times> nat list \<times> string list) result" where
  \<comment> \<open>the records, the selected positions and the discovery keys already supplied\<close>
  "select_loop w [] acc = Inr acc"
| "select_loop w (i # is) (records, selected, seen) =
     rbind (deduplicate_discovery (en_record (ew_entries w ! i)) seen) (\<lambda>candidate.
     if length (records_text (records[i := candidate])) \<le> ew_max_context_chars w then
       rbind (discovery_keys candidate) (\<lambda>ks.
       select_loop w is (records[i := candidate], i # selected, seen @ ks))
     else select_loop w is (records, selected, seen))"

definition selected_sources :: "pydict list \<Rightarrow> nat list \<Rightarrow> pyval list" where
  "selected_sources records selected = fold (\<lambda>i t. if i \<in> set selected
       then append_unique t (list_field ''sources'' (sub_dict ''result'' (records ! i))) else t) [0..<length records] []"

definition select :: "workspace \<Rightarrow> (workspace \<times> pydict list \<times> pyval list) result" where
  "select w =
     (let manifests = map (\<lambda>e. manifest_of (en_record e)) (ew_entries w) in
      rbind (select_loop w (selection_order (ew_entries w)) (manifests, [], [])) (\<lambda>(records, selected, seen).
      Inr (w\<lparr>ew_entries := map (\<lambda>e. e\<lparr>en_reactivated := False\<rparr>) (ew_entries w)\<rparr>,
           records, selected_sources records selected)))"

end
