(* ===== verification/Effects.thy ===== *)
theory Effects
  imports Prelude
begin

text \<open>
  Programs with a state and errors as values: a step maps a state to the state it leaves behind and a
  value or an error, so a raise keeps the effects that came before it.  \<open>spec\<close> is the Hoare triple of
  such programs, with one postcondition for the value and one for the error.
\<close>

type_synonym ('st, 'e, 'a) eff = "'st \<Rightarrow> 'st \<times> ('e + 'a)"

section \<open>Combinators\<close>

definition abind :: "('st, 'e, 'a) eff \<Rightarrow> ('a \<Rightarrow> ('st, 'e, 'b) eff) \<Rightarrow> ('st, 'e, 'b) eff" where
  "abind m f = (\<lambda>l. case m l of (l1, Inl e) \<Rightarrow> (l1, Inl e) | (l1, Inr x) \<Rightarrow> f x l1)"

definition areturn :: "'e + 'a \<Rightarrow> ('st, 'e, 'a) eff" where
  "areturn r = (\<lambda>l. (l, r))"

definition amodify :: "('st \<Rightarrow> 'st) \<Rightarrow> ('st, 'e, unit) eff" where
  "amodify f = (\<lambda>l. (f l, Inr ()))"

definition aread :: "('st \<Rightarrow> 'a) \<Rightarrow> ('st, 'e, 'a) eff" where
  "aread g = (\<lambda>l. (l, Inr (g l)))"

definition aguard :: "bool \<Rightarrow> 'e \<Rightarrow> ('st, 'e, unit) eff" where
  \<comment> \<open>raise \<open>e\<close> unless \<open>b\<close>\<close>
  "aguard b e = areturn (if b then Inr () else Inl e)"

definition acatch :: "('st, 'e, 'a) eff \<Rightarrow> ('e \<Rightarrow> ('st, 'f, 'a) eff) \<Rightarrow> ('st, 'f, 'a) eff" where
  "acatch m h = (\<lambda>l. case m l of (l1, Inl e) \<Rightarrow> h e l1 | (l1, Inr x) \<Rightarrow> (l1, Inr x))"

definition afinally :: "('st, 'e, 'a) eff \<Rightarrow> ('st, 'e, unit) eff \<Rightarrow> ('st, 'e, 'a) eff" where
  \<comment> \<open>an error of the \<open>finally\<close> block replaces the outcome of the body\<close>
  "afinally m f = (\<lambda>l. case m l of (l1, r) \<Rightarrow> (case f l1 of (l2, Inl e) \<Rightarrow> (l2, Inl e) | (l2, Inr _) \<Rightarrow> (l2, r)))"

definition awhen :: "bool \<Rightarrow> ('st, 'e, unit) eff \<Rightarrow> ('st, 'e, unit) eff" where
  "awhen b m = (if b then m else areturn (Inr ()))"

fun aeach :: "('a \<Rightarrow> ('st, 'e, unit) eff) \<Rightarrow> 'a list \<Rightarrow> ('st, 'e, unit) eff" where
  "aeach f [] = areturn (Inr ())"
| "aeach f (x # xs) = abind (f x) (\<lambda>_. aeach f xs)"

section \<open>What a value says of the steps before it\<close>

named_theorems eff_Inr "inversion of steps that returned a value"

lemma abind_value [eff_Inr]:
  "abind m f l = (l', Inr y) \<longleftrightarrow> (\<exists>l1 x. m l = (l1, Inr x) \<and> f x l1 = (l', Inr y))"
  by (auto simp: abind_def split: prod.splits sum.splits)

lemma areturn_value [eff_Inr]: "areturn r l = (l', Inr y) \<longleftrightarrow> l' = l \<and> r = Inr y"
  by (auto simp: areturn_def)

lemma amodify_value [eff_Inr]: "amodify f l = (l', Inr y) \<longleftrightarrow> l' = f l"
  by (auto simp: amodify_def)

lemma aread_value [eff_Inr]: "aread g l = (l', Inr y) \<longleftrightarrow> l' = l \<and> y = g l"
  by (auto simp: aread_def)

lemma aguard_value [eff_Inr]: "aguard b e l = (l', Inr y) \<longleftrightarrow> b \<and> l' = l"
  by (auto simp: aguard_def areturn_def)

lemma awhen_value [eff_Inr]:
  "awhen b m l = (l', Inr y) \<longleftrightarrow> (if b then m l = (l', Inr y) else l' = l)"
  by (auto simp: awhen_def areturn_def)

section \<open>Triples\<close>

definition spec :: "('st \<Rightarrow> bool) \<Rightarrow> ('st, 'e, 'a) eff \<Rightarrow> ('a \<Rightarrow> 'st \<Rightarrow> bool) \<Rightarrow> ('e \<Rightarrow> 'st \<Rightarrow> bool) \<Rightarrow> bool" where
  "spec P m Q E = (\<forall>l. P l \<longrightarrow> (case m l of (l', Inl e) \<Rightarrow> E e l' | (l', Inr x) \<Rightarrow> Q x l'))"

lemma spec_abind:
  "spec P m R E \<Longrightarrow> (\<And>x. spec (R x) (g x) Q E) \<Longrightarrow> spec P (abind m g) Q E"
  by (fastforce simp: spec_def abind_def split: prod.splits sum.splits)

lemma spec_consequence:
  "spec P m Q E \<Longrightarrow> (\<And>l. P' l \<Longrightarrow> P l) \<Longrightarrow> (\<And>x l. Q x l \<Longrightarrow> Q' x l) \<Longrightarrow> (\<And>e l. E e l \<Longrightarrow> E' e l) \<Longrightarrow> spec P' m Q' E'"
  by (fastforce simp: spec_def split: prod.splits sum.splits)

lemma spec_areturn: "(\<And>l x. P l \<Longrightarrow> r = Inr x \<Longrightarrow> Q x l) \<Longrightarrow> (\<And>l e. P l \<Longrightarrow> r = Inl e \<Longrightarrow> E e l) \<Longrightarrow> spec P (areturn r) Q E"
  by (auto simp: spec_def areturn_def split: sum.splits)

lemma spec_aguard: "(\<And>l. P l \<Longrightarrow> b \<Longrightarrow> Q () l) \<Longrightarrow> (\<And>l. P l \<Longrightarrow> \<not> b \<Longrightarrow> E e l) \<Longrightarrow> spec P (aguard b e) Q E"
  by (auto simp: aguard_def intro!: spec_areturn split: if_splits)

lemma spec_amodify: "(\<And>l. P l \<Longrightarrow> Q () (f l)) \<Longrightarrow> spec P (amodify f) Q E"
  by (simp add: spec_def amodify_def)

lemma spec_aread: "(\<And>l. P l \<Longrightarrow> Q (g l) l) \<Longrightarrow> spec P (aread g) Q E"
  by (simp add: spec_def aread_def)

lemma spec_acatch: "spec P m Q R \<Longrightarrow> (\<And>e. spec (R e) (h e) Q E) \<Longrightarrow> spec P (acatch m h) Q E"
  by (fastforce simp: spec_def acatch_def split: prod.splits sum.splits)

lemma spec_afinally:
  "spec P m R F \<Longrightarrow> (\<And>x. spec (R x) f (\<lambda>_. Q x) E) \<Longrightarrow> (\<And>e. spec (F e) f (\<lambda>_. E e) E) \<Longrightarrow> spec P (afinally m f) Q E"
  by (fastforce simp: spec_def afinally_def split: prod.splits sum.splits)

lemma spec_awhen: "(b \<Longrightarrow> spec P m (\<lambda>_. Q) E) \<Longrightarrow> (\<And>l. \<not> b \<Longrightarrow> P l \<Longrightarrow> Q l) \<Longrightarrow> spec P (awhen b m) (\<lambda>_. Q) E"
  by (cases b) (auto simp: awhen_def intro: spec_areturn)

lemma spec_aeach: "(\<And>x. x \<in> set xs \<Longrightarrow> spec P (f x) (\<lambda>_. P) E) \<Longrightarrow> spec P (aeach f xs) (\<lambda>_. P) E"
  by (induction xs) (auto intro: spec_areturn spec_abind)

section \<open>Contracts\<close>

text \<open>
  A contract says what holds when a program starts, how far the program may move the state and which
  errors it may raise; it fits a system whose other threads act between two steps of the program.
\<close>

record ('st, 'e) contract =
  ct_held :: "'st \<Rightarrow> bool"
  ct_moves :: "'st \<Rightarrow> 'st \<Rightarrow> bool"
  ct_raises :: "'e \<Rightarrow> bool"

definition contract_ok :: "('st, 'e) contract \<Rightarrow> bool" where
  \<comment> \<open>the moves compose and keep what is held\<close>
  "contract_ok c = ((\<forall>s. ct_moves c s s) \<and> (\<forall>s t u. ct_moves c s t \<longrightarrow> ct_moves c t u \<longrightarrow> ct_moves c s u)
     \<and> (\<forall>s t. ct_held c s \<longrightarrow> ct_moves c s t \<longrightarrow> ct_held c t))"

definition keeps :: "('st, 'e) contract \<Rightarrow> ('st, 'e, 'a) eff \<Rightarrow> bool" where
  "keeps c m = (\<forall>l. ct_held c l \<longrightarrow> ct_moves c l (fst (m l)) \<and> (\<forall>e. snd (m l) = Inl e \<longrightarrow> ct_raises c e))"

definition keeps_update :: "('st, 'e) contract \<Rightarrow> ('st \<Rightarrow> 'st) \<Rightarrow> bool" where
  "keeps_update c f = (\<forall>l. ct_held c l \<longrightarrow> ct_moves c l (f l))"

lemma keepsI:
  "(\<And>l l' r. ct_held c l \<Longrightarrow> m l = (l', r) \<Longrightarrow> ct_moves c l l' \<and> (\<forall>e. r = Inl e \<longrightarrow> ct_raises c e)) \<Longrightarrow> keeps c m"
  unfolding keeps_def by (metis prod.collapse)

lemma keepsD:
  assumes "keeps c m" "ct_held c l" "m l = (l', r)"
  shows "ct_moves c l l'" and "r = Inl e \<Longrightarrow> ct_raises c e"
  using assms by (auto simp: keeps_def dest!: spec [of _ l])

lemma contract_okD:
  assumes "contract_ok c"
  shows "ct_moves c s s" and "ct_moves c s t \<Longrightarrow> ct_moves c t u \<Longrightarrow> ct_moves c s u"
    and "ct_held c s \<Longrightarrow> ct_moves c s t \<Longrightarrow> ct_held c t"
  using assms by (auto simp: contract_ok_def)

named_theorems keeps_intros "rules for the contract of a program"

lemma keeps_abind_value:
  \<comment> \<open>the continuation may use that its argument is a value of the first step\<close>
  assumes c: "contract_ok c" "keeps c m" and f: "\<And>l l' x. m l = (l', Inr x) \<Longrightarrow> keeps c (f x)"
  shows "keeps c (abind m f)"
proof (rule keepsI)
  fix l l' r assume h: "ct_held c l" and e: "abind m f l = (l', r)"
  obtain l1 r1 where m: "m l = (l1, r1)" by (cases "m l")
  note k = keepsD [OF c(2) h m]
  show "ct_moves c l l' \<and> (\<forall>e. r = Inl e \<longrightarrow> ct_raises c e)"
  proof (cases r1)
    case Inl
    with e m k show ?thesis by (auto simp: abind_def)
  next
    case (Inr x)
    with e m have "f x l1 = (l', r)" by (simp add: abind_def)
    with f [OF m [unfolded Inr]] keepsD [OF f [OF m [unfolded Inr]] contract_okD(3) [OF c(1) h k(1)]] show ?thesis
      using contract_okD(2) [OF c(1) k(1)] by blast
  qed
qed

lemma keeps_abind [keeps_intros]: "contract_ok c \<Longrightarrow> keeps c m \<Longrightarrow> (\<And>x. keeps c (f x)) \<Longrightarrow> keeps c (abind m f)"
  by (rule keeps_abind_value)

lemma keeps_areturn: "contract_ok c \<Longrightarrow> (\<And>e. r = Inl e \<Longrightarrow> ct_raises c e) \<Longrightarrow> keeps c (areturn r)"
  by (simp add: keeps_def contract_okD areturn_def)

lemma keeps_amodify: "keeps c (amodify f) \<longleftrightarrow> keeps_update c f"
  by (simp add: keeps_def keeps_update_def amodify_def)

lemma keeps_aread [keeps_intros]: "contract_ok c \<Longrightarrow> keeps c (aread g)"
  by (simp add: keeps_def contract_okD aread_def)

lemma keeps_aguard: "contract_ok c \<Longrightarrow> (\<not> b \<Longrightarrow> ct_raises c e) \<Longrightarrow> keeps c (aguard b e)"
  by (auto simp: aguard_def intro!: keeps_areturn)

lemma keeps_acatch:
  assumes c: "contract_ok c" "keeps (c\<lparr>ct_raises := E\<rparr>) m" and h: "\<And>e. E e \<Longrightarrow> keeps c (h e)"
  shows "keeps c (acatch m h)"
proof (rule keepsI)
  fix l l' r assume hl: "ct_held c l" and e: "acatch m h l = (l', r)"
  obtain l1 r1 where m: "m l = (l1, r1)" by (cases "m l")
  with keepsD [OF c(2), of l l1 r1] hl have k: "ct_moves c l l1" "\<And>e. r1 = Inl e \<Longrightarrow> E e" by simp_all
  show "ct_moves c l l' \<and> (\<forall>e. r = Inl e \<longrightarrow> ct_raises c e)"
  proof (cases r1)
    case (Inl x)
    with e m have "h x l1 = (l', r)" by (simp add: acatch_def)
    with keepsD [OF h [OF k(2) [OF Inl]] contract_okD(3) [OF c(1) hl k(1)]] show ?thesis
      using contract_okD(2) [OF c(1) k(1)] by blast
  next
    case Inr
    with e m k show ?thesis by (auto simp: acatch_def)
  qed
qed

lemma keeps_afinally [keeps_intros]:
  assumes c: "contract_ok c" "keeps c m" "keeps c f"
  shows "keeps c (afinally m f)"
proof (rule keepsI)
  fix l l' r assume h: "ct_held c l" and e: "afinally m f l = (l', r)"
  obtain l1 r1 where m: "m l = (l1, r1)" by (cases "m l")
  note k = keepsD [OF c(2) h m]
  obtain l2 r2 where f: "f l1 = (l2, r2)" by (cases "f l1")
  note k2 = keepsD [OF c(3) contract_okD(3) [OF c(1) h k(1)] f]
  show "ct_moves c l l' \<and> (\<forall>e. r = Inl e \<longrightarrow> ct_raises c e)"
    using e m f k(2) k2 contract_okD(2) [OF c(1) k(1) k2(1)] by (cases r2) (auto simp: afinally_def)
qed

lemma keeps_awhen [keeps_intros]: "contract_ok c \<Longrightarrow> (b \<Longrightarrow> keeps c m) \<Longrightarrow> keeps c (awhen b m)"
  by (auto simp: awhen_def intro: keeps_areturn)

lemma keeps_aeach [keeps_intros]: "contract_ok c \<Longrightarrow> (\<And>x. keeps c (f x)) \<Longrightarrow> keeps c (aeach f xs)"
  by (induction xs) (auto intro: keeps_intros keeps_areturn)

end
