(* ===== verification/EvidenceLoop.thy ===== *)
theory EvidenceLoop
  imports EvidenceWorkspace Effects
begin

text \<open>
  The bounded evidence turns of \<open>evidence_loop.py\<close>.  The model adapter, the evidence session, the
  question control and the monotonic clock are opaque: each is a function on a state \<open>'s\<close> of the
  surroundings, which may raise, and the fixed prompt texts are arguments.  A step returns the state of
  the loop together with its value or its error, so the state after a raise is the one that the code
  leaves behind.  \<open>lp_log\<close> records what was asked of the surroundings; no definition reads it.
\<close>

definition max_rounds :: nat where "max_rounds = 3"
definition max_batch :: nat where "max_batch = 4"
definition max_requests :: nat where "max_requests = 8"
definition max_turn_chars :: nat where "max_turn_chars = 32000"
definition max_argument_chars :: nat where "max_argument_chars = 2000"

definition loop_init :: "pyval \<Rightarrow> pyval \<Rightarrow> (nat \<times> nat) result" where
  \<comment> \<open>the limits of \<open>EvidenceLoop.__init__\<close>\<close>
  "loop_init result_chars evidence_chars = (case result_chars of
      PInt r \<Rightarrow>
        if \<not> (3000 \<le> r \<and> r \<le> 100000)
        then Inl (ValueError ''max_result_chars must be an integer between 3000 and 100000'')
        else (case evidence_chars of
          PInt e \<Rightarrow>
            if r + 2400 \<le> e \<and> e \<le> 300000 then Inr (nat r, nat e)
            else Inl (ValueError ''max_evidence_chars must be an integer between max_result_chars + 2400 and 300000'')
        | _ \<Rightarrow> Inl (ValueError ''max_evidence_chars must be an integer between max_result_chars + 2400 and 300000''))
    | _ \<Rightarrow> Inl (ValueError ''max_result_chars must be an integer between 3000 and 100000''))"

section \<open>The protocol of one turn\<close>

definition turn_options :: json_options where
  "turn_options = \<lparr>jo_unique_keys = True, jo_constants = False\<rparr>"

definition protocol_marker :: "string \<Rightarrow> bool" where
  "protocol_marker s = (starts_with ''{'' s \<or> starts_with ''['' s \<or> starts_with ''```json'' s)"

definition keys_are :: "string list \<Rightarrow> pydict \<Rightarrow> bool" where
  \<comment> \<open>\<open>set(d) == {...}\<close>\<close>
  "keys_are ks d = (set (dkeys d) = set ks)"

definition invalid_request :: lab_error where
  "invalid_request = ModelError ''model returned an invalid evidence request''"

definition parse_request :: "nat \<Rightarrow> pyval \<Rightarrow> pydict result" where
  "parse_request rl v = (case v of
      PDict r \<Rightarrow>
        if keys_are [''tool'', ''arguments''] r \<and> is_str (dget ''tool'' r) \<and> is_dict (dget ''arguments'' r) then
          rbind (json_dumps rl compact_sorted (dget ''arguments'' r)) (\<lambda>text.
          if max_argument_chars < length text then Inl invalid_request else Inr r)
        else Inl invalid_request
    | _ \<Rightarrow> Inl invalid_request)"

datatype turn = Answer string | Requests "pydict list"

definition loads_turn :: "nat \<Rightarrow> string \<Rightarrow> pyval result" where
  \<comment> \<open>\<open>json.loads\<close> with its \<open>ValueError\<close> and \<open>RecursionError\<close> translated\<close>
  "loads_turn rl s = (case json_loads rl turn_options s of
      Inr v \<Rightarrow> Inr v
    | Inl (ValueError _) \<Rightarrow> Inl (ModelError ''model returned malformed evidence protocol JSON'')
    | Inl RecursionError \<Rightarrow> Inl (ModelError ''model returned malformed evidence protocol JSON'')
    | Inl e \<Rightarrow> Inl e)"

definition parse_protocol :: "nat \<Rightarrow> pyval \<Rightarrow> turn result" where
  "parse_protocol rl v = (case v of
      PDict turn \<Rightarrow>
        if keys_are [''answer''] turn then
          (case dget ''answer'' turn of
             PStr a \<Rightarrow> if strip a = [] then Inl (ModelError ''model returned an empty evidence answer'')
               else Inr (Answer (strip a))
           | _ \<Rightarrow> Inl (ModelError ''model returned an empty evidence answer''))
        else if \<not> keys_are [''requests''] turn
        then Inl (ModelError ''model returned unsupported evidence turn fields'')
        else (case dget ''requests'' turn of
            PList rs \<Rightarrow>
              if 1 \<le> length rs \<and> length rs \<le> max_batch
              then rbind (rmap (parse_request rl) rs) (\<lambda>requests. Inr (Requests requests))
              else Inl (ModelError ''model exceeded the evidence batch limit or returned an empty batch'')
          | _ \<Rightarrow> Inl (ModelError ''model exceeded the evidence batch limit or returned an empty batch''))
    | _ \<Rightarrow> Inl (ModelError ''model returned an invalid evidence turn''))"

definition parse_turn :: "nat \<Rightarrow> pyval \<Rightarrow> turn result" where
  "parse_turn rl response = (case response of
      PStr text \<Rightarrow>
        if strip text = [] \<or> max_turn_chars < length text
        then Inl (ModelError ''model returned an empty or oversized evidence turn'')
        else if \<not> protocol_marker (strip text) then Inr (Answer (strip text))
        else rbind (loads_turn rl (strip text)) (parse_protocol rl)
    | _ \<Rightarrow> Inl (ModelError ''model returned an empty or oversized evidence turn''))"

section \<open>Results of the evidence session\<close>

definition bad_provenance :: lab_error where
  "bad_provenance = ModelError ''evidence provider returned invalid provenance''"

definition provenance_ok :: "string \<Rightarrow> pydict \<Rightarrow> bool" where
  "provenance_ok k d = (case dget_or k (PList []) d of PList xs \<Rightarrow> list_all is_dict xs | _ \<Rightarrow> False)"

definition validate_result :: "nat \<Rightarrow> pyval \<Rightarrow> pydict result" where
  "validate_result rl v = (case v of
      PDict d \<Rightarrow>
        if \<not> is_str (dget ''status'' d) \<or> \<not> dhas ''data'' d
        then Inl (ModelError ''evidence provider returned an invalid result'')
        else if \<not> provenance_ok ''sources'' d \<or> \<not> provenance_ok ''diagnostics'' d then Inl bad_provenance
        else (case json_dumps rl compact_sorted v of
            Inr _ \<Rightarrow> Inr d
          | Inl _ \<Rightarrow> Inl (ModelError ''evidence provider returned non-JSON evidence''))
    | _ \<Rightarrow> Inl (ModelError ''evidence provider returned an invalid result''))"

definition py_or :: "pyval \<Rightarrow> pyval \<Rightarrow> pyval" where
  \<comment> \<open>\<open>v or w\<close>\<close>
  "py_or v w = (if truthy v then v else w)"

definition replace_char :: "char \<Rightarrow> char \<Rightarrow> string \<Rightarrow> string" where
  "replace_char a b s = map (\<lambda>c. if c = a then b else c) s"

definition display_diagnostic :: "pydict \<Rightarrow> string \<Rightarrow> pydict" where
  "display_diagnostic d tool =
     (let reason = py_str (py_or (dget ''reason'' d) (PStr ''unknown''));
          detail = py_or (dget ''detail'' d) (PStr (if reason = ''output_budget''
            then ''Some evidence was omitted to fit the output budget.'' else replace_char CHR ''_'' CHR '' '' reason))
      in dput ''detail'' detail (dput ''status'' (py_or (dget ''status'' d) (PStr reason))
           (dput ''source'' (py_or (dget ''source'' d) (PStr tool)) d)))"

definition displayed_result :: "string \<Rightarrow> pydict \<Rightarrow> pydict" where
  "displayed_result tool d = dput ''diagnostics'' (PList (map (\<lambda>v. case v of
       PDict x \<Rightarrow> PDict (display_diagnostic x tool) | _ \<Rightarrow> v) (list_field ''diagnostics'' d))) d"

section \<open>The state of the loop\<close>

datatype loop_event =
    Responded string \<comment> \<open>a model call, with its prompt\<close>
  | BatchAccepted "pydict list" \<comment> \<open>every request of a batch was validated\<close>
  | Executed pydict

record 's evidence_env =
  ee_remaining :: "'s \<Rightarrow> 's \<times> rat result"
  ee_catalog :: "'s \<Rightarrow> 's \<times> pydict list result"
  ee_respond :: "string \<Rightarrow> string \<Rightarrow> 's \<Rightarrow> 's \<times> pyval result"
  ee_validate :: "string \<Rightarrow> pydict \<Rightarrow> 's \<Rightarrow> 's \<times> unit result"
  ee_execute :: "string \<Rightarrow> pydict \<Rightarrow> 's \<Rightarrow> 's \<times> pyval result"
  ee_monotonic :: "'s \<Rightarrow> 's \<times> rat"
  ee_turn_contract :: string
  ee_final_contract :: string
  ee_digest :: "string \<Rightarrow> string"
  ee_recursion_limit :: nat

record 's loop =
  lp_env :: 's
  lp_workspace :: workspace
  lp_diagnostics :: "pyval list"
  lp_calls :: nat
  lp_rounds :: nat
  lp_requests_used :: nat
  lp_model_ms :: rat
  lp_tool_ms :: rat
  lp_final_only :: bool
  lp_log :: "loop_event list"

record evidence_answer =
  ea_text :: string
  ea_sources :: "pyval list"
  ea_diagnostics :: "pyval list"
  ea_tool_calls :: nat
  ea_rounds :: nat
  ea_model_ms :: rat
  ea_tool_ms :: rat

type_synonym ('s, 'a) act = "('s loop, lab_error, 'a) eff"

definition acall :: "('s \<Rightarrow> 's \<times> 'a result) \<Rightarrow> ('s, 'a) act" where
  \<comment> \<open>a call into the surroundings\<close>
  "acall f = (\<lambda>l. case f (lp_env l) of (s, r) \<Rightarrow> (l\<lparr>lp_env := s\<rparr>, r))"

definition alog :: "loop_event \<Rightarrow> ('s, unit) act" where
  "alog e = amodify (\<lambda>l. l\<lparr>lp_log := lp_log l @ [e]\<rparr>)"

definition aclock :: "'s evidence_env \<Rightarrow> ('s, rat) act" where
  "aclock env = acall (\<lambda>s. case ee_monotonic env s of (s1, t) \<Rightarrow> (s1, Inr t))"

definition aremaining :: "'s evidence_env \<Rightarrow> ('s, rat) act" where
  "aremaining env = acall (ee_remaining env)"

section \<open>One turn\<close>

definition request_tool :: "pydict \<Rightarrow> string" where
  "request_tool r = (case dget ''tool'' r of PStr t \<Rightarrow> t | _ \<Rightarrow> [])"

definition request_arguments :: "pydict \<Rightarrow> pydict" where
  "request_arguments r = sub_dict ''arguments'' r"

definition respond :: "'s evidence_env \<Rightarrow> string \<Rightarrow> string \<Rightarrow> ('s, pyval) act" where
  "respond env instructions prompt =
     abind (alog (Responded prompt)) (\<lambda>_.
     abind (aclock env) (\<lambda>started.
     abind (acall (ee_respond env instructions prompt)) (\<lambda>response.
     abind (aclock env) (\<lambda>ended.
     abind (amodify (\<lambda>l. l\<lparr>lp_model_ms := lp_model_ms l + (ended - started) * 1000\<rparr>)) (\<lambda>_.
     areturn (Inr response))))))"

definition invalid_arguments :: "'a result \<Rightarrow> 'a result" where
  \<comment> \<open>\<open>except ValidationError\<close> around \<open>session.validate\<close>\<close>
  "invalid_arguments r = (case r of
      Inl (ValidationError _) \<Rightarrow> Inl (ModelError ''model supplied invalid evidence arguments; no batch was executed'')
    | _ \<Rightarrow> r)"

fun validate_batch :: "'s evidence_env \<Rightarrow> pyval list \<Rightarrow> pydict list \<Rightarrow> ('s, unit) act" where
  "validate_batch env names [] = areturn (Inr ())"
| "validate_batch env names (r # rs) =
     (if \<not> py_in (dget ''tool'' r) names
      then areturn (Inl (ModelError ''model requested an unknown evidence tool; no batch was executed''))
      else abind (acall (\<lambda>s. apsnd invalid_arguments (ee_validate env (request_tool r) (request_arguments r) s)))
        (\<lambda>_. validate_batch env names rs))"

definition store_result :: "'s evidence_env \<Rightarrow> pydict \<Rightarrow> pydict \<Rightarrow> ('s, unit) act" where
  "store_result env r result = (\<lambda>l.
     case add_evidence (ee_digest env) r (displayed_result (request_tool r) result) (lp_workspace l) of
       Inl e \<Rightarrow> (l, Inl e)
     | Inr w \<Rightarrow> (l\<lparr>lp_workspace := w, lp_diagnostics := append_unique (lp_diagnostics l) (ew_diagnostics w)\<rparr>, Inr ()))"

definition fetch :: "'s evidence_env \<Rightarrow> pydict \<Rightarrow> ('s, unit) act" where
  "fetch env r =
     abind (aclock env) (\<lambda>started.
     abind (alog (Executed r)) (\<lambda>_.
     abind (acall (ee_execute env (request_tool r) (request_arguments r))) (\<lambda>result.
     abind (aclock env) (\<lambda>ended.
     abind (amodify (\<lambda>l. l\<lparr>lp_tool_ms := lp_tool_ms l + (ended - started) * 1000, lp_calls := Suc (lp_calls l)\<rparr>)) (\<lambda>_.
     abind (aremaining env) (\<lambda>_.
     abind (areturn (validate_result (ee_recursion_limit env) result)) (\<lambda>d.
     store_result env r d)))))))"

definition execute_request :: "'s evidence_env \<Rightarrow> pydict \<Rightarrow> ('s, unit) act" where
  "execute_request env r = abind (aremaining env) (\<lambda>_ l.
     case activate r (lp_workspace l) of (w, active) \<Rightarrow>
       if active then (l\<lparr>lp_workspace := w\<rparr>, Inr ()) else fetch env r l)"

fun execute_batch :: "'s evidence_env \<Rightarrow> pydict list \<Rightarrow> ('s, unit) act" where
  "execute_batch env [] = areturn (Inr ())"
| "execute_batch env (r # rs) = abind (execute_request env r) (\<lambda>_. execute_batch env rs)"

definition answer_now :: "string \<Rightarrow> pyval list \<Rightarrow> ('s, evidence_answer option) act" where
  "answer_now text sources = (\<lambda>l. (l, Inr (Some \<lparr>ea_text = text, ea_sources = sources, ea_diagnostics = lp_diagnostics l,
     ea_tool_calls = lp_calls l, ea_rounds = lp_rounds l, ea_model_ms = lp_model_ms l, ea_tool_ms = lp_tool_ms l\<rparr>)))"

definition limit_answer :: string where
  "limit_answer = ''I reached the evidence-gathering limit before producing a supported answer. '' @
     ''Please narrow the question; I have not run any further checks.''"

definition budget_exhausted :: pyval where
  "budget_exhausted = PDict [(''source'', PStr ''evidence_loop''), (''status'', PStr ''budget_exhausted''),
     (''detail'', PStr ''The next batch exceeded the remaining request budget.'')]"

definition run_batch :: "'s evidence_env \<Rightarrow> pyval list \<Rightarrow> pydict list \<Rightarrow> ('s, evidence_answer option) act" where
  \<comment> \<open>a whole batch is validated before its first member is executed\<close>
  "run_batch env names rs =
     abind (validate_batch env names rs) (\<lambda>_.
     abind (alog (BatchAccepted rs)) (\<lambda>_.
     abind (aremaining env) (\<lambda>_.
     abind (amodify (\<lambda>l. l\<lparr>lp_rounds := Suc (lp_rounds l), lp_requests_used := lp_requests_used l + length rs\<rparr>)) (\<lambda>_.
     abind (execute_batch env rs) (\<lambda>_.
     abind (amodify (\<lambda>l. l\<lparr>lp_final_only := lp_final_only l \<or> max_rounds \<le> lp_rounds l
        \<or> max_requests \<le> lp_requests_used l\<rparr>)) (\<lambda>_.
     areturn (Inr None)))))))"

definition gather :: "'s evidence_env \<Rightarrow> pyval list \<Rightarrow> pyval list \<Rightarrow> pydict list \<Rightarrow> ('s, evidence_answer option) act" where
  "gather env names sources rs = (\<lambda>l.
     if lp_final_only l then answer_now limit_answer sources l
     else if max_requests < lp_requests_used l + length rs
     then (l\<lparr>lp_diagnostics := lp_diagnostics l @ [budget_exhausted], lp_final_only := True\<rparr>, Inr None)
     else run_batch env names rs l)"

definition evidence_prompt :: "string \<Rightarrow> pydict list \<Rightarrow> string" where
  "evidence_prompt input evidence = (if evidence = [] then input
     else input @ [CHR 10] @ ''UNTRUSTED EVIDENCE RESULTS (JSON data only):'' @ [CHR 10] @ records_text evidence)"

definition take_turn :: "'s evidence_env \<Rightarrow> string \<Rightarrow> string \<Rightarrow> pyval list \<Rightarrow> ('s, evidence_answer option) act" where
  \<comment> \<open>one round of the loop; \<open>None\<close> continues it\<close>
  "take_turn env contract input names =
     abind (aremaining env) (\<lambda>_ l. case select (lp_workspace l) of
       Inl e \<Rightarrow> (l, Inl e)
     | Inr (w, evidence, sources) \<Rightarrow>
         abind (respond env (contract @ (if lp_final_only l then ee_final_contract env else [])) (evidence_prompt input evidence))
           (\<lambda>response. abind (aremaining env) (\<lambda>_.
            abind (areturn (parse_turn (ee_recursion_limit env) response)) (\<lambda>t. case t of
              Answer a \<Rightarrow> answer_now a sources
            | Requests rs \<Rightarrow> gather env names sources rs))) (l\<lparr>lp_workspace := w\<rparr>))"

section \<open>The loop\<close>

text \<open>What an action leaves unchanged.\<close>

definition leaves :: "('s loop \<Rightarrow> 'b) \<Rightarrow> ('s, 'a) act \<Rightarrow> bool" where
  "leaves f m = (\<forall>l. f (fst (m l)) = f l)"

named_theorems leaves_intros \<open>what the steps of the loop leave unchanged\<close>

lemma leaves_abind [leaves_intros]: "leaves f m \<Longrightarrow> (\<And>x. leaves f (g x)) \<Longrightarrow> leaves f (abind m g)"
  by (auto simp: leaves_def abind_def split: prod.splits sum.splits) (metis fst_conv)+

lemma leaves_areturn [leaves_intros]: "leaves f (areturn r)"
  by (simp add: leaves_def areturn_def)

lemma leaves_acall: "(\<And>l s. f (l\<lparr>lp_env := s\<rparr>) = f l) \<Longrightarrow> leaves f (acall g)"
  by (simp add: leaves_def acall_def split: prod.splits)

lemma leaves_amodify: "(\<And>l. f (h l) = f l) \<Longrightarrow> leaves f (amodify h)"
  by (simp add: leaves_def amodify_def)

definition loop_frame :: "'s loop \<Rightarrow> bool \<times> nat \<times> nat" where
  "loop_frame l = (lp_final_only l, lp_rounds l, lp_requests_used l)"

lemma leaves_frame [leaves_intros]:
  "leaves loop_frame (acall g)" "leaves loop_frame (alog e)" "leaves loop_frame (aclock env)" "leaves loop_frame (aremaining env)"
  by (simp_all add: alog_def aclock_def aremaining_def leaves_acall leaves_amodify loop_frame_def)

lemma leaves_times [leaves_intros]:
  "leaves loop_frame (amodify (\<lambda>l. l\<lparr>lp_model_ms := h l\<rparr>))"
  "leaves loop_frame (amodify (\<lambda>l. l\<lparr>lp_tool_ms := h l, lp_calls := k l\<rparr>))"
  by (simp_all add: leaves_amodify loop_frame_def)

lemma respond_frame [leaves_intros]: "leaves loop_frame (respond env i p)"
  unfolding respond_def by (intro leaves_intros)

lemma validate_batch_frame [leaves_intros]: "leaves loop_frame (validate_batch env names rs)"
  by (induction rs) (auto intro!: leaves_intros)

lemma fetch_frame [leaves_intros]: "leaves loop_frame (fetch env r)"
proof -
  have "leaves loop_frame (store_result env r d)" for d
    by (simp add: leaves_def store_result_def loop_frame_def split: sum.splits)
  then show ?thesis unfolding fetch_def by (intro leaves_intros)
qed

lemma execute_request_frame [leaves_intros]: "leaves loop_frame (execute_request env r)"
proof -
  have "leaves loop_frame (\<lambda>l. case activate r (lp_workspace l) of (w, active) \<Rightarrow>
       if active then (l\<lparr>lp_workspace := w\<rparr>, Inr ()) else fetch env r l)"
    using fetch_frame [of env r] by (auto simp: leaves_def loop_frame_def split: prod.splits)
  then show ?thesis unfolding execute_request_def by (intro leaves_intros)
qed

lemma execute_batch_frame [leaves_intros]: "leaves loop_frame (execute_batch env rs)"
  by (induction rs) (auto intro!: leaves_intros)

lemma abind_Inr: "abind m g l = (l', Inr x) \<longleftrightarrow> (\<exists>l1 y. m l = (l1, Inr y) \<and> g y l1 = (l', Inr x))"
  by (auto simp: abind_def split: prod.splits sum.splits)

lemma leavesD: "leaves f m \<Longrightarrow> m l = (l', r) \<Longrightarrow> f l' = f l"
  unfolding leaves_def by (metis fst_conv)

definition loop_measure :: "'s loop \<Rightarrow> nat" where
  "loop_measure l = (if lp_final_only l then 0 else Suc (max_rounds - lp_rounds l))"

lemma run_batch_progress:
  assumes "run_batch env names rs l = (l', Inr None)"
  shows "lp_rounds l' = Suc (lp_rounds l) \<and> lp_requests_used l' = lp_requests_used l + length rs
    \<and> lp_final_only l' = (lp_final_only l \<or> max_rounds \<le> lp_rounds l' \<or> max_requests \<le> lp_requests_used l')"
proof -
  from assms obtain l1 l2 l3 x y z u v where
    1: "validate_batch env names rs l = (l1, Inr x)" and 2: "alog (BatchAccepted rs) l1 = (l2, Inr y)"
    and 3: "aremaining env l2 = (l3, Inr z)"
    and 4: "execute_batch env rs (l3\<lparr>lp_rounds := Suc (lp_rounds l3), lp_requests_used := lp_requests_used l3 + length rs\<rparr>) = (u, Inr v)"
    and l': "l' = u\<lparr>lp_final_only := lp_final_only u \<or> max_rounds \<le> lp_rounds u \<or> max_requests \<le> lp_requests_used u\<rparr>"
    unfolding run_batch_def abind_Inr by (auto simp: amodify_def areturn_def)
  have "loop_frame l3 = loop_frame l"
    using leavesD [OF validate_batch_frame 1] leavesD [OF leaves_frame(2) 2] leavesD [OF leaves_frame(4) 3] by simp
  with leavesD [OF execute_batch_frame 4] l' show ?thesis by (simp add: loop_frame_def)
qed

lemma take_turn_continues:
  assumes "take_turn env contract input names l = (l', Inr None)"
  obtains l1 sources rs where "loop_frame l1 = loop_frame l" and "gather env names sources rs l1 = (l', Inr None)"
proof -
  from assms obtain l1 x where 1: "aremaining env l = (l1, Inr x)"
    and r: "(case select (lp_workspace l1) of Inl e \<Rightarrow> (l1, Inl e) | Inr (w, evidence, sources) \<Rightarrow>
         abind (respond env (contract @ (if lp_final_only l1 then ee_final_contract env else [])) (evidence_prompt input evidence))
           (\<lambda>response. abind (aremaining env) (\<lambda>_.
            abind (areturn (parse_turn (ee_recursion_limit env) response)) (\<lambda>t. case t of
              Answer a \<Rightarrow> answer_now a sources
            | Requests rs \<Rightarrow> gather env names sources rs))) (l1\<lparr>lp_workspace := w\<rparr>)) = (l', Inr None)"
    unfolding take_turn_def abind_Inr by blast
  from r obtain w evidence sources where s: "select (lp_workspace l1) = Inr (w, evidence, sources)"
    by (auto split: sum.splits)
  from r [unfolded s] obtain l2 response l3 y l4 t where
    2: "respond env (contract @ (if lp_final_only l1 then ee_final_contract env else [])) (evidence_prompt input evidence)
        (l1\<lparr>lp_workspace := w\<rparr>) = (l2, Inr response)"
    and 3: "aremaining env l2 = (l3, Inr y)"
    and 4: "areturn (parse_turn (ee_recursion_limit env) response) l3 = (l4, Inr t)"
    and 5: "(case t of Answer a \<Rightarrow> answer_now a sources | Requests rs \<Rightarrow> gather env names sources rs) l4 = (l', Inr None)"
    by (auto simp: abind_Inr)
  from 5 obtain rs where "gather env names sources rs l4 = (l', Inr None)"
    by (cases t) (auto simp: answer_now_def)
  moreover have "loop_frame (l1\<lparr>lp_workspace := w\<rparr>) = loop_frame l1" by (simp add: loop_frame_def)
  then have "loop_frame l4 = loop_frame l"
    using leavesD [OF leaves_frame(4) 1] leavesD [OF respond_frame 2] leavesD [OF leaves_frame(4) 3]
      leavesD [OF leaves_areturn 4, of loop_frame] by simp
  ultimately show thesis using that by blast
qed

lemma take_turn_measure: "take_turn env contract input names l = (l', Inr None) \<Longrightarrow> loop_measure l' < loop_measure l"
proof (erule take_turn_continues)
  fix l1 sources rs
  assume f: "loop_frame l1 = loop_frame l" and g: "gather env names sources rs l1 = (l', Inr None)"
  show ?thesis
  proof (cases "lp_final_only l1")
    case True
    with g show ?thesis by (simp add: gather_def answer_now_def)
  next
    case False
    show ?thesis
    proof (cases "max_requests < lp_requests_used l1 + length rs")
      case True
      with g f False show ?thesis by (auto simp: gather_def loop_frame_def loop_measure_def)
    next
      case False': False
      with g False have "run_batch env names rs l1 = (l', Inr None)" by (simp add: gather_def)
      from run_batch_progress [OF this] f False show ?thesis
        by (auto simp: loop_frame_def loop_measure_def max_rounds_def)
    qed
  qed
qed

function run_loop :: "'s evidence_env \<Rightarrow> string \<Rightarrow> string \<Rightarrow> pyval list \<Rightarrow> ('s, evidence_answer) act" where
  "run_loop env contract input names l = (case take_turn env contract input names l of
      (l', Inl e) \<Rightarrow> (l', Inl e)
    | (l', Inr (Some a)) \<Rightarrow> (l', Inr a)
    | (l', Inr None) \<Rightarrow> run_loop env contract input names l')"
  by pat_completeness auto
termination
  by (relation "measure (\<lambda>(env, contract, input, names, l). loop_measure l)") (auto simp: take_turn_measure)

declare run_loop.simps [simp del]

definition empty_loop :: "nat \<times> nat \<Rightarrow> 's \<Rightarrow> 's loop" where
  "empty_loop limits s = \<lparr>lp_env = s, lp_workspace = workspace_init (fst limits) (snd limits) max_requests,
     lp_diagnostics = [], lp_calls = 0, lp_rounds = 0, lp_requests_used = 0, lp_model_ms = 0, lp_tool_ms = 0,
     lp_final_only = False, lp_log = []\<rparr>"

definition run_evidence :: "'s evidence_env \<Rightarrow> nat \<times> nat \<Rightarrow> string \<Rightarrow> string \<Rightarrow> 's \<Rightarrow> 's loop \<times> evidence_answer result" where
  \<comment> \<open>\<open>EvidenceLoop.run\<close>\<close>
  "run_evidence env limits instructions input s =
     abind (aremaining env) (\<lambda>_.
     abind (acall (ee_catalog env)) (\<lambda>catalog.
     abind (areturn (json_dumps (ee_recursion_limit env) compact_sorted (PList (map PDict catalog)))) (\<lambda>text.
     run_loop env (instructions @ ee_turn_contract env @ [CHR 10] @ ''EVIDENCE TOOL CATALOG:'' @ [CHR 10] @ text) input
       (map (dget ''name'') catalog)))) (empty_loop limits s)"

end
