(* ===== verification/EvidenceProperties.thy ===== *)
theory EvidenceProperties
  imports EvidenceLoop
begin

text \<open>
  What a run of the evidence loop does to its surroundings, whatever the model answers and whichever
  call raises: a Hoare logic with a postcondition for errors (\<open>ensures\<close>), the invariant of the loop,
  and the properties of \<open>run_evidence\<close>.
\<close>

section \<open>A Hoare logic for the steps of the loop\<close>

definition ensures :: "('s loop \<Rightarrow> bool) \<Rightarrow> ('s, 'a) act \<Rightarrow> ('a \<Rightarrow> 's loop \<Rightarrow> bool) \<Rightarrow> ('s loop \<Rightarrow> bool) \<Rightarrow> bool" where
  "ensures P m Q E = (\<forall>l. P l \<longrightarrow> (case m l of (l', Inl e) \<Rightarrow> E l' | (l', Inr x) \<Rightarrow> Q x l'))"

lemma ensures_abind:
  "ensures P m R E \<Longrightarrow> (\<And>x. ensures (R x) (g x) Q E) \<Longrightarrow> ensures P (abind m g) Q E"
  by (fastforce simp: ensures_def abind_def split: prod.splits sum.splits)

lemma ensures_consequence:
  "ensures P m Q E \<Longrightarrow> (\<And>l. P' l \<Longrightarrow> P l) \<Longrightarrow> (\<And>x l. Q x l \<Longrightarrow> Q' x l) \<Longrightarrow> (\<And>l. E l \<Longrightarrow> E' l) \<Longrightarrow> ensures P' m Q' E'"
  by (fastforce simp: ensures_def split: prod.splits sum.splits)

lemma ensures_areturn: "(\<And>l x. P l \<Longrightarrow> r = Inr x \<Longrightarrow> Q x l) \<Longrightarrow> (\<And>l. P l \<Longrightarrow> E l) \<Longrightarrow> ensures P (areturn r) Q E"
  by (auto simp: ensures_def areturn_def split: sum.splits)

lemma ensures_amodify: "(\<And>l. P l \<Longrightarrow> Q () (f l)) \<Longrightarrow> ensures P (amodify f) Q E"
  by (simp add: ensures_def amodify_def)

lemma ensures_acall:
  "(\<And>l s. P (l\<lparr>lp_env := s\<rparr>) = P l) \<Longrightarrow> (\<And>l. P l \<Longrightarrow> E l) \<Longrightarrow> ensures P (acall f) (\<lambda>_. P) E"
  by (auto simp: ensures_def acall_def split: prod.splits sum.splits)

section \<open>The log\<close>

definition executed :: "'s loop \<Rightarrow> pydict list" where
  "executed l = List.map_filter (\<lambda>e. case e of Executed r \<Rightarrow> Some r | _ \<Rightarrow> None) (lp_log l)"

definition prompts :: "'s loop \<Rightarrow> string list" where
  "prompts l = List.map_filter (\<lambda>e. case e of Responded p \<Rightarrow> Some p | _ \<Rightarrow> None) (lp_log l)"

definition accepted :: "loop_event list \<Rightarrow> pydict list" where
  "accepted evs = concat (List.map_filter (\<lambda>e. case e of BatchAccepted rs \<Rightarrow> Some rs | _ \<Rightarrow> None) evs)"

definition log_guarded :: "loop_event list \<Rightarrow> bool" where
  \<comment> \<open>a request is executed only after a batch that holds it was validated\<close>
  "log_guarded evs = (\<forall>before r after. evs = before @ Executed r # after \<longrightarrow> r \<in> set (accepted before))"

definition batch_ok :: "'s evidence_env \<Rightarrow> pyval list \<Rightarrow> pydict list \<Rightarrow> bool" where
  "batch_ok env names rs = (\<forall>r \<in> set rs. py_in (dget ''tool'' r) names
     \<and> (\<exists>s s'. ee_validate env (request_tool r) (request_arguments r) s = (s', Inr ())))"

definition executed_keys :: "'s loop \<Rightarrow> string list" where
  "executed_keys l = map request_key (executed l)"

lemma log_snoc [simp]:
  "List.map_filter f (xs @ [x]) = List.map_filter f xs @ (case f x of None \<Rightarrow> [] | Some y \<Rightarrow> [y])"
  by (simp add: List.map_filter_def split: option.splits)

lemma in_accepted: "q \<in> set (accepted evs) \<longleftrightarrow> (\<exists>rs. BatchAccepted rs \<in> set evs \<and> q \<in> set rs)"
proof (induction evs)
  case Nil
  then show ?case by (simp add: accepted_def List.map_filter_def)
next
  case (Cons e evs)
  then show ?case by (cases e) (auto simp: accepted_def List.map_filter_def)
qed

lemma log_guarded_snoc:
  "log_guarded (evs @ [e]) \<longleftrightarrow> log_guarded evs \<and> (case e of Executed r \<Rightarrow> r \<in> set (accepted evs) | _ \<Rightarrow> True)"
  (is "?L \<longleftrightarrow> ?R")
proof
  assume ?L
  then show ?R unfolding log_guarded_def by (cases e) fastforce+
next
  assume r: ?R
  show ?L unfolding log_guarded_def
  proof (intro allI impI)
    fix before r after
    assume e: "evs @ [e] = before @ Executed r # after"
    show "r \<in> set (accepted before)"
    proof (cases after rule: rev_cases)
      case Nil
      with e r show ?thesis by simp
    next
      case (snoc ys y)
      with e have "evs = before @ Executed r # ys" by simp
      with r show ?thesis unfolding log_guarded_def by blast
    qed
  qed
qed

section \<open>The invariant of the loop\<close>

definition run_safe :: "'s evidence_env \<Rightarrow> pyval list \<Rightarrow> 's loop \<Rightarrow> bool" where
  \<comment> \<open>what holds even after an error\<close>
  "run_safe env names l =
     (distinct (executed_keys l) \<and> length (executed l) \<le> max_requests \<and> length (prompts l) \<le> Suc max_rounds
      \<and> lp_rounds l \<le> max_rounds \<and> log_guarded (lp_log l)
      \<and> (\<forall>rs. BatchAccepted rs \<in> set (lp_log l) \<longrightarrow> batch_ok env names rs))"

definition spent :: "nat \<Rightarrow> 's loop \<Rightarrow> bool" where
  \<comment> \<open>the budget, with \<open>n\<close> requests of the current batch still to come\<close>
  "spent n l = (length (executed l) + n \<le> lp_requests_used l \<and> lp_requests_used l \<le> max_requests
     \<and> lp_calls l = length (executed l) \<and> set (executed_keys l) \<subseteq> set (dkeys (ew_requests (lp_workspace l))))"

definition batch_inv :: "'s evidence_env \<Rightarrow> pyval list \<Rightarrow> pydict list \<Rightarrow> 's loop \<Rightarrow> bool" where
  "batch_inv env names rs l = (run_safe env names l \<and> spent (length rs) l \<and> set rs \<subseteq> set (accepted (lp_log l)))"

lemmas inv_defs = batch_inv_def run_safe_def spent_def executed_keys_def executed_def prompts_def accepted_def

lemma activate_requests: "activate r w = (w', b) \<Longrightarrow> ew_requests w' = ew_requests w \<and> (b \<longleftrightarrow> request_key r \<in> set (dkeys (ew_requests w)))"
  by (auto simp: activate_def touch_def Let_def in_dkeys_iff split: option.splits)

lemma set_dkeys_dput [simp]: "set (dkeys (dput k v d)) = insert k (set (dkeys d))"
  by (auto simp: dkeys_dput)

lemma add_requests:
  assumes "add_evidence digest r d w = Inr w'"
  shows "set (dkeys (ew_requests w')) = insert (request_key r) (set (dkeys (ew_requests w)))"
proof -
  obtain w0 b where a: "activate r w = (w0, b)" by (cases "activate r w")
  from activate_requests [OF a] assms a show ?thesis
    by (auto simp: add_evidence_def Let_def touch_def res_simps split: if_splits option.splits sum.splits)
qed

lemma select_requests: "select w = Inr (w', evidence, sources) \<Longrightarrow> ew_requests w' = ew_requests w"
  by (auto simp: select_def Let_def rbind_def split: sum.splits)

definition fetching :: "'s evidence_env \<Rightarrow> pyval list \<Rightarrow> pydict list \<Rightarrow> pydict \<Rightarrow> nat \<Rightarrow> 's loop \<Rightarrow> bool" where
  \<comment> \<open>while the result of \<open>r\<close> is under way; \<open>k\<close> is 1 until the call is counted\<close>
  "fetching env names rs r k l = (run_safe env names l \<and> set rs \<subseteq> set (accepted (lp_log l))
     \<and> length (executed l) + length rs \<le> lp_requests_used l \<and> lp_requests_used l \<le> max_requests
     \<and> lp_calls l + k = length (executed l)
     \<and> set (executed_keys l) \<subseteq> insert (request_key r) (set (dkeys (ew_requests (lp_workspace l)))))"

lemmas fetch_defs = fetching_def inv_defs

lemma store_result_ensures:
  "ensures (fetching env names rs r 0) (store_result env r d) (\<lambda>_. batch_inv env names rs) (run_safe env names)"
  by (auto simp: ensures_def store_result_def fetch_defs add_requests split: sum.splits)

lemma fetch_ensures:
  fixes env :: "'s evidence_env"
  shows "ensures (\<lambda>l. batch_inv env names (r # rs) l \<and> request_key r \<notin> set (dkeys (ew_requests (lp_workspace l))))
     (fetch env r) (\<lambda>_. batch_inv env names rs) (run_safe env names)"
  unfolding fetch_def aclock_def aremaining_def alog_def
proof (rule ensures_abind [OF ensures_acall])
  fix l :: "'s loop" and s
  let ?P = "\<lambda>l :: 's loop. batch_inv env names (r # rs) l \<and> request_key r \<notin> set (dkeys (ew_requests (lp_workspace l)))"
  show "?P (l\<lparr>lp_env := s\<rparr>) = ?P l" by (simp add: inv_defs)
  show "?P l \<Longrightarrow> run_safe env names l" by (simp add: batch_inv_def)
next
  fix x
  let ?F = "fetching env names rs r"
  have env: "?F k (l\<lparr>lp_env := s\<rparr>) = ?F k l" for k s and l :: "'s loop" by (simp add: fetch_defs)
  have safe: "?F k l \<Longrightarrow> run_safe env names l" for k and l :: "'s loop" by (simp add: fetching_def)
  have start: "ensures (\<lambda>l. batch_inv env names (r # rs) l \<and> request_key r \<notin> set (dkeys (ew_requests (lp_workspace l))))
      (amodify (\<lambda>l. l\<lparr>lp_log := lp_log l @ [Executed r]\<rparr>)) (\<lambda>_. ?F 1) (run_safe env names)"
    by (rule ensures_amodify) (auto simp: fetch_defs log_guarded_snoc)
  have count: "ensures (?F 1) (amodify (\<lambda>l. l\<lparr>lp_tool_ms := lp_tool_ms l + h, lp_calls := Suc (lp_calls l)\<rparr>))
      (\<lambda>_. ?F 0) (run_safe env names)" for h
    by (rule ensures_amodify) (simp add: fetch_defs)
  have parsed: "ensures (?F 0) (areturn v) (\<lambda>_. ?F 0) (run_safe env names)" for v :: "'x result"
    by (rule ensures_areturn) (simp_all add: safe)
  show "ensures (\<lambda>l. batch_inv env names (r # rs) l \<and> request_key r \<notin> set (dkeys (ew_requests (lp_workspace l))))
     (abind (amodify (\<lambda>l. l\<lparr>lp_log := lp_log l @ [Executed r]\<rparr>)) (\<lambda>_.
      abind (acall (ee_execute env (request_tool r) (request_arguments r))) (\<lambda>result.
      abind (acall (\<lambda>s. case ee_monotonic env s of (s1, t) \<Rightarrow> (s1, Inr t))) (\<lambda>ended.
      abind (amodify (\<lambda>l. l\<lparr>lp_tool_ms := lp_tool_ms l + (ended - x) * 1000, lp_calls := Suc (lp_calls l)\<rparr>)) (\<lambda>_.
      abind (acall (ee_remaining env)) (\<lambda>_.
      abind (areturn (validate_result (ee_recursion_limit env) result)) (store_result env r)))))))
     (\<lambda>_. batch_inv env names rs) (run_safe env names)"
    by (intro ensures_abind [OF start] ensures_abind [OF ensures_acall [OF env safe]] ensures_abind [OF count]
        ensures_abind [OF parsed] store_result_ensures)
qed

lemma execute_request_ensures:
  fixes env :: "'s evidence_env"
  shows "ensures (batch_inv env names (r # rs)) (execute_request env r) (\<lambda>_. batch_inv env names rs) (run_safe env names)"
  unfolding execute_request_def aremaining_def
proof (rule ensures_abind [OF ensures_acall])
  fix l :: "'s loop" and s
  show "batch_inv env names (r # rs) (l\<lparr>lp_env := s\<rparr>) = batch_inv env names (r # rs) l" by (simp add: inv_defs)
  show "batch_inv env names (r # rs) l \<Longrightarrow> run_safe env names l" by (simp add: batch_inv_def)
next
  show "ensures (batch_inv env names (r # rs)) (\<lambda>l. case activate r (lp_workspace l) of (w, active) \<Rightarrow>
       if active then (l\<lparr>lp_workspace := w\<rparr>, Inr ()) else fetch env r l) (\<lambda>_. batch_inv env names rs) (run_safe env names)"
    unfolding ensures_def
  proof (intro allI impI)
    fix l :: "'s loop"
    assume inv: "batch_inv env names (r # rs) l"
    obtain w b where a: "activate r (lp_workspace l) = (w, b)" by (cases "activate r (lp_workspace l)")
    note w = activate_requests [OF a]
    show "case (case activate r (lp_workspace l) of (w, active) \<Rightarrow>
       if active then (l\<lparr>lp_workspace := w\<rparr>, Inr ()) else fetch env r l) of
        (l', Inl e) \<Rightarrow> run_safe env names l' | (l', Inr x) \<Rightarrow> batch_inv env names rs l'"
    proof (cases b)
      case True
      with inv a w show ?thesis by (auto simp: inv_defs)
    next
      case False
      with inv a w fetch_ensures [of env names r rs] show ?thesis by (simp add: ensures_def)
    qed
  qed
qed

lemma execute_batch_ensures:
  "ensures (batch_inv env names rs) (execute_batch env rs) (\<lambda>_. batch_inv env names []) (run_safe env names)"
proof (induction rs)
  case Nil
  show ?case by (simp, rule ensures_areturn) (auto simp: batch_inv_def)
next
  case (Cons r rs)
  then show ?case by (simp add: ensures_abind [OF execute_request_ensures])
qed

section \<open>A turn\<close>

lemma validate_batch_ensures:
  fixes env :: "'s evidence_env" and P :: "'s loop \<Rightarrow> bool"
  assumes env: "\<And>l s. P (l\<lparr>lp_env := s\<rparr>) = P l" and E: "\<And>l. P l \<Longrightarrow> E l"
  shows "ensures P (validate_batch env names rs) (\<lambda>_ l. P l \<and> batch_ok env names rs) E"
proof (induction rs)
  case Nil
  show ?case by (simp, rule ensures_areturn) (auto simp: batch_ok_def E)
next
  case (Cons r rs)
  let ?ok = "py_in (dget ''tool'' r) names
    \<and> (\<exists>s s'. ee_validate env (request_tool r) (request_arguments r) s = (s', Inr ()))"
  let ?v = "acall (\<lambda>s. apsnd invalid_arguments (ee_validate env (request_tool r) (request_arguments r) s))"
  show ?case
  proof (cases "py_in (dget ''tool'' r) names")
    case False
    then show ?thesis by (simp add: ensures_def areturn_def E)
  next
    case True
    have "ensures P ?v (\<lambda>_ l. P l \<and> ?ok) E"
      unfolding ensures_def
    proof (intro allI impI)
      fix l assume p: "P l"
      obtain s r' where v: "ee_validate env (request_tool r) (request_arguments r) (lp_env l) = (s, r')"
        by (cases "ee_validate env (request_tool r) (request_arguments r) (lp_env l)")
      show "case ?v l of (l', Inl e) \<Rightarrow> E l' | (l', Inr x) \<Rightarrow> P l' \<and> ?ok"
      proof (cases "invalid_arguments r'")
        case (Inl e)
        with p v env E show ?thesis by (simp add: acall_def)
      next
        case (Inr u)
        then have "r' = Inr ()" by (auto simp: invalid_arguments_def split: sum.splits lab_error.splits)
        with Inr p v env True show ?thesis by (auto simp: acall_def)
      qed
    qed
    moreover have "ensures (\<lambda>l. P l \<and> ?ok) (validate_batch env names rs) (\<lambda>_ l. P l \<and> batch_ok env names (r # rs)) E"
      using Cons unfolding ensures_def by (fastforce simp: batch_ok_def split: prod.splits sum.splits)
    ultimately show ?thesis using True by (simp add: ensures_abind)
  qed
qed

lemma ensures_leaves:
  "ensures P m Q E \<Longrightarrow> leaves f m \<Longrightarrow> ensures (\<lambda>l. P l \<and> R (f l)) m (\<lambda>x l. Q x l \<and> R (f l)) E"
  by (auto simp: ensures_def leaves_def split: prod.splits sum.splits) (metis fst_conv)+

lemma leaves_pair: "leaves f m \<Longrightarrow> leaves g m \<Longrightarrow> leaves (\<lambda>l. (f l, g l)) m"
  by (simp add: leaves_def)

lemma leaves_prompts [leaves_intros]:
  "leaves prompts (acall g)" "leaves prompts (alog (Executed r))" "leaves prompts (aclock env)" "leaves prompts (aremaining env)"
  "leaves prompts (amodify (\<lambda>l. l\<lparr>lp_tool_ms := h l, lp_calls := k l\<rparr>))"
  by (simp_all add: alog_def aclock_def aremaining_def leaves_acall leaves_amodify prompts_def)

lemma execute_batch_prompts: "leaves prompts (execute_batch env rs)"
proof -
  have "leaves prompts (store_result env r d)" for r d
    by (simp add: leaves_def store_result_def prompts_def split: sum.splits)
  then have f: "leaves prompts (fetch env r)" for r unfolding fetch_def by (intro leaves_intros)
  have "leaves prompts (\<lambda>l. case activate r (lp_workspace l) of (w, active) \<Rightarrow>
       if active then (l\<lparr>lp_workspace := w\<rparr>, Inr ()) else fetch env r l)" for r
    using f [of r] by (auto simp: leaves_def prompts_def split: prod.splits)
  then have "leaves prompts (execute_request env r)" for r unfolding execute_request_def by (intro leaves_intros)
  then show ?thesis by (induction rs) (auto intro!: leaves_intros)
qed

definition turn_inv :: "'s evidence_env \<Rightarrow> pyval list \<Rightarrow> nat \<Rightarrow> 's loop \<Rightarrow> bool" where
  \<comment> \<open>\<open>k\<close> is 1 between the answer of the model and the end of the turn\<close>
  "turn_inv env names k l = (run_safe env names l \<and> spent 0 l
     \<and> (lp_final_only l \<longrightarrow> length (prompts l) \<le> max_rounds + k)
     \<and> (\<not> lp_final_only l \<longrightarrow> length (prompts l) \<le> lp_rounds l + k \<and> lp_rounds l < max_rounds))"

lemmas turn_defs = turn_inv_def inv_defs

lemma turn_inv_safe: "turn_inv env names k l \<Longrightarrow> run_safe env names l"
  by (simp add: turn_inv_def)

definition open_budget :: "'s evidence_env \<Rightarrow> pyval list \<Rightarrow> pydict list \<Rightarrow> 's loop \<Rightarrow> bool" where
  "open_budget env names rs l = (turn_inv env names 1 l \<and> \<not> lp_final_only l \<and> lp_requests_used l + length rs \<le> max_requests)"

lemma run_batch_ensures:
  fixes env :: "'s evidence_env"
  shows "ensures (open_budget env names rs) (run_batch env names rs) (\<lambda>x l. x = None \<and> turn_inv env names 0 l) (run_safe env names)"
  unfolding run_batch_def
proof (rule ensures_abind [OF validate_batch_ensures], goal_cases)
  case (1 l s)
  show ?case by (simp add: open_budget_def turn_defs)
next
  case (2 l)
  then show ?case by (auto simp: open_budget_def dest: turn_inv_safe)
next
  case (3 u)
  let ?A = "\<lambda>l :: 's loop. open_budget env names rs l \<and> set rs \<subseteq> set (accepted (lp_log l))"
  let ?R = "\<lambda>l :: 's loop. batch_inv env names rs l \<and> \<not> lp_final_only l
    \<and> length (prompts l) \<le> lp_rounds l \<and> lp_rounds l \<le> max_rounds"
  let ?K = "\<lambda>p :: (bool \<times> nat \<times> nat) \<times> string list. \<not> fst (fst p) \<and> length (snd p) \<le> fst (snd (fst p))
    \<and> fst (snd (fst p)) \<le> max_rounds"
  have accept: "ensures (\<lambda>l. open_budget env names rs l \<and> batch_ok env names rs) (alog (BatchAccepted rs))
      (\<lambda>_. ?A) (run_safe env names)"
    unfolding alog_def by (rule ensures_amodify) (auto simp: open_budget_def turn_defs log_guarded_snoc)
  have remaining: "ensures ?A (aremaining env) (\<lambda>_. ?A) (run_safe env names)"
    unfolding aremaining_def by (rule ensures_acall) (auto simp: open_budget_def turn_defs)
  have count: "ensures ?A (amodify (\<lambda>l. l\<lparr>lp_rounds := Suc (lp_rounds l), lp_requests_used := lp_requests_used l + length rs\<rparr>))
      (\<lambda>_. ?R) (run_safe env names)"
    by (rule ensures_amodify) (auto simp: open_budget_def turn_defs)
  have batch: "ensures ?R (execute_batch env rs) (\<lambda>_ l. batch_inv env names [] l \<and> \<not> lp_final_only l
      \<and> length (prompts l) \<le> lp_rounds l \<and> lp_rounds l \<le> max_rounds) (run_safe env names)"
    by (rule ensures_consequence [OF ensures_leaves [where R = ?K, OF execute_batch_ensures
          leaves_pair [OF execute_batch_frame execute_batch_prompts]]])
       (auto simp: loop_frame_def)
  have last: "ensures (\<lambda>l. batch_inv env names [] l \<and> \<not> lp_final_only l \<and> length (prompts l) \<le> lp_rounds l \<and> lp_rounds l \<le> max_rounds)
      (amodify (\<lambda>l. l\<lparr>lp_final_only := lp_final_only l \<or> max_rounds \<le> lp_rounds l \<or> max_requests \<le> lp_requests_used l\<rparr>))
      (\<lambda>_. turn_inv env names 0) (run_safe env names)"
    by (rule ensures_amodify) (auto simp: turn_defs)
  show ?case
    by (intro ensures_abind [OF accept] ensures_abind [OF remaining] ensures_abind [OF count] ensures_abind [OF batch]
        ensures_abind [OF last] ensures_areturn) (auto simp: turn_inv_safe)
qed

definition answered :: "'s evidence_env \<Rightarrow> pyval list \<Rightarrow> evidence_answer option \<Rightarrow> 's loop \<Rightarrow> bool" where
  "answered env names a l = (case a of
      None \<Rightarrow> turn_inv env names 0 l
    | Some a \<Rightarrow> run_safe env names l \<and> ea_tool_calls a = length (executed l) \<and> ea_rounds a = lp_rounds l)"

lemma answer_now_ensures: "ensures (turn_inv env names k) (answer_now text sources) (answered env names) E"
  by (auto simp: ensures_def answer_now_def answered_def turn_inv_def spent_def)

lemma gather_ensures: "ensures (turn_inv env names 1) (gather env names sources rs) (answered env names) (run_safe env names)"
  unfolding ensures_def
proof (intro allI impI)
  fix l :: "'a loop"
  assume inv: "turn_inv env names 1 l"
  note batch = run_batch_ensures [of env names rs, unfolded ensures_def, rule_format, of l]
  consider "lp_final_only l" | "\<not> lp_final_only l" "max_requests < lp_requests_used l + length rs"
    | "\<not> lp_final_only l" "open_budget env names rs l" unfolding open_budget_def using inv not_less by blast
  then show "case gather env names sources rs l of (l', Inl e) \<Rightarrow> run_safe env names l' | (l', Inr x) \<Rightarrow> answered env names x l'"
  proof cases
    case 1
    with inv answer_now_ensures [of env names 1 limit_answer sources] show ?thesis
      by (simp add: gather_def ensures_def)
  next
    case 2
    with inv show ?thesis by (auto simp: gather_def answered_def turn_defs max_rounds_def)
  next
    case 3
    from 3(2) have "\<not> max_requests < lp_requests_used l + length rs" by (simp add: open_budget_def)
    with 3 batch show ?thesis by (auto simp: gather_def answered_def split: prod.splits sum.splits)
  qed
qed

lemma respond_ensures:
  fixes env :: "'s evidence_env"
  shows "ensures (turn_inv env names 0) (respond env i p) (\<lambda>_. turn_inv env names 1) (run_safe env names)"
proof -
  have e: "turn_inv env names 1 (l\<lparr>lp_env := s\<rparr>) = turn_inv env names 1 l" for l :: "'s loop" and s
    by (simp add: turn_defs)
  have start: "ensures (turn_inv env names 0) (alog (Responded p)) (\<lambda>_. turn_inv env names 1) (run_safe env names)"
    unfolding alog_def by (rule ensures_amodify) (auto simp: turn_defs log_guarded_snoc split: if_splits)
  have ms: "ensures (turn_inv env names 1) (amodify (\<lambda>l. l\<lparr>lp_model_ms := h l\<rparr>)) (\<lambda>_. turn_inv env names 1) (run_safe env names)" for h
    by (rule ensures_amodify) (simp add: turn_defs)
  show ?thesis unfolding respond_def aclock_def
    by (intro ensures_abind [OF start] ensures_abind [OF ensures_acall [OF e turn_inv_safe]] ensures_abind [OF ms] ensures_areturn)
       (simp_all, rule turn_inv_safe)
qed

lemma take_turn_ensures:
  fixes env :: "'s evidence_env"
  shows "ensures (turn_inv env names 0) (take_turn env contract input names) (answered env names) (run_safe env names)"
proof -
  have e: "turn_inv env names k (l\<lparr>lp_env := s\<rparr>) = turn_inv env names k l" for l :: "'s loop" and s k
    by (simp add: turn_defs)
  have parse: "ensures (turn_inv env names 1) (areturn r) (\<lambda>_. turn_inv env names 1) (run_safe env names)" for r :: "'x result"
    by (rule ensures_areturn) (simp_all, rule turn_inv_safe)
  have t: "ensures (turn_inv env names 1) (case t of Answer a \<Rightarrow> answer_now a sources | Requests rs \<Rightarrow> gather env names sources rs)
      (answered env names) (run_safe env names)" for t sources
    by (cases t) (simp_all only: turn.case gather_ensures answer_now_ensures)
  have rest: "ensures (turn_inv env names 0)
      (abind (respond env i p) (\<lambda>response. abind (aremaining env) (\<lambda>_.
        abind (areturn (parse_turn (ee_recursion_limit env) response)) (\<lambda>t. case t of
          Answer a \<Rightarrow> answer_now a sources | Requests rs \<Rightarrow> gather env names sources rs))))
      (answered env names) (run_safe env names)" for i p sources
    unfolding aremaining_def
    by (intro ensures_abind [OF respond_ensures] ensures_abind [OF ensures_acall [OF e turn_inv_safe]] ensures_abind [OF parse] t)
  have select: "ensures (turn_inv env names 0) (\<lambda>l. case select (lp_workspace l) of
       Inl e \<Rightarrow> (l, Inl e)
     | Inr (w, evidence, sources) \<Rightarrow>
         abind (respond env (contract @ (if lp_final_only l then ee_final_contract env else [])) (evidence_prompt input evidence))
           (\<lambda>response. abind (aremaining env) (\<lambda>_.
            abind (areturn (parse_turn (ee_recursion_limit env) response)) (\<lambda>t. case t of
              Answer a \<Rightarrow> answer_now a sources
            | Requests rs \<Rightarrow> gather env names sources rs))) (l\<lparr>lp_workspace := w\<rparr>)) (answered env names) (run_safe env names)"
    unfolding ensures_def
  proof (intro allI impI, goal_cases)
    case (1 l)
    show ?case
    proof (cases "select (lp_workspace l)")
      case (Inl e)
      with 1 show ?thesis by (simp add: turn_inv_safe [OF 1])
    next
      case (Inr x)
      obtain w evidence sources where x: "x = (w, evidence, sources)" by (cases x)
      from select_requests Inr x have "turn_inv env names 0 (l\<lparr>lp_workspace := w\<rparr>)"
        using 1 by (simp add: turn_defs)
      with rest Inr x show ?thesis by (simp add: ensures_def)
    qed
  qed
  show ?thesis unfolding take_turn_def
    by (rule ensures_abind [where R = "\<lambda>_. turn_inv env names 0", OF _ select])
       (unfold aremaining_def, rule ensures_acall [OF e turn_inv_safe])
qed

section \<open>A whole run\<close>

lemma run_loop_ensures:
  "turn_inv env names 0 l \<Longrightarrow> run_loop env contract input names l = (l', r) \<Longrightarrow>
     run_safe env names l' \<and> (\<forall>a. r = Inr a \<longrightarrow> ea_tool_calls a = length (executed l') \<and> ea_rounds a = lp_rounds l')"
proof (induction env contract input names l arbitrary: l' r rule: run_loop.induct)
  case (1 env contract input names l)
  obtain l1 x where t: "take_turn env contract input names l = (l1, x)" by (cases "take_turn env contract input names l")
  note inv = take_turn_ensures [of env names contract input, unfolded ensures_def, rule_format, OF "1.prems"(1)]
  show ?case
  proof (cases x)
    case (Inl e)
    with t inv "1.prems"(2) show ?thesis by (auto simp: run_loop.simps [of env contract input names l])
  next
    case (Inr a)
    show ?thesis
    proof (cases a)
      case None
      with t inv Inr have i: "turn_inv env names 0 l1" by (simp add: answered_def)
      from None Inr t "1.prems"(2) have r: "run_loop env contract input names l1 = (l', r)"
        by (simp add: run_loop.simps [of env contract input names l])
      show ?thesis by (rule "1.IH" [OF t [symmetric] Inr None i r])
    next
      case (Some b)
      with t inv Inr "1.prems"(2) show ?thesis
        by (auto simp: run_loop.simps [of env contract input names l] answered_def)
    qed
  qed
qed

definition offered :: "'s evidence_env \<Rightarrow> pyval list \<Rightarrow> bool" where
  \<comment> \<open>the tool names of a catalog that the session returned\<close>
  "offered env names = (\<exists>s s' catalog. ee_catalog env s = (s', Inr catalog) \<and> names = map (dget ''name'') catalog)"

lemma empty_loop_inv: "turn_inv env names 0 (empty_loop limits s)"
  by (simp add: turn_defs empty_loop_def log_guarded_def max_rounds_def List.map_filter_def)

lemma run_evidence_start:
  assumes "ee_remaining env s = (s1, Inr u)" and "ee_catalog env s1 = (s2, Inr catalog)"
    and "json_dumps (ee_recursion_limit env) compact_sorted (PList (map PDict catalog)) = Inr printed"
  shows "run_evidence env limits instructions input s =
    run_loop env (instructions @ ee_turn_contract env @ [CHR 10] @ ''EVIDENCE TOOL CATALOG:'' @ [CHR 10] @ printed) input
      (map (dget ''name'') catalog) (empty_loop limits s2)"
  unfolding run_evidence_def abind_def aremaining_def acall_def areturn_def
  using assms(1,2) by (simp add: assms(3) empty_loop_def del: append.simps)

lemma empty_loop_env [simp]:
  "lp_env (empty_loop limits t) = t" "empty_loop limits t\<lparr>lp_env := t'\<rparr> = empty_loop limits t'"
  by (simp_all add: empty_loop_def)

lemma run_evidence_cases:
  assumes "run_evidence env limits instructions input s = (l, r)"
  obtains (early) t e where "l = empty_loop limits t" "r = Inl e"
    | (started) t t' catalog contract where "ee_catalog env t = (t', Inr catalog)"
        "run_loop env contract input (map (dget ''name'') catalog) (empty_loop limits t') = (l, r)"
proof -
  obtain s1 x where 1: "ee_remaining env s = (s1, x)" by (cases "ee_remaining env s")
  obtain s2 c where 2: "ee_catalog env s1 = (s2, c)" by (cases "ee_catalog env s1")
  note run = assms [unfolded run_evidence_def abind_def aremaining_def acall_def areturn_def]
  show thesis
  proof (cases x)
    case (Inl e)
    with run 1 have "l = empty_loop limits s1" "r = Inl e" by auto
    then show thesis by (rule early)
  next
    case x: (Inr u)
    show thesis
    proof (cases c)
      case (Inl e)
      with run 1 2 x have "l = empty_loop limits s2" "r = Inl e" by auto
      then show thesis by (rule early)
    next
      case c: (Inr catalog)
      show thesis
      proof (cases "json_dumps (ee_recursion_limit env) compact_sorted (PList (map PDict catalog))")
        case (Inl e)
        with run 1 2 x c have "l = empty_loop limits s2" "r = Inl e" by auto
        then show thesis by (rule early)
      next
        case (Inr printed)
        from run_evidence_start [OF 1 [unfolded x] 2 [unfolded c] this] assms
        show thesis by (intro started [OF 2 [unfolded c]]) simp
      qed
    qed
  qed
qed

lemma run_evidence_safe:
  assumes "run_evidence env limits instructions input s = (l, r)"
  shows "\<exists>names. (lp_log l = [] \<or> offered env names) \<and> run_safe env names l
    \<and> (\<forall>a. r = Inr a \<longrightarrow> ea_tool_calls a = length (executed l) \<and> ea_rounds a = lp_rounds l)"
  using assms
proof (cases rule: run_evidence_cases)
  case (early t e)
  moreover have "run_safe env [] (empty_loop limits t)" by (rule turn_inv_safe [OF empty_loop_inv])
  ultimately show ?thesis by (intro exI [of _ "[]"]) (simp add: empty_loop_def)
next
  case (started t t' catalog contract)
  from started(1) have "offered env (map (dget ''name'') catalog)" by (auto simp: offered_def)
  with run_loop_ensures [OF empty_loop_inv started(2)] show ?thesis by blast
qed

text \<open>
  C34: A run of the evidence loop returns after at most four model calls and at most eight executed
  requests in at most three rounds, whatever the model answers and whichever call raises; no request is
  executed twice, and an answer reports exactly the requests that were executed.
\<close>
theorem evidence_run_is_bounded:
  "case run_evidence env limits instructions input s of (l, r) \<Rightarrow>
     length (prompts l) \<le> 4 \<and> length (executed l) \<le> 8 \<and> lp_rounds l \<le> 3 \<and> distinct (map request_key (executed l))
     \<and> (case r of Inl _ \<Rightarrow> True | Inr a \<Rightarrow> ea_tool_calls a = length (executed l) \<and> ea_rounds a = lp_rounds l)"
proof -
  obtain l r where run: "run_evidence env limits instructions input s = (l, r)"
    by (cases "run_evidence env limits instructions input s")
  from run_evidence_safe [OF run] show ?thesis unfolding run
    by (auto simp: run_safe_def executed_keys_def max_requests_def max_rounds_def split: sum.splits)
qed

text \<open>
  C33: The evidence session executes a request only after the whole batch that holds it was accepted:
  every request of the batch names a tool of the catalog and was validated by the session.
\<close>
theorem executed_only_after_validation:
  "case run_evidence env limits instructions input s of (l, r) \<Rightarrow>
     \<exists>names. (lp_log l = [] \<or> offered env names) \<and> (\<forall>before q after. lp_log l = before @ Executed q # after \<longrightarrow>
       (\<exists>rs. BatchAccepted rs \<in> set before \<and> q \<in> set rs \<and> batch_ok env names rs))"
proof -
  obtain l r where run: "run_evidence env limits instructions input s = (l, r)"
    by (cases "run_evidence env limits instructions input s")
  from run_evidence_safe [OF run] obtain names where n: "lp_log l = [] \<or> offered env names" and safe: "run_safe env names l" by blast
  have "\<exists>rs. BatchAccepted rs \<in> set before \<and> q \<in> set rs \<and> batch_ok env names rs"
    if split: "lp_log l = before @ Executed q # after" for before q after
  proof -
    from safe split have "q \<in> set (accepted before)" by (simp add: run_safe_def log_guarded_def)
    then obtain rs where "BatchAccepted rs \<in> set before" "q \<in> set rs"
      by (auto simp: in_accepted)
    with safe split show ?thesis by (auto simp: run_safe_def)
  qed
  with n show ?thesis unfolding run by auto
qed

section \<open>A concrete run\<close>

definition demo_turn :: string where
  "demo_turn = json_compact (PDict [(''requests'', PList [PDict [(''tool'', PStr ''state.read''), (''arguments'', PDict [])]])])"

definition demo_env :: "nat evidence_env" where
  \<comment> \<open>a model that asks for the state once and then answers\<close>
  "demo_env = \<lparr>ee_remaining = (\<lambda>s. (s, Inr 60)),
     ee_catalog = (\<lambda>s. (s, Inr [[(''name'', PStr ''state.read'')]])),
     ee_respond = (\<lambda>_ _ s. (Suc s, Inr (PStr (if s = 0 then demo_turn else ''The room is safe.'')))),
     ee_validate = (\<lambda>_ _ s. (s, Inr ())),
     ee_execute = (\<lambda>_ _ s. (s, Inr (PDict [(''status'', PStr ''ok''), (''data'', PDict [(''room'', PInt 228)])]))),
     ee_monotonic = (\<lambda>s. (s, 0)),
     ee_turn_contract = ''contract'', ee_final_contract = ''final'', ee_digest = (\<lambda>s. s), ee_recursion_limit = 50\<rparr>"

definition demo_request :: pydict where
  "demo_request = [(''arguments'', PDict []), (''tool'', PStr ''state.read'')]"

definition demo_names :: "pyval list" where
  "demo_names = [PStr ''state.read'']"

definition demo_contract :: string where
  "demo_contract = ''instructions '' @ ''contract'' @ [CHR 10] @ ''EVIDENCE TOOL CATALOG:'' @ [CHR 10]
     @ json_compact (PList [PDict [(''name'', PStr ''state.read'')]])"

definition demo_after :: "nat \<Rightarrow> nat loop \<times> evidence_answer option result" where
  "demo_after n = (let l0 = empty_loop (12000, 36000) 0; l1 = take_turn demo_env demo_contract ''Is it safe?'' demo_names l0
     in if n = 0 then l1 else take_turn demo_env demo_contract ''Is it safe?'' demo_names (fst l1))"

lemma demo_turns:
  "snd (demo_after 0) = Inr None"
  "case snd (demo_after 1) of Inr (Some a) \<Rightarrow> ea_text a = ''The room is safe.'' \<and> ea_tool_calls a = 1 | _ \<Rightarrow> False"
  "drop 1 (take 3 (lp_log (fst (demo_after 1)))) = [BatchAccepted [demo_request], Executed demo_request]"
  by code_simp+

lemma demo_run: "\<exists>a. run_evidence demo_env (12000, 36000) ''instructions '' ''Is it safe?'' 0 = (fst (demo_after 1), Inr a)
    \<and> ea_text a = ''The room is safe.''"
proof -
  let ?l0 = "empty_loop (12000, 36000) (0 :: nat)"
  let ?step = "take_turn demo_env demo_contract ''Is it safe?'' demo_names"
  have "json_dumps (ee_recursion_limit demo_env) compact_sorted (PList (map PDict [[(''name'', PStr ''state.read'')]]))
      = Inr (json_compact (PList [PDict [(''name'', PStr ''state.read'')]]))" by code_simp
  then have run: "run_evidence demo_env (12000, 36000) ''instructions '' ''Is it safe?'' 0
      = run_loop demo_env demo_contract ''Is it safe?'' demo_names ?l0"
    using run_evidence_start [of demo_env 0 0 60 0 "[[(''name'', PStr ''state.read'')]]"]
    by (simp add: demo_env_def demo_contract_def demo_names_def dget_def)
  obtain l1 where 1: "?step ?l0 = (l1, Inr None)" and d0: "fst (demo_after 0) = l1"
    using demo_turns(1) by (cases "?step ?l0") (simp add: demo_after_def)
  have d1: "demo_after 1 = ?step l1" using 1 by (simp add: demo_after_def)
  obtain l2 x where 2: "?step l1 = (l2, x)" by (cases "?step l1")
  then obtain a where a: "x = Inr (Some a)" "ea_text a = ''The room is safe.''"
    using demo_turns(2) d1 by (cases x) (auto split: option.splits)
  with 1 2 run d1 show ?thesis
    by (simp add: run_loop.simps [of _ _ _ _ ?l0] run_loop.simps [of _ _ _ _ l1])
qed

theorem executed_only_after_validation_witness:
  "\<exists>names rs. lp_log (fst (demo_after 1)) \<noteq> [] \<and> demo_request \<in> set rs \<and> offered demo_env names \<and> batch_ok demo_env names rs"
proof -
  obtain a where run: "run_evidence demo_env (12000, 36000) ''instructions '' ''Is it safe?'' 0 = (fst (demo_after 1), Inr a)"
    using demo_run by blast
  let ?evs = "lp_log (fst (demo_after 1))"
  have "?evs = take 1 (take 3 ?evs) @ drop 1 (take 3 ?evs) @ drop 3 ?evs"
    by (simp only: append_take_drop_id flip: append_assoc)
  then have l: "?evs = (take 1 (take 3 ?evs) @ [BatchAccepted [demo_request]]) @ Executed demo_request # drop 3 ?evs"
    unfolding demo_turns(3) by simp
  from executed_only_after_validation [of demo_env "(12000, 36000)" "''instructions ''" "''Is it safe?''" 0, unfolded run]
  obtain names where n: "lp_log (fst (demo_after 1)) = [] \<or> offered demo_env names"
    and v: "\<forall>before q after. lp_log (fst (demo_after 1)) = before @ Executed q # after \<longrightarrow>
       (\<exists>rs. BatchAccepted rs \<in> set before \<and> q \<in> set rs \<and> batch_ok demo_env names rs)" by auto
  from v [rule_format, OF l] obtain rs where "demo_request \<in> set rs" "batch_ok demo_env names rs" by blast
  moreover have "?evs \<noteq> []" by (subst l) simp
  ultimately show ?thesis using n by blast
qed

lemma infinite_argument_raises:
  \<comment> \<open>an argument \<open>1e999\<close> is read as infinity, and printing it raises outside the translated errors\<close>
  "match_number False ''1e999'' = Inr (PFloat PosInf, [])"
  "parse_protocol 50 (PDict [(''requests'', PList [PDict [(''tool'', PStr ''state.read''),
      (''arguments'', PDict [(''x'', PFloat PosInf)])]])])
    = Inl (ValueError ''Out of range float values are not JSON compliant'')"
proof -
  have "(2 :: rat) ^ n \<le> 10 ^ m" if "n \<le> 2 * m" for n m
  proof -
    have "(2 :: rat) ^ n \<le> 2 ^ (2 * m)" using that by (intro power_increasing) simp_all
    also have "\<dots> = 4 ^ m" by (simp add: power_mult)
    also have "\<dots> \<le> 10 ^ m" by (intro power_mono) simp_all
    finally show ?thesis .
  qed
  moreover have "(1024 :: nat) \<le> 2 * 999" by simp
  moreover have "(2 :: rat) ^ k - 2 ^ j \<le> 2 ^ k" for k j :: nat by (simp add: diff_le_eq)
  ultimately have le: "(2 :: rat) ^ 1024 - 2 ^ 970 \<le> 10 ^ 999" by (meson order_trans)
  have "scale10 (int n) = 10 ^ n" for n by (simp add: scale10_def)
  from this [of 999] have "scale10 999 = 10 ^ 999" by (simp only: of_nat_numeral)
  then have inf: "to_pyfloat (scale10 999) = PosInf" unfolding to_pyfloat_def using le by (simp only: if_True)
  have parts: "int_part ''1e999'' = Some (''1'', ''e999'')" "fraction_part ''e999'' = ([], ''e999'')"
    "exponent_part ''e999'' = (Some 999, [])" "digits_value ''1'' = 1" by code_simp+
  show "match_number False ''1e999'' = Inr (PFloat PosInf, [])"
    by (simp add: match_number_def parts signed_def inf)
  show "parse_protocol 50 (PDict [(''requests'', PList [PDict [(''tool'', PStr ''state.read''),
      (''arguments'', PDict [(''x'', PFloat PosInf)])]])])
    = Inl (ValueError ''Out of range float values are not JSON compliant'')" by code_simp
qed

end
