(* ===== verification/JsonLaws.thy ===== *)
theory JsonLaws
  imports Json
begin

text \<open>
  What is printed is read back: scanning the text of a value gives the value with its
  dictionaries in the printed order, and leaves the text after it.  So the printed text identifies a
  value up to the order of its keys.  The laws cover values without floats.
\<close>

section \<open>Numbers\<close>

lemma is_ascii_digit_iff: "is_ascii_digit c \<longleftrightarrow> 48 \<le> ord c \<and> ord c \<le> 57"
  by (simp add: is_ascii_digit_def Let_def)

lemma nat_str_digits: "list_all is_ascii_digit (nat_str n)"
proof (induction n rule: nat_str.induct)
  case (1 n)
  show ?case
  proof (cases "n < 10")
    case True
    then show ?thesis by (subst nat_str.simps) (simp add: is_ascii_digit_iff)
  next
    case False
    moreover have "is_ascii_digit (char_of (48 + n mod 10))" by (simp add: is_ascii_digit_iff)
    ultimately show ?thesis using 1 by (subst nat_str.simps) simp
  qed
qed

lemma nat_str_not_Nil [simp]: "nat_str n \<noteq> []"
  by (subst nat_str.simps) simp

lemma digits_value_snoc: "digits_value (s @ [c]) = 10 * digits_value s + (ord c - 48)"
  by (simp add: digits_value_def)

lemma digits_value_nat_str [simp]: "digits_value (nat_str n) = n"
proof (induction n rule: nat_str.induct)
  case (1 n)
  show ?case
  proof (cases "n < 10")
    case True
    then show ?thesis by (subst nat_str.simps) (simp add: digits_value_def)
  next
    case False
    moreover have "n mod 10 < 10" by simp
    ultimately show ?thesis using 1 by (subst nat_str.simps) (simp add: digits_value_snoc)
  qed
qed

lemma nat_str_leading_zero: "hd (nat_str n) = CHR ''0'' \<Longrightarrow> n = 0"
proof (induction n rule: nat_str.induct)
  case (1 n)
  show ?case
  proof (cases "n < 10")
    case True
    with 1(2) have "char_of (48 + n) = CHR ''0''" by (subst (asm) nat_str.simps) simp
    then have "ord (char_of (48 + n)) = ord (CHR ''0'')" by (rule arg_cong)
    with True show ?thesis by simp
  next
    case False
    with 1(2) have "hd (nat_str (n div 10)) = CHR ''0''" by (subst (asm) nat_str.simps) simp
    with 1(1) False show ?thesis by simp
  qed
qed

definition no_number :: "string \<Rightarrow> bool" where
  \<comment> \<open>the text does not continue a number\<close>
  "no_number s = (case s of [] \<Rightarrow> True
     | c # _ \<Rightarrow> \<not> is_ascii_digit c \<and> c \<noteq> CHR ''.'' \<and> c \<noteq> CHR ''e'' \<and> c \<noteq> CHR ''E'')"

lemma takeWhile_append_stop:
  "list_all p xs \<Longrightarrow> (case ys of [] \<Rightarrow> True | y # _ \<Rightarrow> \<not> p y) \<Longrightarrow> takeWhile p (xs @ ys) = xs"
  by (induction xs) (auto split: list.splits)

lemma dropWhile_append_stop:
  "list_all p xs \<Longrightarrow> (case ys of [] \<Rightarrow> True | y # _ \<Rightarrow> \<not> p y) \<Longrightarrow> dropWhile p (xs @ ys) = ys"
  by (induction xs) (auto split: list.splits)

lemma int_part_nat_str:
  assumes "no_number rest"
  shows "int_part (nat_str n @ rest) = Some (nat_str n, rest)"
proof (cases "n = 0")
  case True
  moreover have "char_of (48 :: nat) = CHR ''0''" by (simp flip: ord_inject)
  ultimately show ?thesis by (simp add: nat_str.simps [of 0] int_part_def)
next
  case False
  obtain c s where ns: "nat_str n = c # s" by (cases "nat_str n") auto
  with nat_str_leading_zero [of n] False have "c \<noteq> CHR ''0''" by auto
  moreover have "is_ascii_digit c" using nat_str_digits [of n] ns by simp
  moreover have "case rest of [] \<Rightarrow> True | y # _ \<Rightarrow> \<not> is_ascii_digit y"
    using assms by (auto simp: no_number_def split: list.splits)
  ultimately show ?thesis
    using takeWhile_append_stop [OF nat_str_digits, of rest n] dropWhile_append_stop [OF nat_str_digits, of rest n]
    by (simp add: int_part_def ns)
qed

lemma no_fraction: "no_number s \<Longrightarrow> fraction_part s = ([], s)"
  by (auto simp: no_number_def fraction_part_def split: list.splits)

lemma no_exponent: "no_number s \<Longrightarrow> exponent_part s = (None, s)"
  by (auto simp: no_number_def exponent_part_def split: list.splits)

lemma match_number_nat_str:
  assumes "no_number rest" and "length (nat_str n) \<le> max_int_digits"
  shows "match_number negative (nat_str n @ rest) = Inr (PInt (signed negative (int n)), rest)"
  using assms by (simp add: match_number_def int_part_nat_str no_fraction no_exponent)

section \<open>Strings\<close>

lemma hex_value_digit: "k < 16 \<Longrightarrow> hex_value (hex_digit k) = Some k"
  by (simp add: hex_value_def hex_digit_def Let_def)

lemma char_of_ord [simp]: "char_of (ord c) = c"
  by (simp add: ord_def)

lemma unicode_escape_hex2:
  "unicode_escape CHR ''0'' CHR ''0'' (hex_digit (ord c div 16)) (hex_digit (ord c mod 16)) = Inr c"
proof -
  have "ord c div 16 < 16" using ord_less [of c] by linarith
  moreover have "hex_value CHR ''0'' = Some 0" by (simp add: hex_value_def)
  ultimately show ?thesis by (simp add: unicode_escape_def hex_value_digit)
qed

lemma simple_escape_quoted:
  "ord c = 34 \<or> ord c = 92 \<Longrightarrow> simple_escape c = Some c \<and> c \<noteq> CHR ''u''"
  "ord c = 10 \<Longrightarrow> simple_escape CHR ''n'' = Some c" "ord c = 13 \<Longrightarrow> simple_escape CHR ''r'' = Some c"
  "ord c = 9 \<Longrightarrow> simple_escape CHR ''t'' = Some c" "ord c = 12 \<Longrightarrow> simple_escape CHR ''f'' = Some c"
  "ord c = 8 \<Longrightarrow> simple_escape CHR ''b'' = Some c"
  by (auto simp: simple_escape_def Let_def simp flip: ord_inject)

lemma scan_escaped_char:
  "scan_string (json_escape_char c @ s) = rbind (scan_string s) (\<lambda>(t, r). Inr (c # t, r))"
proof -
  consider "ord c = 34 \<or> ord c = 92" | "ord c = 10" | "ord c = 13" | "ord c = 9" | "ord c = 12" | "ord c = 8"
    | "ord c < 32" "ord c \<notin> {8, 9, 10, 12, 13}" | "32 \<le> ord c" "ord c \<noteq> 34" "ord c \<noteq> 92"
    by fastforce
  then show ?thesis
  proof cases
    case 7
    then show ?thesis by (simp add: json_escape_char_def hex2_def unicode_escape_hex2 Let_def)
  qed (simp_all add: json_escape_char_def simple_escape_quoted)
qed

lemma scan_quoted: "scan_string (concat (map json_escape_char s) @ CHR 34 # rest) = Inr (s, rest)"
  by (induction s) (simp_all add: scan_escaped_char)

section \<open>Containers\<close>

definition reads :: "(string \<Rightarrow> (pyval \<times> string) result) \<Rightarrow> string \<Rightarrow> pyval \<Rightarrow> bool" where
  "reads scan t v = (\<forall>rest. no_number rest \<longrightarrow> scan (t @ rest) = Inr (v, rest))"

definition opens_value :: "string \<Rightarrow> bool" where
  "opens_value s = (s \<noteq> [] \<and> \<not> json_space (hd s) \<and> hd s \<noteq> CHR '']'')"

definition separator :: "char \<Rightarrow> string \<Rightarrow> bool" where
  "separator c sep = (\<exists>ws. sep = c # ws \<and> list_all json_space ws)"

definition json_style_ok :: "json_style \<Rightarrow> bool" where
  "json_style_ok st = (separator CHR '','' (js_item_separator st) \<and> separator CHR '':'' (js_key_separator st))"

lemma style_ok [simp]: "json_style_ok compact_sorted" "json_style_ok default_style"
  by (auto simp: json_style_ok_def separator_def compact_sorted_def default_style_def json_space_def)

lemma skip_space_append:
  "list_all json_space ws \<Longrightarrow> opens_value t \<Longrightarrow> skip_space (ws @ t @ r) = t @ r"
  by (induction ws) (auto simp: skip_space_def opens_value_def hd_append dropWhile_hd)

lemma skip_space_opens: "opens_value t \<Longrightarrow> skip_space (t @ r) = t @ r"
  using skip_space_append [of "[]"] by simp

lemma skip_space_nonspace: "\<not> json_space c \<Longrightarrow> skip_space (c # s) = c # s"
  by (simp add: skip_space_def)

lemma nonspaces [simp]: "\<not> json_space CHR '',''" "\<not> json_space CHR '']''" "\<not> json_space CHR ''}''" "\<not> json_space CHR '':''"
  by (simp_all add: json_space_def)

lemma no_number_closers [simp]: "no_number (CHR '','' # s)" "no_number (CHR '']'' # s)" "no_number (CHR ''}'' # s)"
  by (simp_all add: no_number_def is_ascii_digit_iff)

lemma join_opens: "opens_value t \<Longrightarrow> opens_value (join sep (t # ts))"
  by (cases ts) (auto simp: opens_value_def)

lemma scan_elements_join:
  assumes "separator CHR '','' sep" and "vs \<noteq> []"
    and "\<And>v. v \<in> set vs \<Longrightarrow> reads scan (f v) (g v) \<and> opens_value (f v)"
    and "length vs \<le> n"
  shows "scan_elements scan n (join sep (map f vs) @ CHR '']'' # rest) = Inr (map g vs, rest)"
  using assms(2-)
proof (induction vs arbitrary: n rule: induct_list012)
  case 1
  then show ?case by simp
next
  case (2 v)
  then obtain m where "n = Suc m" by (cases n) auto
  with 2 show ?case by (simp add: reads_def skip_space_nonspace)
next
  case (3 v w vs)
  then obtain m where n: "n = Suc m" by (cases n) auto
  from assms(1) obtain ws where ws: "sep = CHR '','' # ws" "list_all json_space ws"
    by (auto simp: separator_def)
  have o: "opens_value (join sep (map f (w # vs)))" using "3.prems"(2) [of w] by (simp only: list.map) (rule join_opens, simp)
  have "scan_elements scan m (join sep (map f (w # vs)) @ CHR '']'' # rest) = Inr (map g (w # vs), rest)"
    by (rule 3(2)) (use "3.prems" n in auto)
  with "3.prems"(2) [of v] n ws skip_space_append [OF ws(2) o] show ?case
    by (simp add: reads_def skip_space_nonspace)
qed

lemma scan_key_quote:
  assumes "separator CHR '':'' ks" and "opens_value t"
  shows "scan_key (json_quote k @ ks @ t @ r) = Inr (k, t @ r)"
  using assms skip_space_append [OF _ assms(2), of _ r]
  by (auto simp: scan_key_def json_quote_def scan_quoted separator_def skip_space_nonspace)

lemma opens_quote: "opens_value (json_quote k @ s)"
  by (simp add: opens_value_def json_quote_def json_space_def)

lemma scan_members_join:
  assumes "separator CHR '','' sep" and "separator CHR '':'' ks" and "ms \<noteq> []"
    and "\<And>k v. (k, v) \<in> set ms \<Longrightarrow> reads scan (f v) (g v) \<and> opens_value (f v)"
    and "length ms \<le> n"
  shows "scan_members scan n (join sep (map (\<lambda>(k, v). json_quote k @ ks @ f v) ms) @ CHR ''}'' # rest)
    = Inr (map (\<lambda>(k, v). (k, g v)) ms, rest)"
  using assms(3-)
proof (induction ms arbitrary: n rule: induct_list012)
  case 1
  then show ?case by simp
next
  case (2 m)
  then obtain l where "n = Suc l" by (cases n) auto
  moreover obtain k v where "m = (k, v)" by (cases m)
  ultimately show ?case using 2 by (simp add: scan_key_quote [OF assms(2)] reads_def skip_space_nonspace)
next
  case (3 m m' ms)
  then obtain l where n: "n = Suc l" by (cases n) auto
  obtain k v where m: "m = (k, v)" by (cases m)
  from assms(1) obtain ws where ws: "sep = CHR '','' # ws" "list_all json_space ws"
    by (auto simp: separator_def)
  let ?t = "\<lambda>ms. join sep (map (\<lambda>(k, v). json_quote k @ ks @ f v) ms)"
  have o: "opens_value (?t (m' # ms))" by (cases m') (simp only: list.map prod.case, rule join_opens, rule opens_quote)
  have "scan_members scan l (?t (m' # ms) @ CHR ''}'' # rest) = Inr (map (\<lambda>(k, v). (k, g v)) (m' # ms), rest)"
    by (rule 3(2)) (use "3.prems"(2,3) n in auto)
  with "3.prems"(2) [of k v] n m ws skip_space_append [OF ws(2) o] show ?case
    by (simp add: scan_key_quote [OF assms(2)] reads_def skip_space_nonspace)
qed

section \<open>Values\<close>

fun json_exact :: "pyval \<Rightarrow> bool" where
  \<comment> \<open>no floats, no integer beyond the digit limit, and distinct keys, at every depth\<close>
  "json_exact (PInt i) = (length (nat_str (nat \<bar>i\<bar>)) \<le> max_int_digits)"
| "json_exact (PFloat f) = False"
| "json_exact (PList xs) = list_all json_exact xs"
| "json_exact (PDict d) = (distinct (map fst d) \<and> list_all (\<lambda>(k, v). json_exact v) d)"
| "json_exact _ = True"

fun json_canon :: "bool \<Rightarrow> pyval \<Rightarrow> pyval" where
  \<comment> \<open>the value with the items of its dictionaries in printed order\<close>
  "json_canon b (PList xs) = PList (map (json_canon b) xs)"
| "json_canon b (PDict d) = PDict (order_items b (map (\<lambda>(k, v). (k, json_canon b v)) d))"
| "json_canon b v = v"

lemma insort_key_keyed:
  "insort_key fst (k, f k v) (map (\<lambda>(k, v). (k, f k v)) d) = map (\<lambda>(k, v). (k, f k v)) (insort_key fst (k, v) d)"
  by (induction d) auto

lemma order_items_map:
  "order_items b (map (\<lambda>(k, v). (k, f k v)) d) = map (\<lambda>(k, v). (k, f k v)) (order_items b d)"
  by (induction d) (auto simp: order_items_def insort_key_keyed)

lemma set_order_items [simp]: "set (order_items b d) = set d"
  by (simp add: order_items_def)

lemma length_order_items [simp]: "length (order_items b d) = length d"
  by (simp add: order_items_def)

lemma order_items_Nil [simp]: "order_items b d = [] \<longleftrightarrow> d = []"
  by (metis length_order_items length_0_conv)

lemma keys_order_items: "map fst (order_items b d) = (if b then sort (map fst d) else map fst d)"
proof -
  have "map fst (insort_key fst p xs) = insort (fst p) (map fst xs)" for p :: "string \<times> 'a" and xs
    by (induction xs) auto
  then have "map fst (sort_key fst d) = sort (map fst d)" by (induction d) auto
  then show ?thesis by (simp add: order_items_def)
qed

lemma json_text_dict:
  "json_text st (PDict d) = ''{'' @ join (js_item_separator st)
     (map (\<lambda>(k, v). json_quote k @ js_key_separator st @ json_text st v) (order_items (js_sort_keys st) d)) @ ''}''"
  unfolding json_text.simps order_items_map by (simp add: comp_def case_prod_unfold)

declare json_text.simps(7) [simp del]

lemma fold_dput_distinct:
  "distinct (map fst acc @ map fst d) \<Longrightarrow> fold (\<lambda>(k, v). dput k v) d acc = acc @ d"
proof (induction d arbitrary: acc)
  case Nil
  then show ?case by simp
next
  case (Cons p d)
  obtain k v where p: "p = (k, v)" by (cases p)
  have new: "k \<notin> fst ` set acc \<Longrightarrow> dput k v acc = acc @ [(k, v)]" for acc :: "('a \<times> 'b) list"
    by (induction acc) auto
  with Cons p show ?case by auto
qed

lemma int_str_opens: "opens_value (int_str i)"
proof -
  have "opens_value (nat_str n)" for n
  proof -
    have "is_ascii_digit (hd (nat_str n))" using nat_str_digits [of n] by (cases "nat_str n") auto
    then show ?thesis by (auto simp: opens_value_def json_space_def is_ascii_digit_iff)
  qed
  then show ?thesis by (simp add: int_str_def opens_value_def json_space_def)
qed

lemma json_text_opens: "json_exact v \<Longrightarrow> opens_value (json_text st v)"
  using int_str_opens
  by (cases v) (auto simp: json_text_dict opens_value_def json_quote_def json_space_def)

lemma scan_constant_other:
  "c \<notin> {CHR ''n'', CHR ''t'', CHR ''f'', CHR ''N'', CHR ''I''} \<Longrightarrow> (c = CHR ''-'' \<longrightarrow> s \<noteq> [] \<and> hd s \<noteq> CHR ''I'')
    \<Longrightarrow> scan_constant opt (c # s) = Inr None"
  by (cases s) (auto simp: scan_constant_def after_prefix_def starts_with_def)

lemma scan_value_int:
  assumes "length (nat_str (nat \<bar>i\<bar>)) \<le> max_int_digits" and "no_number rest"
  shows "scan_value opt deeper (int_str i @ rest) = Inr (PInt i, rest)"
proof -
  obtain n where n: "nat \<bar>i\<bar> = n" by simp
  obtain c s where ns: "nat_str n = c # s" by (cases "nat_str n") auto
  with nat_str_digits [of n] have d: "is_ascii_digit c" by simp
  then have c: "c \<notin> {CHR ''n'', CHR ''t'', CHR ''f'', CHR ''N'', CHR ''I'', CHR ''-'', CHR ''{'', CHR ''['', CHR 34}"
    by (auto simp: is_ascii_digit_iff)
  note m = match_number_nat_str [OF assms(2), of n, unfolded ns]
  show ?thesis
  proof (cases "i < 0")
    case True
    with n have i: "int_str i = CHR ''-'' # c # s" by (simp add: int_str_def ns)
    have "scan_constant opt (CHR ''-'' # c # s @ rest) = Inr None"
      by (rule scan_constant_other) (use c in auto)
    with assms(1) n ns True m [of True] show ?thesis
      by (simp add: scan_value_def i signed_def)
  next
    case False
    with n have i: "int_str i = c # s" by (simp add: int_str_def ns)
    have "scan_constant opt (c # s @ rest) = Inr None"
      by (rule scan_constant_other) (use c in auto)
    moreover have "ord c \<noteq> 34" using d by (simp add: is_ascii_digit_iff)
    ultimately show ?thesis using assms(1) n ns False c m [of False]
      by (simp add: scan_value_def i signed_def)
  qed
qed

lemma length_join_le: "(\<And>x. x \<in> set xs \<Longrightarrow> x \<noteq> []) \<Longrightarrow> length xs \<le> length (join sep xs)"
proof (induction xs rule: induct_list012)
  case (3 x y xs)
  then have "length (y # xs) \<le> length (join sep (y # xs))" by simp
  moreover have "x \<noteq> []" using "3.prems" by simp
  ultimately show ?case by (cases x) simp_all
qed (auto simp: Suc_le_eq)

lemma scan_array_reads:
  assumes "json_style_ok st" and "\<And>x. x \<in> set xs \<Longrightarrow> reads scan (json_text st x) (g x) \<and> opens_value (json_text st x)"
  shows "scan_array scan (join (js_item_separator st) (map (json_text st) xs) @ CHR '']'' # rest) = Inr (PList (map g xs), rest)"
proof (cases "xs = []")
  case True
  then show ?thesis by (simp add: scan_array_def skip_space_nonspace)
next
  case False
  let ?t = "join (js_item_separator st) (map (json_text st) xs)"
  have o: "opens_value ?t" using False assms(2) by (cases xs) (auto intro: join_opens)
  then obtain c s where t: "?t = c # s" "c \<noteq> CHR '']''" by (cases ?t) (auto simp: opens_value_def)
  have "length xs \<le> length (?t @ CHR '']'' # rest)"
    using length_join_le [of "map (json_text st) xs" "js_item_separator st"] assms(2)
    by (force simp: opens_value_def)
  moreover have "separator CHR '','' (js_item_separator st)" using assms(1) by (simp add: json_style_ok_def)
  ultimately have "scan_elements scan (length (?t @ CHR '']'' # rest)) (?t @ CHR '']'' # rest) = Inr (map g xs, rest)"
    using scan_elements_join False assms(2) by blast
  moreover have "skip_space (?t @ CHR '']'' # rest) = ?t @ CHR '']'' # rest" by (rule skip_space_opens [OF o])
  ultimately show ?thesis using t by (simp add: scan_array_def)
qed

lemma scan_object_reads:
  assumes "json_style_ok st" and "distinct (map fst d)"
    and "\<And>k v. (k, v) \<in> set d \<Longrightarrow> reads scan (json_text st v) (g v) \<and> opens_value (json_text st v)"
  shows "scan_object opt scan (join (js_item_separator st)
      (map (\<lambda>(k, v). json_quote k @ js_key_separator st @ json_text st v) d) @ CHR ''}'' # rest)
    = Inr (PDict (map (\<lambda>(k, v). (k, g v)) d), rest)"
proof (cases "d = []")
  case True
  then show ?thesis by (simp add: scan_object_def skip_space_nonspace object_of_pairs_def)
next
  case False
  let ?t = "join (js_item_separator st) (map (\<lambda>(k, v). json_quote k @ js_key_separator st @ json_text st v) d)"
  have o: "opens_value ?t"
    using False opens_quote by (cases d) (auto intro: join_opens)
  obtain p d' where "d = p # d'" using False by (cases d) auto
  then have "\<exists>s. ?t = CHR 34 # s" by (cases p; cases d') (auto simp: json_quote_def)
  then obtain s where t: "?t = CHR 34 # s" by blast
  have "length d \<le> length (?t @ CHR ''}'' # rest)"
    using length_join_le [of "map (\<lambda>(k, v). json_quote k @ js_key_separator st @ json_text st v) d" "js_item_separator st"]
    by (force simp: json_quote_def)
  moreover have "separator CHR '','' (js_item_separator st)" "separator CHR '':'' (js_key_separator st)"
    using assms(1) by (simp_all add: json_style_ok_def)
  ultimately have "scan_members scan (length (?t @ CHR ''}'' # rest)) (?t @ CHR ''}'' # rest)
      = Inr (map (\<lambda>(k, v). (k, g v)) d, rest)"
    using scan_members_join False assms(3) by blast
  moreover have "skip_space (?t @ CHR ''}'' # rest) = ?t @ CHR ''}'' # rest" by (rule skip_space_opens [OF o])
  moreover have "distinct (map fst (map (\<lambda>(k, v). (k, g v)) d))"
    using assms(2) by (simp add: comp_def case_prod_unfold)
  then have "object_of_pairs opt (map (\<lambda>(k, v). (k, g v)) d) = Inr (PDict (map (\<lambda>(k, v). (k, g v)) d))"
    using fold_dput_distinct [of "[]" "map (\<lambda>(k, v). (k, g v)) d"]
    by (simp only: object_of_pairs_def) simp
  ultimately show ?thesis using t by (simp add: scan_object_def)
qed

lemma json_depth_list: "x \<in> set xs \<Longrightarrow> json_depth x < json_depth (PList xs)"
  by (simp add: less_Suc_eq_le)

lemma json_depth_dict: "(k, v) \<in> set d \<Longrightarrow> json_depth v < json_depth (PDict d)"
  by (force simp add: less_Suc_eq_le intro!: Max_ge)

declare json_depth.simps(1,2) [simp del]

lemma scan_value_array: "scan_value opt (Some scan) (CHR ''['' # s) = scan_array scan s"
  by (simp add: scan_value_def)

lemma scan_value_object: "scan_value opt (Some scan) (CHR ''{'' # s) = scan_object opt scan s"
  by (simp add: scan_value_def)

theorem scan_once_text:
  assumes "json_style_ok st" and "json_exact v" and "json_depth v \<le> n"
  shows "reads (scan_once opt n) (json_text st v) (json_canon (js_sort_keys st) v)"
  using assms(2,3)
proof (induction v arbitrary: n)
  case PNone
  show ?case by (cases n) (simp_all add: reads_def scan_value_def scan_constant_def after_prefix_def starts_with_def)
next
  case (PBool b)
  show ?case
    by (cases n; cases b) (simp_all add: reads_def scan_value_def scan_constant_def after_prefix_def starts_with_def)
next
  case (PInt i)
  then show ?case by (cases n) (simp_all add: reads_def scan_value_int)
next
  case (PFloat f)
  then show ?case by simp
next
  case (PStr s)
  show ?case by (cases n) (simp_all add: reads_def scan_value_def json_quote_def scan_quoted)
next
  case (PList xs)
  then obtain m where n: "n = Suc m" by (cases n) (auto simp: json_depth.simps)
  let ?g = "json_canon (js_sort_keys st)"
  have xs: "reads (scan_once opt m) (json_text st x) (?g x) \<and> opens_value (json_text st x)" if "x \<in> set xs" for x
    using PList that json_depth_list [OF that] n by (force simp: list_all_iff json_text_opens)
  show ?case unfolding n
    using scan_array_reads [of st xs "scan_once opt m" ?g, OF assms(1) xs]
    by (simp add: reads_def scan_value_array)
next
  case (PDict d)
  then obtain m where n: "n = Suc m" by (cases n) (auto simp: json_depth.simps)
  let ?g = "json_canon (js_sort_keys st)" and ?d = "order_items (js_sort_keys st) d"
  have kv: "reads (scan_once opt m) (json_text st v) (?g v) \<and> opens_value (json_text st v)" if "(k, v) \<in> set ?d" for k v
  proof -
    from that have d: "(k, v) \<in> set d" by simp
    with PDict.prems have "json_exact v" by (auto simp: list_all_iff)
    moreover have "json_depth v \<le> m" using json_depth_dict [OF d] PDict.prems n by simp
    ultimately show ?thesis using PDict.IH [of "(k, v)" v m] d by (simp add: json_text_opens)
  qed
  have "distinct (map fst ?d)" using PDict.prems by (simp add: keys_order_items)
  from scan_object_reads [OF assms(1) this kv] show ?case unfolding n
    by (simp add: reads_def json_text_dict scan_value_object order_items_map)
qed

theorem json_loads_text:
  assumes "json_style_ok st" and "json_exact v" and "json_depth v \<le> rl"
  shows "json_loads rl opt (json_text st v) = Inr (json_canon (js_sort_keys st) v)"
proof -
  have "scan_once opt rl (json_text st v) = Inr (json_canon (js_sort_keys st) v, [])"
    using scan_once_text [OF assms, unfolded reads_def, rule_format, of "[]"] by (simp add: no_number_def)
  moreover have "skip_space (json_text st v) = json_text st v"
    using skip_space_opens [OF json_text_opens [OF assms(2)], of st "[]"] by simp
  ultimately show ?thesis by (simp add: json_loads_def skip_space_def)
qed

corollary json_text_inject:
  assumes "json_style_ok st" and "json_exact v" and "json_exact w" and "json_text st v = json_text st w"
  shows "json_canon (js_sort_keys st) v = json_canon (js_sort_keys st) w"
proof -
  let ?rl = "max (json_depth v) (json_depth w)" and ?opt = "\<lparr>jo_unique_keys = False, jo_constants = False\<rparr>"
  have "json_loads ?rl ?opt (json_text st v) = Inr (json_canon (js_sort_keys st) v)"
    by (rule json_loads_text) (use assms in auto)
  moreover have "json_loads ?rl ?opt (json_text st w) = Inr (json_canon (js_sort_keys st) w)"
    by (rule json_loads_text) (use assms in auto)
  ultimately show ?thesis using assms(4) by simp
qed

end
