(* ===== verification/EvidenceBudget.thy ===== *)
theory EvidenceBudget
  imports EvidenceProperties JsonLaws
begin

text \<open>
  The evidence of a prompt fits its budget.  \<open>EvidenceWorkspace.select\<close> starts from the manifests of
  all records and only replaces one by its full record while the text stays within the limit, so what is
  shown either fits or is nothing but the manifests.  Eight manifests of ordinary size always fit, which
  is a count of characters; a source handle that has to be escaped can make them larger than the budget.
\<close>

section \<open>Sizes\<close>

definition json_size :: "pydict \<Rightarrow> nat" where
  "json_size d = length (json_compact (PDict d))"

definition request_small :: "pydict \<Rightarrow> bool" where
  \<comment> \<open>the tool name alone prints within 180 characters\<close>
  "request_small r = (json_size [(''tool'', dget ''tool'' r)] \<le> 180)"

definition result_small :: "pydict \<Rightarrow> bool" where
  \<comment> \<open>the provider does not claim an omission, and a short source handle prints within 200 characters\<close>
  "result_small d = (dget ''status'' d \<noteq> PStr ''omitted'' \<and> (case dget ''data'' d of
      PDict data \<Rightarrow> short_scalar (dget ''source_id'' data) \<longrightarrow> json_size [(''source_id'', dget ''source_id'' data)] \<le> 200
    | _ \<Rightarrow> True))"

lemma collect_handles_small:
  assumes "json_size [(''source_ids'', PList (map PStr hs))] \<le> 200"
  shows "json_size [(''source_ids'', PList (map PStr (collect_handles hs items)))] \<le> 200"
  using assms
  by (induction hs items rule: collect_handles.induct) (auto simp: json_size_def Let_def split: pyval.splits)

lemma map_of_fields: "map_of (map (\<lambda>n. (n, f n)) ns) k = (if k \<in> set ns then Some (f k) else None)"
  by (induction ns) auto

lemma locator_small:
  assumes "result_small d" and "locator d = Some l"
  shows "json_size l \<le> 200"
proof -
  from assms(2) obtain data where data: "dget ''data'' d = PDict data"
    by (auto simp: locator_def split: pyval.splits)
  let ?ns = "filter (\<lambda>n. short_scalar (dget n data)) locator_fields"
  let ?l = "map (\<lambda>n. (n, dget n data)) ?ns"
  let ?l1 = "case dget ''items'' data of PList items \<Rightarrow> if ?l = [] then
        (let handles = collect_handles [] items in if handles = [] then [] else [(''source_ids'', PList (map PStr handles))])
      else ?l | _ \<Rightarrow> ?l"
  from assms(2) data have l: "l = compact_locator ?l1"
    by (auto simp: locator_def Let_def split: if_splits)
  consider "json_size ?l1 \<le> 200" | "?l1 = ?l"
  proof (cases "\<exists>items. dget ''items'' data = PList items \<and> ?l = []")
    case True
    then obtain items where i: "dget ''items'' data = PList items" "?l = []" by blast
    have "json_size [(''source_ids'', PList (map PStr (collect_handles [] items)))] \<le> 200"
      by (rule collect_handles_small) code_simp
    moreover have "json_size [] \<le> 200" by code_simp
    ultimately have "json_size ?l1 \<le> 200" using i by (simp add: Let_def)
    then show ?thesis using that by blast
  next
    case False
    then have "?l1 = ?l" by (auto split: pyval.splits)
    then show ?thesis using that by blast
  qed
  then show ?thesis
  proof cases
    case 1
    then show ?thesis using l by (simp add: compact_locator_def json_size_def)
  next
    case 2
    show ?thesis
    proof (cases "json_size ?l \<le> 200")
      case True
      with l 2 show ?thesis by (simp add: compact_locator_def json_size_def)
    next
      case False
      show ?thesis
      proof (cases "''source_id'' \<in> set ?ns")
        case True
        with l 2 False have "l = [(''source_id'', dget ''source_id'' data)]"
          by (simp add: compact_locator_def json_size_def dhas_def dget_def map_of_fields)
        moreover have "short_scalar (dget ''source_id'' data)" using True by simp
        ultimately show ?thesis using assms(1) data by (simp add: result_small_def)
      next
        case False': False
        with l 2 False have "l = []"
          by (simp add: compact_locator_def json_size_def dhas_def map_of_fields)
        then show ?thesis by simp code_simp
      qed
    qed
  qed
qed

definition stored_record :: "pydict \<Rightarrow> bool" where
  "stored_record r = (\<exists>n request result. n \<le> max_requests \<and> request_small request \<and> result_small result
     \<and> (r = full_record (''evidence-'' @ nat_str n) request result
        \<or> r = omitted_record (''evidence-'' @ nat_str n) request result))"

lemma evidence_id_size: "n \<le> max_requests \<Longrightarrow> length (json_quote (''evidence-'' @ nat_str n)) = 12"
proof -
  assume "n \<le> max_requests"
  then have "n \<in> set [0..<9]" by (simp add: max_requests_def)
  moreover have "list_all (\<lambda>n. length (json_quote (''evidence-'' @ nat_str n)) = 12) [0..<9]" by code_simp
  ultimately show ?thesis by (simp only: list_all_iff)
qed

lemma text_two_level:
  "length (json_compact (PDict [(''evidence_id'', PStr e), (''request'', q),
      (''result'', PDict [(''status'', PStr s), (''data'', d), (''detail'', PStr t)])]))
    = length (json_quote e) + length (json_compact q) + length (json_quote s) + length (json_compact d)
      + length (json_quote t) + 66"
  by (simp add: json_compact_def json_text_dict order_items_def compact_sorted_def json_quote_def json_escape_char_def)

lemma record_lookup:
  "dget ''evidence_id'' (full_record e q d) = PStr e" "sub_dict ''request'' (full_record e q d) = q"
  "sub_dict ''result'' (full_record e q d) = d"
  "dget ''status'' (sub_dict ''result'' (omitted_record e q d)) = PStr ''omitted''"
  by (simp_all add: full_record_def omitted_record_def dget_def sub_dict_def)

lemma fixed_sizes:
  "length (json_quote ''not_in_context'') = 16" "length (json_quote ''omitted'') = 9"
  "length (json_quote not_supplied) = 100" "length (json_quote omitted_detail) = 93" "length (json_compact PNone) = 4"
  by code_simp+

lemma opt_dict_small: "(\<And>l. x = Some l \<Longrightarrow> json_size l \<le> 200) \<Longrightarrow> length (json_compact (opt_dict x)) \<le> 200"
  by (cases x) (simp_all add: opt_dict_def json_size_def fixed_sizes)

lemma manifest_small:
  assumes "stored_record r"
  shows "length (json_compact (PDict (manifest_of r))) \<le> 574"
proof -
  from assms obtain n request result where n: "n \<le> max_requests" and q: "request_small request" and d: "result_small result"
    and r: "r = full_record (''evidence-'' @ nat_str n) request result \<or> r = omitted_record (''evidence-'' @ nat_str n) request result"
    by (auto simp: stored_record_def)
  have loc: "length (json_compact (opt_dict (locator result))) \<le> 200"
    by (rule opt_dict_small) (rule locator_small [OF d])
  from r show ?thesis
  proof
    assume r: "r = omitted_record (''evidence-'' @ nat_str n) request result"
    then have "manifest_of r = r" by (simp add: manifest_of_def record_lookup)
    with r q loc evidence_id_size [OF n] show ?thesis
      by (simp add: omitted_record_def text_two_level fixed_sizes request_small_def json_size_def)
  next
    assume r: "r = full_record (''evidence-'' @ nat_str n) request result"
    let ?shown = "if 180 < json_size request then [(''tool'', dget ''tool'' request)] else request"
    have "\<not> 200 < json_size l" if "locator result = Some l" for l
      using locator_small [OF d that] by simp
    then have "manifest_of r = [(''evidence_id'', PStr (''evidence-'' @ nat_str n)), (''request'', PDict ?shown),
      (''result'', PDict [(''status'', PStr ''not_in_context''), (''data'', opt_dict (locator result)), (''detail'', PStr not_supplied)])]"
      using d unfolding r manifest_of_def record_lookup
      by (auto simp: Let_def result_small_def json_size_def split: option.splits)
    moreover have "length (json_compact (PDict ?shown)) \<le> 180"
      using q by (simp add: request_small_def json_size_def)
    ultimately show ?thesis using loc evidence_id_size [OF n] by (simp add: text_two_level fixed_sizes)
  qed
qed

lemma records_text_size: "length (records_text rs) \<le> 2 + sum_list (map (\<lambda>r. Suc (length (json_compact (PDict r)))) rs)"
proof -
  have "length (join '','' ts) \<le> sum_list (map (\<lambda>t. Suc (length t)) ts)" for ts :: "string list"
    by (induction ts rule: induct_list012) auto
  from this [of "map (\<lambda>r. json_compact (PDict r)) rs"] show ?thesis
    by (simp add: records_text_def json_compact_def compact_sorted_def comp_def)
qed

lemma manifests_fit:
  assumes "\<forall>r \<in> set rs. length (json_compact (PDict (manifest_of r))) \<le> 574" and "length rs \<le> max_requests"
  shows "length (records_text (map manifest_of rs)) \<le> 4602"
proof -
  have "sum_list (map (\<lambda>r. Suc (length (json_compact (PDict r)))) (map manifest_of rs)) \<le> 575 * length rs"
    using assms(1) by (induction rs) auto
  with assms(2) records_text_size [of "map manifest_of rs"] show ?thesis by (simp add: max_requests_def)
qed

section \<open>Selection\<close>

definition shown_record :: "pydict \<Rightarrow> pydict \<Rightarrow> bool" where
  \<comment> \<open>what a prompt holds for a record: its manifest, or the record less what was already shown\<close>
  "shown_record r x = (x = manifest_of r \<or> (\<exists>seen. deduplicate_discovery r seen = Inr x))"

lemma select_loop_shown:
  assumes "select_loop w is (records, selected, seen) = Inr (records', selected', seen')"
    and "list_all2 shown_record (map en_record (ew_entries w)) records"
    and "length (records_text records) \<le> ew_max_context_chars w \<or> records = map (\<lambda>e. manifest_of (en_record e)) (ew_entries w)"
  shows "list_all2 shown_record (map en_record (ew_entries w)) records'
    \<and> (length (records_text records') \<le> ew_max_context_chars w \<or> records' = map (\<lambda>e. manifest_of (en_record e)) (ew_entries w))"
  using assms
proof (induction "is" arbitrary: records selected seen)
  case Nil
  then show ?case by simp
next
  case (Cons i "is")
  let ?all = "map en_record (ew_entries w)"
  from Cons.prems(1) obtain x where x: "deduplicate_discovery (en_record (ew_entries w ! i)) seen = Inr x"
    by (auto simp: rbind_def split: sum.splits)
  have put: "list_all2 shown_record ?all (records[i := x])"
  proof (cases "i < length records")
    case True
    with Cons.prems(2) x have "shown_record (?all ! i) x" by (auto simp: shown_record_def dest: list_all2_lengthD)
    from list_all2_update_cong [OF Cons.prems(2) this, of i] show ?thesis by simp
  next
    case False
    with Cons.prems(2) show ?thesis by (simp add: list_update_beyond)
  qed
  show ?case
  proof (cases "length (records_text (records[i := x])) \<le> ew_max_context_chars w")
    case True
    with Cons.prems(1) x obtain ks where
      "select_loop w is (records[i := x], i # selected, seen @ ks) = Inr (records', selected', seen')"
      by (auto simp: rbind_def split: sum.splits)
    from Cons.IH [OF this put] True show ?thesis by blast
  next
    case False
    with Cons.prems(1) x have "select_loop w is (records, selected, seen) = Inr (records', selected', seen')"
      by (simp add: rbind_def)
    from Cons.IH [OF this Cons.prems(2,3)] show ?thesis .
  qed
qed

lemma select_shown:
  assumes "select w = Inr (w', evidence, sources)"
  shows "list_all2 shown_record (map en_record (ew_entries w)) evidence"
    and "length (records_text evidence) \<le> ew_max_context_chars w \<or> evidence = map manifest_of (map en_record (ew_entries w))"
proof -
  let ?m = "map (\<lambda>e. manifest_of (en_record e)) (ew_entries w)"
  from assms obtain sel seen where s: "select_loop w (selection_order (ew_entries w)) (?m, [], []) = Inr (evidence, sel, seen)"
    by (auto simp: select_def Let_def rbind_def split: sum.splits)
  have "list_all2 shown_record (map en_record (ew_entries w)) ?m"
    by (simp add: list_all2_conv_all_nth shown_record_def)
  from select_loop_shown [OF s this] show "list_all2 shown_record (map en_record (ew_entries w)) evidence"
    and "length (records_text evidence) \<le> ew_max_context_chars w \<or> evidence = map manifest_of (map en_record (ew_entries w))"
    by (simp_all add: comp_def)
qed

section \<open>The workspace of a run\<close>

definition kept_record :: "nat \<Rightarrow> pydict \<Rightarrow> bool" where
  \<comment> \<open>a stored record prints within the limit of one result, or says that the result was left out\<close>
  "kept_record n r = (length (json_compact (PDict r)) \<le> n \<or> (\<exists>e request result. r = omitted_record e request result))"

definition workspace_ok :: "nat \<times> nat \<Rightarrow> workspace \<Rightarrow> bool" where
  "workspace_ok limits w = (list_all (\<lambda>e. kept_record (fst limits) (en_record e)) (ew_entries w)
     \<and> length (ew_entries w) \<le> length (ew_requests w) \<and> length (ew_requests w) \<le> max_requests
     \<and> ew_max_requests w = max_requests \<and> ew_max_result_chars w = fst limits \<and> ew_max_context_chars w = snd limits)"

lemma kept_update:
  assumes "list_all (\<lambda>e. kept_record c (en_record e)) es" and "\<And>e. en_record (f e) = en_record e"
  shows "list_all (\<lambda>e. kept_record c (en_record e)) (es[i := f (es ! i)])"
proof (cases "i < length es")
  case True
  with assms(1) have "kept_record c (en_record (es ! i))" by (simp add: list_all_length)
  with assms show ?thesis by (auto simp: list_all_iff dest!: set_update_subset_insert [THEN subsetD])
next
  case False
  with assms(1) show ?thesis by (simp add: list_update_beyond)
qed

lemma touch_ok:
  assumes "workspace_ok c w" and "\<And>e. en_record (f e) = en_record e"
  shows "workspace_ok c (touch i f w)"
proof -
  have "list_all (\<lambda>e. kept_record (fst c) (en_record e)) ((ew_entries w)[i := f ((ew_entries w ! i)\<lparr>en_touched := Suc (ew_clock w)\<rparr>)])"
    using assms by (intro kept_update [where f = "\<lambda>e. f (e\<lparr>en_touched := Suc (ew_clock w)\<rparr>)"]) (simp_all add: workspace_ok_def)
  with assms(1) show ?thesis by (simp add: workspace_ok_def touch_def Let_def)
qed

lemma activate_ok: "workspace_ok c w \<Longrightarrow> activate r w = (w', b) \<Longrightarrow> workspace_ok c w'"
  by (auto simp: activate_def intro: touch_ok split: option.splits)

lemma length_dput_new: "map_of d k = None \<Longrightarrow> length (dput k v d) = Suc (length d)"
  by (induction d) (auto split: if_splits)

lemma add_ok:
  assumes "workspace_ok c w" and "add_evidence digest r d w = Inr w'"
  shows "workspace_ok c w'"
proof -
  obtain w0 b where a: "activate r w = (w0, b)" by (cases "activate r w")
  show ?thesis
  proof (cases b)
    case True
    with assms(2) a activate_ok [OF assms(1) a] show ?thesis by (simp add: add_evidence_def)
  next
    case False
    then have new: "map_of (ew_requests w) (request_key r) = None"
      using a by (auto simp: activate_def split: option.splits)
    from assms(2) a False have room: "length (ew_requests w) < max_requests"
      using assms(1) by (auto simp: add_evidence_def workspace_ok_def Let_def split: if_splits)
    have size: "ew_max_result_chars w = fst c" using assms(1) by (simp add: workspace_ok_def)
    have omitted: "kept_record n (omitted_record e r d)" for n e by (auto simp: kept_record_def)
    have complete: "\<not> n < length (json_compact (PDict x)) \<Longrightarrow> kept_record n x" for n x by (simp add: kept_record_def)
    have ident: "workspace_ok c (touch i (\<lambda>e. e) (w\<lparr>ew_requests := dput (request_key r) i (ew_requests w)\<rparr>))" for i
      by (rule touch_ok) (use assms(1) room new in \<open>auto simp: workspace_ok_def length_dput_new\<close>)
    from assms(1,2) a False new room omitted complete ident show ?thesis
      by (auto simp: add_evidence_def workspace_ok_def Let_def res_simps length_dput_new size
          split: if_splits option.splits sum.splits)
  qed
qed

lemma select_ok:
  assumes "workspace_ok c w" and "select w = Inr (w', evidence, sources)"
  shows "workspace_ok c w'"
  using assms by (auto simp: select_def Let_def rbind_def workspace_ok_def list_all_iff split: sum.splits)

section \<open>The prompts of a run\<close>

definition fitting_prompt :: "nat \<times> nat \<Rightarrow> string \<Rightarrow> string \<Rightarrow> bool" where
  \<comment> \<open>what is shown of the stored records fits, or it is the bare manifests and one of them is too large\<close>
  "fitting_prompt limits input p = (\<exists>records evidence. p = evidence_prompt input evidence
     \<and> length records \<le> max_requests \<and> list_all (kept_record (fst limits)) records
     \<and> list_all2 shown_record records evidence
     \<and> (length (records_text evidence) \<le> snd limits
        \<or> evidence = map manifest_of records \<and> (\<exists>r \<in> set records. 574 < length (json_compact (PDict (manifest_of r))))))"

lemma select_fits:
  assumes "workspace_ok limits w" and "4602 \<le> snd limits" and "select w = Inr (w', evidence, sources)"
  shows "fitting_prompt limits input (evidence_prompt input evidence)"
proof -
  let ?rs = "map en_record (ew_entries w)"
  have few: "length ?rs \<le> max_requests" and kept: "list_all (kept_record (fst limits)) ?rs"
    and c: "ew_max_context_chars w = snd limits"
    using assms(1) by (auto simp: workspace_ok_def list_all_iff)
  have "\<exists>r \<in> set ?rs. 574 < length (json_compact (PDict (manifest_of r)))"
    if "\<not> length (records_text (map manifest_of ?rs)) \<le> snd limits"
    using manifests_fit [OF _ few] assms(2) that by (meson linorder_not_le order_trans)
  with select_shown [OF assms(3)] few kept c show ?thesis unfolding fitting_prompt_def by metis
qed

definition budget_inv :: "nat \<times> nat \<Rightarrow> string \<Rightarrow> 's loop \<Rightarrow> bool" where
  "budget_inv c input l = (workspace_ok c (lp_workspace l) \<and> (\<forall>p \<in> set (prompts l). fitting_prompt c input p))"

lemma budget_update [simp]:
  "budget_inv c b (l\<lparr>lp_env := s\<rparr>) = budget_inv c b l" "budget_inv c b (l\<lparr>lp_model_ms := x\<rparr>) = budget_inv c b l"
  "budget_inv c b (l\<lparr>lp_tool_ms := x, lp_calls := k\<rparr>) = budget_inv c b l"
  "budget_inv c b (l\<lparr>lp_rounds := k, lp_requests_used := j\<rparr>) = budget_inv c b l"
  "budget_inv c b (l\<lparr>lp_final_only := f\<rparr>) = budget_inv c b l"
  "budget_inv c b (l\<lparr>lp_diagnostics := ds\<rparr>) = budget_inv c b l"
  "budget_inv c b (l\<lparr>lp_diagnostics := ds, lp_final_only := f\<rparr>) = budget_inv c b l"
  by (simp_all add: budget_inv_def prompts_def)

lemma budget_log:
  "budget_inv c b l \<Longrightarrow> (case e of Responded p \<Rightarrow> fitting_prompt c b p | _ \<Rightarrow> True) \<Longrightarrow> budget_inv c b (l\<lparr>lp_log := lp_log l @ [e]\<rparr>)"
  by (cases e) (auto simp: budget_inv_def prompts_def)

definition budgeted :: "nat \<times> nat \<Rightarrow> string \<Rightarrow> ('s, 'a) act \<Rightarrow> bool" where
  "budgeted c b m = ensures (budget_inv c b) m (\<lambda>_. budget_inv c b) (budget_inv c b)"

named_theorems budgeted_intros \<open>steps that keep the budget\<close>

lemma budgeted_abind [budgeted_intros]: "budgeted c b m \<Longrightarrow> (\<And>x. budgeted c b (f x)) \<Longrightarrow> budgeted c b (abind m f)"
  unfolding budgeted_def by (rule ensures_abind)

lemma budgeted_acall [budgeted_intros]: "budgeted c b (acall f)"
  unfolding budgeted_def by (rule ensures_acall) simp_all

lemma budgeted_areturn [budgeted_intros]: "budgeted c b (areturn r)"
  unfolding budgeted_def by (rule ensures_areturn) simp_all

lemma budgeted_amodify: "(\<And>l. budget_inv c b l \<Longrightarrow> budget_inv c b (f l)) \<Longrightarrow> budgeted c b (amodify f)"
  unfolding budgeted_def by (rule ensures_amodify)

lemma budgeted_steps [budgeted_intros]:
  "budgeted c b (aclock env)" "budgeted c b (aremaining env)" "budgeted c b (alog (Executed r))" "budgeted c b (alog (BatchAccepted rs))"
  "budgeted c b (amodify (\<lambda>l. l\<lparr>lp_model_ms := h l\<rparr>))" "budgeted c b (amodify (\<lambda>l. l\<lparr>lp_tool_ms := h l, lp_calls := k l\<rparr>))"
  "budgeted c b (amodify (\<lambda>l. l\<lparr>lp_rounds := m l, lp_requests_used := n l\<rparr>))"
  "budgeted c b (amodify (\<lambda>l. l\<lparr>lp_final_only := q l\<rparr>))"
  unfolding aclock_def aremaining_def alog_def by (intro budgeted_acall budgeted_amodify; simp add: budget_log)+

lemma budgeted_store [budgeted_intros]: "budgeted c b (store_result env r d)"
  using add_ok by (fastforce simp: budgeted_def ensures_def store_result_def budget_inv_def prompts_def split: sum.splits)

lemma budgeted_fetch: "budgeted c b (fetch env r)"
  unfolding fetch_def by (intro budgeted_intros)

lemma budgeted_execute_request [budgeted_intros]: "budgeted c b (execute_request env r)"
  unfolding execute_request_def
proof (rule budgeted_abind [OF budgeted_steps(2)])
  show "budgeted c b (\<lambda>l. case activate r (lp_workspace l) of (w, active) \<Rightarrow>
       if active then (l\<lparr>lp_workspace := w\<rparr>, Inr ()) else fetch env r l)"
    unfolding budgeted_def ensures_def
  proof (intro allI impI, goal_cases)
    case (1 l)
    obtain w a where a: "activate r (lp_workspace l) = (w, a)" by (cases "activate r (lp_workspace l)")
    from 1 activate_ok [OF _ a, of c] have "budget_inv c b (l\<lparr>lp_workspace := w\<rparr>)"
      by (simp add: budget_inv_def prompts_def)
    with 1 a budgeted_fetch [of c b env r] show ?case by (simp add: budgeted_def ensures_def)
  qed
qed

lemma budgeted_execute_batch [budgeted_intros]: "budgeted c b (execute_batch env rs)"
  by (induction rs) (auto intro!: budgeted_intros)

lemma budgeted_validate_batch [budgeted_intros]: "budgeted c b (validate_batch env names rs)"
  by (induction rs) (auto intro!: budgeted_intros)

lemma budgeted_gather: "budgeted c b (gather env names sources rs)"
proof -
  have "budgeted c b (run_batch env names rs)" unfolding run_batch_def by (intro budgeted_intros)
  then show ?thesis by (auto simp: budgeted_def ensures_def gather_def answer_now_def)
qed

lemma budgeted_answer: "budgeted c b (answer_now text sources)"
  by (simp add: budgeted_def ensures_def answer_now_def)

lemma budgeted_respond: "fitting_prompt c b p \<Longrightarrow> budgeted c b (respond env i p)"
proof -
  assume "fitting_prompt c b p"
  then have "budgeted c b (alog (Responded p))" unfolding alog_def by (intro budgeted_amodify) (simp add: budget_log)
  then show ?thesis unfolding respond_def by (intro budgeted_intros)
qed

lemma budgeted_take_turn:
  assumes "4602 \<le> snd c"
  shows "budgeted c input (take_turn env contract input names)"
  unfolding take_turn_def
proof (rule budgeted_abind [OF budgeted_steps(2)])
  have turn: "budgeted c input (case t of Answer a \<Rightarrow> answer_now a sources | Requests rs \<Rightarrow> gather env names sources rs)"
    for t sources by (cases t) (simp_all add: budgeted_answer budgeted_gather)
  show "budgeted c input (\<lambda>l. case select (lp_workspace l) of
       Inl e \<Rightarrow> (l, Inl e)
     | Inr (w, evidence, sources) \<Rightarrow>
         abind (respond env (contract @ (if lp_final_only l then ee_final_contract env else [])) (evidence_prompt input evidence))
           (\<lambda>response. abind (aremaining env) (\<lambda>_.
            abind (areturn (parse_turn (ee_recursion_limit env) response)) (\<lambda>t. case t of
              Answer a \<Rightarrow> answer_now a sources
            | Requests rs \<Rightarrow> gather env names sources rs))) (l\<lparr>lp_workspace := w\<rparr>))"
    unfolding budgeted_def ensures_def
  proof (intro allI impI, goal_cases)
    case (1 l)
    show ?case
    proof (cases "select (lp_workspace l)")
      case (Inl e)
      with 1 show ?thesis by simp
    next
      case (Inr x)
      obtain w evidence sources where x: "x = (w, evidence, sources)" by (cases x)
      from 1 have ok: "workspace_ok c (lp_workspace l)" by (simp add: budget_inv_def)
      from select_ok [OF ok] Inr x 1 have w: "budget_inv c input (l\<lparr>lp_workspace := w\<rparr>)"
        by (simp add: budget_inv_def prompts_def)
      from select_fits [OF ok assms] Inr x have "fitting_prompt c input (evidence_prompt input evidence)" by simp
      then have "budgeted c input (abind (respond env (contract @ (if lp_final_only l then ee_final_contract env else []))
          (evidence_prompt input evidence)) (\<lambda>response. abind (aremaining env) (\<lambda>_.
            abind (areturn (parse_turn (ee_recursion_limit env) response)) (\<lambda>t. case t of
              Answer a \<Rightarrow> answer_now a sources
            | Requests rs \<Rightarrow> gather env names sources rs))))"
        by (intro budgeted_abind budgeted_respond budgeted_steps(2) budgeted_areturn turn)
      from this [unfolded budgeted_def ensures_def, rule_format, OF w] Inr x show ?thesis by simp
    qed
  qed
qed

lemma run_loop_budget:
  assumes "4602 \<le> snd c"
  shows "budget_inv c input l \<Longrightarrow> run_loop env contract input names l = (l', r) \<Longrightarrow> budget_inv c input l'"
proof (induction env contract input names l arbitrary: l' r rule: run_loop.induct)
  case (1 env contract input names l)
  obtain l1 x where t: "take_turn env contract input names l = (l1, x)" by (cases "take_turn env contract input names l")
  with budgeted_take_turn [OF assms, of input env contract names] "1.prems"(1) have i: "budget_inv c input l1"
    by (auto simp: budgeted_def ensures_def split: sum.splits)
  show ?case
  proof (cases "x = Inr None")
    case True
    with t "1.prems"(2) have r: "run_loop env contract input names l1 = (l', r)"
      by (simp add: run_loop.simps [of env contract input names l])
    show ?thesis by (rule "1.IH" [OF t [symmetric] True refl i r])
  next
    case False
    with t i "1.prems"(2) show ?thesis
      by (auto simp: run_loop.simps [of env contract input names l] split: sum.splits option.splits)
  qed
qed

section \<open>The budget of a run\<close>



section \<open>Manifests that do not fit\<close>

text \<open>
  The exception is real: the smallest configured budget is 5400 characters, and eight results whose
  source handle is 160 characters that JSON escapes have manifests of more than that.
\<close>
definition escaped_record :: "nat \<Rightarrow> pydict" where
  "escaped_record n = full_record (''evidence-'' @ nat_str n)
     [(''tool'', PStr ''knowledge.read''), (''arguments'', PDict [(''start'', PInt (int n))])]
     [(''status'', PStr ''available''), (''data'', PDict [(''source_id'', PStr (replicate 160 (CHR 0x1B)))])]"

lemma records_text_lower: "sum_list (map (\<lambda>r. length (json_compact (PDict r))) rs) \<le> length (records_text rs)"
proof -
  have "sum_list (map length ts) \<le> length (join '','' ts)" for ts :: "string list"
    by (induction ts rule: induct_list012) auto
  from this [of "map (\<lambda>r. json_compact (PDict r)) rs"] show ?thesis
    by (simp add: records_text_def json_compact_def compact_sorted_def comp_def)
qed

lemma escaped_sizes:
  "list_all (\<lambda>n. length (json_compact (PDict (escaped_record n))) \<le> 3000 \<and> 680 < length (json_compact (PDict (manifest_of (escaped_record n))))) [1..<9]"
  by code_simp

lemma manifests_exceed_budget:
  "loop_init (PInt 3000) (PInt 5400) = Inr (3000, 5400) \<and> list_all (kept_record 3000) (map escaped_record [1..<9])
     \<and> length [1..<9] = max_requests \<and> 5400 < length (records_text (map manifest_of (map escaped_record [1..<9])))"
proof -
  have "list_all (kept_record 3000) (map escaped_record [1..<9])"
    using escaped_sizes by (auto simp: list_all_iff kept_record_def)
  moreover have "680 * length ns \<le> sum_list (map (\<lambda>n. length (json_compact (PDict (manifest_of (escaped_record n))))) ns)"
    if "list_all (\<lambda>n. 680 < length (json_compact (PDict (manifest_of (escaped_record n))))) ns" for ns
    using that by (induction ns) auto
  from this [of "[1..<9]"] escaped_sizes records_text_lower [of "map manifest_of (map escaped_record [1..<9])"]
  have "5400 < length (records_text (map manifest_of (map escaped_record [1..<9])))"
    by (simp add: list_all_iff comp_def)
  ultimately show ?thesis by (simp add: loop_init_def max_requests_def)
qed

end
