(* ===== verification/Copilot.thy ===== *)
theory Copilot
  imports ContextBuffer Question Regex Json
begin

text \<open>
  The question engine of \<open>engine.py\<close>: the bounded dialogue memory, and the shared state of \<open>Copilot\<close>
  with the operations that threads perform on it.  Each critical section, and each step of \<open>ask\<close>
  between two blocking calls, is one function.  A question is identified by the position of its control
  in \<open>cp_asks\<close>, which also holds what its two threads share.  What the worker computes (\<open>_answer\<close>) and
  what \<open>publish\<close> returns are arguments; timings are left out, and starting a thread does not fail.
\<close>

section \<open>Dialogue memory\<close>

record dialogue_turn =
  dt_question :: string
  dt_answer :: string
  dt_sources :: "(string \<times> pyval) list list"

record dialogue =
  dm_max_characters :: nat
  dm_max_turns :: nat
  dm_turns :: "(string, dialogue_turn list) dict"

definition max_dialogue_characters :: nat where "max_dialogue_characters = 256"
definition max_dialogue_turns :: nat where "max_dialogue_turns = 4"

definition empty_dialogue :: dialogue where
  "empty_dialogue = \<lparr>dm_max_characters = max_dialogue_characters, dm_max_turns = max_dialogue_turns, dm_turns = []\<rparr>"

definition copilot_key :: "string \<Rightarrow> string" where
  "copilot_key character = casefold (strip character)"

definition word_char :: "char \<Rightarrow> bool" where
  \<comment> \<open>\<open>\\w\<close> below U+0100\<close>
  "word_char c = (let n = ord c in 48 \<le> n \<and> n \<le> 57 \<or> 65 \<le> n \<and> n \<le> 90 \<or> n = 95 \<or> 97 \<le> n \<and> n \<le> 122
     \<or> n \<in> {170, 178, 179, 181, 185, 186, 188, 189, 190} \<or> 192 \<le> n \<and> n \<noteq> 215 \<and> n \<noteq> 247)"

definition word_boundary :: "string \<Rightarrow> string \<Rightarrow> bool" where
  \<comment> \<open>\<open>\\b\<close> between the text past (reversed) and the text after\<close>
  "word_boundary past after =
     ((case past of [] \<Rightarrow> False | c # _ \<Rightarrow> word_char c) \<noteq> (case after of [] \<Rightarrow> False | c # _ \<Rightarrow> word_char c))"

definition ends_at_boundary :: "rx \<Rightarrow> string \<Rightarrow> string \<Rightarrow> bool" where
  \<comment> \<open>the pattern followed by \<open>\\b\<close> matches at the front of \<open>s\<close>\<close>
  "ends_at_boundary r past s = list_ex (\<lambda>(_, rest).
     word_boundary (rev (take (length s - length rest) s) @ past) rest) (rmatch True r ([], s))"

fun search_bounded :: "rx \<Rightarrow> string \<Rightarrow> string \<Rightarrow> bool" where
  \<comment> \<open>\<open>\\b...\\b\<close> matches somewhere\<close>
  "search_bounded r past [] = False"
| "search_bounded r past (c # s) =
     (word_boundary past (c # s) \<and> ends_at_boundary r past (c # s) \<or> search_bounded r (c # past) s)"

definition spaces :: rx where
  "spaces = plus space_cls"

definition follow_up_start :: rx where
  "follow_up_start = alts [seq [opt (seq [lit ''i'', spaces]), lit ''mean''], lit ''why'',
     seq [lit ''how'', spaces, words [''about'', ''long'', ''much'']], seq [lit ''what'', spaces, lit ''about''],
     words [''and'', ''it'', ''that'', ''this'']]"

definition follow_up_reference :: rx where
  "follow_up_reference = alts [words [''it'', ''that'', ''those''],
     seq [lit ''the'', spaces, words [''first'', ''second'', ''third''], spaces, lit ''option'']]"

definition follow_up :: "string \<Rightarrow> bool" where
  \<comment> \<open>\<open>_FOLLOW_UP.search\<close>\<close>
  "follow_up s = (ends_at_boundary follow_up_start [] s \<or> search_bounded follow_up_reference [] s)"

definition dialogue_history :: "string \<Rightarrow> dialogue \<Rightarrow> dialogue_turn list" where
  "dialogue_history character m = (case map_of (dm_turns m) (copilot_key character) of None \<Rightarrow> [] | Some ts \<Rightarrow> ts)"

definition prior_question :: "string \<Rightarrow> string \<Rightarrow> dialogue \<Rightarrow> string option" where
  "prior_question character question m = (let ts = dialogue_history character m in
     if ts = [] \<or> \<not> follow_up (strip question) then None else Some (dt_question (last ts)))"

definition brief_source :: "(string \<times> pyval) list \<Rightarrow> (string \<times> pyval) list" where
  "brief_source source = map (\<lambda>(k, v). (k, case v of PStr s \<Rightarrow> PStr (take 300 s) | _ \<Rightarrow> v))
     (filter (\<lambda>(k, v). k \<in> {''title'', ''source'', ''url'', ''revision_id''}) source)"

definition record_turn :: "string \<Rightarrow> string \<Rightarrow> string \<Rightarrow> (string \<times> pyval) list list \<Rightarrow> dialogue \<Rightarrow> dialogue" where
  "record_turn character question answer sources m =
     (let key = copilot_key character;
          t = \<lparr>dt_question = take 1000 question, dt_answer = take 2000 answer, dt_sources = map brief_source (take 3 sources)\<rparr>;
          kept = ddel key (dm_turns m) @ [(key, deque_push (dm_max_turns m) t (dialogue_history character m))]
      in m\<lparr>dm_turns := drop (length kept - dm_max_characters m) kept\<rparr>)"

definition forget_dialogue :: "string \<Rightarrow> dialogue \<Rightarrow> dialogue \<times> bool" where
  "forget_dialogue character m = (let key = copilot_key character in
     (m\<lparr>dm_turns := ddel key (dm_turns m)\<rparr>, map_of (dm_turns m) key \<noteq> None))"

definition dialogue_summary :: "string \<Rightarrow> dialogue \<Rightarrow> nat \<times> bool" where
  "dialogue_summary character m = (let n = length (dialogue_history character m) in (n, 0 < n))"

section \<open>The engine\<close>

record answer_sources =
  as_sources :: "(string \<times> pyval) list list"
  as_diagnostics :: "(string \<times> pyval) list list"

datatype ask_phase = Waiting | Deciding | Committing | Concluded

record 'cb ask_state =
  ak_request :: ask_request
  ak_control :: "'cb question_control"
  ak_result :: "(answer \<times> answer_sources) result option" \<comment> \<open>set when the worker has finished\<close>
  ak_returned :: bool \<comment> \<open>the worker thread is over\<close>
  ak_phase :: ask_phase \<comment> \<open>of the thread that called \<open>ask\<close>\<close>

record 'cb copilot =
  cp_context :: context_buffer
  cp_dialogue :: dialogue
  cp_answer_sources :: "(string, answer_sources) dict"
  cp_max_concurrent :: nat
  cp_question_timeout :: rat
  cp_inflight :: "(string, nat) dict"
  cp_generations :: "(string, string) dict"
  cp_asks :: "'cb ask_state list"

type_synonym ('cb, 'a) cp_op = "'cb copilot \<times> 'a result"

definition copilot_init :: "context_buffer \<Rightarrow> int \<Rightarrow> rat \<Rightarrow> 'cb copilot result" where
  "copilot_init cx concurrent timeout =
     (if concurrent < 1 then Inl (ValueError ''question concurrency must be positive'')
      else if \<not> (0 < timeout \<and> timeout \<le> 600) then Inl (ValueError ''question timeout must be between 0 and 600 seconds'')
      else Inr \<lparr>cp_context = cx, cp_dialogue = empty_dialogue, cp_answer_sources = [], cp_max_concurrent = nat concurrent,
        cp_question_timeout = timeout, cp_inflight = [], cp_generations = [], cp_asks = []\<rparr>)"

definition ask_key :: "'cb ask_state \<Rightarrow> string" where
  "ask_key a = copilot_key (aq_character (ak_request a))"

definition set_ask :: "nat \<Rightarrow> ('cb ask_state \<Rightarrow> 'cb ask_state) \<Rightarrow> 'cb copilot \<Rightarrow> 'cb copilot" where
  "set_ask i f c = c\<lparr>cp_asks := (cp_asks c)[i := f (cp_asks c ! i)]\<rparr>"

definition release_question :: "string \<Rightarrow> nat \<Rightarrow> 'cb copilot \<Rightarrow> 'cb copilot" where
  "release_question key i c =
     (if map_of (cp_inflight c) key = Some i then c\<lparr>cp_inflight := ddel key (cp_inflight c)\<rparr> else c)"

definition ask_admit :: "ask_request \<Rightarrow> rat \<Rightarrow> 'cb copilot \<Rightarrow> ('cb, nat \<times> dialogue_turn list \<times> string option) cp_op" where
  \<comment> \<open>the admission of \<open>ask\<close>: the new question, its history and the question it follows up\<close>
  "ask_admit q now c =
     (let key = copilot_key (aq_character q) in
      if aq_expected_generation q \<noteq> None \<and> map_of (cp_generations c) key \<noteq> aq_expected_generation q
      then (c, Inl (QuestionInvalidated ''the requested character session is no longer current''))
      else if map_of (cp_inflight c) key \<noteq> None
      then (c, Inl (QuestionBusy ''a question is already running for this character''))
      else if cp_max_concurrent c \<le> length (cp_inflight c)
      then (c, Inl (QuestionCapacity ''all question slots are busy; retry after an answer completes''))
      else (let i = length (cp_asks c) in
        (c\<lparr>cp_inflight := dput key i (cp_inflight c),
           cp_asks := cp_asks c @ [\<lparr>ak_request = q, ak_control = new_control (cp_question_timeout c) now,
             ak_result = None, ak_returned = False, ak_phase = Waiting\<rparr>]\<rparr>,
         Inr (i, dialogue_history (aq_character q) (cp_dialogue c), prior_question (aq_character q) (aq_question q) (cp_dialogue c)))))"

definition worker_finish :: "nat \<Rightarrow> (answer \<times> answer_sources) result \<Rightarrow> 'cb copilot \<Rightarrow> 'cb copilot" where
  \<comment> \<open>\<open>work\<close> has its result or exception, and both events are set\<close>
  "worker_finish i r = set_ask i (\<lambda>a. a\<lparr>ak_result := Some r, ak_control := (ak_control a)\<lparr>qc_changed := True\<rparr>\<rparr>)"

definition worker_return :: "nat \<Rightarrow> 'cb copilot \<Rightarrow> 'cb copilot" where
  \<comment> \<open>the end of \<open>work\<close>: a cancelled question gives its slot back\<close>
  "worker_return i c =
     (let a = cp_asks c ! i; c1 = set_ask i (\<lambda>a. a\<lparr>ak_returned := True\<rparr>) c
      in if qc_cancelled (ak_control a) then release_question (ask_key a) i c1 else c1)"

definition conclude :: "nat \<Rightarrow> 'cb copilot \<Rightarrow> 'cb copilot" where
  \<comment> \<open>the \<open>finally\<close> of \<open>ask\<close>\<close>
  "conclude i c =
     (let a = cp_asks c ! i; c1 = set_ask i (\<lambda>a. a\<lparr>ak_phase := Concluded\<rparr>) c
      in if ak_result a \<noteq> None then release_question (ask_key a) i c1 else c1)"

definition check_remaining :: "nat \<Rightarrow> rat \<Rightarrow> 'cb copilot \<Rightarrow> ('cb, rat) cp_op" where
  "check_remaining i now c = (case remaining now (ak_control (cp_asks c ! i)) of
     (ctl, r) \<Rightarrow> (set_ask i (\<lambda>a. a\<lparr>ak_control := ctl\<rparr>) c, r))"

definition ask_wait :: "nat \<Rightarrow> rat \<Rightarrow> 'cb copilot \<Rightarrow> ('cb, unit) cp_op" where
  \<comment> \<open>\<open>control.changed.wait(timeout=control.remaining())\<close>, up to the wait\<close>
  "ask_wait i now c = (case check_remaining i now c of
      (c1, Inl e) \<Rightarrow> (conclude i c1, Inl e)
    | (c1, Inr _) \<Rightarrow> (set_ask i (\<lambda>a. a\<lparr>ak_phase := Deciding\<rparr>) c1, Inr ()))"

definition ask_decide :: "nat \<Rightarrow> rat \<Rightarrow> rat \<Rightarrow> 'cb copilot \<Rightarrow> ('cb, unit) cp_op" where
  \<comment> \<open>after the wait, up to the commit; a result that is an exception is raised\<close>
  "ask_decide i now now2 c = (case check_remaining i now c of
      (c1, Inl e) \<Rightarrow> (conclude i c1, Inl e)
    | (c1, Inr _) \<Rightarrow>
      (case ak_result (cp_asks c1 ! i) of
         None \<Rightarrow>
           (let c2 = set_ask i (\<lambda>a. a\<lparr>ak_control := cancel_question ''timeout'' (ak_control a)\<rparr>) c1 in
            case check_remaining i now2 c2 of
              (c3, Inl e) \<Rightarrow> (conclude i c3, Inl e)
            | (c3, Inr _) \<Rightarrow> (conclude i c3, Inl (KeyError ''result'')) \<comment> \<open>not reached: the control is cancelled\<close>)
       | Some (Inl e) \<Rightarrow> (conclude i c1, Inl e)
       | Some (Inr _) \<Rightarrow> (set_ask i (\<lambda>a. a\<lparr>ak_phase := Committing\<rparr>) c1, Inr ())))"

definition keep_latest :: "nat \<Rightarrow> 'a list \<Rightarrow> 'a list" where
  "keep_latest n xs = drop (length xs - n) xs"

definition ask_commit :: "nat \<Rightarrow> rat \<Rightarrow> 'cb copilot \<Rightarrow> ('cb, answer) cp_op" where
  \<comment> \<open>the last critical section of \<open>ask\<close> and its \<open>finally\<close>\<close>
  "ask_commit i now c = (case check_remaining i now c of
      (c1, Inl e) \<Rightarrow> (conclude i c1, Inl e)
    | (c1, Inr _) \<Rightarrow>
      (case ak_result (cp_asks c1 ! i) of
         Some (Inr (answer, sources)) \<Rightarrow>
           (let a = cp_asks c1 ! i; q = ak_request a; key = ask_key a in
            (conclude i (c1\<lparr>cp_dialogue := record_turn (aq_character q) (aq_question q) (an_text answer)
                               (as_sources sources) (cp_dialogue c1),
                            cp_answer_sources := keep_latest max_dialogue_characters
                               (ddel key (cp_answer_sources c1) @ [(key, sources)])\<rparr>),
             Inr answer))
       | _ \<Rightarrow> (conclude i c1, Inl (KeyError ''result'')) \<comment> \<open>not reached: only such a result is committed\<close>))"

record forget_reply =
  fr_character :: string
  fr_forgotten :: bool

definition forget :: "string \<Rightarrow> 'cb copilot \<Rightarrow> 'cb copilot \<times> forget_reply" where
  "forget character c =
     (let key = copilot_key character; pending = map_of (cp_inflight c) key;
          c1 = (case pending of None \<Rightarrow> c
            | Some i \<Rightarrow> set_ask i (\<lambda>a. a\<lparr>ak_control := cancel_question ''invalidated'' (ak_control a)\<rparr>) c);
          (m, had_dialogue) = forget_dialogue character (cp_dialogue c1);
          had_sources = (map_of (cp_answer_sources c1) key \<noteq> None)
      in (c1\<lparr>cp_dialogue := m, cp_answer_sources := ddel key (cp_answer_sources c1)\<rparr>,
          \<lparr>fr_character = character, fr_forgotten = (had_dialogue \<or> had_sources \<or> pending \<noteq> None)\<rparr>))"

definition admit_session :: "string \<Rightarrow> string \<Rightarrow> 'r result \<Rightarrow> 'cb copilot \<Rightarrow> ('cb, 'r) cp_op" where
  \<comment> \<open>\<open>Copilot.admit_generation\<close>; \<open>published\<close> is what the callback returns or raises\<close>
  "admit_session character generation published c = (case published of
      Inl e \<Rightarrow> (c, Inl e)
    | Inr r \<Rightarrow>
      (let key = copilot_key character; previous = map_of (cp_generations c) key in
       if previous = Some generation then (c, Inr r)
       else (let c1 = fst (forget character c);
                 c2 = (if previous = None then c1 else c1\<lparr>cp_context := context_clear character (cp_context c1)\<rparr>)
             in (c2\<lparr>cp_generations := dput key generation (cp_generations c2)\<rparr>, Inr r))))"

definition observe_events :: "observation list \<Rightarrow> 'cb copilot \<Rightarrow> 'cb copilot \<times> nat" where
  "observe_events os c = (case observe os (cp_context c) of (cx, n) \<Rightarrow> (c\<lparr>cp_context := cx\<rparr>, n))"

record context_view =
  cv_character :: string
  cv_dialogue_turns :: nat
  cv_follow_up_available :: bool
  cv_categories :: "string list"

definition context_summary :: "bool \<Rightarrow> bool \<Rightarrow> string \<Rightarrow> 'cb copilot \<Rightarrow> context_view" where
  \<comment> \<open>\<open>Copilot.context\<close>, with or without an assembler and a knowledge base\<close>
  "context_summary assembler knowledge character c =
     (case dialogue_summary character (cp_dialogue c) of (turns, available) \<Rightarrow>
       \<lparr>cv_character = character, cv_dialogue_turns = turns, cv_follow_up_available = available,
        cv_categories = ''recent_observations'' #
          (if assembler then [''live_state'', ''watcher_alerts'', ''durable_inventory'', ''character_build'', ''reference_knowledge'']
           else if knowledge then [''reference_knowledge''] else [])\<rparr>)"

section \<open>Prompt and provenance\<close>

record knowledge_excerpt =
  ke_authority :: string
  ke_title :: string
  ke_text :: string
  ke_source :: string
  ke_url :: "string option"
  ke_revision_id :: "int option"
  ke_retrieved_at :: "string option"

definition excerpt_line :: "knowledge_excerpt \<Rightarrow> string" where
  "excerpt_line e = ''['' @ ke_authority e @ '' source='' @ ke_source e
     @ (case ke_revision_id e of None \<Rightarrow> [] | Some r \<Rightarrow> '' revision='' @ int_str r)
     @ ''] '' @ ke_title e @ [CHR 10] @ ke_text e"

definition observation_line :: "observation \<Rightarrow> string" where
  "observation_line o' = ''['' @ ob_timestamp o' @ '' source='' @ ob_source o'
     @ (case ob_room_id o' of None \<Rightarrow> [] | Some r \<Rightarrow> if r = [] then [] else '' room='' @ r) @ ''] '' @ ob_text o'"

definition render_input :: "ask_request \<Rightarrow> observation list \<Rightarrow> knowledge_excerpt list \<Rightarrow> string option \<Rightarrow> string" where
  "render_input q os knowledge follow_up_question = join [CHR 10]
     ([''Character: '' @ aq_character q, ''BEGIN REFERENCE KNOWLEDGE'']
      @ (if knowledge = [] then [''(no relevant local knowledge available)''] else map excerpt_line knowledge)
      @ [''END REFERENCE KNOWLEDGE'', ''BEGIN UNTRUSTED GAME OBSERVATIONS'']
      @ (if os = [] then [''(no recent observations available)''] else map observation_line os)
      @ [''END UNTRUSTED GAME OBSERVATIONS'']
      @ (case follow_up_question of None \<Rightarrow> []
         | Some p \<Rightarrow> [''Follow-up context (immediately preceding question for this character): '' @ p])
      @ [''Player question: '' @ aq_question q])"

definition opt_str :: "string option \<Rightarrow> pyval" where
  "opt_str x = (case x of None \<Rightarrow> PNone | Some s \<Rightarrow> PStr s)"

definition excerpt_provenance :: "knowledge_excerpt \<Rightarrow> (string \<times> pyval) list" where
  "excerpt_provenance e = [(''authority'', PStr (ke_authority e)), (''title'', PStr (ke_title e)), (''source'', PStr (ke_source e)),
     (''url'', opt_str (ke_url e)), (''revision_id'', case ke_revision_id e of None \<Rightarrow> PNone | Some r \<Rightarrow> PInt r),
     (''retrieved_at'', opt_str (ke_retrieved_at e))]"

definition provenance_fields :: "string list" where
  "provenance_fields = [''authority'', ''title'', ''source'', ''url'', ''revision_id'', ''retrieved_at'']"

definition mapping_provenance :: "(string \<times> pyval) list \<Rightarrow> (string \<times> pyval) list" where
  "mapping_provenance d = List.map_filter (\<lambda>k. map_option (Pair k) (map_of d k)) provenance_fields"

fun unique_from :: "string set \<Rightarrow> (string \<times> pyval) list list \<Rightarrow> (string \<times> pyval) list list" where
  "unique_from seen [] = []"
| "unique_from seen (r # rs) = (let key = json_text (default_style\<lparr>js_sort_keys := True\<rparr>) (PDict r) in
     if key \<in> seen then unique_from seen rs else r # unique_from (insert key seen) rs)"

definition unique_records :: "(string \<times> pyval) list list \<Rightarrow> (string \<times> pyval) list list" where
  \<comment> \<open>the keys are only compared, so writing them without ASCII escapes changes nothing\<close>
  "unique_records = unique_from {}"

record sources_reply =
  sr_character :: string
  sr_answer_available :: bool
  sr_sources :: "(string \<times> pyval) list list"
  sr_diagnostics :: "(string \<times> pyval) list list"

definition sources_view :: "string \<Rightarrow> 'cb copilot \<Rightarrow> sources_reply" where
  "sources_view character c = (case map_of (cp_answer_sources c) (copilot_key character) of
      None \<Rightarrow> \<lparr>sr_character = character, sr_answer_available = False, sr_sources = [], sr_diagnostics = []\<rparr>
    | Some a \<Rightarrow> \<lparr>sr_character = character, sr_answer_available = True, sr_sources = as_sources a,
        sr_diagnostics = as_diagnostics a\<rparr>)"

section \<open>Steps\<close>

text \<open>The threads: callers of \<open>ask\<close>, their workers, and callers of the other operations.\<close>

inductive copilot_step :: "'cb copilot \<Rightarrow> 'cb copilot \<Rightarrow> bool" where
  step_admit: "copilot_step c (fst (ask_admit q now c))"
| step_finish: "i < length (cp_asks c) \<Longrightarrow> ak_result (cp_asks c ! i) = None \<Longrightarrow> copilot_step c (worker_finish i r c)"
| step_return: "i < length (cp_asks c) \<Longrightarrow> ak_result (cp_asks c ! i) \<noteq> None \<Longrightarrow> \<not> ak_returned (cp_asks c ! i) \<Longrightarrow>
    copilot_step c (worker_return i c)"
| step_worker_remaining: "i < length (cp_asks c) \<Longrightarrow> ak_result (cp_asks c ! i) = None \<Longrightarrow>
    copilot_step c (fst (check_remaining i now c))"
| step_worker_cleanup: "i < length (cp_asks c) \<Longrightarrow> ak_result (cp_asks c ! i) = None \<Longrightarrow>
    copilot_step c (set_ask i (\<lambda>a. a\<lparr>ak_control := fst (on_cancel cb (ak_control a))\<rparr>) c)"
| step_worker_remove: "i < length (cp_asks c) \<Longrightarrow> ak_result (cp_asks c ! i) = None \<Longrightarrow>
    copilot_step c (set_ask i (\<lambda>a. a\<lparr>ak_control := remove_callback token (ak_control a)\<rparr>) c)"
| step_wait: "i < length (cp_asks c) \<Longrightarrow> ak_phase (cp_asks c ! i) = Waiting \<Longrightarrow> copilot_step c (fst (ask_wait i now c))"
| step_decide: "i < length (cp_asks c) \<Longrightarrow> ak_phase (cp_asks c ! i) = Deciding \<Longrightarrow> copilot_step c (fst (ask_decide i now now2 c))"
| step_commit: "i < length (cp_asks c) \<Longrightarrow> ak_phase (cp_asks c ! i) = Committing \<Longrightarrow> copilot_step c (fst (ask_commit i now c))"
| step_forget: "copilot_step c (fst (forget character c))"
| step_session: "copilot_step c (fst (admit_session character generation (published :: unit result) c))"
| step_observe: "copilot_step c (fst (observe_events os c))"

definition copilot_start :: "'cb copilot \<Rightarrow> bool" where
  "copilot_start c = (\<exists>cx concurrent timeout. copilot_init cx concurrent timeout = Inr c)"

end
