(* ===== verification/CopilotProperties.thy ===== *)
theory CopilotProperties
  imports Copilot
begin

text \<open>
  The shared state of the question engine under any interleaving of its threads: the slots of the
  questions in flight, the fence that keeps an invalidated answer out of the conversation, and the
  bounds of the dialogue memory.
\<close>

section \<open>The invariant\<close>

definition concluded :: "'cb ask_state \<Rightarrow> bool" where
  "concluded a = (ak_phase a = Concluded)"

definition invalidated :: "'cb ask_state \<Rightarrow> bool" where
  "invalidated a = qc_cancelled (ak_control a)"

definition ask_ok :: "(string, nat) dict \<Rightarrow> nat \<Rightarrow> 'cb ask_state \<Rightarrow> bool" where
  "ask_ok fl i a =
     ((map_of fl (ask_key a) = Some i \<longrightarrow> \<not> (concluded a \<and> ak_returned a) \<and> (concluded a \<longrightarrow> invalidated a))
      \<and> (\<not> invalidated a \<and> \<not> concluded a \<longrightarrow> map_of fl (ask_key a) = Some i)
      \<and> (concluded a \<and> ak_result a = None \<longrightarrow> invalidated a) \<and> (ak_returned a \<longrightarrow> ak_result a \<noteq> None)
      \<and> (ak_phase a = Committing \<longrightarrow> (\<exists>x. ak_result a = Some (Inr x))))"

definition slots_ok :: "'cb copilot \<Rightarrow> bool" where
  "slots_ok c = (distinct (dkeys (cp_inflight c)) \<and> length (cp_inflight c) \<le> cp_max_concurrent c
     \<and> (\<forall>key i. map_of (cp_inflight c) key = Some i \<longrightarrow> i < length (cp_asks c) \<and> ask_key (cp_asks c ! i) = key))"

definition copilot_inv :: "'cb copilot \<Rightarrow> bool" where
  "copilot_inv c = (slots_ok c \<and> (\<forall>i < length (cp_asks c). ask_ok (cp_inflight c) i (cp_asks c ! i)))"

definition inv_but :: "nat \<Rightarrow> 'cb copilot \<Rightarrow> bool" where
  \<comment> \<open>the invariant up to the state of question \<open>i\<close>\<close>
  "inv_but i c = (slots_ok c \<and> (\<forall>j < length (cp_asks c). j \<noteq> i \<longrightarrow> ask_ok (cp_inflight c) j (cp_asks c ! j)))"

lemma inv_but_whole: "inv_but i c \<Longrightarrow> (i < length (cp_asks c) \<Longrightarrow> ask_ok (cp_inflight c) i (cp_asks c ! i)) \<Longrightarrow> copilot_inv c"
  by (auto simp: inv_but_def copilot_inv_def)

lemma copilot_inv_but: "copilot_inv c \<Longrightarrow> inv_but i c"
  by (simp add: inv_but_def copilot_inv_def)

lemma set_ask_sel [simp]:
  "cp_inflight (set_ask i f c) = cp_inflight c" "length (cp_asks (set_ask i f c)) = length (cp_asks c)"
  "cp_max_concurrent (set_ask i f c) = cp_max_concurrent c" "cp_generations (set_ask i f c) = cp_generations c"
  "cp_dialogue (set_ask i f c) = cp_dialogue c" "cp_answer_sources (set_ask i f c) = cp_answer_sources c"
  "cp_context (set_ask i f c) = cp_context c"
  "i < length (cp_asks c) \<Longrightarrow> cp_asks (set_ask i f c) ! i = f (cp_asks c ! i)"
  "j \<noteq> i \<Longrightarrow> cp_asks (set_ask i f c) ! j = cp_asks c ! j"
  by (simp_all add: set_ask_def)

lemma set_ask_but:
  assumes "inv_but i c" and "\<And>a. ask_key (f a) = ask_key a"
  shows "inv_but i (set_ask i f c)"
proof -
  have "ask_key (cp_asks (set_ask i f c) ! j) = ask_key (cp_asks c ! j)" if "j < length (cp_asks c)" for j
    using that assms(2) by (cases "j = i") simp_all
  with assms(1) show ?thesis by (auto simp: inv_but_def slots_ok_def)
qed

lemma release_sel [simp]:
  "cp_asks (release_question key i c) = cp_asks c" "cp_max_concurrent (release_question key i c) = cp_max_concurrent c"
  "cp_dialogue (release_question key i c) = cp_dialogue c" "cp_answer_sources (release_question key i c) = cp_answer_sources c"
  "cp_generations (release_question key i c) = cp_generations c" "cp_context (release_question key i c) = cp_context c"
  by (simp_all add: release_question_def)

lemma release_inv:
  assumes but: "inv_but i c" and i: "i < length (cp_asks c)" and over: "invalidated (cp_asks c ! i) \<or> concluded (cp_asks c ! i)"
    and own: "concluded (cp_asks c ! i) \<and> ak_result (cp_asks c ! i) = None \<longrightarrow> invalidated (cp_asks c ! i)"
      "ak_returned (cp_asks c ! i) \<longrightarrow> ak_result (cp_asks c ! i) \<noteq> None"
      "ak_phase (cp_asks c ! i) = Committing \<longrightarrow> (\<exists>x. ak_result (cp_asks c ! i) = Some (Inr x))"
  shows "copilot_inv (release_question (ask_key (cp_asks c ! i)) i c)"
proof (cases "map_of (cp_inflight c) (ask_key (cp_asks c ! i)) = Some i")
  case False
  have "ask_ok (cp_inflight c) i (cp_asks c ! i)" using False over own by (auto simp: ask_ok_def)
  with but False show ?thesis by (simp add: release_question_def inv_but_whole)
next
  case True
  let ?k = "ask_key (cp_asks c ! i)"
  have len: "length (ddel ?k (cp_inflight c)) \<le> cp_max_concurrent c"
    using but length_ddel_le [of ?k "cp_inflight c"] by (simp add: inv_but_def slots_ok_def)
  have "ask_ok (ddel ?k (cp_inflight c)) j (cp_asks c ! j)" if j: "j < length (cp_asks c)" for j
  proof (cases "j = i")
    case True
    then show ?thesis using over own by (auto simp: ask_ok_def)
  next
    case False
    with but j have "ask_ok (cp_inflight c) j (cp_asks c ! j)" by (simp add: inv_but_def)
    with True False show ?thesis by (auto simp: ask_ok_def)
  qed
  moreover from but have "slots_ok c" by (simp add: inv_but_def)
  with len have "slots_ok (c\<lparr>cp_inflight := ddel ?k (cp_inflight c)\<rparr>)"
    unfolding slots_ok_def by (auto split: if_splits)
  ultimately show ?thesis using True by (simp add: release_question_def copilot_inv_def)
qed

lemma inv_sels:
  assumes "copilot_inv c" and "cp_inflight c' = cp_inflight c" and "cp_asks c' = cp_asks c" and "cp_max_concurrent c' = cp_max_concurrent c"
  shows "copilot_inv c'"
  using assms by (simp add: copilot_inv_def slots_ok_def)

lemma set_ask_inv:
  assumes "copilot_inv c" and "\<And>a. ask_key (f a) = ask_key a"
    and "i < length (cp_asks c) \<Longrightarrow> ask_ok (cp_inflight c) i (cp_asks c ! i) \<Longrightarrow> ask_ok (cp_inflight c) i (f (cp_asks c ! i))"
  shows "copilot_inv (set_ask i f c)"
proof (rule inv_but_whole [of i])
  show "inv_but i (set_ask i f c)" by (rule set_ask_but [OF copilot_inv_but [OF assms(1)] assms(2)])
  assume "i < length (cp_asks (set_ask i f c))"
  then have i: "i < length (cp_asks c)" by simp
  with assms(1) have "ask_ok (cp_inflight c) i (cp_asks c ! i)" by (simp add: copilot_inv_def)
  with i assms(3) show "ask_ok (cp_inflight (set_ask i f c)) i (cp_asks (set_ask i f c) ! i)" by simp
qed

section \<open>Every step keeps the invariant\<close>

lemma ask_key_simps [simp]:
  "ask_key (a\<lparr>ak_control := x\<rparr>) = ask_key a" "ask_key (a\<lparr>ak_phase := p\<rparr>) = ask_key a"
  "ask_key (a\<lparr>ak_result := r\<rparr>) = ask_key a" "ask_key (a\<lparr>ak_returned := b\<rparr>) = ask_key a"
  by (simp_all add: ask_key_def)

lemma remaining_mono: "qc_cancelled ctl \<Longrightarrow> qc_cancelled (fst (remaining now ctl))"
  by (simp add: remaining_def)

lemma remaining_error: "snd (remaining now ctl) = Inl e \<Longrightarrow> qc_cancelled (fst (remaining now ctl))"
  by (auto simp: remaining_def cancel_question_def Let_def split: if_splits)

lemma remaining_ok: "snd (remaining now ctl) = Inr x \<Longrightarrow> fst (remaining now ctl) = ctl \<and> \<not> qc_cancelled ctl"
  by (auto simp: remaining_def Let_def split: if_splits)

lemma check_remaining_eq:
  "check_remaining i now c = (set_ask i (\<lambda>a. a\<lparr>ak_control := fst (remaining now (ak_control (cp_asks c ! i)))\<rparr>) c,
     snd (remaining now (ak_control (cp_asks c ! i))))"
  by (simp add: check_remaining_def split: prod.splits)

lemma ask_ok_control:
  "ask_ok fl i a \<Longrightarrow> (invalidated a \<Longrightarrow> qc_cancelled x) \<Longrightarrow> ask_ok fl i (a\<lparr>ak_control := x\<rparr>)"
  by (auto simp: ask_ok_def concluded_def invalidated_def)

lemma set_control_inv:
  assumes "copilot_inv c" and "\<And>ctl. qc_cancelled ctl \<Longrightarrow> qc_cancelled (f ctl)"
  shows "copilot_inv (set_ask i (\<lambda>a. a\<lparr>ak_control := f (ak_control a)\<rparr>) c)"
  by (rule set_ask_inv [OF assms(1)]) (auto intro!: ask_ok_control assms(2) simp: invalidated_def)

lemma check_remaining_inv: "copilot_inv c \<Longrightarrow> copilot_inv (fst (check_remaining i now c))"
  unfolding check_remaining_eq fst_conv
  by (rule set_ask_inv) (auto intro!: ask_ok_control remaining_mono simp: invalidated_def)

lemma conclude_inv:
  assumes "copilot_inv c" and "i < length (cp_asks c)" and "ak_result (cp_asks c ! i) = None \<Longrightarrow> invalidated (cp_asks c ! i)"
  shows "copilot_inv (conclude i c)"
proof -
  let ?c1 = "set_ask i (\<lambda>a. a\<lparr>ak_phase := Concluded\<rparr>) c"
  have but: "inv_but i ?c1" by (rule set_ask_but [OF copilot_inv_but [OF assms(1)]]) simp
  show ?thesis
  proof (cases "ak_result (cp_asks c ! i)")
    case None
    from assms(1,2) have "ask_ok (cp_inflight c) i (cp_asks c ! i)" by (simp add: copilot_inv_def)
    with assms(2,3) None have "ask_ok (cp_inflight c) i ((cp_asks c ! i)\<lparr>ak_phase := Concluded\<rparr>)"
      by (simp add: ask_ok_def concluded_def invalidated_def)
    with inv_but_whole [OF but] assms(2) None show ?thesis by (simp add: conclude_def)
  next
    case (Some r)
    with release_inv [OF but] assms(2) show ?thesis by (simp add: conclude_def concluded_def)
  qed
qed

lemma worker_finish_inv:
  assumes "copilot_inv c" and "ak_result (cp_asks c ! i) = None"
  shows "copilot_inv (worker_finish i r c)"
  unfolding worker_finish_def
  by (rule set_ask_inv [OF assms(1)]) (use assms(2) in \<open>auto simp: ask_ok_def concluded_def invalidated_def\<close>)

lemma worker_return_inv:
  assumes "copilot_inv c" and i: "i < length (cp_asks c)" and "ak_result (cp_asks c ! i) \<noteq> None"
  shows "copilot_inv (worker_return i c)"
proof -
  let ?f = "\<lambda>a. a\<lparr>ak_returned := True\<rparr>"
  have but: "inv_but i (set_ask i ?f c)" by (rule set_ask_but [OF copilot_inv_but [OF assms(1)]]) simp
  have ok: "ask_ok (cp_inflight c) i (cp_asks c ! i)" using assms(1) i by (simp add: copilot_inv_def)
  show ?thesis
  proof (cases "invalidated (cp_asks c ! i)")
    case True
    with release_inv [OF but] i ok assms(3) show ?thesis
      by (auto simp: worker_return_def ask_ok_def invalidated_def Let_def)
  next
    case False
    with ok assms(3) have "ask_ok (cp_inflight c) i (?f (cp_asks c ! i))"
      by (auto simp: ask_ok_def concluded_def invalidated_def)
    with inv_but_whole [OF but] i False show ?thesis by (simp add: worker_return_def invalidated_def Let_def)
  qed
qed

lemma set_phase_inv:
  assumes "copilot_inv c" and "\<not> concluded (cp_asks c ! i)" and "p \<noteq> Concluded"
    and "p = Committing \<Longrightarrow> \<exists>x. ak_result (cp_asks c ! i) = Some (Inr x)"
  shows "copilot_inv (set_ask i (\<lambda>a. a\<lparr>ak_phase := p\<rparr>) c)"
  by (rule set_ask_inv [OF assms(1)]) (use assms in \<open>auto simp: ask_ok_def concluded_def invalidated_def\<close>)

lemma ask_wait_inv:
  assumes "copilot_inv c" and i: "i < length (cp_asks c)" and "ak_phase (cp_asks c ! i) = Waiting"
  shows "copilot_inv (fst (ask_wait i now c))"
proof -
  note inv = check_remaining_inv [OF assms(1), of i now]
  show ?thesis
  proof (cases "snd (check_remaining i now c)")
    case (Inl e)
    then have "copilot_inv (conclude i (fst (check_remaining i now c)))"
      by (intro conclude_inv [OF inv]) (use i in \<open>simp_all add: check_remaining_eq invalidated_def remaining_error\<close>)
    with Inl show ?thesis by (simp add: ask_wait_def case_prod_unfold)
  next
    case (Inr x)
    have "copilot_inv (set_ask i (\<lambda>a. a\<lparr>ak_phase := Deciding\<rparr>) (fst (check_remaining i now c)))"
      by (rule set_phase_inv [OF inv]) (use i assms(3) in \<open>simp_all add: check_remaining_eq concluded_def\<close>)
    with Inr show ?thesis by (simp add: ask_wait_def case_prod_unfold)
  qed
qed

lemma cancel_mono: "qc_cancelled ctl \<Longrightarrow> qc_cancelled (cancel_question reason ctl)"
  by (simp add: cancel_question_def)

lemma cancel_cancels [simp]: "qc_cancelled (cancel_question reason ctl)"
  by (simp add: cancel_question_def)

lemma ask_decide_inv:
  assumes "copilot_inv c" and i: "i < length (cp_asks c)" and "ak_phase (cp_asks c ! i) = Deciding"
  shows "copilot_inv (fst (ask_decide i now now2 c))"
proof -
  let ?c1 = "fst (check_remaining i now c)"
  note inv = check_remaining_inv [OF assms(1), of i now]
  have i1: "i < length (cp_asks ?c1)" using i by (simp add: check_remaining_eq)
  show ?thesis
  proof (cases "snd (check_remaining i now c)")
    case (Inl e)
    then have "copilot_inv (conclude i ?c1)"
      by (intro conclude_inv [OF inv]) (use i in \<open>simp_all add: check_remaining_eq invalidated_def remaining_error\<close>)
    with Inl show ?thesis by (simp add: ask_decide_def case_prod_unfold)
  next
    case (Inr x)
    show ?thesis
    proof (cases "ak_result (cp_asks ?c1 ! i)")
      case None
      let ?c2 = "set_ask i (\<lambda>a. a\<lparr>ak_control := cancel_question ''timeout'' (ak_control a)\<rparr>) ?c1"
      let ?c3 = "fst (check_remaining i now2 ?c2)"
      have "copilot_inv ?c2" by (rule set_control_inv [OF inv cancel_mono])
      then have "copilot_inv ?c3" by (rule check_remaining_inv)
      moreover have "invalidated (cp_asks ?c3 ! i)"
        using i by (simp add: check_remaining_eq invalidated_def remaining_mono)
      ultimately have "copilot_inv (conclude i ?c3)"
        by (intro conclude_inv) (use i in \<open>simp_all add: check_remaining_eq\<close>)
      with Inr None show ?thesis by (simp add: ask_decide_def case_prod_unfold Let_def split: sum.splits)
    next
      case (Some r)
      show ?thesis
      proof (cases r)
        case (Inl e)
        have "copilot_inv (conclude i ?c1)" by (rule conclude_inv [OF inv i1]) (simp add: Some)
        with Inr Some Inl show ?thesis by (simp add: ask_decide_def case_prod_unfold)
      next
        case (Inr y)
        have "copilot_inv (set_ask i (\<lambda>a. a\<lparr>ak_phase := Committing\<rparr>) ?c1)"
          by (rule set_phase_inv [OF inv]) (use i assms(3) Some Inr in \<open>simp_all add: check_remaining_eq concluded_def\<close>)
        with \<open>snd (check_remaining i now c) = Inr x\<close> Some Inr show ?thesis
          by (simp add: ask_decide_def case_prod_unfold)
      qed
    qed
  qed
qed

lemma ask_commit_inv:
  assumes "copilot_inv c" and i: "i < length (cp_asks c)" and "ak_phase (cp_asks c ! i) = Committing"
  shows "copilot_inv (fst (ask_commit i now c))"
proof -
  let ?c1 = "fst (check_remaining i now c)"
  note inv = check_remaining_inv [OF assms(1), of i now]
  have i1: "i < length (cp_asks ?c1)" using i by (simp add: check_remaining_eq)
  obtain y where y: "ak_result (cp_asks ?c1 ! i) = Some (Inr y)"
    using assms by (auto simp: copilot_inv_def ask_ok_def check_remaining_eq)
  then have *: "copilot_inv (conclude i (?c1\<lparr>cp_dialogue := m, cp_answer_sources := s\<rparr>))" for m s
    by (intro conclude_inv inv_sels [OF inv]) (simp_all add: i1)
  have "copilot_inv (conclude i ?c1)" by (rule conclude_inv [OF inv i1]) (simp add: y)
  with * y show ?thesis
    by (cases y; cases "snd (check_remaining i now c)") (simp_all add: ask_commit_def case_prod_unfold Let_def)
qed

lemma forget_inv: "copilot_inv c \<Longrightarrow> copilot_inv (fst (forget character c))"
proof -
  assume inv: "copilot_inv c"
  let ?c1 = "case map_of (cp_inflight c) (copilot_key character) of None \<Rightarrow> c
            | Some i \<Rightarrow> set_ask i (\<lambda>a. a\<lparr>ak_control := cancel_question ''invalidated'' (ak_control a)\<rparr>) c"
  have c1: "copilot_inv ?c1" using inv by (auto intro: set_control_inv cancel_mono split: option.splits)
  show ?thesis by (rule inv_sels [OF c1]) (simp_all add: forget_def Let_def case_prod_unfold)
qed

lemma ask_admit_inv:
  assumes inv: "copilot_inv c"
  shows "copilot_inv (fst (ask_admit q now c))"
proof (cases "snd (ask_admit q now c)")
  case (Inl e)
  with inv show ?thesis by (auto simp: ask_admit_def Let_def split: if_splits)
next
  case (Inr x)
  let ?k = "copilot_key (aq_character q)"
  let ?a = "\<lparr>ak_request = q, ak_control = new_control (cp_question_timeout c) now, ak_result = None, ak_returned = False, ak_phase = Waiting\<rparr>"
  let ?c = "c\<lparr>cp_inflight := dput ?k (length (cp_asks c)) (cp_inflight c), cp_asks := cp_asks c @ [?a]\<rparr>"
  from Inr have new: "map_of (cp_inflight c) ?k = None" and room: "length (cp_inflight c) < cp_max_concurrent c"
    and res: "fst (ask_admit q now c) = ?c" by (auto simp: ask_admit_def Let_def split: if_splits)
  have len: "length (dput ?k i (cp_inflight c)) = Suc (length (cp_inflight c))" for i
    using new by (induction "cp_inflight c" rule: list.induct) (metis dkeys_dput in_dkeys_iff dkeys_def length_append_singleton length_map)+
  have "slots_ok ?c" using inv new room len
    by (auto simp: copilot_inv_def slots_ok_def nth_append ask_key_def less_Suc_eq)
  moreover have "ask_ok (cp_inflight ?c) i (cp_asks ?c ! i)" if "i < length (cp_asks ?c)" for i
  proof (cases "i < length (cp_asks c)")
    case True
    with inv have "ask_ok (cp_inflight c) i (cp_asks c ! i)" by (simp add: copilot_inv_def)
    with True new show ?thesis by (auto simp: ask_ok_def nth_append)
  next
    case False
    with that have "i = length (cp_asks c)" by simp
    then show ?thesis by (simp add: ask_ok_def concluded_def ask_key_def)
  qed
  ultimately show ?thesis unfolding res copilot_inv_def by simp
qed

lemma step_inv: "copilot_step c c' \<Longrightarrow> copilot_inv c \<Longrightarrow> copilot_inv c'"
proof (induction rule: copilot_step.induct)
  case (step_worker_cleanup i c cb)
  have "qc_cancelled (fst (on_cancel cb ctl)) = qc_cancelled ctl" for ctl
    by (simp add: on_cancel_def Let_def split: option.splits)
  with step_worker_cleanup show ?case by (intro set_control_inv) simp_all
next
  case (step_worker_remove i c token)
  then show ?case by (intro set_control_inv) (simp_all add: remove_callback_def)
next
  case (step_session c character generation published)
  show ?case
  proof (cases "fst (admit_session character generation published c) = c")
    case True
    with step_session show ?thesis by simp
  next
    case False
    show ?thesis by (rule inv_sels [OF forget_inv [OF step_session, of character]])
      (use False in \<open>auto simp: admit_session_def Let_def split: sum.splits if_splits\<close>)
  qed
next
  case (step_observe c os)
  then show ?case by (intro inv_sels [OF step_observe]) (simp_all add: observe_events_def case_prod_unfold)
qed (simp_all add: ask_admit_inv worker_finish_inv worker_return_inv check_remaining_inv ask_wait_inv ask_decide_inv ask_commit_inv forget_inv)

lemma start_inv: "copilot_start c \<Longrightarrow> copilot_inv c"
  by (auto simp: copilot_start_def copilot_init_def copilot_inv_def slots_ok_def dkeys_def split: if_splits)

interpretation copilot: invariant_system copilot_start copilot_step copilot_inv
  by unfold_locales (auto intro: start_inv step_inv)

section \<open>Questions only evolve\<close>

definition ask_evolves :: "'cb ask_state \<Rightarrow> 'cb ask_state \<Rightarrow> bool" where
  "ask_evolves a a' = (ak_request a' = ak_request a \<and> (invalidated a \<longrightarrow> invalidated a'))"

definition asks_evolve :: "'cb copilot \<Rightarrow> 'cb copilot \<Rightarrow> bool" where
  "asks_evolve c c' = (length (cp_asks c) \<le> length (cp_asks c')
     \<and> (\<forall>i < length (cp_asks c). ask_evolves (cp_asks c ! i) (cp_asks c' ! i)))"

lemma asks_evolve_refl: "cp_asks c' = cp_asks c \<Longrightarrow> asks_evolve c c'"
  by (simp add: asks_evolve_def ask_evolves_def)

lemma asks_evolve_trans: "asks_evolve c d \<Longrightarrow> asks_evolve d e \<Longrightarrow> asks_evolve c e"
  unfolding asks_evolve_def ask_evolves_def by (auto intro: order_trans)

lemma set_ask_evolve:
  assumes "\<And>a. a = cp_asks c ! i \<Longrightarrow> ask_evolves a (f a)"
  shows "asks_evolve c (set_ask i f c)"
  using assms
proof -
  have "ask_evolves (cp_asks c ! j) (cp_asks (set_ask i f c) ! j)" if "j < length (cp_asks c)" for j
    using that assms by (cases "j = i") (simp_all add: ask_evolves_def)
  then show ?thesis by (simp add: asks_evolve_def)
qed

lemma evolve_phase: "asks_evolve c (set_ask i (\<lambda>a. a\<lparr>ak_phase := p\<rparr>) c)"
  by (rule set_ask_evolve) (simp add: ask_evolves_def invalidated_def)

lemma evolve_control:
  "(\<And>ctl. qc_cancelled ctl \<Longrightarrow> qc_cancelled (f ctl)) \<Longrightarrow> asks_evolve c (set_ask i (\<lambda>a. a\<lparr>ak_control := f (ak_control a)\<rparr>) c)"
  by (rule set_ask_evolve) (simp add: ask_evolves_def invalidated_def)

lemma evolve_release: "asks_evolve c (release_question key i c)"
  by (simp add: asks_evolve_refl)

lemma evolve_check: "asks_evolve c (fst (check_remaining i now c))"
  unfolding check_remaining_eq fst_conv
  by (rule set_ask_evolve) (simp add: ask_evolves_def invalidated_def remaining_mono)

lemma evolve_conclude: "asks_evolve c (conclude i c)"
  by (simp add: conclude_def Let_def evolve_phase asks_evolve_trans [OF evolve_phase evolve_release])

lemmas check_evolves = asks_evolve_trans [OF evolve_check evolve_conclude] asks_evolve_trans [OF evolve_check evolve_phase]

lemma evolve_finish: "asks_evolve c (worker_finish i r c)"
  unfolding worker_finish_def by (rule set_ask_evolve) (simp add: ask_evolves_def invalidated_def)

lemma evolve_return: "asks_evolve c (worker_return i c)"
proof -
  have "asks_evolve c (set_ask i (\<lambda>a. a\<lparr>ak_returned := True\<rparr>) c)"
    by (rule set_ask_evolve) (simp add: ask_evolves_def invalidated_def)
  then show ?thesis by (simp add: worker_return_def Let_def asks_evolve_trans [OF _ evolve_release])
qed

lemma evolve_wait: "asks_evolve c (fst (ask_wait i now c))"
  by (simp add: ask_wait_def case_prod_unfold check_evolves split: sum.splits)

lemma evolve_decide: "asks_evolve c (fst (ask_decide i now now2 c))"
proof -
  let ?c1 = "fst (check_remaining i now c)"
  let ?c2 = "set_ask i (\<lambda>a. a\<lparr>ak_control := cancel_question ''timeout'' (ak_control a)\<rparr>) ?c1"
  have "asks_evolve ?c1 ?c2" by (rule evolve_control) (rule cancel_mono)
  then have "asks_evolve c (conclude i (fst (check_remaining i now2 ?c2)))"
    using evolve_check evolve_conclude asks_evolve_trans by meson
  then show ?thesis
    by (simp add: ask_decide_def case_prod_unfold Let_def check_evolves split: sum.splits option.splits)
qed

lemma evolve_commit: "asks_evolve c (fst (ask_commit i now c))"
proof -
  have "asks_evolve c (conclude i (fst (check_remaining i now c)\<lparr>cp_dialogue := m, cp_answer_sources := s\<rparr>))" for m s
  proof -
    have "asks_evolve c (fst (check_remaining i now c)\<lparr>cp_dialogue := m, cp_answer_sources := s\<rparr>)"
      using evolve_check [of c i now] by (simp add: asks_evolve_def)
    then show ?thesis by (rule asks_evolve_trans) (rule evolve_conclude)
  qed
  then show ?thesis
    by (simp add: ask_commit_def case_prod_unfold Let_def check_evolves split: sum.splits option.splits)
qed

lemma evolve_forget: "asks_evolve c (fst (forget character c))"
proof -
  have "asks_evolve c (case map_of (cp_inflight c) (copilot_key character) of None \<Rightarrow> c
      | Some i \<Rightarrow> set_ask i (\<lambda>a. a\<lparr>ak_control := cancel_question ''invalidated'' (ak_control a)\<rparr>) c)"
    by (simp add: asks_evolve_refl evolve_control cancel_mono split: option.split)
  then show ?thesis by (simp add: forget_def Let_def case_prod_unfold asks_evolve_def)
qed

lemma evolve_session: "asks_evolve c (fst (admit_session character generation published c))"
  using evolve_forget [of c character]
  by (auto simp: admit_session_def Let_def asks_evolve_refl asks_evolve_def ask_evolves_def split: sum.split)

lemma step_evolve: "copilot_step c c' \<Longrightarrow> asks_evolve c c'"
proof (induction rule: copilot_step.induct)
  case (step_admit c q now)
  show ?case by (simp add: ask_admit_def Let_def asks_evolve_def nth_append ask_evolves_def)
next
  case (step_worker_cleanup i c cb)
  show ?case by (rule evolve_control) (simp add: on_cancel_def Let_def split: option.splits)
next
  case (step_worker_remove i c token)
  show ?case by (rule evolve_control) (simp add: remove_callback_def)
next
  case (step_observe c os)
  show ?case by (rule asks_evolve_refl) (simp add: observe_events_def case_prod_unfold)
qed (simp_all add: evolve_finish evolve_return evolve_check evolve_wait evolve_decide evolve_commit evolve_forget evolve_session)

interpretation questions: evolving_system copilot_step "\<lambda>_. True"
    "\<lambda>c i. if i < length (cp_asks c) then Some (cp_asks c ! i) else None" ask_evolves
proof
  fix c c' :: "'a copilot" and i and a :: "'a ask_state"
  assume "copilot_step c c'" and "(if i < length (cp_asks c) then Some (cp_asks c ! i) else None) = Some a"
  with step_evolve [of c c'] show "\<exists>b. (if i < length (cp_asks c') then Some (cp_asks c' ! i) else None) = Some b \<and> ask_evolves a b"
    by (auto simp: asks_evolve_def split: if_splits)
qed (auto simp: ask_evolves_def)

section \<open>An invalidated question commits nothing\<close>

lemma fence_raises:
  assumes "qc_cancelled ctl"
  obtains e where "remaining now ctl = (ctl, Inl e)" and "e \<in> {discarded, timed_out}"
  using assms by (auto simp: remaining_def)

lemma check_remaining_fenced:
  assumes "invalidated (cp_asks c ! i)"
  obtains e where "check_remaining i now c = (c, Inl e)" and "e \<in> {discarded, timed_out}"
proof -
  obtain e where e: "remaining now (ak_control (cp_asks c ! i)) = (ak_control (cp_asks c ! i), Inl e)" "e \<in> {discarded, timed_out}"
    using fence_raises [of "ak_control (cp_asks c ! i)" now] assms by (auto simp: invalidated_def)
  have "check_remaining i now c = (c, Inl e)"
    using e(1) by (simp add: check_remaining_def set_ask_def)
  with e(2) that show thesis by blast
qed

lemma conclude_sel [simp]:
  "cp_dialogue (conclude i c) = cp_dialogue c" "cp_answer_sources (conclude i c) = cp_answer_sources c"
  "cp_generations (conclude i c) = cp_generations c" "cp_context (conclude i c) = cp_context c"
  "length (cp_asks (conclude i c)) = length (cp_asks c)" "cp_max_concurrent (conclude i c) = cp_max_concurrent c"
  by (simp_all add: conclude_def Let_def)

definition retains_nothing :: "'cb copilot \<Rightarrow> ('cb, 'a) cp_op \<Rightarrow> bool" where
  \<comment> \<open>an operation that reports the question discarded and leaves the conversation as it was\<close>
  "retains_nothing c r = (snd r \<in> {Inl discarded, Inl timed_out} \<and> cp_dialogue (fst r) = cp_dialogue c
     \<and> cp_answer_sources (fst r) = cp_answer_sources c \<and> cp_context (fst r) = cp_context c)"

lemma fenced_retains:
  assumes "invalidated (cp_asks c ! i)"
  shows "retains_nothing c (ask_wait i now c)" and "retains_nothing c (ask_decide i now now2 c)"
    and "retains_nothing c (ask_commit i now c)"
proof -
  obtain e where "check_remaining i now c = (c, Inl e)" "e \<in> {discarded, timed_out}"
    using check_remaining_fenced [OF assms, of now] by blast
  then show "retains_nothing c (ask_wait i now c)" "retains_nothing c (ask_decide i now now2 c)"
      "retains_nothing c (ask_commit i now c)"
    by (auto simp: retains_nothing_def ask_wait_def ask_decide_def ask_commit_def)
qed

lemma forget_invalidates:
  assumes "copilot_inv c" and i: "i < length (cp_asks c)" and "\<not> concluded (cp_asks c ! i)"
    and "ask_key (cp_asks c ! i) = copilot_key character"
  shows "invalidated (cp_asks (fst (forget character c)) ! i)"
proof (cases "invalidated (cp_asks c ! i)")
  case True
  with evolve_forget [of c character] i show ?thesis by (auto simp: asks_evolve_def ask_evolves_def)
next
  case False
  with assms have "map_of (cp_inflight c) (copilot_key character) = Some i"
    by (auto simp: copilot_inv_def ask_ok_def)
  with i show ?thesis by (simp add: forget_def Let_def case_prod_unfold invalidated_def)
qed

lemma session_invalidates:
  assumes "map_of (cp_generations c) (copilot_key character) \<noteq> Some generation"
  shows "cp_asks (fst (admit_session character generation (Inr r) c)) = cp_asks (fst (forget character c))"
  using assms by (simp add: admit_session_def Let_def)

lemma invalidated_kept:
  assumes "runs copilot_step c d" and "i < length (cp_asks c)" and "invalidated (cp_asks c ! i)"
  shows "invalidated (cp_asks d ! i)"
  using questions.runs_evolve [OF assms(1), of i "cp_asks c ! i"] assms(2,3)
  by (auto simp: ask_evolves_def split: if_splits)

section \<open>The memory is bounded\<close>

definition turn_ok :: "dialogue_turn \<Rightarrow> bool" where
  "turn_ok t = (length (dt_question t) \<le> 1000 \<and> length (dt_answer t) \<le> 2000 \<and> length (dt_sources t) \<le> 3
     \<and> list_all (list_all (\<lambda>(k, v). case v of PStr s \<Rightarrow> length s \<le> 300 | _ \<Rightarrow> True)) (dt_sources t))"

definition dialogue_ok :: "dialogue \<Rightarrow> bool" where
  "dialogue_ok m = (dm_max_characters m = 256 \<and> dm_max_turns m = 4 \<and> length (dm_turns m) \<le> 256 \<and> distinct (dkeys (dm_turns m))
     \<and> (\<forall>(k, ts) \<in> set (dm_turns m). ts \<noteq> [] \<and> length ts \<le> 4 \<and> list_all turn_ok ts))"

definition memory_inv :: "'cb copilot \<Rightarrow> bool" where
  "memory_inv c = (dialogue_ok (cp_dialogue c) \<and> length (cp_answer_sources c) \<le> 256
     \<and> distinct (dkeys (cp_answer_sources c)))"

lemma distinct_keys_drop: "distinct (dkeys xs) \<Longrightarrow> distinct (dkeys (drop n xs))"
  by (simp add: dkeys_def drop_map [symmetric])

lemma distinct_requeue: "distinct (dkeys d) \<Longrightarrow> distinct (dkeys (ddel k d @ [(k, v)]))"
  by (simp add: dkeys_def ddel_def distinct_map_filter image_iff)

lemma set_ddel_subset: "set (ddel k d) \<subseteq> set d"
  by (auto simp: ddel_def)

lemma keep_latest_laws:
  "length (keep_latest n xs) \<le> n" "distinct (dkeys d) \<Longrightarrow> distinct (dkeys (keep_latest n d))"
  by (simp_all add: keep_latest_def distinct_keys_drop)

lemma brief_source_ok: "list_all (\<lambda>(k, v). case v of PStr s \<Rightarrow> length s \<le> 300 | _ \<Rightarrow> True) (brief_source source)"
  by (auto simp: brief_source_def list_all_iff split: pyval.split)

lemma dialogue_history_ok:
  "dialogue_ok m \<Longrightarrow> list_all turn_ok (dialogue_history character m)"
  by (auto simp: dialogue_history_def dialogue_ok_def split: option.split dest!: map_of_SomeD)

lemma dialogue_okI:
  "dm_max_characters m = 256 \<Longrightarrow> dm_max_turns m = 4 \<Longrightarrow> length d \<le> dm_max_characters m \<Longrightarrow> distinct (dkeys d) \<Longrightarrow>
    \<forall>(k, ts) \<in> set d. ts \<noteq> [] \<and> length ts \<le> 4 \<and> list_all turn_ok ts \<Longrightarrow> dialogue_ok (m\<lparr>dm_turns := d\<rparr>)"
  by (simp add: dialogue_ok_def)

lemma record_turn_ok:
  assumes ok: "dialogue_ok m"
  shows "dialogue_ok (record_turn character question answer sources m)"
proof -
  let ?k = "copilot_key character"
  let ?t = "\<lparr>dt_question = take 1000 question, dt_answer = take 2000 answer, dt_sources = map brief_source (take 3 sources)\<rparr>"
  let ?ts = "deque_push (dm_max_turns m) ?t (dialogue_history character m)"
  let ?kept = "ddel ?k (dm_turns m) @ [(?k, ?ts)]"
  have "turn_ok ?t" by (simp add: turn_ok_def list_all_length brief_source_ok [unfolded list_all_length])
  with dialogue_history_ok [OF ok, of character] have "list_all turn_ok ?ts"
    using set_deque_push [of "dm_max_turns m" ?t "dialogue_history character m"] by (auto simp: list_all_iff)
  moreover have "?ts \<noteq> []" "length ?ts \<le> 4"
    using ok length_deque_push [of "dm_max_turns m" ?t "dialogue_history character m"]
    by (auto simp: dialogue_ok_def simp del: length_deque_push)
  ultimately have "\<forall>(k, ts) \<in> set ?kept. ts \<noteq> [] \<and> length ts \<le> 4 \<and> list_all turn_ok ts"
    using ok by (auto simp: ddel_def dialogue_ok_def simp del: length_deque_push)
  then have "\<forall>(k, ts) \<in> set (drop n ?kept). ts \<noteq> [] \<and> length ts \<le> 4 \<and> list_all turn_ok ts" for n
    using set_drop_subset [of n ?kept] by blast
  moreover have "distinct (dkeys ?kept)" using ok by (intro distinct_requeue) (simp add: dialogue_ok_def)
  then have "distinct (dkeys (drop n ?kept))" for n by (rule distinct_keys_drop)
  moreover have "dm_max_characters m = 256" "dm_max_turns m = 4" using ok by (simp_all add: dialogue_ok_def)
  moreover have "length (drop (length ?kept - dm_max_characters m) ?kept) \<le> dm_max_characters m"
    unfolding length_drop by linarith
  ultimately show ?thesis unfolding record_turn_def Let_def by (intro dialogue_okI) blast+
qed

lemma forget_dialogue_ok: "dialogue_ok m \<Longrightarrow> dialogue_ok (fst (forget_dialogue character m))"
  using length_ddel_le [of "copilot_key character" "dm_turns m"] set_ddel_subset [of "copilot_key character" "dm_turns m"]
  by (auto simp: forget_dialogue_def Let_def dialogue_ok_def)

lemma memory_sels:
  "memory_inv c \<Longrightarrow> cp_dialogue c' = cp_dialogue c \<Longrightarrow> cp_answer_sources c' = cp_answer_sources c \<Longrightarrow> memory_inv c'"
  by (simp add: memory_inv_def)

lemma forget_memory: "memory_inv c \<Longrightarrow> memory_inv (fst (forget character c))"
  using forget_dialogue_ok [of "cp_dialogue c" character] length_ddel_le [of "copilot_key character" "cp_answer_sources c"]
  by (auto simp: forget_def memory_inv_def Let_def case_prod_unfold split: option.split)

lemma commit_memory: "memory_inv c \<Longrightarrow> memory_inv (fst (ask_commit i now c))"
  by (auto simp: ask_commit_def check_remaining_eq memory_inv_def Let_def record_turn_ok max_dialogue_characters_def
      keep_latest_laws distinct_requeue split: sum.split option.split)

lemma wait_memory: "memory_inv c \<Longrightarrow> memory_inv (fst (ask_wait i now c))"
  by (auto simp: ask_wait_def check_remaining_eq memory_inv_def split: sum.split)

lemma decide_memory: "memory_inv c \<Longrightarrow> memory_inv (fst (ask_decide i now now2 c))"
  by (auto simp: ask_decide_def check_remaining_eq memory_inv_def Let_def split: sum.split option.split)

lemma session_memory: "memory_inv c \<Longrightarrow> memory_inv (fst (admit_session character generation published c))"
  using forget_memory [of c character] by (auto simp: admit_session_def memory_inv_def Let_def split: sum.split)

lemma step_memory: "copilot_step c c' \<Longrightarrow> memory_inv c \<Longrightarrow> memory_inv c'"
  by (induction rule: copilot_step.induct)
    (simp_all add: commit_memory wait_memory decide_memory session_memory forget_memory,
     auto simp: memory_inv_def ask_admit_def worker_finish_def worker_return_def check_remaining_eq observe_events_def Let_def split: prod.split)

lemma start_memory: "copilot_start c \<Longrightarrow> memory_inv c"
  by (auto simp: copilot_start_def copilot_init_def memory_inv_def dialogue_ok_def empty_dialogue_def
      max_dialogue_characters_def max_dialogue_turns_def dkeys_def split: if_splits)

interpretation memory: invariant_system copilot_start copilot_step memory_inv
  by unfold_locales (auto intro: start_memory step_memory)

section \<open>A demonstration engine\<close>

text \<open>Two questions at most, one question of Ann in flight, then answered, then decided for commit.\<close>

definition demo_engine :: "unit copilot" where
  "demo_engine = \<lparr>cp_context = \<lparr>cb_max_events = 3, cb_max_characters = 100, cb_events = []\<rparr>, cp_dialogue = empty_dialogue,
     cp_answer_sources = [], cp_max_concurrent = 2, cp_question_timeout = 60, cp_inflight = [], cp_generations = [], cp_asks = []\<rparr>"

definition demo_ask :: ask_request where
  "demo_ask = \<lparr>aq_character = ''Ann'', aq_question = ''where am I'', aq_read_only = True, aq_expected_generation = None\<rparr>"

definition demo_answer :: answer where
  "demo_answer = \<lparr>an_request_id = ''r1'', an_character = ''Ann'', an_text = ''at the bank'', an_observed_event_count = 0,
     an_sources = [], an_source_diagnostics = [], an_capability = ''read_only''\<rparr>"

definition demo_asked :: "unit copilot" where
  "demo_asked = fst (ask_admit demo_ask 100 demo_engine)"

definition demo_finished :: "unit copilot" where
  "demo_finished = worker_finish 0 (Inr (demo_answer, \<lparr>as_sources = [], as_diagnostics = []\<rparr>)) (fst (forget ''Ann'' demo_asked))"

definition demo_waiting :: "unit copilot" where
  "demo_waiting = fst (ask_wait 0 101 demo_asked)"

definition demo_worked :: "unit copilot" where
  "demo_worked = worker_finish 0 (Inr (demo_answer, \<lparr>as_sources = [], as_diagnostics = []\<rparr>)) demo_waiting"

definition demo_decided :: "unit copilot" where
  "demo_decided = fst (ask_decide 0 102 102 demo_worked)"

definition demo_committed :: "unit copilot" where
  "demo_committed = fst (ask_commit 0 102 demo_decided)"

lemma demo_asked_reach: "reach copilot_start copilot_step demo_asked"
proof -
  have "copilot_init \<lparr>cb_max_events = 3, cb_max_characters = 100, cb_events = []\<rparr> 2 60 = Inr demo_engine"
    by (simp add: copilot_init_def demo_engine_def)
  then have "reach copilot_start copilot_step demo_engine"
    by (intro reach_init) (auto simp: copilot_start_def)
  then show ?thesis unfolding demo_asked_def by (rule reach_step) (rule step_admit)
qed

lemma demo_values:
  "length (cp_asks demo_asked) = 1" "ak_phase (cp_asks demo_asked ! 0) = Waiting"
  "ask_key (cp_asks demo_asked ! 0) = copilot_key ''Ann''" "length (cp_asks (fst (forget ''Ann'' demo_asked))) = 1"
  "ak_result (cp_asks (fst (forget ''Ann'' demo_asked)) ! 0) = None" "length (cp_asks demo_waiting) = 1"
  "ak_result (cp_asks demo_waiting ! 0) = None" "length (cp_asks demo_worked) = 1" "length (cp_asks demo_decided) = 1"
  "ak_phase (cp_asks demo_worked ! 0) = Deciding" "ak_phase (cp_asks demo_decided ! 0) = Committing"
  by code_simp+

lemma demo_committed_reach: "reach copilot_start copilot_step demo_committed"
proof -
  have "reach copilot_start copilot_step demo_waiting"
    unfolding demo_waiting_def by (rule reach_step [OF demo_asked_reach]) (rule step_wait, simp_all add: demo_values)
  then have "reach copilot_start copilot_step demo_worked"
    unfolding demo_worked_def by (rule reach_step) (rule step_finish, simp_all add: demo_values)
  then have "reach copilot_start copilot_step demo_decided"
    unfolding demo_decided_def by (rule reach_step) (rule step_decide, simp_all add: demo_values)
  then show ?thesis
    unfolding demo_committed_def by (rule reach_step) (rule step_commit, simp_all add: demo_values)
qed

lemma demo_forgotten_runs: "runs copilot_step (fst (forget ''Ann'' demo_asked)) demo_finished"
  unfolding demo_finished_def
  by (rule runs_step [OF runs_refl]) (rule step_finish, simp_all add: demo_values)

section \<open>Properties\<close>

text \<open>C32: Under any interleaving of the threads there are at most as many questions in flight as the engine
  admits, at most one per character, and every slot belongs to a question of its character with a
  thread still running.  A question that is neither invalidated nor over holds the slot of its
  character.\<close>

theorem slots_are_accounted:
  assumes "reach copilot_start copilot_step c"
  shows "length (cp_inflight c) \<le> cp_max_concurrent c \<and> distinct (dkeys (cp_inflight c))
    \<and> (\<forall>key i. map_of (cp_inflight c) key = Some i \<longrightarrow> i < length (cp_asks c) \<and> ask_key (cp_asks c ! i) = key
        \<and> (ak_phase (cp_asks c ! i) \<noteq> Concluded \<or> \<not> ak_returned (cp_asks c ! i)))
    \<and> (\<forall>i < length (cp_asks c). ak_phase (cp_asks c ! i) \<noteq> Concluded \<and> \<not> qc_cancelled (ak_control (cp_asks c ! i))
        \<longrightarrow> map_of (cp_inflight c) (ask_key (cp_asks c ! i)) = Some i)"
proof -
  from assms have inv: "copilot_inv c" by (rule copilot.reach_inv)
  have "ask_ok (cp_inflight c) i (cp_asks c ! i)" if "i < length (cp_asks c)" for i
    using inv that by (simp add: copilot_inv_def)
  with inv show ?thesis
    unfolding copilot_inv_def slots_ok_def ask_ok_def concluded_def invalidated_def by blast
qed

lemma slots_are_accounted_witness: "map_of (cp_inflight demo_asked) (ask_key (cp_asks demo_asked ! 0)) = Some 0"
proof -
  have "\<forall>i < length (cp_asks demo_asked). ak_phase (cp_asks demo_asked ! i) \<noteq> Concluded \<and> \<not> qc_cancelled (ak_control (cp_asks demo_asked ! i))
        \<longrightarrow> map_of (cp_inflight demo_asked) (ask_key (cp_asks demo_asked ! i)) = Some i"
    using slots_are_accounted [OF demo_asked_reach] by blast
  moreover have "\<not> qc_cancelled (ak_control (cp_asks demo_asked ! 0))" by code_simp
  ultimately show ?thesis by (simp add: demo_values)
qed

text \<open>C31: Once the conversation of a character is forgotten, or a different session generation is admitted for
  it, a question of the character that is not over yet can never be answered: whatever the threads
  do meanwhile, each step of \<open>ask\<close> raises that the question was discarded or timed out and leaves
  the dialogue, the retained sources and the observations as they are.\<close>

theorem invalidated_answer_not_retained:
  assumes "reach copilot_start copilot_step c"
    and "i < length (cp_asks c)" and "ak_phase (cp_asks c ! i) \<noteq> Concluded"
    and "copilot_key character = ask_key (cp_asks c ! i)"
    and "d = fst (forget character c)
      \<or> map_of (cp_generations c) (copilot_key character) \<noteq> Some generation
        \<and> d = fst (admit_session character generation (Inr ()) c)"
    and "runs copilot_step d e"
  shows "retains_nothing e (ask_commit i now e) \<and> retains_nothing e (ask_decide i now now2 e)
    \<and> retains_nothing e (ask_wait i now e)"
proof -
  have "invalidated (cp_asks (fst (forget character c)) ! i)"
    using forget_invalidates [OF copilot.reach_inv [OF assms(1)] assms(2)] assms(3,4) by (simp add: concluded_def)
  with assms(5) have "invalidated (cp_asks d ! i)" by (auto simp: session_invalidates)
  moreover have "i < length (cp_asks d)" using assms(2,5) evolve_forget [of c character] evolve_session [of c character generation "Inr ()"]
    by (auto simp: asks_evolve_def)
  ultimately have "invalidated (cp_asks e ! i)" using invalidated_kept assms(6) by blast
  then show ?thesis by (simp add: fenced_retains)
qed

lemma invalidated_answer_not_retained_witness: "retains_nothing demo_finished (ask_commit 0 103 demo_finished)"
  using invalidated_answer_not_retained [OF demo_asked_reach, of 0 "''Ann''" "fst (forget ''Ann'' demo_asked)" "''g''" demo_finished 103 103]
  by (simp add: demo_values demo_forgotten_runs)

text \<open>The engine keeps bounded memory in every reachable state: at most 256 conversations of one to four turns,
  each with a question of at most 1000, an answer of at most 2000 characters and at most three
  sources cut to 300 characters a field, and at most 256 lists of answer sources.\<close>

theorem conversation_memory_is_bounded:
  assumes "reach copilot_start copilot_step c"
  shows "dialogue_ok (cp_dialogue c) \<and> length (cp_answer_sources c) \<le> 256 \<and> distinct (dkeys (cp_answer_sources c))"
  using memory.reach_inv [OF assms] by (simp add: memory_inv_def)

lemma conversation_memory_is_bounded_witness:
  "dialogue_ok (cp_dialogue demo_committed) \<and> map dt_answer (dialogue_history ''ANN'' (cp_dialogue demo_committed)) = [''at the bank'']"
proof -
  have "map dt_answer (dialogue_history ''ANN'' (cp_dialogue demo_committed)) = [''at the bank'']" by code_simp
  with conversation_memory_is_bounded [OF demo_committed_reach] show ?thesis by blast
qed

end
