(* ===== verification/ScriptAdapters.thy ===== *)
theory ScriptAdapters
  imports ControllerManifest
begin

text \<open>
  The registered script entry points of \<open>script_adapters.py\<close>: commands are built from fixed templates
  with at most one numeric argument.  \<open>str.format\<close> of such a template is the substitution of its one
  placeholder.
\<close>

record script_entrypoint =
  se_name :: string
  se_command :: string
  se_numeric_argument :: "string option"

record script_adapter =
  sa_name :: string
  sa_ownership_lanes :: "string list"
  sa_entrypoints :: "script_entrypoint list"

definition entrypoint_build :: "script_entrypoint \<Rightarrow> (string \<times> pyval) list \<Rightarrow> string result" where
  "entrypoint_build e arguments = (case se_numeric_argument e of
      None \<Rightarrow> if arguments \<noteq> [] then Inl (ValidationError (se_name e @ '' does not accept arguments'')) else Inr (se_command e)
    | Some n \<Rightarrow>
        if set (dkeys arguments) \<noteq> {n} then Inl (ValidationError (se_name e @ '' requires only '' @ n))
        else let raw = dget n arguments; value = strip (py_str raw) in
          if is_bool raw \<or> \<not> (is_str raw \<or> is_int raw) \<or> \<not> str_isdigit value
          then Inl (ValidationError (n @ '' must be numeric''))
          else substitute [(n, value)] (pieces (se_command e)))"

definition adapter_command :: "script_adapter \<Rightarrow> string \<Rightarrow> (string \<times> pyval) list \<Rightarrow> string result" where
  "adapter_command a entrypoint arguments = (case List.find (\<lambda>e. se_name e = entrypoint) (sa_entrypoints a) of
      None \<Rightarrow> Inl (ValidationError (''unsupported '' @ sa_name a @ '' entrypoint: '' @ entrypoint))
    | Some e \<Rightarrow> entrypoint_build e arguments)"

definition go2_adapter :: script_adapter where
  "go2_adapter = \<lparr>sa_name = ''go2'', sa_ownership_lanes = [''movement''], sa_entrypoints =
     [\<lparr>se_name = ''supervised_travel'', se_command = ''go2 supervised {destination}'', se_numeric_argument = Some ''destination''\<rparr>,
      \<lparr>se_name = ''travel'', se_command = ''go2 {destination}'', se_numeric_argument = Some ''destination''\<rparr>]\<rparr>"

definition bigshot_adapter :: script_adapter where
  "bigshot_adapter = \<lparr>sa_name = ''bigshot'', sa_ownership_lanes = [''movement'', ''combat''], sa_entrypoints =
     [\<lparr>se_name = ''start'', se_command = ''bigshot start'', se_numeric_argument = None\<rparr>,
      \<lparr>se_name = ''stop'', se_command = ''bigshot stop'', se_numeric_argument = None\<rparr>]\<rparr>"

definition eloot_adapter :: script_adapter where
  "eloot_adapter = \<lparr>sa_name = ''eloot'', sa_ownership_lanes = [''inventory''], sa_entrypoints =
     [\<lparr>se_name = ''loot_current_room'', se_command = ''eloot loot'', se_numeric_argument = None\<rparr>,
      \<lparr>se_name = ''stop'', se_command = ''eloot stop'', se_numeric_argument = None\<rparr>]\<rparr>"

definition script_adapters :: "(string, script_adapter) dict" where
  "script_adapters = map (\<lambda>a. (sa_name a, a)) [go2_adapter, bigshot_adapter, eloot_adapter]"

definition find_script_adapter :: "pyval \<Rightarrow> script_adapter result" where
  "find_script_adapter name = (case name of
      PStr n \<Rightarrow> (case map_of script_adapters (casefold (strip n)) of
          None \<Rightarrow> Inl (ValidationError (''unregistered script adapter: '' @ n))
        | Some a \<Rightarrow> Inr a)
    | _ \<Rightarrow> Inl (ValidationError ''script adapter name must be a string''))"

lemma supervised_travel_command:
  assumes "str_isdigit d" and "strip d = d"
  shows "adapter_command go2_adapter ''supervised_travel'' [(''destination'', PStr d)] = Inr (''go2 supervised '' @ d)"
proof -
  have "pieces ''go2 supervised {destination}'' = map Lit ''go2 supervised '' @ [Hole ''destination'']" by code_simp
  with assms show ?thesis
    by (simp add: adapter_command_def go2_adapter_def entrypoint_build_def dkeys_def dget_def rbind_def)
qed

end
