(* ===== verification/Capabilities.thy ===== *)
theory Capabilities
  imports ScriptAdapters Watchers
begin

text \<open>
  The capabilities of \<open>operations.py\<close>: the fixed definitions, those that a manifest and the profiles add,
  and the public description of them.  A handler name is a constructor of \<open>handler\<close>.
\<close>

datatype handler =
    ExecuteGo2 | ExecuteCharacterRecon | ExecuteItemAudit | ExecuteHuntPrepare | ExecuteRoomLoot
  | ExecuteControllerRecovery | ExecuteSessionCommand | ExecuteController

record capability =
  ca_name :: string
  ca_summary :: string
  ca_arguments :: pyval
  ca_handler :: handler
  ca_supported_characters :: "string list"

section \<open>The fixed definitions\<close>

definition item_audit_methods :: "string list" where
  "item_audit_methods = [''look'', ''inspect'', ''405'', ''735'']"

definition object_schema :: "(string \<times> pyval) list \<Rightarrow> string list \<Rightarrow> pyval" where
  \<comment> \<open>an object schema without further properties\<close>
  "object_schema properties required = PDict ([(''type'', PStr ''object''), (''properties'', PDict properties)]
     @ (if required = [] then [] else [(''required'', PList (map PStr required))])
     @ [(''additionalProperties'', PBool False)])"

definition pattern_schema :: "string \<Rightarrow> pyval" where
  "pattern_schema pattern = PDict [(''type'', PStr ''string''), (''pattern'', PStr pattern)]"

definition empty_arguments :: pyval where
  "empty_arguments = object_schema [] []"

definition travel_capability :: capability where
  "travel_capability = \<lparr>ca_name = ''travel.go2'',
     ca_summary = ''Travel to one explicitly authorized mapped room with native go2; verify arrival and released ownership.'',
     ca_arguments = object_schema [(''destination'', pattern_schema ''^[1-9][0-9]{0,9}$'')] [''destination''],
     ca_handler = ExecuteGo2, ca_supported_characters = []\<rparr>"

definition recon_capability :: capability where
  "recon_capability = \<lparr>ca_name = ''character.recon'',
     ca_summary = ''Refresh INFO and/or SKILLS and verify newly observed character records.'',
     ca_arguments = object_schema [(''categories'', PDict [(''type'', PStr ''array''),
         (''items'', PDict [(''type'', PStr ''string''), (''enum'', PList [PStr ''info'', PStr ''skills''])]),
         (''minItems'', PInt 1), (''maxItems'', PInt 2), (''uniqueItems'', PBool True),
         (''default'', PList [PStr ''info'', PStr ''skills''])])] [],
     ca_handler = ExecuteCharacterRecon, ca_supported_characters = []\<rparr>"

definition audit_capability :: capability where
  "audit_capability = \<lparr>ca_name = ''item.audit'',
     ca_summary = ''Collect attributed diagnostics for one exact live item and restore it.'',
     ca_arguments = object_schema [(''item_id'', pattern_schema ''^#?[0-9]+$''),
         (''methods'', PDict [(''type'', PStr ''array''),
            (''items'', PDict [(''type'', PStr ''string''), (''enum'', PList (map PStr item_audit_methods))]),
            (''minItems'', PInt 1), (''uniqueItems'', PBool True)])] [''item_id''],
     ca_handler = ExecuteItemAudit, ca_supported_characters = []\<rparr>"

definition hunt_capability :: capability where
  "hunt_capability = \<lparr>ca_name = ''hunt.prepare'',
     ca_summary = ''Verify character readiness and hand off movement and combat to Bigshot.'',
     ca_arguments = empty_arguments, ca_handler = ExecuteHuntPrepare, ca_supported_characters = []\<rparr>"

definition loot_capability :: capability where
  "loot_capability = \<lparr>ca_name = ''room.loot'',
     ca_summary = ''Run one verified ELoot sweep for exact corpses in the current safe room.'',
     ca_arguments = empty_arguments, ca_handler = ExecuteRoomLoot, ca_supported_characters = []\<rparr>"

definition recovery_capability :: capability where
  "recovery_capability = \<lparr>ca_name = ''session.recover_controller'',
     ca_summary = ''After explicit operator confirmation, acknowledge one exact safe controller handoff in the owning logged-in session.'',
     ca_arguments = object_schema [(''action_id'', pattern_schema ''^[0-9a-f]{16}$''),
         (''confirm'', PDict [(''type'', PStr ''boolean''), (''const'', PBool True)])] [''action_id'', ''confirm''],
     ca_handler = ExecuteControllerRecovery, ca_supported_characters = []\<rparr>"

definition command_capability :: capability where
  "command_capability = \<lparr>ca_name = ''session.command'',
     ca_summary = ''Send one game-input or Lich script command through a locally enabled full-access session; delivery is verified but the effect is not inferred.'',
     ca_arguments = object_schema [(''command'', PDict [(''type'', PStr ''string''), (''minLength'', PInt 1), (''maxLength'', PInt 140)])]
        [''command''],
     ca_handler = ExecuteSessionCommand, ca_supported_characters = []\<rparr>"

definition capability_definitions :: "capability list" where
  "capability_definitions = [travel_capability, recon_capability, audit_capability, hunt_capability, loot_capability,
     recovery_capability, command_capability]"

section \<open>The capabilities of a runner\<close>

fun profile_table :: "profile list \<Rightarrow> (string, profile) dict \<Rightarrow> (string, profile) dict result" where
  "profile_table [] ps = Inr ps"
| "profile_table (p # rest) ps = (let key = casefold (pf_character p) in
     if key \<in> set (dkeys ps) then Inl (ValueError (''duplicate profile for '' @ pf_character p))
     else profile_table rest (dput key p ps))"

definition controller_capability :: "controller_definition \<Rightarrow> capability result" where
  "controller_capability c = rbind (controller_action_of c (c_capability_action c)) (\<lambda>a. Inr
     \<lparr>ca_name = ''controller.'' @ c_name c, ca_summary = c_summary c, ca_arguments = argument_schema a,
      ca_handler = ExecuteController, ca_supported_characters = c_characters c\<rparr>)"

definition runner_capabilities :: "controller_definition list \<Rightarrow> (string, profile) dict \<Rightarrow> capability list result" where
  "runner_capabilities manifest profiles =
     rbind (rmap controller_capability manifest) (\<lambda>controllers.
     Inr (map (\<lambda>d. if ca_name d = ''hunt.prepare''
              then d\<lparr>ca_supported_characters := sort_key id (map (\<lambda>(k, p). pf_character p) profiles)\<rparr> else d)
            capability_definitions @ controllers))"

definition capability_by_name :: "capability list \<Rightarrow> string \<Rightarrow> capability option" where
  \<comment> \<open>the dictionary of the definitions: the last one of a name\<close>
  "capability_by_name ds name = List.find (\<lambda>d. ca_name d = name) (rev ds)"

record capability_view =
  vw_name :: string
  vw_summary :: string
  vw_arguments :: pyval
  vw_supported_characters :: "string list"
  vw_available :: "bool option"

definition describe_capability :: "string option \<Rightarrow> capability \<Rightarrow> capability_view" where
  "describe_capability character d =
     (let supported = ca_supported_characters d;
          available = (case character of None \<Rightarrow> None
            | Some c \<Rightarrow> Some (supported = [] \<or> list_ex (\<lambda>n. casefold n = casefold (strip c)) supported))
      in \<lparr>vw_name = ca_name d, vw_summary = ca_summary d, vw_arguments = ca_arguments d, vw_supported_characters = supported,
          vw_available = (if ca_name d = ''hunt.prepare'' \<and> supported = [] then Some False else available)\<rparr>)"

definition describe_capabilities :: "capability list \<Rightarrow> string option \<Rightarrow> capability_view list" where
  "describe_capabilities ds character = map (describe_capability character) ds"

end
