(* ===== verification/OperationState.thy ===== *)
theory OperationState
  imports Capabilities ActionBroker Effects IsoTime
begin

text \<open>
  The state of \<open>CapabilityRunner\<close> (\<open>operations.py\<close>) and the primitives that its threads share.  An
  \<open>OperationRecord\<close> is an object that several threads hold: it lives in \<open>rn_records\<close> and is identified by
  its position; \<open>rn_operations\<close> is the history that maps operation ids to it.  The broker is the model of
  \<open>ActionBroker\<close>.  A worker is a program over this state.  Between two accesses the other threads act:
  \<open>oe_others\<close> is what they do while the runner's lock is free, \<open>oe_bridge\<close> what reaches the broker even
  while it is held.  The state and evidence adapters, clock and random ids are functions on the state
  \<open>'s\<close> of the surroundings; a registration of the evidence adapter is an opaque \<open>'g\<close>.
\<close>

section \<open>Records\<close>

record owned_location =
  ol_location_id :: string
  ol_kind :: string
  ol_owner :: string
  ol_verified_owned :: bool
  ol_safety_rank :: int
  ol_restore_command :: "string option"

record item_state =
  im_object_id :: string
  im_dossier_id :: string
  im_fingerprint :: string
  im_location :: owned_location

record hand_item =
  hi_object_id :: string
  hi_name :: string

record nearby_object =
  no_object_id :: string
  no_noun :: string
  no_name :: "string option"

record session_state =
  ss_character :: string
  ss_generation :: string
  ss_room_id :: string
  ss_items :: "item_state list"
  ss_fresh :: "bool option"
  ss_sequence :: "int option"
  ss_dead :: "bool option"
  ss_stunned :: "bool option"
  ss_wounds :: "(string \<times> (string \<times> pyval) list option) list option"
  ss_encumbrance :: pyval
  ss_hands :: "(string \<times> hand_item option) list option"
  ss_scripts :: "string list option"
  ss_owners :: "(string \<times> string option) list option"
  ss_nearby_creatures :: "nearby_object list option"
  ss_nearby_corpses :: "nearby_object list option"
  ss_script_status :: "(string \<times> string) list option"
  ss_character_data :: "(string \<times> pyval) list option"

record item_binding =
  ib_character :: string
  ib_generation :: string
  ib_object_id :: string
  ib_dossier_id :: string
  ib_fingerprint :: string
  ib_original_location :: owned_location

record evidence_record =
  ev_method :: string
  ev_generation :: string
  ev_object_id :: string
  ev_detail :: string
  ev_facts :: "(string \<times> pyval) list"
  ev_action_id :: "string option"

datatype op_status = OpRequested | OpAdmitted | OpRunning | OpSucceeded | OpFailed | OpTimedOut | OpInterrupted

fun op_status_str :: "op_status \<Rightarrow> string" where
  "op_status_str OpRequested = ''requested''"
| "op_status_str OpAdmitted = ''admitted''"
| "op_status_str OpRunning = ''running''"
| "op_status_str OpSucceeded = ''succeeded''"
| "op_status_str OpFailed = ''failed''"
| "op_status_str OpTimedOut = ''timed_out''"
| "op_status_str OpInterrupted = ''interrupted''"

definition terminal :: "op_status \<Rightarrow> bool" where
  "terminal st = (st \<in> {OpSucceeded, OpFailed, OpTimedOut, OpInterrupted})"

record operation_event =
  oev_cursor :: nat
  oev_operation_id :: string
  oev_status :: op_status
  oev_detail :: string
  oev_timestamp :: rat

record operation =
  op_operation_id :: string
  op_capability :: string
  op_character :: string
  op_arguments :: "(string \<times> pyval) list"
  op_status :: op_status
  op_requested_at :: rat
  op_deadline :: rat
  op_admitted_at :: "rat option"
  op_started_at :: "rat option"
  op_ended_at :: "rat option"
  op_start_state :: "session_state option"
  op_end_state :: "session_state option"
  op_binding :: "item_binding option"
  op_evidence :: "evidence_record list"
  op_alerts :: "string list"
  op_events :: "operation_event list"
  op_explanation :: string
  op_expected_generation :: "string option"

record refuge =
  rf_operation_id :: string
  rf_controller :: controller_definition
  rf_snapshot :: session_state
  rf_action_id :: string

record recovery_claim =
  rc_character :: string
  rc_controller :: string
  rc_previous_generation :: string
  rc_generation :: string
  rc_action_id :: string
  rc_room_id :: pyval
  rc_hands :: "string option \<times> string option"

record 's runner =
  rn_broker :: broker
  rn_world :: 's
  rn_records :: "operation list"
  rn_operations :: "(string, nat) dict"
  rn_interruptions :: "string set"
  rn_recon_actions :: "(string, string \<times> string) dict"
  rn_travel_actions :: "(string, string \<times> string) dict"
  rn_test_actions :: "(string, string \<times> string) dict"
  rn_controller_actions :: "(string, string \<times> string) dict"
  rn_graceful_stops :: "string set"
  rn_refuge_pending :: "(string, refuge) dict"
  rn_controller_controls :: "(string, string list) dict"
  rn_cursor :: nat

record ('s, 'g) operation_env =
  oe_others :: "'s runner \<Rightarrow> 's runner"
  oe_bridge :: "broker \<Rightarrow> 's \<Rightarrow> broker \<times> 's"
  oe_clock :: "'s \<Rightarrow> 's \<times> rat"
  oe_token :: "'s \<Rightarrow> 's \<times> string"
  oe_snapshot :: "string \<Rightarrow> 's \<Rightarrow> 's \<times> session_state result"
  oe_safest_locations :: "string \<Rightarrow> string \<Rightarrow> 's \<Rightarrow> 's \<times> owned_location list result"
  oe_register :: "string \<Rightarrow> string \<Rightarrow> item_binding \<Rightarrow> 's \<Rightarrow> 's \<times> 'g result"
  oe_verify :: "'g \<Rightarrow> string \<Rightarrow> 's \<Rightarrow> 's \<times> evidence_record option result"
  oe_register_controller :: "string \<Rightarrow> string \<Rightarrow> string \<Rightarrow> string \<Rightarrow> 's \<Rightarrow> 's \<times> 'g result"
  oe_verify_controller :: "'g \<Rightarrow> string \<Rightarrow> rat \<Rightarrow> 's \<Rightarrow> 's \<times> evidence_record option result"
  oe_verify_recovery :: "(recovery_claim \<Rightarrow> 's \<Rightarrow> 's \<times> pyval result) option" \<comment> \<open>\<open>getattr\<close> with its default\<close>
  oe_recovery_receipt :: "(string \<Rightarrow> string \<Rightarrow> string \<Rightarrow> 's \<Rightarrow> 's \<times> pyval result) option"
  oe_step_hook :: "((string \<times> pyval) list \<Rightarrow> session_state \<Rightarrow> broker \<Rightarrow> 's \<Rightarrow> broker \<times> 's \<times> unit result) option"
  oe_sleep :: "rat \<Rightarrow> 's \<Rightarrow> 's"
  oe_alert :: "string \<Rightarrow> 's \<Rightarrow> 's" \<comment> \<open>an exception of the sink is dropped\<close>
  oe_manifest :: "controller_definition list"
  oe_profiles :: "(string, profile) dict"
  oe_capabilities :: "capability list"
  oe_history_limit :: nat
  oe_poll_interval :: rat

definition runner_init :: "profile list \<Rightarrow> int \<Rightarrow> rat \<Rightarrow> ('s, 'g) operation_env \<Rightarrow> broker \<Rightarrow> 's
    \<Rightarrow> (('s, 'g) operation_env \<times> 's runner) result" where
  \<comment> \<open>the constructor: its environment with the profiles, capabilities and limits filled in, and the first state\<close>
  "runner_init profiles history_limit poll_interval env b w =
     (if history_limit < 1 then Inl (ValueError ''history_limit must be positive'')
      else if poll_interval \<le> 0 then Inl (ValueError ''action_poll_interval must be positive'')
      else rbind (profile_table profiles []) (\<lambda>ps.
        rbind (runner_capabilities (oe_manifest env) ps) (\<lambda>cs. Inr
          (env\<lparr>oe_profiles := ps, oe_capabilities := cs, oe_history_limit := nat history_limit, oe_poll_interval := poll_interval\<rparr>,
           \<lparr>rn_broker = b, rn_world = w, rn_records = [], rn_operations = [], rn_interruptions = {}, rn_recon_actions = [],
            rn_travel_actions = [], rn_test_actions = [], rn_controller_actions = [], rn_graceful_stops = {},
            rn_refuge_pending = [], rn_controller_controls = [], rn_cursor = 0\<rparr>))))"

section \<open>Steps of a worker\<close>

datatype failure = Failing | TimingOut | Interrupting

fun failure_status :: "failure \<Rightarrow> op_status" where
  "failure_status Failing = OpFailed"
| "failure_status TimingOut = OpTimedOut"
| "failure_status Interrupting = OpInterrupted"

datatype op_error =
    Abort failure string \<comment> \<open>\<open>_OperationAbort\<close>\<close>
  | Raised lab_error
  | StillRunning \<comment> \<open>the bound on the polls of a waiting loop is used up: the worker has not returned yet\<close>

type_synonym ('s, 'a) prog = "('s runner, op_error, 'a) eff"

definition raised :: "'a result \<Rightarrow> op_error + 'a" where
  "raised r = (case r of Inl e \<Rightarrow> Inl (Raised e) | Inr x \<Rightarrow> Inr x)"

definition fails :: "string \<Rightarrow> op_error" where
  "fails detail = Abort Failing detail"

definition others :: "('s, 'g) operation_env \<Rightarrow> ('s, unit) prog" where
  "others env = amodify (oe_others env)"

definition in_world :: "('s \<Rightarrow> 's \<times> 'a result) \<Rightarrow> ('s, 'a) prog" where
  \<comment> \<open>a call into the surroundings while the lock is held\<close>
  "in_world f = (\<lambda>s. case f (rn_world s) of (w, r) \<Rightarrow> (s\<lparr>rn_world := w\<rparr>, raised r))"

definition call_world :: "('s, 'g) operation_env \<Rightarrow> ('s \<Rightarrow> 's \<times> 'a result) \<Rightarrow> ('s, 'a) prog" where
  "call_world env f = abind (others env) (\<lambda>_. in_world f)"

definition pure_call :: "('s \<Rightarrow> 's \<times> 'a) \<Rightarrow> 's \<Rightarrow> 's \<times> 'a result" where
  "pure_call f w = (case f w of (w', x) \<Rightarrow> (w', Inr x))"

definition clock_locked :: "('s, 'g) operation_env \<Rightarrow> ('s, rat) prog" where
  "clock_locked env = in_world (pure_call (oe_clock env))"

definition clock_now :: "('s, 'g) operation_env \<Rightarrow> ('s, rat) prog" where
  "clock_now env = abind (others env) (\<lambda>_. clock_locked env)"

definition bridge :: "('s, 'g) operation_env \<Rightarrow> ('s, unit) prog" where
  "bridge env = amodify (\<lambda>s. case oe_bridge env (rn_broker s) (rn_world s) of (b, w) \<Rightarrow> s\<lparr>rn_broker := b, rn_world := w\<rparr>)"

definition in_broker :: "(broker \<Rightarrow> broker \<times> 'a result) \<Rightarrow> ('s, 'a) prog" where
  "in_broker f = (\<lambda>s. case f (rn_broker s) of (b, r) \<Rightarrow> (s\<lparr>rn_broker := b\<rparr>, raised r))"

definition broker_locked :: "('s, 'g) operation_env \<Rightarrow> (rat \<Rightarrow> broker \<Rightarrow> broker \<times> 'a result) \<Rightarrow> ('s, 'a) prog" where
  \<comment> \<open>a broker operation, with the reading of its clock, while the runner's lock is held\<close>
  "broker_locked env f = abind (bridge env) (\<lambda>_. abind (clock_locked env) (\<lambda>now. in_broker (f now)))"

definition call_broker :: "('s, 'g) operation_env \<Rightarrow> (rat \<Rightarrow> broker \<Rightarrow> broker \<times> 'a result) \<Rightarrow> ('s, 'a) prog" where
  "call_broker env f = abind (others env) (\<lambda>_. broker_locked env f)"

section \<open>Events and status\<close>

definition set_op :: "nat \<Rightarrow> (operation \<Rightarrow> operation) \<Rightarrow> 's runner \<Rightarrow> 's runner" where
  "set_op i f s = s\<lparr>rn_records := (rn_records s)[i := f (rn_records s ! i)]\<rparr>"

definition assign :: "nat \<Rightarrow> (operation \<Rightarrow> operation) \<Rightarrow> ('s, unit) prog" where
  "assign i f = amodify (set_op i f)"

definition with_op :: "nat \<Rightarrow> (operation \<Rightarrow> ('s, 'a) prog) \<Rightarrow> ('s, 'a) prog" where
  "with_op i f = (\<lambda>s. f (rn_records s ! i) s)"

definition emit_locked :: "('s, 'g) operation_env \<Rightarrow> nat \<Rightarrow> op_status \<Rightarrow> string \<Rightarrow> ('s, unit) prog" where
  "emit_locked env i status detail =
     abind (clock_locked env) (\<lambda>t. amodify (\<lambda>s. set_op i (\<lambda>r. r\<lparr>op_events := op_events r @
       [\<lparr>oev_cursor = Suc (rn_cursor s), oev_operation_id = op_operation_id r, oev_status = status, oev_detail = detail,
         oev_timestamp = t\<rparr>]\<rparr>) (s\<lparr>rn_cursor := Suc (rn_cursor s)\<rparr>)))"

definition progress_locked :: "('s, 'g) operation_env \<Rightarrow> nat \<Rightarrow> string \<Rightarrow> ('s, unit) prog" where
  "progress_locked env i detail = with_op i (\<lambda>r. emit_locked env i (op_status r) detail)"

definition progress :: "('s, 'g) operation_env \<Rightarrow> nat \<Rightarrow> string \<Rightarrow> ('s, unit) prog" where
  "progress env i detail = abind (others env) (\<lambda>_. progress_locked env i detail)"

definition raise_alert_locked :: "('s, 'g) operation_env \<Rightarrow> nat \<Rightarrow> string \<Rightarrow> ('s, unit) prog" where
  "raise_alert_locked env i detail =
     abind (assign i (\<lambda>r. r\<lparr>op_alerts := op_alerts r @ [detail]\<rparr>)) (\<lambda>_.
     abind (amodify (\<lambda>s. s\<lparr>rn_world := oe_alert env detail (rn_world s)\<rparr>)) (\<lambda>_.
     progress_locked env i (''alert: '' @ detail)))"

definition raise_alert :: "('s, 'g) operation_env \<Rightarrow> nat \<Rightarrow> string \<Rightarrow> ('s, unit) prog" where
  "raise_alert env i detail =
     abind (others env) (\<lambda>_.
     abind (assign i (\<lambda>r. r\<lparr>op_alerts := op_alerts r @ [detail]\<rparr>)) (\<lambda>_.
     abind (others env) (\<lambda>_.
     abind (amodify (\<lambda>s. s\<lparr>rn_world := oe_alert env detail (rn_world s)\<rparr>)) (\<lambda>_.
     progress env i (''alert: '' @ detail)))))"

definition allowed_transition :: "op_status \<Rightarrow> op_status \<Rightarrow> bool" where
  "allowed_transition old new = (case old of
      OpRequested \<Rightarrow> new \<in> {OpAdmitted, OpFailed, OpTimedOut, OpInterrupted}
    | OpAdmitted \<Rightarrow> new \<in> {OpRunning, OpFailed, OpTimedOut, OpInterrupted}
    | OpRunning \<Rightarrow> terminal new
    | _ \<Rightarrow> False)"

definition transition :: "('s, 'g) operation_env \<Rightarrow> nat \<Rightarrow> op_status \<Rightarrow> string \<Rightarrow> ('s, unit) prog" where
  "transition env i status detail = with_op i (\<lambda>r.
     if \<not> allowed_transition (op_status r) status
     then areturn (Inl (Raised (RuntimeError (''invalid operation transition '' @ op_status_str (op_status r) @ '' -> '' @ op_status_str status))))
     else abind (assign i (\<lambda>r. r\<lparr>op_status := status\<rparr>)) (\<lambda>_. emit_locked env i status detail))"

definition check_deadline_and_interruption :: "('s, 'g) operation_env \<Rightarrow> nat \<Rightarrow> bool \<Rightarrow> ('s, unit) prog" where
  "check_deadline_and_interruption env i allow_interrupt =
     abind (clock_now env) (\<lambda>now.
     abind (with_op i (\<lambda>r. aguard (now < op_deadline r) (Abort TimingOut ''operation timed out''))) (\<lambda>_.
     abind (others env) (\<lambda>_.
     with_op i (\<lambda>r s. aguard (\<not> (allow_interrupt \<and> op_operation_id r \<in> rn_interruptions s))
       (Abort Interrupting ''operation interrupted before next step'') s))))"

section \<open>Admission\<close>

definition overflows_float :: "int \<Rightarrow> bool" where
  \<comment> \<open>\<open>float(n)\<close> raises \<open>OverflowError\<close>\<close>
  "overflows_float n = (2 ^ 1024 - 2 ^ 970 \<le> \<bar>n\<bar>)"

lemma overflows_float_code [code]:
  "overflows_float n = (if \<bar>n\<bar> < 18446744073709551616 then False else 2 ^ 1024 - 2 ^ 970 \<le> \<bar>n\<bar>)"
  by (simp add: overflows_float_def)

definition timeout_of :: "pyval \<Rightarrow> rat result" where
  \<comment> \<open>the checks of \<open>timeout_seconds\<close>; \<open>float\<close> of an integer beyond the float range overflows\<close>
  "timeout_of v = (case v of
      PInt n \<Rightarrow> if overflows_float n then Inl OverflowError
        else if n \<le> 0 then Inl (ValidationError ''timeout_seconds must be positive'') else Inr (of_int n)
    | PFloat (Fin r) \<Rightarrow> if r \<le> 0 then Inl (ValidationError ''timeout_seconds must be positive'') else Inr r
    | PFloat _ \<Rightarrow> Inl (ValidationError ''timeout_seconds must be positive'')
    | _ \<Rightarrow> Inl (ValidationError ''timeout_seconds must be a number''))"

definition active_owner :: "string \<Rightarrow> 's runner \<Rightarrow> bool" where
  \<comment> \<open>a nonterminal operation of the history owns the character\<close>
  "active_owner character s = list_ex (\<lambda>(_, i). let r = rn_records s ! i in
     casefold (op_character r) = casefold character \<and> \<not> terminal (op_status r)) (rn_operations s)"

definition evictable :: "'s runner \<Rightarrow> string option" where
  "evictable s = map_option fst (List.find (\<lambda>(_, i). terminal (op_status (rn_records s ! i))) (rn_operations s))"

definition evict :: "string \<Rightarrow> 's runner \<Rightarrow> 's runner" where
  "evict k s = s\<lparr>rn_operations := ddel k (rn_operations s), rn_interruptions := rn_interruptions s - {k},
     rn_graceful_stops := rn_graceful_stops s - {k}\<rparr>"

definition admit_operation :: "('s, 'g) operation_env \<Rightarrow> operation \<Rightarrow> ('s, nat) prog" where
  \<comment> \<open>the critical section of \<open>_create_operation\<close>\<close>
  "admit_operation env r = (\<lambda>s.
     if active_owner (op_character r) s
     then (s, Inl (Raised (ValidationError (''a nonterminal operation already owns '' @ op_character r))))
     else case (if oe_history_limit env \<le> length (rn_operations s) then (case evictable s of
           None \<Rightarrow> Inl (Raised (ValidationError ''operation history is full of active work'')) | Some k \<Rightarrow> Inr (evict k s))
         else Inr s) of
       Inl e \<Rightarrow> (s, Inl e)
     | Inr s1 \<Rightarrow> (let i = length (rn_records s1) in
         abind (emit_locked env i OpRequested ''operation requested'') (\<lambda>_. areturn (Inr i))
           (s1\<lparr>rn_records := rn_records s1 @ [r], rn_operations := dput (op_operation_id r) i (rn_operations s1)\<rparr>)))"

record operation_request =
  or_character :: pyval
  or_capability :: pyval
  or_arguments :: "(string \<times> pyval) list"
  or_timeout_seconds :: pyval
  or_expected_generation :: pyval

definition blank_text :: "pyval \<Rightarrow> bool" where
  "blank_text v = (case v of PStr s \<Rightarrow> strip s = [] | _ \<Rightarrow> True)"

definition text_of :: "pyval \<Rightarrow> string" where
  "text_of v = (case v of PStr s \<Rightarrow> s | _ \<Rightarrow> [])"

definition create_operation :: "('s, 'g) operation_env \<Rightarrow> operation_request \<Rightarrow> ('s, nat) prog" where
  "create_operation env q =
     abind (aguard (\<not> blank_text (or_character q)) (Raised (ValidationError ''character must not be blank''))) (\<lambda>_.
     abind (aguard (\<not> blank_text (or_capability q)) (Raised (ValidationError ''capability must not be blank''))) (\<lambda>_.
     abind (aguard (or_expected_generation q = PNone \<or> \<not> blank_text (or_expected_generation q))
       (Raised (ValidationError ''expected_generation must not be blank''))) (\<lambda>_.
     abind (areturn (raised (timeout_of (or_timeout_seconds q)))) (\<lambda>duration.
     abind (clock_now env) (\<lambda>now.
     abind (call_world env (pure_call (oe_token env))) (\<lambda>token.
     abind (others env) (\<lambda>_.
     admit_operation env \<lparr>op_operation_id = token, op_capability = strip (text_of (or_capability q)),
       op_character = strip (text_of (or_character q)), op_arguments = or_arguments q, op_status = OpRequested,
       op_requested_at = now, op_deadline = now + duration, op_admitted_at = None, op_started_at = None, op_ended_at = None,
       op_start_state = None, op_end_state = None, op_binding = None, op_evidence = [], op_alerts = [], op_events = [],
       op_explanation = [],
       op_expected_generation = (if or_expected_generation q = PNone then None else Some (text_of (or_expected_generation q)))\<rparr>)))))))"

section \<open>Readers\<close>

definition find_operation :: "string \<Rightarrow> 's runner \<Rightarrow> nat result" where
  "find_operation k s = (case map_of (rn_operations s) k of
      None \<Rightarrow> Inl (ValidationError ''operation was not found'') | Some i \<Rightarrow> Inr i)"

definition operation_history :: "string option \<Rightarrow> 's runner \<Rightarrow> operation list" where
  "operation_history character s = (let records = map (\<lambda>(_, i). rn_records s ! i) (rn_operations s) in
     case character of None \<Rightarrow> records
     | Some c \<Rightarrow> filter (\<lambda>r. casefold (op_character r) = casefold c) records)"

definition events_after :: "nat \<Rightarrow> operation \<Rightarrow> operation_event list" where
  "events_after cursor r = filter (\<lambda>e. cursor < oev_cursor e) (op_events r)"

definition operation_events :: "string \<Rightarrow> int \<Rightarrow> 's runner \<Rightarrow> operation_event list result" where
  "operation_events k after_cursor s =
     (if after_cursor < 0 then Inl (ValidationError ''after_cursor must not be negative'')
      else rbind (find_operation k s) (\<lambda>i. Inr (events_after (nat after_cursor) (rn_records s ! i))))"

end
