(* ===== verification/OperationControl.thy ===== *)
theory OperationControl
  imports OperationState
begin

text \<open>
  The operations of \<open>CapabilityRunner\<close> that act on a running operation from outside or end it: the
  blocking read, the interrupt, the controller controls, the revocations and the finish.  A wake-up
  of the blocking read is the next reading of the monotonic clock with what the other threads did
  before the following one.
\<close>

section \<open>The blocking read\<close>

definition max_operation_wait :: rat where "max_operation_wait = 30"

fun wait_loop :: "string \<Rightarrow> nat \<Rightarrow> rat \<Rightarrow> (rat \<times> ('s runner \<Rightarrow> 's runner)) list \<Rightarrow> 's runner
    \<Rightarrow> ('s runner \<times> (operation_event list \<times> nat) result) option" where
  "wait_loop k cursor deadline [] s = None"
| "wait_loop k cursor deadline ((now, act) # ws) s = (case find_operation k s of
      Inl e \<Rightarrow> Some (s, Inl e)
    | Inr i \<Rightarrow> (let r = rn_records s ! i; evs = events_after cursor r in
        if evs \<noteq> [] \<or> terminal (op_status r) then Some (s, Inr (evs, i))
        else if deadline \<le> now then Some (s, Inr ([], i))
        else wait_loop k cursor deadline ws (act s)))"

definition wait_seconds :: "pyval \<Rightarrow> rat result" where
  "wait_seconds v = (case num_of v of
      None \<Rightarrow> Inl (ValidationError ''timeout_seconds must be a number'')
    | Some (Fin t) \<Rightarrow>
        if (case v of PInt n \<Rightarrow> overflows_float n | _ \<Rightarrow> False) then Inl OverflowError
        else if 0 \<le> t \<and> t \<le> max_operation_wait then Inr t
        else Inl (ValidationError ''timeout_seconds must be between 0 and 30'')
    | Some _ \<Rightarrow> Inl (ValidationError ''timeout_seconds must be between 0 and 30''))"

definition operation_wait :: "string \<Rightarrow> pyval \<Rightarrow> pyval \<Rightarrow> rat \<Rightarrow> (rat \<times> ('s runner \<Rightarrow> 's runner)) list \<Rightarrow> 's runner
    \<Rightarrow> ('s runner \<times> (operation_event list \<times> nat) result) option" where
  "operation_wait k after_cursor timeout start ws s = (case after_cursor of
      PInt c \<Rightarrow>
        if c < 0 then Some (s, Inl (ValidationError ''after_cursor must not be negative''))
        else (case wait_seconds timeout of
            Inl e \<Rightarrow> Some (s, Inl e) | Inr t \<Rightarrow> wait_loop k (nat c) (start + t) ws s)
    | _ \<Rightarrow> Some (s, Inl (ValidationError ''after_cursor must be an integer'')))"

section \<open>Ownership of actions\<close>

definition refuge_handoff :: "controller_definition \<Rightarrow> bool" where
  "refuge_handoff c = (handoff_kind c = PStr ''quick_refuge'' \<or> handoff_kind c = PStr ''controller_refuge'')"

definition capability_controller :: "('s, 'g) operation_env \<Rightarrow> operation \<Rightarrow> controller_definition result" where
  \<comment> \<open>\<open>self._controller_manifest.controller(operation.capability.removeprefix("controller."))\<close>\<close>
  "capability_controller env r = manifest_controller (oe_manifest env)
     (if starts_with ''controller.'' (op_capability r) then drop 11 (op_capability r) else op_capability r)"

definition refuge_controller :: "('s, 'g) operation_env \<Rightarrow> operation \<Rightarrow> controller_definition option result" where
  "refuge_controller env r =
     (if \<not> starts_with ''controller.'' (op_capability r) then Inr None
      else rbind (capability_controller env r) (\<lambda>c. Inr (if refuge_handoff c then Some c else None)))"

definition is_test_operation :: "('s, 'g) operation_env \<Rightarrow> operation \<Rightarrow> bool" where
  "is_test_operation env r = (starts_with ''controller.'' (op_capability r)
     \<and> (case capability_controller env r of Inl _ \<Rightarrow> False | Inr c \<Rightarrow> c_test_suite c \<noteq> None))"

definition owned_action :: "('s runner \<Rightarrow> (string, string \<times> string) dict) \<Rightarrow> nat \<Rightarrow> 's runner \<Rightarrow> (string \<times> string) option" where
  "owned_action field i s = map_of (field s) (op_operation_id (rn_records s ! i))"

definition ignore_reply :: "('s, 'a) prog \<Rightarrow> ('s, unit) prog" where
  "ignore_reply m = abind m (\<lambda>_. areturn (Inr ()))"

definition action_get :: "('s, 'g) operation_env \<Rightarrow> string \<Rightarrow> ('s, (string \<times> pyval) list) prog" where
  "action_get env action_id = call_broker env (get_action (PStr action_id))"

definition get_locked :: "('s, 'g) operation_env \<Rightarrow> string \<Rightarrow> ('s, (string \<times> pyval) list) prog" where
  "get_locked env action_id = broker_locked env (get_action (PStr action_id))"

section \<open>Revocation\<close>

definition stop_test_action :: "('s, 'g) operation_env \<Rightarrow> nat \<Rightarrow> ('s, unit) prog" where
  "stop_test_action env i =
     abind (others env) (\<lambda>_.
     abind (aread (owned_action rn_test_actions i)) (\<lambda>owned. case owned of
       None \<Rightarrow> areturn (Inr ())
     | Some (action_id, generation) \<Rightarrow> with_op i (\<lambda>r. ignore_reply (call_broker env
         (request_test_stop (PStr action_id) (PStr (op_character r)) (PStr generation))))))"

definition check_test_stop :: "('s, 'g) operation_env \<Rightarrow> nat \<Rightarrow> ('s, unit) prog" where
  "check_test_stop env i =
     abind (check_deadline_and_interruption env i True) (\<lambda>_.
     abind (others env) (\<lambda>_.
     abind (aread (owned_action rn_test_actions i)) (\<lambda>owned. case owned of
       None \<Rightarrow> areturn (Inr ())
     | Some (action_id, generation) \<Rightarrow> abind (action_get env action_id) (\<lambda>a.
         aguard (dget ''stop_requested'' a \<noteq> PBool True) (Abort Interrupting ''test stop requested; no success is published'')))))"

definition cancel_recon_action :: "('s, 'g) operation_env \<Rightarrow> nat \<Rightarrow> ('s, unit) prog" where
  "cancel_recon_action env i =
     abind (others env) (\<lambda>_.
     abind (aread (owned_action rn_recon_actions i)) (\<lambda>owned. case owned of
       None \<Rightarrow> areturn (Inr ())
     | Some (action_id, generation) \<Rightarrow>
         abind (with_op i (\<lambda>r. call_broker env (cancel (PStr action_id) (PStr (op_character r)) (PStr generation)))) (\<lambda>result.
         if truthy (dget ''cancelled'' result) then progress env i (''cancelled owned pending recon action '' @ action_id)
         else if dget ''status'' result = PStr ''dispatched''
         then raise_alert env i ''recon was already dispatched; sent commands cannot be unsent''
         else areturn (Inr ()))))"

definition cancel_travel_action :: "('s, 'g) operation_env \<Rightarrow> nat \<Rightarrow> ('s, unit) prog" where
  "cancel_travel_action env i =
     abind (others env) (\<lambda>_.
     abind (aread (owned_action rn_travel_actions i)) (\<lambda>owned. case owned of
       None \<Rightarrow> areturn (Inr ())
     | Some (action_id, generation) \<Rightarrow> with_op i (\<lambda>r. ignore_reply (call_broker env
         (cancel (PStr action_id) (PStr (op_character r)) (PStr generation))))))"

definition cancel_controls_locked :: "('s, 'g) operation_env \<Rightarrow> nat \<Rightarrow> bool \<Rightarrow> ('s, unit) prog" where
  \<comment> \<open>\<open>_cancel_controller_controls\<close>; the pending controls are revoked in some order of their set\<close>
  "cancel_controls_locked env i revoke_run =
     abind (aread (owned_action rn_controller_actions i)) (\<lambda>owned. case owned of
       None \<Rightarrow> areturn (Inr ())
     | Some (launch, generation) \<Rightarrow> with_op i (\<lambda>r.
         abind (aread (\<lambda>s. case map_of (rn_controller_controls s) (op_operation_id r) of None \<Rightarrow> [] | Some cs \<Rightarrow> cs)) (\<lambda>controls.
         abind (amodify (\<lambda>s. s\<lparr>rn_controller_controls := ddel (op_operation_id r) (rn_controller_controls s)\<rparr>)) (\<lambda>_.
         abind (aeach (\<lambda>c. ignore_reply (broker_locked env
                  (revoke_controller_control (PStr c) (PStr (op_character r)) (PStr generation)))) controls) (\<lambda>_.
         awhen revoke_run (ignore_reply (broker_locked env
           (revoke_controller_run (PStr launch) (PStr (op_character r)) (PStr generation)))))))))"

definition cancel_controls :: "('s, 'g) operation_env \<Rightarrow> nat \<Rightarrow> bool \<Rightarrow> ('s, unit) prog" where
  "cancel_controls env i revoke_run = abind (others env) (\<lambda>_. cancel_controls_locked env i revoke_run)"

section \<open>Interrupt\<close>

definition lookup_operation :: "string \<Rightarrow> ('s, nat) prog" where
  "lookup_operation k = (\<lambda>s. (s, raised (find_operation k s)))"

definition refuge_stop :: "('s, 'g) operation_env \<Rightarrow> nat \<Rightarrow> string \<Rightarrow> string \<Rightarrow> ('s, bool) prog" where
  \<comment> \<open>ask a dispatched refuge outing to return; False when the broker refuses\<close>
  "refuge_stop env i launch generation = with_op i (\<lambda>r s.
     case abind (broker_locked env (\<lambda>now b. (b, Inr now))) (\<lambda>now. broker_locked env (\<lambda>now2.
         request_controller_return (PStr launch) (PStr (op_character r)) (PStr generation) now now2)) s of
       (s1, Inl (Raised (ValidationError _))) \<Rightarrow> (s1, Inr False)
     | (s1, Inl e) \<Rightarrow> (s1, Inl e)
     | (s1, Inr _) \<Rightarrow>
         abind (amodify (\<lambda>s. s\<lparr>rn_graceful_stops := insert (op_operation_id r) (rn_graceful_stops s)\<rparr>)) (\<lambda>_.
         abind (cancel_controls_locked env i False) (\<lambda>_.
         abind (progress_locked env i ''stop requested; bounded local return to refuge pending'') (\<lambda>_.
         areturn (Inr True)))) s1)"

definition interrupt_locked :: "('s, 'g) operation_env \<Rightarrow> nat \<Rightarrow> ('s, bool) prog" where
  \<comment> \<open>the critical section: whether the caller is done with it\<close>
  "interrupt_locked env i = with_op i (\<lambda>r.
     if terminal (op_status r) then areturn (Inr True)
     else abind (aread (owned_action rn_controller_actions i)) (\<lambda>owned.
       abind (areturn (raised (if owned = None then Inr None else refuge_controller env r))) (\<lambda>refuge.
       abind (case (owned, refuge) of
           (Some (launch, generation), Some _) \<Rightarrow>
             abind (get_locked env launch) (\<lambda>a.
               if dget ''status'' a = PStr ''dispatched'' \<or> dget ''status'' a = PStr ''completed''
               then refuge_stop env i launch generation else areturn (Inr False))
         | _ \<Rightarrow> areturn (Inr False)) (\<lambda>graceful.
       if graceful then areturn (Inr True)
       else abind (amodify (\<lambda>s. s\<lparr>rn_interruptions := insert (op_operation_id r) (rn_interruptions s)\<rparr>)) (\<lambda>_.
         areturn (Inr False))))))"

definition interrupt :: "('s, 'g) operation_env \<Rightarrow> string \<Rightarrow> ('s, unit) prog" where
  "interrupt env k =
     abind (others env) (\<lambda>_.
     abind (lookup_operation k) (\<lambda>i.
     abind (others env) (\<lambda>_.
     abind (interrupt_locked env i) (\<lambda>over.
     awhen (\<not> over)
       (abind (cancel_recon_action env i) (\<lambda>_.
        abind (cancel_travel_action env i) (\<lambda>_.
        abind (stop_test_action env i) (\<lambda>_.
        cancel_controls env i True))))))))"

section \<open>Fresh state\<close>

definition fresh_session_check :: "operation \<Rightarrow> string option \<Rightarrow> int option \<Rightarrow> int option \<Rightarrow> session_state \<Rightarrow> op_error + unit" where
  \<comment> \<open>the checks of \<open>_require_fresh_session\<close> on a snapshot\<close>
  "fresh_session_check r expected_generation minimum_sequence after_sequence ss =
     (if casefold (ss_character ss) \<noteq> casefold (op_character r) then Inl (fails ''state belongs to another character'')
      else if ss_generation ss = [] then Inl (fails ''active session generation is unavailable'')
      else if op_expected_generation r \<noteq> None \<and> Some (ss_generation ss) \<noteq> op_expected_generation r
      then Inl (fails ''stale session generation'')
      else if expected_generation \<noteq> None \<and> Some (ss_generation ss) \<noteq> expected_generation
      then Inl (fails ''stale session generation'')
      else if ss_fresh ss \<noteq> Some True then Inl (fails ''fresh structured session state is required'')
      else case ss_sequence ss of None \<Rightarrow> Inl (fails ''snapshot sequence is unknown'')
      | Some n \<Rightarrow>
        if (case minimum_sequence of None \<Rightarrow> False | Some m \<Rightarrow> n < m) then Inl (fails ''snapshot sequence regressed'')
        else if (case after_sequence of None \<Rightarrow> False | Some m \<Rightarrow> n \<le> m) then Inl (fails ''verified post-state did not advance'')
        else Inr ())"

definition fresh_locked :: "('s, 'g) operation_env \<Rightarrow> nat \<Rightarrow> string option \<Rightarrow> int option \<Rightarrow> int option \<Rightarrow> ('s, session_state) prog" where
  "fresh_locked env i expected_generation minimum_sequence after_sequence = with_op i (\<lambda>r.
     abind (in_world (oe_snapshot env (op_character r))) (\<lambda>ss.
     abind (areturn (fresh_session_check r expected_generation minimum_sequence after_sequence ss)) (\<lambda>_.
     areturn (Inr ss))))"

definition require_fresh_session :: "('s, 'g) operation_env \<Rightarrow> nat \<Rightarrow> string option \<Rightarrow> int option \<Rightarrow> int option
    \<Rightarrow> ('s, session_state) prog" where
  "require_fresh_session env i expected_generation minimum_sequence after_sequence =
     abind (others env) (\<lambda>_. fresh_locked env i expected_generation minimum_sequence after_sequence)"

section \<open>Controller controls\<close>

definition submit_locked :: "('s, 'g) operation_env \<Rightarrow> action_proposal \<Rightarrow> ('s, (string \<times> pyval) list) prog" where
  "submit_locked env p =
     abind (in_world (pure_call (oe_token env))) (\<lambda>fresh. broker_locked env (\<lambda>now. submit p now fresh))"

definition ceiling_seconds :: "rat \<Rightarrow> int" where "ceiling_seconds x = \<lceil>x\<rceil>"

definition folded :: "string list \<Rightarrow> string set" where
  "folded names = set (map casefold names)"

definition validation :: "string \<Rightarrow> op_error" where
  "validation m = Raised (ValidationError m)"

definition abort_as_validation :: "op_error \<Rightarrow> ('s, 'a) prog" where
  \<comment> \<open>\<open>except _OperationAbort as error: raise ValidationError(error.detail)\<close>\<close>
  "abort_as_validation e = areturn (Inl (case e of Abort _ detail \<Rightarrow> validation detail | _ \<Rightarrow> e))"

definition control_ownership :: "controller_definition \<Rightarrow> session_state \<Rightarrow> op_error + unit" where
  "control_ownership c ss = (case (ss_owners ss, ss_scripts ss) of
      (Some owners, Some scripts) \<Rightarrow>
        if casefold (c_script c) \<notin> folded scripts then Inl (validation ''the registered controller is not running'')
        else if \<not> folded scripts \<inter> folded (c_owner_scripts c) \<subseteq> folded (c_control_owner_scripts c)
        then Inl (validation ''conflicting controller owner script is running'')
        else case List.find (\<lambda>lane. case map_of owners lane of Some (Some owner) \<Rightarrow> casefold owner \<notin> folded (c_control_owner_scripts c)
               | _ \<Rightarrow> True) (c_lanes c) of
            Some lane \<Rightarrow> Inl (validation (''controller ownership is not verified in '' @ lane))
          | None \<Rightarrow> Inr ()
    | _ \<Rightarrow> Inl (validation ''known controller ownership is required''))"

fun live_controls :: "('s, 'g) operation_env \<Rightarrow> string list \<Rightarrow> ('s, string list) prog" where
  \<comment> \<open>the controls that have not expired\<close>
  "live_controls env [] = areturn (Inr [])"
| "live_controls env (k # ks) =
     abind (get_locked env k) (\<lambda>a.
     abind (clock_locked env) (\<lambda>now.
     abind (live_controls env ks) (\<lambda>rest.
     areturn (Inr (if (case dget ''expires_at'' a of PFloat (Fin t) \<Rightarrow> now < t | _ \<Rightarrow> False) then k # rest else rest)))))"

definition controls_of :: "string \<Rightarrow> 's runner \<Rightarrow> string list" where
  "controls_of k s = (case map_of (rn_controller_controls s) k of None \<Rightarrow> [] | Some cs \<Rightarrow> cs)"

definition set_controls :: "string \<Rightarrow> string list \<Rightarrow> ('s, unit) prog" where
  "set_controls k cs = amodify (\<lambda>s. s\<lparr>rn_controller_controls := dput k cs (rn_controller_controls s)\<rparr>)"

record control_reply =
  cr_operation_id :: string
  cr_run_id :: string
  cr_control :: string
  cr_action :: "(string \<times> pyval) list"

definition submit_control :: "('s, 'g) operation_env \<Rightarrow> nat \<Rightarrow> string \<Rightarrow> string \<Rightarrow> string \<Rightarrow> string \<Rightarrow> controller_action \<Rightarrow> session_state
    \<Rightarrow> ('s, control_reply) prog" where
  \<comment> \<open>the end of the critical section of \<open>control_controller\<close>, once the state is verified\<close>
  "submit_control env i k ctl launch generation a ss = with_op i (\<lambda>r.
     abind (aread (controls_of k)) (\<lambda>pending.
     abind (set_controls k pending) (\<lambda>_.
     abind (live_controls env pending) (\<lambda>live.
     abind (set_controls k live) (\<lambda>_.
     abind (aguard (length live < 32) (validation ''controller control queue is full'')) (\<lambda>_.
     abind (areturn (raised (action_build a [(''run_id'', PStr launch)]))) (\<lambda>(command, _, _).
     abind (clock_locked env) (\<lambda>now.
     abind (aguard (now < op_deadline r) (validation ''controller operation expired before control admission'')) (\<lambda>_.
     abind (clock_locked env) (\<lambda>now2.
     abind (submit_locked env \<lparr>pr_character = op_character r, pr_command = Some command, pr_commands = [],
       pr_expected_room_id = Some (ss_room_id ss), pr_expected_generation = Some generation,
       pr_ttl_seconds = max 1 (min 5 (ceiling_seconds (op_deadline r - now))),
       pr_deadline = PFloat (Fin (min (op_deadline r) (now2 + 5))), pr_controller_deadline = PNone\<rparr>) (\<lambda>admitted.
     let action_id = py_str (dget ''action_id'' admitted) in
     abind (set_controls k (live @ [action_id])) (\<lambda>_.
     abind (progress_locked env i (ctl @ '' control admitted as '' @ action_id @ ''; application unverified'')) (\<lambda>_.
     areturn (Inr \<lparr>cr_operation_id = k, cr_run_id = launch, cr_control = ctl, cr_action = admitted\<rparr>))))))))))))))"

definition control_locked :: "('s, 'g) operation_env \<Rightarrow> nat \<Rightarrow> string \<Rightarrow> string \<Rightarrow> string \<Rightarrow> string \<Rightarrow> ('s, control_reply) prog" where
  "control_locked env i k character generation ctl = with_op i (\<lambda>r.
     abind (aread (\<lambda>s. map_of (rn_controller_actions s) k)) (\<lambda>owned. case owned of
       None \<Rightarrow> areturn (Inl (validation ''control does not match an active controller operation''))
     | Some (launch, owned_generation) \<Rightarrow>
         abind (aguard (casefold (op_character r) = casefold character \<and> generation = owned_generation)
           (validation ''control does not match an active controller operation'')) (\<lambda>_.
         abind (\<lambda>s. aguard (\<not> terminal (op_status r) \<and> k \<notin> rn_interruptions s \<and> \<not> (k \<in> rn_graceful_stops s \<and> ctl \<noteq> ''status''))
           (validation ''controller operation is no longer accepting controls'') s) (\<lambda>_.
         abind (clock_locked env) (\<lambda>now.
         abind (aguard (now < op_deadline r) (validation ''controller operation is no longer accepting controls'')) (\<lambda>_.
         abind (areturn (raised (capability_controller env r))) (\<lambda>c.
         abind (areturn (raised (controller_action_of c ctl))) (\<lambda>a.
         abind (aguard (a_kind a = ''control'') (validation ''control is not registered as an exact-run action'')) (\<lambda>_.
         abind (get_locked env launch) (\<lambda>launched.
         abind (aguard (dget ''status'' launched = PStr ''dispatched'' \<or> dget ''status'' launched = PStr ''completed'')
           (validation ''controller launch has not been dispatched'')) (\<lambda>_.
         abind (acatch (fresh_locked env i (Some owned_generation) None None) abort_as_validation) (\<lambda>ss.
         abind (areturn (control_ownership c ss)) (\<lambda>_.
         submit_control env i k ctl launch owned_generation a ss)))))))))))))"

definition control_controller :: "('s, 'g) operation_env \<Rightarrow> string \<Rightarrow> pyval \<Rightarrow> pyval \<Rightarrow> pyval \<Rightarrow> ('s, control_reply) prog" where
  "control_controller env k character expected_generation ctl =
     abind (aguard (is_str ctl \<and> text_of ctl \<in> set controller_controls) (validation ''unsupported controller control'')) (\<lambda>_.
     abind (aguard (is_str character \<and> is_str expected_generation)
       (validation ''control requires exact character and generation strings'')) (\<lambda>_.
     abind (others env) (\<lambda>_.
     abind (lookup_operation k) (\<lambda>i.
     abind (others env) (\<lambda>_.
     control_locked env i k (text_of character) (text_of expected_generation) (text_of ctl))))))"

section \<open>The end of an operation\<close>

definition holding_lock :: "('s, 'g) operation_env \<Rightarrow> ('s, 'g) operation_env" where
  \<comment> \<open>while the caller holds the runner's lock the other threads reach the broker only\<close>
  "holding_lock env = env\<lparr>oe_others := \<lambda>s. case oe_bridge env (rn_broker s) (rn_world s) of (b, w) \<Rightarrow> s\<lparr>rn_broker := b, rn_world := w\<rparr>\<rparr>"

definition finish :: "('s, 'g) operation_env \<Rightarrow> nat \<Rightarrow> op_status \<Rightarrow> string \<Rightarrow> ('s, unit) prog" where
  "finish env i status detail =
     abind (others env) (\<lambda>_.
     abind (with_op i (\<lambda>r. awhen (op_capability r = ''travel.go2'' \<and> status \<noteq> OpSucceeded)
       (raise_alert_locked env i ''Travel did not complete successfully; verify current location and ownership before further action.''))) (\<lambda>_.
     abind (with_op i (\<lambda>r s. (case map_of (rn_refuge_pending s) (casefold (op_character r)) of
         None \<Rightarrow> areturn (Inr ())
       | Some p \<Rightarrow> awhen (rf_operation_id p = op_operation_id r) (raise_alert_locked env i
           ''UNSAFE HANDOFF: refuge, equipment and owner release unverified; operator assistance required before another test'')) s)) (\<lambda>_.
     abind (clock_now env) (\<lambda>now.
     abind (assign i (\<lambda>r. r\<lparr>op_ended_at := Some now\<rparr>)) (\<lambda>_.
     abind (others env) (\<lambda>_.
     abind (transition env i status detail) (\<lambda>_.
     abind (others env) (\<lambda>_.
     abind (cancel_controls_locked env i (status \<noteq> OpSucceeded)) (\<lambda>_.
     with_op i (\<lambda>r. amodify (\<lambda>s. s\<lparr>rn_controller_actions := ddel (op_operation_id r) (rn_controller_actions s),
       rn_test_actions := ddel (op_operation_id r) (rn_test_actions s)\<rparr>)))))))))))"

definition error_name :: "lab_error \<Rightarrow> string" where
  "error_name e = (case e of
      ValidationError _ \<Rightarrow> ''ValidationError'' | ConfigurationError _ \<Rightarrow> ''ConfigurationError'' | ModelError _ \<Rightarrow> ''ModelError''
    | QuestionBusy _ \<Rightarrow> ''QuestionBusy'' | QuestionCapacity _ \<Rightarrow> ''QuestionCapacity''
    | QuestionInvalidated _ \<Rightarrow> ''QuestionInvalidated'' | QuestionTimeout _ \<Rightarrow> ''QuestionTimeout''
    | StateConflict _ \<Rightarrow> ''StateConflict'' | ValueError _ \<Rightarrow> ''ValueError'' | TypeError _ \<Rightarrow> ''TypeError''
    | KeyError _ \<Rightarrow> ''KeyError'' | AttributeError _ \<Rightarrow> ''AttributeError'' | RuntimeError _ \<Rightarrow> ''RuntimeError''
    | RecursionError \<Rightarrow> ''RecursionError'' | StopIteration \<Rightarrow> ''StopIteration'' | OverflowError \<Rightarrow> ''OverflowError''
    | NotRepresented \<Rightarrow> '''')"

definition error_text :: "lab_error \<Rightarrow> string" where
  \<comment> \<open>\<open>str(error)\<close>; the texts of the interpreter's own errors are left out\<close>
  "error_text e = (case e of
      ValidationError m \<Rightarrow> m | ConfigurationError m \<Rightarrow> m | ModelError m \<Rightarrow> m | QuestionBusy m \<Rightarrow> m | QuestionCapacity m \<Rightarrow> m
    | QuestionInvalidated m \<Rightarrow> m | QuestionTimeout m \<Rightarrow> m | StateConflict m \<Rightarrow> m | ValueError m \<Rightarrow> m | TypeError m \<Rightarrow> m
    | KeyError k \<Rightarrow> py_repr (PStr k) | AttributeError m \<Rightarrow> m | RuntimeError m \<Rightarrow> m | _ \<Rightarrow> '''')"

definition error_label :: "op_error \<Rightarrow> string" where
  \<comment> \<open>\<open>f"{type(error).__name__}: {error}"\<close>\<close>
  "error_label e = (case e of
      Abort _ detail \<Rightarrow> ''_OperationAbort: '' @ detail
    | Raised x \<Rightarrow> error_name x @ '': '' @ error_text x
    | StillRunning \<Rightarrow> '''')"

definition fail_unexpected :: "('s, 'g) operation_env \<Rightarrow> nat \<Rightarrow> op_error \<Rightarrow> ('s, unit) prog" where
  "fail_unexpected env i e = (let detail = ''operation worker failed: '' @ error_label e in
     abind (others env) (\<lambda>_.
     with_op i (\<lambda>r. if terminal (op_status r) then areturn (Inr ())
       else abind (assign i (\<lambda>r. r\<lparr>op_explanation := detail\<rparr>)) (\<lambda>_.
         abind (clock_locked env) (\<lambda>now.
         abind (assign i (\<lambda>r. r\<lparr>op_ended_at := Some now\<rparr>)) (\<lambda>_.
         abind (assign i (\<lambda>r. r\<lparr>op_status := OpFailed\<rparr>)) (\<lambda>_.
         emit_locked env i OpFailed detail)))))))"

end
