(* ===== verification/OperationChecks.thy ===== *)
theory OperationChecks
  imports OperationControl
begin

text \<open>
  The checks of \<open>CapabilityRunner\<close> that only read a snapshot, an evidence record or the arguments.  Each
  returns a value or the abort that the code raises, in the order of the code.
\<close>

definition req :: "bool \<Rightarrow> string \<Rightarrow> op_error + unit" where
  \<comment> \<open>\<open>if not b: raise _OperationAbort("failed", detail)\<close>\<close>
  "req b detail = (if b then Inr () else Inl (fails detail))"

definition each_ok :: "('a \<Rightarrow> op_error + unit) \<Rightarrow> 'a list \<Rightarrow> op_error + unit" where
  "each_ok f xs = rbind (rmap f xs) (\<lambda>_. Inr ())"

definition andthen :: "op_error + unit \<Rightarrow> op_error + 'a \<Rightarrow> op_error + 'a" where
  "andthen m n = rbind m (\<lambda>_. n)"

lemma req_Inr [simp]: "req b d = Inr u \<longleftrightarrow> b"
  by (simp add: req_def)

lemma andthen_Inr [simp]: "andthen m n = Inr x \<longleftrightarrow> m = Inr () \<and> n = Inr x"
  by (cases m) (simp_all add: andthen_def)

lemma rmapi_units: "(\<exists>ys. rmapi (\<lambda>_. f) k xs = Inr ys) \<longleftrightarrow> (\<forall>x \<in> set xs. f x = Inr ())"
proof (induction xs arbitrary: k)
  case (Cons x xs)
  show ?case
  proof (cases "f x")
    case (Inr u)
    then have "(\<exists>ys. rmapi (\<lambda>_. f) k (x # xs) = Inr ys) \<longleftrightarrow> (\<exists>ys. rmapi (\<lambda>_. f) (Suc k) xs = Inr ys)"
      by (auto simp: rbind_Inr_iff)
    with Inr Cons show ?thesis by simp
  qed simp
qed simp

lemma each_ok_Inr [simp]: "each_ok f xs = Inr u \<longleftrightarrow> (\<forall>x \<in> set xs. f x = Inr ())"
  using rmapi_units [of f 0 xs] by (auto simp: each_ok_def rmap_def rbind_Inr_iff)

section \<open>Hands, scripts and lanes\<close>

definition hand_id :: "session_state \<Rightarrow> string \<Rightarrow> op_error + string option" where
  "hand_id ss hand = (case ss_hands ss of
      None \<Rightarrow> Inl (fails ''refuge tests require both hand identities to be known'')
    | Some hands \<Rightarrow> (case map_of hands hand of
        None \<Rightarrow> Inl (fails ''refuge tests require both hand identities to be known'')
      | Some None \<Rightarrow> Inr None
      | Some (Some item) \<Rightarrow>
          if hi_object_id item = [] then Inl (fails ''refuge tests require exact held-item identities'')
          else Inr (Some (hi_object_id item))))"

definition hands_known :: "session_state \<Rightarrow> bool" where
  "hands_known ss = (case ss_hands ss of None \<Rightarrow> False | Some hands \<Rightarrow> map_of hands ''left'' \<noteq> None \<and> map_of hands ''right'' \<noteq> None)"

definition hand_ids :: "session_state \<Rightarrow> op_error + (string option \<times> string option)" where
  "hand_ids ss = andthen (req (hands_known ss) ''refuge tests require both hand identities to be known'')
     (rbind (hand_id ss ''left'') (\<lambda>l. rbind (hand_id ss ''right'') (\<lambda>r. Inr (l, r))))"

definition scripts_clear :: "session_state \<Rightarrow> string list \<Rightarrow> bool" where
  \<comment> \<open>the running scripts are known and none of them is one of \<open>names\<close>\<close>
  "scripts_clear ss names = (case ss_scripts ss of None \<Rightarrow> False | Some scripts \<Rightarrow> folded scripts \<inter> folded names = {})"

definition lane_owner :: "session_state \<Rightarrow> string \<Rightarrow> string option option" where
  \<comment> \<open>None: the lane is not known\<close>
  "lane_owner ss lane = (case ss_owners ss of None \<Rightarrow> None | Some owners \<Rightarrow> map_of owners lane)"

definition lane_released :: "(string \<Rightarrow> string) \<Rightarrow> (string \<Rightarrow> string \<Rightarrow> string) \<Rightarrow> session_state \<Rightarrow> string \<Rightarrow> op_error + unit" where
  "lane_released unknown held ss lane = (case lane_owner ss lane of
      None \<Rightarrow> Inl (fails (unknown lane)) | Some None \<Rightarrow> Inr () | Some (Some owner) \<Rightarrow> Inl (fails (held lane owner)))"

definition sorted_lanes :: "string list \<Rightarrow> string list" where
  "sorted_lanes lanes = sort_key id lanes"

section \<open>Travel\<close>

definition validate_travel_state :: "session_state \<Rightarrow> op_error + unit" where
  "validate_travel_state ss =
     andthen (req (ss_dead ss = Some False \<and> ss_stunned ss = Some False) ''travel requires verified survival and no stun'')
     (andthen (req (ss_scripts ss \<noteq> None \<and> ss_owners ss \<noteq> None) ''travel requires known script ownership'')
     (andthen (req (scripts_clear ss [''go2'']) ''an existing go2 cannot be adopted or replaced'')
     (req (\<forall>lane \<in> {''movement'', ''combat'', ''inventory''}. lane_owner ss lane = Some None)
       ''travel requires released movement, combat and inventory owners'')))"

definition script_completed :: "session_state \<Rightarrow> string \<Rightarrow> string \<Rightarrow> bool" where
  \<comment> \<open>\<open>script_status.get(name) == f"completed:{action_id}"\<close>\<close>
  "script_completed ss name action_id = (case ss_script_status ss of None \<Rightarrow> False
     | Some status \<Rightarrow> map_of status name = Some (''completed:'' @ action_id))"

section \<open>Controllers\<close>

definition validate_controller_start :: "session_state \<Rightarrow> controller_definition \<Rightarrow> op_error + unit" where
  "validate_controller_start ss c =
     andthen (req (ss_dead ss = Some False) ''known alive state is required'')
     (andthen (req (ss_stunned ss = Some False) ''known unstunned state is required'')
     (andthen (req (ss_owners ss \<noteq> None) ''known ownership state is required'')
     (andthen (each_ok (lane_released (\<lambda>lane. ''ownership lane '' @ lane @ '' is unknown'')
         (\<lambda>lane owner. ''ownership conflict in '' @ lane @ '': '' @ owner) ss) (sorted_lanes (c_lanes c)))
     (if refuge_handoff c then
        andthen (req (Some (ss_room_id ss) = safe_room c []) ''refuge test must begin in the registered safe room'')
        (andthen (rbind (hand_ids ss) (\<lambda>_. Inr ()))
        (req (scripts_clear ss (c_owner_scripts c)) ''refuge test requires known, exited controller owner scripts''))
      else Inr ()))))"

definition validate_test_state :: "session_state \<Rightarrow> controller_definition \<Rightarrow> op_error + unit" where
  "validate_test_state ss c =
     andthen (req (Some (ss_room_id ss) = safe_room c []) ''test requires the registered allowed room'')
     (andthen (req (ss_dead ss = Some False \<and> ss_stunned ss = Some False) ''test requires known alive and unstunned state'')
     (andthen (req (ss_scripts ss \<noteq> None) ''test requires known script ownership'')
     (req (scripts_clear ss (c_owner_scripts c)) ''test owner scripts have not exited'')))"

definition validate_recovery_candidate :: "session_state \<Rightarrow> op_error + unit" where
  "validate_recovery_candidate ss =
     andthen (req (ss_dead ss = Some False \<and> ss_stunned ss = Some False) ''controller recovery requires known alive and unstunned state'')
     (andthen (rbind (hand_ids ss) (\<lambda>_. Inr ()))
     (andthen (req (case ss_owners ss of None \<Rightarrow> False | Some owners \<Rightarrow> list_all (\<lambda>(_, owner). owner = None) owners)
       ''controller recovery requires every published owner lane released'')
     (req (ss_scripts ss \<noteq> None) ''controller recovery requires known script ownership'')))"

definition verify_controller_evidence :: "evidence_record \<Rightarrow> controller_definition \<Rightarrow> string \<Rightarrow> string \<Rightarrow> bool \<Rightarrow> op_error + unit" where
  "verify_controller_evidence ev c generation action_id require_success = (let facts = ev_facts ev in
     andthen (req (ev_method ev = ''controller.'' @ c_name c \<and> ev_generation ev = generation \<and> ev_object_id ev = c_name c
         \<and> ev_action_id ev = Some action_id) ''controller result evidence did not match the operation'')
     (andthen (req (is_bool (dget ''ok'' facts) \<and> is_str (dget ''code'' facts) \<and> is_str (dget ''message'' facts)
         \<and> is_dict (dget ''details'' facts)) ''controller result evidence is malformed'')
     (req (require_success \<longrightarrow> dget ''ok'' facts = PBool True)
       (''controller failed: '' @ py_str (dget ''code'' facts) @ '': '' @ py_str (dget ''message'' facts)))))"

definition dict_of :: "pyval \<Rightarrow> (string \<times> pyval) list" where
  "dict_of v = (case v of PDict d \<Rightarrow> d | _ \<Rightarrow> [])"

definition details_of :: "evidence_record \<Rightarrow> (string \<times> pyval) list" where
  "details_of ev = dict_of (dget ''details'' (ev_facts ev))"

definition exact_int :: "pyval \<Rightarrow> bool" where
  \<comment> \<open>\<open>type(v) is int\<close>\<close>
  "exact_int v = (case v of PInt _ \<Rightarrow> True | _ \<Rightarrow> False)"

definition run_ended :: "evidence_record \<Rightarrow> bool" where
  \<comment> \<open>the details of the evidence name its own run, a complete cleanup and a terminal runtime\<close>
  "run_ended ev = (let d = details_of ev; runtime = dict_of (dget ''runtime'' d) in
     (case ev_action_id ev of None \<Rightarrow> dget ''run_id'' d = PNone | Some a \<Rightarrow> dget ''run_id'' d = PStr a)
     \<and> dget ''cleanup_complete'' d = PBool True \<and> is_dict (dget ''runtime'' d)
     \<and> dget ''state'' runtime \<in> {PStr ''completed'', PStr ''stopped''})"

definition refuge_proof :: "evidence_record \<Rightarrow> string option \<Rightarrow> bool" where
  "refuge_proof ev room = (let runtime = dict_of (dget ''runtime'' (details_of ev)); r = dict_of (dget ''refuge'' runtime) in
     run_ended ev \<and> is_dict (dget ''work_result'' runtime) \<and> is_dict (dget ''refuge'' runtime) \<and> exact_int (dget ''room_id'' r)
     \<and> Some (py_str (dget ''room_id'' r)) = room \<and> dget ''phase'' r = PStr ''finished''
     \<and> dget ''returned'' r = PBool True \<and> dget ''equipment_restored'' r = PBool True)"

definition area_modes :: "pyval set" where
  "area_modes = {PStr ''watch'', PStr ''assist'', PStr ''seek'', PStr ''clear'', PStr ''trial''}"

definition area_proof :: "evidence_record \<Rightarrow> session_state \<Rightarrow> string option \<Rightarrow> bool" where
  "area_proof ev ss launch_room = (let runtime = dict_of (dget ''runtime'' (details_of ev)); a = dict_of (dget ''area'' runtime) in
     run_ended ev \<and> dget ''mode'' runtime \<in> area_modes \<and> is_dict (dget ''area'' runtime) \<and> dget ''kind'' a = PStr ''profile''
     \<and> dget ''in_bounds'' a = PBool True \<and> exact_int (dget ''room_id'' a) \<and> py_str (dget ''room_id'' a) = ss_room_id ss
     \<and> exact_int (dget ''start_room_id'' a) \<and> (case dget ''room_count'' a of PInt n \<Rightarrow> 0 < n | _ \<Rightarrow> False)
     \<and> (case dget ''boundary_room_ids'' a of PList rooms \<Rightarrow> list_all exact_int rooms | _ \<Rightarrow> False)
     \<and> \<not> (dget ''mode'' runtime \<in> {PStr ''clear'', PStr ''trial''} \<and> Some (ss_room_id ss) \<noteq> launch_room))"

definition verify_controller_handoff :: "session_state \<Rightarrow> controller_definition \<Rightarrow> (string \<times> pyval) list \<Rightarrow> evidence_record option
    \<Rightarrow> string option \<Rightarrow> op_error + unit" where
  "verify_controller_handoff ss c arguments evidence launch_room = (let room = safe_room c arguments in
     andthen (req (ss_owners ss \<noteq> None) ''post-state ownership is unknown'')
     (andthen (each_ok (lane_released (\<lambda>lane. ''post-state ownership lane '' @ lane @ '' is unknown'')
         (\<lambda>lane _. ''controller did not release '' @ lane @ '' ownership'') ss) (sorted_lanes (c_lanes c)))
     (andthen (req (room = None \<or> room = Some (ss_room_id ss))
         (''controller did not return to safe room '' @ (case room of None \<Rightarrow> [] | Some x \<Rightarrow> x)))
     (andthen (if refuge_handoff c then
        andthen (validate_controller_start ss c)
          (req (case evidence of None \<Rightarrow> False | Some ev \<Rightarrow> refuge_proof ev room)
            ''refuge handoff lacks matching terminal return and equipment proof'')
      else Inr ())
     (if handoff_kind c = PStr ''quick_area'' then
        andthen (req (ss_dead ss = Some False \<and> ss_stunned ss = Some False) ''bounded field handoff requires alive and unstunned state'')
        (andthen (req (case evidence of None \<Rightarrow> False | Some ev \<Rightarrow> area_proof ev ss launch_room)
            ''bounded field handoff lacks matching exact-run terminal area proof'')
        (req (scripts_clear ss (c_owner_scripts c)) ''bounded field handoff requires controller owner scripts to exit''))
      else Inr ())))))"

section \<open>Character records\<close>

definition record_timestamp :: "pyval \<Rightarrow> rat option" where
  "record_timestamp v = (case v of
      PDict d \<Rightarrow> (case dget ''observed_at'' d of PStr s \<Rightarrow> iso_timestamp (replace_z s) | _ \<Rightarrow> None)
    | _ \<Rightarrow> None)"

definition character_records :: "session_state \<Rightarrow> (string \<times> pyval) list" where
  "character_records ss = (case ss_character_data ss of None \<Rightarrow> [] | Some d \<Rightarrow> d)"

definition complete_record :: "string \<Rightarrow> pyval \<Rightarrow> bool" where
  "complete_record category v = (case v of
      PDict d \<Rightarrow> dget ''source'' d = PStr category \<and> dget ''complete'' d = PBool True
        \<and> (case dget ''values'' d of PDict vs \<Rightarrow> vs \<noteq> [] | _ \<Rightarrow> False)
    | _ \<Rightarrow> False)"

definition new_record :: "session_state \<Rightarrow> session_state \<Rightarrow> rat \<Rightarrow> rat \<Rightarrow> string \<Rightarrow> op_error + (string \<times> pyval) list option" where
  \<comment> \<open>the record of one category, None unless it is complete and newly observed\<close>
  "new_record current start requested_at observed_before category =
     (let v = dget category (character_records current);
          observed = record_timestamp v; prior = record_timestamp (dget category (character_records start)) in
      if \<not> complete_record category v then Inr None
      else case observed of None \<Rightarrow> Inr None
      | Some t \<Rightarrow>
          if observed_before < t then Inl (fails (category @ '' capture timestamp is in the future''))
          else if t < requested_at \<or> (case prior of None \<Rightarrow> False | Some p \<Rightarrow> t \<le> p) then Inr None
          else Inr (Some (dict_of v)))"

fun new_records :: "session_state \<Rightarrow> session_state \<Rightarrow> rat \<Rightarrow> rat \<Rightarrow> string list \<Rightarrow> op_error + (string \<times> (string \<times> pyval) list) list option" where
  "new_records current start requested_at observed_before [] = Inr (Some [])"
| "new_records current start requested_at observed_before (c # cs) =
     rbind (new_record current start requested_at observed_before c) (\<lambda>found. case found of
       None \<Rightarrow> Inr None
     | Some d \<Rightarrow> rbind (new_records current start requested_at observed_before cs)
         (\<lambda>rest. Inr (map_option (Cons (c, d)) rest)))"

definition levels_agree :: "session_state \<Rightarrow> string list \<Rightarrow> bool" where
  "levels_agree ss categories =
     (case (dget ''skills'' (character_records ss), dget ''info'' (character_records ss)) of
        (PDict skills, PDict info) \<Rightarrow>
          let level = dget ''level'' (dict_of (dget ''values'' info)) in
          ''skills'' \<in> set categories \<and> level \<noteq> PNone \<longrightarrow> py_eq level (dget ''observed_level'' skills)
      | _ \<Rightarrow> True)"

definition recon_records :: "session_state \<Rightarrow> session_state \<Rightarrow> string list \<Rightarrow> rat \<Rightarrow> rat
    \<Rightarrow> op_error + (string \<times> (string \<times> pyval) list) list option" where
  "recon_records current start categories requested_at observed_before =
     rbind (new_records current start requested_at observed_before categories) (\<lambda>found. case found of
       None \<Rightarrow> Inr None
     | Some records \<Rightarrow> Inr (if levels_agree current categories then Some records else None))"

definition recon_evidence :: "operation \<Rightarrow> session_state \<Rightarrow> string \<Rightarrow> string \<times> (string \<times> pyval) list \<Rightarrow> evidence_record" where
  "recon_evidence r current action_id = (\<lambda>(category, values). \<lparr>ev_method = ''character.'' @ category,
     ev_generation = ss_generation current, ev_object_id = op_character r,
     ev_detail = ''new complete '' @ category @ '' response observed in advancing snapshot'',
     ev_facts = fold (\<lambda>(k, v) d. dput k v d) values [(''category'', PStr category),
       (''snapshot_sequence'', case ss_sequence current of None \<Rightarrow> PNone | Some n \<Rightarrow> PInt n)],
     ev_action_id = Some action_id\<rparr>)"

definition recon_categories :: "(string \<times> pyval) list \<Rightarrow> op_error + string list" where
  \<comment> \<open>the requested categories, \<open>info\<close> before \<open>skills\<close>\<close>
  "recon_categories arguments =
     andthen (req (set (dkeys arguments) \<subseteq> {''categories''}) ''character.recon accepts only categories'')
     (let bad = Inl (fails ''categories must contain one or two unique values: info, skills'') in
      case dget_or ''categories'' (PList [PStr ''info'', PStr ''skills'']) arguments of
        PList xs \<Rightarrow> if 1 \<le> length xs \<and> length xs \<le> 2 \<and> set xs \<subseteq> {PStr ''info'', PStr ''skills''} \<and> distinct xs
          then Inr (filter (\<lambda>n. PStr n \<in> set xs) [''info'', ''skills'']) else bad
      | _ \<Rightarrow> bad)"

section \<open>Hunting and looting\<close>

definition no_owner_conflicts :: "session_state \<Rightarrow> script_adapter \<Rightarrow> op_error + unit" where
  "no_owner_conflicts ss a =
     andthen (req (ss_owners ss \<noteq> None) ''known ownership state is required'')
     (each_ok (\<lambda>lane. case lane_owner ss lane of
        None \<Rightarrow> Inl (fails (''ownership lane '' @ lane @ '' is unknown''))
      | Some None \<Rightarrow> Inr ()
      | Some (Some owner) \<Rightarrow> req (casefold owner = sa_name a) (''ownership conflict in '' @ lane @ '': '' @ owner))
        (sorted_lanes (sa_ownership_lanes a)))"

definition owns_lanes :: "session_state \<Rightarrow> script_adapter \<Rightarrow> op_error + unit" where
  "owns_lanes ss a = (case (ss_scripts ss, ss_owners ss) of
      (Some scripts, Some owners) \<Rightarrow>
        andthen (req (sa_name a \<in> folded scripts) (sa_name a @ '' is not verified running''))
        (each_ok (\<lambda>lane. req (case map_of owners lane of Some (Some owner) \<Rightarrow> casefold owner = sa_name a | _ \<Rightarrow> False)
          (sa_name a @ '' does not own '' @ lane @ '' in post-state'')) (sorted_lanes (sa_ownership_lanes a)))
    | _ \<Rightarrow> Inl (fails ''post-state script ownership is unknown''))"

definition wound_level :: "string \<times> (string \<times> pyval) list option \<Rightarrow> op_error + (string \<times> int)" where
  "wound_level = (\<lambda>(part, levels). case levels of
      None \<Rightarrow> Inl (fails ''wound severity is unknown'')
    | Some d \<Rightarrow> (case dget ''wound'' d of PInt n \<Rightarrow> Inr (part, n) | _ \<Rightarrow> Inl (fails ''wound severity is unknown'')))"

definition severe_wounds :: "profile \<Rightarrow> session_state \<Rightarrow> op_error + (string \<times> int) list" where
  "severe_wounds p ss = (case ss_wounds ss of
      None \<Rightarrow> Inl (fails ''known wound state is required'')
    | Some wounds \<Rightarrow> rbind (rmap wound_level wounds) (\<lambda>levels. Inr (filter (\<lambda>(_, n). pf_severe_wound_level p \<le> n) levels)))"

definition held_item_names :: "session_state \<Rightarrow> string set" where
  "held_item_names ss = (case ss_hands ss of None \<Rightarrow> {}
     | Some hands \<Rightarrow> set (List.map_filter (\<lambda>(_, item). map_option (\<lambda>i. normalize_item_name (hi_name i)) item) hands))"

definition encumbrance_safe :: "profile \<Rightarrow> session_state \<Rightarrow> bool" where
  "encumbrance_safe p ss = (case pf_encumbrance_emergency p of
      PInt limit \<Rightarrow> (case ss_encumbrance ss of PInt n \<Rightarrow> n < limit | _ \<Rightarrow> False)
    | _ \<Rightarrow> True)"

definition hunt_readiness :: "session_state \<Rightarrow> profile \<Rightarrow> script_adapter \<Rightarrow> op_error + unit" where
  "hunt_readiness ss p a =
     andthen (req (ss_dead ss = Some False) ''known alive state is required'')
     (andthen (req (ss_stunned ss = Some False) ''known unstunned state is required'')
     (rbind (severe_wounds p ss) (\<lambda>severe.
     andthen (req (severe = []) (''severe wounds prevent hunting: '' @ py_str (PDict (map (\<lambda>(k, n). (k, PInt n)) severe))))
     (andthen (req (ss_hands ss \<noteq> None) ''known hand state is required'')
     (andthen (req (held_item_names ss \<inter> set (map normalize_item_name (pf_expected_hand_item_names p)) \<noteq> {})
         (''expected '' @ pf_expected_hand_item_label p @ '' is not in hand''))
     (andthen (req (encumbrance_safe p ss) ''known encumbrance below the configured emergency threshold is required'')
     (no_owner_conflicts ss a)))))))"

definition corpse_ids :: "session_state \<Rightarrow> string list" where
  "corpse_ids ss = (case ss_nearby_corpses ss of None \<Rightarrow> [] | Some cs \<Rightarrow> map no_object_id cs)"

definition eloot_status :: "session_state \<Rightarrow> string option" where
  "eloot_status ss = (case ss_script_status ss of None \<Rightarrow> None | Some status \<Rightarrow> map_of status (sa_name eloot_adapter))"

definition clean_eloot :: "session_state \<Rightarrow> bool" where
  "clean_eloot ss = (scripts_clear ss [sa_name eloot_adapter] \<and> (case eloot_status ss of None \<Rightarrow> True
     | Some st \<Rightarrow> casefold st \<in> {''idle'', ''stopped''} \<or> starts_with ''completed:'' (casefold st)))"

definition room_loot_start :: "session_state \<Rightarrow> string set option \<Rightarrow> op_error + string set" where
  "room_loot_start ss expected =
     andthen (req (ss_nearby_creatures ss \<noteq> None) ''known nearby creature state is required'')
     (andthen (req (ss_nearby_creatures ss = Some []) ''live creatures prevent room.loot'')
     (andthen (req (ss_nearby_corpses ss \<noteq> None) ''known nearby corpse state is required'')
     (andthen (req (ss_scripts ss \<noteq> None \<and> ss_script_status ss \<noteq> None) ''known script execution state is required'')
     (andthen (req (clean_eloot ss) ''a clean ELoot execution baseline is required'')
     (andthen (req (corpse_ids ss \<noteq> [] \<and> [] \<notin> set (corpse_ids ss) \<and> distinct (corpse_ids ss)) ''room.loot requires exact corpse IDs'')
     (andthen (req (case expected of None \<Rightarrow> True | Some ids \<Rightarrow> set (corpse_ids ss) = ids) ''starting exact corpse set changed'')
     (Inr (set (corpse_ids ss)))))))))"

definition room_loot_end :: "session_state \<Rightarrow> string set \<Rightarrow> string \<Rightarrow> op_error + unit" where
  "room_loot_end ss starting action_id =
     andthen (req (ss_nearby_creatures ss = Some []) ''post-state is unknown or live creatures are present'')
     (andthen (req (ss_nearby_corpses ss \<noteq> None) ''post-state corpse IDs are unknown'')
     (let remaining = filter (\<lambda>k. k \<in> starting) (remdups (corpse_ids ss)) in
      andthen (req (remaining = []) (''starting corpse IDs remain after ELoot: '' @ py_str (PList (map PStr (sort_key id remaining)))))
     (andthen (req (ss_script_status ss \<noteq> None) ''ELoot completion state is unknown'')
     (andthen (req (map_option casefold (eloot_status ss) = Some (casefold (''completed:'' @ action_id))) ''ELoot completion was not verified'')
     (andthen (req (ss_scripts ss \<noteq> None) ''post-state running scripts are unknown'')
     (req (scripts_clear ss [sa_name eloot_adapter]) ''ELoot has not finished''))))))"

section \<open>Items\<close>

definition is_owned_location :: "string \<Rightarrow> owned_location \<Rightarrow> bool" where
  "is_owned_location character l = (ol_location_id l \<noteq> [] \<and> ol_verified_owned l \<and> casefold (ol_owner l) = casefold character)"

definition exact_item :: "session_state \<Rightarrow> item_binding \<Rightarrow> op_error + item_state" where
  "exact_item ss b = (case filter (\<lambda>im. im_object_id im = ib_object_id b) (ss_items ss) of
      [im] \<Rightarrow> if im_dossier_id im \<noteq> ib_dossier_id b \<or> im_fingerprint im \<noteq> ib_fingerprint b
        then Inl (fails ''item dossier/fingerprint changed'') else Inr im
    | ims \<Rightarrow> Inl (fails (''ambiguous item identity for live object #'' @ ib_object_id b @ '': found '' @ nat_str (length ims))))"

definition verify_binding :: "session_state \<Rightarrow> item_binding \<Rightarrow> op_error + unit" where
  "verify_binding ss b =
     andthen (req (casefold (ss_character ss) = casefold (ib_character b)) ''character changed during operation'')
     (andthen (req (ss_generation ss = ib_generation b) ''stale session generation'')
     (rbind (exact_item ss b) (\<lambda>im.
     req (is_owned_location (ib_character b) (im_location im)) ''item location is not positively identified as owned'')))"

definition bind_item :: "string \<Rightarrow> string \<Rightarrow> session_state \<Rightarrow> op_error + item_binding" where
  "bind_item character object_id ss =
     andthen (req (casefold (ss_character ss) = casefold character) ''state belongs to another character'')
     (andthen (req (ss_generation ss \<noteq> []) ''active session generation is unavailable'')
     (case filter (\<lambda>im. im_object_id im = object_id) (ss_items ss) of
        [im] \<Rightarrow>
          andthen (req (im_dossier_id im \<noteq> [] \<and> im_fingerprint im \<noteq> []) ''item dossier/fingerprint is incomplete'')
          (andthen (req (is_owned_location character (im_location im)) ''item location is not positively identified as owned'')
          (Inr \<lparr>ib_character = character, ib_generation = ss_generation ss, ib_object_id = object_id,
             ib_dossier_id = im_dossier_id im, ib_fingerprint = im_fingerprint im, ib_original_location = im_location im\<rparr>))
      | ims \<Rightarrow> Inl (fails (''ambiguous item identity: expected one live object #'' @ object_id @ '', found '' @ nat_str (length ims)))))"

fun references_object :: "string \<Rightarrow> char option \<Rightarrow> string \<Rightarrow> bool" where
  \<comment> \<open>\<open>(?<![0-9])#ID(?![0-9])\<close> occurs, after the character \<open>past\<close>; \<open>target\<close> is \<open>#ID\<close>\<close>
  "references_object target past [] = False"
| "references_object target past (c # s) =
     ((case past of None \<Rightarrow> True | Some p \<Rightarrow> \<not> is_ascii_digit p) \<and> starts_with target (c # s)
        \<and> (case drop (length target) (c # s) of [] \<Rightarrow> True | d # _ \<Rightarrow> \<not> is_ascii_digit d)
      \<or> references_object target (Some c) s)"

definition parse_audit_methods :: "pyval \<Rightarrow> op_error + string list" where
  "parse_audit_methods raw = (case raw of
      PList xs \<Rightarrow>
        let names = map (\<lambda>v. casefold (strip (py_str v))) xs in
        andthen (each_ok (\<lambda>m. req (m \<in> set item_audit_methods) (''unsupported item.audit method: '' @ m)) names)
        (andthen (req (names \<noteq> []) ''item.audit requires at least one method'')
        (Inr (filter (\<lambda>m. m \<in> set names) item_audit_methods)))
    | _ \<Rightarrow> Inl (fails ''methods must be a sequence''))"

end
