(* ===== verification/OperationSteps.thy ===== *)
theory OperationSteps
  imports OperationChecks
begin

text \<open>
  The steps that the handlers of \<open>CapabilityRunner\<close> share: admission of the operation, one action through
  the broker, and the handling of a bound item.  \<open>fuel\<close> bounds the polls of a waiting loop; when it is
  used up the worker is \<open>StillRunning\<close>, which no \<open>except\<close> or \<open>finally\<close> of the code sees.
\<close>

section \<open>Exceptions\<close>

definition caught :: "('s, 'a) prog \<Rightarrow> (op_error \<Rightarrow> ('s, 'a) prog) \<Rightarrow> ('s, 'a) prog" where
  "caught m h = acatch m (\<lambda>e. if e = StillRunning then areturn (Inl e) else h e)"

definition finally_do :: "('s, 'a) prog \<Rightarrow> ('s, unit) prog \<Rightarrow> ('s, 'a) prog" where
  "finally_do m f = (\<lambda>s. case m s of
      (s1, Inl StillRunning) \<Rightarrow> (s1, Inl StillRunning)
    | (s1, r) \<Rightarrow> afinally (\<lambda>s. (s, r)) f s1)"

definition check :: "op_error + 'a \<Rightarrow> ('s, 'a) prog" where
  "check r = areturn r"

definition sleep :: "('s, 'g) operation_env \<Rightarrow> rat \<Rightarrow> ('s, unit) prog" where
  "sleep env seconds = abind (others env) (\<lambda>_. amodify (\<lambda>s. s\<lparr>rn_world := oe_sleep env seconds (rn_world s)\<rparr>))"

section \<open>Admission\<close>

definition admit_and_start :: "('s, 'g) operation_env \<Rightarrow> nat \<Rightarrow> string \<Rightarrow> string \<Rightarrow> ('s, unit) prog" where
  "admit_and_start env i admitted_detail running_detail =
     abind (clock_now env) (\<lambda>now.
     abind (assign i (\<lambda>r. r\<lparr>op_admitted_at := Some now\<rparr>)) (\<lambda>_.
     abind (others env) (\<lambda>_.
     abind (transition env i OpAdmitted admitted_detail) (\<lambda>_.
     abind (check_deadline_and_interruption env i True) (\<lambda>_.
     abind (clock_now env) (\<lambda>now.
     abind (assign i (\<lambda>r. r\<lparr>op_started_at := Some now\<rparr>)) (\<lambda>_.
     abind (others env) (\<lambda>_.
     transition env i OpRunning running_detail))))))))"

section \<open>One action through the broker\<close>

type_synonym command = "string option \<times> string list"

definition single :: "string \<Rightarrow> command" where "single c = (Some c, [])"

definition commands_of :: "string list \<Rightarrow> command" where
  \<comment> \<open>\<open>categories if len(categories) > 1 else categories[0]\<close>\<close>
  "commands_of cs = (case cs of [c] \<Rightarrow> single c | _ \<Rightarrow> (None, cs))"

definition controlled_launch :: "operation \<Rightarrow> controller_command option \<Rightarrow> bool" where
  "controlled_launch r m = (case m of None \<Rightarrow> False
     | Some cc \<Rightarrow> a_kind (cc_action cc) = ''launch'' \<and> c_control_owner_scripts (cc_controller cc) \<noteq> []
        \<and> op_capability r = ''controller.'' @ c_name (cc_controller cc))"

definition denied :: "string \<Rightarrow> op_error \<Rightarrow> op_error" where
  "denied detail e = (case e of
      Raised (ValidationError m) \<Rightarrow> fails (''broker denied '' @ detail @ '': '' @ m)
    | _ \<Rightarrow> e)"

definition matched_controller :: "('s, 'g) operation_env \<Rightarrow> command \<Rightarrow> controller_command option result" where
  "matched_controller env cmd = (case fst cmd of None \<Rightarrow> Inr None | Some c \<Rightarrow> match_command (oe_manifest env) c)"

definition bounded_by_deadline :: "('s, 'g) operation_env \<Rightarrow> operation \<Rightarrow> bool" where
  "bounded_by_deadline env r = (is_test_operation env r \<or> op_capability r = ''travel.go2'')"

definition step_proposal :: "('s, 'g) operation_env \<Rightarrow> operation \<Rightarrow> session_state \<Rightarrow> command \<Rightarrow> int \<Rightarrow> controller_command option \<Rightarrow> action_proposal" where
  "step_proposal env r ss cmd ttl m =
     \<lparr>pr_character = op_character r, pr_command = fst cmd, pr_commands = snd cmd, pr_expected_room_id = Some (ss_room_id ss),
      pr_expected_generation = Some (ss_generation ss), pr_ttl_seconds = ttl,
      pr_deadline = (if bounded_by_deadline env r then PFloat (Fin (op_deadline r)) else PNone),
      pr_controller_deadline = (if controlled_launch r m then PFloat (Fin (op_deadline r)) else PNone)\<rparr>"

definition submit_step :: "('s, 'g) operation_env \<Rightarrow> nat \<Rightarrow> session_state \<Rightarrow> command \<Rightarrow> string \<Rightarrow> rat
    \<Rightarrow> ('s, controller_command option \<times> (string \<times> pyval) list) prog" where
  \<comment> \<open>the time to live and the \<open>try\<close> block around \<open>submit\<close>\<close>
  "submit_step env i ss cmd detail left = with_op i (\<lambda>r.
     let recon = (op_capability r = ''character.recon'') in
     abind (aguard (\<not> recon \<or> 1 \<le> left) (Abort TimingOut ''insufficient time remains for character inspection'')) (\<lambda>_.
     let ttl = (if recon then min 120 \<lfloor>left\<rfloor> else max 1 (min 120 (ceiling_seconds left))) in
     caught (abind (areturn (raised (matched_controller env cmd))) (\<lambda>m.
             abind (others env) (\<lambda>_.
             abind (submit_locked env (step_proposal env r ss cmd ttl m)) (\<lambda>a. areturn (Inr (m, a))))))
       (\<lambda>e. areturn (Inl (denied detail e)))))"

definition own_refuge :: "operation \<Rightarrow> string \<Rightarrow> session_state \<Rightarrow> controller_command \<Rightarrow> 's runner \<Rightarrow> 's runner" where
  "own_refuge r action_id ss cc s = (if refuge_handoff (cc_controller cc)
     then s\<lparr>rn_refuge_pending := dput (casefold (op_character r)) \<lparr>rf_operation_id = op_operation_id r, rf_controller = cc_controller cc,
       rf_snapshot = ss, rf_action_id = action_id\<rparr> (rn_refuge_pending s)\<rparr> else s)"

definition own_action :: "('s, 'g) operation_env \<Rightarrow> nat \<Rightarrow> session_state \<Rightarrow> string \<Rightarrow> controller_command option \<Rightarrow> ('s, unit) prog" where
  \<comment> \<open>the submitted action is recorded as owned by the operation, in one critical section per kind\<close>
  "own_action env i ss action_id m = with_op i (\<lambda>r.
     let k = op_operation_id r; owned = (action_id, ss_generation ss) in
     abind (others env) (\<lambda>_.
     abind (awhen (op_capability r = ''travel.go2'') (amodify (\<lambda>s. s\<lparr>rn_travel_actions := dput k owned (rn_travel_actions s)\<rparr>))) (\<lambda>_.
     abind (awhen (op_capability r = ''character.recon'') (amodify (\<lambda>s. s\<lparr>rn_recon_actions := dput k owned (rn_recon_actions s)\<rparr>))) (\<lambda>_.
     abind (awhen (is_test_operation env r) (amodify (\<lambda>s. s\<lparr>rn_test_actions := dput k owned (rn_test_actions s)\<rparr>))) (\<lambda>_.
     case m of None \<Rightarrow> areturn (Inr ())
     | Some cc \<Rightarrow> awhen (controlled_launch r m) (
         abind (others env) (\<lambda>_.
         abind (amodify (\<lambda>s. if map_of (rn_controller_actions s) k = None
             then s\<lparr>rn_controller_actions := dput k owned (rn_controller_actions s)\<rparr> else s)) (\<lambda>_.
         abind (amodify (own_refuge r action_id ss cc)) (\<lambda>_.
         abind (aread (\<lambda>s. k \<in> rn_interruptions s)) (\<lambda>interrupted.
         abind (clock_locked env) (\<lambda>now.
         awhen (interrupted \<or> op_deadline r \<le> now) (ignore_reply (broker_locked env
           (revoke_controller_run (PStr action_id) (PStr (op_character r)) (PStr (ss_generation ss))))))))))))))))"

definition call_hook :: "('s, 'g) operation_env \<Rightarrow> (string \<times> pyval) list \<Rightarrow> session_state \<Rightarrow> ('s, unit) prog" where
  "call_hook env a ss = (case oe_step_hook env of
      None \<Rightarrow> areturn (Inr ())
    | Some hook \<Rightarrow> abind (others env) (\<lambda>_ s. case hook a ss (rn_broker s) (rn_world s) of
        (b, w, r) \<Rightarrow> (s\<lparr>rn_broker := b, rn_world := w\<rparr>, raised r)))"

definition ended_badly :: "string list" where
  "ended_badly = [''failed'', ''expired'', ''cancelled'', ''denied_stale_room'']"

fun poll_action :: "('s, 'g) operation_env \<Rightarrow> nat \<Rightarrow> nat \<Rightarrow> string \<Rightarrow> string \<Rightarrow> bool \<Rightarrow> ('s, (string \<times> pyval) list) prog" where
  \<comment> \<open>the polling loop of \<open>_run_broker_step\<close>\<close>
  "poll_action env 0 i action_id detail cleanup = areturn (Inl StillRunning)"
| "poll_action env (Suc fuel) i action_id detail cleanup = with_op i (\<lambda>r.
     abind (awhen (op_capability r = ''character.recon'') (check_deadline_and_interruption env i True)) (\<lambda>_.
     abind (action_get env action_id) (\<lambda>result.
     let status = py_str (dget ''status'' result); test_run = is_test_operation env r in
     if status = ''completed'' then
       abind (progress env i (detail @ '': '' @ py_str (dget_or ''completion'' (PStr ''sent_unverified'') result))) (\<lambda>_.
       areturn (Inr result))
     else if status \<in> set ended_badly then
       abind (awhen test_run (check_deadline_and_interruption env i True)) (\<lambda>_.
       areturn (Inl (fails (''broker action '' @ status @ '': '' @ detail))))
     else abind (check_deadline_and_interruption env i (\<not> cleanup \<and> \<not> test_run)) (\<lambda>_.
       abind (sleep env (oe_poll_interval env)) (\<lambda>_.
       poll_action env fuel i action_id detail cleanup)))))"

definition recheck_before_dispatch :: "('s, 'g) operation_env \<Rightarrow> nat \<Rightarrow> string \<Rightarrow> ('s, unit) prog" where
  "recheck_before_dispatch env i action_id = with_op i (\<lambda>r.
     abind (awhen (op_capability r = ''character.recon'' \<or> op_capability r = ''travel.go2'') (check_deadline_and_interruption env i True)) (\<lambda>_.
     awhen (is_test_operation env r) (
       abind (others env) (\<lambda>_.
       abind (aread (\<lambda>s. op_operation_id r \<in> rn_interruptions s)) (\<lambda>stopped.
       abind (if stopped then areturn (Inr True) else abind (clock_now env) (\<lambda>now. areturn (Inr (op_deadline r \<le> now)))) (\<lambda>stop.
       awhen stop (
         abind (stop_test_action env i) (\<lambda>_.
         abind (action_get env action_id) (\<lambda>a.
         awhen (dget ''status'' a = PStr ''cancelled'') (check_deadline_and_interruption env i True))))))))))"

definition release_actions :: "('s, 'g) operation_env \<Rightarrow> nat \<Rightarrow> ('s, unit) prog" where
  \<comment> \<open>the \<open>finally\<close> of \<open>_run_broker_step\<close>\<close>
  "release_actions env i = with_op i (\<lambda>r.
     abind (awhen (op_capability r = ''travel.go2'') (finally_do (cancel_travel_action env i)
       (abind (others env) (\<lambda>_. amodify (\<lambda>s. s\<lparr>rn_travel_actions := ddel (op_operation_id r) (rn_travel_actions s)\<rparr>))))) (\<lambda>_.
     awhen (op_capability r = ''character.recon'') (finally_do (cancel_recon_action env i)
       (abind (others env) (\<lambda>_. amodify (\<lambda>s. s\<lparr>rn_recon_actions := ddel (op_operation_id r) (rn_recon_actions s)\<rparr>))))))"

definition run_broker_step :: "('s, 'g) operation_env \<Rightarrow> nat \<Rightarrow> nat \<Rightarrow> session_state \<Rightarrow> command \<Rightarrow> string \<Rightarrow> bool
    \<Rightarrow> ('s, (string \<times> pyval) list) prog" where
  "run_broker_step env fuel i ss cmd detail cleanup =
     abind (awhen (\<not> cleanup) (check_deadline_and_interruption env i True)) (\<lambda>_.
     abind (clock_now env) (\<lambda>now.
     with_op i (\<lambda>r.
     abind (aguard (now < op_deadline r) (Abort TimingOut ''operation timed out before next action'')) (\<lambda>_.
     abind (submit_step env i ss cmd detail (op_deadline r - now)) (\<lambda>(m, a).
     let action_id = py_str (dget ''action_id'' a) in
     abind (own_action env i ss action_id m) (\<lambda>_.
     finally_do
       (abind (recheck_before_dispatch env i action_id) (\<lambda>_.
        abind (progress env i (''broker admitted action '' @ action_id @ '': '' @ detail)) (\<lambda>_.
        abind (call_hook env a ss) (\<lambda>_.
        poll_action env fuel i action_id detail cleanup))))
       (release_actions env i)))))))"

section \<open>Steps on a bound item\<close>

definition fresh_bound_item :: "('s, 'g) operation_env \<Rightarrow> nat \<Rightarrow> item_binding \<Rightarrow> ('s, item_state) prog" where
  "fresh_bound_item env i b = with_op i (\<lambda>r.
     abind (call_world env (oe_snapshot env (op_character r))) (\<lambda>ss.
     abind (check (verify_binding ss b)) (\<lambda>_.
     check (exact_item ss b))))"

definition run_action_step :: "('s, 'g) operation_env \<Rightarrow> nat \<Rightarrow> nat \<Rightarrow> item_binding \<Rightarrow> string \<Rightarrow> string \<Rightarrow> bool
    \<Rightarrow> ('s, (string \<times> pyval) list) prog" where
  "run_action_step env fuel i b cmd detail cleanup =
     abind (awhen (\<not> cleanup) (check_deadline_and_interruption env i True)) (\<lambda>_.
     abind (check (req (references_object (CHR ''#'' # ib_object_id b) None cmd)
       (detail @ '' command does not reference exact object #'' @ ib_object_id b))) (\<lambda>_.
     with_op i (\<lambda>r.
     abind (call_world env (oe_snapshot env (op_character r))) (\<lambda>ss.
     abind (check (verify_binding ss b)) (\<lambda>_.
     run_broker_step env fuel i ss (single cmd) detail cleanup)))))"

definition diagnostic_command :: "string \<Rightarrow> string \<Rightarrow> string" where
  "diagnostic_command m object_id =
     (if m = ''look'' then ''look #'' @ object_id else if m = ''inspect'' then ''inspect #'' @ object_id
      else if m = ''405'' then ''diagnose item 405 exact #'' @ object_id
      else ''diagnose item 735 exact #'' @ object_id)"

definition run_diagnostic :: "('s, 'g) operation_env \<Rightarrow> nat \<Rightarrow> nat \<Rightarrow> item_binding \<Rightarrow> string \<Rightarrow> ('s, unit) prog" where
  "run_diagnostic env fuel i b m = with_op i (\<lambda>r.
     abind (call_world env (oe_register env (op_operation_id r) m b)) (\<lambda>registration.
     abind (progress env i (''registered '' @ m @ '' evidence expectation'')) (\<lambda>_.
     abind (run_action_step env fuel i b (diagnostic_command m (ib_object_id b)) (''running '' @ m @ '' diagnostic'') False) (\<lambda>a.
     abind (fresh_bound_item env i b) (\<lambda>_.
     abind (call_world env (oe_verify env registration (py_str (dget_or ''action_id'' (PStr []) a)))) (\<lambda>found. case found of
       None \<Rightarrow> areturn (Inl (fails (''registered '' @ m @ '' evidence was not observed'')))
     | Some ev \<Rightarrow>
         abind (check (req (ev_method ev = m \<and> ev_generation ev = ib_generation b \<and> ev_object_id ev = ib_object_id b)
           (''registered '' @ m @ '' evidence did not match the bound item''))) (\<lambda>_.
         abind (assign i (\<lambda>r. r\<lparr>op_evidence := op_evidence r @ [ev]\<rparr>)) (\<lambda>_.
         progress env i (''verified '' @ m @ '' evidence for #'' @ ib_object_id b)))))))))"

definition as_restore_failure :: "op_error \<Rightarrow> op_error" where
  "as_restore_failure e = (case e of Abort _ detail \<Rightarrow> fails (''restore failed: '' @ detail) | _ \<Rightarrow> e)"

definition restore_original :: "('s, 'g) operation_env \<Rightarrow> nat \<Rightarrow> nat \<Rightarrow> item_binding \<Rightarrow> ('s, unit) prog" where
  "restore_original env fuel i b = (let original = ib_original_location b in
     abind (fresh_bound_item env i b) (\<lambda>current.
     if ol_location_id (im_location current) = ol_location_id original
     then progress env i ''same-ID item already in original owned location''
     else case ol_restore_command original of
       None \<Rightarrow> areturn (Inl (fails ''original owned location has no exact restore command''))
     | Some cmd \<Rightarrow>
         abind (check (req (cmd \<noteq> []) ''original owned location has no exact restore command'')) (\<lambda>_.
         abind (caught (run_action_step env fuel i b cmd ''restoring exact item to original owned location'' False)
           (\<lambda>e. areturn (Inl (as_restore_failure e)))) (\<lambda>_.
         abind (fresh_bound_item env i b) (\<lambda>restored.
         abind (check (req (ol_location_id (im_location restored) = ol_location_id original)
           ''restore failed: same-ID restoration was not verified'')) (\<lambda>_.
         progress env i ''verified same-ID restoration''))))))"

definition in_hand :: "item_state \<Rightarrow> bool" where
  "in_hand im = (ol_kind (im_location im) = ''right_hand'' \<or> ol_kind (im_location im) = ''left_hand'')"

definition spell_methods :: "string list \<Rightarrow> string list" where
  "spell_methods methods = filter (\<lambda>m. m = ''405'' \<or> m = ''735'') methods"

definition run_item_audit :: "('s, 'g) operation_env \<Rightarrow> nat \<Rightarrow> nat \<Rightarrow> item_binding \<Rightarrow> string list \<Rightarrow> ('s, unit) prog" where
  "run_item_audit env fuel i b methods =
     abind (aeach (run_diagnostic env fuel i b) (filter (\<lambda>m. m \<notin> set (spell_methods methods)) methods)) (\<lambda>_.
     abind (awhen (spell_methods methods \<noteq> []) (
       abind (fresh_bound_item env i b) (\<lambda>current.
       abind (awhen (\<not> in_hand current) (
         abind (run_action_step env fuel i b (''get #'' @ ib_object_id b) ''taking exact item for spell diagnostics'' False) (\<lambda>_.
         abind (fresh_bound_item env i b) (\<lambda>held.
         check (req (in_hand held) ''exact item was not verified in hand after take''))))) (\<lambda>_.
       aeach (run_diagnostic env fuel i b) (spell_methods methods))))) (\<lambda>_.
     restore_original env fuel i b))"

section \<open>Cleanup after a failure\<close>

definition safe_snapshot :: "('s, 'g) operation_env \<Rightarrow> string \<Rightarrow> ('s, session_state option) prog" where
  "safe_snapshot env character = abind (others env) (\<lambda>_ s. case oe_snapshot env character (rn_world s) of
      (w, Inl e) \<Rightarrow> (s\<lparr>rn_world := w\<rparr>, Inr None) | (w, Inr ss) \<Rightarrow> (s\<lparr>rn_world := w\<rparr>, Inr (Some ss)))"

fun safest :: "owned_location \<Rightarrow> owned_location list \<Rightarrow> owned_location" where
  \<comment> \<open>\<open>max(..., key=safety_rank)\<close>: the first of the highest rank\<close>
  "safest best [] = best"
| "safest best (l # ls) = safest (if ol_safety_rank best < ol_safety_rank l then l else best) ls"

definition secure_item :: "('s, 'g) operation_env \<Rightarrow> nat \<Rightarrow> nat \<Rightarrow> item_binding \<Rightarrow> owned_location \<Rightarrow> string \<Rightarrow> ('s, unit) prog" where
  "secure_item env fuel i b target cmd =
     caught
       (abind (run_action_step env fuel i b cmd (''placing exact item in safest owned location '' @ ol_location_id target) True) (\<lambda>_.
        abind (fresh_bound_item env i b) (\<lambda>im.
        abind (check (req (ol_location_id (im_location im) = ol_location_id target) ''safe-location verification failed'')) (\<lambda>_.
        raise_alert env i (''operation failed; exact item secured in owned location '' @ ol_location_id target)))))
       (\<lambda>e. case e of Abort _ detail \<Rightarrow> raise_alert env i (''safe cleanup failed: '' @ detail) | _ \<Rightarrow> areturn (Inl e))"

definition place_safely :: "('s, 'g) operation_env \<Rightarrow> nat \<Rightarrow> nat \<Rightarrow> bool \<Rightarrow> item_binding \<Rightarrow> item_state \<Rightarrow> ('s, unit) prog" where
  "place_safely env fuel i allow_commands b current = with_op i (\<lambda>r.
     abind (call_world env (oe_safest_locations env (op_character r) (ib_object_id b))) (\<lambda>more.
     case filter (is_owned_location (op_character r)) (ib_original_location b # more) of
       [] \<Rightarrow> raise_alert env i ''cleanup blocked: no positively identified owned location''
     | l # ls \<Rightarrow> (let target = safest l ls in
         if ol_location_id (im_location current) = ol_location_id target
         then raise_alert env i (''operation failed; exact item retained in safest owned location '' @ ol_location_id target)
         else if \<not> allow_commands
         then raise_alert env i ''operation timed out; no cleanup command issued after the deadline''
         else case ol_restore_command target of
           Some (c # cmd) \<Rightarrow> secure_item env fuel i b target (c # cmd)
         | _ \<Rightarrow> raise_alert env i (''cleanup blocked: safest owned location '' @ ol_location_id target @ '' has no restore command''))))"

definition safe_cleanup :: "('s, 'g) operation_env \<Rightarrow> nat \<Rightarrow> nat \<Rightarrow> bool \<Rightarrow> ('s, unit) prog" where
  "safe_cleanup env fuel i allow_commands = with_op i (\<lambda>r. case op_binding r of
      None \<Rightarrow> areturn (Inr ())
    | Some b \<Rightarrow>
        abind (safe_snapshot env (op_character r)) (\<lambda>found. case found of
          None \<Rightarrow> raise_alert env i ''cleanup blocked: live state is unavailable''
        | Some ss \<Rightarrow> (case rbind (verify_binding ss b) (\<lambda>_. exact_item ss b) of
            Inl (Abort _ detail) \<Rightarrow> raise_alert env i (''cleanup blocked: '' @ detail)
          | Inl e \<Rightarrow> areturn (Inl e)
          | Inr current \<Rightarrow>
              if ol_location_id (im_location current) = ol_location_id (ib_original_location b)
              then raise_alert env i (''operation failed; exact item retained in original owned location '' @ ol_location_id (im_location current))
              else place_safely env fuel i allow_commands b current)))"

end
