(* ===== verification/OperationHandlers.thy ===== *)
theory OperationHandlers
  imports OperationSteps
begin

text \<open>
  The capability handlers of \<open>CapabilityRunner\<close> and the execution of an operation around them.  A handler
  returns the explanation of its success; anything else it raises.
\<close>

definition fresh :: "('s, 'g) operation_env \<Rightarrow> nat \<Rightarrow> ('s, session_state) prog" where
  "fresh env i = require_fresh_session env i None None None"

definition fresh_since :: "('s, 'g) operation_env \<Rightarrow> nat \<Rightarrow> session_state \<Rightarrow> ('s, session_state) prog" where
  \<comment> \<open>same generation, sequence not smaller\<close>
  "fresh_since env i start = require_fresh_session env i (Some (ss_generation start)) (ss_sequence start) None"

definition fresh_after :: "('s, 'g) operation_env \<Rightarrow> nat \<Rightarrow> session_state \<Rightarrow> ('s, session_state) prog" where
  \<comment> \<open>same generation, sequence advanced\<close>
  "fresh_after env i start = require_fresh_session env i (Some (ss_generation start)) None (ss_sequence start)"

definition set_start :: "nat \<Rightarrow> session_state \<Rightarrow> ('s, unit) prog" where
  "set_start i ss = assign i (\<lambda>r. r\<lparr>op_start_state := Some ss\<rparr>)"

definition set_end :: "nat \<Rightarrow> session_state \<Rightarrow> ('s, unit) prog" where
  "set_end i ss = assign i (\<lambda>r. r\<lparr>op_end_state := Some ss\<rparr>)"

definition refuge_of :: "nat \<Rightarrow> 's runner \<Rightarrow> refuge option" where
  "refuge_of i s = map_of (rn_refuge_pending s) (casefold (op_character (rn_records s ! i)))"

definition drop_refuge :: "nat \<Rightarrow> ('s, unit) prog" where
  "drop_refuge i = amodify (\<lambda>s. s\<lparr>rn_refuge_pending := ddel (casefold (op_character (rn_records s ! i))) (rn_refuge_pending s)\<rparr>)"

definition keys_exactly :: "string set \<Rightarrow> (string \<times> pyval) list \<Rightarrow> bool" where
  "keys_exactly ks d = (set (dkeys d) = ks)"

section \<open>A refuge left behind by an earlier operation\<close>

definition refuge_room :: "refuge \<Rightarrow> pyval" where
  "refuge_room p = dget ''room_id'' (c_safe_handoff (rf_controller p))"

definition resolve_prior_refuge :: "('s, 'g) operation_env \<Rightarrow> nat \<Rightarrow> session_state \<Rightarrow> ('s, unit) prog" where
  \<comment> \<open>one critical section\<close>
  "resolve_prior_refuge env i ss =
     abind (others env) (\<lambda>_.
     abind (aread (refuge_of i)) (\<lambda>pending. case pending of
       None \<Rightarrow> areturn (Inr ())
     | Some p \<Rightarrow> (let changed = (ss_generation ss \<noteq> ss_generation (rf_snapshot p)) in
         abind (awhen changed (
           let stale = Inl (fails ''unresolved refuge handoff belongs to a previous session; use ;lab recover RUN_ID confirm after restoring safety'') in
           case oe_verify_recovery env of
             None \<Rightarrow> areturn stale
           | Some verify \<Rightarrow>
               abind (check (hand_ids (rf_snapshot p))) (\<lambda>hands.
               with_op i (\<lambda>r.
               abind (in_world (verify \<lparr>rc_character = op_character r, rc_controller = c_name (rf_controller p),
                   rc_previous_generation = ss_generation (rf_snapshot p), rc_generation = ss_generation ss,
                   rc_action_id = rf_action_id p, rc_room_id = refuge_room p, rc_hands = hands\<rparr>)) (\<lambda>v.
               areturn (if v = PBool True then Inr () else stale)))))) (\<lambda>_.
         abind (check (validate_controller_start ss (rf_controller p))) (\<lambda>_.
         abind (check (req (case (ss_sequence ss, ss_sequence (rf_snapshot p)) of
               (Some n, Some m) \<Rightarrow> changed \<or> m < n | _ \<Rightarrow> False)
             ''previous refuge handoff still needs fresh equipment and owner resolution'')) (\<lambda>_.
         abind (check (hand_ids ss)) (\<lambda>now_held.
         abind (check (hand_ids (rf_snapshot p))) (\<lambda>held.
         abind (check (req (now_held = held) ''previous refuge handoff still needs fresh equipment and owner resolution'')) (\<lambda>_.
         drop_refuge i)))))))))"

section \<open>travel.go2\<close>

definition rx_room_id :: rx where
  \<comment> \<open>\<open>[1-9][0-9]{0,9}\<close>\<close>
  "rx_room_id = Cat (cls [(CHR ''1'', CHR ''9'')]) (UpTo 9 digit_cls)"

definition destination_ok :: "pyval \<Rightarrow> bool" where
  "destination_ok v = (case v of PStr d \<Rightarrow> rx_full False rx_room_id d \<and> d \<noteq> ''4'' | _ \<Rightarrow> False)"

definition travel_arguments :: "operation \<Rightarrow> op_error + string" where
  "travel_arguments r =
     andthen (req (keys_exactly {''destination''} (op_arguments r)) ''travel requires only destination'')
     (let v = dget ''destination'' (op_arguments r) in
     andthen (req (destination_ok v) ''destination must be an explicit positive room ID, not a special go2 selector'')
     (andthen (req (op_expected_generation r \<noteq> None) ''travel requires expected_generation'')
     (andthen (req (op_deadline r - op_requested_at r \<le> 120) ''travel is limited to 120 seconds'')
     (Inr (text_of v)))))"

definition foreign_refuge :: "refuge option \<Rightarrow> session_state \<Rightarrow> bool" where
  "foreign_refuge pending ss = (case pending of None \<Rightarrow> False | Some p \<Rightarrow> ss_generation (rf_snapshot p) \<noteq> ss_generation ss)"

definition refuge_allows :: "refuge option \<Rightarrow> session_state \<Rightarrow> string \<Rightarrow> bool" where
  "refuge_allows pending ss destination = (case pending of None \<Rightarrow> True
     | Some p \<Rightarrow> ss_generation (rf_snapshot p) = ss_generation ss \<and> refuge_room p = PStr destination)"

definition execute_go2 :: "('s, 'g) operation_env \<Rightarrow> nat \<Rightarrow> nat \<Rightarrow> ('s, string) prog" where
  "execute_go2 env fuel i =
     abind (with_op i (\<lambda>r. check (travel_arguments r))) (\<lambda>destination.
     abind (fresh env i) (\<lambda>start.
     abind (set_start i start) (\<lambda>_.
     abind (check (validate_travel_state start)) (\<lambda>_.
     abind (check (hand_ids start)) (\<lambda>hands.
     abind (others env) (\<lambda>_.
     abind (aread (refuge_of i)) (\<lambda>found.
     abind (awhen (foreign_refuge found start) (resolve_prior_refuge env i start)) (\<lambda>_.
     abind (if foreign_refuge found start then abind (others env) (\<lambda>_. aread (refuge_of i)) else areturn (Inr found)) (\<lambda>pending.
     abind (check (req (refuge_allows pending start destination)
       ''unresolved test handoff permits travel only to its original refuge in the same session'')) (\<lambda>_.
     abind (admit_and_start env i ''exact-destination travel admitted'' ''native go2 travel running'') (\<lambda>_.
     abind (areturn (raised (adapter_command go2_adapter ''supervised_travel'' [(''destination'', PStr destination)]))) (\<lambda>cmd.
     abind (run_broker_step env fuel i start (single cmd) ''traveling to the authorized destination'' False) (\<lambda>a.
     abind (fresh_after env i start) (\<lambda>end'.
     abind (check (validate_travel_state end')) (\<lambda>_.
     abind (check (req (ss_room_id end' = destination) ''destination arrival or original equipment was not verified'')) (\<lambda>_.
     abind (check (hand_ids end')) (\<lambda>held.
     abind (check (req (held = hands) ''destination arrival or original equipment was not verified'')) (\<lambda>_.
     abind (check (req (script_completed end' ''go2'' (py_str (dget ''action_id'' a))) ''exact go2 completion was not verified'')) (\<lambda>_.
     abind (set_end i end') (\<lambda>_.
     abind (resolve_prior_refuge env i end') (\<lambda>_.
     areturn (Inr ''go2 arrival, original equipment and exact owner release verified''))))))))))))))))))))))"

section \<open>session.command\<close>

definition full_access :: "session_state \<Rightarrow> bool" where
  "full_access ss = (case ss_script_status ss of None \<Rightarrow> False | Some status \<Rightarrow> map_of status ''lab-access'' = Some ''full'')"

definition command_argument :: "operation \<Rightarrow> op_error + string" where
  "command_argument r =
     andthen (req (keys_exactly {''command''} (op_arguments r)) ''session.command accepts only command'')
     (case normalize_full_access (dget ''command'' (op_arguments r)) of
        Inl (ValidationError m) \<Rightarrow> Inl (fails m) | Inl e \<Rightarrow> Inl (Raised e) | Inr c \<Rightarrow> Inr c)"

definition execute_session_command :: "('s, 'g) operation_env \<Rightarrow> nat \<Rightarrow> nat \<Rightarrow> ('s, string) prog" where
  "execute_session_command env fuel i =
     abind (with_op i (\<lambda>r. check (command_argument r))) (\<lambda>cmd.
     abind (fresh env i) (\<lambda>start.
     abind (set_start i start) (\<lambda>_.
     abind (check (req (full_access start) ''local LAB full access is not enabled for this session'')) (\<lambda>_.
     abind (admit_and_start env i ''local full-access grant and current session admitted'' ''single session-command delivery running'') (\<lambda>_.
     abind (run_broker_step env fuel i start (single (''lab direct '' @ cmd)) ''sending locally authorized session command'' False) (\<lambda>a.
     abind (fresh_after env i start) (\<lambda>end'.
     abind (check (req (script_completed end' ''lab-direct'' (py_str (dget ''action_id'' a)))
       ''native session-command delivery receipt was not observed'')) (\<lambda>_.
     abind (set_end i end') (\<lambda>_.
     areturn (Inr ''native session verified command delivery; requested effect remains unverified''))))))))))"

section \<open>character.recon\<close>

fun await_records :: "('s, 'g) operation_env \<Rightarrow> nat \<Rightarrow> nat \<Rightarrow> session_state \<Rightarrow> string list \<Rightarrow> string \<Rightarrow> ('s, unit) prog" where
  \<comment> \<open>the waiting loop of \<open>_execute_character_recon\<close>\<close>
  "await_records env 0 i start categories action_id = areturn (Inl StillRunning)"
| "await_records env (Suc fuel) i start categories action_id =
     abind (check_deadline_and_interruption env i True) (\<lambda>_.
     abind (fresh_since env i start) (\<lambda>current.
     abind (check (req (ss_room_id current = ss_room_id start) ''room changed during character recon'')) (\<lambda>_.
     abind (clock_now env) (\<lambda>now.
     with_op i (\<lambda>r.
     abind (check (recon_records current start categories (op_requested_at r) (min now (op_deadline r)))) (\<lambda>found.
     case (if (case (ss_sequence start, ss_sequence current) of (Some m, Some n) \<Rightarrow> m < n | _ \<Rightarrow> False) then found else None) of
       Some records \<Rightarrow>
         abind (assign i (\<lambda>r. r\<lparr>op_evidence := op_evidence r @ map (recon_evidence r current action_id) records\<rparr>)) (\<lambda>_.
         set_end i current)
     | None \<Rightarrow>
         abind (clock_now env) (\<lambda>now2.
         abind (sleep env (min (oe_poll_interval env) (max 0 (op_deadline r - now2)))) (\<lambda>_.
         await_records env fuel i start categories action_id))))))))"

definition execute_character_recon :: "('s, 'g) operation_env \<Rightarrow> nat \<Rightarrow> nat \<Rightarrow> ('s, string) prog" where
  "execute_character_recon env fuel i =
     abind (assign i (\<lambda>r. r\<lparr>op_deadline := min (op_deadline r) (op_requested_at r + 20)\<rparr>)) (\<lambda>_.
     abind (with_op i (\<lambda>r. check (recon_categories (op_arguments r)))) (\<lambda>categories.
     abind (fresh env i) (\<lambda>start.
     abind (check (req (ss_room_id start \<noteq> []) ''live room ID is unavailable'')) (\<lambda>_.
     abind (set_start i start) (\<lambda>_.
     abind (admit_and_start env i ''character inspection categories and session admitted'' ''refreshing character records'') (\<lambda>_.
     abind (run_broker_step env fuel i start (commands_of categories) (''requesting '' @ join '', '' categories) False) (\<lambda>a.
     abind (progress env i ''commands completed; waiting for newly observed character evidence'') (\<lambda>_.
     abind (await_records env fuel i start categories (py_str (dget ''action_id'' a))) (\<lambda>_.
     areturn (Inr (''newly observed '' @ join '', '' categories @ '' character records verified'')))))))))))"

section \<open>item.audit\<close>

definition audit_keys :: "(string \<times> pyval) list \<Rightarrow> op_error + unit" where
  "audit_keys arguments = (let unknown = filter (\<lambda>k. k \<notin> {''item_id'', ''methods''}) (dkeys arguments) in
     req (unknown = []) (''unsupported item.audit argument(s): '' @ comma_join unknown))"

definition audit_item_id :: "(string \<times> pyval) list \<Rightarrow> op_error + string" where
  "audit_item_id arguments = (case dget ''item_id'' arguments of
      PStr s \<Rightarrow>
        if strip s = [] then Inl (fails ''item.audit requires item_id'')
        else let item_id = (if starts_with ''#'' s then drop 1 s else s) in
          if str_isdigit item_id then Inr item_id else Inl (fails ''item_id must be a live numeric object ID'')
    | _ \<Rightarrow> Inl (fails ''item.audit requires item_id''))"

definition set_argument :: "nat \<Rightarrow> string \<Rightarrow> pyval \<Rightarrow> ('s, unit) prog" where
  "set_argument i k v = assign i (\<lambda>r. r\<lparr>op_arguments := dput k v (op_arguments r)\<rparr>)"

definition parse_item_audit :: "nat \<Rightarrow> ('s, string \<times> string list) prog" where
  \<comment> \<open>the object id and the methods; the arguments are normalized in place\<close>
  "parse_item_audit i =
     abind (with_op i (\<lambda>r. check (audit_keys (op_arguments r)))) (\<lambda>_.
     abind (with_op i (\<lambda>r. case dget ''item_id'' (op_arguments r) of
         PInt n \<Rightarrow> set_argument i ''item_id'' (PStr (int_str n)) | _ \<Rightarrow> areturn (Inr ()))) (\<lambda>_.
     abind (with_op i (\<lambda>r. check (audit_item_id (op_arguments r)))) (\<lambda>item_id.
     abind (set_argument i ''item_id'' (PStr item_id)) (\<lambda>_.
     abind (with_op i (\<lambda>r. check (parse_audit_methods
       (dget_or ''methods'' (PList [PStr ''look'', PStr ''inspect'']) (op_arguments r))))) (\<lambda>methods.
     areturn (Inr (item_id, methods)))))))"

definition execute_item_audit :: "('s, 'g) operation_env \<Rightarrow> nat \<Rightarrow> nat \<Rightarrow> ('s, string) prog" where
  "execute_item_audit env fuel i =
     abind (parse_item_audit i) (\<lambda>(item_id, methods).
     with_op i (\<lambda>r.
     abind (call_world env (oe_snapshot env (op_character r))) (\<lambda>start.
     abind (set_start i start) (\<lambda>_.
     abind (check (bind_item (op_character r) item_id start)) (\<lambda>b.
     abind (assign i (\<lambda>r. r\<lparr>op_binding := Some b\<rparr>)) (\<lambda>_.
     abind (admit_and_start env i ''item identity and session admitted'' ''item audit running'') (\<lambda>_.
     abind (run_item_audit env fuel i b methods) (\<lambda>_.
     abind (call_world env (oe_snapshot env (op_character r))) (\<lambda>end'.
     abind (check (verify_binding end' b)) (\<lambda>_.
     abind (check (exact_item end' b)) (\<lambda>im.
     abind (check (req (ol_location_id (im_location im) = ol_location_id (ib_original_location b))
       ''same-ID item was not restored to its original location'')) (\<lambda>_.
     abind (set_end i end') (\<lambda>_.
     areturn (Inr (''registered diagnostic evidence collected and the exact same item '' @
       ''was restored to its original owned location'')))))))))))))))"

section \<open>hunt.prepare and room.loot\<close>

definition no_arguments :: "operation \<Rightarrow> op_error + unit" where
  "no_arguments r = req (op_arguments r = []) (op_capability r @ '' does not accept arguments'')"

definition profile_of :: "('s, 'g) operation_env \<Rightarrow> operation \<Rightarrow> op_error + profile" where
  "profile_of env r = (case map_of (oe_profiles env) (casefold (op_character r)) of
      None \<Rightarrow> Inl (fails (''hunt.prepare has no profile for '' @ op_character r)) | Some p \<Rightarrow> Inr p)"

definition execute_hunt_prepare :: "('s, 'g) operation_env \<Rightarrow> nat \<Rightarrow> nat \<Rightarrow> ('s, string) prog" where
  "execute_hunt_prepare env fuel i =
     abind (with_op i (\<lambda>r. check (no_arguments r))) (\<lambda>_.
     abind (with_op i (\<lambda>r. check (profile_of env r))) (\<lambda>p.
     abind (fresh env i) (\<lambda>start.
     abind (set_start i start) (\<lambda>_.
     abind (check (hunt_readiness start p bigshot_adapter)) (\<lambda>_.
     abind (admit_and_start env i ''hunt readiness and Bigshot handoff admitted'' ''hunt preparation running'') (\<lambda>_.
     abind (fresh_since env i start) (\<lambda>current.
     abind (check (hunt_readiness current p bigshot_adapter)) (\<lambda>_.
     abind (areturn (raised (adapter_command bigshot_adapter ''start'' []))) (\<lambda>cmd.
     abind (run_broker_step env fuel i current (single cmd) ''starting registered Bigshot adapter'' False) (\<lambda>_.
     abind (require_fresh_session env i (Some (ss_generation start)) None (ss_sequence current)) (\<lambda>end'.
     abind (check (hunt_readiness end' p bigshot_adapter)) (\<lambda>_.
     abind (check (owns_lanes end' bigshot_adapter)) (\<lambda>_.
     abind (set_end i end') (\<lambda>_.
     areturn (Inr ''Bigshot is verified running with movement and combat ownership'')))))))))))))))"

definition execute_room_loot :: "('s, 'g) operation_env \<Rightarrow> nat \<Rightarrow> nat \<Rightarrow> ('s, string) prog" where
  "execute_room_loot env fuel i =
     abind (with_op i (\<lambda>r. check (no_arguments r))) (\<lambda>_.
     abind (fresh env i) (\<lambda>start.
     abind (set_start i start) (\<lambda>_.
     abind (check (room_loot_start start None)) (\<lambda>ids.
     abind (check (no_owner_conflicts start eloot_adapter)) (\<lambda>_.
     abind (admit_and_start env i ''safe current-room loot sweep admitted'' ''current-room loot sweep running'') (\<lambda>_.
     abind (fresh_since env i start) (\<lambda>current.
     abind (check (room_loot_start current (Some ids))) (\<lambda>_.
     abind (check (no_owner_conflicts current eloot_adapter)) (\<lambda>_.
     abind (areturn (raised (adapter_command eloot_adapter ''loot_current_room'' []))) (\<lambda>cmd.
     abind (run_broker_step env fuel i current (single cmd) ''running registered ELoot current-room sweep'' False) (\<lambda>a.
     abind (require_fresh_session env i (Some (ss_generation start)) None (ss_sequence current)) (\<lambda>end'.
     abind (check (room_loot_end end' ids (py_str (dget_or ''action_id'' (PStr []) a)))) (\<lambda>_.
     abind (set_end i end') (\<lambda>_.
     areturn (Inr ''ELoot completion and removal of every starting exact corpse ID verified'')))))))))))))))"

section \<open>session.recover_controller\<close>

definition rx_run_id :: rx where
  \<comment> \<open>\<open>[0-9a-f]{16}\<close>\<close>
  "rx_run_id = exactly 16 hex_cls"

definition recovery_arguments :: "operation \<Rightarrow> op_error + string" where
  "recovery_arguments r =
     andthen (req (keys_exactly {''action_id'', ''confirm''} (op_arguments r)) ''controller recovery requires only action_id and confirm'')
     (let v = dget ''action_id'' (op_arguments r) in
     andthen (req (is_str v \<and> rx_full False rx_run_id (text_of v) \<and> dget ''confirm'' (op_arguments r) = PBool True)
       ''controller recovery requires an exact action ID and confirm=true'')
     (andthen (req (op_expected_generation r \<noteq> None) ''controller recovery requires expected_generation at admission'')
     (Inr (text_of v))))"

definition receipt_hand_ok :: "pyval \<Rightarrow> bool" where
  "receipt_hand_ok v = (case v of PNone \<Rightarrow> True | PStr s \<Rightarrow> s \<noteq> [] | _ \<Rightarrow> False)"

definition nonempty_text :: "pyval \<Rightarrow> bool" where
  "nonempty_text v = (case v of PStr s \<Rightarrow> s \<noteq> [] | _ \<Rightarrow> False)"

definition receipt_ok :: "(string \<times> pyval) list \<Rightarrow> string \<Rightarrow> bool" where
  "receipt_ok d action_id =
     (nonempty_text (dget ''controller'' d) \<and> dget ''action_id'' d = PStr action_id \<and> nonempty_text (dget ''previous_generation'' d)
      \<and> dget ''operator_confirmed'' d = PBool True \<and> is_str (dget ''room_id'' d)
      \<and> (case dget ''hands'' d of PDict h \<Rightarrow> set (dkeys h) = {''left'', ''right''} \<and> list_all (\<lambda>(_, v). receipt_hand_ok v) h | _ \<Rightarrow> False))"

definition receipt_hands :: "(string \<times> pyval) list \<Rightarrow> string option \<times> string option" where
  "receipt_hands d = (let h = dict_of (dget ''hands'' d);
     hand = (\<lambda>k. case dget k h of PStr s \<Rightarrow> Some s | _ \<Rightarrow> None) in (hand ''left'', hand ''right''))"

definition receipt_controller :: "('s, 'g) operation_env \<Rightarrow> (string \<times> pyval) list \<Rightarrow> op_error + controller_definition" where
  "receipt_controller env d = (case manifest_controller (oe_manifest env) (text_of (dget ''controller'' d)) of
      Inl _ \<Rightarrow> Inl (fails ''recovery evidence names an unregistered controller'') | Inr c \<Rightarrow> Inr c)"

definition receipt_matches_controller :: "operation \<Rightarrow> (string \<times> pyval) list \<Rightarrow> controller_definition \<Rightarrow> bool" where
  "receipt_matches_controller r d c = (available_for c (op_character r) \<and> refuge_handoff c
     \<and> dget ''room_id'' d = dget ''room_id'' (c_safe_handoff c))"

definition recovery_start :: "refuge option \<Rightarrow> session_state \<Rightarrow> op_error + unit" where
  \<comment> \<open>the state in which a recovery may begin\<close>
  "recovery_start pending ss = (case pending of
      None \<Rightarrow> validate_recovery_candidate ss
    | Some p \<Rightarrow>
        andthen (validate_controller_start ss (rf_controller p))
        (rbind (hand_ids ss) (\<lambda>now_held. rbind (hand_ids (rf_snapshot p)) (\<lambda>held.
        req (now_held = held) ''controller recovery requires the original held equipment''))))"

definition receipt_matches_refuge :: "refuge option \<Rightarrow> (string \<times> pyval) list \<Rightarrow> controller_definition \<Rightarrow> op_error + unit" where
  "receipt_matches_refuge pending d c = (case pending of
      None \<Rightarrow> Inr ()
    | Some p \<Rightarrow> (let mismatch = ''recovery evidence does not match the retained controller handoff'' in
        andthen (req (c_name c = c_name (rf_controller p) \<and> dget ''previous_generation'' d = PStr (ss_generation (rf_snapshot p))) mismatch)
        (rbind (hand_ids (rf_snapshot p)) (\<lambda>held. req (receipt_hands d = held) mismatch))))"

definition execute_controller_recovery :: "('s, 'g) operation_env \<Rightarrow> nat \<Rightarrow> nat \<Rightarrow> ('s, string) prog" where
  "execute_controller_recovery env fuel i =
     abind (with_op i (\<lambda>r. check (recovery_arguments r))) (\<lambda>action_id.
     abind (others env) (\<lambda>_.
     abind (aread (refuge_of i)) (\<lambda>pending.
     abind (check (req (case pending of None \<Rightarrow> True | Some p \<Rightarrow> action_id = rf_action_id p)
       (''action_id does not match this character'' @ [CHR 39] @ ''s unresolved handoff''))) (\<lambda>_.
     abind (fresh env i) (\<lambda>start.
     abind (set_start i start) (\<lambda>_.
     abind (check (recovery_start pending start)) (\<lambda>_.
     abind (admit_and_start env i ''exact unresolved controller handoff and current safe state verified''
       ''operator-confirmed recovery acknowledgement running in owning session'') (\<lambda>_.
     abind (run_broker_step env fuel i start (single (''lab recover '' @ action_id @ '' confirm'')) ''acknowledging exact controller recovery'' False) (\<lambda>_.
     abind (fresh_after env i start) (\<lambda>end'.
     with_op i (\<lambda>r.
     abind (case oe_recovery_receipt env of None \<Rightarrow> areturn (Inr PNone)
       | Some reader \<Rightarrow> call_world env (reader (op_character r) (ss_generation end') action_id)) (\<lambda>receipt.
     abind (check (req (is_dict receipt) ''owning session did not publish matching controller recovery evidence'')) (\<lambda>_.
     let d = dict_of receipt in
     abind (check (req (receipt_ok d action_id) ''owning session published malformed controller recovery evidence'')) (\<lambda>_.
     abind (check (receipt_controller env d)) (\<lambda>c.
     abind (check (req (receipt_matches_controller r d c)
       (''recovery evidence does not match this character'' @ [CHR 39] @ ''s registered refuge controller''))) (\<lambda>_.
     abind (check (receipt_matches_refuge pending d c)) (\<lambda>_.
     abind (check (validate_controller_start end' c)) (\<lambda>_.
     abind (check (hand_ids end')) (\<lambda>held.
     abind (check (req (held = receipt_hands d) ''controller recovery changed the original held equipment'')) (\<lambda>_.
     abind (others env) (\<lambda>_.
     abind (aread (refuge_of i)) (\<lambda>current.
     abind (check (req (pending = None \<or> current = pending) ''unresolved controller handoff changed during recovery'')) (\<lambda>_.
     abind (awhen (pending \<noteq> None) (drop_refuge i)) (\<lambda>_.
     abind (set_end i end') (\<lambda>_.
     areturn (Inr (''Owning session acknowledged the exact failed run; safe state, equipment, owner release '' @
       ''and recovery evidence verified'')))))))))))))))))))))))))))"

section \<open>Registered controllers\<close>

definition quick_launch :: "controller_definition \<Rightarrow> string \<Rightarrow> bool" where
  "quick_launch c script_args = (c_script c = ''bigshot''
     \<and> (c_control_owner_scripts c \<noteq> [] \<or> take 1 (split_ws (casefold script_args)) = [''quick'']))"

definition return_seconds :: "controller_definition \<Rightarrow> rat" where
  "return_seconds c = (case dget ''return_seconds'' (c_safe_handoff c) of PInt n \<Rightarrow> of_int n | _ \<Rightarrow> 0)"

definition controller_envelope :: "('s, 'g) operation_env \<Rightarrow> nat \<Rightarrow> controller_definition \<Rightarrow> string \<Rightarrow> ('s, unit) prog" where
  \<comment> \<open>the checks of \<open>_execute_controller\<close> before it reads the state\<close>
  "controller_envelope env i c script_args = with_op i (\<lambda>r.
     abind (check (req (\<not> (handoff_kind c = PStr ''quick_area'' \<or> quick_launch c script_args \<and> \<not> refuge_handoff c))
       ''controlled Quick tests require quick_refuge; migrate the field-only handoff'')) (\<lambda>_.
     abind (awhen (refuge_handoff c) (
       abind (check (req (op_expected_generation r \<noteq> None) ''refuge tests require expected_generation at admission'')) (\<lambda>_.
       abind (check (req (op_deadline r - op_requested_at r \<le> 300) ''refuge tests are limited to 300 seconds including recovery and return'')) (\<lambda>_.
       abind (clock_now env) (\<lambda>now.
       check (req (return_seconds c + 12 < op_deadline r - now) ''insufficient time for work, equipment recovery and reserved return'')))))) (\<lambda>_.
     abind (check (req (c_test_suite c = None \<or> op_expected_generation r \<noteq> None) ''test runs require expected_generation at admission'')) (\<lambda>_.
     check (req (c_test_suite c = None \<or> op_deadline r - op_requested_at r \<le> 30)
       ''test runs are limited to the existing 30-second envelope'')))))"

definition preflight_rejected :: "evidence_record \<Rightarrow> string \<Rightarrow> bool" where
  "preflight_rejected ev action_id = (let facts = ev_facts ev; d = details_of ev in
     dget ''ok'' facts = PBool False \<and> dget ''code'' facts = PStr ''controlled_start_rejected'' \<and> dget ''run_id'' d = PStr action_id
     \<and> dget ''child_started'' d = PBool False \<and> dget ''cleanup_complete'' d = PBool True \<and> dget ''effects_verified'' d = PBool False)"

definition drop_own_refuge :: "nat \<Rightarrow> ('s, unit) prog" where
  "drop_own_refuge i = (\<lambda>s. case refuge_of i s of
      None \<Rightarrow> (s, Inr ())
    | Some p \<Rightarrow> if rf_operation_id p = op_operation_id (rn_records s ! i) then drop_refuge i s else (s, Inr ()))"

definition work_completed :: "evidence_record \<Rightarrow> bool" where
  "work_completed ev = (let runtime = dict_of (dget ''runtime'' (details_of ev)) in
     dget ''ok'' (ev_facts ev) = PBool True \<and> dget ''state'' runtime = PStr ''completed''
     \<and> dget ''state'' (dict_of (dget ''work_result'' runtime)) = PStr ''completed'')"

definition add_evidence_record :: "nat \<Rightarrow> evidence_record \<Rightarrow> ('s, unit) prog" where
  "add_evidence_record i ev = assign i (\<lambda>r. r\<lparr>op_evidence := op_evidence r @ [ev]\<rparr>)"

definition complete_refuge_controller :: "('s, 'g) operation_env \<Rightarrow> nat \<Rightarrow> controller_definition \<Rightarrow> evidence_record \<Rightarrow> string \<Rightarrow> session_state
    \<Rightarrow> op_error option \<Rightarrow> ('s, string) prog" where
  "complete_refuge_controller env i c ev action_id start broker_error =
     abind (check (verify_controller_evidence ev c (ss_generation start) action_id False)) (\<lambda>_.
     abind (add_evidence_record i ev) (\<lambda>_.
     abind (fresh_after env i start) (\<lambda>end'.
     abind (set_end i end') (\<lambda>_.
     abind (awhen (broker_error \<noteq> None \<and> preflight_rejected ev action_id) (
       abind (check (validate_controller_start end' c)) (\<lambda>_.
       abind (check (hand_ids end')) (\<lambda>now_held.
       abind (check (hand_ids start)) (\<lambda>held.
       abind (check (req (now_held = held) ''native preflight rejected but held equipment changed'')) (\<lambda>_.
       abind (others env) (\<lambda>_.
       abind (drop_own_refuge i) (\<lambda>_.
       abind (progress env i ''native preflight rejection and unchanged refuge state verified'') (\<lambda>_.
       areturn (Inl (fails (''controller preflight rejected before child launch: '' @ py_str (dget ''message'' (ev_facts ev)))))))))))))) (\<lambda>_.
     abind (with_op i (\<lambda>r. check (verify_controller_handoff end' c (op_arguments r) (Some ev) None))) (\<lambda>_.
     abind (check (hand_ids end')) (\<lambda>now_held.
     abind (check (hand_ids start)) (\<lambda>held.
     abind (check (req (now_held = held) ''refuge reached but original hand equipment was not restored'')) (\<lambda>_.
     abind (others env) (\<lambda>_.
     abind (drop_own_refuge i) (\<lambda>_.
     abind (aread (\<lambda>s. op_operation_id (rn_records s ! i) \<in> rn_graceful_stops s)) (\<lambda>stopped.
     abind (progress env i ''return to refuge, exact equipment and owner release verified'') (\<lambda>_.
     abind (aguard (\<not> stopped) (Abort Interrupting ''test stopped; return to refuge and equipment recovery verified'')) (\<lambda>_.
     abind (areturn (case broker_error of None \<Rightarrow> Inr () | Some e \<Rightarrow> Inl e)) (\<lambda>_.
     abind (check (req (work_completed ev) (''test work failed; safe return verified: '' @ py_str (dget ''code'' (ev_facts ev))))) (\<lambda>_.
     areturn (Inr ''Controlled outing completed; return to refuge, original equipment and owner release verified'')))))))))))))))))"

definition test_result_ok :: "(string \<times> pyval) list \<Rightarrow> controller_definition \<Rightarrow> (string \<times> pyval) list \<Rightarrow> bool" where
  "test_result_ok d c arguments =
     (dget ''suite_id'' d = PStr (if starts_with ''test-'' (c_name c) then drop 5 (c_name c) else c_name c)
      \<and> py_eq (dget ''revision'' d) (dget ''revision'' arguments) \<and> py_eq (dget ''case_id'' d) (dget ''case_id'' arguments)
      \<and> dget ''status'' d \<in> {PStr ''passed'', PStr ''failed'', PStr ''skipped'', PStr ''inconclusive''}
      \<and> is_bool (dget ''assertions_passed'' d) \<and> is_bool (dget ''cleanup_complete'' d)
      \<and> (case dget ''report_path'' d of PStr p \<Rightarrow> strip p \<noteq> [] \<and> length p \<le> 1024 | _ \<Rightarrow> False))"

definition complete_test_controller :: "('s, 'g) operation_env \<Rightarrow> nat \<Rightarrow> controller_definition \<Rightarrow> evidence_record \<Rightarrow> string \<Rightarrow> session_state
    \<Rightarrow> ('s, string) prog" where
  "complete_test_controller env i c ev action_id start = (let d = details_of ev in
     abind (check (verify_controller_evidence ev c (ss_generation start) action_id False)) (\<lambda>_.
     abind (add_evidence_record i ev) (\<lambda>_.
     abind (with_op i (\<lambda>r. check (req (test_result_ok d c (op_arguments r)) ''test result identity or summary did not match the pinned run''))) (\<lambda>_.
     abind (awhen (dget ''cleanup_complete'' d \<noteq> PBool True)
       (abind (raise_alert env i ''test cleanup is incomplete; local exclusion requires operator resolution'') (\<lambda>_.
        areturn (Inl (fails ''test cleanup was not verified complete''))))) (\<lambda>_.
     abind (fresh_after env i start) (\<lambda>end'.
     abind (set_end i end') (\<lambda>_.
     abind (with_op i (\<lambda>r. check (verify_controller_handoff end' c (op_arguments r) None None))) (\<lambda>_.
     abind (check (validate_test_state end' c)) (\<lambda>_.
     abind (check_test_stop env i) (\<lambda>_.
     abind (check (req (dget ''ok'' (ev_facts ev) = PBool True \<and> dget ''status'' d = PStr ''passed'' \<and> dget ''assertions_passed'' d = PBool True)
       (''test suite reported '' @ py_str (dget ''status'' d) @ '': '' @ py_str (dget ''message'' (ev_facts ev))))) (\<lambda>_.
     areturn (Inr ''Pinned test assertions passed and same-room cleanup was verified''))))))))))))"

definition launch_outcome :: "('s, 'g) operation_env \<Rightarrow> nat \<Rightarrow> controller_definition \<Rightarrow> op_error
    \<Rightarrow> ('s, (string \<times> pyval) list \<times> op_error option) prog" where
  \<comment> \<open>the \<open>except\<close> clause around the launch: the broker's record of an action that was sent, and the error\<close>
  "launch_outcome env i c e = (case e of
      Abort _ _ \<Rightarrow>
        if c_test_suite c = None \<and> \<not> refuge_handoff c then areturn (Inl e)
        else abind (others env) (\<lambda>_.
          abind (aread (owned_action (if refuge_handoff c then rn_controller_actions else rn_test_actions) i)) (\<lambda>owned. case owned of
            None \<Rightarrow> areturn (Inl e)
          | Some (action_id, _) \<Rightarrow> abind (action_get env action_id) (\<lambda>a.
              if dget ''status'' a \<in> {PStr ''dispatched'', PStr ''completed'', PStr ''failed''} then areturn (Inr (a, Some e))
              else areturn (Inl e))))
    | _ \<Rightarrow> areturn (Inl e))"

definition launch_controller :: "('s, 'g) operation_env \<Rightarrow> nat \<Rightarrow> nat \<Rightarrow> controller_definition \<Rightarrow> session_state \<Rightarrow> string
    \<Rightarrow> ('s, (string \<times> pyval) list \<times> op_error option) prog" where
  "launch_controller env fuel i c current cmd =
     caught (abind (run_broker_step env fuel i current (single cmd) (''starting registered '' @ c_name c @ '' controller'') False)
              (\<lambda>a. areturn (Inr (a, None))))
       (launch_outcome env i c)"

definition controller_result :: "('s, 'g) operation_env \<Rightarrow> nat \<Rightarrow> controller_definition \<Rightarrow> 'g \<Rightarrow> string \<Rightarrow> op_error option
    \<Rightarrow> ('s, evidence_record) prog" where
  \<comment> \<open>the evidence of the run, within the time that is left\<close>
  "controller_result env i c registration action_id broker_error =
     abind (clock_now env) (\<lambda>now.
     with_op i (\<lambda>r. let left = op_deadline r - now in
     abind (aguard (\<not> (left \<le> 0 \<and> c_test_suite c = None \<and> \<not> refuge_handoff c))
       (Abort TimingOut ''operation timed out waiting for controller result'')) (\<lambda>_.
     abind (call_world env (oe_verify_controller env registration action_id (if broker_error = None then max 0 left else 0))) (\<lambda>found.
     case found of
       Some ev \<Rightarrow> areturn (Inr ev)
     | None \<Rightarrow>
         abind (awhen (c_test_suite c \<noteq> None) (check_test_stop env i)) (\<lambda>_.
         areturn (Inl (case broker_error of Some e \<Rightarrow> e
           | None \<Rightarrow> fails ''registered controller result evidence was not observed'')))))))"

definition complete_plain_controller :: "('s, 'g) operation_env \<Rightarrow> nat \<Rightarrow> controller_definition \<Rightarrow> evidence_record \<Rightarrow> string \<Rightarrow> session_state
    \<Rightarrow> session_state \<Rightarrow> ('s, string) prog" where
  "complete_plain_controller env i c ev action_id start current =
     abind (check (verify_controller_evidence ev c (ss_generation start) action_id True)) (\<lambda>_.
     abind (add_evidence_record i ev) (\<lambda>_.
     abind (progress env i (''verified '' @ c_name c @ '' result '' @ py_str (dget ''code'' (ev_facts ev)))) (\<lambda>_.
     abind (require_fresh_session env i (Some (ss_generation start)) None (ss_sequence current)) (\<lambda>end'.
     abind (with_op i (\<lambda>r. check (verify_controller_handoff end' c (op_arguments r) (Some ev) (Some (ss_room_id current))))) (\<lambda>_.
     abind (set_end i end') (\<lambda>_.
     areturn (Inr (if handoff_kind c = PStr ''quick_area'' then c_name c @ '' bounded field handoff and owner release verified''
       else c_name c @ '' controller reported '' @ py_str (dget ''code'' (ev_facts ev)) @ '' and safe owner release was verified''))))))))"

definition complete_controller :: "('s, 'g) operation_env \<Rightarrow> nat \<Rightarrow> controller_definition \<Rightarrow> evidence_record \<Rightarrow> string \<Rightarrow> session_state
    \<Rightarrow> session_state \<Rightarrow> op_error option \<Rightarrow> ('s, string) prog" where
  "complete_controller env i c ev action_id start current broker_error =
     (if c_test_suite c \<noteq> None then
        abind (complete_test_controller env i c ev action_id current) (\<lambda>explanation.
        areturn (case broker_error of None \<Rightarrow> Inr explanation | Some e \<Rightarrow> Inl e))
      else if refuge_handoff c then complete_refuge_controller env i c ev action_id current broker_error
      else complete_plain_controller env i c ev action_id start current)"

definition execute_controller :: "('s, 'g) operation_env \<Rightarrow> nat \<Rightarrow> nat \<Rightarrow> ('s, string) prog" where
  "execute_controller env fuel i =
     abind (with_op i (\<lambda>r. areturn (raised (capability_controller env r)))) (\<lambda>c.
     abind (with_op i (\<lambda>r. check (req (available_for c (op_character r))
       (op_capability r @ '' is unavailable for '' @ op_character r)))) (\<lambda>_.
     abind (areturn (raised (controller_action_of c (c_capability_action c)))) (\<lambda>act.
     abind (with_op i (\<lambda>r. areturn (raised (action_build act (op_arguments r))))) (\<lambda>(cmd, script_args, normalized).
     abind (assign i (\<lambda>r. r\<lparr>op_arguments := normalized\<rparr>)) (\<lambda>_.
     abind (controller_envelope env i c script_args) (\<lambda>_.
     abind (fresh env i) (\<lambda>start.
     abind (set_start i start) (\<lambda>_.
     abind (resolve_prior_refuge env i start) (\<lambda>_.
     abind (check (validate_controller_start start c)) (\<lambda>_.
     abind (check (if c_test_suite c \<noteq> None then validate_test_state start c else Inr ())) (\<lambda>_.
     abind (with_op i (\<lambda>r. call_world env
       (oe_register_controller env (op_operation_id r) (c_name c) (op_character r) (ss_generation start)))) (\<lambda>registration.
     abind (admit_and_start env i (c_name c @ '' controller handoff admitted'') (c_name c @ '' controller running'')) (\<lambda>_.
     abind (fresh_since env i start) (\<lambda>current.
     abind (check (validate_controller_start current c)) (\<lambda>_.
     abind (check (if refuge_handoff c then rbind (hand_ids current) (\<lambda>now_held. rbind (hand_ids start) (\<lambda>held.
       req (now_held = held) ''equipment changed before refuge launch'')) else Inr ())) (\<lambda>_.
     abind (check (if c_test_suite c \<noteq> None then validate_test_state current c else Inr ())) (\<lambda>_.
     abind (launch_controller env fuel i c current cmd) (\<lambda>(a, broker_error).
     let action_id = py_str (dget_or ''action_id'' (PStr []) a) in
     abind (controller_result env i c registration action_id broker_error) (\<lambda>ev.
     complete_controller env i c ev action_id start current broker_error)))))))))))))))))))"

section \<open>Execution\<close>

definition run_handler :: "('s, 'g) operation_env \<Rightarrow> nat \<Rightarrow> nat \<Rightarrow> handler \<Rightarrow> ('s, string) prog" where
  "run_handler env fuel i h = (case h of
      ExecuteGo2 \<Rightarrow> execute_go2 env fuel i
    | ExecuteCharacterRecon \<Rightarrow> execute_character_recon env fuel i
    | ExecuteItemAudit \<Rightarrow> execute_item_audit env fuel i
    | ExecuteHuntPrepare \<Rightarrow> execute_hunt_prepare env fuel i
    | ExecuteRoomLoot \<Rightarrow> execute_room_loot env fuel i
    | ExecuteControllerRecovery \<Rightarrow> execute_controller_recovery env fuel i
    | ExecuteSessionCommand \<Rightarrow> execute_session_command env fuel i
    | ExecuteController \<Rightarrow> execute_controller env fuel i)"

definition long_operation_ok :: "('s, 'g) operation_env \<Rightarrow> operation \<Rightarrow> op_error + bool" where
  \<comment> \<open>whether the operation may take as long as it asks for\<close>
  "long_operation_ok env r =
     (if 30 < op_deadline r - op_requested_at r \<and> op_capability r \<noteq> ''character.recon'' \<and> op_capability r \<noteq> ''travel.go2''
      then (case refuge_controller env r of Inl e \<Rightarrow> Inl (Raised e) | Inr c \<Rightarrow> Inr (c \<noteq> None))
      else Inr True)"

definition before_success :: "('s, 'g) operation_env \<Rightarrow> nat \<Rightarrow> ('s, unit) prog" where
  \<comment> \<open>the last stop checks, under the lock\<close>
  "before_success env i = with_op i (\<lambda>r s. let k = op_operation_id r in
     (if is_test_operation env r then check_test_stop env i s
      else if map_of (rn_controller_actions s) k \<noteq> None \<or> op_capability r = ''travel.go2'' then
        abind (check_deadline_and_interruption env i True) (\<lambda>_ s.
        aguard (k \<notin> rn_graceful_stops s) (Abort Interrupting ''test stopped; return to refuge and equipment recovery verified'') s) s
      else (s, Inr ())))"

definition attempt_operation :: "('s, 'g) operation_env \<Rightarrow> nat \<Rightarrow> nat \<Rightarrow> ('s, unit) prog" where
  \<comment> \<open>the \<open>try\<close> block of \<open>_execute_operation\<close>\<close>
  "attempt_operation env fuel i = with_op i (\<lambda>r.
     abind (areturn (case capability_by_name (oe_capabilities env) (op_capability r) of
         None \<Rightarrow> Inl (fails (''unsupported capability: '' @ op_capability r)) | Some d \<Rightarrow> Inr d)) (\<lambda>d.
     abind (check (long_operation_ok env r)) (\<lambda>ok.
     abind (check (req ok ''only refuge outings and direct travel can extend the existing 30-second operation envelope'')) (\<lambda>_.
     abind (run_handler env fuel i (ca_handler d)) (\<lambda>explanation.
     abind (assign i (\<lambda>r. r\<lparr>op_explanation := explanation\<rparr>)) (\<lambda>_.
     abind (others env) (\<lambda>_.
     abind (before_success (holding_lock env) i) (\<lambda>_.
     finish (holding_lock env) i OpSucceeded explanation))))))))"

definition abort_of :: "op_error \<Rightarrow> failure \<times> string" where
  \<comment> \<open>the \<open>except\<close> clauses of \<open>_execute_operation\<close>\<close>
  "abort_of e = (case e of
      Abort status detail \<Rightarrow> (status, detail)
    | Raised x \<Rightarrow> (Failing, case x of
        ValidationError m \<Rightarrow> m | ValueError m \<Rightarrow> m | KeyError k \<Rightarrow> py_repr (PStr k)
      | _ \<Rightarrow> ''operation adapter failed: '' @ error_label e)
    | StillRunning \<Rightarrow> (Failing, '''')) \<comment> \<open>not used: nothing catches it\<close>"



definition conclude_failure :: "('s, 'g) operation_env \<Rightarrow> nat \<Rightarrow> nat \<Rightarrow> failure \<Rightarrow> string \<Rightarrow> ('s, unit) prog" where
  "conclude_failure env fuel i kind detail =
     abind (stop_test_action env i) (\<lambda>_.
     abind (caught (safe_cleanup env fuel i (kind \<noteq> TimingOut)) (\<lambda>e. raise_alert env i (''cleanup adapter failed: '' @ error_label e))) (\<lambda>_.
     with_op i (\<lambda>r.
     abind (safe_snapshot env (op_character r)) (\<lambda>ss.
     abind (assign i (\<lambda>r. r\<lparr>op_end_state := ss\<rparr>)) (\<lambda>_.
     abind (assign i (\<lambda>r. r\<lparr>op_explanation := detail\<rparr>)) (\<lambda>_.
     finish env i (failure_status kind) detail))))))"

definition execute_operation :: "('s, 'g) operation_env \<Rightarrow> nat \<Rightarrow> nat \<Rightarrow> ('s, unit) prog" where
  "execute_operation env fuel i =
     caught (attempt_operation env fuel i) (\<lambda>e. case abort_of e of (kind, detail) \<Rightarrow> conclude_failure env fuel i kind detail)"

definition run_operation :: "('s, 'g) operation_env \<Rightarrow> nat \<Rightarrow> nat \<Rightarrow> ('s, unit) prog" where
  \<comment> \<open>\<open>_execute_background\<close>, and \<open>perform\<close> after the creation\<close>
  "run_operation env fuel i = caught (execute_operation env fuel i) (fail_unexpected env i)"

definition perform :: "('s, 'g) operation_env \<Rightarrow> nat \<Rightarrow> operation_request \<Rightarrow> ('s, nat) prog" where
  "perform env fuel q = abind (create_operation env q) (\<lambda>i. abind (run_operation env fuel i) (\<lambda>_. areturn (Inr i)))"

end
