(* ===== verification/OperationContracts.thy ===== *)
theory OperationContracts
  imports OperationHandlers "HOL-Library.Sublist"
begin

text \<open>
  Contracts of the programs of the runner.  \<open>quiet\<close> is a contract that allows what the other threads do,
  the calls into the surroundings, the updates that concern no operation and every error but the use-up
  of the polls; the steps that neither log nor change an operation keep it.  \<open>working\<close> adds the events,
  the transitions and the bookkeeping of operation \<open>i\<close>, \<open>handling\<close> what only a handler writes.
\<close>

section \<open>Kinds of moves\<close>

definition same_core :: "'s runner \<Rightarrow> 's runner \<Rightarrow> bool" where
  "same_core s t = (rn_records t = rn_records s \<and> rn_operations t = rn_operations s \<and> rn_cursor t = rn_cursor s \<and> rn_world t = rn_world s)"

inductive world_move :: "('s, 'g) operation_env \<Rightarrow> 's \<Rightarrow> 's \<Rightarrow> bool" for env where
  wm_clock: "world_move env w (fst (oe_clock env w))"
| wm_token: "world_move env w (fst (oe_token env w))"
| wm_snapshot: "world_move env w (fst (oe_snapshot env c w))"
| wm_safest: "world_move env w (fst (oe_safest_locations env c k w))"
| wm_register: "world_move env w (fst (oe_register env k m b w))"
| wm_verify: "world_move env w (fst (oe_verify env g a w))"
| wm_register_controller: "world_move env w (fst (oe_register_controller env k n c g w))"
| wm_verify_controller: "world_move env w (fst (oe_verify_controller env g' a t w))"
| wm_recovery: "oe_verify_recovery env = Some f \<Longrightarrow> world_move env w (fst (f claim w))"
| wm_receipt: "oe_recovery_receipt env = Some f' \<Longrightarrow> world_move env w (fst (f' c g a w))"
| wm_hook: "oe_step_hook env = Some h \<Longrightarrow> world_move env w (fst (snd (h a' ss b' w)))"
| wm_sleep: "world_move env w (oe_sleep env t w)"
| wm_alert: "world_move env w (oe_alert env d w)"

type_synonym 's worker_contract = "('s runner, op_error) contract"

definition quiet :: "('s, 'g) operation_env \<Rightarrow> 's worker_contract \<Rightarrow> bool" where
  "quiet env c = (contract_ok c \<and> (\<forall>e. e \<noteq> StillRunning \<longrightarrow> ct_raises c e) \<and> keeps_update c (oe_others env)
     \<and> keeps_update c (\<lambda>s. case oe_bridge env (rn_broker s) (rn_world s) of (b, w) \<Rightarrow> s\<lparr>rn_broker := b, rn_world := w\<rparr>)
     \<and> (\<forall>s t. ct_held c s \<longrightarrow> same_core s t \<longrightarrow> ct_moves c s t)
     \<and> (\<forall>s w. ct_held c s \<longrightarrow> world_move env (rn_world s) w \<longrightarrow> ct_moves c s (s\<lparr>rn_world := w\<rparr>)))"

definition same_identity :: "operation \<Rightarrow> operation \<Rightarrow> bool" where
  \<comment> \<open>the identity stays, evidence and alerts are only added\<close>
  "same_identity r t = (op_operation_id t = op_operation_id r \<and> op_capability t = op_capability r \<and> op_character t = op_character r
     \<and> op_requested_at t = op_requested_at r \<and> op_expected_generation t = op_expected_generation r
     \<and> prefix (op_evidence r) (op_evidence t) \<and> prefix (op_alerts r) (op_alerts t))"

definition step_update :: "(operation \<Rightarrow> operation) \<Rightarrow> bool" where
  \<comment> \<open>an update of the times, the evidence, the alerts and the explanation of an operation\<close>
  "step_update f = (\<forall>r. same_identity r (f r) \<and> op_status (f r) = op_status r \<and> op_events (f r) = op_events r
     \<and> op_arguments (f r) = op_arguments r \<and> op_deadline (f r) = op_deadline r \<and> op_start_state (f r) = op_start_state r
     \<and> op_end_state (f r) = op_end_state r \<and> op_binding (f r) = op_binding r)"

definition handler_update :: "(operation \<Rightarrow> operation) \<Rightarrow> bool" where
  \<comment> \<open>what a handler writes besides: the arguments, the states, the binding and an earlier deadline\<close>
  "handler_update f = (\<forall>r. same_identity r (f r) \<and> op_status (f r) = op_status r \<and> op_events (f r) = op_events r
     \<and> op_deadline (f r) \<le> op_deadline r)"

definition working :: "('s, 'g) operation_env \<Rightarrow> nat \<Rightarrow> 's worker_contract \<Rightarrow> bool" where
  "working env i c = (quiet env c \<and> (\<forall>f. step_update f \<longrightarrow> keeps_update c (set_op i f))
     \<and> (\<forall>d. keeps c (progress_locked env i d)) \<and> (\<forall>st d. keeps c (transition env i st d)))"

definition handling :: "('s, 'g) operation_env \<Rightarrow> nat \<Rightarrow> 's worker_contract \<Rightarrow> bool" where
  "handling env i c = (working env i c \<and> (\<forall>f. handler_update f \<longrightarrow> keeps_update c (set_op i f)))"

lemma quietD:
  assumes "quiet env c"
  shows "contract_ok c" and "e \<noteq> StillRunning \<Longrightarrow> ct_raises c e" and "keeps_update c (oe_others env)"
    and "ct_held c s \<Longrightarrow> same_core s t \<Longrightarrow> ct_moves c s t"
    and "keeps_update c (\<lambda>s. case oe_bridge env (rn_broker s) (rn_world s) of (b, w) \<Rightarrow> s\<lparr>rn_broker := b, rn_world := w\<rparr>)"
    and "ct_held c s \<Longrightarrow> world_move env (rn_world s) v \<Longrightarrow> ct_moves c s (s\<lparr>rn_world := v\<rparr>)"
  using assms by (auto simp: quiet_def)

section \<open>Outcomes other than the use-up of the polls\<close>

definition settled :: "op_error + 'a \<Rightarrow> bool" where
  "settled r = (r \<noteq> Inl StillRunning)"

named_theorems settled_intros "rules for settled outcomes"

lemma settled_Inr [simp]: "settled (Inr x)"
  by (simp add: settled_def)

lemma settled_Inl [simp]: "settled (Inl e) \<longleftrightarrow> e \<noteq> StillRunning"
  by (simp add: settled_def)

lemma fails_settles [simp]: "fails d \<noteq> StillRunning" "validation d \<noteq> StillRunning"
  by (simp_all add: fails_def validation_def)

lemma settled_raised [simp]: "settled (raised r)"
  by (simp add: raised_def split: sum.split)

lemma settled_rbind [settled_intros]: "settled m \<Longrightarrow> (\<And>x. m = Inr x \<Longrightarrow> settled (f x)) \<Longrightarrow> settled (rbind m f)"
  by (cases m) auto

lemma settled_req [simp]: "settled (req b d)"
  by (simp add: req_def)

lemma settled_andthen [settled_intros]: "settled m \<Longrightarrow> settled n \<Longrightarrow> settled (andthen m n)"
  by (simp add: andthen_def settled_rbind)

lemma settled_rmapi: "(\<And>k x. settled (f k x)) \<Longrightarrow> settled (rmapi f k xs)"
  by (induction xs arbitrary: k) (auto intro!: settled_rbind)

lemma settled_each_ok [settled_intros]: "(\<And>x. settled (f x)) \<Longrightarrow> settled (each_ok f xs)"
  by (auto simp: each_ok_def rmap_def intro!: settled_rbind settled_rmapi)

lemma settled_rmap: "(\<And>x. settled (f x)) \<Longrightarrow> settled (rmap f xs)"
  by (simp add: rmap_def settled_rmapi)

lemma settled_hand_id [simp]: "settled (hand_id ss h)"
  by (auto simp: hand_id_def split: option.splits)

lemma settled_hand_ids [simp]: "settled (hand_ids ss)"
  unfolding hand_ids_def by (intro settled_intros) simp_all

lemma settled_lane_released [simp]: "settled (lane_released u h ss lane)"
  by (auto simp: lane_released_def split: option.splits)

lemma settled_states [simp]: "settled (validate_travel_state ss)" "settled (validate_controller_start ss c)"
  "settled (validate_test_state ss c)" "settled (validate_recovery_candidate ss)"
  unfolding validate_travel_state_def validate_controller_start_def validate_test_state_def validate_recovery_candidate_def
  by (auto intro!: settled_intros)

lemma settled_evidence [simp]: "settled (verify_controller_evidence ev c g a b)"
  by (auto simp: verify_controller_evidence_def Let_def intro!: settled_intros)

lemma settled_handoff [simp]: "settled (verify_controller_handoff ss c args ev room)"
  by (auto simp: verify_controller_handoff_def Let_def intro!: settled_intros)

lemma settled_new_record [simp]: "settled (new_record cu st t0 t1 k)"
  by (auto simp: new_record_def Let_def split: option.splits)

lemma settled_new_records [simp]: "settled (new_records cu st t0 t1 ks)"
  by (induction ks) (auto intro!: settled_intros split: option.splits)

lemma settled_recon [simp]: "settled (recon_records cu st ks t0 t1)" "settled (recon_categories args)"
  by (auto simp: recon_records_def recon_categories_def Let_def intro!: settled_intros split: option.splits pyval.splits)

lemma settled_conflicts [simp]: "settled (no_owner_conflicts ss a)" "settled (owns_lanes ss a)"
  by (auto simp: no_owner_conflicts_def owns_lanes_def intro!: settled_intros split: option.splits)

lemma settled_severe [simp]: "settled (severe_wounds p ss)"
  by (auto simp: severe_wounds_def wound_level_def intro!: settled_intros settled_rmap split: option.splits pyval.splits)

lemma settled_readiness [simp]: "settled (hunt_readiness ss p a)"
  unfolding hunt_readiness_def by (intro settled_intros) simp_all

lemma settled_loot [simp]: "settled (room_loot_start ss x)" "settled (room_loot_end ss ids k)"
  unfolding room_loot_start_def room_loot_end_def Let_def by (auto intro!: settled_intros)

lemma settled_items [simp]: "settled (exact_item ss b)" "settled (verify_binding ss b)" "settled (bind_item c k ss)"
  by (auto simp: exact_item_def verify_binding_def bind_item_def intro!: settled_intros split: list.splits)

lemma settled_arguments [simp]: "settled (parse_audit_methods v)" "settled (audit_keys args)" "settled (audit_item_id args)"
  "settled (command_argument r)" "settled (travel_arguments r)" "settled (recovery_arguments r)" "settled (no_arguments r)"
  by (auto simp: parse_audit_methods_def audit_keys_def audit_item_id_def command_argument_def travel_arguments_def
    recovery_arguments_def no_arguments_def Let_def intro!: settled_intros split: pyval.splits sum.splits lab_error.splits)

lemma settled_lookups [simp]: "settled (profile_of env r)" "settled (long_operation_ok env r)" "settled (receipt_controller env d)"
  by (auto simp: profile_of_def long_operation_ok_def receipt_controller_def split: option.splits sum.splits)

lemma settled_recovery [simp]: "settled (recovery_start p ss)" "settled (receipt_matches_refuge p d c)"
  by (auto simp: recovery_start_def receipt_matches_refuge_def Let_def intro!: settled_intros split: option.splits)

section \<open>Rules of the combinators\<close>

lemma keeps_option [keeps_intros]:
  "(x = None \<Longrightarrow> keeps c a) \<Longrightarrow> (\<And>y. x = Some y \<Longrightarrow> keeps c (f y)) \<Longrightarrow> keeps c (case x of None \<Rightarrow> a | Some y \<Rightarrow> f y)"
  by (cases x) simp_all

lemma keeps_if [keeps_intros]: "(b \<Longrightarrow> keeps c m) \<Longrightarrow> (\<not> b \<Longrightarrow> keeps c n) \<Longrightarrow> keeps c (if b then m else n)"
  by simp

lemma keeps_prod [keeps_intros]: "(\<And>a b. x = (a, b) \<Longrightarrow> keeps c (f a b)) \<Longrightarrow> keeps c (case x of (a, b) \<Rightarrow> f a b)"
  by (cases x) simp

lemma keeps_list [keeps_intros]:
  "(x = [] \<Longrightarrow> keeps c a) \<Longrightarrow> (\<And>y ys. x = y # ys \<Longrightarrow> keeps c (f y ys)) \<Longrightarrow> keeps c (case x of [] \<Rightarrow> a | y # ys \<Rightarrow> f y ys)"
  by (cases x) simp_all

lemma keeps_state: "(\<And>s. keeps c (f s)) \<Longrightarrow> keeps c (\<lambda>s. f s s)"
  by (simp add: keeps_def)

lemma keeps_with_op [keeps_intros]: "(\<And>r. keeps c (f r)) \<Longrightarrow> keeps c (with_op i f)"
  unfolding with_op_def by (rule keeps_state)

lemma pure_call_fst [simp]: "fst (pure_call f w) = fst (f w)"
  by (simp add: pure_call_def split: prod.split)

lemma keeps_caught:
  assumes c: "contract_ok c" "keeps c m" and h: "\<And>e. e \<noteq> StillRunning \<Longrightarrow> keeps c (h e)"
  shows "keeps c (caught m h)"
  unfolding caught_def
  by (rule keeps_acatch [OF c(1), where E = "ct_raises c"]) (use c h in \<open>auto intro!: keeps_if keeps_areturn\<close>)

lemma keeps_finally_do [keeps_intros]:
  assumes c: "contract_ok c" "keeps c m" "keeps c f"
  shows "keeps c (finally_do m f)"
proof (rule keepsI)
  fix l l' r assume h: "ct_held c l" and e: "finally_do m f l = (l', r)"
  obtain l1 r1 where m: "m l = (l1, r1)" by (cases "m l")
  note k = keepsD [OF c(2) h m]
  obtain l2 r2 where f: "f l1 = (l2, r2)" by (cases "f l1")
  note k2 = keepsD [OF c(3) contract_okD(3) [OF c(1) h k(1)] f]
  show "ct_moves c l l' \<and> (\<forall>e. r = Inl e \<longrightarrow> ct_raises c e)"
    using e m f k k2 contract_okD(2) [OF c(1) k(1) k2(1)]
    by (auto simp: finally_do_def afinally_def split: sum.splits op_error.splits)
qed

section \<open>Steps that leave every operation alone\<close>

locale quiet_worker =
  fixes env :: "('s, 'g) operation_env" and c :: "'s worker_contract"
  assumes quiet: "quiet env c"
begin

lemma ok [simp]: "contract_ok c"
  by (rule quietD(1) [OF quiet])

lemma raises [simp]: "e \<noteq> StillRunning \<Longrightarrow> ct_raises c e"
  by (rule quietD(2) [OF quiet])

lemma check_keeps [keeps_intros]: "settled v \<Longrightarrow> keeps c (check v)"
  unfolding check_def by (rule keeps_areturn [OF ok]) (auto simp: settled_def)

lemma areturn_keeps [keeps_intros]: "settled v \<Longrightarrow> keeps c (areturn v)"
  using check_keeps by (simp add: check_def)

lemma aguard_keeps [keeps_intros]: "e \<noteq> StillRunning \<Longrightarrow> keeps c (aguard b e)"
  by (rule keeps_aguard [OF ok]) simp

lemma aguard_state_keeps [keeps_intros]: "(\<And>s. e s \<noteq> StillRunning) \<Longrightarrow> keeps c (\<lambda>s. aguard (b s) (e s) s)"
  by (rule keeps_state) (rule aguard_keeps)

lemma caught_keeps [keeps_intros]: "keeps c m \<Longrightarrow> (\<And>e. e \<noteq> StillRunning \<Longrightarrow> keeps c (h e)) \<Longrightarrow> keeps c (caught m h)"
  by (rule keeps_caught [OF ok])

lemma others_keeps [keeps_intros]: "keeps c (others env)"
  by (simp add: others_def keeps_amodify quietD(3) [OF quiet])

lemma bridge_keeps [keeps_intros]: "keeps c (bridge env)"
  by (simp add: bridge_def keeps_amodify quietD(5) [OF quiet])

lemma in_world_keeps: "(\<And>w. world_move env w (fst (f w))) \<Longrightarrow> keeps c (in_world f)"
proof (rule keepsI)
  fix s s' r assume q: "\<And>w. world_move env w (fst (f w))" and h: "ct_held c s" and "in_world f s = (s', r)"
  then have "s' = s\<lparr>rn_world := fst (f (rn_world s))\<rparr>" "settled r" by (auto simp: in_world_def split: prod.splits)
  with q h show "ct_moves c s s' \<and> (\<forall>e. r = Inl e \<longrightarrow> ct_raises c e)" by (auto simp: quietD(6) [OF quiet])
qed

lemma same_core_keeps: "(\<And>s. same_core s (f s)) \<Longrightarrow> keeps c (amodify f)"
  by (auto simp: keeps_amodify keeps_update_def intro: quietD(4) [OF quiet])

lemma in_broker_keeps [keeps_intros]: "keeps c (in_broker f)"
proof (rule keepsI)
  fix s s' r assume h: "ct_held c s" and "in_broker f s = (s', r)"
  then have "same_core s s'" "settled r" by (auto simp: in_broker_def same_core_def split: prod.splits)
  with h show "ct_moves c s s' \<and> (\<forall>e. r = Inl e \<longrightarrow> ct_raises c e)" by (auto intro: quietD(4) [OF quiet])
qed

lemma world_calls_keep [keeps_intros]:
  "keeps c (clock_locked env)" "keeps c (in_world (pure_call (oe_token env)))" "keeps c (in_world (oe_snapshot env ch))"
  "keeps c (in_world (oe_safest_locations env ch k))" "keeps c (in_world (oe_register env k m b))"
  "keeps c (in_world (oe_verify env g a))" "keeps c (in_world (oe_register_controller env k n ch g'))"
  "keeps c (in_world (oe_verify_controller env g a t))"
  by (auto simp: clock_locked_def intro!: in_world_keeps intro: world_move.intros)

lemma recovery_keeps [keeps_intros]: "oe_verify_recovery env = Some f \<Longrightarrow> keeps c (in_world (f claim))"
  by (auto intro!: in_world_keeps intro: world_move.intros)

lemma receipt_keeps [keeps_intros]: "oe_recovery_receipt env = Some f \<Longrightarrow> keeps c (in_world (f ch g a))"
  by (auto intro!: in_world_keeps intro: world_move.intros)

lemma sleep_keeps [keeps_intros]: "keeps c (sleep env t)"
  unfolding sleep_def by (intro keeps_intros ok) (auto simp: keeps_amodify keeps_update_def intro: quietD(6) [OF quiet] wm_sleep)

lemma sink_keeps [keeps_intros]: "keeps c (amodify (\<lambda>s. s\<lparr>rn_world := oe_alert env d (rn_world s)\<rparr>))"
  by (auto simp: keeps_amodify keeps_update_def intro: quietD(6) [OF quiet] wm_alert)

lemma calls_keep [keeps_intros]:
  "keeps c (broker_locked env f)" "keeps c (call_broker env f)" "keeps c (call_world env (pure_call (oe_token env)))"
  "keeps c (call_world env (oe_snapshot env ch))" "keeps c (call_world env (oe_safest_locations env ch k))"
  "keeps c (call_world env (oe_register env k' m b))" "keeps c (call_world env (oe_verify env g a))"
  "keeps c (call_world env (oe_register_controller env k' n ch g'))" "keeps c (call_world env (oe_verify_controller env g a t))"
  "keeps c (clock_now env)" "keeps c (action_get env a)" "keeps c (get_locked env a)"
  by (auto simp: broker_locked_def call_broker_def call_world_def clock_now_def action_get_def get_locked_def intro!: keeps_intros)

lemma receipt_call_keeps [keeps_intros]: "oe_recovery_receipt env = Some f \<Longrightarrow> keeps c (call_world env (f ch g a))"
  unfolding call_world_def by (intro keeps_intros ok; assumption)

lemma check_deadline_keeps [keeps_intros]: "keeps c (check_deadline_and_interruption env i b)"
  unfolding check_deadline_and_interruption_def by (intro keeps_intros ok) simp_all

lemma ignore_reply_keeps [keeps_intros]: "keeps c m \<Longrightarrow> keeps c (ignore_reply m)"
  unfolding ignore_reply_def by (intro keeps_intros ok) simp_all

lemma stop_keeps [keeps_intros]:
  "keeps c (stop_test_action env i)" "keeps c (check_test_stop env i)" "keeps c (cancel_travel_action env i)"
  unfolding stop_test_action_def check_test_stop_def cancel_travel_action_def by (intro keeps_intros ok; simp)+

lemma lookup_keeps [keeps_intros]: "keeps c (lookup_operation k)"
  by (auto simp: keeps_def lookup_operation_def contract_okD raised_def split: sum.splits)

end

lemma settled_fresh [simp]: "settled (fresh_session_check r g m a ss)"
  by (auto simp: fresh_session_check_def split: option.splits)

lemma denied_settles [simp]: "e \<noteq> StillRunning \<Longrightarrow> denied d e \<noteq> StillRunning"
  by (auto simp: denied_def split: op_error.split lab_error.split)

lemma restore_failure_settles [simp]: "e \<noteq> StillRunning \<Longrightarrow> as_restore_failure e \<noteq> StillRunning"
  by (auto simp: as_restore_failure_def split: op_error.split)

context quiet_worker
begin

lemma cancel_controls_keep [keeps_intros]: "keeps c (cancel_controls_locked env i b)" "keeps c (cancel_controls env i b)"
  unfolding cancel_controls_def cancel_controls_locked_def
  by (intro keeps_intros ok same_core_keeps; simp add: same_core_def)+

lemma fresh_keeps [keeps_intros]:
  "keeps c (fresh_locked env i g m a)" "keeps c (require_fresh_session env i g m a)" "keeps c (fresh env i)"
  "keeps c (fresh_since env i ss)" "keeps c (fresh_after env i ss)" "keeps c (fresh_bound_item env i b)"
  unfolding fresh_locked_def require_fresh_session_def fresh_def fresh_since_def fresh_after_def fresh_bound_item_def
  by (intro keeps_intros ok; simp)+

lemma submit_keeps [keeps_intros]: "keeps c (submit_locked env p)" "keeps c (submit_step env i ss cmd d t)"
  unfolding submit_locked_def submit_step_def Let_def by (intro keeps_intros ok; simp)+

lemma own_action_keeps [keeps_intros]: "keeps c (own_action env i ss k m)"
  unfolding own_action_def Let_def
  by (intro keeps_intros ok same_core_keeps; simp add: same_core_def own_refuge_def)

lemma hook_keeps [keeps_intros]: "keeps c (call_hook env a ss)"
proof (cases "oe_step_hook env")
  case (Some h)
  have "keeps c (\<lambda>s. case h a ss (rn_broker s) (rn_world s) of (b, w, r) \<Rightarrow> (s\<lparr>rn_broker := b, rn_world := w\<rparr>, raised r))"
  proof (rule keepsI)
    fix s s' :: "'s runner" and r
    assume l: "ct_held c s"
      and e: "(case h a ss (rn_broker s) (rn_world s) of (b, w, r) \<Rightarrow> (s\<lparr>rn_broker := b, rn_world := w\<rparr>, raised r)) = (s', r)"
    obtain b w r' where h: "h a ss (rn_broker s) (rn_world s) = (b, w, r')" by (cases "h a ss (rn_broker s) (rn_world s)")
    let ?t = "s\<lparr>rn_broker := b\<rparr>"
    have m: "ct_moves c s ?t" by (rule quietD(4) [OF quiet l]) (simp add: same_core_def)
    have "world_move env (rn_world s) w" using wm_hook [OF Some, of "rn_world s" a ss "rn_broker s"] h by simp
    then have "ct_moves c ?t (?t\<lparr>rn_world := w\<rparr>)"
      by (intro quietD(6) [OF quiet] contract_okD(3) [OF ok l m]) simp
    moreover have "s' = ?t\<lparr>rn_world := w\<rparr>" "settled r" using e h by auto
    ultimately show "ct_moves c s s' \<and> (\<forall>e. r = Inl e \<longrightarrow> ct_raises c e)" using contract_okD(2) [OF ok m] by auto
  qed
  with Some show ?thesis by (auto simp: call_hook_def intro!: keeps_intros)
qed (auto simp: call_hook_def intro!: keeps_intros)

lemma recheck_keeps [keeps_intros]: "keeps c (recheck_before_dispatch env i k)"
  unfolding recheck_before_dispatch_def by (intro keeps_intros ok; simp)

lemma drop_refuge_keeps [keeps_intros]: "keeps c (drop_refuge i)" "keeps c (drop_own_refuge i)"
proof -
  show d: "keeps c (drop_refuge i)" unfolding drop_refuge_def by (rule same_core_keeps) (simp add: same_core_def)
  show "keeps c (drop_own_refuge i)" unfolding drop_own_refuge_def
    by (rule keeps_state) (auto intro!: keeps_intros d simp: keeps_def contract_okD [OF ok] keeps_def [THEN iffD1, OF d, rule_format] split: option.splits)
qed

lemma resolve_keeps [keeps_intros]: "keeps c (resolve_prior_refuge env i ss)"
  unfolding resolve_prior_refuge_def Let_def by (intro keeps_intros ok; simp)

lemma safe_snapshot_keeps [keeps_intros]: "keeps c (safe_snapshot env ch)"
proof -
  have "keeps c (\<lambda>s. case oe_snapshot env ch (rn_world s) of
      (w, Inl e) \<Rightarrow> (s\<lparr>rn_world := w\<rparr>, Inr None) | (w, Inr ss) \<Rightarrow> (s\<lparr>rn_world := w\<rparr>, Inr (Some ss)))"
  proof (rule keepsI)
    fix s s' :: "'s runner" and r :: "op_error + session_state option"
    assume l: "ct_held c s" and e: "(case oe_snapshot env ch (rn_world s) of
      (w, Inl e) \<Rightarrow> (s\<lparr>rn_world := w\<rparr>, Inr None) | (w, Inr ss) \<Rightarrow> (s\<lparr>rn_world := w\<rparr>, Inr (Some ss))) = (s', r)"
    then have "s' = s\<lparr>rn_world := fst (oe_snapshot env ch (rn_world s))\<rparr>" "settled r" by (auto split: prod.splits sum.splits)
    then show "ct_moves c s s' \<and> (\<forall>e. r = Inl e \<longrightarrow> ct_raises c e)"
      using quietD(6) [OF quiet l wm_snapshot] by auto
  qed
  then show ?thesis by (auto simp: safe_snapshot_def intro!: keeps_intros)
qed

lemma before_success_keeps [keeps_intros]: "keeps c (before_success env i)"
proof -
  let ?m = "\<lambda>s. let r = rn_records s ! i in
    if is_test_operation env r then check_test_stop env i
    else if map_of (rn_controller_actions s) (op_operation_id r) \<noteq> None \<or> op_capability r = ''travel.go2'' then
      abind (check_deadline_and_interruption env i True) (\<lambda>_ s.
        aguard (op_operation_id r \<notin> rn_graceful_stops s) (Abort Interrupting ''test stopped; return to refuge and equipment recovery verified'') s)
    else areturn (Inr ())"
  have "keeps c (?m s)" for s unfolding Let_def by (intro keeps_intros ok; simp)
  then have "keeps c (\<lambda>s. ?m s s)" by (rule keeps_state)
  moreover have "before_success env i = (\<lambda>s. ?m s s)"
    by (rule ext) (simp add: before_success_def with_op_def Let_def areturn_def)
  ultimately show ?thesis by simp
qed

end

section \<open>Steps that work on the operation\<close>

lemma step_update_fields [simp]:
  "step_update (\<lambda>r. r\<lparr>op_admitted_at := f1 r\<rparr>)" "step_update (\<lambda>r. r\<lparr>op_started_at := f2 r\<rparr>)"
  "step_update (\<lambda>r. r\<lparr>op_ended_at := f3 r\<rparr>)" "step_update (\<lambda>r. r\<lparr>op_evidence := op_evidence r @ f4 r\<rparr>)"
  "step_update (\<lambda>r. r\<lparr>op_alerts := op_alerts r @ f5 r\<rparr>)" "step_update (\<lambda>r. r\<lparr>op_explanation := f6 r\<rparr>)"
  by (simp_all add: step_update_def same_identity_def)

lemma handler_update_fields [simp]:
  "handler_update (\<lambda>r. r\<lparr>op_arguments := f1 r\<rparr>)" "handler_update (\<lambda>r. r\<lparr>op_start_state := f2 r\<rparr>)"
  "handler_update (\<lambda>r. r\<lparr>op_end_state := f3 r\<rparr>)" "handler_update (\<lambda>r. r\<lparr>op_binding := f4 r\<rparr>)"
  "handler_update (\<lambda>r. r\<lparr>op_deadline := min (op_deadline r) (f5 r)\<rparr>)"
  by (simp_all add: handler_update_def same_identity_def)

locale worker =
  fixes env :: "('s, 'g) operation_env" and i :: nat and c :: "'s worker_contract"
  assumes working: "working env i c"

sublocale worker \<subseteq> quiet_worker env c
  using working by unfold_locales (simp add: working_def)

context worker
begin

lemma assign_keeps: "step_update f \<Longrightarrow> keeps c (assign i f)"
  using working by (simp add: working_def assign_def keeps_amodify)

lemmas fields_keep [keeps_intros] = step_update_fields [THEN assign_keeps]

lemma log_keeps [keeps_intros]: "keeps c (progress_locked env i d)" "keeps c (transition env i st d)" "keeps c (progress env i d)"
  using working by (auto simp: working_def progress_def intro!: keeps_intros)

lemma alert_keeps [keeps_intros]: "keeps c (raise_alert_locked env i d)" "keeps c (raise_alert env i d)"
  unfolding raise_alert_locked_def raise_alert_def by (intro keeps_intros ok)+

lemma cancel_recon_keeps [keeps_intros]: "keeps c (cancel_recon_action env i)"
  unfolding cancel_recon_action_def by (intro keeps_intros ok; simp)

lemma admit_keeps [keeps_intros]: "keeps c (admit_and_start env i d1 d2)"
  unfolding admit_and_start_def by (intro keeps_intros ok)

lemma release_keeps [keeps_intros]: "keeps c (release_actions env i)"
  unfolding release_actions_def by (intro keeps_intros ok same_core_keeps; simp add: same_core_def)

lemma refuge_stop_keeps [keeps_intros]: "keeps c (refuge_stop env i launch g)"
proof -
  have try_keeps: "keeps c (\<lambda>s. case m s of (s1, Inl (Raised (ValidationError _))) \<Rightarrow> (s1, Inr False)
      | (s1, Inl e) \<Rightarrow> (s1, Inl e) | (s1, Inr x) \<Rightarrow> k s1)" if m: "keeps c m" and k: "keeps c k"
    for m :: "('s, 'x) prog" and k :: "('s, bool) prog"
  proof (rule keepsI)
    fix s s' :: "'s runner" and r :: "op_error + bool"
    assume h: "ct_held c s" and e: "(case m s of (s1, Inl (Raised (ValidationError _))) \<Rightarrow> (s1, Inr False)
      | (s1, Inl e) \<Rightarrow> (s1, Inl e) | (s1, Inr x) \<Rightarrow> k s1) = (s', r)"
    obtain s1 r1 where m1: "m s = (s1, r1)" by (cases "m s")
    note k1 = keepsD [OF m h m1]
    obtain s2 r2 where k2: "k s1 = (s2, r2)" by (cases "k s1")
    note k3 = keepsD [OF k contract_okD(3) [OF ok h k1(1)] k2]
    show "ct_moves c s s' \<and> (\<forall>e. r = Inl e \<longrightarrow> ct_raises c e)"
      using e m1 k1 k2 k3 contract_okD(2) [OF ok k1(1) k3(1)] by (auto split: sum.splits op_error.splits lab_error.splits)
  qed
  show ?thesis unfolding refuge_stop_def
    by (intro keeps_with_op try_keeps keeps_intros ok same_core_keeps; simp add: same_core_def)
qed

lemma interrupt_keeps [keeps_intros]: "keeps c (interrupt_locked env i)"
  unfolding interrupt_locked_def by (intro keeps_intros ok same_core_keeps; simp add: same_core_def)

lemma live_controls_keep [keeps_intros]: "keeps c (live_controls env ks)"
proof (induction ks)
  case Nil
  show ?case unfolding live_controls.simps by (intro keeps_intros) simp
next
  case (Cons k ks)
  show ?case unfolding live_controls.simps by (intro keeps_intros ok Cons; simp)
qed

lemma submit_control_keeps [keeps_intros]: "keeps c (submit_control env i k ctl launch g a ss)"
  unfolding submit_control_def set_controls_def Let_def by (intro keeps_intros ok same_core_keeps; simp add: same_core_def)

lemma control_keeps [keeps_intros]: "keeps c (control_locked env i k ch g ctl)"
proof -
  have catch: "keeps c (acatch m abort_as_validation)" if "keeps c m" for m :: "('s, 'x) prog"
  proof (rule keeps_acatch [OF ok, where E = "ct_raises c"])
    show "keeps (c\<lparr>ct_raises := ct_raises c\<rparr>) m" using that by simp
    show "keeps c (abort_as_validation e)" if "ct_raises c e" for e
      unfolding abort_as_validation_def by (rule keeps_areturn [OF ok]) (use that in \<open>auto split: op_error.splits\<close>)
  qed
  have own: "settled (control_ownership x y)" for x y
    by (auto simp: control_ownership_def split: option.splits)
  show ?thesis unfolding control_locked_def by (intro catch keeps_intros ok; simp add: own)
qed

lemma polls_keep:
  assumes "ct_raises c StillRunning"
  shows "keeps c (poll_action env n i a d cl)"
proof (induction n)
  case 0
  show ?case using assms by (auto intro: keeps_areturn)
next
  case (Suc n)
  show ?case unfolding poll_action.simps Let_def by (intro keeps_intros ok Suc; simp)
qed

lemma records_keep [keeps_intros]: "keeps c (add_evidence_record i ev)"
  unfolding add_evidence_record_def by (intro keeps_intros)

lemma finish_keeps [keeps_intros]: "keeps c (finish env i st d)"
proof -
  have "keeps c (\<lambda>s. (case map_of (rn_refuge_pending s) k of None \<Rightarrow> areturn (Inr ())
      | Some p \<Rightarrow> awhen (rf_operation_id p = o') (raise_alert_locked env i d')) s)" for k o' d'
    by (rule keeps_state) (intro keeps_intros ok; simp)
  then show ?thesis unfolding finish_def by (intro keeps_intros ok same_core_keeps; simp add: same_core_def)
qed

end

section \<open>Broker steps and what is built from them\<close>

locale patient_worker = worker env i c
  for env :: "('s, 'g) operation_env" and i :: nat and c :: "'s worker_contract" +
  fixes fuel :: nat
  assumes polling: "keeps c (poll_action env fuel i a d cl)"
begin

lemma broker_step_keeps [keeps_intros]: "keeps c (run_broker_step env fuel i ss cmd d cl)"
  unfolding run_broker_step_def Let_def by (intro keeps_intros ok polling; simp)

lemma action_step_keeps [keeps_intros]: "keeps c (run_action_step env fuel i b cmd d cl)"
  unfolding run_action_step_def by (intro keeps_intros ok; simp)

lemma diagnostic_keeps [keeps_intros]: "keeps c (run_diagnostic env fuel i b m)"
  unfolding run_diagnostic_def by (intro keeps_intros ok; simp)

lemma restore_keeps [keeps_intros]: "keeps c (restore_original env fuel i b)"
  unfolding restore_original_def Let_def by (intro keeps_intros ok; simp)

lemma item_audit_keeps [keeps_intros]: "keeps c (run_item_audit env fuel i b methods)"
  unfolding run_item_audit_def by (intro keeps_intros ok; simp)

lemma op_error_keeps:
  "(\<And>k d. e = Abort k d \<Longrightarrow> keeps c (f k d)) \<Longrightarrow> (\<And>x. e = Raised x \<Longrightarrow> keeps c (g x)) \<Longrightarrow> (e = StillRunning \<Longrightarrow> keeps c h) \<Longrightarrow>
    keeps c (case e of Abort k d \<Rightarrow> f k d | Raised x \<Rightarrow> g x | StillRunning \<Rightarrow> h)"
  by (cases e) simp_all

lemma secure_keeps [keeps_intros]: "keeps c (secure_item env fuel i b l cmd)"
  unfolding secure_item_def by (intro keeps_intros op_error_keeps ok; simp)

lemma place_keeps [keeps_intros]: "keeps c (place_safely env fuel i allowed b im)"
  unfolding place_safely_def Let_def by (intro keeps_intros ok)

lemma sum_keeps: "(\<And>e. x = Inl e \<Longrightarrow> keeps c (f e)) \<Longrightarrow> (\<And>y. x = Inr y \<Longrightarrow> keeps c (g y)) \<Longrightarrow>
    keeps c (case x of Inl e \<Rightarrow> f e | Inr y \<Rightarrow> g y)"
  by (cases x) simp_all

lemma cleanup_keeps [keeps_intros]: "keeps c (safe_cleanup env fuel i allowed)"
proof -
  have s: "settled (rbind (verify_binding ss b) (\<lambda>_. exact_item ss b))" for ss b by (intro settled_intros) simp_all
  show ?thesis unfolding safe_cleanup_def
    by (intro keeps_intros sum_keeps op_error_keeps ok) (use s in \<open>auto simp: settled_def\<close>)
qed

lemma launch_outcome_keeps: "e \<noteq> StillRunning \<Longrightarrow> keeps c (launch_outcome env i cd e)"
  unfolding launch_outcome_def by (intro keeps_intros op_error_keeps ok; simp)

lemma launch_keeps [keeps_intros]: "keeps c (launch_controller env fuel i cd ss cmd)"
  unfolding launch_controller_def by (intro keeps_intros launch_outcome_keeps ok; simp)

lemma launch_settles: "launch_controller env fuel i cd ss cmd s = (s', Inr (a, e)) \<Longrightarrow> e \<noteq> Some StillRunning"
  by (auto simp: launch_controller_def caught_def acatch_def launch_outcome_def eff_Inr areturn_def
    split: prod.splits sum.splits op_error.splits if_splits option.splits)

lemma controller_keeps [keeps_intros]:
  "be \<noteq> Some StillRunning \<Longrightarrow> keeps c (controller_result env i cd g k be)" "keeps c (controller_envelope env i cd a)"
  unfolding controller_result_def controller_envelope_def Let_def by (intro keeps_intros ok; auto split: option.split)+

end

section \<open>Handlers and the execution\<close>

lemma holding_lock_env [simp]: "oe_clock (holding_lock env) = oe_clock env" "oe_bridge (holding_lock env) = oe_bridge env"
  "oe_others (holding_lock env) = (\<lambda>s. case oe_bridge env (rn_broker s) (rn_world s) of (b, w) \<Rightarrow> s\<lparr>rn_broker := b, rn_world := w\<rparr>)"
  "oe_manifest (holding_lock env) = oe_manifest env"
  by (simp_all add: holding_lock_def)

lemma holding_lock_move: "world_move (holding_lock env) w v \<Longrightarrow> world_move env w v"
  by (erule world_move.cases) (auto simp: holding_lock_def intro: world_move.intros)

lemma quiet_holding_lock: "quiet env c \<Longrightarrow> quiet (holding_lock env) c"
  by (auto simp: quiet_def dest: holding_lock_move)

lemma working_holding_lock: "working env i c \<Longrightarrow> working (holding_lock env) i c"
proof -
  have "emit_locked (holding_lock env) = emit_locked env"
    by (intro ext) (simp add: emit_locked_def clock_locked_def)
  then have "progress_locked (holding_lock env) = progress_locked env" "transition (holding_lock env) = transition env"
    by (intro ext; simp add: progress_locked_def transition_def cong: if_cong)+
  then show "working env i c \<Longrightarrow> working (holding_lock env) i c" by (simp add: working_def quiet_holding_lock)
qed

locale writing_worker = patient_worker env i c fuel
  for env :: "('s, 'g) operation_env" and i :: nat and c :: "'s worker_contract" and fuel :: nat +
  assumes handling: "handling env i c"
begin

lemma write_keeps: "handler_update f \<Longrightarrow> keeps c (assign i f)"
  using handling by (simp add: handling_def assign_def keeps_amodify)

lemmas writes_keep [keeps_intros] = handler_update_fields [THEN write_keeps]

lemma states_keep [keeps_intros]: "keeps c (set_start i ss)" "keeps c (set_end i ss)" "keeps c (set_argument i k v)"
  unfolding set_start_def set_end_def set_argument_def by (intro keeps_intros)+

lemma awaits_keep:
  assumes "ct_raises c StillRunning"
  shows "keeps c (await_records env n i st ks k)"
proof (induction n)
  case 0
  show ?case using assms by (auto intro: keeps_areturn)
next
  case (Suc n)
  show ?case unfolding await_records.simps by (intro keeps_intros ok Suc; simp)
qed

end

sublocale writing_worker \<subseteq> locked: worker "holding_lock env" i c
  by unfold_locales (rule working_holding_lock [OF working])

locale handler_worker = writing_worker env i c fuel
  for env :: "('s, 'g) operation_env" and i :: nat and c :: "'s worker_contract" and fuel :: nat +
  assumes awaiting: "keeps c (await_records env fuel i st ks k)"
begin

lemma go2_keeps [keeps_intros]: "keeps c (execute_go2 env fuel i)"
  unfolding execute_go2_def by (intro keeps_intros ok; simp)

lemma command_keeps [keeps_intros]: "keeps c (execute_session_command env fuel i)"
  unfolding execute_session_command_def by (intro keeps_intros ok; simp)

lemma recon_keeps [keeps_intros]: "keeps c (execute_character_recon env fuel i)"
  unfolding execute_character_recon_def by (intro keeps_intros awaiting ok; simp)

lemma hunt_keeps [keeps_intros]: "keeps c (execute_hunt_prepare env fuel i)"
  unfolding execute_hunt_prepare_def by (intro keeps_intros ok; simp)

lemma loot_keeps [keeps_intros]: "keeps c (execute_room_loot env fuel i)"
  unfolding execute_room_loot_def by (intro keeps_intros ok; simp)

lemma audit_keeps [keeps_intros]: "keeps c (execute_item_audit env fuel i)"
proof -
  have "keeps c (case v of PInt n \<Rightarrow> set_argument i ''item_id'' (PStr (int_str n)) | _ \<Rightarrow> areturn (Inr ()))" for v
    by (cases v) (auto intro: keeps_intros)
  then show ?thesis unfolding execute_item_audit_def parse_item_audit_def by (intro keeps_intros ok; simp)
qed

lemma recovery_run_keeps [keeps_intros]: "keeps c (execute_controller_recovery env fuel i)"
  unfolding execute_controller_recovery_def Let_def by (intro keeps_intros ok; simp)

end

context handler_worker
begin

lemma complete_test_keeps [keeps_intros]: "keeps c (complete_test_controller env i cd ev k ss)"
  unfolding complete_test_controller_def Let_def by (intro keeps_intros ok; simp)

lemma complete_plain_keeps [keeps_intros]: "keeps c (complete_plain_controller env i cd ev k ss cu)"
  unfolding complete_plain_controller_def by (intro keeps_intros ok; simp)

lemma complete_refuge_keeps [keeps_intros]:
  "be \<noteq> Some StillRunning \<Longrightarrow> keeps c (complete_refuge_controller env i cd ev k ss be)"
  unfolding complete_refuge_controller_def by (intro keeps_intros ok; auto split: option.split)

lemma complete_keeps [keeps_intros]: "be \<noteq> Some StillRunning \<Longrightarrow> keeps c (complete_controller env i cd ev k ss cu be)"
  unfolding complete_controller_def by (intro keeps_intros ok; auto split: option.split)

lemma launched_keeps:
  assumes "\<And>a be. be \<noteq> Some StillRunning \<Longrightarrow> keeps c (f a be)"
  shows "keeps c (abind (launch_controller env fuel i cd ss cmd) (\<lambda>(a, be). f a be))"
  by (rule keeps_abind_value [OF ok launch_keeps]) (auto intro: assms dest: launch_settles)

lemma controller_run_keeps [keeps_intros]: "keeps c (execute_controller env fuel i)"
  unfolding execute_controller_def Let_def
  by (intro launched_keeps keeps_intros ok; auto intro!: settled_intros)

lemma handler_keeps [keeps_intros]: "keeps c (run_handler env fuel i h)"
  by (cases h) (auto simp: run_handler_def intro: keeps_intros)

lemma attempt_keeps [keeps_intros]: "keeps c (attempt_operation env fuel i)"
  unfolding attempt_operation_def
  by (intro keeps_intros ok locked.before_success_keeps locked.finish_keeps; simp split: option.split)

lemma conclude_keeps [keeps_intros]: "keeps c (conclude_failure env fuel i kind d)"
  unfolding conclude_failure_def by (intro keeps_intros ok)

lemma execute_keeps [keeps_intros]: "keeps c (execute_operation env fuel i)"
  unfolding execute_operation_def by (intro keeps_intros ok)

end

locale lone_worker = handler_worker +
  assumes failing: "keeps c (fail_unexpected env i e)"
begin

lemma run_keeps: "keeps c (run_operation env fuel i)"
  unfolding run_operation_def by (intro keeps_intros failing ok)

end

end
