(* ===== verification/OperationInvariant.thy ===== *)
theory OperationInvariant
  imports OperationContracts
begin

text \<open>
  What never changes in a \<open>CapabilityRunner\<close>: its history, the event logs and the one nonterminal operation
  per character.  \<open>evolves\<close> is how far anything may move a runner; every program of the runner keeps it
  as long as the other threads do, so it holds of any interleaving of them.
\<close>

section \<open>Well-formed runners\<close>

definition log_step :: "operation_event \<Rightarrow> operation_event \<Rightarrow> bool" where
  "log_step a b = (oev_cursor a < oev_cursor b \<and> (oev_status b = oev_status a \<or> allowed_transition (oev_status a) (oev_status b)))"

definition log_ok :: "nat \<Rightarrow> operation \<Rightarrow> bool" where
  \<comment> \<open>the log starts with the request, follows the status table, ends in the present status and its cursors increase\<close>
  "log_ok cursor r = (op_events r \<noteq> [] \<and> oev_status (hd (op_events r)) = OpRequested
     \<and> oev_status (last (op_events r)) = op_status r \<and> successively log_step (op_events r)
     \<and> (\<forall>e \<in> set (op_events r). oev_cursor e \<le> cursor \<and> oev_operation_id e = op_operation_id r))"

definition history_ok :: "'s runner \<Rightarrow> bool" where
  \<comment> \<open>the history maps ids to their records\<close>
  "history_ok s = (distinct (dkeys (rn_operations s))
     \<and> (\<forall>(k, i) \<in> set (rn_operations s). i < length (rn_records s) \<and> op_operation_id (rn_records s ! i) = k))"

definition active :: "'s runner \<Rightarrow> nat \<Rightarrow> bool" where
  "active s i = (\<not> terminal (op_status (rn_records s ! i)))"

definition one_owner :: "'s runner \<Rightarrow> bool" where
  \<comment> \<open>no two nonterminal operations of the history belong to one character\<close>
  "one_owner s = (\<forall>k i l j. (k, i) \<in> set (rn_operations s) \<longrightarrow> (l, j) \<in> set (rn_operations s) \<longrightarrow> active s i \<longrightarrow> active s j
     \<longrightarrow> casefold (op_character (rn_records s ! i)) = casefold (op_character (rn_records s ! j)) \<longrightarrow> i = j)"

definition runner_ok :: "nat \<Rightarrow> 's runner \<Rightarrow> bool" where
  "runner_ok limit s = ((\<forall>r \<in> set (rn_records s). log_ok (rn_cursor s) r) \<and> history_ok s \<and> one_owner s
     \<and> length (rn_operations s) \<le> limit)"

section \<open>Evolution\<close>

definition evolved :: "operation \<Rightarrow> operation \<Rightarrow> bool" where
  "evolved r t = (same_identity r t \<and> prefix (op_events r) (op_events t) \<and> op_deadline t \<le> op_deadline r
     \<and> (terminal (op_status r) \<longrightarrow> op_status t = op_status r))"

definition evolves :: "nat \<Rightarrow> 's runner \<Rightarrow> 's runner \<Rightarrow> bool" where
  "evolves limit s t = (length (rn_records s) \<le> length (rn_records t) \<and> rn_cursor s \<le> rn_cursor t
     \<and> (\<forall>i < length (rn_records s). evolved (rn_records s ! i) (rn_records t ! i)) \<and> (runner_ok limit s \<longrightarrow> runner_ok limit t))"

definition rely :: "('s, 'g) operation_env \<Rightarrow> bool" where
  \<comment> \<open>the other threads evolve the runner only\<close>
  "rely env = (\<forall>s. evolves (oe_history_limit env) s (oe_others env s))"

definition evolving :: "('s, 'g) operation_env \<Rightarrow> 's worker_contract" where
  "evolving env = \<lparr>ct_held = \<lambda>_. True, ct_moves = \<lambda>s t. rely env \<longrightarrow> evolves (oe_history_limit env) s t, ct_raises = \<lambda>_. True\<rparr>"

lemma evolved_refl [simp]: "evolved r r"
  by (simp add: evolved_def same_identity_def)

lemma evolved_trans: "evolved r t \<Longrightarrow> evolved t u \<Longrightarrow> evolved r u"
  by (auto simp: evolved_def same_identity_def)

lemma runner_evolves_refl [simp]: "evolves n s s"
  by (simp add: evolves_def)

lemma runner_evolves_trans: "evolves n s t \<Longrightarrow> evolves n t u \<Longrightarrow> evolves n s u"
  unfolding evolves_def by (auto intro: evolved_trans dest: order_trans)

lemma evolvesI_same:
  \<comment> \<open>an update that leaves the records, the history and the cursor\<close>
  "rn_records t = rn_records s \<Longrightarrow> rn_operations t = rn_operations s \<Longrightarrow> rn_cursor t = rn_cursor s \<Longrightarrow> evolves n s t"
  by (simp add: evolves_def runner_ok_def history_ok_def one_owner_def active_def)

lemma evolving_ok [simp]: "contract_ok (evolving env)"
  by (auto simp: contract_ok_def evolving_def intro: runner_evolves_trans)

lemma evolving_quiet: "quiet env (evolving env)"
proof -
  have "contract_ok (evolving env)" by simp
  then show ?thesis
    by (auto simp: quiet_def evolving_def keeps_update_def rely_def same_core_def intro: evolvesI_same split: prod.split)
qed

section \<open>One operation changes\<close>

lemma log_ok_mono: "log_ok n r \<Longrightarrow> n \<le> m \<Longrightarrow> log_ok m r"
  by (fastforce simp: log_ok_def)

lemma evolves_record:
  \<comment> \<open>the record of one operation evolves and keeps its log\<close>
  assumes "rn_records t = (rn_records s)[i := r]" "rn_operations t = rn_operations s" "rn_cursor s \<le> rn_cursor t"
    and "i < length (rn_records s) \<Longrightarrow> evolved (rn_records s ! i) r"
    and "i < length (rn_records s) \<Longrightarrow> log_ok (rn_cursor s) (rn_records s ! i) \<Longrightarrow> log_ok (rn_cursor t) r"
  shows "evolves n s t"
proof -
  have e: "evolved (rn_records s ! j) (rn_records t ! j)" if "j < length (rn_records s)" for j
    using assms that by (cases "i = j") (simp_all add: nth_list_update)
  have "runner_ok n t" if ok: "runner_ok n s"
  proof -
    have "log_ok (rn_cursor t) q" if "q \<in> set (rn_records t)" for q
    proof -
      from that obtain j where j: "j < length (rn_records s)" "q = rn_records t ! j" using assms(1) by (auto simp: in_set_conv_nth)
      have "log_ok (rn_cursor s) (rn_records s ! j)" using ok j(1) by (simp add: runner_ok_def)
      then show ?thesis using j assms by (cases "i = j") (auto simp: nth_list_update intro: log_ok_mono)
    qed
    moreover have h: "history_ok t" using ok assms e
      by (fastforce simp: runner_ok_def history_ok_def evolved_def same_identity_def)
    moreover have "active s j \<and> op_character (rn_records t ! j) = op_character (rn_records s ! j)"
      if "active t j" "(k, j) \<in> set (rn_operations t)" for j k
      using e [of j] that h assms by (auto simp: active_def history_ok_def evolved_def same_identity_def)
    then have "one_owner t" using ok assms(2) unfolding one_owner_def runner_ok_def by metis
    ultimately show ?thesis using ok assms by (simp add: runner_ok_def)
  qed
  then show ?thesis using assms e by (simp add: evolves_def)
qed

section \<open>The programs of a worker evolve the runner\<close>

definition new_event :: "'s runner \<Rightarrow> nat \<Rightarrow> op_status \<Rightarrow> string \<Rightarrow> rat \<Rightarrow> operation_event" where
  "new_event s i st d t = \<lparr>oev_cursor = Suc (rn_cursor s), oev_operation_id = op_operation_id (rn_records s ! i), oev_status = st,
     oev_detail = d, oev_timestamp = t\<rparr>"

definition logged :: "'s runner \<Rightarrow> nat \<Rightarrow> operation \<Rightarrow> 's \<Rightarrow> operation_event \<Rightarrow> 's runner" where
  \<comment> \<open>the state with the record \<open>r\<close> and one event more at \<open>i\<close>\<close>
  "logged s i r w e = s\<lparr>rn_world := w, rn_cursor := Suc (rn_cursor s), rn_records := (rn_records s)[i := r\<lparr>op_events := op_events r @ [e]\<rparr>]\<rparr>"

lemma emit_result:
  obtains w t where "emit_locked env i st d s = (logged s i (rn_records s ! i) w (new_event s i st d t), Inr ())"
proof -
  obtain w t where "oe_clock env (rn_world s) = (w, t)" by (cases "oe_clock env (rn_world s)")
  then have "emit_locked env i st d s = (logged s i (rn_records s ! i) w (new_event s i st d t), Inr ())"
    by (simp add: emit_locked_def abind_def clock_locked_def in_world_def pure_call_def raised_def amodify_def logged_def new_event_def set_op_def)
  then show ?thesis by (rule that)
qed

lemma log_ok_append:
  assumes "log_ok n r" "st = op_status r \<or> allowed_transition (op_status r) st"
    and "oev_cursor e = Suc n" "oev_status e = st" "oev_operation_id e = op_operation_id r"
    and "same_identity r q" "op_events q = op_events r @ [e]" "op_status q = st"
  shows "log_ok (Suc n) q"
  using assms by (auto simp: log_ok_def successively_append_iff log_step_def same_identity_def le_Suc_eq less_Suc_eq_le)

lemma evolves_logged:
  assumes "st = op_status (rn_records s ! i) \<or> allowed_transition (op_status (rn_records s ! i)) st"
    and "same_identity (rn_records s ! i) r" "op_deadline r = op_deadline (rn_records s ! i)"
    and "op_status r = st" "op_events r = op_events (rn_records s ! i)"
  shows "evolves n s (logged s i r w (new_event s i st d t))"
proof (rule evolves_record)
  let ?q = "r\<lparr>op_events := op_events r @ [new_event s i st d t]\<rparr>"
  show "rn_records (logged s i r w (new_event s i st d t)) = (rn_records s)[i := ?q]" by (simp add: logged_def)
  show "evolved (rn_records s ! i) ?q" using assms
    by (auto simp: evolved_def same_identity_def terminal_def allowed_transition_def split: op_status.splits)
  show "log_ok (rn_cursor (logged s i r w (new_event s i st d t))) ?q" if "log_ok (rn_cursor s) (rn_records s ! i)"
    using log_ok_append [OF that assms(1), of "new_event s i st d t" ?q] assms by (simp add: logged_def new_event_def same_identity_def)
qed (simp_all add: logged_def)

lemma progress_evolves: "evolves n s (fst (progress_locked env i d s))"
proof -
  obtain w t where "emit_locked env i (op_status (rn_records s ! i)) d s
      = (logged s i (rn_records s ! i) w (new_event s i (op_status (rn_records s ! i)) d t), Inr ())"
    by (rule emit_result)
  then show ?thesis using evolves_logged [of "op_status (rn_records s ! i)" s i "rn_records s ! i"]
    by (simp add: progress_locked_def with_op_def same_identity_def)
qed

lemma status_event_evolves:
  \<comment> \<open>the status changes to an allowed one and the event is logged in the same critical section\<close>
  assumes "allowed_transition (op_status (rn_records s ! i)) st"
    and "op_status (f (rn_records s ! i)) = st" "same_identity (rn_records s ! i) (f (rn_records s ! i))"
    and "op_deadline (f (rn_records s ! i)) = op_deadline (rn_records s ! i)" "op_events (f (rn_records s ! i)) = op_events (rn_records s ! i)"
  shows "evolves n s (fst (emit_locked env i st d (set_op i f s)))"
proof (cases "i < length (rn_records s)")
  case True
  obtain w t where e: "emit_locked env i st d (set_op i f s)
      = (logged (set_op i f s) i (rn_records (set_op i f s) ! i) w (new_event (set_op i f s) i st d t), Inr ())" by (rule emit_result)
  then have "fst (emit_locked env i st d (set_op i f s)) = logged s i (f (rn_records s ! i)) w (new_event s i st d t)"
    using True assms(3) by (simp add: set_op_def logged_def new_event_def same_identity_def)
  then show ?thesis using evolves_logged [of st s i "f (rn_records s ! i)"] assms by simp
next
  case False
  then have s: "set_op i f s = s" by (cases s) (simp add: set_op_def not_less list_update_beyond)
  obtain w t where "emit_locked env i st d s = (logged s i (rn_records s ! i) w (new_event s i st d t), Inr ())" by (rule emit_result)
  then show ?thesis using False s by (simp add: logged_def) (rule evolves_record, auto)
qed

lemma transition_evolves: "evolves n s (fst (transition env i st d s))"
proof (cases "allowed_transition (op_status (rn_records s ! i)) st")
  case True
  then show ?thesis using status_event_evolves [of s i st "\<lambda>r. r\<lparr>op_status := st\<rparr>" n env d]
    by (simp add: transition_def with_op_def abind_def assign_def amodify_def same_identity_def)
qed (simp add: transition_def with_op_def areturn_def)

lemma evolving_keeps_update: "keeps_update (evolving env) f \<longleftrightarrow> (rely env \<longrightarrow> (\<forall>s. evolves (oe_history_limit env) s (f s)))"
  by (auto simp: keeps_update_def evolving_def)

lemma evolving_keeps: "keeps (evolving env) m \<longleftrightarrow> (rely env \<longrightarrow> (\<forall>s. evolves (oe_history_limit env) s (fst (m s))))"
  by (auto simp: keeps_def evolving_def)

lemma set_op_evolves:
  assumes "\<And>r. same_identity r (f r) \<and> op_status (f r) = op_status r \<and> op_events (f r) = op_events r \<and> op_deadline (f r) \<le> op_deadline r"
  shows "evolves n s (set_op i f s)"
proof (rule evolves_record)
  show "rn_records (set_op i f s) = (rn_records s)[i := f (rn_records s ! i)]" by (simp add: set_op_def)
qed (use assms [of "rn_records s ! i"] in \<open>simp_all add: set_op_def evolved_def log_ok_def same_identity_def\<close>)

lemma evolving_handling: "handling env i (evolving env)"
proof -
  have "working env i (evolving env)"
    by (auto simp: working_def evolving_quiet evolving_keeps_update evolving_keeps step_update_def progress_evolves transition_evolves
      intro!: set_op_evolves)
  then show ?thesis by (auto simp: handling_def evolving_keeps_update handler_update_def intro!: set_op_evolves)
qed

interpretation evolving_worker: worker env i "evolving env" for env :: "('s, 'g) operation_env" and i
  using evolving_handling [of env i] by unfold_locales (simp add: handling_def)

interpretation evolving_patient: patient_worker env i "evolving env" fuel for env :: "('s, 'g) operation_env" and i fuel
  by unfold_locales (rule evolving_worker.polls_keep, simp add: evolving_def)

interpretation evolving_writer: writing_worker env i "evolving env" fuel for env :: "('s, 'g) operation_env" and i fuel
  by unfold_locales (rule evolving_handling)

interpretation evolving_handler: handler_worker env i "evolving env" fuel for env :: "('s, 'g) operation_env" and i fuel
  by unfold_locales (rule evolving_writer.awaits_keep, simp add: evolving_def)


lemma set_op_status: "op_status (f (rn_records s ! i)) = op_status (rn_records s ! i) \<Longrightarrow> op_status (rn_records (set_op i f s) ! i) = op_status (rn_records s ! i)"
  by (cases "i < length (rn_records s)") (simp_all add: set_op_def list_update_beyond not_less)

lemma active_can_fail: "\<not> terminal st \<Longrightarrow> allowed_transition st OpFailed"
  by (cases st) (simp_all add: terminal_def allowed_transition_def)

lemma fail_unexpected_evolves: "keeps (evolving env) (fail_unexpected env i e)"
proof -
  let ?d = "''operation worker failed: '' @ error_label e"
  let ?fail = "\<lambda>r. if terminal (op_status r) then areturn (Inr ())
       else abind (assign i (\<lambda>r. r\<lparr>op_explanation := ?d\<rparr>)) (\<lambda>_.
         abind (clock_locked env) (\<lambda>now.
         abind (assign i (\<lambda>r. r\<lparr>op_ended_at := Some now\<rparr>)) (\<lambda>_.
         abind (assign i (\<lambda>r. r\<lparr>op_status := OpFailed\<rparr>)) (\<lambda>_.
         emit_locked env i OpFailed ?d))))"
  have "evolves n s (fst (?fail (rn_records s ! i) s))" for n s
  proof (cases "terminal (op_status (rn_records s ! i))")
    case False
    let ?s1 = "set_op i (\<lambda>r. r\<lparr>op_explanation := ?d\<rparr>) s"
    obtain w t where c: "oe_clock env (rn_world ?s1) = (w, t)" by (cases "oe_clock env (rn_world ?s1)")
    let ?s2 = "?s1\<lparr>rn_world := w\<rparr>"
    let ?s3 = "set_op i (\<lambda>r. r\<lparr>op_ended_at := Some t\<rparr>) ?s2"
    let ?f = "\<lambda>r. r\<lparr>op_status := OpFailed\<rparr>"
    have e: "?fail (rn_records s ! i) s = emit_locked env i OpFailed ?d (set_op i ?f ?s3)"
      using False c by (simp add: abind_def assign_def amodify_def clock_locked_def in_world_def pure_call_def raised_def)
    have "op_status (rn_records ?s3 ! i) = op_status (rn_records ?s2 ! i)" by (rule set_op_status) simp
    also have "\<dots> = op_status (rn_records ?s1 ! i)" by simp
    also have "\<dots> = op_status (rn_records s ! i)" by (rule set_op_status) simp
    finally have "evolves n ?s3 (fst (emit_locked env i OpFailed ?d (set_op i ?f ?s3)))"
      using status_event_evolves [of ?s3 i OpFailed ?f n env ?d] active_can_fail [OF False] by (simp add: same_identity_def)
    moreover have "evolves n s ?s1" by (rule set_op_evolves) (simp add: same_identity_def)
    moreover have "evolves n ?s1 ?s2" by (rule evolvesI_same) simp_all
    moreover have "evolves n ?s2 ?s3" by (rule set_op_evolves) (simp add: same_identity_def)
    ultimately show ?thesis unfolding e by (blast intro: runner_evolves_trans)
  qed (simp add: areturn_def)
  then have "keeps (evolving env) (with_op i ?fail)" by (simp add: evolving_keeps with_op_def)
  then show ?thesis unfolding fail_unexpected_def Let_def by (intro keeps_abind evolving_worker.others_keeps evolving_ok)
qed

interpretation evolving_run: lone_worker env i "evolving env" fuel for env :: "('s, 'g) operation_env" and i fuel
  by unfold_locales (rule fail_unexpected_evolves)

section \<open>Admission, interrupt and controls\<close>

lemma dput_entries: "distinct (dkeys d) \<Longrightarrow> (l, j) \<in> set (dput k v d) \<longleftrightarrow> (if l = k then j = v else (l, j) \<in> set d)"
  using map_of_eq_Some_iff [of "dput k v d" l j] map_of_eq_Some_iff [of d l j] distinct_dput [of d k v]
  by (auto simp: dkeys_def split: if_splits)

lemma length_dput: "length (dput k v d) \<le> Suc (length d)"
  by (induction k v d rule: dput.induct) auto

lemma ddel_entries: "(l, j) \<in> set (ddel k d) \<longleftrightarrow> l \<noteq> k \<and> (l, j) \<in> set d"
  by (auto simp: ddel_def)

lemma length_ddel_less: "k \<in> set (dkeys d) \<Longrightarrow> length (ddel k d) < length d"
proof -
  assume "k \<in> set (dkeys d)"
  then obtain v where "(k, v) \<in> set d" by (auto simp: dkeys_def)
  then show ?thesis unfolding ddel_def by (rule length_filter_less) simp
qed

lemma evict_evolves: "evolves n s (evict k s)"
proof -
  have "runner_ok n (evict k s)" if "runner_ok n s"
    using that length_ddel_le [of k "rn_operations s"]
    by (auto simp: runner_ok_def history_ok_def one_owner_def active_def evict_def ddel_entries)
  then show ?thesis by (simp add: evolves_def evict_def)
qed

lemma admitted_evolves:
  \<comment> \<open>a new record with its first event\<close>
  assumes "\<not> active_owner (op_character r) s" "length (rn_operations s) < n" "log_ok (Suc (rn_cursor s)) q" "same_identity r q"
  shows "evolves n s (s\<lparr>rn_operations := dput (op_operation_id r) (length (rn_records s)) (rn_operations s), rn_world := w,
    rn_cursor := Suc (rn_cursor s), rn_records := rn_records s @ [q]\<rparr>)" (is "evolves n s ?t")
proof -
  have "runner_ok n ?t" if ok: "runner_ok n s"
  proof -
    have h: "history_ok s" and o1: "one_owner s" and l: "\<forall>r \<in> set (rn_records s). log_ok (rn_cursor s) r"
      using ok by (simp_all add: runner_ok_def)
    have d: "distinct (dkeys (rn_operations s))" using h by (simp add: history_ok_def)
    have e: "(k, i) \<in> set (rn_operations ?t) \<longleftrightarrow>
        (if k = op_operation_id r then i = length (rn_records s) else (k, i) \<in> set (rn_operations s))" for k i
      using d by (simp add: dput_entries)
    have old: "i < length (rn_records s)" if "(k, i) \<in> set (rn_operations s)" for k i using h that by (auto simp: history_ok_def)
    have "history_ok ?t" using h d assms(4) old unfolding history_ok_def
      by (auto simp: dput_entries nth_append same_identity_def split: if_splits)
    moreover have new: "\<not> (active s i \<and> casefold (op_character (rn_records s ! i)) = casefold (op_character q))"
      if "(k, i) \<in> set (rn_operations s)" for k i
      using assms(1,4) that by (auto simp: active_owner_def list_ex_iff Let_def active_def same_identity_def)
    have act: "active ?t i = active s i \<and> rn_records ?t ! i = rn_records s ! i" if "(k, i) \<in> set (rn_operations s)" for k i
      using old [OF that] by (simp add: active_def nth_append)
    have "one_owner ?t" unfolding one_owner_def
    proof (intro allI impI)
      fix k i l j assume a: "(k, i) \<in> set (rn_operations ?t)" "(l, j) \<in> set (rn_operations ?t)" "active ?t i" "active ?t j"
        "casefold (op_character (rn_records ?t ! i)) = casefold (op_character (rn_records ?t ! j))"
      have q: "rn_records ?t ! length (rn_records s) = q" by simp
      show "i = j" using a(1,2) a(3-) act new o1 q unfolding e one_owner_def by (metis (no_types, lifting))
    qed
    moreover have "\<forall>r \<in> set (rn_records ?t). log_ok (rn_cursor ?t) r" using l assms(3) log_ok_mono by fastforce
    moreover have "length (rn_operations ?t) \<le> n"
      using assms(2) length_dput [of "op_operation_id r" "length (rn_records s)" "rn_operations s"] by simp
    ultimately show ?thesis by (simp add: runner_ok_def)
  qed
  then show ?thesis by (simp add: evolves_def nth_append)
qed

lemma admit_evolves:
  assumes "op_status r = OpRequested" "op_events r = []"
  shows "evolves (oe_history_limit env) s (fst (admit_operation env r s))"
proof -
  let ?n = "oe_history_limit env"
  have new: "evolves ?n s (fst (admit_operation env r s))"
    if free: "\<not> active_owner (op_character r) s" and n: "?n \<le> length (rn_operations s) \<Longrightarrow> evictable s = Some k"
      and s1: "s1 = (if ?n \<le> length (rn_operations s) then evict k s else s)" for s1 k
  proof -
    let ?i = "length (rn_records s1)"
    let ?s2 = "s1\<lparr>rn_records := rn_records s1 @ [r], rn_operations := dput (op_operation_id r) ?i (rn_operations s1)\<rparr>"
    obtain w t where e: "emit_locked env ?i OpRequested ''operation requested'' ?s2
        = (logged ?s2 ?i (rn_records ?s2 ! ?i) w (new_event ?s2 ?i OpRequested ''operation requested'' t), Inr ())" by (rule emit_result)
    let ?e = "new_event ?s2 ?i OpRequested ''operation requested'' t"
    have res: "fst (admit_operation env r s) = logged ?s2 ?i r w ?e"
      using free n s1 e by (auto simp: admit_operation_def Let_def abind_def areturn_def split: if_splits)
    have s1_ev: "evolves ?n s s1" by (simp add: s1 evict_evolves)
    show ?thesis
    proof (cases "runner_ok ?n s")
      case True
      have key: "k \<in> set (dkeys (rn_operations s))" if "evictable s = Some k"
      proof -
        from that obtain p where p: "List.find (\<lambda>(_, i). terminal (op_status (rn_records s ! i))) (rn_operations s) = Some p" "k = fst p"
          unfolding evictable_def by blast
        from p(1) obtain j where "j < length (rn_operations s)" "p = rn_operations s ! j" unfolding find_Some_iff by blast
        with p(2) show ?thesis by (simp add: dkeys_def)
      qed
      have len: "length (rn_operations s1) < ?n"
        using s1 length_ddel_less [OF key [OF n]] True by (auto simp: evict_def runner_ok_def)
      have own: "\<not> active_owner (op_character r) s1"
        using free s1 by (auto simp: active_owner_def list_ex_iff evict_def ddel_entries)
      have "log_ok (Suc (rn_cursor s1)) (r\<lparr>op_events := [?e]\<rparr>)" using assms(1) by (simp add: log_ok_def new_event_def)
      then have "evolves ?n s1 (logged ?s2 ?i r w ?e)"
        using admitted_evolves [OF own len, of "r\<lparr>op_events := [?e]\<rparr>" w] assms(2) by (simp add: same_identity_def logged_def)
      then show ?thesis unfolding res by (rule runner_evolves_trans [OF s1_ev])
    next
      case False
      then show ?thesis using s1_ev unfolding res by (auto simp: evolves_def logged_def nth_append)
    qed
  qed
  show ?thesis
  proof (cases "active_owner (op_character r) s \<or> ?n \<le> length (rn_operations s) \<and> evictable s = None")
    case True
    then show ?thesis by (auto simp: admit_operation_def)
  next
    case False
    then show ?thesis using new by (metis option.exhaust)
  qed
qed

lemma create_evolves: "keeps (evolving env) (create_operation env q)"
proof -
  have r: "settled (raised x)" for x :: "rat result" by simp
  show ?thesis unfolding create_operation_def
    by (intro keeps_abind evolving_ok evolving_worker.aguard_keeps evolving_worker.areturn_keeps evolving_worker.calls_keep
      evolving_worker.others_keeps r) (auto simp: evolving_keeps intro!: admit_evolves)
qed

lemma interrupt_evolves: "keeps (evolving env) (interrupt env k)"
  unfolding interrupt_def
  by (intro keeps_intros evolving_ok evolving_worker.interrupt_keeps evolving_worker.others_keeps evolving_worker.lookup_keeps
    evolving_worker.cancel_recon_keeps evolving_worker.stop_keeps evolving_worker.cancel_controls_keep)

lemma control_evolves: "keeps (evolving env) (control_controller env k ch g ctl)"
  unfolding control_controller_def
  by (intro keeps_intros evolving_ok evolving_worker.control_keeps evolving_worker.others_keeps evolving_worker.lookup_keeps
    evolving_worker.aguard_keeps) simp_all

section \<open>Any history of a runner\<close>

inductive runner_step :: "('s, 'g) operation_env \<Rightarrow> 's runner \<Rightarrow> 's runner \<Rightarrow> bool" for env where
  \<comment> \<open>one call from outside or one worker from start to end, with what the other threads do in between\<close>
  rs_create: "runner_step env s (fst (create_operation env q s))"
| rs_run: "runner_step env s (fst (run_operation env fuel i s))"
| rs_interrupt: "runner_step env s (fst (interrupt env k s))"
| rs_control: "runner_step env s (fst (control_controller env k' character generation ctl s))"
| rs_surroundings: "runner_step env s (s\<lparr>rn_broker := b, rn_world := w\<rparr>)"

inductive_cases runner_stepE: "runner_step env s t"

lemma evolving_keepsD: "keeps (evolving env) m \<Longrightarrow> rely env \<Longrightarrow> evolves (oe_history_limit env) s (fst (m s))"
  by (simp add: evolving_keeps)

lemma step_evolves: "runner_step env s t \<Longrightarrow> rely env \<Longrightarrow> evolves (oe_history_limit env) s t"
  by (erule runner_stepE) (auto intro: evolvesI_same create_evolves [THEN evolving_keepsD] evolving_run.run_keeps [THEN evolving_keepsD]
    interrupt_evolves [THEN evolving_keepsD] control_evolves [THEN evolving_keepsD])

lemma steps_evolve: "(runner_step env)\<^sup>*\<^sup>* s t \<Longrightarrow> rely env \<Longrightarrow> evolves (oe_history_limit env) s t"
  by (induction rule: rtranclp_induct) (auto intro: runner_evolves_trans step_evolves)

lemma init_runner_ok: "runner_init ps n d env0 b w = Inr (env, s) \<Longrightarrow> runner_ok (oe_history_limit env) s"
  by (auto simp: runner_init_def runner_ok_def history_ok_def one_owner_def rbind_Inr_iff dkeys_def split: if_splits)

lemma history_runner_ok:
  "runner_init ps n d env0 b w = Inr (env, s0) \<Longrightarrow> (runner_step env)\<^sup>*\<^sup>* s0 s \<Longrightarrow> rely env \<Longrightarrow> runner_ok (oe_history_limit env) s"
  by (drule steps_evolve, assumption) (auto dest: init_runner_ok simp: evolves_def)

end
