(* ===== verification/OperationEnding.thy ===== *)
theory OperationEnding
  imports OperationInvariant
begin

text \<open>
  How a worker ends: its operation is terminal when it returns, and it returns once its clock passes the
  deadline.  The time is read off the surroundings by \<open>now\<close>; a waiting loop of \<open>n\<close> polls outlasts a
  deadline that is at most \<open>n - 1\<close> poll intervals away.
\<close>

section \<open>A worker that returns leaves a terminal operation\<close>

lemma evolving_record:
  \<comment> \<open>an operation that is terminal stays so\<close>
  assumes "keeps (evolving env) m" "rely env" "m s = (t, r)" "i < length (rn_records s)"
  shows "i < length (rn_records t)" and "terminal (op_status (rn_records s ! i)) \<Longrightarrow> op_status (rn_records t ! i) = op_status (rn_records s ! i)"
  using evolving_keepsD [OF assms(1,2), of s] assms(3,4) by (auto simp: evolves_def evolved_def)

lemma allowed_is_terminal_or: "allowed_transition old new \<Longrightarrow> terminal new \<or> new = OpAdmitted \<or> new = OpRunning"
  by (cases old) (auto simp: allowed_transition_def terminal_def)

lemma transition_sets:
  assumes "transition env i st d s = (t, Inr ())" "i < length (rn_records s)"
  shows "op_status (rn_records t ! i) = st"
proof -
  obtain w x where "emit_locked env i st d (set_op i (\<lambda>r. r\<lparr>op_status := st\<rparr>) s) =
      (logged (set_op i (\<lambda>r. r\<lparr>op_status := st\<rparr>) s) i (rn_records (set_op i (\<lambda>r. r\<lparr>op_status := st\<rparr>) s) ! i) w x, Inr ())"
    using emit_result [of env i st d "set_op i (\<lambda>r. r\<lparr>op_status := st\<rparr>) s"] by metis
  with assms show ?thesis
    by (auto simp: transition_def with_op_def areturn_def abind_def assign_def amodify_def logged_def set_op_def split: if_splits)
qed

definition present :: "nat \<Rightarrow> 's runner \<Rightarrow> bool" where
  "present i s = (i < length (rn_records s))"

definition in_status :: "nat \<Rightarrow> op_status \<Rightarrow> 's runner \<Rightarrow> bool" where
  "in_status i st s = (present i s \<and> op_status (rn_records s ! i) = st)"

lemma present_spec: "keeps (evolving env) m \<Longrightarrow> rely env \<Longrightarrow> spec (present i) m (\<lambda>_. present i) (\<lambda>_. present i)"
  using evolving_record(1) [of env m] by (fastforce simp: spec_def present_def split: prod.split sum.split)

lemma ended_spec:
  "keeps (evolving env) m \<Longrightarrow> rely env \<Longrightarrow> terminal st \<Longrightarrow> spec (in_status i st) m (\<lambda>_. in_status i st) (\<lambda>_. in_status i st)"
  using evolving_record [of env m] by (fastforce simp: spec_def in_status_def present_def split: prod.split sum.split)

lemma transition_spec: "rely env \<Longrightarrow> spec (present i) (transition env i st d) (\<lambda>_. in_status i st) (\<lambda>_. present i)"
  using present_spec [OF evolving_worker.log_keeps(2), of env i i st d] transition_sets [of env i st d]
  by (fastforce simp: spec_def in_status_def present_def split: prod.splits sum.splits)

lemma rely_holding_lock: "rely (holding_lock env)"
  by (auto simp: rely_def intro: evolvesI_same split: prod.split)

lemma kept_then:
  assumes "rely env" "keeps (evolving env) m" "\<And>x. spec (present i) (f x) Q (\<lambda>_ _. True)"
  shows "spec (present i) (abind m f) Q (\<lambda>_ _. True)"
  by (rule spec_abind [OF spec_consequence [OF present_spec [OF assms(2,1)]] assms(3)]) simp_all

lemma ended_then:
  assumes "rely env" "terminal st" "keeps (evolving env) m" "\<And>x. spec (in_status i st) (f x) Q (\<lambda>_ _. True)"
  shows "spec (in_status i st) (abind m f) Q (\<lambda>_ _. True)"
  by (rule spec_abind [OF spec_consequence [OF ended_spec [OF assms(3,1,2)]] assms(4)]) simp_all

lemma finish_spec:
  fixes env :: "('s, 'g) operation_env"
  assumes "rely env" "terminal st"
  shows "spec (present i) (finish env i st d) (\<lambda>_. in_status i st) (\<lambda>_ _. True)"
proof -
  have refuge: "keeps (evolving env) (\<lambda>s. (case map_of (rn_refuge_pending s) k of None \<Rightarrow> areturn (Inr ())
      | Some p \<Rightarrow> awhen (rf_operation_id p = o') (raise_alert_locked env i d')) s)" for k o' d'
    by (rule keeps_state) (intro keeps_intros evolving_ok; simp)
  have tr: "spec (present i) (transition env i st d) (\<lambda>_. in_status i st) (\<lambda>_ _. True)"
    by (rule spec_consequence [OF transition_spec [OF assms(1)]]) simp_all
  have last: "spec (in_status i st) (with_op i (\<lambda>r. amodify (\<lambda>s. s\<lparr>rn_controller_actions := f r s, rn_test_actions := g r s\<rparr>)))
      (\<lambda>_. in_status i st) (\<lambda>_ _. True)" for f g
    by (simp add: spec_def with_op_def amodify_def in_status_def present_def)
  have tail: "spec (in_status i st) (abind (others env) (\<lambda>_. abind (cancel_controls_locked env i b) (\<lambda>_.
      with_op i (\<lambda>r. amodify (\<lambda>s. s\<lparr>rn_controller_actions := f r s, rn_test_actions := g r s\<rparr>)))))
      (\<lambda>_. in_status i st) (\<lambda>_ _. True)" for b f g
    by (rule ended_then [OF assms] last keeps_intros)+
  show ?thesis unfolding finish_def
    by (rule spec_abind [OF tr tail] | (rule kept_then [OF assms(1)], (intro keeps_intros refuge evolving_ok)[1]))+
qed

lemma spec_with_op: "(\<And>r. spec P (f r) Q E) \<Longrightarrow> spec P (with_op i f) Q E"
  by (simp add: spec_def with_op_def)

lemma attempt_spec:
  fixes env :: "('s, 'g) operation_env"
  assumes "rely env"
  shows "spec (present i) (attempt_operation env fuel i) (\<lambda>_. in_status i OpSucceeded) (\<lambda>_ _. True)"
proof -
  have fin: "spec (present i) (finish (holding_lock env) i OpSucceeded d) (\<lambda>_. in_status i OpSucceeded) (\<lambda>_ _. True)" for d
    by (rule finish_spec [OF rely_holding_lock]) (simp add: terminal_def)
  have lock: "keeps (evolving env) (before_success (holding_lock env) i)"
    by (rule evolving_writer.locked.before_success_keeps)
  show ?thesis unfolding attempt_operation_def
    by (rule spec_with_op) (rule fin | (rule kept_then [OF assms], (intro keeps_intros lock evolving_ok; simp split: option.split; fail)[1]))+
qed

lemma conclude_spec:
  fixes env :: "('s, 'g) operation_env"
  assumes "rely env"
  shows "spec (present i) (conclude_failure env fuel i kind d) (\<lambda>_. in_status i (failure_status kind)) (\<lambda>_ _. True)"
proof -
  have t: "terminal (failure_status kind)" by (cases kind) (simp_all add: terminal_def)
  show ?thesis unfolding conclude_failure_def
    by (rule finish_spec [OF assms t] spec_with_op | (rule kept_then [OF assms], (intro keeps_intros evolving_ok)[1]))+
qed

lemma execute_value:
  assumes "rely env" "present i s" "execute_operation env fuel i s = (t, Inr u)"
  shows "\<exists>st. terminal st \<and> in_status i st t"
proof -
  obtain s1 r1 where a: "attempt_operation env fuel i s = (s1, r1)" by (cases "attempt_operation env fuel i s")
  have p: "present i s1"
    using evolving_record(1) [OF evolving_handler.attempt_keeps assms(1) a] assms(2) by (simp add: present_def)
  show ?thesis
  proof (cases r1)
    case (Inr x)
    with assms(3) a have "t = s1" by (simp add: execute_operation_def caught_def acatch_def)
    moreover have "in_status i OpSucceeded s1" using attempt_spec [OF assms(1), of i fuel] assms(2) a Inr by (auto simp: spec_def split: prod.splits)
    ultimately show ?thesis by (auto simp: terminal_def)
  next
    case (Inl e)
    obtain kind d where k: "abort_of e = (kind, d)" by (cases "abort_of e")
    with assms(3) a Inl have "conclude_failure env fuel i kind d s1 = (t, Inr u)"
      by (auto simp: execute_operation_def caught_def acatch_def areturn_def split: if_splits)
    with conclude_spec [OF assms(1), of i fuel kind d] p have "in_status i (failure_status kind) t"
      by (auto simp: spec_def split: prod.splits)
    then show ?thesis by (cases kind) (auto simp: terminal_def)
  qed
qed

lemma unexpected_result:
  assumes "rely env" "present i s" "fail_unexpected env i e s = (t, r)"
  shows "r = Inr () \<and> terminal (op_status (rn_records t ! i))"
proof -
  let ?s = "oe_others env s" and ?d = "''operation worker failed: '' @ error_label e"
  have p: "i < length (rn_records ?s)" using assms(1,2) unfolding rely_def evolves_def present_def by (metis order_less_le_trans)
  show ?thesis
  proof (cases "terminal (op_status (rn_records ?s ! i))")
    case True
    with assms(3) show ?thesis
      by (auto simp: fail_unexpected_def Let_def abind_def others_def amodify_def with_op_def areturn_def)
  next
    case False
    obtain w x where c: "oe_clock env (rn_world ?s) = (w, x)" by (cases "oe_clock env (rn_world ?s)")
    let ?s4 = "set_op i (\<lambda>r. r\<lparr>op_status := OpFailed\<rparr>) (set_op i (\<lambda>r. r\<lparr>op_ended_at := Some x\<rparr>)
      ((set_op i (\<lambda>r. r\<lparr>op_explanation := ?d\<rparr>) ?s)\<lparr>rn_world := w\<rparr>))"
    obtain v y where e: "emit_locked env i OpFailed ?d ?s4 = (logged ?s4 i (rn_records ?s4 ! i) v (new_event ?s4 i OpFailed ?d y), Inr ())"
      by (rule emit_result)
    have w0: "rn_world (set_op i (\<lambda>r. r\<lparr>op_explanation := ?d\<rparr>) ?s) = rn_world ?s" by (simp add: set_op_def)
    have "fail_unexpected env i e s = emit_locked env i OpFailed ?d ?s4"
      using False c w0 by (simp add: fail_unexpected_def Let_def abind_def others_def amodify_def with_op_def assign_def
        clock_locked_def in_world_def pure_call_def raised_def)
    with e assms(3) p show ?thesis by (auto simp: logged_def set_op_def terminal_def)
  qed
qed

lemma run_result:
  \<comment> \<open>the worker returns with its operation terminal, or has not returned yet\<close>
  assumes "rely env" "present i s" "run_operation env fuel i s = (t, r)"
  shows "r = Inl StillRunning \<or> r = Inr () \<and> terminal (op_status (rn_records t ! i))"
proof -
  obtain s1 r1 where x: "execute_operation env fuel i s = (s1, r1)" by (cases "execute_operation env fuel i s")
  have p: "present i s1" using evolving_record(1) [OF evolving_handler.execute_keeps assms(1) x] assms(2) by (simp add: present_def)
  show ?thesis
  proof (cases r1)
    case (Inr u)
    with x assms(3) have "t = s1" "r = Inr ()" by (auto simp: run_operation_def caught_def acatch_def)
    with execute_value [OF assms(1,2) x [unfolded Inr]] show ?thesis by (auto simp: in_status_def)
  next
    case (Inl e)
    with x assms(3) have "e \<noteq> StillRunning \<Longrightarrow> fail_unexpected env i e s1 = (t, r)" "e = StillRunning \<Longrightarrow> r = Inl StillRunning"
      by (auto simp: run_operation_def caught_def acatch_def areturn_def)
    with unexpected_result [OF assms(1) p] show ?thesis by (cases "e = StillRunning") blast+
  qed
qed

section \<open>Time passes\<close>

definition timely :: "('s, 'g) operation_env \<Rightarrow> nat \<Rightarrow> ('s \<Rightarrow> rat) \<Rightarrow> bool" where
  \<comment> \<open>the clock reads a time that never runs back and that a sleep of \<open>d\<close> seconds moves by \<open>d\<close>; the other
      threads keep the operation and never put its deadline off\<close>
  "timely env i now = (0 < oe_poll_interval env
     \<and> (\<forall>w. now w \<le> snd (oe_clock env w) \<and> snd (oe_clock env w) \<le> now (fst (oe_clock env w)))
     \<and> (\<forall>w v. world_move env w v \<longrightarrow> now w \<le> now v) \<and> (\<forall>w d. 0 \<le> d \<longrightarrow> now w + d \<le> now (oe_sleep env d w))
     \<and> (\<forall>b w. now w \<le> now (snd (oe_bridge env b w)))
     \<and> (\<forall>s. i < length (rn_records s) \<longrightarrow> i < length (rn_records (oe_others env s)) \<and> now (rn_world s) \<le> now (rn_world (oe_others env s))
          \<and> op_deadline (rn_records (oe_others env s) ! i) \<le> op_deadline (rn_records s ! i)))"

definition later :: "nat \<Rightarrow> ('s \<Rightarrow> rat) \<Rightarrow> 's runner \<Rightarrow> 's runner \<Rightarrow> bool" where
  "later i now s t = (present i s \<longrightarrow> present i t \<and> now (rn_world s) \<le> now (rn_world t)
     \<and> op_deadline (rn_records t ! i) \<le> op_deadline (rn_records s ! i))"

definition in_reach :: "('s, 'g) operation_env \<Rightarrow> nat \<Rightarrow> ('s \<Rightarrow> rat) \<Rightarrow> nat \<Rightarrow> 's runner \<Rightarrow> bool" where
  \<comment> \<open>the deadline is less than \<open>n\<close> polls away\<close>
  "in_reach env i now n s = (present i s \<and> 0 < n
     \<and> op_deadline (rn_records s ! i) \<le> now (rn_world s) + of_nat (n - 1) * oe_poll_interval env)"

definition timed :: "('s, 'g) operation_env \<Rightarrow> nat \<Rightarrow> ('s \<Rightarrow> rat) \<Rightarrow> nat \<Rightarrow> 's worker_contract" where
  "timed env i now n = \<lparr>ct_held = \<lambda>s. timely env i now \<and> in_reach env i now n s,
     ct_moves = \<lambda>s t. timely env i now \<longrightarrow> later i now s t, ct_raises = \<lambda>e. e \<noteq> StillRunning\<rparr>"

lemma timed_sel [simp]: "ct_held (timed env i now n) s \<longleftrightarrow> timely env i now \<and> in_reach env i now n s"
  "ct_moves (timed env i now n) s t \<longleftrightarrow> (timely env i now \<longrightarrow> later i now s t)" "ct_raises (timed env i now n) e \<longleftrightarrow> e \<noteq> StillRunning"
  by (simp_all add: timed_def)

lemma later_refl [simp]: "later i now s s"
  by (simp add: later_def)

lemma later_trans: "later i now s t \<Longrightarrow> later i now t u \<Longrightarrow> later i now s u"
  by (auto simp: later_def)

lemma in_reach_later: "in_reach env i now n s \<Longrightarrow> later i now s t \<Longrightarrow> in_reach env i now n t"
  unfolding in_reach_def later_def by (metis add_right_mono order_trans)

lemma timed_ok: "contract_ok (timed env i now n)"
  by (auto simp: contract_ok_def intro: later_trans in_reach_later)

lemma timed_quiet: "quiet env (timed env i now n)"
proof -
  have b: "later i now s (s\<lparr>rn_broker := b, rn_world := w\<rparr>)"
    if "timely env i now" "oe_bridge env (rn_broker s) (rn_world s) = (b, w)" for s :: "'a runner" and b w
    using that by (auto simp: timely_def later_def present_def) (metis snd_conv)
  show ?thesis unfolding quiet_def keeps_update_def
    using timed_ok b by (auto simp: timely_def later_def present_def same_core_def split: prod.split)
qed

lemma set_op_later: "(\<And>r. op_deadline (f r) \<le> op_deadline r) \<Longrightarrow> later i now s (set_op i f s)"
  by (auto simp: later_def present_def set_op_def)

lemma emit_later: "timely env i now \<Longrightarrow> later i now s (fst (emit_locked env i st d s))"
proof -
  assume t: "timely env i now"
  have "rn_world (fst (emit_locked env i st d s)) = fst (oe_clock env (rn_world s))"
    by (simp add: emit_locked_def abind_def clock_locked_def in_world_def pure_call_def raised_def amodify_def set_op_def split: prod.split)
  moreover have "now (rn_world s) \<le> now (fst (oe_clock env (rn_world s)))"
    using t unfolding timely_def by (meson order_trans)
  moreover obtain w e where "emit_locked env i st d s = (logged s i (rn_records s ! i) w e, Inr ())" using emit_result [of env i st d s] by metis
  ultimately show ?thesis by (simp add: later_def present_def logged_def)
qed

lemma timed_handling: "handling env i (timed env i now n)"
proof -
  have p: "keeps (timed env i now n) (progress_locked env i d)" for d
  proof (rule keepsI)
    fix s t r assume h: "ct_held (timed env i now n) s" and e: "progress_locked env i d s = (t, r)"
    obtain w x where "emit_locked env i (op_status (rn_records s ! i)) d s = (logged s i (rn_records s ! i) w x, Inr ())"
      using emit_result [of env i "op_status (rn_records s ! i)" d s] by metis
    with e h emit_later [of env i now s "op_status (rn_records s ! i)" d]
    show "ct_moves (timed env i now n) s t \<and> (\<forall>e. r = Inl e \<longrightarrow> ct_raises (timed env i now n) e)"
      by (auto simp: progress_locked_def with_op_def)
  qed
  have t: "keeps (timed env i now n) (transition env i st d)" for st d
  proof (rule keepsI)
    fix s t r assume h: "ct_held (timed env i now n) s" and e: "transition env i st d s = (t, r)"
    let ?s = "set_op i (\<lambda>r. r\<lparr>op_status := st\<rparr>) s"
    obtain w x where m: "emit_locked env i st d ?s = (logged ?s i (rn_records ?s ! i) w x, Inr ())" using emit_result [of env i st d ?s] by metis
    have "later i now s ?s" by (rule set_op_later) simp
    with h emit_later [of env i now ?s st d] m have "later i now s (logged ?s i (rn_records ?s ! i) w x)" by (auto intro: later_trans)
    with e m show "ct_moves (timed env i now n) s t \<and> (\<forall>e. r = Inl e \<longrightarrow> ct_raises (timed env i now n) e)"
      by (auto simp: transition_def with_op_def areturn_def abind_def assign_def amodify_def split: if_splits)
  qed
  have u: "keeps_update (timed env i now n) (set_op i f)" if "\<And>r. op_deadline (f r) \<le> op_deadline r" for f
    by (simp add: keeps_update_def set_op_later [OF that])
  have "working env i (timed env i now n)" unfolding working_def
    using timed_quiet p t by (auto simp: step_update_def intro: u)
  then show ?thesis by (auto simp: handling_def handler_update_def intro: u)
qed

interpretation timed_worker: worker env i "timed env i now n" for env :: "('s, 'g) operation_env" and i now n
  using timed_handling [of env i now n] by unfold_locales (simp add: handling_def)

lemma timely_others:
  "timely env i now \<Longrightarrow> present i s \<Longrightarrow> present i (oe_others env s) \<and> now (rn_world s) \<le> now (rn_world (oe_others env s))
     \<and> op_deadline (rn_records (oe_others env s) ! i) \<le> op_deadline (rn_records s ! i)"
  by (simp add: timely_def present_def)

lemma timely_clock: "timely env i now \<Longrightarrow> now w \<le> snd (oe_clock env w) \<and> snd (oe_clock env w) \<le> now (fst (oe_clock env w))"
  by (simp add: timely_def)

lemma clock_now_value:
  assumes "timely env i now" "present i s" "clock_now env s = (t, r)"
  obtains x where "r = Inr x" "now (rn_world s) \<le> x" "x \<le> now (rn_world t)" "later i now s t"
proof (rule that)
  let ?o = "oe_others env s"
  have t: "t = ?o\<lparr>rn_world := fst (oe_clock env (rn_world ?o))\<rparr>" "r = Inr (snd (oe_clock env (rn_world ?o)))"
    using assms(3) by (auto simp: clock_now_def abind_def others_def amodify_def clock_locked_def in_world_def pure_call_def raised_def
      split: prod.splits)
  show "r = Inr (snd (oe_clock env (rn_world ?o)))" by (rule t)
  show "now (rn_world s) \<le> snd (oe_clock env (rn_world ?o))" "snd (oe_clock env (rn_world ?o)) \<le> now (rn_world t)" "later i now s t"
    using timely_others [OF assms(1,2)] timely_clock [OF assms(1), of "rn_world ?o"] t by (auto simp: later_def present_def)
qed

lemma check_passes:
  \<comment> \<open>a check that passes was made before the deadline\<close>
  assumes "timely env i now" "present i s" "check_deadline_and_interruption env i b s = (t, Inr u)"
  shows "now (rn_world s) < op_deadline (rn_records s ! i)"
proof -
  from assms(3) obtain s1 x where c: "clock_now env s = (s1, Inr x)" and d: "x < op_deadline (rn_records s1 ! i)"
    by (auto simp: check_deadline_and_interruption_def eff_Inr with_op_def)
  with clock_now_value [OF assms(1,2) c] have "now (rn_world s) \<le> x" "later i now s s1" by auto
  with d assms(2) show ?thesis by (auto simp: later_def)
qed

lemma sleep_value:
  assumes "timely env i now" "present i s" "0 \<le> d" "sleep env d s = (t, r)"
  shows "r = Inr ()" and "now (rn_world s) + d \<le> now (rn_world t)" and "later i now s t"
proof -
  let ?o = "oe_others env s"
  have t: "t = ?o\<lparr>rn_world := oe_sleep env d (rn_world ?o)\<rparr>" "r = Inr ()"
    using assms(4) by (auto simp: sleep_def abind_def others_def amodify_def)
  then show "r = Inr ()" by simp
  have "now (rn_world ?o) + d \<le> now (oe_sleep env d (rn_world ?o))" using assms(1,3) by (simp add: timely_def)
  then show "now (rn_world s) + d \<le> now (rn_world t)" "later i now s t"
    using timely_others [OF assms(1,2)] t assms(3) by (auto simp: later_def present_def)
qed

lemma in_reach_step:
  \<comment> \<open>one poll later, one poll less is needed\<close>
  assumes "in_reach env i now (Suc n) s" "0 < n \<or> now (rn_world s) < op_deadline (rn_records s ! i)" "later i now s t"
    and "now (rn_world s) + oe_poll_interval env \<le> now (rn_world t) \<or> op_deadline (rn_records s ! i) \<le> now (rn_world t)"
    and "0 < oe_poll_interval env"
  shows "in_reach env i now n t"
proof (cases n)
  case 0
  with assms(1,2) show ?thesis by (simp add: in_reach_def)
next
  case (Suc m)
  have "op_deadline (rn_records t ! i) \<le> now (rn_world t) + of_nat m * oe_poll_interval env"
    using assms(4)
  proof
    assume a: "now (rn_world s) + oe_poll_interval env \<le> now (rn_world t)"
    have "op_deadline (rn_records t ! i) \<le> now (rn_world s) + of_nat n * oe_poll_interval env"
      using assms(1,3) by (auto simp: in_reach_def later_def)
    also have "\<dots> = (now (rn_world s) + oe_poll_interval env) + of_nat m * oe_poll_interval env" by (simp add: Suc algebra_simps)
    finally show ?thesis using a by linarith
  next
    assume "op_deadline (rn_records s ! i) \<le> now (rn_world t)"
    moreover have "0 \<le> of_nat m * oe_poll_interval env" using assms(5) by simp
    ultimately show ?thesis using assms(1,3) by (auto simp: in_reach_def later_def)
  qed
  with assms(1,3) Suc show ?thesis by (auto simp: in_reach_def later_def)
qed

lemma timed_poll: "keeps (timed env i now n) (poll_action env n i a d cl)"
proof (induction n)
  case 0
  show ?case by (simp add: keeps_def in_reach_def)
next
  case (Suc n)
  have rest: "keeps (timed env i now (Suc n)) (abind (check_deadline_and_interruption env i b)
      (\<lambda>_. abind (sleep env (oe_poll_interval env)) (\<lambda>_. poll_action env n i a d cl)))" (is "keeps ?c ?m") for b
  proof (rule keepsI)
    fix s t r assume h: "ct_held ?c s" and e: "?m s = (t, r)"
    obtain s1 r1 where c: "check_deadline_and_interruption env i b s = (s1, r1)"
      by (cases "check_deadline_and_interruption env i b s")
    note k = keepsD [OF timed_worker.check_deadline_keeps h c]
    have p: "timely env i now" "present i s" using h by (simp_all add: in_reach_def)
    have p1: "present i s1" "later i now s s1" using k(1) p by (auto simp: later_def)
    show "ct_moves ?c s t \<and> (\<forall>e. r = Inl e \<longrightarrow> ct_raises ?c e)"
    proof (cases r1)
      case Inl
      with e c k show ?thesis by (auto simp: abind_def)
    next
      case (Inr u)
      have i: "0 \<le> oe_poll_interval env" "0 < oe_poll_interval env" using p(1) by (simp_all add: timely_def)
      obtain s2 r2 where sl: "sleep env (oe_poll_interval env) s1 = (s2, r2)" by (cases "sleep env (oe_poll_interval env) s1")
      note v = sleep_value [OF p(1) p1(1) i(1) sl]
      have l: "later i now s s2" using p1(2) v(3) by (rule later_trans)
      have "now (rn_world s) + oe_poll_interval env \<le> now (rn_world s2)"
        using p1(2) v(2) p(2) by (auto simp: later_def)
      then have "in_reach env i now n s2"
        using h i check_passes [OF p c [unfolded Inr]] by (intro in_reach_step [OF _ _ l]) simp_all
      moreover have "poll_action env n i a d cl s2 = (t, r)" using e c sl v(1) Inr by (simp add: abind_def)
      ultimately show ?thesis using keepsD [OF Suc, of s2 t r] l p(1) by (auto intro: later_trans)
    qed
  qed
  show ?case unfolding poll_action.simps Let_def
    by (intro keeps_intros timed_ok rest; simp)
qed

interpretation timed_patient: patient_worker env i "timed env i now n" n for env :: "('s, 'g) operation_env" and i now n
  by unfold_locales (rule timed_poll)

interpretation timed_writer: writing_worker env i "timed env i now n" n for env :: "('s, 'g) operation_env" and i now n
  by unfold_locales (rule timed_handling)

definition await_round :: "('s, 'g) operation_env \<Rightarrow> nat \<Rightarrow> session_state \<Rightarrow> session_state \<Rightarrow> string list \<Rightarrow> string \<Rightarrow> rat
    \<Rightarrow> ('s, unit) prog \<Rightarrow> ('s, unit) prog" where
  \<comment> \<open>the end of one round of \<open>await_records\<close>\<close>
  "await_round env i start current categories action_id t again = with_op i (\<lambda>r.
     abind (check (recon_records current start categories (op_requested_at r) (min t (op_deadline r)))) (\<lambda>found.
     case (if (case (ss_sequence start, ss_sequence current) of (Some m, Some n) \<Rightarrow> m < n | _ \<Rightarrow> False) then found else None) of
       Some records \<Rightarrow>
         abind (assign i (\<lambda>r. r\<lparr>op_evidence := op_evidence r @ map (recon_evidence r current action_id) records\<rparr>)) (\<lambda>_.
         set_end i current)
     | None \<Rightarrow>
         abind (clock_now env) (\<lambda>now2.
         abind (sleep env (min (oe_poll_interval env) (max 0 (op_deadline r - now2)))) (\<lambda>_. again))))"

lemma abind_check: "abind (check (Inr x)) f s = f x s"
  by (simp add: abind_def check_def areturn_def)

lemma timed_round:
  fixes env :: "('s, 'g) operation_env"
  assumes "0 < n" "keeps (timed env i now n) again"
  shows "keeps (timed env i now (Suc n)) (await_round env i st cu ks k x again)"
proof (rule keepsI)
  fix s t :: "'s runner" and r
  let ?c = "timed env i now (Suc n)" and ?r = "rn_records s ! i"
  let ?v = "recon_records cu st ks (op_requested_at ?r) (min x (op_deadline ?r))"
  let ?new = "case (ss_sequence st, ss_sequence cu) of (Some m, Some n) \<Rightarrow> m < n | _ \<Rightarrow> False"
  assume h: "ct_held ?c s" and e: "await_round env i st cu ks k x again s = (t, r)"
  have p: "timely env i now" "present i s" using h by (simp_all add: in_reach_def)
  show "ct_moves ?c s t \<and> (\<forall>e. r = Inl e \<longrightarrow> ct_raises ?c e)"
  proof (cases ?v)
    case (Inl b)
    with e settled_recon(1) [of cu st ks "op_requested_at ?r" "min x (op_deadline ?r)"] show ?thesis
      by (auto simp: await_round_def with_op_def abind_def check_def areturn_def settled_def)
  next
    case (Inr found)
    show ?thesis
    proof (cases "if ?new then found else None")
      case (Some records)
      let ?m = "abind (assign i (\<lambda>r. r\<lparr>op_evidence := op_evidence r @ map (recon_evidence r cu k) records\<rparr>)) (\<lambda>_. set_end i cu)"
      have "keeps ?c ?m" by (intro keeps_intros timed_ok)
      moreover have "?m s = (t, r)" using e Inr Some
        by (simp add: await_round_def with_op_def abind_check)
      ultimately show ?thesis using h keepsD [of ?c ?m s t r] by blast
    next
      case None
      obtain s1 r1 where c: "clock_now env s = (s1, r1)" by (cases "clock_now env s")
      obtain y where y: "r1 = Inr y" "now (rn_world s) \<le> y" "y \<le> now (rn_world s1)" "later i now s s1"
        by (rule clock_now_value [OF p c])
      have p1: "present i s1" using y(4) p(2) by (simp add: later_def)
      let ?d = "min (oe_poll_interval env) (max 0 (op_deadline ?r - y))"
      have i: "0 < oe_poll_interval env" "0 \<le> ?d" using p(1) by (simp_all add: timely_def)
      obtain s2 r2 where sl: "sleep env ?d s1 = (s2, r2)" by (cases "sleep env ?d s1")
      note v = sleep_value [OF p(1) p1 i(2) sl]
      have l: "later i now s s2" using y(4) v(3) by (rule later_trans)
      have "now (rn_world s) + oe_poll_interval env \<le> now (rn_world s2) \<or> op_deadline ?r \<le> now (rn_world s2)"
        using v(2) y(2,3) by (auto simp: min_def max_def split: if_splits)
      then have "in_reach env i now n s2" using h assms(1) i by (intro in_reach_step [OF _ _ l]) simp_all
      moreover have "again s2 = (t, r)"
        using e Inr None c y(1) sl v(1) by (auto simp: await_round_def with_op_def abind_def check_def areturn_def split: if_splits)
      ultimately show ?thesis using keepsD [OF assms(2), of s2 t r] l p(1) by (auto intro: later_trans)
    qed
  qed
qed

lemma timed_last_check:
  \<comment> \<open>at the deadline a check raises\<close>
  "keeps (timed env i now (Suc 0)) (abind (check_deadline_and_interruption env i b) f)"
proof (rule keepsI)
  fix s t :: "'a runner" and r
  let ?c = "timed env i now (Suc 0)"
  assume h: "ct_held ?c s" and e: "abind (check_deadline_and_interruption env i b) f s = (t, r)"
  obtain s1 r1 where c: "check_deadline_and_interruption env i b s = (s1, r1)" by (cases "check_deadline_and_interruption env i b s")
  show "ct_moves ?c s t \<and> (\<forall>e. r = Inl e \<longrightarrow> ct_raises ?c e)"
  proof (cases r1)
    case Inl
    with e c keepsD [OF timed_worker.check_deadline_keeps h c] show ?thesis by (auto simp: abind_def)
  next
    case (Inr u)
    with check_passes [of env i now s b s1 u] c h show ?thesis by (auto simp: in_reach_def)
  qed
qed

lemma timed_await: "keeps (timed env i now n) (await_records env n i st ks k)"
proof (induction n)
  case 0
  show ?case by (simp add: keeps_def in_reach_def)
next
  case (Suc n)
  let ?c = "timed env i now (Suc n)"
  have step: "await_records env (Suc n) i st ks k = abind (check_deadline_and_interruption env i True) (\<lambda>_.
      abind (fresh_since env i st) (\<lambda>current.
      abind (check (req (ss_room_id current = ss_room_id st) ''room changed during character recon'')) (\<lambda>_.
      abind (clock_now env) (\<lambda>now. await_round env i st current ks k now (await_records env n i st ks k)))))"
    by (simp add: await_round_def)
  show ?case
  proof (cases n)
    case 0
    then show ?thesis unfolding step by (simp add: timed_last_check)
  next
    case (Suc m)
    show ?thesis unfolding step by (intro keeps_intros timed_round Suc.IH timed_ok; simp add: Suc)
  qed
qed

interpretation timed_handler: handler_worker env i "timed env i now n" n for env :: "('s, 'g) operation_env" and i now n
  by unfold_locales (rule timed_await)

lemma timed_fail: "keeps (timed env i now n) (fail_unexpected env i e)"
proof -
  have st: "keeps (timed env i now n) (assign i (\<lambda>r. r\<lparr>op_status := OpFailed\<rparr>))"
    by (simp add: assign_def keeps_amodify keeps_update_def set_op_later)
  have em: "keeps (timed env i now n) (emit_locked env i OpFailed d)" for d
  proof (rule keepsI)
    fix s t :: "'a runner" and r
    assume h: "ct_held (timed env i now n) s" and e: "emit_locked env i OpFailed d s = (t, r)"
    have "r = Inr ()" using emit_result [of env i OpFailed d s] e by (metis prod.inject)
    with h e emit_later [of env i now s OpFailed d]
    show "ct_moves (timed env i now n) s t \<and> (\<forall>e. r = Inl e \<longrightarrow> ct_raises (timed env i now n) e)" by simp
  qed
  show ?thesis unfolding fail_unexpected_def Let_def by (intro keeps_intros st em timed_ok) simp
qed

interpretation timed_run: lone_worker env i "timed env i now n" n for env :: "('s, 'g) operation_env" and i now n
  by unfold_locales (rule timed_fail)

lemma run_returns:
  assumes "timely env i now" "in_reach env i now fuel s" "run_operation env fuel i s = (t, r)"
  shows "r \<noteq> Inl StillRunning"
  using keepsD(2) [OF timed_run.run_keeps _ assms(3), of now] assms(1,2) by auto

end
