(* ===== verification/OperationSuccess.thy ===== *)
theory OperationSuccess
  imports OperationEnding
begin

text \<open>
  What a successful operation has verified.  \<open>holds i c E m Q\<close> says of a step \<open>m\<close> of operation \<open>i\<close>, started
  when the record has the core \<open>c\<close> and the evidence \<open>E\<close>, that \<open>Q\<close> is true of its value and of the core and
  the evidence it leaves.  The core is the record without its status, times, log and alerts, which the
  other threads and the shared steps may change.
\<close>

section \<open>Steps that leave the core\<close>

definition core :: "operation \<Rightarrow> operation" where
  "core r = r\<lparr>op_status := OpRunning, op_admitted_at := None, op_started_at := None, op_ended_at := None, op_evidence := [],
     op_alerts := [], op_events := [], op_explanation := []\<rparr>"

definition undisturbed :: "('s, 'g) operation_env \<Rightarrow> nat \<Rightarrow> bool" where
  \<comment> \<open>the other threads log events and alerts of the operation but leave its core and its evidence\<close>
  "undisturbed env i = (\<forall>s. present i s \<longrightarrow> present i (oe_others env s)
     \<and> core (rn_records (oe_others env s) ! i) = core (rn_records s ! i)
     \<and> prefix (op_evidence (rn_records s ! i)) (op_evidence (rn_records (oe_others env s) ! i)))"

definition same_data :: "nat \<Rightarrow> 's runner \<Rightarrow> 's runner \<Rightarrow> bool" where
  "same_data i s t = (present i s \<longrightarrow> present i t \<and> core (rn_records t ! i) = core (rn_records s ! i)
     \<and> prefix (op_evidence (rn_records s ! i)) (op_evidence (rn_records t ! i)))"

definition steady :: "('s, 'g) operation_env \<Rightarrow> nat \<Rightarrow> 's worker_contract" where
  "steady env i = \<lparr>ct_held = \<lambda>_. True, ct_moves = \<lambda>s t. undisturbed env i \<longrightarrow> same_data i s t, ct_raises = \<lambda>_. True\<rparr>"

lemma core_sel [simp]: "op_operation_id (core r) = op_operation_id r" "op_capability (core r) = op_capability r"
  "op_character (core r) = op_character r" "op_arguments (core r) = op_arguments r" "op_requested_at (core r) = op_requested_at r"
  "op_deadline (core r) = op_deadline r" "op_start_state (core r) = op_start_state r" "op_end_state (core r) = op_end_state r"
  "op_binding (core r) = op_binding r" "op_expected_generation (core r) = op_expected_generation r"
  by (simp_all add: core_def)

lemma core_ignores [simp]: "core (r\<lparr>op_status := a\<rparr>) = core r" "core (r\<lparr>op_events := b\<rparr>) = core r"
  "core (r\<lparr>op_evidence := d\<rparr>) = core r" "core (r\<lparr>op_explanation := e\<rparr>) = core r"
  by (simp_all add: core_def)

lemma core_writes [simp]: "core (r\<lparr>op_arguments := a\<rparr>) = (core r)\<lparr>op_arguments := a\<rparr>"
  "core (r\<lparr>op_start_state := b\<rparr>) = (core r)\<lparr>op_start_state := b\<rparr>" "core (r\<lparr>op_end_state := b\<rparr>) = (core r)\<lparr>op_end_state := b\<rparr>"
  "core (r\<lparr>op_binding := d\<rparr>) = (core r)\<lparr>op_binding := d\<rparr>" "core (r\<lparr>op_deadline := e\<rparr>) = (core r)\<lparr>op_deadline := e\<rparr>"
  by (simp_all add: core_def)

lemma step_update_core: "step_update f \<Longrightarrow> core (f r) = core r \<and> prefix (op_evidence r) (op_evidence (f r))"
  unfolding step_update_def same_identity_def core_def by (auto intro!: operation.equality)

lemma same_data_trans: "same_data i s t \<Longrightarrow> same_data i t u \<Longrightarrow> same_data i s u"
  by (auto simp: same_data_def)

lemma same_data_records: "rn_records t = rn_records s \<Longrightarrow> same_data i s t"
  by (simp add: same_data_def present_def)

lemma same_data_set_op: "(\<And>r. core (f r) = core r \<and> prefix (op_evidence r) (op_evidence (f r))) \<Longrightarrow> same_data i s (set_op i f s)"
  by (simp add: same_data_def present_def set_op_def)

lemma same_data_logged:
  "core r = core (rn_records s ! i) \<Longrightarrow> prefix (op_evidence (rn_records s ! i)) (op_evidence r) \<Longrightarrow> same_data i s (logged s i r w e)"
  by (simp add: same_data_def present_def logged_def)

lemma steady_ok: "contract_ok (steady env i)"
  by (auto simp: contract_ok_def steady_def same_data_records intro: same_data_trans)

lemma steady_keeps: "keeps (steady env i) m \<longleftrightarrow> (undisturbed env i \<longrightarrow> (\<forall>s. same_data i s (fst (m s))))"
  by (auto simp: keeps_def steady_def)

lemma steady_quiet: "quiet env (steady env i)"
  unfolding quiet_def keeps_update_def using steady_ok
  by (auto simp: steady_def same_core_def undisturbed_def same_data_def present_def split: prod.split)

lemma steady_working: "working env i (steady env i)"
proof -
  have p: "same_data i s (fst (progress_locked env i d s))" for s :: "'a runner" and d
    using emit_result [of env i "op_status (rn_records s ! i)" d s] same_data_logged [of "rn_records s ! i" s i]
    by (simp add: progress_locked_def with_op_def) (metis fst_conv prefix_order.refl)
  have t: "same_data i s (fst (transition env i st d s))" for s :: "'a runner" and st d
  proof -
    let ?s = "set_op i (\<lambda>r. r\<lparr>op_status := st\<rparr>) s"
    have "same_data i s ?s" by (rule same_data_set_op) simp
    moreover have "same_data i ?s (fst (emit_locked env i st d ?s))"
      using emit_result [of env i st d ?s] same_data_logged [of "rn_records ?s ! i" ?s i] by (metis fst_conv prefix_order.refl)
    ultimately show ?thesis
      by (auto simp: transition_def with_op_def areturn_def abind_def assign_def amodify_def same_data_records intro: same_data_trans)
  qed
  have u: "keeps_update (steady env i) (set_op i f)" if "step_update f" for f :: "operation \<Rightarrow> operation"
    using step_update_core [OF that] by (simp add: keeps_update_def steady_def same_data_set_op)
  show ?thesis unfolding working_def using steady_quiet p t u by (auto simp: steady_keeps)
qed

interpretation steady_worker: worker env i "steady env i" for env :: "('s, 'g) operation_env" and i
  by unfold_locales (rule steady_working)

interpretation steady_patient: patient_worker env i "steady env i" fuel for env :: "('s, 'g) operation_env" and i fuel
  by unfold_locales (rule steady_worker.polls_keep, simp add: steady_def)
section \<open>What a step leaves\<close>

definition pinned :: "nat \<Rightarrow> operation \<Rightarrow> evidence_record set \<Rightarrow> 's runner \<Rightarrow> bool" where
  "pinned i c E s = (present i s \<and> core (rn_records s ! i) = c \<and> E \<subseteq> set (op_evidence (rn_records s ! i)))"

definition holds :: "nat \<Rightarrow> operation \<Rightarrow> evidence_record set \<Rightarrow> ('s, 'a) prog \<Rightarrow> ('a \<Rightarrow> operation \<Rightarrow> evidence_record set \<Rightarrow> bool) \<Rightarrow> bool" where
  "holds i c E m Q = (\<forall>s t x. pinned i c E s \<longrightarrow> m s = (t, Inr x) \<longrightarrow> (\<exists>d F. pinned i d F t \<and> Q x d F))"

lemma holdsD: "holds i c E m Q \<Longrightarrow> pinned i c E s \<Longrightarrow> m s = (t, Inr x) \<Longrightarrow> \<exists>d F. pinned i d F t \<and> Q x d F"
  by (simp add: holds_def)

lemma pinned_same_data: "pinned i c E s \<Longrightarrow> same_data i s t \<Longrightarrow> pinned i c E t"
  using set_mono_prefix by (fastforce simp: pinned_def same_data_def)

lemma holds_abind:
  assumes "holds i c E m R" "\<And>x d F. R x d F \<Longrightarrow> holds i d F (f x) Q"
  shows "holds i c E (abind m f) Q"
  unfolding holds_def
proof (intro allI impI)
  fix s t :: "'a runner" and y assume p: "pinned i c E s" and e: "abind m f s = (t, Inr y)"
  then obtain s1 x where m: "m s = (s1, Inr x)" "f x s1 = (t, Inr y)" by (auto simp: eff_Inr)
  obtain d F where "pinned i d F s1" "R x d F" using holdsD [OF assms(1) p m(1)] by blast
  then show "\<exists>d F. pinned i d F t \<and> Q y d F" using holdsD [OF assms(2) _ m(2)] by blast
qed

lemma holds_steady:
  assumes "undisturbed env i" "keeps (steady env i) m"
  shows "holds i c E m (\<lambda>x d F. d = c \<and> F = E \<and> (\<exists>s t. m s = (t, Inr x)))"
  unfolding holds_def
proof (intro allI impI)
  fix s t :: "'a runner" and x assume "pinned i c E s" "m s = (t, Inr x)"
  then show "\<exists>d F. pinned i d F t \<and> d = c \<and> F = E \<and> (\<exists>s t. m s = (t, Inr x))"
    using assms pinned_same_data [of i c E s t] steady_keeps [of env i m] by (metis fst_conv)
qed

lemma holds_bind:
  \<comment> \<open>a steady step, with what its value tells\<close>
  assumes "undisturbed env i" "keeps (steady env i) m" "\<And>s t x. m s = (t, Inr x) \<Longrightarrow> holds i c E (f x) Q"
  shows "holds i c E (abind m f) Q"
  by (rule holds_abind [OF holds_steady [OF assms(1,2)]]) (auto intro: assms(3))

lemma holds_with_op: "(\<And>r. core r = c \<Longrightarrow> holds i c E (f r) Q) \<Longrightarrow> holds i c E (with_op i f) Q"
  by (auto simp: holds_def with_op_def pinned_def)

lemma holds_bind_with_op: "holds i c E (with_op i (\<lambda>r. abind (m r) f)) Q \<Longrightarrow> holds i c E (abind (with_op i m) f) Q"
  by (simp add: abind_def with_op_def)

lemma holds_check: "(\<And>x. v = Inr x \<Longrightarrow> holds i c E (f x) Q) \<Longrightarrow> holds i c E (abind (check v) f) Q"
  by (cases v) (simp_all add: holds_def abind_def check_def areturn_def)

lemma holds_return: "(\<And>x. v = Inr x \<Longrightarrow> Q x c E) \<Longrightarrow> holds i c E (areturn v) Q"
  by (auto simp: holds_def areturn_def)

lemma holds_write:
  assumes "\<And>r. core (f r) = g (core r) \<and> op_evidence (f r) = op_evidence r" "holds i (g c) E (k ()) Q"
  shows "holds i c E (abind (assign i f) k) Q"
proof -
  have "holds i c E (assign i f) (\<lambda>x d F. d = g c \<and> F = E)"
    by (auto simp: holds_def assign_def amodify_def pinned_def present_def set_op_def assms(1))
  then show ?thesis by (rule holds_abind) (use assms(2) in simp)
qed

lemma holds_evidence:
  assumes "\<And>r. core (f r) = core r \<and> op_evidence (f r) = op_evidence r @ evs" "holds i c (E \<union> set evs) (k ()) Q"
  shows "holds i c E (abind (assign i f) k) Q"
proof -
  have "holds i c E (assign i f) (\<lambda>x d F. d = c \<and> F = E \<union> set evs)"
    by (auto simp: holds_def assign_def amodify_def pinned_def present_def set_op_def assms(1))
  then show ?thesis by (rule holds_abind) (use assms(2) in simp)
qed

lemma holds_start: "holds i (c\<lparr>op_start_state := Some ss\<rparr>) E (f ()) Q \<Longrightarrow> holds i c E (abind (set_start i ss) f) Q"
  unfolding set_start_def by (rule holds_write [where g = "\<lambda>r. r\<lparr>op_start_state := Some ss\<rparr>"]) simp_all

lemma holds_end: "holds i (c\<lparr>op_end_state := Some ss\<rparr>) E (f ()) Q \<Longrightarrow> holds i c E (abind (set_end i ss) f) Q"
  unfolding set_end_def by (rule holds_write [where g = "\<lambda>r. r\<lparr>op_end_state := Some ss\<rparr>"]) simp_all

lemma holds_awhen:
  "(b \<Longrightarrow> holds i c E (abind m f) Q) \<Longrightarrow> (\<not> b \<Longrightarrow> holds i c E (f ()) Q) \<Longrightarrow> holds i c E (abind (awhen b m) f) Q"
  by (cases b) (simp_all add: awhen_def holds_def abind_def areturn_def)

lemma holds_consequence: "holds i c E m Q \<Longrightarrow> (\<And>x d F. Q x d F \<Longrightarrow> Q' x d F) \<Longrightarrow> holds i c E m Q'"
  unfolding holds_def by blast

section \<open>Fresh state\<close>

definition fresh_state :: "operation \<Rightarrow> session_state \<Rightarrow> bool" where
  \<comment> \<open>structured state of the operation's character, published fresh in a live and expected generation\<close>
  "fresh_state r ss = (casefold (ss_character ss) = casefold (op_character r) \<and> ss_generation ss \<noteq> []
     \<and> (op_expected_generation r = None \<or> op_expected_generation r = Some (ss_generation ss))
     \<and> ss_fresh ss = Some True \<and> ss_sequence ss \<noteq> None)"

definition advanced :: "session_state \<Rightarrow> session_state \<Rightarrow> bool" where
  \<comment> \<open>a later snapshot of the same session\<close>
  "advanced ss tt = (ss_generation tt = ss_generation ss
     \<and> (case (ss_sequence ss, ss_sequence tt) of (Some m, Some n) \<Rightarrow> m < n | _ \<Rightarrow> False))"

lemma advancedI:
  "fresh_state r ss \<Longrightarrow> fresh_state q tt \<Longrightarrow> ss_generation ss = ss_generation tt
    \<Longrightarrow> (case ss_sequence ss of None \<Rightarrow> True | Some k \<Rightarrow> k < the (ss_sequence tt)) \<Longrightarrow> advanced ss tt"
  by (auto simp: advanced_def fresh_state_def)

lemma fresh_session_check_Inr:
  "fresh_session_check r g m a ss = Inr u \<longleftrightarrow> fresh_state r ss \<and> (g = None \<or> g = Some (ss_generation ss))
     \<and> (case m of None \<Rightarrow> True | Some k \<Rightarrow> k \<le> the (ss_sequence ss)) \<and> (case a of None \<Rightarrow> True | Some k \<Rightarrow> k < the (ss_sequence ss))"
  by (auto simp: fresh_session_check_def fresh_state_def split: option.splits)

lemma fresh_value:
  assumes "undisturbed env i" "\<And>ss. fresh_state c ss \<Longrightarrow> g = None \<or> g = Some (ss_generation ss) \<Longrightarrow>
    (case m of None \<Rightarrow> True | Some k \<Rightarrow> k \<le> the (ss_sequence ss)) \<Longrightarrow> (case a of None \<Rightarrow> True | Some k \<Rightarrow> k < the (ss_sequence ss))
    \<Longrightarrow> holds i c E (f ss) Q"
  shows "holds i c E (abind (require_fresh_session env i g m a) f) Q"
proof -
  have k: "keeps (steady env i) (require_fresh_session env i g m a)" by (intro keeps_intros)
  have "holds i c E (require_fresh_session env i g m a) (\<lambda>ss d F. d = c \<and> F = E \<and> fresh_session_check c g m a ss = Inr ())"
    unfolding holds_def
  proof (intro allI impI)
    fix s t :: "'a runner" and ss assume p: "pinned i c E s" and e: "require_fresh_session env i g m a s = (t, Inr ss)"
    let ?o = "oe_others env s"
    have o: "pinned i c E ?o" using p assms(1) pinned_same_data [of i c E s ?o] by (simp add: undisturbed_def same_data_def pinned_def)
    have "fresh_session_check (rn_records ?o ! i) g m a ss = Inr ()"
      using e by (auto simp: require_fresh_session_def fresh_locked_def eff_Inr others_def with_op_def)
    then have "fresh_session_check c g m a ss = Inr ()"
      using o unfolding fresh_session_check_Inr fresh_state_def pinned_def by (metis core_sel(3,10))
    moreover have "pinned i c E t" using p k e assms(1) pinned_same_data [of i c E s t] by (auto simp: steady_keeps) (metis fst_conv)
    ultimately show "\<exists>d F. pinned i d F t \<and> d = c \<and> F = E \<and> fresh_session_check c g m a ss = Inr ()" by blast
  qed
  then show ?thesis
    by (rule holds_abind) (use assms(2) in \<open>auto simp: fresh_session_check_Inr\<close>)
qed

definition both_states :: "operation \<Rightarrow> session_state \<Rightarrow> session_state \<Rightarrow> bool" where
  \<comment> \<open>the recorded start and end states, both fresh, the end later in the same session\<close>
  "both_states r start end' = (op_start_state r = Some start \<and> op_end_state r = Some end' \<and> fresh_state r start \<and> fresh_state r end'
     \<and> advanced start end')"

lemma arguments_core: "travel_arguments (core r) = travel_arguments r" "command_argument (core r) = command_argument r"
  "recovery_arguments (core r) = recovery_arguments r" "no_arguments (core r) = no_arguments r" "profile_of env (core r) = profile_of env r"
  by (simp_all add: travel_arguments_def command_argument_def recovery_arguments_def no_arguments_def profile_of_def cong: option.case_cong)

lemma arguments_writes [simp]: "travel_arguments (r\<lparr>op_start_state := a\<rparr>) = travel_arguments r"
  "travel_arguments (r\<lparr>op_end_state := a\<rparr>) = travel_arguments r" "command_argument (r\<lparr>op_start_state := a\<rparr>) = command_argument r"
  "command_argument (r\<lparr>op_end_state := a\<rparr>) = command_argument r" "recovery_arguments (r\<lparr>op_start_state := a\<rparr>) = recovery_arguments r"
  "recovery_arguments (r\<lparr>op_end_state := a\<rparr>) = recovery_arguments r" "profile_of env (r\<lparr>op_start_state := a\<rparr>) = profile_of env r"
  "profile_of env (r\<lparr>op_end_state := a\<rparr>) = profile_of env r"
  by (simp_all add: travel_arguments_def command_argument_def recovery_arguments_def profile_of_def cong: option.case_cong)

lemma fresh_state_writes [simp]: "fresh_state (r\<lparr>op_start_state := a\<rparr>) = fresh_state r" "fresh_state (r\<lparr>op_end_state := a\<rparr>) = fresh_state r"
  "fresh_state (r\<lparr>op_binding := b\<rparr>) = fresh_state r" "fresh_state (r\<lparr>op_deadline := d\<rparr>) = fresh_state r" "fresh_state (r\<lparr>op_arguments := e\<rparr>) = fresh_state r"
  by (auto simp: fresh_state_def)

section \<open>Travel and the direct command\<close>

definition go2_verified :: "operation \<Rightarrow> bool" where
  "go2_verified r = (\<exists>start end' hands action_id. both_states r start end' \<and> travel_arguments r = Inr (ss_room_id end')
     \<and> validate_travel_state start = Inr () \<and> validate_travel_state end' = Inr ()
     \<and> hand_ids start = Inr hands \<and> hand_ids end' = Inr hands \<and> script_completed end' ''go2'' action_id)"

lemma go2_holds:
  assumes u: "undisturbed env i"
  shows "holds i c E (execute_go2 env fuel i) (\<lambda>_ d F. go2_verified d)"
  unfolding execute_go2_def fresh_def fresh_after_def
  apply (rule holds_start holds_end holds_check fresh_value [OF u] holds_bind_with_op holds_with_op holds_return
    | (rule holds_bind [OF u], (intro keeps_intros steady_ok; simp; fail)[1]))+
  by (auto simp: go2_verified_def both_states_def arguments_core intro: advancedI)

definition command_verified :: "operation \<Rightarrow> bool" where
  "command_verified r = (\<exists>start end' cmd action_id. both_states r start end' \<and> command_argument r = Inr cmd \<and> full_access start
     \<and> script_completed end' ''lab-direct'' action_id)"

lemma command_holds:
  assumes u: "undisturbed env i"
  shows "holds i c E (execute_session_command env fuel i) (\<lambda>_ d F. command_verified d)"
  unfolding execute_session_command_def fresh_def fresh_after_def
  apply (rule holds_start holds_end holds_check fresh_value [OF u] holds_bind_with_op holds_with_op holds_return
    | (rule holds_bind [OF u], (intro keeps_intros steady_ok; simp; fail)[1]))+
  by (auto simp: command_verified_def both_states_def arguments_core intro: advancedI)

section \<open>Hunting and looting\<close>

lemma advanced_via:
  \<comment> \<open>a snapshot in between\<close>
  "fresh_state r ss \<Longrightarrow> fresh_state q tt \<Longrightarrow> fresh_state p uu \<Longrightarrow> ss_generation ss = ss_generation uu
    \<Longrightarrow> (case ss_sequence ss of None \<Rightarrow> True | Some k \<Rightarrow> k \<le> the (ss_sequence tt))
    \<Longrightarrow> (case ss_sequence tt of None \<Rightarrow> True | Some k \<Rightarrow> k < the (ss_sequence uu)) \<Longrightarrow> advanced ss uu"
  by (auto simp: advanced_def fresh_state_def)

lemma profile_at: "profile_of env r = v \<Longrightarrow> core r = c \<Longrightarrow> profile_of env c = v"
  using arguments_core(5) [of env r] by simp

definition hunt_verified :: "('s, 'g) operation_env \<Rightarrow> operation \<Rightarrow> bool" where
  "hunt_verified env r = (\<exists>start end' p. both_states r start end' \<and> op_arguments r = [] \<and> profile_of env r = Inr p
     \<and> hunt_readiness start p bigshot_adapter = Inr () \<and> hunt_readiness end' p bigshot_adapter = Inr ()
     \<and> owns_lanes end' bigshot_adapter = Inr ())"

lemma hunt_holds:
  assumes u: "undisturbed env i"
  shows "holds i c E (execute_hunt_prepare env fuel i) (\<lambda>_ d F. hunt_verified env d)"
  unfolding execute_hunt_prepare_def fresh_def fresh_since_def
  apply (rule holds_start holds_end holds_check fresh_value [OF u] holds_bind_with_op holds_with_op holds_return
    | (rule holds_bind [OF u], (intro keeps_intros steady_ok; simp; fail)[1]))+
  by (auto simp: hunt_verified_def both_states_def arguments_core no_arguments_def intro: advanced_via dest: profile_at)

definition loot_verified :: "operation \<Rightarrow> bool" where
  "loot_verified r = (\<exists>start end' ids action_id. both_states r start end' \<and> op_arguments r = [] \<and> room_loot_start start None = Inr ids
     \<and> no_owner_conflicts start eloot_adapter = Inr () \<and> room_loot_end end' ids action_id = Inr ())"

lemma loot_holds:
  assumes u: "undisturbed env i"
  shows "holds i c E (execute_room_loot env fuel i) (\<lambda>_ d F. loot_verified d)"
  unfolding execute_room_loot_def fresh_def fresh_since_def
  apply (rule holds_start holds_end holds_check fresh_value [OF u] holds_bind_with_op holds_with_op holds_return
    | (rule holds_bind [OF u], (intro keeps_intros steady_ok; simp; fail)[1]))+
  by (auto simp: loot_verified_def both_states_def arguments_core no_arguments_def intro: advanced_via)

section \<open>Recovery\<close>

definition recovery_verified :: "('s, 'g) operation_env \<Rightarrow> operation \<Rightarrow> bool" where
  "recovery_verified env r = (\<exists>start end' action_id d cd. both_states r start end' \<and> recovery_arguments r = Inr action_id
     \<and> receipt_ok d action_id \<and> receipt_controller env d = Inr cd \<and> receipt_matches_controller r d cd
     \<and> validate_controller_start end' cd = Inr () \<and> hand_ids end' = Inr (receipt_hands d))"

lemma receipt_matches_core [simp]: "receipt_matches_controller (core r) d cd = receipt_matches_controller r d cd"
  "receipt_matches_controller (r\<lparr>op_end_state := a\<rparr>) d cd = receipt_matches_controller r d cd"
  by (simp_all add: receipt_matches_controller_def)

lemma both_after:
  assumes "fresh_state c start" "fresh_state (c\<lparr>op_start_state := Some start\<rparr>) end'"
    and "Some (ss_generation start) = None \<or> Some (ss_generation start) = Some (ss_generation end')"
    and "case ss_sequence start of None \<Rightarrow> True | Some k \<Rightarrow> k < the (ss_sequence end')"
  shows "both_states (c\<lparr>op_start_state := Some start\<rparr>\<lparr>op_end_state := Some end'\<rparr>) start end'"
  using assms by (auto simp: both_states_def intro: advancedI)

lemma recovery_verifiedI:
  assumes "core r = c" "recovery_arguments r = Inr action_id" "fresh_state c start" "fresh_state (c\<lparr>op_start_state := Some start\<rparr>) end'"
    and "Some (ss_generation start) = None \<or> Some (ss_generation start) = Some (ss_generation end')"
    and "case ss_sequence start of None \<Rightarrow> True | Some k \<Rightarrow> k < the (ss_sequence end')"
    and "core q = c\<lparr>op_start_state := Some start\<rparr>" "req (receipt_ok d action_id) m1 = Inr u1" "receipt_controller env d = Inr cd"
    and "req (receipt_matches_controller q d cd) m2 = Inr u2" "validate_controller_start end' cd = Inr u3" "hand_ids end' = Inr held"
    and "req (held = receipt_hands d) m3 = Inr u4"
  shows "recovery_verified env (c\<lparr>op_start_state := Some start\<rparr>\<lparr>op_end_state := Some end'\<rparr>)"
proof -
  let ?r = "c\<lparr>op_start_state := Some start\<rparr>\<lparr>op_end_state := Some end'\<rparr>"
  have "both_states ?r start end'" using assms(3-6) by (rule both_after)
  moreover have "recovery_arguments ?r = Inr action_id" using assms(1,2) arguments_core(3) [of r] by simp
  moreover have "receipt_matches_controller ?r d cd" using assms(7,10) receipt_matches_core(1) [of q d cd] by simp
  ultimately show ?thesis using assms(8,9,11-13) unfolding recovery_verified_def by fastforce
qed

lemma recovery_holds:
  assumes u: "undisturbed env i"
  shows "holds i c E (execute_controller_recovery env fuel i) (\<lambda>_ d F. recovery_verified env d)"
  unfolding execute_controller_recovery_def fresh_def fresh_after_def Let_def
  apply (rule holds_start holds_end holds_check fresh_value [OF u] holds_bind_with_op holds_with_op holds_return
    | (rule holds_bind [OF u], (intro keeps_intros steady_ok; simp; fail)[1]))+
  by (rule recovery_verifiedI; assumption)

section \<open>Character records\<close>

definition recon_verified :: "operation \<Rightarrow> evidence_record set \<Rightarrow> bool" where
  \<comment> \<open>every requested category has a record that is complete and newer than the request and the start, kept as evidence\<close>
  "recon_verified r E = (\<exists>start end' categories records t action_id. op_start_state r = Some start \<and> op_end_state r = Some end'
     \<and> fresh_state r start \<and> fresh_state r end' \<and> advanced start end' \<and> ss_room_id end' = ss_room_id start
     \<and> recon_categories (op_arguments r) = Inr categories \<and> t \<le> op_deadline r
     \<and> recon_records end' start categories (op_requested_at r) t = Inr (Some records)
     \<and> recon_evidence r end' action_id ` set records \<subseteq> E)"

lemma recon_evidence_core [simp]: "recon_evidence (core r) = recon_evidence r" "recon_evidence (r\<lparr>op_start_state := a\<rparr>) = recon_evidence r"
  "recon_evidence (r\<lparr>op_end_state := a\<rparr>) = recon_evidence r" "recon_evidence (r\<lparr>op_deadline := d\<rparr>) = recon_evidence r"
  by (simp_all add: recon_evidence_def fun_eq_iff)

definition awaited :: "operation \<Rightarrow> session_state \<Rightarrow> string list \<Rightarrow> string \<Rightarrow> operation \<Rightarrow> evidence_record set \<Rightarrow> bool" where
  "awaited c start categories action_id d F = (\<exists>current records t. d = c\<lparr>op_end_state := Some current\<rparr> \<and> fresh_state c current
     \<and> advanced start current \<and> ss_room_id current = ss_room_id start \<and> t \<le> op_deadline c
     \<and> recon_records current start categories (op_requested_at c) t = Inr (Some records)
     \<and> recon_evidence c current action_id ` set records \<subseteq> F)"

lemma holds_if_option:
  "(\<And>y. x = Some y \<Longrightarrow> holds i c E (g y) Q) \<Longrightarrow> (x = None \<Longrightarrow> holds i c E f Q) \<Longrightarrow> holds i c E (case x of None \<Rightarrow> f | Some y \<Rightarrow> g y) Q"
  by (cases x) simp_all

lemma await_holds:
  fixes env :: "('s, 'g) operation_env"
  assumes u: "undisturbed env i"
  shows "holds i c E (await_records env n i start categories action_id) (\<lambda>_ d F. awaited c start categories action_id d F)"
proof (induction n)
  case 0
  show ?case by (simp add: holds_def areturn_def)
next
  case (Suc n)
  have done': "holds i c E (abind (assign i (\<lambda>r. r\<lparr>op_evidence := op_evidence r @ map (recon_evidence r current action_id) records\<rparr>)) (\<lambda>_.
       set_end i current)) (\<lambda>_ d F. awaited c start categories action_id d F)"
    if r: "core r = c" and f: "fresh_state c current" "Some (ss_generation start) = None \<or> Some (ss_generation start) = Some (ss_generation current)"
      and room: "req (ss_room_id current = ss_room_id start) m = Inr v"
      and rec: "recon_records current start categories (op_requested_at r) (min now (op_deadline r)) = Inr found"
      and new: "(if case (ss_sequence start, ss_sequence current) of (Some m, Some n) \<Rightarrow> m < n | _ \<Rightarrow> False then found else None) = Some records"
    for r current m v now found records
  proof -
    let ?d = "c\<lparr>op_end_state := Some current\<rparr>"
    have c: "op_requested_at c = op_requested_at r" "op_deadline c = op_deadline r" "recon_evidence c = recon_evidence r"
      using r by auto
    have a: "awaited c start categories action_id ?d (E \<union> recon_evidence c current action_id ` set records)"
      unfolding awaited_def
    proof (intro exI conjI)
      show "min now (op_deadline c) \<le> op_deadline c" by simp
      show "recon_records current start categories (op_requested_at c) (min now (op_deadline c)) = Inr (Some records)"
        using rec new c by (simp split: if_splits)
      show "advanced start current" using f(2) new by (auto simp: advanced_def split: if_splits)
    qed (use f(1) room in auto)
    have "holds i c E (assign i (\<lambda>r. r\<lparr>op_evidence := op_evidence r @ map (recon_evidence r current action_id) records\<rparr>))
        (\<lambda>_ d F. d = c \<and> F = E \<union> recon_evidence c current action_id ` set records)"
      using c(3) by (auto simp: holds_def assign_def amodify_def pinned_def present_def set_op_def)
    then show ?thesis
    proof (rule holds_abind)
      fix x d F assume "d = c \<and> F = E \<union> recon_evidence c current action_id ` set records"
      with a show "holds i d F (set_end i current) (\<lambda>_ d F. awaited c start categories action_id d F)"
        by (auto simp: holds_def set_end_def assign_def amodify_def pinned_def present_def set_op_def
          intro!: exI [of _ ?d] exI [of _ "E \<union> recon_evidence c current action_id ` set records"])
    qed
  qed
  show ?case unfolding await_records.simps fresh_since_def
    by ((rule done'; assumption) | rule holds_check fresh_value [OF u] holds_with_op holds_if_option Suc.IH
      | (rule holds_bind [OF u], (intro keeps_intros steady_ok; simp; fail)[1]))+
qed

lemma recon_holds:
  assumes u: "undisturbed env i"
  shows "holds i c E (execute_character_recon env fuel i) (\<lambda>_ d F. recon_verified d F)"
  unfolding execute_character_recon_def fresh_def
  apply (rule holds_write [where g = "\<lambda>r. r\<lparr>op_deadline := min (op_deadline r) (op_requested_at r + 20)\<rparr>"])
  apply simp
  apply (rule holds_start holds_end holds_check fresh_value [OF u] holds_bind_with_op holds_with_op holds_return
    | (rule holds_abind [OF await_holds [OF u]])
    | (rule holds_bind [OF u], (intro keeps_intros steady_ok; simp; fail)[1]))+
  apply (drule arg_cong [where f = op_arguments])
  apply (simp add: awaited_def recon_verified_def) 
  apply (elim exE conjE)
  apply (intro exI conjI; (assumption | simp))
  done

section \<open>Item audits\<close>

definition diagnosed :: "item_binding \<Rightarrow> string \<Rightarrow> evidence_record \<Rightarrow> bool" where
  "diagnosed b m ev = (ev_method ev = m \<and> ev_generation ev = ib_generation b \<and> ev_object_id ev = ib_object_id b)"

definition audit_verified :: "operation \<Rightarrow> evidence_record set \<Rightarrow> bool" where
  \<comment> \<open>the bound item is back where it was, and every method has evidence of that item and session\<close>
  "audit_verified r E = (\<exists>start end' b im item_id methods. op_start_state r = Some start \<and> op_end_state r = Some end' \<and> op_binding r = Some b
     \<and> dget ''item_id'' (op_arguments r) = PStr item_id
     \<and> parse_audit_methods (dget_or ''methods'' (PList [PStr ''look'', PStr ''inspect'']) (op_arguments r)) = Inr methods
     \<and> bind_item (op_character r) item_id start = Inr b \<and> verify_binding end' b = Inr () \<and> exact_item end' b = Inr im
     \<and> ol_location_id (im_location im) = ol_location_id (ib_original_location b)
     \<and> (\<forall>m \<in> set methods. \<exists>ev \<in> E. diagnosed b m ev))"

definition diagnosed_all :: "operation \<Rightarrow> evidence_record set \<Rightarrow> item_binding \<Rightarrow> string list \<Rightarrow> operation \<Rightarrow> evidence_record set \<Rightarrow> bool" where
  "diagnosed_all c E b ms d F = (d = c \<and> E \<subseteq> F \<and> (\<forall>m \<in> set ms. \<exists>ev \<in> F. diagnosed b m ev))"

lemma holds_steady_last: "undisturbed env i \<Longrightarrow> keeps (steady env i) m \<Longrightarrow> (\<And>x. Q x c E) \<Longrightarrow> holds i c E m Q"
  by (rule holds_consequence [OF holds_steady]) auto

lemma holds_fail: "holds i c E (areturn (Inl e)) Q"
  by (simp add: holds_def areturn_def)

lemma diagnostic_holds:
  assumes u: "undisturbed env i"
  shows "holds i c E (run_diagnostic env fuel i b m) (\<lambda>_ d F. diagnosed_all c E b [m] d F)"
proof -
  have add: "holds i c E (abind (assign i (\<lambda>r. r\<lparr>op_evidence := op_evidence r @ [ev]\<rparr>)) (\<lambda>_. progress env i msg))
      (\<lambda>_ d F. diagnosed_all c E b [m] d F)"
    if "req (ev_method ev = m \<and> ev_generation ev = ib_generation b \<and> ev_object_id ev = ib_object_id b) x = Inr v" for ev msg x v
    by (rule holds_evidence [where evs = "[ev]"], simp, rule holds_steady_last [OF u], (intro keeps_intros)[1])
      (use that in \<open>auto simp: diagnosed_all_def diagnosed_def\<close>)
  show ?thesis unfolding run_diagnostic_def
    by ((rule add; assumption) | rule holds_check holds_with_op holds_if_option holds_fail
      | (rule holds_bind [OF u], (intro keeps_intros steady_ok; simp; fail)[1]))+
qed

lemma diagnosed_all_trans: "diagnosed_all c E b ms d F \<Longrightarrow> diagnosed_all d F b ns e G \<Longrightarrow> diagnosed_all c E b (ms @ ns) e G"
  by (auto simp: diagnosed_all_def subset_iff) metis+

lemma diagnostics_hold:
  assumes u: "undisturbed env i"
  shows "holds i c E (aeach (run_diagnostic env fuel i b) ms) (\<lambda>_ d F. diagnosed_all c E b ms d F)"
proof (induction ms arbitrary: c E)
  case Nil
  show ?case by (simp add: holds_return diagnosed_all_def)
next
  case (Cons m ms)
  show ?case unfolding aeach.simps
  proof (rule holds_abind [OF diagnostic_holds [OF u]])
    fix x d F assume "diagnosed_all c E b [m] d F"
    then show "holds i d F (aeach (run_diagnostic env fuel i b) ms) (\<lambda>_ d F. diagnosed_all c E b (m # ms) d F)"
      using holds_consequence [OF Cons [of d F]] diagnosed_all_trans [of c E b "[m]" d F ms] by simp
  qed
qed

lemma run_item_audit_holds:
  assumes u: "undisturbed env i"
  shows "holds i c E (run_item_audit env fuel i b methods) (\<lambda>_ d F. diagnosed_all c E b methods d F)"
  unfolding run_item_audit_def
proof (rule holds_abind [OF diagnostics_hold [OF u]])
  fix x d F
  let ?ms = "filter (\<lambda>m. m \<notin> set (spell_methods methods)) methods" and ?ns = "spell_methods methods"
  assume a: "diagnosed_all c E b ?ms d F"
  have "holds i d F (awhen (?ns \<noteq> []) (
       abind (fresh_bound_item env i b) (\<lambda>current.
       abind (awhen (\<not> in_hand current) (
         abind (run_action_step env fuel i b (''get #'' @ ib_object_id b) ''taking exact item for spell diagnostics'' False) (\<lambda>_.
         abind (fresh_bound_item env i b) (\<lambda>held.
         check (req (in_hand held) ''exact item was not verified in hand after take''))))) (\<lambda>_.
       aeach (run_diagnostic env fuel i b) ?ns)))) (\<lambda>_ d' F'. diagnosed_all d F b ?ns d' F')"
  proof (cases "?ns = []")
    case True
    then show ?thesis by (simp add: awhen_def holds_return diagnosed_all_def)
  next
    case False
    then show ?thesis
      by (simp add: awhen_def [of True]) (rule diagnostics_hold [OF u] | (rule holds_bind [OF u], (intro keeps_intros steady_ok; simp; fail)[1]))+
  qed
  then show "holds i d F (abind (awhen (?ns \<noteq> []) (
       abind (fresh_bound_item env i b) (\<lambda>current.
       abind (awhen (\<not> in_hand current) (
         abind (run_action_step env fuel i b (''get #'' @ ib_object_id b) ''taking exact item for spell diagnostics'' False) (\<lambda>_.
         abind (fresh_bound_item env i b) (\<lambda>held.
         check (req (in_hand held) ''exact item was not verified in hand after take''))))) (\<lambda>_.
       aeach (run_diagnostic env fuel i b) ?ns)))) (\<lambda>_. restore_original env fuel i b)) (\<lambda>_ d F. diagnosed_all c E b methods d F)"
  proof (rule holds_abind)
    fix y d' F' assume "diagnosed_all d F b ?ns d' F'"
    then have "diagnosed_all c E b (?ms @ ?ns) d' F'" using a by (rule diagnosed_all_trans [rotated])
    then have "diagnosed_all c E b methods d' F'" by (auto simp: diagnosed_all_def)
    then show "holds i d' F' (restore_original env fuel i b) (\<lambda>_ d F. diagnosed_all c E b methods d F)"
      by (intro holds_steady_last [OF u] keeps_intros)
  qed
qed

definition parsed :: "operation \<Rightarrow> string \<Rightarrow> string list \<Rightarrow> operation \<Rightarrow> bool" where
  "parsed c item_id methods d = (\<exists>args. d = c\<lparr>op_arguments := args\<rparr> \<and> dget ''item_id'' args = PStr item_id
     \<and> parse_audit_methods (dget_or ''methods'' (PList [PStr ''look'', PStr ''inspect'']) args) = Inr methods)"

lemma holds_set_argument:
  "holds i (c\<lparr>op_arguments := dput k v (op_arguments c)\<rparr>) E (f ()) Q \<Longrightarrow> holds i c E (abind (set_argument i k v) f) Q"
  unfolding set_argument_def by (rule holds_write [where g = "\<lambda>r. r\<lparr>op_arguments := dput k v (op_arguments r)\<rparr>"]) simp_all

lemma parse_holds:
  "holds i c E (parse_item_audit i) (\<lambda>(item_id, methods) d F. parsed c item_id methods d \<and> F = E)"
proof -
  let ?Q = "\<lambda>(item_id, methods) d F. parsed c item_id methods d \<and> F = E"
  have last: "holds i (c\<lparr>op_arguments := args\<rparr>) E (abind (set_argument i ''item_id'' (PStr item_id)) (\<lambda>_.
     abind (with_op i (\<lambda>r. check (parse_audit_methods
       (dget_or ''methods'' (PList [PStr ''look'', PStr ''inspect'']) (op_arguments r))))) (\<lambda>methods.
     areturn (Inr (item_id, methods))))) ?Q" for args item_id
    apply (rule holds_set_argument)
    apply (rule holds_check holds_bind_with_op holds_with_op holds_return)+
    apply (drule arg_cong [where f = op_arguments])
    apply (auto simp: parsed_def)
    done
  have id: "holds i (c\<lparr>op_arguments := args\<rparr>) E (abind (with_op i (\<lambda>r. check (audit_item_id (op_arguments r)))) (\<lambda>item_id.
     abind (set_argument i ''item_id'' (PStr item_id)) (\<lambda>_.
     abind (with_op i (\<lambda>r. check (parse_audit_methods
       (dget_or ''methods'' (PList [PStr ''look'', PStr ''inspect'']) (op_arguments r))))) (\<lambda>methods.
     areturn (Inr (item_id, methods)))))) ?Q" for args
    by (rule last holds_check holds_bind_with_op holds_with_op)+
  show ?thesis unfolding parse_item_audit_def
  proof (rule holds_bind_with_op, rule holds_with_op, rule holds_check)
    show "holds i c E (abind (with_op i (\<lambda>r. case dget ''item_id'' (op_arguments r) of
         PInt n \<Rightarrow> set_argument i ''item_id'' (PStr (int_str n)) | _ \<Rightarrow> areturn (Inr ()))) (\<lambda>_.
       abind (with_op i (\<lambda>r. check (audit_item_id (op_arguments r)))) (\<lambda>item_id.
       abind (set_argument i ''item_id'' (PStr item_id)) (\<lambda>_.
       abind (with_op i (\<lambda>r. check (parse_audit_methods
         (dget_or ''methods'' (PList [PStr ''look'', PStr ''inspect'']) (op_arguments r))))) (\<lambda>methods.
       areturn (Inr (item_id, methods))))))) ?Q"
    proof (rule holds_abind [where R = "\<lambda>_ d F. (\<exists>args. d = c\<lparr>op_arguments := args\<rparr>) \<and> F = E"])
      have set: "holds i c E (set_argument i k v) (\<lambda>_ d F. (\<exists>args. d = c\<lparr>op_arguments := args\<rparr>) \<and> F = E)" for k v
        by (auto simp: holds_def set_argument_def assign_def amodify_def pinned_def present_def set_op_def)
      have keep: "holds i c E (areturn (Inr ())) (\<lambda>_ d F. (\<exists>args. d = c\<lparr>op_arguments := args\<rparr>) \<and> F = E)"
        by (rule holds_return) (auto intro: exI [of _ "op_arguments c"])
      show "holds i c E (with_op i (\<lambda>r. case dget ''item_id'' (op_arguments r) of
           PInt n \<Rightarrow> set_argument i ''item_id'' (PStr (int_str n)) | _ \<Rightarrow> areturn (Inr ())))
         (\<lambda>_ d F. (\<exists>args. d = c\<lparr>op_arguments := args\<rparr>) \<and> F = E)"
        by (intro holds_with_op) (simp add: set keep split: pyval.split)
    qed (auto intro: id)
  qed
qed

lemma holds_bound:
  "holds i (c\<lparr>op_binding := Some b\<rparr>) E (f ()) Q \<Longrightarrow> holds i c E (abind (assign i (\<lambda>r. r\<lparr>op_binding := Some b\<rparr>)) f) Q"
  by (rule holds_write [where g = "\<lambda>r. r\<lparr>op_binding := Some b\<rparr>"]) simp_all

lemma audit_holds:
  assumes u: "undisturbed env i"
  shows "holds i c E (execute_item_audit env fuel i) (\<lambda>_ d F. audit_verified d F)"
proof -
  have "holds i d F (with_op i (\<lambda>r.
     abind (call_world env (oe_snapshot env (op_character r))) (\<lambda>start.
     abind (set_start i start) (\<lambda>_.
     abind (check (bind_item (op_character r) item_id start)) (\<lambda>b.
     abind (assign i (\<lambda>r. r\<lparr>op_binding := Some b\<rparr>)) (\<lambda>_.
     abind (admit_and_start env i d1 d2) (\<lambda>_.
     abind (run_item_audit env fuel i b methods) (\<lambda>_.
     abind (call_world env (oe_snapshot env (op_character r))) (\<lambda>end'.
     abind (check (verify_binding end' b)) (\<lambda>_.
     abind (check (exact_item end' b)) (\<lambda>im.
     abind (check (req (ol_location_id (im_location im) = ol_location_id (ib_original_location b)) msg)) (\<lambda>_.
     abind (set_end i end') (\<lambda>_.
     areturn v))))))))))))) (\<lambda>_ d F. audit_verified d F)" if "parsed c item_id methods d" for d F item_id methods d1 d2 msg v
    apply (rule holds_start holds_end holds_check holds_with_op holds_return holds_bound
      | (rule holds_abind [OF run_item_audit_holds [OF u]])
      | (rule holds_bind [OF u], (intro keeps_intros steady_ok; simp; fail)[1]))+
    using that
    apply (drule_tac arg_cong [where f = op_character])
    apply (auto simp: parsed_def audit_verified_def diagnosed_all_def)
    done
  then show ?thesis unfolding execute_item_audit_def
    by (intro holds_abind [OF parse_holds]) auto
qed

section \<open>Registered controllers\<close>

definition test_passed :: "(string \<times> pyval) list \<Rightarrow> controller_definition \<Rightarrow> evidence_record \<Rightarrow> bool" where
  \<comment> \<open>the result belongs to the pinned run, its assertions passed and its cleanup is complete\<close>
  "test_passed arguments cd ev = (let d = details_of ev in test_result_ok d cd arguments \<and> dget ''ok'' (ev_facts ev) = PBool True
     \<and> dget ''status'' d = PStr ''passed'' \<and> dget ''assertions_passed'' d = PBool True \<and> dget ''cleanup_complete'' d = PBool True)"

definition test_completed :: "operation \<Rightarrow> controller_definition \<Rightarrow> evidence_record \<Rightarrow> string \<Rightarrow> session_state \<Rightarrow> session_state \<Rightarrow> bool" where
  "test_completed r cd ev action_id start end' = (verify_controller_evidence ev cd (ss_generation start) action_id False = Inr ()
     \<and> test_passed (op_arguments r) cd ev \<and> verify_controller_handoff end' cd (op_arguments r) None None = Inr ()
     \<and> validate_test_state end' cd = Inr ())"

definition refuge_completed :: "operation \<Rightarrow> controller_definition \<Rightarrow> evidence_record \<Rightarrow> string \<Rightarrow> session_state \<Rightarrow> session_state \<Rightarrow> bool" where
  "refuge_completed r cd ev action_id start end' = (verify_controller_evidence ev cd (ss_generation start) action_id False = Inr ()
     \<and> verify_controller_handoff end' cd (op_arguments r) (Some ev) None = Inr ()
     \<and> (\<exists>hands. hand_ids start = Inr hands \<and> hand_ids end' = Inr hands) \<and> work_completed ev)"

definition plain_completed :: "operation \<Rightarrow> controller_definition \<Rightarrow> evidence_record \<Rightarrow> string \<Rightarrow> session_state \<Rightarrow> session_state \<Rightarrow> session_state \<Rightarrow> bool" where
  "plain_completed r cd ev action_id start current end' = (verify_controller_evidence ev cd (ss_generation start) action_id True = Inr ()
     \<and> verify_controller_handoff end' cd (op_arguments r) (Some ev) (Some (ss_room_id current)) = Inr ())"

definition ended_with :: "operation \<Rightarrow> evidence_record set \<Rightarrow> evidence_record \<Rightarrow> session_state \<Rightarrow> session_state \<Rightarrow> operation \<Rightarrow> evidence_record set \<Rightarrow> bool" where
  \<comment> \<open>the completion kept the evidence and recorded a later fresh end state\<close>
  "ended_with c E ev since end' d F = (d = c\<lparr>op_end_state := Some end'\<rparr> \<and> insert ev E \<subseteq> F \<and> fresh_state c end' \<and> advanced since end')"

lemma holds_add_evidence: "holds i c (insert ev E) (f ()) Q \<Longrightarrow> holds i c E (abind (add_evidence_record i ev) f) Q"
  unfolding add_evidence_record_def by (rule holds_evidence [where evs = "[ev]"]) simp_all

lemma holds_prod: "(\<And>a b. x = (a, b) \<Longrightarrow> holds i c E (f a b) Q) \<Longrightarrow> holds i c E (case x of (a, b) \<Rightarrow> f a b) Q"
  by (cases x) simp

lemma ended_withI:
  assumes "fresh_state c since" "fresh_state c end'"
    and "Some (ss_generation since) = None \<or> Some (ss_generation since) = Some (ss_generation end')"
    and "case ss_sequence since of None \<Rightarrow> True | Some k \<Rightarrow> k < the (ss_sequence end')"
  shows "ended_with c E ev since end' (c\<lparr>op_end_state := Some end'\<rparr>) (insert ev E)"
  using assms by (auto simp: ended_with_def intro: advancedI)

lemma arguments_at: "core r = c \<Longrightarrow> op_arguments r = op_arguments c"
  by (metis core_sel(4))

lemma guarded: "awhen b (abind m (\<lambda>_. areturn (Inl e))) s = (t, Inr x) \<Longrightarrow> \<not> b"
  by (auto simp: eff_Inr split: if_splits)

lemma test_completedI:
  assumes "verify_controller_evidence ev cd (ss_generation start) k False = Inr u1" "core q = c"
    and "req (test_result_ok (details_of ev) cd (op_arguments q)) m1 = Inr u2"
    and "awhen (dget ''cleanup_complete'' (details_of ev) \<noteq> PBool True) (abind a (\<lambda>_. areturn (Inl e))) s1 = (t1, Inr u3)"
    and "core p = c\<lparr>op_end_state := Some end'\<rparr>" "verify_controller_handoff end' cd (op_arguments p) None None = Inr u4"
    and "validate_test_state end' cd = Inr u5"
    and "req (dget ''ok'' (ev_facts ev) = PBool True \<and> dget ''status'' (details_of ev) = PStr ''passed''
      \<and> dget ''assertions_passed'' (details_of ev) = PBool True) m2 = Inr u6"
  shows "test_completed c cd ev k start end'"
  using assms guarded [OF assms(4)] arguments_at [OF assms(2)] arguments_at [OF assms(5)]
  by (simp add: test_completed_def test_passed_def Let_def)

lemma complete_test_holds:
  assumes u: "undisturbed env i" and s: "fresh_state c start"
  shows "holds i c E (complete_test_controller env i cd ev k start)
    (\<lambda>_ d F. \<exists>end'. ended_with c E ev start end' d F \<and> test_completed c cd ev k start end')"
  unfolding complete_test_controller_def Let_def fresh_after_def
  apply (rule holds_start holds_end holds_check fresh_value [OF u] holds_bind_with_op holds_with_op holds_return holds_add_evidence
    | (rule holds_bind [OF u], (intro keeps_intros steady_ok; simp; fail)[1]))+
  by (rule exI, rule conjI, rule ended_withI [OF s], assumption, assumption, assumption, rule test_completedI; assumption)

lemma refuge_completedI:
  assumes "verify_controller_evidence ev cd (ss_generation start) k False = Inr u1"
    and "core q = c\<lparr>op_end_state := Some end'\<rparr>" "verify_controller_handoff end' cd (op_arguments q) (Some ev) None = Inr u2"
    and "hand_ids end' = Inr now_held" "hand_ids start = Inr held" "req (now_held = held) m1 = Inr u3"
    and "req (work_completed ev) m2 = Inr u4"
  shows "refuge_completed c cd ev k start end'"
  using assms arguments_at [OF assms(2)] by (simp add: refuge_completed_def)

lemma steady_areturn: "keeps (steady env i) (areturn v)"
  by (rule keeps_areturn [OF steady_ok]) (simp add: steady_def)

lemma complete_refuge_holds:
  assumes u: "undisturbed env i" and s: "fresh_state c start"
  shows "holds i c E (complete_refuge_controller env i cd ev k start be)
    (\<lambda>_ d F. \<exists>end'. ended_with c E ev start end' d F \<and> refuge_completed c cd ev k start end')"
  unfolding complete_refuge_controller_def Let_def fresh_after_def
  apply (rule holds_start holds_end holds_check fresh_value [OF u] holds_bind_with_op holds_with_op holds_return holds_add_evidence
    | (rule holds_bind [OF u], (rule steady_areturn | intro keeps_intros steady_ok; simp; fail)[1]))+
  by (rule exI, rule conjI, rule ended_withI [OF s], assumption, assumption, assumption, rule refuge_completedI; assumption)

lemma complete_plain_holds:
  assumes u: "undisturbed env i" and m: "fresh_state c current"
    and g: "ss_generation current = ss_generation start"
  shows "holds i c E (complete_plain_controller env i cd ev k start current)
    (\<lambda>_ d F. \<exists>end'. ended_with c E ev current end' d F \<and> plain_completed c cd ev k start current end')"
  unfolding complete_plain_controller_def Let_def g [symmetric]
  apply (rule holds_start holds_end holds_check fresh_value [OF u] holds_bind_with_op holds_with_op holds_return holds_add_evidence
    | (rule holds_bind [OF u], (intro keeps_intros steady_ok; simp; fail)[1]))+
  by (rule exI, rule conjI, rule ended_withI [OF m], assumption, assumption, assumption)
    (auto simp: plain_completed_def g dest: arguments_at)

definition controller_verified :: "('s, 'g) operation_env \<Rightarrow> operation \<Rightarrow> evidence_record set \<Rightarrow> bool" where
  \<comment> \<open>the run was started from a safe state, its own evidence was verified and kept, and the state after it satisfies
      the registered handoff\<close>
  "controller_verified env r E = (\<exists>cd start current end' ev action_id. op_start_state r = Some start \<and> op_end_state r = Some end'
     \<and> fresh_state r start \<and> fresh_state r end' \<and> advanced current end' \<and> ss_generation current = ss_generation start
     \<and> capability_controller env r = Inr cd \<and> available_for cd (op_character r)
     \<and> validate_controller_start start cd = Inr () \<and> validate_controller_start current cd = Inr () \<and> ev \<in> E
     \<and> (if c_test_suite cd \<noteq> None then test_completed r cd ev action_id current end'
        else if refuge_handoff cd then refuge_completed r cd ev action_id current end'
        else plain_completed r cd ev action_id start current end'))"

definition completed :: "operation \<Rightarrow> evidence_record set \<Rightarrow> controller_definition \<Rightarrow> evidence_record \<Rightarrow> string \<Rightarrow> session_state \<Rightarrow> session_state
    \<Rightarrow> operation \<Rightarrow> evidence_record set \<Rightarrow> bool" where
  "completed c E cd ev k start current d F = (\<exists>end'. ended_with c E ev current end' d F
     \<and> (if c_test_suite cd \<noteq> None then test_completed c cd ev k current end'
        else if refuge_handoff cd then refuge_completed c cd ev k current end'
        else plain_completed c cd ev k start current end'))"

lemma complete_holds:
  assumes u: "undisturbed env i" and m: "fresh_state c current" and g: "ss_generation current = ss_generation start"
  shows "holds i c E (complete_controller env i cd ev k start current be) (\<lambda>_ d F. completed c E cd ev k start current d F)"
proof (cases "c_test_suite cd = None")
  case True
  then show ?thesis
    by (auto simp: complete_controller_def completed_def
      intro: holds_consequence [OF complete_refuge_holds [OF u m]] holds_consequence [OF complete_plain_holds [OF u m g]])
next
  case False
  have "holds i c E (abind (complete_test_controller env i cd ev k current) (\<lambda>x. areturn (case be of None \<Rightarrow> Inr x | Some e \<Rightarrow> Inl e)))
      (\<lambda>_ d F. completed c E cd ev k start current d F)"
    by (rule holds_abind [OF complete_test_holds [OF u m]], rule holds_return) (use False in \<open>auto simp: completed_def\<close>)
  with False show ?thesis by (simp add: complete_controller_def)
qed

lemma holds_complete:
  assumes "undisturbed env i" "fresh_state c current" "Some (ss_generation start) = None \<or> Some (ss_generation start) = Some (ss_generation current)"
    and "\<And>d F. completed c E cd ev k start current d F \<Longrightarrow> Q d F"
  shows "holds i c E (complete_controller env i cd ev k start current be) (\<lambda>_. Q)"
  using assms by (intro holds_consequence [OF complete_holds [OF assms(1,2)]]) simp_all

lemma controller_core [simp]: "capability_controller env (core r) = capability_controller env r"
  "capability_controller env (r\<lparr>op_start_state := a\<rparr>) = capability_controller env r"
  "capability_controller env (r\<lparr>op_end_state := a\<rparr>) = capability_controller env r"
  "capability_controller env (r\<lparr>op_arguments := b\<rparr>) = capability_controller env r"
  by (simp_all add: capability_controller_def)

lemma holds_arguments:
  "holds i (c\<lparr>op_arguments := a\<rparr>) E (f ()) Q \<Longrightarrow> holds i c E (abind (assign i (\<lambda>r. r\<lparr>op_arguments := a\<rparr>)) f) Q"
  by (rule holds_write [where g = "\<lambda>r. r\<lparr>op_arguments := a\<rparr>"]) simp_all

lemma steady_result: "keeps (steady env i) (controller_result env i cd g k be)"
  unfolding controller_result_def Let_def by (rule steady_areturn steady_ok keeps_intros | simp)+

lemma controller_verifiedI:
  assumes "core r = c" "areturn (raised (capability_controller env r)) s1 = (t1, Inr cd)" "core q = c"
    and "req (available_for cd (op_character q)) m = Inr u1" "fresh_state (c\<lparr>op_arguments := a\<rparr>) start"
    and "validate_controller_start start cd = Inr u2" "fresh_state (c\<lparr>op_arguments := a\<rparr>\<lparr>op_start_state := Some start\<rparr>) current"
    and "Some (ss_generation start) = None \<or> Some (ss_generation start) = Some (ss_generation current)"
    and "validate_controller_start current cd = Inr u3"
    and "completed (c\<lparr>op_arguments := a\<rparr>\<lparr>op_start_state := Some start\<rparr>) E cd ev k start current d F"
  shows "controller_verified env d F"
proof -
  let ?c = "c\<lparr>op_arguments := a\<rparr>\<lparr>op_start_state := Some start\<rparr>"
  have cd: "capability_controller env c = Inr cd" "available_for cd (op_character c)"
    using assms(1-4) controller_core(1) [of env r] core_sel(3) [of q] by (auto simp: eff_Inr raised_def split: sum.splits)
  from assms(10) obtain end' where e: "ended_with ?c E ev current end' d F"
    and k: "if c_test_suite cd \<noteq> None then test_completed ?c cd ev k current end'
        else if refuge_handoff cd then refuge_completed ?c cd ev k current end' else plain_completed ?c cd ev k start current end'"
    by (auto simp: completed_def)
  have d: "d = ?c\<lparr>op_end_state := Some end'\<rparr>" "ev \<in> F" "fresh_state ?c end'" "advanced current end'" using e by (auto simp: ended_with_def)
  show ?thesis unfolding controller_verified_def
    by (rule exI [of _ cd], rule exI [of _ start], rule exI [of _ current], rule exI [of _ end'], rule exI [of _ ev], rule exI [of _ k])
      (use assms(5-9) cd d k in \<open>auto simp: test_completed_def refuge_completed_def plain_completed_def\<close>)
qed

lemma controller_runs:
  assumes u: "undisturbed env i"
  shows "holds i c E (execute_controller env fuel i) (\<lambda>_ d F. controller_verified env d F)"
  unfolding execute_controller_def Let_def fresh_def fresh_since_def
  apply (rule holds_start holds_end holds_check fresh_value [OF u] holds_bind_with_op holds_with_op holds_prod holds_arguments
    | (rule holds_complete [OF u], assumption, assumption)
    | (rule holds_bind [OF u], (rule steady_areturn steady_result | intro keeps_intros steady_ok; simp; fail)[1]))+
  by (rule controller_verifiedI; assumption)

section \<open>Any capability\<close>

definition verified :: "('s, 'g) operation_env \<Rightarrow> handler \<Rightarrow> operation \<Rightarrow> bool" where
  \<comment> \<open>what the handler must have verified of the record it leaves\<close>
  "verified env h r = (case h of
      ExecuteGo2 \<Rightarrow> go2_verified r
    | ExecuteCharacterRecon \<Rightarrow> recon_verified r (set (op_evidence r))
    | ExecuteItemAudit \<Rightarrow> audit_verified r (set (op_evidence r))
    | ExecuteHuntPrepare \<Rightarrow> hunt_verified env r
    | ExecuteRoomLoot \<Rightarrow> loot_verified r
    | ExecuteControllerRecovery \<Rightarrow> recovery_verified env r
    | ExecuteSessionCommand \<Rightarrow> command_verified r
    | ExecuteController \<Rightarrow> controller_verified env r (set (op_evidence r)))"

definition verified_at :: "('s, 'g) operation_env \<Rightarrow> handler \<Rightarrow> operation \<Rightarrow> evidence_record set \<Rightarrow> bool" where
  \<comment> \<open>the same of a core and the evidence it is known to have\<close>
  "verified_at env h c E = (case h of
      ExecuteGo2 \<Rightarrow> go2_verified c
    | ExecuteCharacterRecon \<Rightarrow> recon_verified c E
    | ExecuteItemAudit \<Rightarrow> audit_verified c E
    | ExecuteHuntPrepare \<Rightarrow> hunt_verified env c
    | ExecuteRoomLoot \<Rightarrow> loot_verified c
    | ExecuteControllerRecovery \<Rightarrow> recovery_verified env c
    | ExecuteSessionCommand \<Rightarrow> command_verified c
    | ExecuteController \<Rightarrow> controller_verified env c E)"

lemma handler_holds:
  assumes "undisturbed env i"
  shows "holds i c E (run_handler env fuel i h) (\<lambda>_ d F. verified_at env h d F)"
  using go2_holds [OF assms] recon_holds [OF assms] audit_holds [OF assms] hunt_holds [OF assms] loot_holds [OF assms]
    recovery_holds [OF assms] command_holds [OF assms] controller_runs [OF assms]
  by (cases h) (simp_all add: run_handler_def verified_at_def)

lemma fresh_state_core: "fresh_state (core r) = fresh_state r"
  by (simp add: fresh_state_def fun_eq_iff)

lemma completed_core: "test_completed (core r) = test_completed r" "refuge_completed (core r) = refuge_completed r"
  "plain_completed (core r) = plain_completed r"
  by (simp_all add: test_completed_def refuge_completed_def plain_completed_def fun_eq_iff)

lemma recon_mono: "recon_verified r E \<Longrightarrow> E \<subseteq> F \<Longrightarrow> recon_verified r F"
  unfolding recon_verified_def by (meson subset_trans)

lemma audit_mono: "audit_verified r E \<Longrightarrow> E \<subseteq> F \<Longrightarrow> audit_verified r F"
  unfolding audit_verified_def by (meson subsetD)

lemma controller_mono: "controller_verified env r E \<Longrightarrow> E \<subseteq> F \<Longrightarrow> controller_verified env r F"
  unfolding controller_verified_def by (elim exE conjE, intro exI conjI; (assumption | blast))

lemma verified_core: "go2_verified (core r) = go2_verified r" "command_verified (core r) = command_verified r"
  "hunt_verified env (core r) = hunt_verified env r" "loot_verified (core r) = loot_verified r"
  "recovery_verified env (core r) = recovery_verified env r" "recon_verified (core r) E = recon_verified r E"
  "audit_verified (core r) E = audit_verified r E" "controller_verified env (core r) E = controller_verified env r E"
  by (simp_all add: go2_verified_def command_verified_def hunt_verified_def loot_verified_def recovery_verified_def recon_verified_def
    audit_verified_def controller_verified_def both_states_def fresh_state_core arguments_core completed_core)

lemma verified_pinned: "verified_at env h c E \<Longrightarrow> pinned i c E s \<Longrightarrow> verified env h (rn_records s ! i)"
  by (cases h) (auto simp: verified_at_def verified_def pinned_def verified_core intro: recon_mono audit_mono controller_mono)

lemma undisturbed_holding_lock: "undisturbed (holding_lock env) i"
  by (auto simp: undisturbed_def present_def split: prod.split)

lemma attempt_holds:
  fixes env :: "('s, 'g) operation_env"
  assumes u: "undisturbed env i"
  shows "holds i c E (attempt_operation env fuel i)
    (\<lambda>_ d F. \<exists>h. map_option ca_handler (capability_by_name (oe_capabilities env) (op_capability c)) = Some h \<and> verified_at env h d F)"
proof -
  have fin: "holds i d F (abind (others env) (\<lambda>_. abind (before_success (holding_lock env) i) (\<lambda>_. finish (holding_lock env) i OpSucceeded x)))
      (\<lambda>_ d' F'. d' = d \<and> F' = F)" for d F x
    apply (rule holds_bind [OF u], rule steady_worker.others_keeps)
    apply (rule holds_bind [OF undisturbed_holding_lock], rule steady_worker.before_success_keeps)
    apply (rule holds_steady_last [OF undisturbed_holding_lock], rule steady_worker.finish_keeps)
    by simp
  have last: "holds i d F (abind (assign i (\<lambda>r. r\<lparr>op_explanation := x\<rparr>)) (\<lambda>_. abind (others env) (\<lambda>_.
      abind (before_success (holding_lock env) i) (\<lambda>_. finish (holding_lock env) i OpSucceeded x)))) (\<lambda>_ d' F'. d' = d \<and> F' = F)" for d F x
    by (rule holds_write [where g = id]) (use fin in simp_all)
  show ?thesis unfolding attempt_operation_def
    apply (rule holds_with_op)
    apply (rule holds_bind [OF u steady_areturn])
    apply (rule holds_check)+
    apply (rule holds_abind [OF handler_holds [OF u]])
    apply (rule holds_consequence [OF last])
    by (auto simp: eff_Inr split: option.splits)
qed

lemma success_verified:
  assumes "undisturbed env i" "rely env" "present i s" "execute_operation env fuel i s = (t, Inr ())"
    and "op_status (rn_records t ! i) = OpSucceeded"
  shows "\<exists>h. map_option ca_handler (capability_by_name (oe_capabilities env) (op_capability (rn_records s ! i))) = Some h
    \<and> verified env h (rn_records t ! i)"
proof -
  obtain s1 r1 where a: "attempt_operation env fuel i s = (s1, r1)" by (cases "attempt_operation env fuel i s")
  have p: "present i s1" using evolving_record(1) [OF evolving_handler.attempt_keeps assms(2) a] assms(3) by (simp add: present_def)
  show ?thesis
  proof (cases r1)
    case (Inr x)
    then have t: "s1 = t" using assms(4) a by (simp add: execute_operation_def caught_def acatch_def)
    have "pinned i (core (rn_records s ! i)) {} s" using assms(3) by (simp add: pinned_def)
    from holdsD [OF attempt_holds [OF assms(1)] this, of fuel t x] a t Inr show ?thesis
      using verified_pinned by (metis core_sel(2))
  next
    case (Inl e)
    obtain kind d where k: "abort_of e = (kind, d)" by (cases "abort_of e")
    with assms(4) a Inl have "conclude_failure env fuel i kind d s1 = (t, Inr ())"
      by (auto simp: execute_operation_def caught_def acatch_def areturn_def split: if_splits)
    with conclude_spec [OF assms(2), of i fuel kind d] p have "in_status i (failure_status kind) t" by (auto simp: spec_def split: prod.splits)
    with assms(5) show ?thesis by (cases kind) (auto simp: in_status_def)
  qed
qed

end
