(* ===== verification/OperationOwnAction.thy ===== *)
theory OperationOwnAction
  imports BrokerLifecycle ManifestSafety OperationSuccess
begin

text \<open>
  The action that a travel operation waits for is the one it submitted itself.  The broker files every
  action under its own id; while the other threads and the step hook keep that order, the reply to a poll
  names the action that was asked for, so the id that the go2 handler checks at the end is the id with
  which the broker answered its own submission.
\<close>

section \<open>Actions filed under their ids\<close>

definition filed :: "'s runner \<Rightarrow> bool" where
  "filed s = keys_ok (br_actions (rn_broker s))"

definition keeps_files :: "('s, 'g) operation_env \<Rightarrow> bool" where
  \<comment> \<open>the other threads and the step hook leave every action of the broker under its own id\<close>
  "keeps_files env = ((\<forall>s. filed s \<longrightarrow> filed (oe_others env s))
     \<and> (\<forall>b w. keys_ok (br_actions b) \<longrightarrow> keys_ok (br_actions (fst (oe_bridge env b w))))
     \<and> (\<forall>hook a ss b w. oe_step_hook env = Some hook \<longrightarrow> keys_ok (br_actions b) \<longrightarrow> keys_ok (br_actions (fst (hook a ss b w)))))"

definition filing :: "'s worker_contract" where
  "filing = \<lparr>ct_held = filed, ct_moves = \<lambda>s t. filed s \<longrightarrow> filed t, ct_raises = \<lambda>_. True\<rparr>"

lemma filing_ok [simp]: "contract_ok filing"
  by (auto simp: contract_ok_def filing_def)

lemma filing_keeps: "keeps filing m \<longleftrightarrow> (\<forall>s. filed s \<longrightarrow> filed (fst (m s)))"
  by (auto simp: keeps_def filing_def)

lemma filing_return: "keeps filing (areturn v)" "keeps filing (check v)" "keeps filing (aguard b e)"
    "keeps filing (\<lambda>s. aguard (p s) e s)"
  by (simp_all add: filing_keeps check_def aguard_def areturn_def)

lemma filing_modify: "(\<And>s. rn_broker (f s) = rn_broker s) \<Longrightarrow> keeps filing (amodify f)"
  by (simp add: filing_keeps amodify_def filed_def)

lemma filing_world: "keeps filing (in_world f)"
  by (simp add: filing_keeps in_world_def filed_def split: prod.split)

lemma filing_broker: "(\<And>b. keys_ok (br_actions b) \<Longrightarrow> op_ok b (fst (f b))) \<Longrightarrow> keeps filing (in_broker f)"
  by (fastforce simp: filing_keeps in_broker_def filed_def op_ok_def split: prod.split)

lemma filing_caught: "keeps filing m \<Longrightarrow> (\<And>e. keeps filing (h e)) \<Longrightarrow> keeps filing (caught m h)"
  by (rule keeps_caught) simp_all

lemma submit_filed: "keys_ok (br_actions b) \<Longrightarrow> keys_ok (br_actions (fst (submit p now token b)))"
  by (cases "admission b p now token") (simp_all add: submit_def keys_ok_put admission_id)

locale filing_runner =
  fixes env :: "('s, 'g) operation_env"
  assumes files: "keeps_files env"
begin

lemma others_file [keeps_intros]: "keeps filing (others env)"
  using files by (simp add: filing_keeps others_def amodify_def keeps_files_def)

lemma bridge_files [keeps_intros]: "keeps filing (bridge env)"
  unfolding filing_keeps
proof (intro allI impI)
  fix s :: "'s runner" assume "filed s"
  then have "keys_ok (br_actions (fst (oe_bridge env (rn_broker s) (rn_world s))))"
    using files by (simp add: keeps_files_def filed_def)
  then show "filed (fst (bridge env s))" by (auto simp: bridge_def amodify_def filed_def split: prod.splits)
qed

lemmas basics_file [keeps_intros] = filing_return filing_world filing_ok

lemma clocks_file [keeps_intros]: "keeps filing (clock_locked env)" "keeps filing (clock_now env)"
  unfolding clock_locked_def clock_now_def by (intro keeps_intros)+

lemma world_files [keeps_intros]: "keeps filing (call_world env f)"
  unfolding call_world_def by (intro keeps_intros)

lemma broker_files: "(\<And>now b. keys_ok (br_actions b) \<Longrightarrow> op_ok b (fst (f now b))) \<Longrightarrow> keeps filing (broker_locked env f)"
  unfolding broker_locked_def by (intro keeps_intros filing_broker)

lemma call_files: "(\<And>now b. keys_ok (br_actions b) \<Longrightarrow> op_ok b (fst (f now b))) \<Longrightarrow> keeps filing (call_broker env f)"
  unfolding call_broker_def by (intro keeps_intros broker_files)

lemma actions_file [keeps_intros]: "keeps filing (action_get env k)"
    "keeps filing (call_broker env (request_test_stop i c g))" "keeps filing (broker_locked env (revoke_controller_run i c g))"
  unfolding action_get_def by (intro broker_files call_files; simp add: broker_ops)+

lemma submit_files [keeps_intros]: "keeps filing (submit_locked env p)"
proof -
  have "keeps filing (in_broker (submit p now token))" for now token
    using submit_filed [of _ p now token] by (auto simp: filing_keeps in_broker_def filed_def split: prod.split) (metis fst_conv)
  then show ?thesis unfolding submit_locked_def broker_locked_def by (intro keeps_intros)
qed

lemma log_files [keeps_intros]: "keeps filing (assign i f)" "keeps filing (emit_locked env i st d)" "keeps filing (progress env i d)"
    "keeps filing (transition env i st d)"
  unfolding progress_def progress_locked_def transition_def emit_locked_def assign_def
  by (intro keeps_intros filing_modify; simp add: set_op_def)+

lemma deadline_files [keeps_intros]: "keeps filing (check_deadline_and_interruption env i b)"
  unfolding check_deadline_and_interruption_def by (intro keeps_intros)

lemma ignore_files [keeps_intros]: "keeps filing m \<Longrightarrow> keeps filing (ignore_reply m)"
  unfolding ignore_reply_def by (intro keeps_intros)

lemma fresh_files [keeps_intros]: "keeps filing (fresh env i)"
  unfolding fresh_def require_fresh_session_def fresh_locked_def by (intro keeps_intros)

lemma refuge_files [keeps_intros]: "keeps filing (resolve_prior_refuge env i ss)"
  unfolding resolve_prior_refuge_def Let_def drop_refuge_def
  by (intro keeps_intros filing_modify; simp)

lemma start_files [keeps_intros]: "keeps filing (admit_and_start env i d1 d2)" "keeps filing (set_start i ss)"
  unfolding admit_and_start_def set_start_def by (intro keeps_intros)+

lemma own_files [keeps_intros]: "keeps filing (own_action env i ss k m)"
  unfolding own_action_def Let_def by (intro keeps_intros filing_modify; simp add: own_refuge_def)

lemma recheck_files [keeps_intros]: "keeps filing (recheck_before_dispatch env i k)"
  unfolding recheck_before_dispatch_def stop_test_action_def by (intro keeps_intros)

lemma hook_files [keeps_intros]: "keeps filing (call_hook env a ss)"
proof (cases "oe_step_hook env")
  case (Some hook)
  have "keeps filing (\<lambda>s. case hook a ss (rn_broker s) (rn_world s) of (b, w, r) \<Rightarrow> (s\<lparr>rn_broker := b, rn_world := w\<rparr>, raised r))"
    unfolding filing_keeps
  proof (intro allI impI)
    fix s :: "'s runner" assume "filed s"
    then have "keys_ok (br_actions (fst (hook a ss (rn_broker s) (rn_world s))))"
      using files Some by (simp add: keeps_files_def filed_def)
    then show "filed (fst ((\<lambda>s. case hook a ss (rn_broker s) (rn_world s) of (b, w, r) \<Rightarrow> (s\<lparr>rn_broker := b, rn_world := w\<rparr>, raised r)) s))"
      by (auto simp: filed_def split: prod.splits)
  qed
  with Some show ?thesis by (auto simp: call_hook_def intro!: keeps_intros)
qed (auto simp: call_hook_def intro!: keeps_intros)

lemma sleep_files [keeps_intros]: "keeps filing (sleep env t)"
  unfolding sleep_def by (intro keeps_intros filing_modify) simp

end

section \<open>The proposal of a step and its reply\<close>

definition hex_tokens :: "('s, 'g) operation_env \<Rightarrow> bool" where
  \<comment> \<open>\<open>secrets.token_hex(8)\<close>\<close>
  "hex_tokens env = (\<forall>w. rx_full False rx_action_id (snd (oe_token env w)))"

lemma hex_id: "rx_full False rx_action_id k \<Longrightarrow> act_action_id (PStr k) = Inr k' \<Longrightarrow> k' = k"
proof -
  assume k: "rx_full False rx_action_id k" and e: "act_action_id (PStr k) = Inr k'"
  have hex: "48 \<le> ord c \<and> ord c \<le> 57 \<or> 97 \<le> ord c \<and> ord c \<le> 102" if c: "c \<in> set k" for c
  proof -
    have "rx_alphabet (exactly n hex_cls) False c \<Longrightarrow> rx_alphabet hex_cls False c" for n by (induction n) auto
    with rx.full_alphabet [OF _ k c] have "rx_alphabet hex_cls False c" by (simp add: rx_action_id_def hex_cls_def cls_def)
    then show ?thesis by (auto simp: hex_cls_def cls_def cset_matches_def in_ranges_def)
  qed
  then have nul: "remove_nul k = k" by (force simp: remove_nul_def filter_id_conv)
  have "strip k = k"
  proof (cases "k = []")
    case False
    with hex [OF hd_in_set [OF this]] hex [OF last_in_set [OF this]] show ?thesis
      by (intro strip_fixed) (auto simp: is_space_def Let_def)
  qed (simp add: strip_def)
  with nul e show ?thesis by (auto simp: act_action_id_def act_text_def Let_def rbind_Inr_iff split: if_splits)
qed

definition step_proposed :: "('s, 'g) operation_env \<Rightarrow> nat \<Rightarrow> session_state \<Rightarrow> command \<Rightarrow> bool
    \<Rightarrow> ('s, controller_command option \<times> action_proposal) prog" where
  \<comment> \<open>\<open>run_broker_step\<close> up to the call of the broker: the proposal it submits\<close>
  "step_proposed env i ss cmd cleanup =
     abind (awhen (\<not> cleanup) (check_deadline_and_interruption env i True)) (\<lambda>_.
     abind (clock_now env) (\<lambda>now.
     with_op i (\<lambda>r.
     abind (aguard (now < op_deadline r) (Abort TimingOut ''operation timed out before next action'')) (\<lambda>_.
     let left = op_deadline r - now; recon = (op_capability r = ''character.recon'') in
     abind (aguard (\<not> recon \<or> 1 \<le> left) (Abort TimingOut ''insufficient time remains for character inspection'')) (\<lambda>_.
     let ttl = (if recon then min 120 \<lfloor>left\<rfloor> else max 1 (min 120 (ceiling_seconds left))) in
     abind (areturn (raised (matched_controller env cmd))) (\<lambda>m.
     abind (others env) (\<lambda>_. areturn (Inr (m, step_proposal env r ss cmd ttl m)))))))))"

lemma caught_value:
  "caught m (\<lambda>e. areturn (Inl (h e))) s = (t, Inr x) \<longleftrightarrow> m s = (t, Inr x)"
  by (auto simp: caught_def acatch_def areturn_def split: prod.splits sum.splits if_splits)

lemma finally_value:
  "finally_do m f s = (t, Inr x) \<Longrightarrow> \<exists>u. m s = (u, Inr x)"
  by (auto simp: finally_do_def afinally_def split: prod.splits sum.splits op_error.splits)

lemma submit_step_splits:
  assumes "submit_step env i ss cmd detail left s = (t, Inr (m, reply))"
  shows "\<exists>u ttl. abind (aguard (\<not> (op_capability (rn_records s ! i) = ''character.recon'') \<or> 1 \<le> left)
        (Abort TimingOut ''insufficient time remains for character inspection'')) (\<lambda>_.
      abind (areturn (raised (matched_controller env cmd))) (\<lambda>m. abind (others env) (\<lambda>_. areturn (Inr m)))) s = (u, Inr m)
    \<and> ttl = (if op_capability (rn_records s ! i) = ''character.recon'' then min 120 \<lfloor>left\<rfloor> else max 1 (min 120 (ceiling_seconds left)))
    \<and> submit_locked env (step_proposal env (rn_records s ! i) ss cmd ttl m) u = (t, Inr reply)"
  using assms by (auto simp: submit_step_def with_op_def Let_def eff_Inr caught_value)

lemma run_step_splits:
  assumes "run_broker_step env fuel i ss cmd detail cleanup s = (t, Inr a)"
  obtains u m p v reply w where "step_proposed env i ss cmd cleanup s = (u, Inr (m, p))" and "submit_locked env p u = (v, Inr reply)"
    and "abind (own_action env i ss (py_str (dget ''action_id'' reply)) m) (\<lambda>_.
       abind (recheck_before_dispatch env i (py_str (dget ''action_id'' reply))) (\<lambda>_.
       abind (progress env i (''broker admitted action '' @ py_str (dget ''action_id'' reply) @ '': '' @ detail)) (\<lambda>_.
       abind (call_hook env reply ss) (\<lambda>_.
       poll_action env fuel i (py_str (dget ''action_id'' reply)) detail cleanup)))) v = (w, Inr a)"
proof -
  from assms obtain s1 s2 s3 s4 now m reply x y where
    1: "awhen (\<not> cleanup) (check_deadline_and_interruption env i True) s = (s1, Inr x)"
    and 2: "clock_now env s1 = (s2, Inr now)" and 3: "now < op_deadline (rn_records s2 ! i)"
    and 4: "submit_step env i ss cmd detail (op_deadline (rn_records s2 ! i) - now) s2 = (s3, Inr (m, reply))"
    and 5: "own_action env i ss (py_str (dget ''action_id'' reply)) m s3 = (s4, Inr y)"
    and 6: "finally_do (abind (recheck_before_dispatch env i (py_str (dget ''action_id'' reply))) (\<lambda>_.
        abind (progress env i (''broker admitted action '' @ py_str (dget ''action_id'' reply) @ '': '' @ detail)) (\<lambda>_.
        abind (call_hook env reply ss) (\<lambda>_.
        poll_action env fuel i (py_str (dget ''action_id'' reply)) detail cleanup)))) (release_actions env i) s4 = (t, Inr a)"
    unfolding run_broker_step_def Let_def by (auto simp only: eff_Inr with_op_def split_paired_Ex case_prod_conv)
  from finally_value [OF 6] obtain w where 7: "abind (recheck_before_dispatch env i (py_str (dget ''action_id'' reply))) (\<lambda>_.
        abind (progress env i (''broker admitted action '' @ py_str (dget ''action_id'' reply) @ '': '' @ detail)) (\<lambda>_.
        abind (call_hook env reply ss) (\<lambda>_.
        poll_action env fuel i (py_str (dget ''action_id'' reply)) detail cleanup))) s4 = (w, Inr a)" by blast
  from submit_step_splits [OF 4] obtain u ttl where 8: "abind (aguard (\<not> (op_capability (rn_records s2 ! i) = ''character.recon'')
        \<or> 1 \<le> op_deadline (rn_records s2 ! i) - now) (Abort TimingOut ''insufficient time remains for character inspection'')) (\<lambda>_.
      abind (areturn (raised (matched_controller env cmd))) (\<lambda>m. abind (others env) (\<lambda>_. areturn (Inr m)))) s2 = (u, Inr m)"
    and ttl: "ttl = (if op_capability (rn_records s2 ! i) = ''character.recon'' then min 120 \<lfloor>op_deadline (rn_records s2 ! i) - now\<rfloor>
        else max 1 (min 120 (ceiling_seconds (op_deadline (rn_records s2 ! i) - now))))"
    and 9: "submit_locked env (step_proposal env (rn_records s2 ! i) ss cmd ttl m) u = (s3, Inr reply)" by blast
  have "step_proposed env i ss cmd cleanup s = (u, Inr (m, step_proposal env (rn_records s2 ! i) ss cmd ttl m))"
  proof -
    from 8 obtain z where "op_capability (rn_records s2 ! i) = ''character.recon'' \<longrightarrow> 1 \<le> op_deadline (rn_records s2 ! i) - now"
      "raised (matched_controller env cmd) = Inr m" "others env s2 = (u, Inr z)" by (auto simp: eff_Inr)
    with 1 2 3 show ?thesis unfolding step_proposed_def Let_def
      by (simp add: abind_def with_op_def aguard_def areturn_def ttl)
  qed
  moreover have "abind (own_action env i ss (py_str (dget ''action_id'' reply)) m) (\<lambda>_.
       abind (recheck_before_dispatch env i (py_str (dget ''action_id'' reply))) (\<lambda>_.
       abind (progress env i (''broker admitted action '' @ py_str (dget ''action_id'' reply) @ '': '' @ detail)) (\<lambda>_.
       abind (call_hook env reply ss) (\<lambda>_.
       poll_action env fuel i (py_str (dget ''action_id'' reply)) detail cleanup)))) s3 = (w, Inr a)"
    using 5 7 unfolding abind_value [of "own_action env i ss (py_str (dget ''action_id'' reply)) m"] by blast
  ultimately show thesis using 9 that by blast
qed

section \<open>The reply to a poll\<close>

definition names :: "string \<Rightarrow> ('s, (string \<times> pyval) list) prog \<Rightarrow> bool" where
  \<comment> \<open>what the program returns names the action\<close>
  "names k m = (\<forall>s t a. filed s \<longrightarrow> m s = (t, Inr a) \<longrightarrow> dget ''action_id'' a = PStr k)"

lemma names_bind:
  assumes "keeps filing m" and "\<And>s t x. filed s \<Longrightarrow> m s = (t, Inr x) \<Longrightarrow> names k (f x)"
  shows "names k (abind m f)"
  unfolding names_def
proof (intro allI impI)
  fix s t a assume s: "filed s" and "abind m f s = (t, Inr a)"
  then obtain u x where m: "m s = (u, Inr x)" "f x u = (t, Inr a)" by (auto simp: eff_Inr)
  from assms(1) s m(1) have "filed u" by (metis filing_keeps fst_conv)
  with assms(2) [OF s m(1)] m(2) show "dget ''action_id'' a = PStr k" by (simp add: names_def)
qed

lemma names_return: "dget ''action_id'' a = PStr k \<Longrightarrow> names k (areturn (Inr a))" "names k (areturn (Inl e))"
  by (simp_all add: names_def areturn_def)

lemma names_with_op: "(\<And>r. names k (f r)) \<Longrightarrow> names k (with_op i f)"
  by (simp add: names_def with_op_def)

lemma names_if: "(b \<Longrightarrow> names k m) \<Longrightarrow> (\<not> b \<Longrightarrow> names k n) \<Longrightarrow> names k (if b then m else n)"
  by simp

lemma submitted_id:
  assumes "submit_locked env p s = (t, Inr reply)" and "hex_tokens env"
  shows "rx_full False rx_action_id (py_str (dget ''action_id'' reply))"
proof -
  from assms(1) obtain b b' now where "submit p now (snd (oe_token env (rn_world s))) b = (b', Inr reply)"
    by (auto simp: submit_locked_def broker_locked_def in_broker_def in_world_def pure_call_def raised_def eff_Inr
        split: prod.splits sum.splits)
  then obtain a where "admission b p now (snd (oe_token env (rn_world s))) = Inr a"
    and "reply = public (status_str (act_status a)) a" by (auto simp: submit_def split: sum.splits)
  with admission_id [OF this(1)] assms(2) show ?thesis by (simp add: public_def dget_def hex_tokens_def)
qed

context filing_runner
begin

lemma get_names: "rx_full False rx_action_id k \<Longrightarrow> names k (action_get env k)"
  unfolding action_get_def call_broker_def broker_locked_def
proof (intro names_bind others_file bridge_files clocks_file)
  fix now assume k: "rx_full False rx_action_id k"
  show "names k (in_broker (get_action (PStr k) now) :: ('s, (string \<times> pyval) list) prog)"
    unfolding names_def
  proof (intro allI impI)
    fix s t :: "'s runner" and a assume f: "filed s" and "in_broker (get_action (PStr k) now) s = (t, Inr a)"
    then obtain b' where "get_action (PStr k) now (rn_broker s) = (b', Inr a)"
      by (auto simp: in_broker_def raised_def split: prod.splits sum.splits)
    then obtain x k' where x: "act_action_id (PStr k) = Inr k'" "map_of (br_actions (expire_locked now (rn_broker s))) k' = Some x"
      "a = public (status_str (act_status x)) x"
      by (auto simp: get_action_def Let_def rbind_Inr_iff split: sum.splits)
    from f have "keys_ok (br_actions (expire_locked now (rn_broker s)))" by (simp add: filed_def keys_ok_expire)
    with x(2) have "act_id x = k'" unfolding keys_ok_def by blast
    from trans [OF this hex_id [OF k x(1)]] have "act_id x = k" .
    then show "dget ''action_id'' a = PStr k" unfolding x(3) by (simp add: public_def dget_def)
  qed
qed

lemma poll_names: "rx_full False rx_action_id k \<Longrightarrow> names k (poll_action env fuel i k detail cleanup)"
proof (induction fuel)
  case (Suc fuel)
  show ?case unfolding poll_action.simps
  proof (intro names_with_op names_bind [OF keeps_awhen [OF filing_ok deadline_files]] names_bind [OF actions_file(1)])
    fix r s t a s1 t1 assume "filed (s :: 's runner)" and "action_get env k s = (t, Inr a)"
    with get_names [OF Suc.prems] have "dget ''action_id'' a = PStr k" by (simp add: names_def)
    then show "names k (let status = py_str (dget ''status'' a); test_run = is_test_operation env r in
     if status = ''completed'' then
       abind (progress env i (detail @ '': '' @ py_str (dget_or ''completion'' (PStr ''sent_unverified'') a))) (\<lambda>_.
       areturn (Inr a))
     else if status \<in> set ended_badly then
       abind (awhen test_run (check_deadline_and_interruption env i True)) (\<lambda>_.
       areturn (Inl (fails (''broker action '' @ status @ '': '' @ detail))))
     else abind (check_deadline_and_interruption env i (\<not> cleanup \<and> \<not> test_run)) (\<lambda>_.
       abind (sleep env (oe_poll_interval env)) (\<lambda>_.
       poll_action env fuel i k detail cleanup)))"
      unfolding Let_def by (intro names_if names_bind names_return Suc keeps_intros)
  qed
qed (simp add: names_return)

lemma step_own:
  assumes "filed s" and "hex_tokens env" and "run_broker_step env fuel i ss cmd detail cleanup s = (t, Inr a)"
  shows "\<exists>u m p v reply. step_proposed env i ss cmd cleanup s = (u, Inr (m, p)) \<and> submit_locked env p u = (v, Inr reply)
    \<and> py_str (dget ''action_id'' a) = py_str (dget ''action_id'' reply)"
proof -
  from run_step_splits [OF assms(3)] obtain u m p v reply w where
    p: "step_proposed env i ss cmd cleanup s = (u, Inr (m, p))" and v: "submit_locked env p u = (v, Inr reply)"
    and a: "abind (own_action env i ss (py_str (dget ''action_id'' reply)) m) (\<lambda>_.
       abind (recheck_before_dispatch env i (py_str (dget ''action_id'' reply))) (\<lambda>_.
       abind (progress env i (''broker admitted action '' @ py_str (dget ''action_id'' reply) @ '': '' @ detail)) (\<lambda>_.
       abind (call_hook env reply ss) (\<lambda>_.
       poll_action env fuel i (py_str (dget ''action_id'' reply)) detail cleanup)))) v = (w, Inr a)" .
  have "keeps filing (step_proposed env i ss cmd cleanup)" unfolding step_proposed_def Let_def by (intro keeps_intros)
  with assms(1) p have "filed u" by (metis filing_keeps fst_conv)
  with v submit_files [of p] have "filed v" by (metis filing_keeps fst_conv)
  moreover have "names (py_str (dget ''action_id'' reply)) (abind (own_action env i ss (py_str (dget ''action_id'' reply)) m) (\<lambda>_.
       abind (recheck_before_dispatch env i (py_str (dget ''action_id'' reply))) (\<lambda>_.
       abind (progress env i (''broker admitted action '' @ py_str (dget ''action_id'' reply) @ '': '' @ detail)) (\<lambda>_.
       abind (call_hook env reply ss) (\<lambda>_.
       poll_action env fuel i (py_str (dget ''action_id'' reply)) detail cleanup)))))"
    by (intro names_bind own_files recheck_files log_files hook_files poll_names submitted_id [OF v assms(2)])
  ultimately have "dget ''action_id'' a = PStr (py_str (dget ''action_id'' reply))"
    using a unfolding names_def by blast
  then have "py_str (dget ''action_id'' a) = py_str (dget ''action_id'' reply)" by simp
  with p v show ?thesis by blast
qed

end

section \<open>Travel\<close>

definition go2_started where
  \<comment> \<open>\<open>_execute_go2\<close> up to the step of the broker: the destination, the first state, the hands and the command\<close>
  "go2_started env i =
     abind (with_op i (\<lambda>r. check (travel_arguments r))) (\<lambda>destination.
     abind (fresh env i) (\<lambda>start.
     abind (set_start i start) (\<lambda>_.
     abind (check (validate_travel_state start)) (\<lambda>_.
     abind (check (hand_ids start)) (\<lambda>hands.
     abind (others env) (\<lambda>_.
     abind (aread (refuge_of i)) (\<lambda>found.
     abind (awhen (foreign_refuge found start) (resolve_prior_refuge env i start)) (\<lambda>_.
     abind (if foreign_refuge found start then abind (others env) (\<lambda>_. aread (refuge_of i)) else areturn (Inr found)) (\<lambda>pending.
     abind (check (req (refuge_allows pending start destination)
       ''unresolved test handoff permits travel only to its original refuge in the same session'')) (\<lambda>_.
     abind (admit_and_start env i ''exact-destination travel admitted'' ''native go2 travel running'') (\<lambda>_.
     abind (areturn (raised (adapter_command go2_adapter ''supervised_travel'' [(''destination'', PStr destination)]))) (\<lambda>cmd.
     areturn (Inr (destination, start, hands, cmd))))))))))))))"

definition go2_finished where
  \<comment> \<open>the rest, given what the step of the broker returned\<close>
  "go2_finished env i destination start hands a =
     abind (fresh_after env i start) (\<lambda>end'.
     abind (check (validate_travel_state end')) (\<lambda>_.
     abind (check (req (ss_room_id end' = destination) ''destination arrival or original equipment was not verified'')) (\<lambda>_.
     abind (check (hand_ids end')) (\<lambda>held.
     abind (check (req (held = hands) ''destination arrival or original equipment was not verified'')) (\<lambda>_.
     abind (check (req (script_completed end' ''go2'' (py_str (dget ''action_id'' a))) ''exact go2 completion was not verified'')) (\<lambda>_.
     abind (set_end i end') (\<lambda>_.
     abind (resolve_prior_refuge env i end') (\<lambda>_.
     areturn (Inr ''go2 arrival, original equipment and exact owner release verified'')))))))))"

lemma abind_assoc: "abind (abind m f) g = abind m (\<lambda>x. abind (f x) g)"
  by (rule ext) (simp add: abind_def split: prod.split sum.split)

lemma abind_return: "abind (areturn (Inr x)) f = f x"
  by (rule ext) (simp add: abind_def areturn_def)

lemma go2_splits:
  "execute_go2 env fuel i = abind (go2_started env i) (\<lambda>(destination, start, hands, cmd).
     abind (run_broker_step env fuel i start (single cmd) ''traveling to the authorized destination'' False)
       (go2_finished env i destination start hands))"
  by (simp add: execute_go2_def go2_started_def go2_finished_def [abs_def] abind_assoc abind_return)

definition go2_proposed where
  \<comment> \<open>the handler up to the call of the broker: the first state and the proposal it submits\<close>
  "go2_proposed env i = abind (go2_started env i) (\<lambda>(destination, start, hands, cmd).
     abind (step_proposed env i start (single cmd) False) (\<lambda>(m, p). areturn (Inr (start, p))))"

lemma started_holds:
  assumes u: "undisturbed env i"
  shows "holds i c E (go2_started env i) (\<lambda>(destination, start, hands, cmd) d F. d = c\<lparr>op_start_state := Some start\<rparr> \<and> fresh_state c start
     \<and> travel_arguments c = Inr destination \<and> validate_travel_state start = Inr () \<and> hand_ids start = Inr hands
     \<and> adapter_command go2_adapter ''supervised_travel'' [(''destination'', PStr destination)] = Inr cmd)"
  unfolding go2_started_def fresh_def
  apply (rule holds_start holds_end holds_check fresh_value [OF u] holds_bind_with_op holds_with_op holds_return
    | (rule holds_bind [OF u], (intro keeps_intros steady_ok; simp; fail)[1]))+
  by (auto simp: arguments_core areturn_def raised_def split: sum.splits)

lemma finished_holds:
  assumes u: "undisturbed env i" and f: "fresh_state c start" and s: "op_start_state c = Some start"
  shows "holds i c E (go2_finished env i destination start hands a) (\<lambda>_ d F. \<exists>end'. both_states d start end'
     \<and> travel_arguments d = travel_arguments c \<and> ss_room_id end' = destination \<and> validate_travel_state end' = Inr ()
     \<and> hand_ids end' = Inr hands \<and> script_completed end' ''go2'' (py_str (dget ''action_id'' a)))"
  unfolding go2_finished_def fresh_after_def
  apply (rule holds_start holds_end holds_check fresh_value [OF u] holds_bind_with_op holds_with_op holds_return
    | (rule holds_bind [OF u], (intro keeps_intros steady_ok; simp; fail)[1]))+
  using f s by (auto simp: both_states_def arguments_core intro: advancedI)

lemma room_digits: "rx_full False rx_room_id d \<Longrightarrow> d \<noteq> [] \<and> list_all is_ascii_digit d"
proof -
  assume "rx_full False rx_room_id d"
  then have a: "accepts False rx_room_id d" by (simp add: rx.full_iff rx_room_id_def digit_cls_def)
  have "is_ascii_digit c" if "c \<in> set d" for c
    using accepts_alphabet [OF a that]
    by (auto simp: rx_room_id_def digit_cls_def cls_def cset_matches_def in_ranges_def is_ascii_digit_def Let_def)
  moreover from a have "d \<noteq> []" by (auto simp: rx_room_id_def cls_def)
  ultimately show ?thesis by (simp add: list_all_iff)
qed

lemma travel_command: "travel_arguments r = Inr d \<Longrightarrow>
    adapter_command go2_adapter ''supervised_travel'' [(''destination'', PStr d)] = Inr (''go2 supervised '' @ d)"
proof -
  assume "travel_arguments r = Inr d"
  then have "rx_full False rx_room_id d"
    by (auto simp: travel_arguments_def andthen_def req_def rbind_Inr_iff Let_def destination_ok_def text_of_def
      split: if_splits pyval.splits)
  from room_digits [OF this] digits_render [of d] show ?thesis by (intro supervised_travel_command) simp_all
qed

lemma proposed_fields:
  "step_proposed env i ss cmd cleanup s = (u, Inr (m, p)) \<Longrightarrow> pr_command p = fst cmd
     \<and> pr_expected_room_id p = Some (ss_room_id ss) \<and> pr_expected_generation p = Some (ss_generation ss)"
  by (auto simp: step_proposed_def Let_def with_op_def eff_Inr step_proposal_def)

context filing_runner
begin

lemma travel_own:
  assumes u: "undisturbed env i" and "present i s" and "filed s" and "hex_tokens env" and "execute_go2 env fuel i s = (t, Inr msg)"
  shows "\<exists>w v start end' hands p reply. go2_proposed env i s = (w, Inr (start, p)) \<and> submit_locked env p w = (v, Inr reply)
    \<and> pr_command p = Some (''go2 supervised '' @ ss_room_id end')
    \<and> pr_expected_room_id p = Some (ss_room_id start) \<and> pr_expected_generation p = Some (ss_generation start)
    \<and> both_states (rn_records t ! i) start end' \<and> travel_arguments (rn_records t ! i) = Inr (ss_room_id end')
    \<and> validate_travel_state start = Inr () \<and> validate_travel_state end' = Inr ()
    \<and> hand_ids start = Inr hands \<and> hand_ids end' = Inr hands
    \<and> script_completed end' ''go2'' (py_str (dget ''action_id'' reply))"
proof -
  from assms(5) [unfolded go2_splits] obtain s1 s2 destination start hands cmd a where
    1: "go2_started env i s = (s1, Inr (destination, start, hands, cmd))"
    and 2: "run_broker_step env fuel i start (single cmd) ''traveling to the authorized destination'' False s1 = (s2, Inr a)"
    and 3: "go2_finished env i destination start hands a s2 = (t, Inr msg)"
    by (auto simp only: eff_Inr split_paired_Ex case_prod_conv)
  let ?c = "core (rn_records s ! i)"
  have "pinned i ?c {} s" using assms(2) by (simp add: pinned_def)
  from holdsD [OF started_holds [OF u] this 1] obtain F where
    f: "pinned i (?c\<lparr>op_start_state := Some start\<rparr>) F s1" "fresh_state ?c start" "travel_arguments ?c = Inr destination"
    "validate_travel_state start = Inr ()" "hand_ids start = Inr hands"
    "adapter_command go2_adapter ''supervised_travel'' [(''destination'', PStr destination)] = Inr cmd" by auto
  have "keeps (steady env i) (run_broker_step env fuel i start (single cmd) ''traveling to the authorized destination'' False)"
    by (intro keeps_intros)
  with 2 u have "same_data i s1 s2" by (auto simp: steady_keeps) (metis fst_conv)
  from pinned_same_data [OF f(1) this] have p2: "pinned i (?c\<lparr>op_start_state := Some start\<rparr>) F s2" .
  from holdsD [OF finished_holds [OF u] p2 3] f(2) obtain d G end' where
    g: "pinned i d G t" "both_states d start end'" "travel_arguments d = Inr destination" "ss_room_id end' = destination"
    "validate_travel_state end' = Inr ()" "hand_ids end' = Inr hands" "script_completed end' ''go2'' (py_str (dget ''action_id'' a))"
    using f(3) by auto
  have "keeps filing (go2_started env i)" unfolding go2_started_def by (intro keeps_intros)
  with assms(3) 1 have "filed s1" by (metis filing_keeps fst_conv)
  from step_own [OF this assms(4) 2] obtain w m p v reply where
    w: "step_proposed env i start (single cmd) False s1 = (w, Inr (m, p))" "submit_locked env p w = (v, Inr reply)"
    "py_str (dget ''action_id'' a) = py_str (dget ''action_id'' reply)" by blast
  have "go2_proposed env i s = (w, Inr (start, p))"
    unfolding go2_proposed_def using 1 w(1) by (simp add: abind_def areturn_def)
  moreover have "both_states (rn_records t ! i) start end' \<and> travel_arguments (rn_records t ! i) = Inr (ss_room_id end')"
    using g(1-4) by (auto simp: pinned_def both_states_def fresh_state_core arguments_core)
  moreover have "cmd = ''go2 supervised '' @ ss_room_id end'" using travel_command [OF f(3)] f(6) g(4) by simp
  ultimately show ?thesis using w f g proposed_fields [OF w(1)]
    by (intro exI [of _ w] exI [of _ v] exI [of _ start] exI [of _ end'] exI [of _ hands] exI [of _ p] exI [of _ reply])
       (simp add: single_def)
qed

end

end
