(* ===== verification/OperationSamples.thy ===== *)
theory OperationSamples
  imports OperationSuccess
begin

text \<open>
  A session of one character for the witnesses: Bob travels from room 1 to room 5.  The surroundings are
  the time and whether the action has reached the game; the step hook delivers the actions of the broker.
\<close>

definition sample_state :: "string \<Rightarrow> int \<Rightarrow> (string \<times> string) list \<Rightarrow> session_state" where
  "sample_state room n status = \<lparr>ss_character = ''Bob'', ss_generation = ''g1'', ss_room_id = room, ss_items = [], ss_fresh = Some True,
     ss_sequence = Some n, ss_dead = Some False, ss_stunned = Some False, ss_wounds = None, ss_encumbrance = PNone,
     ss_hands = Some [(''left'', None), (''right'', None)], ss_scripts = Some [],
     ss_owners = Some [(''movement'', None), (''combat'', None), (''inventory'', None)], ss_nearby_creatures = None,
     ss_nearby_corpses = None, ss_script_status = Some status, ss_character_data = None\<rparr>"

definition complete_actions :: "broker \<Rightarrow> broker" where
  "complete_actions = map_actions (\<lambda>a. a\<lparr>act_status := Completed, act_completion := Some ''sent_unverified''\<rparr>)"

definition sample_id :: string where "sample_id = ''00000000000000a1''"

definition sample_env :: "(rat \<times> bool, nat) operation_env" where
  "sample_env = \<lparr>oe_others = \<lambda>s. s, oe_bridge = Pair, oe_clock = (\<lambda>(t, moved). ((t, moved), t)), oe_token = (\<lambda>w. (w, sample_id)),
     oe_snapshot = (\<lambda>_ (t, moved). ((t, moved), Inr (if moved then sample_state ''5'' 2 [(''go2'', ''completed:'' @ sample_id)]
       else sample_state ''1'' 1 []))),
     oe_safest_locations = (\<lambda>_ _ w. (w, Inr [])), oe_register = (\<lambda>_ _ _ w. (w, Inr 0)), oe_verify = (\<lambda>_ _ w. (w, Inr None)),
     oe_register_controller = (\<lambda>_ _ _ _ w. (w, Inr 0)), oe_verify_controller = (\<lambda>_ _ _ w. (w, Inr None)),
     oe_verify_recovery = None, oe_recovery_receipt = None,
     oe_step_hook = Some (\<lambda>_ _ b (t, _). (complete_actions b, (t + 1, True), Inr ())), oe_sleep = (\<lambda>d (t, moved). (t + max 0 d, moved)),
     oe_alert = (\<lambda>_ w. w), oe_manifest = [], oe_profiles = [], oe_capabilities = capability_definitions, oe_history_limit = 5,
     oe_poll_interval = 1\<rparr>"

definition sample_broker :: broker where
  "sample_broker = fst (control \<lparr>ct_character = ''Bob'', ct_enabled = True, ct_generation = ''g1''\<rparr>
     (fst (admit_generation (PStr ''Bob'') (PStr ''g1'') (broker_init []))))"

definition sample_runner :: "(rat \<times> bool) runner" where
  "sample_runner = \<lparr>rn_broker = sample_broker, rn_world = (0, False), rn_records = [], rn_operations = [], rn_interruptions = {},
     rn_recon_actions = [], rn_travel_actions = [], rn_test_actions = [], rn_controller_actions = [], rn_graceful_stops = {},
     rn_refuge_pending = [], rn_controller_controls = [], rn_cursor = 0\<rparr>"

definition sample_request :: operation_request where
  "sample_request = \<lparr>or_character = PStr ''Bob'', or_capability = PStr ''travel.go2'', or_arguments = [(''destination'', PStr ''5'')],
     or_timeout_seconds = PInt 60, or_expected_generation = PStr ''g1''\<rparr>"

definition sample_created :: "(rat \<times> bool) runner" where
  "sample_created = fst (create_operation sample_env sample_request sample_runner)"

definition sample_travelled :: "(rat \<times> bool) runner" where
  "sample_travelled = fst (execute_operation sample_env 3 0 sample_created)"

lemma sample_init: "runner_init [] 5 1 sample_env sample_broker (0, False) = Inr (sample_env, sample_runner)"
proof -
  have "profile_table [] [] = Inr []" "runner_capabilities [] [] = Inr capability_definitions" by code_simp+
  then show ?thesis by (simp add: runner_init_def sample_env_def sample_runner_def)
qed

lemma sample_creates: "snd (create_operation sample_env sample_request sample_runner) = Inr 0"
  by code_simp

lemma sample_record: "length (rn_records sample_created) = 1 \<and> op_status (rn_records sample_created ! 0) = OpRequested
    \<and> op_deadline (rn_records sample_created ! 0) = 60 \<and> op_capability (rn_records sample_created ! 0) = ''travel.go2''
    \<and> fst (rn_world sample_created) = 0"
  by code_simp

lemma sample_travels: "snd (execute_operation sample_env 3 0 sample_created) = Inr () \<and> op_status (rn_records sample_travelled ! 0) = OpSucceeded"
  by code_simp

lemma sample_result: "execute_operation sample_env 3 0 sample_created = (sample_travelled, Inr ())"
  using sample_travels by (metis sample_travelled_def prod.collapse)

lemma sample_creation: "create_operation sample_env sample_request sample_runner = (sample_created, Inr 0)"
  using sample_creates by (metis sample_created_def prod.collapse)

lemma sample_others: "oe_others sample_env = (\<lambda>s. s)"
  by (simp add: sample_env_def)

lemma sample_rely: "rely sample_env"
  by (simp add: rely_def sample_others)

lemma sample_undisturbed: "undisturbed sample_env i"
  by (simp add: undisturbed_def sample_others)

lemma sample_moves: "world_move sample_env w v \<Longrightarrow> fst w \<le> fst v"
  by (erule world_move.cases) (auto simp: sample_env_def split: prod.splits)

end
