(* ===== verification/OperationProperties.thy ===== *)
theory OperationProperties
  imports OperationOwnAction OperationSamples
begin

text \<open>
  The properties of the capability runner (\<open>operations.py\<close>): what a success means, that a worker ends its
  operation, and what any history of calls, workers and interleaved threads leaves of the records.
\<close>

lemmas run_result_cases = run_result [OF _ _ prod.collapse [symmetric]]
lemmas run_returns_fst = run_returns [OF _ _ prod.collapse [symmetric]]

text \<open>C9: A success is verified.  If the worker of an operation returns with the operation succeeded, then
  the handler of its capability found in fresh session states everything the capability promises.\<close>

theorem success_is_verified:
  assumes "undisturbed env i" "rely env" "i < length (rn_records s)" "execute_operation env fuel i s = (t, Inr ())"
    and "op_status (rn_records t ! i) = OpSucceeded"
  shows "\<exists>h. map_option ca_handler (capability_by_name (oe_capabilities env) (op_capability (rn_records s ! i))) = Some h
    \<and> verified env h (rn_records t ! i)"
  using assms by (intro success_verified) (simp_all add: present_def)

theorem success_is_verified_witness:
  "\<exists>h. map_option ca_handler (capability_by_name (oe_capabilities sample_env) (op_capability (rn_records sample_created ! 0))) = Some h
    \<and> verified sample_env h (rn_records sample_travelled ! 0)"
  using success_is_verified [OF sample_undisturbed sample_rely _ sample_result] sample_record sample_travels by auto

lemma advanced_iff: "advanced ss tt \<longleftrightarrow> ss_generation tt = ss_generation ss
    \<and> (\<exists>m n. ss_sequence ss = Some m \<and> ss_sequence tt = Some n \<and> m < n)"
  by (auto simp: advanced_def split: option.splits)

text \<open>C20: Travel ends at its destination, by the action of this very run.  If the go2 handler returns, then its
  own steps (\<open>go2_proposed\<close>, with which the handler begins: \<open>go2_splits\<close>) led to one submission, of go2 to the
  destination in the room and session of the first state, and the broker answered it; the record holds that first state and a last state of the same session, later and in the
  room the arguments name, both fit for travel, with the same things in the hands, and the last state shows go2
  completed under the id of that answer.  The other threads and the step hook are asked to leave the operation
  alone and every action of the broker under its own id, which every operation of the broker does.\<close>

theorem travel_success_is_arrival:
  assumes "undisturbed env i" "keeps_files env" "hex_tokens env" "i < length (rn_records s)" "filed s"
    and "execute_go2 env fuel i s = (t, Inr msg)"
  shows "\<exists>u v start end' hands p reply. go2_proposed env i s = (u, Inr (start, p)) \<and> submit_locked env p u = (v, Inr reply)
    \<and> pr_command p = Some (''go2 supervised '' @ ss_room_id end')
    \<and> pr_expected_room_id p = Some (ss_room_id start) \<and> pr_expected_generation p = Some (ss_generation start)
    \<and> op_start_state (rn_records t ! i) = Some start \<and> op_end_state (rn_records t ! i) = Some end'
    \<and> travel_arguments (rn_records t ! i) = Inr (ss_room_id end')
    \<and> ss_generation end' = ss_generation start
    \<and> (\<exists>m n. ss_sequence start = Some m \<and> ss_sequence end' = Some n \<and> m < n)
    \<and> validate_travel_state start = Inr () \<and> validate_travel_state end' = Inr ()
    \<and> hand_ids start = Inr hands \<and> hand_ids end' = Inr hands
    \<and> script_completed end' ''go2'' (py_str (dget ''action_id'' reply))"
  using filing_runner.travel_own [OF filing_runner.intro [OF assms(2)] assms(1) _ assms(5,3,6)] assms(4)
  unfolding both_states_def advanced_iff present_def by blast

lemma sample_files: "keeps_files sample_env"
proof -
  have "keys_ok (br_actions (complete_actions b))" if "keys_ok (br_actions b)" for b
    unfolding complete_actions_def using that by (auto simp: map_actions_def keys_ok_def dkeys_def map_of_map comp_def case_prod_beta)
  then show ?thesis by (auto simp: keeps_files_def sample_others sample_env_def split: prod.splits)
qed

lemma sample_tokens: "hex_tokens sample_env"
proof -
  have "rx_full False rx_action_id sample_id" by code_simp
  then show ?thesis by (simp add: hex_tokens_def sample_env_def)
qed

interpretation sample_runner_files: filing_runner sample_env
  by unfold_locales (rule sample_files)

theorem travel_success_is_arrival_witness:
  "\<exists>u v start p reply. go2_proposed sample_env 0 sample_created = (u, Inr (start, p)) \<and> submit_locked sample_env p u = (v, Inr reply)
    \<and> pr_command p = Some ''go2 supervised 5''
    \<and> ss_room_id (the (op_end_state (rn_records (fst (execute_go2 sample_env 3 0 sample_created)) ! 0))) = ''5''"
proof -
  have "br_actions (rn_broker sample_created) = []" by code_simp
  then have f: "filed sample_created" by (simp add: filed_def keys_ok_def dkeys_def)
  have "snd (execute_go2 sample_env 3 0 sample_created) = Inr ''go2 arrival, original equipment and exact owner release verified''
    \<and> length (rn_records sample_created) = 1
    \<and> travel_arguments (rn_records (fst (execute_go2 sample_env 3 0 sample_created)) ! 0) = Inr ''5''" by code_simp
  moreover from this have "execute_go2 sample_env 3 0 sample_created = (fst (execute_go2 sample_env 3 0 sample_created),
      Inr ''go2 arrival, original equipment and exact owner release verified'')" by (metis prod.collapse)
  ultimately show ?thesis
    using travel_success_is_arrival [OF sample_undisturbed sample_files sample_tokens, of 0 sample_created 3] f by fastforce
qed


text \<open>C11: A worker leaves a terminal operation.  When the clock follows the sleeps, the other threads keep
  their contract and the operation's deadline is less than \<open>fuel\<close> polls away, the worker returns, and whatever
  happened its operation is terminal.\<close>

theorem worker_leaves_terminal_operation:
  assumes "rely env" "timely env i now" "in_reach env i now fuel s"
  shows "snd (run_operation env fuel i s) = Inr () \<and> terminal (op_status (rn_records (fst (run_operation env fuel i s)) ! i))"
  using run_result_cases [of env i s fuel] run_returns_fst [of env i now fuel s] assms by (auto simp: in_reach_def)

lemma sample_timely: "timely sample_env i fst"
  by (simp add: timely_def sample_moves) (simp add: sample_env_def split: prod.splits)

theorem worker_leaves_terminal_operation_witness:
  "terminal (op_status (rn_records (fst (run_operation sample_env 61 0 sample_created)) ! 0))"
  by (rule worker_leaves_terminal_operation [OF sample_rely sample_timely, THEN conjunct2])
    (use sample_record in \<open>simp add: in_reach_def present_def, simp add: sample_env_def\<close>)

lemma run_steps: "(runner_step env)\<^sup>*\<^sup>* s (fst (run_operation env fuel i s))"
  by (rule r_into_rtranclp, rule rs_run)

text \<open>C12: The event log of every operation is lawful.  After any history of calls, workers and interleaved
  threads, it starts with the request, moves only along the status table, ends in the status of the record, and
  its cursors increase and are at most the runner's.\<close>

theorem operation_log_is_lawful:
  assumes "runner_init ps n d env0 b w = Inr (env, s0)" "(runner_step env)\<^sup>*\<^sup>* s0 s" "rely env" "i < length (rn_records s)"
  shows "oev_status (hd (op_events (rn_records s ! i))) = OpRequested
    \<and> oev_status (last (op_events (rn_records s ! i))) = op_status (rn_records s ! i)
    \<and> successively (\<lambda>a b. oev_cursor a < oev_cursor b \<and> (oev_status b = oev_status a \<or> allowed_transition (oev_status a) (oev_status b)))
        (op_events (rn_records s ! i))
    \<and> (\<forall>e \<in> set (op_events (rn_records s ! i)). oev_cursor e \<le> rn_cursor s)"
  using history_runner_ok [OF assms(1-3)] assms(4) by (auto simp: runner_ok_def log_ok_def log_step_def [abs_def])

lemma sample_step: "(runner_step sample_env)\<^sup>*\<^sup>* sample_runner sample_created"
  unfolding sample_created_def by (rule r_into_rtranclp, rule rs_create)

theorem operation_log_is_lawful_witness:
  "oev_status (hd (op_events (rn_records sample_created ! 0))) = OpRequested"
  using operation_log_is_lawful [OF sample_init sample_step sample_rely, of 0] sample_record by simp

text \<open>C10: One operation per character.  After any history two different operations of the runner's history
  that are not terminal belong to different characters, and the history is within its limit.\<close>

theorem one_operation_per_character:
  assumes "runner_init ps n d env0 b w = Inr (env, s0)" "(runner_step env)\<^sup>*\<^sup>* s0 s" "rely env"
  shows "length (rn_operations s) \<le> oe_history_limit env
    \<and> (\<forall>k i l j. (k, i) \<in> set (rn_operations s) \<longrightarrow> (l, j) \<in> set (rn_operations s) \<longrightarrow> i \<noteq> j
       \<longrightarrow> \<not> terminal (op_status (rn_records s ! i)) \<longrightarrow> \<not> terminal (op_status (rn_records s ! j))
       \<longrightarrow> casefold (op_character (rn_records s ! i)) \<noteq> casefold (op_character (rn_records s ! j)))"
  using history_runner_ok [OF assms] by (auto simp: runner_ok_def one_owner_def active_def)

theorem one_operation_per_character_witness:
  "length (rn_operations sample_created) \<le> 5"
  using one_operation_per_character [OF sample_init sample_step sample_rely] by (simp add: sample_env_def)

text \<open>C13: A terminal operation is final.  Whatever is called, run or interleaved afterwards, its status stays
  and its identity, and its log only grows at the end.\<close>

theorem terminal_operation_is_final:
  assumes "rely env" "(runner_step env)\<^sup>*\<^sup>* s t" "i < length (rn_records s)" "terminal (op_status (rn_records s ! i))"
  shows "op_status (rn_records t ! i) = op_status (rn_records s ! i)
    \<and> op_operation_id (rn_records t ! i) = op_operation_id (rn_records s ! i)
    \<and> op_character (rn_records t ! i) = op_character (rn_records s ! i)
    \<and> op_capability (rn_records t ! i) = op_capability (rn_records s ! i)
    \<and> prefix (op_events (rn_records s ! i)) (op_events (rn_records t ! i))"
  using steps_evolve [OF assms(2,1)] assms(3,4) by (auto simp: evolves_def evolved_def same_identity_def)

theorem terminal_operation_is_final_witness:
  "op_status (rn_records (fst (run_operation sample_env 3 0 sample_travelled)) ! 0) = OpSucceeded"
proof -
  have "0 < length (rn_records sample_travelled)"
    by (rule evolving_record(1) [OF evolving_handler.execute_keeps sample_rely sample_result]) (simp add: sample_record)
  then show ?thesis
    using terminal_operation_is_final [OF sample_rely run_steps, of 0 sample_travelled 3 0] sample_travels
    by (simp add: terminal_def)
qed

lemma filter_after_sorted:
  fixes f :: "'e \<Rightarrow> nat"
  assumes "sorted_wrt (\<lambda>a b. f a < f b) (ys @ zs)" "filter (\<lambda>e. c < f e) ys \<noteq> []"
  shows "filter (\<lambda>e. c < f e) (ys @ zs) = filter (\<lambda>e. c < f e) ys @ filter (\<lambda>e. f (last (filter (\<lambda>e. c < f e) ys)) < f e) (ys @ zs)"
proof (cases ys rule: rev_cases)
  case (snoc xs y)
  with assms(1) have z: "\<forall>e \<in> set zs. f y < f e" and x: "\<forall>e \<in> set xs. f e < f y" by (auto simp: sorted_wrt_append)
  from assms(2) snoc obtain e where "e \<in> set (xs @ [y])" "c < f e" unfolding filter_empty_conv by blast
  with x have y: "c < f y" by fastforce
  from y z have "filter (\<lambda>e. c < f e) zs = zs" "filter (\<lambda>e. f y < f e) zs = zs" by (auto intro!: filter_True)
  moreover from x have "filter (\<lambda>e. f y < f e) xs = []" by (auto simp: filter_empty_conv)
  ultimately show ?thesis using y snoc by simp
qed (use assms(2) in simp)

lemma log_ok_sorted: "log_ok n r \<Longrightarrow> sorted_wrt (\<lambda>a b. oev_cursor a < oev_cursor b) (op_events r)"
proof -
  assume "log_ok n r"
  then have "successively log_step (op_events r)" by (simp add: log_ok_def)
  then have "successively (\<lambda>a b. oev_cursor a < oev_cursor b) (op_events r)"
    by (rule successively_mono) (simp add: log_step_def)
  then show ?thesis by (subst (asm) successively_conv_sorted_wrt) (auto intro!: transpI)
qed

text \<open>Pages of events lose nothing.  A reader that has taken the events after its cursor and later asks for
  those after the last one it holds gets exactly what the log has gained.\<close>

theorem event_pages_are_complete:
  assumes "runner_init ps n d env0 b w = Inr (env, s0)" "(runner_step env)\<^sup>*\<^sup>* s0 s" "(runner_step env)\<^sup>*\<^sup>* s t" "rely env"
    and "i < length (rn_records s)" "events_after c (rn_records s ! i) \<noteq> []"
  shows "events_after c (rn_records t ! i) = events_after c (rn_records s ! i)
    @ events_after (oev_cursor (last (events_after c (rn_records s ! i)))) (rn_records t ! i)"
proof -
  have e: "evolves (oe_history_limit env) s t" using steps_evolve [OF assms(3,4)] .
  then have p: "i < length (rn_records t)" "prefix (op_events (rn_records s ! i)) (op_events (rn_records t ! i))"
    using assms(5) by (auto simp: evolves_def evolved_def)
  then have "log_ok (rn_cursor t) (rn_records t ! i)"
    using e history_runner_ok [OF assms(1,2,4)] by (simp add: evolves_def runner_ok_def)
  from p(2) log_ok_sorted [OF this] obtain zs where "op_events (rn_records t ! i) = op_events (rn_records s ! i) @ zs"
    "sorted_wrt (\<lambda>a b. oev_cursor a < oev_cursor b) (op_events (rn_records s ! i) @ zs)" by (auto elim!: prefixE)
  with filter_after_sorted [of oev_cursor "op_events (rn_records s ! i)" zs c] assms(6) show ?thesis
    unfolding events_after_def by simp
qed

theorem event_pages_are_complete_witness:
  "events_after 0 (rn_records (fst (run_operation sample_env 3 0 sample_created)) ! 0) = events_after 0 (rn_records sample_created ! 0)
    @ events_after 1 (rn_records (fst (run_operation sample_env 3 0 sample_created)) ! 0)"
proof -
  have "map oev_cursor (events_after 0 (rn_records sample_created ! 0)) = [1]" by code_simp
  then have "events_after 0 (rn_records sample_created ! 0) \<noteq> []" "oev_cursor (last (events_after 0 (rn_records sample_created ! 0))) = 1"
    by auto
  then show ?thesis
    using event_pages_are_complete [OF sample_init sample_step run_steps sample_rely, of 0 0 3 0] sample_record by simp
qed

lemma admitted:
  assumes "admit_operation env r s = (t, Inr i)"
  shows "map_of (rn_operations t) (op_operation_id r) = Some i \<and> (\<exists>e. rn_records t ! i = r\<lparr>op_events := op_events r @ [e]\<rparr>)"
proof -
  have new: "rn_operations u = rn_operations s2 \<and> (\<exists>e. rn_records u ! j = (rn_records s2 ! j)\<lparr>op_events := op_events (rn_records s2 ! j) @ [e]\<rparr>)"
    if "emit_locked env j OpRequested d s2 = (u, x)" "j < length (rn_records s2)" for s2 u x j d
  proof -
    obtain w v where "emit_locked env j OpRequested d s2 = (logged s2 j (rn_records s2 ! j) w (new_event s2 j OpRequested d v), Inr ())"
      by (rule emit_result)
    with that show ?thesis by (auto simp: logged_def)
  qed
  from assms obtain s1 where "abind (emit_locked env (length (rn_records s1)) OpRequested ''operation requested'') (\<lambda>_. areturn (Inr (length (rn_records s1))))
      (s1\<lparr>rn_records := rn_records s1 @ [r], rn_operations := dput (op_operation_id r) (length (rn_records s1)) (rn_operations s1)\<rparr>) = (t, Inr i)"
    unfolding admit_operation_def Let_def by (auto split: if_split_asm option.split_asm)
  then obtain x where "i = length (rn_records s1)" "emit_locked env i OpRequested ''operation requested''
      (s1\<lparr>rn_records := rn_records s1 @ [r], rn_operations := dput (op_operation_id r) i (rn_operations s1)\<rparr>) = (t, x)"
    by (auto simp: eff_Inr)
  with new [OF this(2)] show ?thesis by auto
qed

text \<open>What is created is what was requested.  A returned operation has the trimmed character and
  capability, the arguments, a deadline the requested seconds after its request, and its
  identifier names it in the history.\<close>

theorem created_operation_is_requested:
  assumes "create_operation env q s = (t, Inr i)"
  shows "\<exists>duration. timeout_of (or_timeout_seconds q) = Inr duration
    \<and> op_character (rn_records t ! i) = strip (text_of (or_character q)) \<and> op_character (rn_records t ! i) \<noteq> []
    \<and> op_capability (rn_records t ! i) = strip (text_of (or_capability q)) \<and> op_capability (rn_records t ! i) \<noteq> []
    \<and> op_arguments (rn_records t ! i) = or_arguments q \<and> op_status (rn_records t ! i) = OpRequested
    \<and> op_deadline (rn_records t ! i) = op_requested_at (rn_records t ! i) + duration
    \<and> map_of (rn_operations t) (op_operation_id (rn_records t ! i)) = Some i"
proof -
  let ?r = "\<lambda>token now duration. \<lparr>op_operation_id = token, op_capability = strip (text_of (or_capability q)),
       op_character = strip (text_of (or_character q)), op_arguments = or_arguments q, op_status = OpRequested,
       op_requested_at = now, op_deadline = now + duration, op_admitted_at = None, op_started_at = None, op_ended_at = None,
       op_start_state = None, op_end_state = None, op_binding = None, op_evidence = [], op_alerts = [], op_events = [],
       op_explanation = [],
       op_expected_generation = (if or_expected_generation q = PNone then None else Some (text_of (or_expected_generation q)))\<rparr>"
  from assms obtain duration token now s1 where a: "timeout_of (or_timeout_seconds q) = Inr duration"
      "admit_operation env (?r token now duration) s1 = (t, Inr i)" "\<not> blank_text (or_character q)" "\<not> blank_text (or_capability q)"
    by (auto simp: create_operation_def eff_Inr raised_def split: sum.splits)
  have "map_of (rn_operations t) token = Some i \<and> (\<exists>e. rn_records t ! i = (?r token now duration)\<lparr>op_events := [e]\<rparr>)"
    using admitted [OF a(2)] by simp
  then show ?thesis using a(1,3,4) by (auto simp: blank_text_def text_of_def split: pyval.splits)
qed

theorem created_operation_is_requested_witness:
  "op_deadline (rn_records sample_created ! 0) = op_requested_at (rn_records sample_created ! 0) + 60"
proof -
  have "timeout_of (or_timeout_seconds sample_request) = Inr 60" by code_simp
  then show ?thesis using created_operation_is_requested [OF sample_creation] by simp
qed

end
