(* ===== verification/Decisions.thy ===== *)
theory Decisions
  imports DecisionContext Protocol
begin

text \<open>
  The typed decisions of \<open>decisions.py\<close>: their validators, the fence that identifies what was observed, the
  player frame and the incident record with their requests, and the invocation.  A SHA-256 digest is a
  function \<open>digest\<close> of the encoded text.
\<close>

section \<open>Vocabularies\<close>

datatype decision_role = Supervisor | Player

datatype posture = Shadow | Live

datatype outcome_status = Recommended | Rejected | ProviderError | Unsupported

datatype incident_kind =
    DangerousWound | HealthTransition | TeamSplit | ControllerExit | ControllerStalled | RecoveryFailed | EquipmentFailure
  | BuffFailure | ItemUpkeepFailure | UnknownBlocker | NoProgress

datatype severity_level = InfoLevel | WarningLevel | DangerLevel | CriticalLevel

datatype incident_state = Detected | SafeHold | Classified | Resolved

datatype provider_kind = SystemOne

definition role_str :: "decision_role \<Rightarrow> string" where
  "role_str r = (case r of Supervisor \<Rightarrow> ''supervisor'' | Player \<Rightarrow> ''player'')"

definition incident_kinds :: "(string, incident_kind) dict" where
  "incident_kinds = [(''dangerous_wound'', DangerousWound), (''health_transition'', HealthTransition), (''team_split'', TeamSplit),
     (''controller_exit'', ControllerExit), (''controller_stalled'', ControllerStalled), (''recovery_failed'', RecoveryFailed),
     (''equipment_failure'', EquipmentFailure), (''buff_failure'', BuffFailure), (''item_upkeep_failure'', ItemUpkeepFailure),
     (''unknown_blocker'', UnknownBlocker), (''no_progress'', NoProgress)]"

definition severity_levels :: "(string, severity_level) dict" where
  "severity_levels = [(''info'', InfoLevel), (''warning'', WarningLevel), (''danger'', DangerLevel), (''critical'', CriticalLevel)]"

definition incident_states :: "(string, incident_state) dict" where
  "incident_states = [(''detected'', Detected), (''safe_hold'', SafeHold), (''classified'', Classified), (''resolved'', Resolved)]"

definition value_of :: "(string, 'a) dict \<Rightarrow> 'a \<Rightarrow> string" where
  \<comment> \<open>the value of an enumeration member\<close>
  "value_of members m = (case List.find (\<lambda>(_, x). x = m) members of None \<Rightarrow> [] | Some (s, _) \<Rightarrow> s)"

definition player_criteria :: "(string, string) dict" where
  "player_criteria = [(''attack_target'', ''Use the profile attack on the selected visible target.''),
     (''buff_ally'', ''Use the profile ally buff on the party member who most needs it.''),
     (''wait'', ''Take no new action during this observation.''),
     (''retreat'', ''Stop acquiring targets and return toward the refuge.'')]"

definition supervisor_criteria :: "(string, string) dict" where
  "supervisor_criteria = [(''continue'', ''Allow the deterministic controller to continue its plan.''),
     (''hold'', ''Remain in the locally established safe hold.''),
     (''recover_self'', ''Use the deterministic self-recovery path.''),
     (''recover_team'', ''Use the deterministic team-recovery path.''),
     (''return_field'', ''Return to the configured field refuge.''),
     (''return_town'', ''Return using the configured town recovery path.''),
     (''abort'', ''Abort the current bounded phase.''),
     (''escalate'', ''Escalate the incident to the strategist.''),
     (''request_human'', ''Request human judgment without taking another action.'')]"

definition player_actions :: "string list" where
  "player_actions = [''attack_target'', ''buff_ally'', ''wait'', ''retreat'']"

definition supervisor_responses :: "string list" where
  "supervisor_responses = [''continue'', ''hold'', ''recover_self'', ''recover_team'', ''return_field'', ''return_town'', ''abort'',
     ''escalate'', ''request_human'']"

section \<open>Validators\<close>

definition dec_text :: "pyval \<Rightarrow> string \<Rightarrow> nat \<Rightarrow> string result" where
  "dec_text v label maximum = (case v of
      PStr s \<Rightarrow> (let t = strip (remove_nul s) in
        if t = [] \<or> maximum < length t then rejected (label @ '' must be 1 to '' @ nat_str maximum @ '' characters'') else Inr t)
    | _ \<Rightarrow> rejected (label @ '' must be a string''))"

definition dec_integer :: "pyval \<Rightarrow> string \<Rightarrow> int \<Rightarrow> int result" where
  "dec_integer v label minimum = (case v of
      PInt n \<Rightarrow> if n < minimum then rejected (label @ '' must be an integer >= '' @ int_str minimum) else Inr n
    | _ \<Rightarrow> rejected (label @ '' must be an integer >= '' @ int_str minimum))"

definition dec_mapping :: "pyval \<Rightarrow> string \<Rightarrow> (string \<times> pyval) list result" where
  "dec_mapping v label = (case v of PDict d \<Rightarrow> Inr d | _ \<Rightarrow> rejected (label @ '' must be an object''))"

definition dec_sequence :: "pyval \<Rightarrow> string \<Rightarrow> pyval list result" where
  "dec_sequence v label = (case v of PList xs \<Rightarrow> Inr xs | _ \<Rightarrow> rejected (label @ '' must be an array''))"

definition dec_fields :: "(string \<times> pyval) list \<Rightarrow> string \<Rightarrow> string list \<Rightarrow> string list \<Rightarrow> unit result" where
  "dec_fields d label required optional =
     (case (sort (unknown_keys (required @ optional) d), sort (missing_keys required d)) of
        (u # _, _) \<Rightarrow> rejected (''unknown '' @ label @ '' field '' @ u)
      | ([], m # _) \<Rightarrow> rejected (''missing '' @ label @ '' field '' @ m)
      | _ \<Rightarrow> Inr ())"

definition dec_enum :: "(string, 'a) dict \<Rightarrow> pyval \<Rightarrow> string \<Rightarrow> 'a result" where
  "dec_enum members v label = (case (case v of PStr s \<Rightarrow> map_of members s | _ \<Rightarrow> None) of
      None \<Rightarrow> rejected (''unknown '' @ label @ '' '' @ py_repr v) | Some m \<Rightarrow> Inr m)"

definition parse_timestamp :: "string \<Rightarrow> rat result" where
  \<comment> \<open>the instant that the text names\<close>
  "parse_timestamp s = (case iso_parse (replace_z s) of
      None \<Rightarrow> rejected ''timestamp must be ISO-8601''
    | Some zone \<Rightarrow> (case (if zone then iso_timestamp (replace_z s) else None) of
        None \<Rightarrow> rejected ''timestamp must include a timezone'' | Some t \<Rightarrow> Inr t))"

definition dec_timestamp :: "pyval \<Rightarrow> string result" where
  "dec_timestamp v = rbind (dec_text v ''timestamp'' 64) (\<lambda>s. rbind (parse_timestamp s) (\<lambda>_. Inr s))"

function dec_bounded :: "pyval \<Rightarrow> string \<Rightarrow> nat \<Rightarrow> pyval result"
  and dec_bounded_list :: "pyval list \<Rightarrow> string \<Rightarrow> nat \<Rightarrow> nat \<Rightarrow> pyval list result"
  and dec_bounded_items :: "(string \<times> pyval) list \<Rightarrow> string \<Rightarrow> nat \<Rightarrow> (string \<times> pyval) list result" where
  "dec_bounded v label depth =
     (if 5 < depth then rejected (label @ '' is nested too deeply'') else
      case v of
        PInt i \<Rightarrow> if 2 ^ 63 - 1 < \<bar>i\<bar> then rejected (label @ '' integer is out of range'') else Inr v
      | PFloat f \<Rightarrow> (case f of Fin r \<Rightarrow> Inr v | _ \<Rightarrow> rejected (label @ '' number must be finite''))
      | PStr s \<Rightarrow> if 4000 < length s then rejected (label @ '' string is too long'') else Inr (PStr (remove_nul s))
      | PList xs \<Rightarrow> if 256 < length xs then rejected (label @ '' has too many items'')
          else rbind (dec_bounded_list xs label 0 (Suc depth)) (\<lambda>ys. Inr (PList ys))
      | PDict d \<Rightarrow> if 64 < length d then rejected (label @ '' has too many fields'')
          else rbind (dec_bounded_items d label (Suc depth)) (\<lambda>e. Inr (PDict e))
      | _ \<Rightarrow> Inr v)"
| "dec_bounded_list [] label i depth = Inr []"
| "dec_bounded_list (x # xs) label i depth =
     rbind (dec_bounded x (label @ ''['' @ nat_str i @ '']'') depth) (\<lambda>y.
     rbind (dec_bounded_list xs label (Suc i) depth) (\<lambda>ys. Inr (y # ys)))"
| "dec_bounded_items [] label depth = Inr []"
| "dec_bounded_items ((k, v) # d) label depth =
     (if k = [] \<or> 64 < length k then rejected (label @ '' keys must be bounded nonblank strings'')
      else rbind (dec_bounded v (label @ ''.'' @ k) depth) (\<lambda>w.
           rbind (dec_bounded_items d label depth) (\<lambda>e. Inr ((k, w) # e))))"
  by pat_completeness auto
termination
  by (relation "measure (\<lambda>x. case x of Inl (v, _) \<Rightarrow> size v
       | Inr (Inl (xs, _)) \<Rightarrow> size_list size xs
       | Inr (Inr (d, _)) \<Rightarrow> size_list (size_prod (\<lambda>_. 0) size) d)") auto

declare dec_bounded.simps [simp del]

definition bounded_mapping :: "pyval \<Rightarrow> string \<Rightarrow> (string \<times> pyval) list result" where
  "bounded_mapping v label = rbind (dec_mapping v label) (\<lambda>d. rbind (dec_bounded (PDict d) label 0) (\<lambda>w. Inr (items_of w)))"

definition dec_objects :: "pyval \<Rightarrow> string \<Rightarrow> nat \<Rightarrow> (string \<times> pyval) list list result" where
  "dec_objects v label maximum =
     rbind (dec_sequence v label) (\<lambda>xs.
     if maximum < length xs then rejected (label @ '' must contain at most '' @ nat_str maximum @ '' entries'')
     else rmapi (\<lambda>i x. bounded_mapping x (label @ ''['' @ nat_str i @ '']'')) 0 xs)"

definition target_id :: "(string \<times> pyval) list \<Rightarrow> string result" where
  "target_id target = (let v = dget ''id'' target in
     if is_bool v \<or> \<not> (is_str v \<or> is_int v) \<or> strip (py_str v) = []
     then rejected ''each target requires a nonblank string or integer id'' else Inr (strip (py_str v)))"

definition dec_texts :: "pyval \<Rightarrow> string \<Rightarrow> string \<Rightarrow> nat \<Rightarrow> string list result" where
  \<comment> \<open>\<open>tuple(_text(item, label, maximum) for item in _sequence(value, name))\<close>\<close>
  "dec_texts v name label maximum = rbind (dec_sequence v name) (rmap (\<lambda>x. dec_text x label maximum))"

section \<open>The fence\<close>

record fence =
  fc_generation :: string
  fc_sequence :: int
  fc_room_id :: pyval
  fc_target_ids :: "string list"
  fc_plan_id :: string
  fc_plan_revision :: int
  fc_incident_version :: "int option"

definition fence_to_mapping :: "fence \<Rightarrow> (string \<times> pyval) list" where
  "fence_to_mapping f = [(''generation'', PStr (fc_generation f)), (''sequence'', PInt (fc_sequence f)), (''room_id'', fc_room_id f),
     (''target_ids'', PList (map PStr (fc_target_ids f))), (''plan_id'', PStr (fc_plan_id f)),
     (''plan_revision'', PInt (fc_plan_revision f)),
     (''incident_version'', case fc_incident_version f of None \<Rightarrow> PNone | Some n \<Rightarrow> PInt n)]"

definition fence_from_mapping :: "pyval \<Rightarrow> fence result" where
  "fence_from_mapping v =
     rbind (dec_mapping v ''source_fence'') (\<lambda>d.
     rbind (dec_fields d ''source_fence'' [''generation'', ''sequence'', ''room_id'', ''target_ids'', ''plan_id'', ''plan_revision'']
       [''incident_version'']) (\<lambda>_.
     rbind (dec_texts (dget ''target_ids'' d) ''target_ids'' ''target id'' 64) (\<lambda>targets.
     if 32 < length targets \<or> \<not> distinct targets then rejected ''source_fence.target_ids must contain at most 32 unique ids'' else
     rbind (dec_text (dget ''generation'' d) ''generation'' 128) (\<lambda>generation.
     rbind (dec_integer (dget ''sequence'' d) ''sequence'' 0) (\<lambda>sequence.
     rbind (let room = dget ''room_id'' d in if room = PNone then Inr PNone
       else rbind (dec_text (PStr (py_str room)) ''room_id'' 64) (\<lambda>s. Inr (PStr s))) (\<lambda>room_id.
     rbind (dec_text (dget ''plan_id'' d) ''plan_id'' 128) (\<lambda>plan_id.
     rbind (dec_integer (dget ''plan_revision'' d) ''plan_revision'' 1) (\<lambda>plan_revision.
     rbind (let version = dget ''incident_version'' d in if version = PNone then Inr None
       else rbind (dec_integer version ''incident_version'' 1) (\<lambda>n. Inr (Some n))) (\<lambda>version.
     Inr \<lparr>fc_generation = generation, fc_sequence = sequence, fc_room_id = room_id, fc_target_ids = sort targets,
       fc_plan_id = plan_id, fc_plan_revision = plan_revision, fc_incident_version = version\<rparr>)))))))))"

section \<open>The player frame\<close>

record player_frame =
  fr_snapshot :: character_snapshot
  fr_plan_id :: string
  fr_plan_revision :: int
  fr_plan_step :: string
  fr_authorized :: "string list"
  fr_targets :: "(string \<times> pyval) list list"
  fr_party :: "(string \<times> pyval) list list"
  fr_recent :: "(string \<times> pyval) list list"
  fr_cooldowns :: "(string \<times> pyval) list"
  fr_last_op :: "(string \<times> pyval) list option"
  fr_context :: "(string \<times> pyval) list"

definition authorized_actions :: "(string \<times> pyval) list \<Rightarrow> string list result" where
  "authorized_actions plan =
     rbind (dec_texts (dget ''authorized'' plan) ''authorized'' ''authorized action'' 64) (\<lambda>authorized.
     if length authorized < 2 \<or> \<not> distinct authorized then rejected ''plan.authorized must contain at least two unique actions''
     else case sort (filter (\<lambda>a. a \<notin> set player_actions) authorized) of
       u # _ \<Rightarrow> rejected (''unknown player action '' @ str_repr u) | [] \<Rightarrow> Inr authorized)"

definition frame_targets :: "(string \<times> pyval) list \<Rightarrow> character_snapshot \<Rightarrow> (string \<times> pyval) list list result" where
  \<comment> \<open>the given targets, or the creatures of the snapshot\<close>
  "frame_targets d snapshot =
     rbind (dec_objects (if dget ''targets'' d = PNone then dget_or ''creatures'' (PList []) (items_of (sn_nearby snapshot)) else dget ''targets'' d)
       ''targets'' 32) (\<lambda>targets.
     rbind (rmap target_id targets) (\<lambda>ids.
     if distinct ids then Inr targets else rejected ''targets must contain unique ids''))"

definition frame_from_mapping :: "nat \<Rightarrow> pyval \<Rightarrow> player_frame result" where
  "frame_from_mapping rl v =
     rbind (dec_mapping v ''player frame'') (\<lambda>d.
     rbind (dec_fields d ''player frame'' [''snapshot'', ''plan'']
       [''targets'', ''party'', ''recent'', ''cooldowns'', ''last_op'', ''decision_context'']) (\<lambda>_.
     rbind (dec_mapping (dget ''snapshot'' d) ''snapshot'') (\<lambda>s.
     rbind (snapshot_from_mapping (PDict s)) (\<lambda>snapshot.
     rbind (dec_mapping (dget ''plan'' d) ''plan'') (\<lambda>plan.
     rbind (dec_fields plan ''plan'' [''id'', ''revision'', ''step'', ''authorized''] []) (\<lambda>_.
     rbind (authorized_actions plan) (\<lambda>authorized.
     rbind (frame_targets d snapshot) (\<lambda>targets.
     rbind (dec_text (dget ''id'' plan) ''plan.id'' 128) (\<lambda>plan_id.
     rbind (dec_integer (dget ''revision'' plan) ''plan.revision'' 1) (\<lambda>revision.
     rbind (dec_text (dget ''step'' plan) ''plan.step'' 64) (\<lambda>step.
     rbind (dec_objects (dget_or ''party'' (PList []) d) ''party'' 16) (\<lambda>party.
     rbind (dec_objects (dget_or ''recent'' (PList []) d) ''recent'' 64) (\<lambda>recent.
     rbind (bounded_mapping (dget_or ''cooldowns'' (PDict []) d) ''cooldowns'') (\<lambda>cooldowns.
     rbind (if dget ''last_op'' d = PNone then Inr None
       else rbind (bounded_mapping (dget ''last_op'' d) ''last_op'') (\<lambda>x. Inr (Some x))) (\<lambda>last_op.
     rbind (validate_context rl (dget_or ''decision_context'' (PDict []) d)) (\<lambda>context.
     Inr \<lparr>fr_snapshot = snapshot, fr_plan_id = plan_id, fr_plan_revision = revision, fr_plan_step = step, fr_authorized = authorized,
       fr_targets = targets, fr_party = party, fr_recent = recent, fr_cooldowns = cooldowns, fr_last_op = last_op,
       fr_context = context\<rparr>))))))))))))))))"

definition frame_observation_id :: "player_frame \<Rightarrow> string" where
  "frame_observation_id f = ''player:'' @ fr_plan_id f @ '':'' @ int_str (fr_plan_revision f) @ '':'' @ sn_generation (fr_snapshot f)
     @ '':'' @ int_str (sn_sequence (fr_snapshot f))"

definition frame_fence :: "player_frame \<Rightarrow> fence result" where
  "frame_fence f = rbind (rmap target_id (fr_targets f)) (\<lambda>ids.
     Inr \<lparr>fc_generation = sn_generation (fr_snapshot f), fc_sequence = sn_sequence (fr_snapshot f),
       fc_room_id = dget ''id'' (items_of (sn_room (fr_snapshot f))), fc_target_ids = sort ids, fc_plan_id = fr_plan_id f,
       fc_plan_revision = fr_plan_revision f, fc_incident_version = None\<rparr>)"

definition choice_criteria :: "(string, string) dict \<Rightarrow> string list \<Rightarrow> (string \<times> pyval) list result" where
  \<comment> \<open>\<open>{name: CRITERIA[name] for name in names}\<close>\<close>
  "choice_criteria criteria names = rbind (rmap (\<lambda>n. case map_of criteria n of
      None \<Rightarrow> Inl (KeyError n) | Some t \<Rightarrow> Inr (n, PStr t)) names) (\<lambda>ps. Inr (fold (\<lambda>(k, v). dput k v) ps []))"

definition noul_question :: "string \<Rightarrow> (string \<times> pyval) list \<Rightarrow> pyval" where
  "noul_question instructions extra = PDict ([(''type'', PStr ''noul''), (''instructions'', PStr instructions)] @ extra)"

definition target_summary :: "(string \<times> pyval) list \<Rightarrow> (string \<times> pyval) list" where
  "target_summary target = List.map_filter (\<lambda>k. if dget k target = PNone then None else Some (k, dget k target))
     [''noun'', ''name'', ''health'', ''status'', ''held'']"

definition target_question :: "player_frame \<Rightarrow> (string \<times> pyval) list result" where
  "target_question f =
     (if length (fr_targets f) \<le> 1 then Inr []
      else rbind (rmap (\<lambda>t. rbind (target_id t) (\<lambda>k. Inr (k, PDict (target_summary t)))) (fr_targets f)) (\<lambda>ps.
        Inr [(''target_priority'', PDict [(''type'', PStr ''choice''), (''instructions'', PStr ''Which visible target should be prioritized?''),
          (''criteria'', PDict (fold (\<lambda>(k, v). dput k v) ps []))])]))"

definition player_questions :: "player_frame \<Rightarrow> (string \<times> pyval) list result" where
  "player_questions f =
     rbind (choice_criteria player_criteria (fr_authorized f)) (\<lambda>criteria.
     rbind (target_question f) (\<lambda>targets.
     Inr ([(''next'', PDict [(''type'', PStr ''choice''),
            (''instructions'', PStr ''Which authorized symbolic action best advances the current plan step? Exact facts in state.exact are authoritative.''),
            (''criteria'', PDict criteria)]),
          (''in_danger'', noul_question ''Should the character stop acquiring targets and begin returning now?''
            [(''criteria'', PDict [(''true'', PStr ''Return now''), (''false'', PStr ''Continue the current step'')])]),
          (''ally_needs_help'', noul_question ''Is a party member in more immediate danger than this character?'' []),
          (''stuck'', noul_question ''Do recent events show no progress toward the current plan step?'' []),
          (''need_strategist'', noul_question ''Is this situation not adequately covered by the authorized symbolic actions?'' []),
          (''urgency'', PDict [(''type'', PStr ''score''), (''instructions'', PStr ''How urgent is the situation?''),
            (''criteria'', PList (map PStr [''idle'', ''routine'', ''pressing'', ''emergency'']))])] @ targets)))"

definition positive_number :: "pyval \<Rightarrow> bool" where
  "positive_number v = (case num_of v of Some (Fin r) \<Rightarrow> 0 < r | _ \<Rightarrow> False)"

definition player_state :: "player_frame \<Rightarrow> fence \<Rightarrow> (string \<times> pyval) list" where
  "player_state f fc = (let s = fr_snapshot f in
     [(''role'', PStr ''player''), (''observation_id'', PStr (frame_observation_id f)), (''fence'', PDict (fence_to_mapping fc)),
      (''observed_at'', PStr (sn_observed_at s)), (''sequence'', PInt (sn_sequence s)), (''room'', sn_room s),
      (''self'', PDict [(''vitals'', sn_vitals s), (''stance'', sn_stance s), (''roundtime'', sn_roundtime s), (''stunned'', sn_stunned s),
         (''dead'', sn_dead s), (''hands'', sn_hands s), (''wounds'', sn_wounds s), (''active_spells'', sn_active_spells s)]),
      (''targets'', PList (map PDict (fr_targets f))), (''party'', PList (map PDict (fr_party f))),
      (''recent'', PList (map PDict (fr_recent f))),
      (''plan'', PDict [(''id'', PStr (fr_plan_id f)), (''revision'', PInt (fr_plan_revision f)), (''step'', PStr (fr_plan_step f)),
         (''authorized'', PList (map PStr (fr_authorized f)))]),
      (''cooldowns'', PDict (fr_cooldowns f)), (''last_op'', case fr_last_op f of None \<Rightarrow> PNone | Some d \<Rightarrow> PDict d),
      (''decision_context'', PDict (fr_context f)),
      (''exact'', PDict [(''dead'', sn_dead s),
         (''roundtime_blocking'', if sn_roundtime s = PNone then PNone else PBool (positive_number (sn_roundtime s))),
         (''target_count'', PInt (int (length (fr_targets f))))])])"

definition frame_request :: "player_frame \<Rightarrow> string \<Rightarrow> decision_request result" where
  "frame_request f model = rbind (frame_fence f) (\<lambda>fc. rbind (player_questions f) (\<lambda>questions.
     Inr \<lparr>dq_state = player_state f fc, dq_questions = questions, dq_model = model\<rparr>))"

section \<open>Incidents\<close>

record incident_observation =
  io_key :: string
  io_kind :: incident_kind
  io_severity :: severity_level
  io_state :: incident_state
  io_fence :: fence
  io_affected :: "string list"
  io_responses :: "string list"
  io_observed_at :: string
  io_expires_at :: string
  io_facts :: "(string \<times> pyval) list"
  io_context :: "(string \<times> pyval) list"

definition affected_characters :: "(string \<times> pyval) list \<Rightarrow> string list result" where
  "affected_characters d =
     rbind (dec_texts (dget ''affected_characters'' d) ''affected_characters'' ''affected character'' 40) (\<lambda>affected.
     if affected = [] \<or> 16 < length affected \<or> \<not> distinct affected
     then rejected ''affected_characters must contain 1 to 16 unique names'' else Inr affected)"

definition allowed_responses :: "(string \<times> pyval) list \<Rightarrow> string list result" where
  "allowed_responses d =
     rbind (dec_texts (dget ''allowed_responses'' d) ''allowed_responses'' ''allowed response'' 32) (\<lambda>responses.
     case sort (filter (\<lambda>r. r \<notin> set supervisor_responses) responses) of
       u # _ \<Rightarrow> rejected (''invalid supervisor responses: '' @ u)
     | [] \<Rightarrow> if length responses < 2 \<or> \<not> distinct responses then rejected ''invalid supervisor responses; at least two are required''
         else Inr responses)"

definition incident_window :: "(string \<times> pyval) list \<Rightarrow> (string \<times> string) result" where
  "incident_window d =
     rbind (dec_timestamp (dget ''observed_at'' d)) (\<lambda>observed_at.
     rbind (dec_timestamp (dget ''expires_at'' d)) (\<lambda>expires_at.
     rbind (parse_timestamp expires_at) (\<lambda>e. rbind (parse_timestamp observed_at) (\<lambda>t.
     if e \<le> t then rejected ''expires_at must be later than observed_at'' else Inr (observed_at, expires_at)))))"

definition incident_facts :: "nat \<Rightarrow> (string \<times> pyval) list \<Rightarrow> (string \<times> pyval) list result" where
  "incident_facts rl d =
     rbind (bounded_mapping (dget ''facts'' d) ''facts'') (\<lambda>facts.
     rbind (json_dumps rl compact_sorted (PDict facts)) (\<lambda>text.
     if 16384 < utf8_length text then rejected ''facts exceed the incident size limit'' else Inr facts))"

definition incident_fields :: "string list" where
  "incident_fields = [''deduplication_key'', ''kind'', ''severity'', ''state'', ''source_fence'', ''affected_characters'',
     ''allowed_responses'', ''observed_at'', ''expires_at'', ''facts'']"

definition incident_from_mapping :: "nat \<Rightarrow> pyval \<Rightarrow> incident_observation result" where
  "incident_from_mapping rl v =
     rbind (dec_mapping v ''incident observation'') (\<lambda>d.
     rbind (dec_fields d ''incident observation'' incident_fields [''decision_context'']) (\<lambda>_.
     rbind (dec_mapping (dget ''source_fence'' d) ''source_fence'') (\<lambda>sf.
     rbind (fence_from_mapping (PDict sf)) (\<lambda>fc.
     if fc_incident_version fc \<noteq> None then rejected ''incident observation cannot set incident_version'' else
     rbind (affected_characters d) (\<lambda>affected.
     rbind (allowed_responses d) (\<lambda>responses.
     rbind (incident_window d) (\<lambda>(observed_at, expires_at).
     rbind (incident_facts rl d) (\<lambda>facts.
     rbind (dec_text (dget ''deduplication_key'' d) ''deduplication_key'' 128) (\<lambda>key.
     rbind (dec_enum incident_kinds (dget ''kind'' d) ''kind'') (\<lambda>kind.
     rbind (dec_enum severity_levels (dget ''severity'' d) ''severity'') (\<lambda>severity.
     rbind (dec_enum incident_states (dget ''state'' d) ''state'') (\<lambda>state.
     rbind (validate_context rl (dget_or ''decision_context'' (PDict []) d)) (\<lambda>context.
     Inr \<lparr>io_key = key, io_kind = kind, io_severity = severity, io_state = state, io_fence = fc, io_affected = affected,
       io_responses = responses, io_observed_at = observed_at, io_expires_at = expires_at, io_facts = facts, io_context = context\<rparr>)))))))))))))"

record incident_record =
  ic_incident_id :: string
  ic_version :: int
  ic_observation :: incident_observation

definition detect_incident :: "(string \<Rightarrow> string) \<Rightarrow> incident_observation \<Rightarrow> incident_record result" where
  "detect_incident digest obs =
     (if io_state obs \<noteq> Detected then rejected ''new incident must start in detected state''
      else Inr \<lparr>ic_incident_id = ''inc-'' @ take 24 (digest (io_key obs)), ic_version = 1, ic_observation = obs\<rparr>)"

definition incident_transition :: "incident_state \<Rightarrow> incident_state \<Rightarrow> bool" where
  "incident_transition old new = (case old of
      Detected \<Rightarrow> new \<in> {Detected, SafeHold}
    | SafeHold \<Rightarrow> new \<in> {SafeHold, Classified, Resolved}
    | Classified \<Rightarrow> new \<in> {Classified, Resolved}
    | Resolved \<Rightarrow> new = Resolved)"

definition update_duplicate :: "incident_record \<Rightarrow> incident_observation \<Rightarrow> incident_record result" where
  "update_duplicate r obs = (let old = ic_observation r; current = io_fence old; next_fence = io_fence obs in
     if io_key obs \<noteq> io_key old then rejected ''duplicate incident key does not match''
     else rbind (parse_timestamp (io_observed_at obs)) (\<lambda>t. rbind (parse_timestamp (io_observed_at old)) (\<lambda>t0.
     if t \<le> t0 then rejected ''duplicate incident observation must be newer''
     else if fc_generation next_fence \<noteq> fc_generation current \<or> fc_plan_id next_fence \<noteq> fc_plan_id current
       \<or> fc_plan_revision next_fence \<noteq> fc_plan_revision current then rejected ''duplicate incident source identity changed''
     else if fc_sequence next_fence \<le> fc_sequence current then rejected ''duplicate incident source sequence must increase''
     else if \<not> incident_transition (io_state old) (io_state obs) then rejected ''invalid incident state transition''
     else Inr (r\<lparr>ic_version := ic_version r + 1, ic_observation := obs\<rparr>))))"

definition incident_observation_id :: "incident_record \<Rightarrow> string" where
  "incident_observation_id r = ic_incident_id r @ '':v'' @ int_str (ic_version r)"

definition incident_fence :: "incident_record \<Rightarrow> fence" where
  "incident_fence r = (io_fence (ic_observation r))\<lparr>fc_incident_version := Some (ic_version r)\<rparr>"

definition incident_request :: "incident_record \<Rightarrow> string \<Rightarrow> decision_request result" where
  "incident_request r model = (let obs = ic_observation r in
     rbind (choice_criteria supervisor_criteria (io_responses obs)) (\<lambda>criteria.
     Inr \<lparr>dq_state = [(''role'', PStr ''supervisor''), (''observation_id'', PStr (incident_observation_id r)),
         (''incident_id'', PStr (ic_incident_id r)), (''incident_version'', PInt (ic_version r)),
         (''kind'', PStr (value_of incident_kinds (io_kind obs))), (''severity'', PStr (value_of severity_levels (io_severity obs))),
         (''state'', PStr (value_of incident_states (io_state obs))), (''source_fence'', PDict (fence_to_mapping (incident_fence r))),
         (''affected_characters'', PList (map PStr (io_affected obs))), (''observed_at'', PStr (io_observed_at obs)),
         (''expires_at'', PStr (io_expires_at obs)), (''facts'', PDict (io_facts obs)), (''decision_context'', PDict (io_context obs))],
       dq_questions = [(''response'', PDict [(''type'', PStr ''choice''),
         (''instructions'', PStr ''Which allowed symbolic response best addresses this incident after local safe hold?''),
         (''criteria'', PDict criteria)])], dq_model = model\<rparr>))"

definition incident_loop :: "(string \<Rightarrow> string) \<Rightarrow> (string, incident_record) dict \<Rightarrow> incident_observation \<Rightarrow> (string, incident_record) dict result" where
  "incident_loop digest records obs = (case map_of records (io_key obs) of
      None \<Rightarrow> rbind (detect_incident digest obs) (\<lambda>r. Inr (dput (io_key obs) r records))
    | Some r \<Rightarrow> rbind (update_duplicate r obs) (\<lambda>r'. Inr (dput (io_key obs) r' records)))"

definition group_incidents :: "(string \<Rightarrow> string) \<Rightarrow> incident_observation list \<Rightarrow> incident_record list result" where
  \<comment> \<open>\<open>load_incidents\<close> once the observations are read, in the order of their first occurrence\<close>
  "group_incidents digest observations = rbind (rfold (incident_loop digest) [] observations) (\<lambda>records. Inr (map snd records))"

section \<open>Invocations\<close>

datatype decision_observation = Frame player_frame | Incident incident_record

definition observation_fence :: "decision_observation \<Rightarrow> fence result" where
  "observation_fence ob = (case ob of Frame f \<Rightarrow> frame_fence f | Incident r \<Rightarrow> Inr (incident_fence r))"

definition observation_responses :: "decision_observation \<Rightarrow> string list" where
  "observation_responses ob = (case ob of Frame f \<Rightarrow> fr_authorized f | Incident r \<Rightarrow> io_responses (ic_observation r))"

definition observation_id :: "decision_observation \<Rightarrow> string" where
  "observation_id ob = (case ob of Frame f \<Rightarrow> frame_observation_id f | Incident r \<Rightarrow> incident_observation_id r)"

definition observation_request :: "decision_observation \<Rightarrow> string \<Rightarrow> decision_request result" where
  "observation_request ob = (case ob of Frame f \<Rightarrow> frame_request f | Incident r \<Rightarrow> incident_request r)"

record decision_settings =
  ds_enabled :: bool
  ds_kind :: provider_kind
  ds_model :: string
  ds_ttl_seconds :: rat

record invocation =
  iv_role :: decision_role
  iv_execution :: posture
  iv_observation :: decision_observation
  iv_allowed :: "string list"
  iv_fence :: fence
  iv_expires :: pyfloat
  iv_provider :: provider_kind
  iv_model :: string

definition role_vocabulary :: "decision_role \<Rightarrow> string list" where
  "role_vocabulary r = (case r of Player \<Rightarrow> player_actions | Supervisor \<Rightarrow> supervisor_responses)"

definition right_observation :: "decision_role \<Rightarrow> decision_observation \<Rightarrow> bool" where
  "right_observation r ob = (case ob of Frame _ \<Rightarrow> r = Player | Incident _ \<Rightarrow> r = Supervisor)"

definition make_invocation :: "decision_role \<Rightarrow> posture \<Rightarrow> decision_observation \<Rightarrow> string list \<Rightarrow> fence \<Rightarrow> pyfloat \<Rightarrow> provider_kind \<Rightarrow> string
    \<Rightarrow> invocation result" where
  \<comment> \<open>the constructor with \<open>__post_init__\<close>\<close>
  "make_invocation role execution ob responses fc expires provider model =
     (if (case expires of Fin _ \<Rightarrow> False | _ \<Rightarrow> True) then rejected ''decision expiry must be finite''
      else rbind (dec_text (PStr model) ''model'' 128) (\<lambda>_.
        if \<not> right_observation role ob then rejected (role_str role @ '' invocation has the wrong observation type'')
        else if responses = [] \<or> \<not> distinct responses then rejected ''allowed_responses must contain unique values''
        else case sort (filter (\<lambda>r. r \<notin> set (role_vocabulary role)) responses) of
          u # _ \<Rightarrow> rejected (''unknown '' @ role_str role @ '' response '' @ str_repr u)
        | [] \<Rightarrow> rbind (observation_fence ob) (\<lambda>ofc.
            if fc \<noteq> ofc then rejected ''invocation source fence does not match observation''
            else if responses \<noteq> observation_responses ob then rejected ''invocation responses do not match observation''
            else Inr \<lparr>iv_role = role, iv_execution = execution, iv_observation = ob, iv_allowed = responses, iv_fence = fc,
              iv_expires = expires, iv_provider = provider, iv_model = model\<rparr>)))"

definition invocation_for :: "decision_observation \<Rightarrow> decision_settings \<Rightarrow> posture \<Rightarrow> rat \<Rightarrow> invocation result" where
  \<comment> \<open>\<open>DecisionInvocation.player\<close> and \<open>DecisionInvocation.supervisor\<close> at a reading of the monotonic clock\<close>
  "invocation_for ob settings execution now = rbind (observation_fence ob) (\<lambda>fc.
     make_invocation (case ob of Frame _ \<Rightarrow> Player | Incident _ \<Rightarrow> Supervisor) execution ob (observation_responses ob) fc
       (Fin (now + ds_ttl_seconds settings)) (ds_kind settings) (ds_model settings))"

end
