(* ===== verification/DecisionToolbox.thy ===== *)
theory DecisionToolbox
  imports Decisions Effects
begin

text \<open>
  The evaluation of one invocation (\<open>DecisionToolbox\<close> of \<open>decisions.py\<close>): the validation of a provider's
  answer and the sequence of checks around the call of the provider.  The clocks, the fence callback, the
  provider and the audit file are functions on a state \<open>'s\<close> of the surroundings.  The provider is handed
  the request as a mutable object: it returns what it left of it with its answer.
\<close>

datatype decision_error = DecisionError string | Other lab_error

definition other :: "'a result \<Rightarrow> decision_error + 'a" where
  "other r = (case r of Inl e \<Rightarrow> Inl (Other e) | Inr x \<Rightarrow> Inr x)"

definition refused :: "string \<Rightarrow> decision_error + 'a" where
  "refused message = Inl (DecisionError message)"

section \<open>The provider's answer\<close>

definition wire_tolerance :: rat where "wire_tolerance = 100001 / 10000000"

definition is_close :: "rat \<Rightarrow> rat \<Rightarrow> rat \<Rightarrow> bool" where
  \<comment> \<open>\<open>math.isclose\<close> with its default relative tolerance\<close>
  "is_close a b tolerance = (\<bar>a - b\<bar> \<le> max (max \<bar>a\<bar> \<bar>b\<bar> / 1000000000) tolerance)"

definition beyond_float :: "int \<Rightarrow> bool" where
  \<comment> \<open>\<open>float(n)\<close> raises \<open>OverflowError\<close>\<close>
  "beyond_float n = (2 ^ 1024 - 2 ^ 970 \<le> \<bar>n\<bar>)"

lemma beyond_float_code [code]:
  "beyond_float n = (if \<bar>n\<bar> < 18446744073709551616 then False else 2 ^ 1024 - 2 ^ 970 \<le> \<bar>n\<bar>)"
  by (simp add: beyond_float_def)

definition plain_number :: "pyval \<Rightarrow> string \<Rightarrow> decision_error + rat option" where
  \<comment> \<open>\<open>float(value)\<close> of an integer or float, None if it is not finite\<close>
  "plain_number v message = (case v of
      PInt n \<Rightarrow> if beyond_float n then Inl (Other OverflowError) else Inr (Some (of_int n))
    | PFloat (Fin r) \<Rightarrow> Inr (Some r)
    | PFloat _ \<Rightarrow> Inr None
    | _ \<Rightarrow> refused message)"

definition probability :: "pyval \<Rightarrow> string \<Rightarrow> decision_error + rat" where
  "probability v label = rbind (plain_number v (label @ '' must be a probability'')) (\<lambda>x. case x of
      Some r \<Rightarrow> if 0 \<le> r \<and> r \<le> 1 then Inr r else refused (label @ '' must be between zero and one'')
    | None \<Rightarrow> refused (label @ '' must be between zero and one''))"

definition token_count :: "pyval \<Rightarrow> string \<Rightarrow> decision_error + int" where
  "token_count v label = (case v of
      PInt n \<Rightarrow> if n < 0 then refused (label @ '' must be a nonnegative integer'') else Inr n
    | _ \<Rightarrow> refused (label @ '' must be a nonnegative integer''))"

definition nonnegative_number :: "pyval \<Rightarrow> string \<Rightarrow> decision_error + rat" where
  "nonnegative_number v label = rbind (plain_number v (label @ '' must be a nonnegative number'')) (\<lambda>x. case x of
      Some r \<Rightarrow> if r < 0 then refused (label @ '' must be a nonnegative number'') else Inr r
    | None \<Rightarrow> refused (label @ '' must be a nonnegative number''))"

definition probabilities :: "pyval \<Rightarrow> string set \<Rightarrow> string \<Rightarrow> decision_error + (string \<times> rat) list" where
  "probabilities v options label = (case v of
      PDict d \<Rightarrow>
        if set (dkeys d) \<noteq> options then refused (''answer '' @ label @ '' probabilities do not match its options'')
        else rbind (rmap (\<lambda>(k, x). rbind (probability x (label @ ''.'' @ k)) (\<lambda>p. Inr (k, p))) d) (\<lambda>ps.
          if is_close (sum_list (map snd ps)) 1 (2 / 100) then Inr ps
          else refused (''answer '' @ label @ '' probabilities do not sum to one''))
    | _ \<Rightarrow> refused (''answer '' @ label @ '' probabilities do not match its options''))"

definition probability_dict :: "(string \<times> rat) list \<Rightarrow> pyval" where
  "probability_dict ps = PDict (map (\<lambda>(k, p). (k, PFloat (Fin p))) ps)"

definition noul_answer :: "string \<Rightarrow> (string \<times> pyval) list \<Rightarrow> decision_error + pyval" where
  "noul_answer name answer = rbind (probability (dget ''noul'' answer) name) (\<lambda>p.
     Inr (PDict [(''type'', PStr ''noul''), (''noul'', PFloat (Fin p))]))"

definition choice_answer :: "string \<Rightarrow> (string \<times> pyval) list \<Rightarrow> (string \<times> pyval) list \<Rightarrow> decision_error + pyval" where
  "choice_answer name question answer =
     rbind (other (dec_mapping (dget ''criteria'' question) (''questions.'' @ name @ ''.criteria''))) (\<lambda>criteria.
     let options = set (dkeys criteria) in case dget ''choice'' answer of
       PList _ \<Rightarrow> Inl (Other (TypeError ''unhashable type''))
     | PDict _ \<Rightarrow> Inl (Other (TypeError ''unhashable type''))
     | PStr choice \<Rightarrow>
         if choice \<notin> options then refused (''answer '' @ name @ '' chose an unknown option'') else
         rbind (probabilities (dget ''probabilities'' answer) options name) (\<lambda>ps.
         rbind (probability (dget ''confidence'' answer) (name @ ''.confidence'')) (\<lambda>confidence.
         let highest = Max (set (map snd ps)); chosen = the (map_of ps choice) in
         if chosen < highest \<and> \<not> is_close chosen highest wire_tolerance
         then refused (''answer '' @ name @ '' choice is not a highest-probability option'')
         else Inr (PDict [(''type'', PStr ''choice''), (''choice'', PStr choice), (''probabilities'', probability_dict ps),
           (''confidence'', PFloat (Fin confidence))])))
     | _ \<Rightarrow> refused (''answer '' @ name @ '' chose an unknown option''))"

definition score_answer :: "string \<Rightarrow> (string \<times> pyval) list \<Rightarrow> (string \<times> pyval) list \<Rightarrow> decision_error + pyval" where
  "score_answer name question answer =
     rbind (other (dec_sequence (dget ''criteria'' question) (''questions.'' @ name @ ''.criteria''))) (\<lambda>criteria.
     let legend = map (\<lambda>i. (nat_str i, criteria ! i)) [0..<length criteria]; options = set (dkeys legend) in
     rbind (plain_number (dget ''score'' answer) (''answer '' @ name @ '' has an invalid score'')) (\<lambda>x. case x of
       None \<Rightarrow> refused (''answer '' @ name @ '' has an invalid score'')
     | Some score \<Rightarrow>
         if \<not> (0 \<le> score \<and> score \<le> of_int (int (length criteria) - 1)) then refused (''answer '' @ name @ '' score is outside its scale'') else
         rbind (probabilities (dget ''probabilities'' answer) options name) (\<lambda>ps.
         if \<not> is_close score (sum_list (map (\<lambda>(k, p). of_nat (digits_value k) * p) ps)) wire_tolerance
         then refused (''answer '' @ name @ '' score does not match its probabilities'') else
         rbind (probability (dget ''confidence'' answer) (name @ ''.confidence'')) (\<lambda>confidence.
         Inr (PDict [(''type'', PStr ''score''), (''score'', PFloat (Fin score)), (''legend'', PDict legend),
           (''probabilities'', probability_dict ps), (''confidence'', PFloat (Fin confidence))])))))"

definition clean_answer :: "(string \<times> pyval) list \<Rightarrow> string \<times> pyval \<Rightarrow> decision_error + (string \<times> pyval)" where
  \<comment> \<open>one round of the loop over the questions\<close>
  "clean_answer answers = (\<lambda>(name, q). let question = items_of q in case dget name answers of
      PDict answer \<Rightarrow>
        if \<not> py_eq (dget ''type'' answer) (dget ''type'' question) then refused (''answer '' @ name @ '' has the wrong type'')
        else rbind
          (if dget ''type'' answer = PStr ''noul'' then noul_answer name answer
           else if dget ''type'' answer = PStr ''choice'' then choice_answer name question answer
           else if dget ''type'' answer = PStr ''score'' then score_answer name question answer
           else refused (''answer '' @ name @ '' has an unsupported type'')) (\<lambda>a. Inr (name, a))
    | _ \<Rightarrow> refused (''answer '' @ name @ '' has the wrong type''))"

record decision_response =
  dr_model :: string
  dr_answers :: "(string \<times> pyval) list"
  dr_usage :: "(string \<times> pyval) list"

definition clean_usage :: "(string \<times> pyval) list \<Rightarrow> decision_error + (string \<times> pyval) list" where
  "clean_usage usage =
     rbind (rmap (\<lambda>k. rbind (token_count (dget k usage) (''usage.'' @ k)) (\<lambda>n. Inr (k, PInt n))) [''input_tokens'', ''output_tokens'']) (\<lambda>counts.
     if dhas ''cost'' usage then rbind (nonnegative_number (dget ''cost'' usage) ''usage.cost'') (\<lambda>r.
       Inr (counts @ [(''cost'', PFloat (Fin r))])) else Inr counts)"

definition validate_response :: "pyval \<Rightarrow> (string \<times> pyval) list \<Rightarrow> decision_error + decision_response" where
  "validate_response v questions = (case v of
      PDict d \<Rightarrow> (case dget ''model'' d of
          PStr model \<Rightarrow> if strip model = [] then refused ''provider response is missing model'' else (case dget ''answers'' d of
              PDict answers \<Rightarrow> if set (dkeys answers) \<noteq> set (dkeys questions) then refused ''provider response answer ids do not match request''
                else (case dget ''usage'' d of
                    PDict usage \<Rightarrow>
                      rbind (clean_usage usage) (\<lambda>usage'.
                      rbind (rmap (clean_answer answers) questions) (\<lambda>clean.
                      Inr \<lparr>dr_model = strip model, dr_answers = clean, dr_usage = usage'\<rparr>))
                  | _ \<Rightarrow> refused ''provider response is missing usage'')
            | _ \<Rightarrow> refused ''provider response answer ids do not match request'')
        | _ \<Rightarrow> refused ''provider response is missing model'')
    | _ \<Rightarrow> refused ''provider response must be an object'')"

definition decode_answer :: "nat \<Rightarrow> string \<Rightarrow> (string \<times> pyval) list \<Rightarrow> decision_error + decision_response" where
  \<comment> \<open>the end of \<open>SystemOneDecisionProvider.evaluate\<close>, from the decoded text of the body\<close>
  "decode_answer rl body questions =
     (case (case json_loads rl \<lparr>jo_unique_keys = True, jo_constants = True\<rparr> body of
          Inl e \<Rightarrow> Inl (if e = ValueError ''duplicate JSON field'' then Other (ValidationError ''duplicate JSON key'') else Other e)
        | Inr v \<Rightarrow> validate_response v questions) of
        Inl (Other (ValidationError _)) \<Rightarrow> refused ''provider returned invalid JSON''
      | Inl (Other RecursionError) \<Rightarrow> refused ''provider response exceeded the nesting limit''
      | Inl (Other e) \<Rightarrow> if e = json_error then refused ''provider returned invalid JSON'' else Inl (Other e)
      | r \<Rightarrow> r)"

section \<open>The evaluation of one invocation\<close>

record raw_response =
  rw_model :: pyval
  rw_answers :: pyval
  rw_usage :: pyval

record 's toolbox =
  tb_monotonic :: "'s \<Rightarrow> 's \<times> rat"
  tb_now :: "'s \<Rightarrow> 's \<times> rat"
  tb_current_fence :: "'s \<Rightarrow> 's \<times> fence result"
  tb_provider :: "decision_request \<Rightarrow> 's \<Rightarrow> 's \<times> decision_request \<times> (decision_error + raw_response option)"
    \<comment> \<open>None: not a \<open>DecisionResponse\<close>\<close>
  tb_audit :: "(string \<times> pyval) list \<Rightarrow> 's \<Rightarrow> 's \<times> unit result"
  tb_digest :: "string \<Rightarrow> string"
  tb_limit :: nat \<comment> \<open>the recursion limit\<close>
  tb_settings :: decision_settings
  tb_format :: string

definition toolbox_init :: "string \<Rightarrow> 's toolbox \<Rightarrow> 's toolbox result" where
  "toolbox_init request_format tb = (if request_format \<notin> {''compact'', ''baseline''} then rejected ''request_format must be compact or baseline''
     else Inr (tb\<lparr>tb_format := request_format\<rparr>))"

type_synonym ('s, 'a) evaluation = "('s, decision_error, 'a) eff"

definition reading :: "('s \<Rightarrow> 's \<times> 'a) \<Rightarrow> ('s, 'a) evaluation" where
  "reading f = (\<lambda>s. case f s of (s', x) \<Rightarrow> (s', Inr x))"

definition calling :: "('s \<Rightarrow> 's \<times> 'a result) \<Rightarrow> ('s, 'a) evaluation" where
  "calling f = (\<lambda>s. case f s of (s', r) \<Rightarrow> (s', other r))"

record verdict =
  vd_status :: outcome_status
  vd_reason :: "string option"
  vd_response :: "decision_response option"
  vd_recommendation :: "string option"

definition without_answer :: "outcome_status \<Rightarrow> string \<Rightarrow> verdict" where
  "without_answer status reason = \<lparr>vd_status = status, vd_reason = Some reason, vd_response = None, vd_recommendation = None\<rparr>"

definition with_answer :: "outcome_status \<Rightarrow> string option \<Rightarrow> decision_response \<times> string \<Rightarrow> verdict" where
  "with_answer status reason = (\<lambda>(response, recommendation).
     \<lparr>vd_status = status, vd_reason = reason, vd_response = Some response, vd_recommendation = Some recommendation\<rparr>)"

definition canonical :: "nat \<Rightarrow> decision_request \<Rightarrow> string result" where
  "canonical rl q = json_dumps rl compact_sorted (request_to_mapping q)"

definition primary_answer :: "decision_response \<Rightarrow> decision_role \<Rightarrow> decision_error + (string \<times> pyval) list" where
  "primary_answer response role = (let k = (if role = Player then ''next'' else ''response'') in
     case map_of (dr_answers response) k of None \<Rightarrow> Inl (Other (KeyError k)) | Some a \<Rightarrow> Inr (items_of a))"

definition recommendation_of :: "decision_response \<Rightarrow> decision_role \<Rightarrow> decision_error + string" where
  "recommendation_of response role = rbind (primary_answer response role) (\<lambda>a. case map_of a ''choice'' of
      None \<Rightarrow> Inl (Other (KeyError ''choice'')) | Some v \<Rightarrow> Inr (py_str v))"

definition consult :: "'s toolbox \<Rightarrow> invocation \<Rightarrow> decision_request \<Rightarrow> string \<Rightarrow> ('s, decision_response \<times> string) evaluation" where
  \<comment> \<open>the \<open>try\<close> block: the provider's answer is believed only if it left its request alone\<close>
  "consult tb iv q digest = (\<lambda>s. case tb_provider tb q s of
      (s', q', Inl e) \<Rightarrow> (s', Inl e)
    | (s', q', Inr answer) \<Rightarrow> (s',
        rbind (other (canonical (tb_limit tb) q')) (\<lambda>text.
        if tb_digest tb text \<noteq> digest then refused ''provider mutated its request'' else (case answer of
          None \<Rightarrow> refused ''provider returned an invalid decision response''
        | Some r \<Rightarrow>
            rbind (validate_response (PDict [(''model'', rw_model r), (''answers'', rw_answers r), (''usage'', rw_usage r)]) (dq_questions q')) (\<lambda>response.
            rbind (recommendation_of response (iv_role iv)) (\<lambda>recommendation. Inr (response, recommendation)))))))"

definition provider_failure :: "decision_error \<Rightarrow> decision_error + verdict" where
  "provider_failure e = (case e of
      DecisionError message \<Rightarrow> Inr (without_answer ProviderError message)
    | Other RecursionError \<Rightarrow> Inr (without_answer ProviderError ''provider response exceeded the nesting limit'')
    | Other _ \<Rightarrow> Inl e)"

definition stale_frame :: "'s toolbox \<Rightarrow> bool \<Rightarrow> invocation \<Rightarrow> ('s, bool) evaluation" where
  "stale_frame tb replay iv = (case iv_observation iv of
      Incident _ \<Rightarrow> areturn (Inr False)
    | Frame f \<Rightarrow> if replay then areturn (Inr False) else
        abind (reading (tb_now tb)) (\<lambda>now.
        abind (areturn (other (parse_timestamp (sn_observed_at (fr_snapshot f))))) (\<lambda>t.
        areturn (Inr (now - t < 0 \<or> ds_ttl_seconds (tb_settings tb) < now - t)))))"

definition incident_refusal :: "'s toolbox \<Rightarrow> invocation \<Rightarrow> ('s, string option) evaluation" where
  "incident_refusal tb iv = (case iv_observation iv of
      Frame _ \<Rightarrow> areturn (Inr None)
    | Incident r \<Rightarrow>
        if io_state (ic_observation r) \<noteq> SafeHold then areturn (Inr (Some ''incident_not_in_safe_hold'')) else
        abind (reading (tb_now tb)) (\<lambda>now.
        abind (areturn (other (parse_timestamp (io_expires_at (ic_observation r))))) (\<lambda>t.
        areturn (Inr (if t < now then Some ''incident_expired'' else None)))))"

definition incident_expired :: "'s toolbox \<Rightarrow> invocation \<Rightarrow> ('s, bool) evaluation" where
  "incident_expired tb iv = (case iv_observation iv of
      Frame _ \<Rightarrow> areturn (Inr False)
    | Incident r \<Rightarrow>
        abind (areturn (other (parse_timestamp (io_expires_at (ic_observation r))))) (\<lambda>t.
        abind (reading (tb_now tb)) (\<lambda>now. areturn (Inr (t < now)))))"

definition expired_at :: "invocation \<Rightarrow> rat \<Rightarrow> bool" where
  "expired_at iv now = (case iv_expires iv of Fin t \<Rightarrow> t < now | _ \<Rightarrow> False)"

definition fence_now :: "'s toolbox \<Rightarrow> bool \<Rightarrow> invocation \<Rightarrow> ('s, fence) evaluation" where
  \<comment> \<open>a replay hands in the recorded fence\<close>
  "fence_now tb replay iv = (if replay then areturn (Inr (iv_fence iv)) else calling (tb_current_fence tb))"

definition settle :: "'s toolbox \<Rightarrow> bool \<Rightarrow> invocation \<Rightarrow> decision_response \<times> string \<Rightarrow> ('s, verdict) evaluation" where
  \<comment> \<open>the checks after the answer\<close>
  "settle tb replay iv answer =
     abind (incident_expired tb iv) (\<lambda>gone.
     if gone then areturn (Inr (with_answer Rejected (Some ''incident_expired'') answer)) else
     abind (reading (tb_monotonic tb)) (\<lambda>now.
     if expired_at iv now then areturn (Inr (with_answer Rejected (Some ''decision_expired'') answer)) else
     abind (fence_now tb replay iv) (\<lambda>active.
     if active \<noteq> iv_fence iv then areturn (Inr (with_answer Rejected (Some ''state_fence_changed'') answer))
     else if snd answer \<notin> set (iv_allowed iv) then areturn (Inr (with_answer Rejected (Some ''unauthorized_recommendation'') answer)) else
     abind (stale_frame tb replay iv) (\<lambda>stale.
     if stale then areturn (Inr (with_answer Rejected (Some ''observation_stale'') answer))
     else areturn (Inr (with_answer Recommended None answer))))))"

definition ask_provider :: "'s toolbox \<Rightarrow> bool \<Rightarrow> invocation \<Rightarrow> decision_request \<Rightarrow> string \<Rightarrow> ('s, verdict) evaluation" where
  "ask_provider tb replay iv q digest =
     abind (acatch (abind (consult tb iv q digest) (\<lambda>answer. areturn (Inr (Inr answer))))
       (\<lambda>e. areturn (rbind (provider_failure e) (\<lambda>v. Inr (Inl v))))) (\<lambda>r. case r of
       Inl v \<Rightarrow> areturn (Inr v)
     | Inr answer \<Rightarrow> settle tb replay iv answer)"

definition judge :: "'s toolbox \<Rightarrow> bool \<Rightarrow> invocation \<Rightarrow> rat \<Rightarrow> decision_request \<Rightarrow> string \<Rightarrow> ('s, verdict) evaluation" where
  \<comment> \<open>the body of \<open>_evaluate\<close> after the request is structured\<close>
  "judge tb replay iv started q digest = (let settings = tb_settings tb in
     if iv_execution iv = Live then areturn (Inr (without_answer Unsupported ''live_execution_not_installed''))
     else if \<not> ds_enabled settings then areturn (Inr (without_answer Unsupported ''decision_provider_disabled''))
     else if iv_provider iv \<noteq> ds_kind settings \<or> iv_model iv \<noteq> ds_model settings
     then areturn (Inr (without_answer Rejected ''provider_selection_changed''))
     else if expired_at iv started then areturn (Inr (without_answer Rejected ''decision_expired'')) else
     abind (fence_now tb replay iv) (\<lambda>current.
     if current \<noteq> iv_fence iv then areturn (Inr (without_answer Rejected ''state_fence_changed'')) else
     abind (areturn (other (observation_fence (iv_observation iv)))) (\<lambda>observed.
     if observed \<noteq> iv_fence iv then areturn (Inr (without_answer Rejected ''observation_fence_changed'')) else
     abind (stale_frame tb replay iv) (\<lambda>stale.
     if stale then areturn (Inr (without_answer Rejected ''observation_stale'')) else
     abind (incident_refusal tb iv) (\<lambda>refusal. case refusal of
       Some reason \<Rightarrow> areturn (Inr (without_answer Rejected reason))
     | None \<Rightarrow> ask_provider tb replay iv q digest)))))"

record outcome =
  oc_status :: outcome_status
  oc_role :: decision_role
  oc_execution :: posture
  oc_observation_id :: string
  oc_fence :: fence
  oc_request_sha256 :: string
  oc_latency_ms :: rat
  oc_provider :: provider_kind
  oc_requested_model :: string
  oc_model :: "string option"
  oc_reason :: "string option"
  oc_recommendation :: "string option"
  oc_selected_target_id :: "string option"
  oc_confidence :: pyval
  oc_answers :: "(string \<times> pyval) list option"
  oc_usage :: "(string \<times> pyval) list option"
  oc_request_format :: string
  oc_request_bytes :: nat
  oc_observation_mode :: string

definition status_str :: "outcome_status \<Rightarrow> string" where
  "status_str st = (case st of Recommended \<Rightarrow> ''recommended'' | Rejected \<Rightarrow> ''rejected'' | ProviderError \<Rightarrow> ''provider_error''
     | Unsupported \<Rightarrow> ''unsupported'')"

definition text_or_none :: "string option \<Rightarrow> pyval" where
  "text_or_none s = (case s of None \<Rightarrow> PNone | Some t \<Rightarrow> PStr t)"

definition dict_or_none :: "(string \<times> pyval) list option \<Rightarrow> pyval" where
  "dict_or_none d = (case d of None \<Rightarrow> PNone | Some e \<Rightarrow> PDict e)"

definition outcome_to_mapping :: "outcome \<Rightarrow> (string \<times> pyval) list" where
  "outcome_to_mapping oc =
     [(''status'', PStr (status_str (oc_status oc))), (''role'', PStr (role_str (oc_role oc))),
      (''execution'', PStr (case oc_execution oc of Shadow \<Rightarrow> ''shadow'' | Live \<Rightarrow> ''live'')),
      (''observation_id'', PStr (oc_observation_id oc)), (''fence'', PDict (fence_to_mapping (oc_fence oc))),
      (''request_sha256'', PStr (oc_request_sha256 oc)), (''latency_ms'', PFloat (Fin (oc_latency_ms oc))),
      (''provider'', PStr (case oc_provider oc of SystemOne \<Rightarrow> ''system_one'')), (''requested_model'', PStr (oc_requested_model oc)),
      (''model'', text_or_none (oc_model oc)), (''reason'', text_or_none (oc_reason oc)),
      (''recommendation'', text_or_none (oc_recommendation oc)), (''selected_target_id'', text_or_none (oc_selected_target_id oc)),
      (''confidence'', oc_confidence oc), (''answers'', dict_or_none (oc_answers oc)), (''usage'', dict_or_none (oc_usage oc)),
      (''executed'', PBool False), (''request_format'', PStr (oc_request_format oc)),
      (''request_bytes'', PInt (int (oc_request_bytes oc))), (''observation_mode'', PStr (oc_observation_mode oc))]"

definition round_to :: "nat \<Rightarrow> rat \<Rightarrow> rat" where
  \<comment> \<open>\<open>round(x, digits)\<close>: half to even\<close>
  "round_to digits x = (let y = x * 10 ^ digits; f = \<lfloor>y\<rfloor>; d = y - of_int f in
     of_int (if d < 1 / 2 \<or> d = 1 / 2 \<and> even f then f else f + 1) / 10 ^ digits)"

definition selected_target :: "decision_response \<Rightarrow> (string \<times> pyval) list list \<Rightarrow> string option result" where
  "selected_target response targets = (case map_of (dr_answers response) ''target_priority'' of
      Some a \<Rightarrow> (case map_of (items_of a) ''choice'' of None \<Rightarrow> Inl (KeyError ''choice'') | Some v \<Rightarrow> Inr (Some (py_str v)))
    | None \<Rightarrow> (case targets of [t] \<Rightarrow> rbind (target_id t) (\<lambda>k. Inr (Some k)) | _ \<Rightarrow> Inr None))"

definition verdict_target :: "invocation \<Rightarrow> verdict \<Rightarrow> string option result" where
  "verdict_target iv v = (case (vd_response v, iv_observation iv) of
      (Some response, Frame f) \<Rightarrow> selected_target response (fr_targets f) | _ \<Rightarrow> Inr None)"

definition conclude_verdict :: "'s toolbox \<Rightarrow> bool \<Rightarrow> invocation \<Rightarrow> rat \<Rightarrow> string \<Rightarrow> nat \<Rightarrow> verdict \<Rightarrow> ('s, outcome) evaluation" where
  \<comment> \<open>\<open>finish\<close>: the outcome is returned once its audit record is written\<close>
  "conclude_verdict tb replay iv started digest bytes v =
     abind (areturn (case vd_response v of None \<Rightarrow> Inr PNone
       | Some r \<Rightarrow> rbind (primary_answer r (iv_role iv)) (\<lambda>a. Inr (dget ''confidence'' a)))) (\<lambda>confidence.
     abind (areturn (other (verdict_target iv v))) (\<lambda>target.
     abind (reading (tb_monotonic tb)) (\<lambda>now.
     let oc = \<lparr>oc_status = vd_status v, oc_role = iv_role iv, oc_execution = iv_execution iv,
         oc_observation_id = observation_id (iv_observation iv), oc_fence = iv_fence iv, oc_request_sha256 = digest,
         oc_latency_ms = round_to 3 (max 0 (now - started) * 1000), oc_provider = iv_provider iv, oc_requested_model = iv_model iv,
         oc_model = map_option dr_model (vd_response v), oc_reason = vd_reason v, oc_recommendation = vd_recommendation v,
         oc_selected_target_id = target, oc_confidence = confidence, oc_answers = map_option dr_answers (vd_response v),
         oc_usage = map_option dr_usage (vd_response v), oc_request_format = tb_format tb, oc_request_bytes = bytes,
         oc_observation_mode = (if replay then ''replay'' else ''runtime'')\<rparr> in
     abind (calling (tb_audit tb (outcome_to_mapping oc))) (\<lambda>_. areturn (Inr oc)))))"

definition evaluate_invocation :: "'s toolbox \<Rightarrow> bool \<Rightarrow> invocation \<Rightarrow> ('s, outcome) evaluation" where
  "evaluate_invocation tb replay iv =
     abind (reading (tb_monotonic tb)) (\<lambda>started.
     abind (areturn (other (rbind (observation_request (iv_observation iv) (iv_model iv)) (structure_request (tb_limit tb) (tb_format tb))))) (\<lambda>q.
     abind (areturn (other (canonical (tb_limit tb) q))) (\<lambda>text.
     let digest = tb_digest tb text in
     abind (judge tb replay iv started q digest) (\<lambda>v.
     conclude_verdict tb replay iv started digest (utf8_length text) v))))"

end
