(* ===== verification/DecisionAcceptance.thy ===== *)
theory DecisionAcceptance
  imports DecisionToolbox
begin

text \<open>
  The measurement of a provider against fixed expectations (\<open>evaluate_provider_acceptance\<close> of
  \<open>decisions.py\<close>): the expectations, the checks of the fixture, and the report of the replayed evaluations.
\<close>

record expectation =
  ex_recommendations :: "string list"
  ex_target_id :: "string option"

definition expectation_from_mapping :: "string \<Rightarrow> pyval \<Rightarrow> expectation result" where
  "expectation_from_mapping k v =
     rbind (dec_mapping v (''expectations.'' @ k)) (\<lambda>d.
     rbind (dec_fields d (''expectations.'' @ k) [''recommendations''] [''target_id'']) (\<lambda>_.
     rbind (dec_texts (dget ''recommendations'' d) ''expected recommendations'' ''expected recommendation'' 64) (\<lambda>recommendations.
     if recommendations = [] \<or> 16 < length recommendations \<or> \<not> distinct recommendations
     then rejected ''expected recommendations must contain 1 to 16 unique values'' else
     rbind (let t = dget ''target_id'' d in if t = PNone then Inr None
       else rbind (dec_text (PStr (py_str t)) ''expected target_id'' 64) (\<lambda>s. Inr (Some s))) (\<lambda>target.
     Inr \<lparr>ex_recommendations = recommendations, ex_target_id = target\<rparr>))))"

definition acceptance_manifest :: "pyval \<Rightarrow> (string, expectation) dict result" where
  \<comment> \<open>\<open>load_acceptance_expectations\<close> once the file is read\<close>
  "acceptance_manifest v =
     rbind (dec_mapping v ''acceptance manifest'') (\<lambda>d.
     rbind (dec_fields d ''acceptance manifest'' [''version'', ''expectations''] []) (\<lambda>_.
     if \<not> py_eq (dget ''version'' d) (PInt 1) then rejected ''acceptance manifest version must be 1'' else
     rbind (dec_mapping (dget ''expectations'' d) ''expectations'') (\<lambda>raw.
     if raw = [] \<or> 1000 < length raw then rejected ''expectations must contain 1 to 1000 observations'' else
     rfold (\<lambda>found (raw_id, x). rbind (dec_text (PStr raw_id) ''observation_id'' 512) (\<lambda>k.
       rbind (expectation_from_mapping k x) (\<lambda>e. Inr (dput k e found)))) [] raw)))"

definition int_within :: "pyval \<Rightarrow> int \<Rightarrow> int \<Rightarrow> string \<Rightarrow> nat result" where
  "int_within v low high label = (case v of
      PInt n \<Rightarrow> if low \<le> n \<and> n \<le> high then Inr (nat n)
        else rejected (label @ '' must be an integer between '' @ int_str low @ '' and '' @ int_str high)
    | _ \<Rightarrow> rejected (label @ '' must be an integer between '' @ int_str low @ '' and '' @ int_str high))"

definition threshold_of :: "pyval \<Rightarrow> rat result" where
  "threshold_of v = (case plain_number v ''confidence_threshold must be between zero and one'' of
      Inr (Some r) \<Rightarrow> if 0 \<le> r \<and> r \<le> 1 then Inr r else rejected ''confidence_threshold must be between zero and one''
    | Inl (Other e) \<Rightarrow> Inl e
    | _ \<Rightarrow> rejected ''confidence_threshold must be between zero and one'')"

definition check_observation :: "decision_role \<Rightarrow> (string, expectation) dict \<Rightarrow> decision_observation \<Rightarrow> unit result" where
  "check_observation role expectations ob =
     (if \<not> right_observation role ob then rejected ''acceptance fixture cannot mix player and supervisor observations''
      else case map_of expectations (observation_id ob) of None \<Rightarrow> Inl (KeyError (observation_id ob))
      | Some e \<Rightarrow> (case sort (filter (\<lambda>r. r \<notin> set (observation_responses ob)) (ex_recommendations e)) of
          u # _ \<Rightarrow> rejected (''expectation uses unadvertised response '' @ str_repr u)
        | [] \<Rightarrow> (case (ex_target_id e, ob) of
            (None, _) \<Rightarrow> Inr ()
          | (Some t, Incident _) \<Rightarrow> rejected ''supervisor expectation cannot specify target_id''
          | (Some t, Frame f) \<Rightarrow> rbind (rmap target_id (fr_targets f)) (\<lambda>ids.
              if t \<in> set ids then Inr () else rejected ''expected target_id is not present in the player frame''))))"

definition check_fixture :: "decision_observation list \<Rightarrow> (string, expectation) dict \<Rightarrow> decision_role result" where
  "check_fixture observations expectations =
     (if observations = [] \<or> 1000 < length observations then rejected ''acceptance requires 1 to 1000 observations''
      else let ids = map observation_id observations; role = (case hd observations of Frame _ \<Rightarrow> Player | Incident _ \<Rightarrow> Supervisor) in
      if \<not> distinct ids then rejected ''acceptance fixture has duplicate observation ids''
      else case (sort (filter (\<lambda>k. k \<notin> set (dkeys expectations)) ids), sort (filter (\<lambda>k. k \<notin> set ids) (dkeys expectations))) of
        (m # _, _) \<Rightarrow> rejected (''missing expectation for '' @ m)
      | ([], x # _) \<Rightarrow> rejected (''unused expectation for '' @ x)
      | _ \<Rightarrow> rbind (rmap (check_observation role expectations) observations) (\<lambda>_. Inr role))"

definition replay_observation :: "'s toolbox \<Rightarrow> decision_observation \<Rightarrow> ('s, outcome) evaluation" where
  \<comment> \<open>\<open>invoke\<close>\<close>
  "replay_observation tb ob =
     abind (reading (tb_monotonic tb)) (\<lambda>now.
     abind (areturn (other (invocation_for ob (tb_settings tb) Shadow now))) (\<lambda>iv. evaluate_invocation tb True iv))"

fun replay_all :: "'s toolbox \<Rightarrow> decision_observation list \<Rightarrow> ('s, outcome list) evaluation" where
  "replay_all tb [] = areturn (Inr [])"
| "replay_all tb (ob # obs) = abind (replay_observation tb ob) (\<lambda>oc. abind (replay_all tb obs) (\<lambda>ocs. areturn (Inr (oc # ocs))))"

definition percentile :: "rat list \<Rightarrow> rat \<Rightarrow> rat" where
  "percentile xs quantile = round_to 3 (sort xs ! nat (max 0 (\<lceil>quantile * of_nat (length xs)\<rceil> - 1)))"

definition count :: "('a \<Rightarrow> bool) \<Rightarrow> 'a list \<Rightarrow> nat" where
  "count p xs = length (filter p xs)"

definition acceptable :: "expectation \<times> outcome \<Rightarrow> bool" where
  "acceptable = (\<lambda>(e, oc). case oc_recommendation oc of None \<Rightarrow> False | Some r \<Rightarrow> r \<in> set (ex_recommendations e))"

definition recommended :: "expectation \<times> outcome \<Rightarrow> bool" where
  "recommended = (\<lambda>(_, oc). oc_status oc = Recommended)"

definition exact_match :: "expectation \<times> outcome \<Rightarrow> bool" where
  "exact_match = (\<lambda>(e, oc). oc_status oc = Recommended \<and> oc_recommendation oc = Some (hd (ex_recommendations e)))"

definition confidence_at_least :: "rat \<Rightarrow> outcome \<Rightarrow> bool option" where
  "confidence_at_least threshold oc = (case oc_confidence oc of PFloat (Fin c) \<Rightarrow> Some (threshold \<le> c) | _ \<Rightarrow> None)"

record report =
  rp_request_format :: string
  rp_request_bytes_mean :: rat
  rp_request_bytes_max :: nat
  rp_role :: decision_role
  rp_observations :: nat
  rp_warmup_repeats :: nat
  rp_warmup_evaluations :: nat
  rp_warmup_nonrecommended :: nat
  rp_measured_repeats :: nat
  rp_measured_evaluations :: nat
  rp_exact :: nat
  rp_acceptable :: nat
  rp_exact_accuracy :: rat
  rp_acceptable_accuracy :: rat
  rp_target_expectations :: nat
  rp_target_matches :: nat
  rp_target_accuracy :: "rat option"
  rp_confidence_threshold :: rat
  rp_high_confidence_wrong :: nat
  rp_low_confidence :: nat
  rp_provider_errors :: nat
  rp_rejected :: nat
  rp_unsupported :: nat
  rp_cold_latency_ms :: rat
  rp_latency_p50 :: rat
  rp_latency_p95 :: rat
  rp_models_seen :: "string list"

definition make_report :: "'s toolbox \<Rightarrow> decision_role \<Rightarrow> nat \<Rightarrow> nat \<Rightarrow> nat \<Rightarrow> rat \<Rightarrow> outcome list \<Rightarrow> (expectation \<times> outcome) list \<Rightarrow> report" where
  "make_report tb role observations warmups repeats threshold warm measured =
     (let outcomes = map snd measured; total = length measured;
          targets = filter (\<lambda>(e, _). ex_target_id e \<noteq> None) measured;
          matches = count (\<lambda>(e, oc). oc_status oc = Recommended \<and> oc_selected_target_id oc = ex_target_id e) targets;
          exact = count exact_match measured; ok = count (\<lambda>m. recommended m \<and> acceptable m) measured;
          ratio = (\<lambda>n d. round_to 6 (of_nat n / of_nat d)); status = (\<lambda>st. count (\<lambda>oc. oc_status oc = st) outcomes) in
      \<lparr>rp_request_format = tb_format tb,
       rp_request_bytes_mean = round_to 1 (of_nat (sum_list (map oc_request_bytes outcomes)) / of_nat total),
       rp_request_bytes_max = Max (set (map oc_request_bytes outcomes)), rp_role = role, rp_observations = observations,
       rp_warmup_repeats = warmups, rp_warmup_evaluations = length warm, rp_warmup_nonrecommended = count (\<lambda>oc. oc_status oc \<noteq> Recommended) warm,
       rp_measured_repeats = repeats, rp_measured_evaluations = total, rp_exact = exact, rp_acceptable = ok, rp_exact_accuracy = ratio exact total,
       rp_acceptable_accuracy = ratio ok total, rp_target_expectations = length targets, rp_target_matches = matches,
       rp_target_accuracy = (if targets = [] then None else Some (ratio matches (length targets))),
       rp_confidence_threshold = threshold,
       rp_high_confidence_wrong = count (\<lambda>m. \<not> acceptable m \<and> confidence_at_least threshold (snd m) = Some True) measured,
       rp_low_confidence = count (\<lambda>oc. confidence_at_least threshold oc = Some False) outcomes,
       rp_provider_errors = status ProviderError, rp_rejected = status Rejected, rp_unsupported = status Unsupported,
       rp_cold_latency_ms = oc_latency_ms (hd (warm @ outcomes)), rp_latency_p50 = percentile (map oc_latency_ms outcomes) (1 / 2),
       rp_latency_p95 = percentile (map oc_latency_ms outcomes) (95 / 100),
       rp_models_seen = sort (remdups (List.map_filter oc_model (warm @ outcomes)))\<rparr>)"

definition evaluate_acceptance :: "'s toolbox \<Rightarrow> decision_observation list \<Rightarrow> (string, expectation) dict \<Rightarrow> pyval \<Rightarrow> pyval \<Rightarrow> pyval
    \<Rightarrow> ('s, report) evaluation" where
  "evaluate_acceptance tb observations expectations warmups repeats threshold =
     abind (areturn (other (int_within warmups 0 20 ''warmups''))) (\<lambda>w.
     abind (areturn (other (int_within repeats 1 100 ''repeats''))) (\<lambda>n.
     abind (areturn (other (threshold_of threshold))) (\<lambda>limit.
     abind (areturn (other (check_fixture observations expectations))) (\<lambda>role.
     abind (areturn (other (toolbox_init (tb_format tb) tb))) (\<lambda>tb'.
     abind (replay_all tb' (concat (replicate w observations))) (\<lambda>warm.
     abind (replay_all tb' (concat (replicate n observations))) (\<lambda>outcomes.
     let expected = map (\<lambda>ob. the (map_of expectations (observation_id ob))) (concat (replicate n observations)) in
     areturn (Inr (make_report tb' role (length observations) w n limit warm (zip expected outcomes))))))))))"

end
