(* ===== verification/DecisionProperties.thy ===== *)
theory DecisionProperties
  imports DecisionAcceptance
begin

text \<open>
  The properties of the shadow decisions: what stands behind a recommendation, the audit of every outcome,
  the shape of a validated answer, the payload of the provider, and the history of an incident.
\<close>

section \<open>Calls into the surroundings\<close>

inductive toolbox_call :: "'s toolbox \<Rightarrow> 's \<Rightarrow> 's \<Rightarrow> bool" for tb where
  tc_monotonic: "toolbox_call tb s (fst (tb_monotonic tb s))"
| tc_now: "toolbox_call tb s (fst (tb_now tb s))"
| tc_fence: "toolbox_call tb s (fst (tb_current_fence tb s))"
| tc_provider: "toolbox_call tb s (fst (tb_provider tb q s))"
| tc_audit: "toolbox_call tb s (fst (tb_audit tb m s))"

definition quietly :: "'s toolbox \<Rightarrow> ('s, 'a) evaluation \<Rightarrow> bool" where
  \<comment> \<open>the program changes the surroundings by calls of the toolbox only\<close>
  "quietly tb m = (\<forall>s. (toolbox_call tb)\<^sup>*\<^sup>* s (fst (m s)))"

named_theorems quiet_intros "programs that only call"

lemma quietlyD: "quietly tb m \<Longrightarrow> m s = (t, r) \<Longrightarrow> (toolbox_call tb)\<^sup>*\<^sup>* s t"
  unfolding quietly_def by (metis fst_conv)

lemma quietly_abind [quiet_intros]: "quietly tb m \<Longrightarrow> (\<And>x. quietly tb (f x)) \<Longrightarrow> quietly tb (abind m f)"
  unfolding quietly_def abind_def by (auto split: prod.split sum.split) (metis fst_conv rtranclp_trans)+

lemma quietly_areturn [quiet_intros]: "quietly tb (areturn r)"
  by (simp add: quietly_def areturn_def)

lemma quietly_reading: "(\<And>s. toolbox_call tb s (fst (f s))) \<Longrightarrow> quietly tb (reading f)"
  unfolding quietly_def reading_def by (metis (no_types, lifting) case_prod_beta fst_conv r_into_rtranclp)

lemma quietly_calling: "(\<And>s. toolbox_call tb s (fst (f s))) \<Longrightarrow> quietly tb (calling f)"
  unfolding quietly_def calling_def by (metis (no_types, lifting) case_prod_beta fst_conv r_into_rtranclp)

lemma quietly_calls [quiet_intros]:
  "quietly tb (reading (tb_monotonic tb))" "quietly tb (reading (tb_now tb))" "quietly tb (calling (tb_current_fence tb))"
  "quietly tb (calling (tb_audit tb m))"
  by (simp_all add: quietly_reading quietly_calling toolbox_call.intros)

lemma quietly_checks [quiet_intros]:
  "quietly tb (stale_frame tb replay iv)" "quietly tb (incident_refusal tb iv)" "quietly tb (incident_expired tb iv)"
  "quietly tb (fence_now tb replay iv)"
  unfolding stale_frame_def incident_refusal_def incident_expired_def fence_now_def
  by (auto split: decision_observation.split intro!: quiet_intros)

section \<open>What stands behind a recommendation\<close>

definition fence_read :: "'s toolbox \<Rightarrow> bool \<Rightarrow> invocation \<Rightarrow> 's \<Rightarrow> 's \<Rightarrow> bool" where
  \<comment> \<open>at run time the active fence was read here and is that of the invocation; a replay reads none\<close>
  "fence_read tb replay iv s t = (if replay then t = s else tb_current_fence tb s = (t, Inr (iv_fence iv)))"

definition observed_recently :: "'s toolbox \<Rightarrow> bool \<Rightarrow> invocation \<Rightarrow> 's \<Rightarrow> 's \<Rightarrow> bool" where
  \<comment> \<open>at run time the clock was read here and the snapshot of a player frame was not older than the time to live\<close>
  "observed_recently tb replay iv s t = (case iv_observation iv of
      Incident _ \<Rightarrow> t = s
    | Frame f \<Rightarrow> if replay then t = s else \<exists>now seen. tb_now tb s = (t, now) \<and> parse_timestamp (sn_observed_at (fr_snapshot f)) = Inr seen
        \<and> 0 \<le> now - seen \<and> now - seen \<le> ds_ttl_seconds (tb_settings tb))"

definition still_fenced :: "'s toolbox \<Rightarrow> bool \<Rightarrow> invocation \<Rightarrow> 's \<Rightarrow> 's \<Rightarrow> bool" where
  \<comment> \<open>between the states the expiry was not reached, and the active fence and the age of the snapshot were checked\<close>
  "still_fenced tb replay iv s t = (\<exists>s1 s2 s3 now. (toolbox_call tb)\<^sup>*\<^sup>* s s1 \<and> tb_monotonic tb s1 = (s2, now) \<and> \<not> expired_at iv now
     \<and> fence_read tb replay iv s2 s3 \<and> observed_recently tb replay iv s3 t)"

lemma reading_Inr: "reading f s = (t, Inr x) \<longleftrightarrow> f s = (t, x)"
  by (auto simp: reading_def split: prod.split)

lemma calling_Inr: "calling f s = (t, Inr x) \<longleftrightarrow> f s = (t, Inr x)"
  by (auto simp: calling_def other_def split: prod.split sum.split)

lemma fence_now_Inr: "fence_now tb replay iv s = (t, Inr (iv_fence iv)) \<longleftrightarrow> fence_read tb replay iv s t"
  by (auto simp: fence_now_def fence_read_def calling_Inr areturn_def)

lemma stale_frame_Inr: "stale_frame tb replay iv s = (t, Inr False) \<longleftrightarrow> observed_recently tb replay iv s t"
  by (auto simp: stale_frame_def observed_recently_def abind_value areturn_value reading_Inr other_def split: decision_observation.splits sum.splits)

lemma settle_recommended:
  assumes "settle tb replay iv answer s = (t, Inr v)" "vd_status v = Recommended"
  shows "v = with_answer Recommended None answer \<and> snd answer \<in> set (iv_allowed iv) \<and> still_fenced tb replay iv s t"
proof -
  from assms obtain s1 s2 s3 now where 1: "incident_expired tb iv s = (s1, Inr False)" "tb_monotonic tb s1 = (s2, now)" "\<not> expired_at iv now"
      "fence_now tb replay iv s2 = (s3, Inr (iv_fence iv))" "snd answer \<in> set (iv_allowed iv)"
      "stale_frame tb replay iv s3 = (t, Inr False)" "v = with_answer Recommended None answer"
    by (auto simp: settle_def eff_Inr reading_Inr with_answer_def split: if_splits prod.splits)
  then show ?thesis unfolding still_fenced_def
    using quietlyD [OF quietly_checks(3) 1(1)] 1 by (auto simp: fence_now_Inr stale_frame_Inr)
qed

definition answered :: "'s toolbox \<Rightarrow> invocation \<Rightarrow> decision_request \<Rightarrow> 's \<Rightarrow> 's \<Rightarrow> decision_response \<times> string \<Rightarrow> bool" where
  \<comment> \<open>the provider, asked the request \<open>q\<close>, left it alone and gave an answer that validates\<close>
  "answered tb iv q s t answer = (\<exists>q' raw text text'. tb_provider tb q s = (t, q', Inr (Some raw)) \<and> canonical (tb_limit tb) q = Inr text
     \<and> canonical (tb_limit tb) q' = Inr text' \<and> tb_digest tb text' = tb_digest tb text
     \<and> validate_response (PDict [(''model'', rw_model raw), (''answers'', rw_answers raw), (''usage'', rw_usage raw)]) (dq_questions q') = Inr (fst answer)
     \<and> recommendation_of (fst answer) (iv_role iv) = Inr (snd answer))"

lemma other_Inr [simp]: "other r = Inr x \<longleftrightarrow> r = Inr x"
  by (auto simp: other_def split: sum.split)

lemma consult_Inr:
  "consult tb iv q (tb_digest tb text) s = (t, Inr answer) \<Longrightarrow> canonical (tb_limit tb) q = Inr text \<Longrightarrow> answered tb iv q s t answer"
  unfolding consult_def answered_def refused_def
  by (cases answer) (auto simp: rbind_Inr_iff split: prod.splits sum.splits if_splits option.splits)

lemma vd_status_answers [simp]:
  "vd_status (without_answer st reason) = st" "vd_status (with_answer st r answer) = st"
  by (simp_all add: without_answer_def with_answer_def split: prod.split)

lemma provider_failure_status: "provider_failure e = Inr v \<Longrightarrow> vd_status v = ProviderError"
  by (cases e; simp add: provider_failure_def split: lab_error.splits; auto)

lemma acatch_value:
  "acatch m h l = (l', Inr y) \<longleftrightarrow> m l = (l', Inr y) \<or> (\<exists>l1 e. m l = (l1, Inl e) \<and> h e l1 = (l', Inr y))"
  by (auto simp: acatch_def split: prod.splits sum.splits)

lemma ask_recommended:
  assumes "ask_provider tb replay iv q (tb_digest tb text) s = (t, Inr v)" "vd_status v = Recommended" "canonical (tb_limit tb) q = Inr text"
  shows "\<exists>answer u. answered tb iv q s u answer \<and> v = with_answer Recommended None answer \<and> snd answer \<in> set (iv_allowed iv) \<and> still_fenced tb replay iv u t"
proof -
  from assms(1) obtain u r where r: "acatch (abind (consult tb iv q (tb_digest tb text)) (\<lambda>answer. areturn (Inr (Inr answer))))
       (\<lambda>e. areturn (rbind (provider_failure e) (\<lambda>v. Inr (Inl v)))) s = (u, Inr r)"
    "(case r of Inl v \<Rightarrow> areturn (Inr v) | Inr answer \<Rightarrow> settle tb replay iv answer) u = (t, Inr v)"
    unfolding ask_provider_def eff_Inr by blast
  show ?thesis
  proof (cases r)
    case (Inl v')
    with r(2) have "v = v'" by (simp add: areturn_def)
    moreover from Inl r(1) obtain e where "provider_failure e = Inr v'"
      by (simp add: acatch_value eff_Inr rbind_Inr_iff) blast
    ultimately show ?thesis using assms(2) provider_failure_status by (metis outcome_status.distinct(3))
  next
    case (Inr answer)
    with r(1) have "consult tb iv q (tb_digest tb text) s = (u, Inr answer)"
      by (auto simp: acatch_value eff_Inr rbind_Inr_iff)
    from consult_Inr [OF this assms(3)] have "answered tb iv q s u answer" .
    moreover from r(2) Inr have "settle tb replay iv answer u = (t, Inr v)" by simp
    note settle_recommended [OF this assms(2)]
    ultimately show ?thesis by (intro exI [of _ answer] exI [of _ u] conjI) simp_all
  qed
qed

lemma past_refusal:
  "(if b then areturn (Inr (without_answer Rejected r)) else m) s = (t, Inr v) \<Longrightarrow> vd_status v = Recommended \<Longrightarrow> \<not> b \<and> m s = (t, Inr v)"
  by (auto simp: areturn_value split: if_splits)

lemma judge_recommended:
  assumes "judge tb replay iv started q (tb_digest tb text) s = (t, Inr v)" "vd_status v = Recommended" "canonical (tb_limit tb) q = Inr text"
  shows "iv_execution iv = Shadow \<and> ds_enabled (tb_settings tb) \<and> iv_model iv = ds_model (tb_settings tb) \<and> \<not> expired_at iv started
    \<and> observation_fence (iv_observation iv) = Inr (iv_fence iv)
    \<and> (\<exists>s1 s1' s2 u answer. fence_read tb replay iv s s1 \<and> observed_recently tb replay iv s1 s1' \<and> (toolbox_call tb)\<^sup>*\<^sup>* s1' s2 \<and> answered tb iv q s2 u answer
      \<and> v = with_answer Recommended None answer \<and> snd answer \<in> set (iv_allowed iv) \<and> still_fenced tb replay iv u t)"
proof -
  define rest where "rest = abind (fence_now tb replay iv) (\<lambda>current.
     if current \<noteq> iv_fence iv then areturn (Inr (without_answer Rejected ''state_fence_changed'')) else
     abind (areturn (other (observation_fence (iv_observation iv)))) (\<lambda>observed.
     if observed \<noteq> iv_fence iv then areturn (Inr (without_answer Rejected ''observation_fence_changed'')) else
     abind (stale_frame tb replay iv) (\<lambda>stale.
     if stale then areturn (Inr (without_answer Rejected ''observation_stale'')) else
     abind (incident_refusal tb iv) (\<lambda>refusal. case refusal of
       Some reason \<Rightarrow> areturn (Inr (without_answer Rejected reason))
     | None \<Rightarrow> ask_provider tb replay iv q (tb_digest tb text)))))"
  from assms(1) have j: "judge tb replay iv started q (tb_digest tb text) s = (t, Inr v)" .
  have x: "iv_execution iv = Shadow \<and> ds_enabled (tb_settings tb) \<and> iv_model iv = ds_model (tb_settings tb) \<and> \<not> expired_at iv started \<and> rest s = (t, Inr v)"
    using j unfolding judge_def Let_def rest_def [symmetric]
    by (cases "iv_execution iv") (use assms(2) in \<open>auto simp: areturn_def split: if_splits\<close>)
  then have "rest s = (t, Inr v)" by blast
  then obtain s1 observed s2 stale s3 refusal where f: "fence_now tb replay iv s = (s1, Inr (iv_fence iv))"
      "observation_fence (iv_observation iv) = Inr (iv_fence iv)" "stale_frame tb replay iv s1 = (s2, Inr False)"
      "incident_refusal tb iv s2 = (s3, Inr refusal)"
      "(case refusal of Some reason \<Rightarrow> areturn (Inr (without_answer Rejected reason)) | None \<Rightarrow> ask_provider tb replay iv q (tb_digest tb text)) s3 = (t, Inr v)"
    unfolding rest_def abind_value areturn_value other_Inr
    by (elim exE conjE) (drule past_refusal [OF _ assms(2)], clarsimp simp: abind_value areturn_value,
      drule past_refusal [OF _ assms(2)], clarsimp simp: abind_value, drule past_refusal [OF _ assms(2)], clarsimp simp: abind_value)
  from f(5) assms(2) have z: "ask_provider tb replay iv q (tb_digest tb text) s3 = (t, Inr v)"
    by (auto simp: areturn_def split: option.splits)
  have "(toolbox_call tb)\<^sup>*\<^sup>* s2 s3" by (rule quietlyD [OF quietly_checks(2) f(4)])
  moreover have "fence_read tb replay iv s s1" "observed_recently tb replay iv s1 s2"
    using f(1,3) by (simp_all add: fence_now_Inr stale_frame_Inr)
  ultimately show ?thesis using x f(2) ask_recommended [OF z assms(2,3)] by blast
qed


lemma concluded:
  assumes "conclude_verdict tb replay iv started digest bytes v s = (t, Inr oc)"
  shows "oc_status oc = vd_status v \<and> oc_recommendation oc = vd_recommendation v \<and> oc_request_sha256 oc = digest
    \<and> oc_observation_mode oc = (if replay then ''replay'' else ''runtime'') \<and> oc_answers oc = map_option dr_answers (vd_response v)
    \<and> (\<exists>s1. (toolbox_call tb)\<^sup>*\<^sup>* s s1 \<and> tb_audit tb (outcome_to_mapping oc) s1 = (t, Inr ()))"
proof -
  from assms obtain now s1 where "tb_monotonic tb s = (s1, now)" "tb_audit tb (outcome_to_mapping oc) s1 = (t, Inr ())"
     "oc_status oc = vd_status v \<and> oc_recommendation oc = vd_recommendation v \<and> oc_request_sha256 oc = digest
      \<and> oc_observation_mode oc = (if replay then ''replay'' else ''runtime'') \<and> oc_answers oc = map_option dr_answers (vd_response v)"
    unfolding conclude_verdict_def abind_value areturn_value reading_Inr Let_def calling_Inr by fastforce
  moreover from this(1) have "(toolbox_call tb)\<^sup>*\<^sup>* s s1" by (metis fst_conv r_into_rtranclp tc_monotonic)
  ultimately show ?thesis by blast
qed

lemma evaluation_parts:
  assumes "evaluate_invocation tb replay iv s = (t, Inr oc)"
  obtains started q0 q encoded s1 s2 v where "tb_monotonic tb s = (s1, started)" "observation_request (iv_observation iv) (iv_model iv) = Inr q0"
    "structure_request (tb_limit tb) (tb_format tb) q0 = Inr q" "canonical (tb_limit tb) q = Inr encoded"
    "judge tb replay iv started q (tb_digest tb encoded) s1 = (s2, Inr v)"
    "conclude_verdict tb replay iv started (tb_digest tb encoded) (utf8_length encoded) v s2 = (t, Inr oc)"
  using assms unfolding evaluate_invocation_def abind_value areturn_value reading_Inr other_Inr rbind_Inr_iff Let_def by blast


section \<open>A sample\<close>

text \<open>An incident in safe hold, a provider that answers ''hold'', and surroundings that keep the audit records.\<close>

definition sample_fence :: fence where
  "sample_fence = \<lparr>fc_generation = ''g1'', fc_sequence = 4, fc_room_id = PStr ''u7'', fc_target_ids = [], fc_plan_id = ''p'', fc_plan_revision = 1,
     fc_incident_version = None\<rparr>"

definition sample_incident :: incident_record where
  "sample_incident = \<lparr>ic_incident_id = ''inc-a'', ic_version = 2, ic_observation =
     \<lparr>io_key = ''k'', io_kind = NoProgress, io_severity = WarningLevel, io_state = SafeHold, io_fence = sample_fence, io_affected = [''Aster''],
      io_responses = [''continue'', ''hold''], io_observed_at = ''2026-01-01T00:00:00Z'', io_expires_at = ''2026-01-01T01:00:00Z'', io_facts = [],
      io_context = []\<rparr>\<rparr>"

definition sample_invocation :: invocation where
  "sample_invocation = \<lparr>iv_role = Supervisor, iv_execution = Shadow, iv_observation = Incident sample_incident, iv_allowed = [''continue'', ''hold''],
     iv_fence = incident_fence sample_incident, iv_expires = Fin 5, iv_provider = SystemOne, iv_model = ''m''\<rparr>"

definition sample_response :: raw_response where
  "sample_response = \<lparr>rw_model = PStr ''m'',
     rw_answers = PDict [(''response'', PDict [(''type'', PStr ''choice''), (''choice'', PStr ''hold''),
       (''probabilities'', PDict [(''continue'', PFloat (Fin (1 / 4))), (''hold'', PFloat (Fin (3 / 4)))]), (''confidence'', PFloat (Fin (1 / 2)))])],
     rw_usage = PDict [(''input_tokens'', PInt 10), (''output_tokens'', PInt 2)]\<rparr>"

definition sample_toolbox :: "(string \<times> pyval) list list toolbox" where
  "sample_toolbox = \<lparr>tb_monotonic = (\<lambda>s. (s, 1)), tb_now = (\<lambda>s. (s, 1767225600)), tb_current_fence = (\<lambda>s. (s, Inr (incident_fence sample_incident))),
     tb_provider = (\<lambda>q s. (s, q, Inr (Some sample_response))), tb_audit = (\<lambda>m s. (s @ [m], Inr ())), tb_digest = (\<lambda>s. take 8 s), tb_limit = 900,
     tb_settings = \<lparr>ds_enabled = True, ds_kind = SystemOne, ds_model = ''m'', ds_ttl_seconds = 10\<rparr>, tb_format = ''compact''\<rparr>"

lemma sample_recommended:
  "case evaluate_invocation sample_toolbox False sample_invocation [] of (t, Inr oc) \<Rightarrow> oc_status oc = Recommended | _ \<Rightarrow> False"
  by code_simp

lemma sample_outcome:
  obtains t oc where "evaluate_invocation sample_toolbox False sample_invocation [] = (t, Inr oc)" "oc_status oc = Recommended"
  using sample_recommended
  by (cases "evaluate_invocation sample_toolbox False sample_invocation []"; cases "snd (evaluate_invocation sample_toolbox False sample_invocation [])") auto


section \<open>The shape of a validated answer\<close>

definition distribution :: "string set \<Rightarrow> (string \<times> rat) list \<Rightarrow> bool" where
  \<comment> \<open>probabilities of exactly the options that sum to one within two hundredths\<close>
  "distribution options ps = (set (dkeys ps) = options \<and> (\<forall>(k, p) \<in> set ps. 0 \<le> p \<and> p \<le> 1) \<and> \<bar>sum_list (map snd ps) - 1\<bar> \<le> 2 / 100)"

definition near_enough :: rat where "near_enough = 100001 / 10000000"

inductive sound_answer :: "string \<Rightarrow> (string \<times> pyval) list \<Rightarrow> pyval \<Rightarrow> bool" for kind question where
  sound_noul: "kind = ''noul'' \<Longrightarrow> 0 \<le> p \<Longrightarrow> p \<le> 1 \<Longrightarrow>
    sound_answer kind question (PDict [(''type'', PStr ''noul''), (''noul'', PFloat (Fin p))])"
| sound_choice: "kind = ''choice'' \<Longrightarrow> dget ''criteria'' question = PDict criteria \<Longrightarrow> distribution (set (dkeys criteria)) ps \<Longrightarrow>
    map_of ps choice = Some q \<Longrightarrow> \<forall>(k, p) \<in> set ps. p \<le> q + near_enough \<Longrightarrow> 0 \<le> confidence \<Longrightarrow> confidence \<le> 1 \<Longrightarrow>
    sound_answer kind question (PDict [(''type'', PStr ''choice''), (''choice'', PStr choice), (''probabilities'', probability_dict ps),
      (''confidence'', PFloat (Fin confidence))])"
| sound_score: "kind = ''score'' \<Longrightarrow> dget ''criteria'' question = PList criteria \<Longrightarrow>
    distribution (set (map nat_str [0..<length criteria])) ps \<Longrightarrow> 0 \<le> score \<Longrightarrow> score \<le> of_nat (length criteria) - 1 \<Longrightarrow>
    0 \<le> confidence \<Longrightarrow> confidence \<le> 1 \<Longrightarrow>
    sound_answer kind question (PDict [(''type'', PStr ''score''), (''score'', PFloat (Fin score)),
      (''legend'', PDict (map (\<lambda>i. (nat_str i, criteria ! i)) [0..<length criteria])), (''probabilities'', probability_dict ps),
      (''confidence'', PFloat (Fin confidence))])"

lemma probability_Inr: "probability v l = Inr p \<Longrightarrow> 0 \<le> p \<and> p \<le> 1"
  by (auto simp: probability_def rbind_Inr_iff refused_def split: option.splits if_splits)

lemma is_close_one: "is_close a 1 (2 / 100) \<Longrightarrow> \<bar>a - 1\<bar> \<le> 2 / 100"
  by (auto simp: is_close_def max_def abs_if split: if_splits)

lemma is_close_units: "is_close a b wire_tolerance \<Longrightarrow> 0 \<le> a \<Longrightarrow> a \<le> 1 \<Longrightarrow> 0 \<le> b \<Longrightarrow> b \<le> 1 \<Longrightarrow> b \<le> a + near_enough"
  by (auto simp: is_close_def wire_tolerance_def near_enough_def max_def abs_if split: if_splits)

lemma rmapi_pointwise: "rmapi f i xs = Inr ys \<Longrightarrow> (\<And>j x y. f j x = Inr y \<Longrightarrow> g y = h x) \<Longrightarrow> map g ys = map h xs"
  by (induction xs arbitrary: i ys) (auto simp: rbind_Inr_iff)

lemma probabilities_Inr:
  assumes "probabilities v options l = Inr ps"
  shows "distribution options ps"
proof -
  from assms obtain d where d: "v = PDict d" "set (dkeys d) = options"
      "rmap (\<lambda>(k, x). rbind (probability x (l @ ''.'' @ k)) (\<lambda>p. Inr (k, p))) d = Inr ps" "is_close (sum_list (map snd ps)) 1 (2 / 100)"
    by (auto simp: probabilities_def rbind_Inr_iff refused_def split: pyval.splits if_splits)
  have "map fst ps = map fst d"
    using d(3) unfolding rmap_def by (rule rmapi_pointwise) (auto simp: rbind_Inr_iff)
  moreover have "\<forall>(k, p) \<in> set ps. 0 \<le> p \<and> p \<le> 1"
  proof
    fix kp assume "kp \<in> set ps"
    show "case kp of (k, p) \<Rightarrow> 0 \<le> p \<and> p \<le> 1"
      by (rule rmapi_all [OF d(3) [unfolded rmap_def] _ \<open>kp \<in> set ps\<close>]) (auto simp: rbind_Inr_iff dest!: probability_Inr)
  qed
  ultimately show ?thesis using d(2) is_close_one [OF d(4)] by (simp add: distribution_def dkeys_def)
qed

lemma noul_answer_sound: "noul_answer name answer = Inr a \<Longrightarrow> sound_answer ''noul'' question a"
  by (auto simp: noul_answer_def rbind_Inr_iff dest!: probability_Inr intro: sound_noul)

lemma choice_answer_sound:
  assumes "choice_answer name question answer = Inr a"
  shows "sound_answer ''choice'' question a"
proof -
  from assms obtain criteria choice ps confidence where c: "dget ''criteria'' question = PDict criteria" "choice \<in> set (dkeys criteria)"
      "probabilities (dget ''probabilities'' answer) (set (dkeys criteria)) name = Inr ps"
      "probability (dget ''confidence'' answer) (name @ ''.confidence'') = Inr confidence"
      "\<not> (the (map_of ps choice) < Max (set (map snd ps)) \<and> \<not> is_close (the (map_of ps choice)) (Max (set (map snd ps))) wire_tolerance)"
      "a = PDict [(''type'', PStr ''choice''), (''choice'', PStr choice), (''probabilities'', probability_dict ps),
           (''confidence'', PFloat (Fin confidence))]"
    by (auto simp: choice_answer_def rbind_Inr_iff dec_mapping_def rejected_def refused_def Let_def split: pyval.splits if_splits)
  note d = probabilities_Inr [OF c(3)]
  then have "choice \<in> set (map fst ps)" using c(2) by (simp add: distribution_def dkeys_def)
  then obtain q where q: "map_of ps choice = Some q" by (metis map_of_eq_None_iff not_None_eq set_map)
  have b: "0 \<le> p \<and> p \<le> 1" if "(k, p) \<in> set ps" for k p using d that by (auto simp: distribution_def)
  have m: "p \<le> Max (set (map snd ps))" if "(k, p) \<in> set ps" for k p using that by (intro Max_ge) force+
  have "Max (set (map snd ps)) \<in> set (map snd ps)" using q by (intro Max_in) (auto dest: map_of_SomeD)
  then have "0 \<le> Max (set (map snd ps)) \<and> Max (set (map snd ps)) \<le> 1" using b by auto
  moreover have "0 \<le> q \<and> q \<le> 1" using b map_of_SomeD [OF q] by blast
  ultimately have "Max (set (map snd ps)) \<le> q + near_enough"
    using c(5) q is_close_units [of q "Max (set (map snd ps))"] by (auto simp: near_enough_def not_less intro: order_trans)
  with m have "\<forall>(k, p) \<in> set ps. p \<le> q + near_enough" by (auto intro: order_trans)
  then show ?thesis using sound_choice c(1,6) d q probability_Inr [OF c(4)] by auto
qed

lemma score_answer_sound:
  assumes "score_answer name question answer = Inr a"
  shows "sound_answer ''score'' question a"
proof -
  from assms obtain criteria score ps confidence where c: "dget ''criteria'' question = PList criteria"
      "0 \<le> score" "score \<le> of_int (int (length criteria) - 1)"
      "probabilities (dget ''probabilities'' answer) (set (dkeys (map (\<lambda>i. (nat_str i, criteria ! i)) [0..<length criteria]))) name = Inr ps"
      "probability (dget ''confidence'' answer) (name @ ''.confidence'') = Inr confidence"
      "a = PDict [(''type'', PStr ''score''), (''score'', PFloat (Fin score)),
        (''legend'', PDict (map (\<lambda>i. (nat_str i, criteria ! i)) [0..<length criteria])), (''probabilities'', probability_dict ps),
        (''confidence'', PFloat (Fin confidence))]"
    by (auto simp: score_answer_def rbind_Inr_iff dec_sequence_def rejected_def refused_def Let_def split: pyval.splits if_splits option.splits)
  from probabilities_Inr [OF c(4)] have "distribution (set (map nat_str [0..<length criteria])) ps"
    by (simp add: dkeys_def comp_def)
  then show ?thesis unfolding c(6) using c(1-3) probability_Inr [OF c(5)] by (intro sound_score) auto
qed

lemma py_eq_PStr: "py_eq (PStr s) v \<longleftrightarrow> v = PStr s"
  by (cases v) (auto simp: py_eq.simps [of "PStr s"])

lemma clean_answer_sound:
  assumes "clean_answer answers (name, q) = Inr na"
  shows "fst na = name \<and> (\<exists>kind. dget ''type'' (items_of q) = PStr kind \<and> sound_answer kind (items_of q) (snd na))"
  using assms noul_answer_sound choice_answer_sound score_answer_sound
  by (auto simp: clean_answer_def Let_def rbind_Inr_iff refused_def py_eq_PStr split: pyval.splits if_splits)

lemma rmapi_list_all2: "rmapi f i xs = Inr ys \<Longrightarrow> (\<And>j x y. f j x = Inr y \<Longrightarrow> R x y) \<Longrightarrow> list_all2 R xs ys"
  by (induction xs arbitrary: i ys) (auto simp: rbind_Inr_iff)

definition usage_sound :: "(string \<times> pyval) list \<Rightarrow> bool" where
  \<comment> \<open>both token counts and, if given, the cost; none of them negative\<close>
  "usage_sound usage = (\<exists>i k. 0 \<le> i \<and> 0 \<le> k \<and> (usage = [(''input_tokens'', PInt i), (''output_tokens'', PInt k)]
     \<or> (\<exists>c. 0 \<le> c \<and> usage = [(''input_tokens'', PInt i), (''output_tokens'', PInt k), (''cost'', PFloat (Fin c))])))"

lemma token_count_Inr: "token_count v l = Inr n \<Longrightarrow> 0 \<le> n"
  by (auto simp: token_count_def refused_def split: pyval.splits if_splits)

lemma nonnegative_number_Inr: "nonnegative_number v l = Inr r \<Longrightarrow> 0 \<le> r"
  by (auto simp: nonnegative_number_def rbind_Inr_iff refused_def split: option.splits if_splits)

lemma clean_usage_sound: "clean_usage usage = Inr u \<Longrightarrow> usage_sound u"
  by (auto simp: clean_usage_def usage_sound_def rmap_def rbind_Inr_iff split: if_splits dest!: token_count_Inr nonnegative_number_Inr)

text \<open>
  C38: An answer of the provider that validates has a model name without surrounding blanks, answers exactly the
  questions that were asked, in their order and with their types: a choice is one of the advertised options and
  nearly the most probable, a score lies on its scale, probabilities cover exactly the options and sum to one within
  two hundredths, confidences are between zero and one, and the usage counts are not negative.
\<close>
theorem validated_answers:
  assumes "validate_response v questions = Inr r"
  shows "dr_model r \<noteq> [] \<and> strip (dr_model r) = dr_model r \<and> usage_sound (dr_usage r)
    \<and> list_all2 (\<lambda>(name, q) (name', a). name' = name \<and> (\<exists>kind. dget ''type'' (items_of q) = PStr kind \<and> sound_answer kind (items_of q) a))
        questions (dr_answers r)"
proof -
  from assms obtain model answers usage usage' clean where v: "strip model \<noteq> []" "clean_usage usage = Inr usage'"
      "rmap (clean_answer answers) questions = Inr clean" "r = \<lparr>dr_model = strip model, dr_answers = clean, dr_usage = usage'\<rparr>"
    by (auto simp: validate_response_def refused_def rbind_Inr_iff split: pyval.splits if_splits)
  have "list_all2 (\<lambda>(name, q) (name', a). name' = name \<and> (\<exists>kind. dget ''type'' (items_of q) = PStr kind \<and> sound_answer kind (items_of q) a))
        questions clean"
    using v(3) unfolding rmap_def by (rule rmapi_list_all2) (auto dest!: clean_answer_sound)
  then show ?thesis using v(1,4) clean_usage_sound [OF v(2)] by simp
qed

definition sample_questions :: "(string \<times> pyval) list" where
  "sample_questions = [(''response'', PDict [(''type'', PStr ''choice''), (''instructions'', PStr ''Which?''),
     (''criteria'', PDict [(''continue'', PStr ''Go on.''), (''hold'', PStr ''Stay.'')])])]"

lemma sample_validates: "case validate_response (PDict [(''model'', rw_model sample_response), (''answers'', rw_answers sample_response),
    (''usage'', rw_usage sample_response)]) sample_questions of Inr r \<Rightarrow> map fst (dr_answers r) = [''response''] | _ \<Rightarrow> False"
  by code_simp

lemma case_Inr: "case x of Inl _ \<Rightarrow> False | Inr r \<Rightarrow> P r \<Longrightarrow> \<exists>r. x = Inr r \<and> P r"
  by (cases x) auto

theorem validated_answers_witness:
  "\<exists>r. validate_response (PDict [(''model'', rw_model sample_response), (''answers'', rw_answers sample_response),
      (''usage'', rw_usage sample_response)]) sample_questions = Inr r
    \<and> usage_sound (dr_usage r) \<and> map fst (dr_answers r) = [''response'']"
proof -
  from case_Inr [OF sample_validates] obtain r where r: "validate_response (PDict [(''model'', rw_model sample_response), (''answers'', rw_answers sample_response),
      (''usage'', rw_usage sample_response)]) sample_questions = Inr r" "map fst (dr_answers r) = [''response'']"
    by (elim exE conjE)
  show ?thesis
    by (rule exI [of _ r]) (intro conjI r validated_answers [OF r(1), THEN conjunct2, THEN conjunct2, THEN conjunct1])
qed

section \<open>The history of an incident\<close>

definition incident_step :: "incident_observation \<Rightarrow> incident_observation \<Rightarrow> bool" where
  \<comment> \<open>a later observation of the same plan, in a state that may follow\<close>
  "incident_step old new = (io_key new = io_key old \<and> fc_generation (io_fence new) = fc_generation (io_fence old)
     \<and> fc_plan_id (io_fence new) = fc_plan_id (io_fence old) \<and> fc_plan_revision (io_fence new) = fc_plan_revision (io_fence old)
     \<and> fc_sequence (io_fence old) < fc_sequence (io_fence new) \<and> incident_transition (io_state old) (io_state new)
     \<and> (\<exists>t t'. parse_timestamp (io_observed_at old) = Inr t \<and> parse_timestamp (io_observed_at new) = Inr t' \<and> t < t'))"

definition observations_of :: "string \<Rightarrow> incident_observation list \<Rightarrow> incident_observation list" where
  "observations_of key = filter (\<lambda>obs. io_key obs = key)"

definition recorded :: "(string \<Rightarrow> string) \<Rightarrow> incident_observation list \<Rightarrow> incident_record \<Rightarrow> bool" where
  \<comment> \<open>the record of the observations of one key\<close>
  "recorded digest h r = (h \<noteq> [] \<and> io_state (hd h) = Detected \<and> successively incident_step h
     \<and> ic_version r = int (length h) \<and> ic_observation r = last h \<and> ic_incident_id r = ''inc-'' @ take 24 (digest (io_key (hd h))))"

lemma recorded_detected: "detect_incident digest obs = Inr r \<Longrightarrow> recorded digest [obs] r"
  by (auto simp: detect_incident_def recorded_def rejected_def split: if_splits)

lemma update_step: "update_duplicate r obs = Inr r' \<Longrightarrow> incident_step (ic_observation r) obs \<and> r' = r\<lparr>ic_version := ic_version r + 1, ic_observation := obs\<rparr>"
  by (auto simp: update_duplicate_def incident_step_def rejected_def rbind_Inr_iff Let_def not_le split: if_splits)

lemma recorded_update: "update_duplicate r obs = Inr r' \<Longrightarrow> recorded digest h r \<Longrightarrow> recorded digest (h @ [obs]) r'"
  by (drule update_step) (auto simp: recorded_def successively_append_iff)

definition grouped :: "(string \<Rightarrow> string) \<Rightarrow> incident_observation list \<Rightarrow> (string, incident_record) dict \<Rightarrow> bool" where
  "grouped digest xs records = (distinct (dkeys records) \<and> set (dkeys records) = io_key ` set xs
     \<and> (\<forall>k r. map_of records k = Some r \<longrightarrow> recorded digest (observations_of k xs) r))"

lemma not_seen: "grouped digest xs records \<Longrightarrow> map_of records k = None \<Longrightarrow> observations_of k xs = []"
  by (auto simp: grouped_def observations_of_def filter_empty_conv dkeys_def map_of_eq_None_iff)

lemma grouped_loop:
  assumes "grouped digest xs records" "incident_loop digest records obs = Inr records'"
  shows "grouped digest (xs @ [obs]) records'"
proof -
  have h: "observations_of (io_key obs) (xs @ [obs]) = observations_of (io_key obs) xs @ [obs]" by (simp add: observations_of_def)
  obtain r where r: "records' = dput (io_key obs) r records" "recorded digest (observations_of (io_key obs) (xs @ [obs])) r"
  proof (cases "map_of records (io_key obs)")
    case None
    with assms that show ?thesis by (auto simp: incident_loop_def rbind_Inr_iff h not_seen recorded_detected)
  next
    case (Some r)
    with assms(1) have "recorded digest (observations_of (io_key obs) xs) r" by (simp add: grouped_def)
    with Some assms(2) that show ?thesis by (auto simp: incident_loop_def rbind_Inr_iff h intro: recorded_update)
  qed
  have "observations_of k (xs @ [obs]) = observations_of k xs" if "k \<noteq> io_key obs" for k
    using that by (auto simp: observations_of_def)
  then show ?thesis using assms(1) r by (auto simp: grouped_def dkeys_dput)
qed

lemma grouped_fold: "rfold (incident_loop digest) records ys = Inr records' \<Longrightarrow> grouped digest xs records \<Longrightarrow> grouped digest (xs @ ys) records'"
proof (induction ys arbitrary: xs records)
  case (Cons y ys)
  then obtain middle where "incident_loop digest records y = Inr middle" "rfold (incident_loop digest) middle ys = Inr records'"
    by (auto simp: rbind_Inr_iff)
  with Cons.IH [of middle "xs @ [y]"] grouped_loop [OF Cons.prems(2)] show ?case by simp
qed simp

text \<open>
  C36: The incidents that are loaded are one record for each deduplication key.  The observations of its key begin
  with a detection, and each follows the one before: the same plan, a later time and a higher sequence, in a state that
  may follow.  Its version counts them and its observation is the last one; its id is the digest of the key.
\<close>
theorem incidents_keep_history:
  assumes "group_incidents digest xs = Inr rs"
  shows "distinct (map (io_key \<circ> ic_observation) rs) \<and> set (map (io_key \<circ> ic_observation) rs) = io_key ` set xs
    \<and> (\<forall>r \<in> set rs. recorded digest (observations_of (io_key (ic_observation r)) xs) r)"
proof -
  from assms obtain records where r: "rfold (incident_loop digest) [] xs = Inr records" "rs = map snd records"
    by (auto simp: group_incidents_def rbind_Inr_iff)
  have g: "grouped digest xs records" using grouped_fold [OF r(1), of "[]"] by (simp add: grouped_def dkeys_def)
  have k: "recorded digest (observations_of k xs) x \<and> io_key (ic_observation x) = k" if "(k, x) \<in> set records" for k x
  proof -
    from g that have "recorded digest (observations_of k xs) x" by (simp add: grouped_def dkeys_def)
    moreover from this have "ic_observation x \<in> set (observations_of k xs)" by (simp add: recorded_def)
    ultimately show ?thesis by (simp add: observations_of_def)
  qed
  then have "map (io_key \<circ> ic_observation) rs = dkeys records" unfolding r(2) dkeys_def by (auto simp: comp_def)
  with g have "distinct (map (io_key \<circ> ic_observation) rs) \<and> set (map (io_key \<circ> ic_observation) rs) = io_key ` set xs"
    by (simp add: grouped_def)
  moreover have "\<forall>r \<in> set rs. recorded digest (observations_of (io_key (ic_observation r)) xs) r" using k r(2) by auto
  ultimately show ?thesis by blast
qed

definition sample_detected :: incident_observation where
  "sample_detected = (ic_observation sample_incident)\<lparr>io_state := Detected\<rparr>"

definition sample_held :: incident_observation where
  "sample_held = (ic_observation sample_incident)\<lparr>io_fence := sample_fence\<lparr>fc_sequence := 5\<rparr>, io_observed_at := ''2026-01-01T00:00:05Z''\<rparr>"

lemma sample_group: "case group_incidents (\<lambda>s. s) [sample_detected, sample_held] of Inl _ \<Rightarrow> False | Inr rs \<Rightarrow> map ic_version rs = [2]"
  by code_simp

theorem incidents_keep_history_witness:
  "\<exists>r. group_incidents (\<lambda>s. s) [sample_detected, sample_held] = Inr [r] \<and> ic_version r = 2
    \<and> recorded (\<lambda>s. s) (observations_of (io_key (ic_observation r)) [sample_detected, sample_held]) r"
proof -
  obtain rs where rs: "group_incidents (\<lambda>s. s) [sample_detected, sample_held] = Inr rs" "map ic_version rs = [2]"
    using case_Inr [OF sample_group] by (elim exE conjE)
  then obtain r where "rs = [r]" "ic_version r = 2" by (cases rs) auto
  with rs(1) incidents_keep_history [OF rs(1)] show ?thesis by simp
qed

section \<open>The payload of the provider\<close>

definition choices :: "string \<Rightarrow> decision_request \<Rightarrow> string set" where
  "choices k q = set (dkeys (criteria_of (dget k (dq_questions q))))"

definition main_question :: "decision_observation \<Rightarrow> string" where
  "main_question ob = (case ob of Frame _ \<Rightarrow> ''next'' | Incident _ \<Rightarrow> ''response'')"

lemma dkeys_fold_dput: "set (dkeys (fold (\<lambda>(k, v). dput k v) ps d)) = set (dkeys d) \<union> fst ` set ps"
  by (induction ps arbitrary: d) (auto simp: dkeys_dput split: if_splits)

lemma choice_criteria_keys:
  assumes "choice_criteria criteria names = Inr d"
  shows "set (dkeys d) = set names"
proof -
  from assms obtain ps where ps: "rmap (\<lambda>n. case map_of criteria n of None \<Rightarrow> Inl (KeyError n) | Some t \<Rightarrow> Inr (n, PStr t)) names = Inr ps"
      "d = fold (\<lambda>(k, v). dput k v) ps []"
    by (auto simp: choice_criteria_def rbind_Inr_iff)
  have "map fst ps = map id names"
    using ps(1) unfolding rmap_def by (rule rmapi_pointwise) (auto split: option.splits)
  then have "fst ` set ps = set names" by (metis list.map_id list.set_map)
  then show ?thesis unfolding ps(2) dkeys_fold_dput by (simp add: dkeys_def)
qed

lemma request_primary:
  assumes "observation_request ob model = Inr q"
  shows "dget ''role'' (dq_state q) = PStr (case ob of Frame _ \<Rightarrow> ''player'' | Incident _ \<Rightarrow> ''supervisor'')
    \<and> choices (main_question ob) q = set (observation_responses ob) \<and> dq_model q = model
    \<and> dhas (main_question ob) (dq_questions q)"
proof (cases ob)
  case (Frame f)
  with assms obtain fc criteria rest where "choice_criteria player_criteria (fr_authorized f) = Inr criteria"
      "dq_state q = player_state f fc" "dq_questions q = (''next'', PDict [(''type'', PStr ''choice''),
            (''instructions'', PStr ''Which authorized symbolic action best advances the current plan step? Exact facts in state.exact are authoritative.''),
            (''criteria'', PDict criteria)]) # rest" "dq_model q = model"
    by (auto simp: observation_request_def frame_request_def player_questions_def rbind_Inr_iff)
  with Frame choice_criteria_keys show ?thesis
    by (auto simp: choices_def main_question_def observation_responses_def criteria_of_def items_of_def player_state_def Let_def dget_def dhas_def)
next
  case (Incident r)
  with assms choice_criteria_keys show ?thesis
    by (auto simp: observation_request_def incident_request_def rbind_Inr_iff Let_def choices_def main_question_def observation_responses_def
      criteria_of_def items_of_def dget_def dhas_def)
qed

lemma dget_ddel [simp]: "k \<noteq> k' \<Longrightarrow> dget k (ddel k' d) = dget k d"
  by (simp add: dget_def)

lemma map_of_filter_key: "P k \<Longrightarrow> map_of (filter (\<lambda>(x, _). P x) d) k = map_of d k"
  by (induction d) auto

lemma advised_keys: "set (dkeys requirements) \<subseteq> set (dkeys (criteria_of q)) \<Longrightarrow>
    set (dkeys (criteria_of (advised requirements q))) = set (dkeys (criteria_of q))"
proof -
  have "criteria_of (advised requirements q) = fold (\<lambda>(k, v). dput k v) requirements (criteria_of q)"
    by (simp add: advised_def criteria_of_def items_of_def)
  moreover assume "set (dkeys requirements) \<subseteq> set (dkeys (criteria_of q))"
  ultimately show ?thesis using dkeys_fold_dput [of requirements "criteria_of q"] by (simp add: dkeys_def) blast
qed

lemma payload_role: "py_eq (PStr s) (PStr t) \<longleftrightarrow> s = t"
  by (auto simp: py_eq_PStr)

lemma compact_state_keeps:
  "k \<notin> {''party_complete'', ''last_op'', ''recent'', ''room''} \<Longrightarrow> dget k (compact_state context state) = dget k state"
  by (simp add: compact_state_def)

lemma compact_questions_subset: "map_of (compact_questions state qs) k = Some v \<Longrightarrow> map_of qs k = Some v"
proof (cases "k \<in> {''next'', ''target_priority''}")
  case True
  then show "map_of (compact_questions state qs) k = Some v \<Longrightarrow> map_of qs k = Some v"
    by (auto simp: compact_questions_def map_of_filter_key split: if_splits)
next
  case False
  then have "map_of (filter (\<lambda>(x, _). x \<in> {''next'', ''target_priority''}) qs) k = None"
    by (auto simp: map_of_eq_None_iff)
  then show "map_of (compact_questions state qs) k = Some v \<Longrightarrow> map_of qs k = Some v"
    by (auto simp: compact_questions_def split: if_splits)
qed

lemma compact_questions_primary: "map_of (compact_questions state qs) (primary_question state) = map_of qs (primary_question state)"
  by (auto simp: compact_questions_def primary_question_def map_of_filter_key)

lemma shaped_keeps:
  assumes "shaped_request fmt context q = Inr q'" "p = primary_question (ddel ''decision_context'' (dq_state q))"
  shows "dq_model q' = dq_model q \<and> choices p q' = choices p q \<and> dget ''fence'' (dq_state q') = dget ''fence'' (dq_state q)
    \<and> dget ''source_fence'' (dq_state q') = dget ''source_fence'' (dq_state q)
    \<and> dget ''observation_id'' (dq_state q') = dget ''observation_id'' (dq_state q)
    \<and> (\<forall>k v. k \<noteq> p \<longrightarrow> map_of (dq_questions q') k = Some v \<longrightarrow> map_of (dq_questions q) k = Some v)"
proof -
  define state where "state = ddel ''decision_context'' (dq_state q)"
  define requirements where "requirements = items_of (dget_or ''action_requirements'' (PDict []) context)"
  note p = assms(2) [folded state_def]
  have state: "dget k state = dget k (dq_state q)" if "k \<noteq> ''decision_context''" for k using that by (simp add: state_def)
  from assms(1) have sub: "set (dkeys requirements) \<subseteq> set (dkeys (criteria_of (dget p (dq_questions q))))"
    by (auto simp: shaped_request_def Let_def state_def [symmetric] requirements_def [symmetric] p rejected_def split: if_splits)
  show ?thesis
  proof (cases "fmt = ''compact''")
    case True
    with assms(1) obtain progress where q': "q' = \<lparr>dq_state = dput ''request_format'' (PStr fmt) (dput ''policy'' (dget_or ''policy'' (PDict []) context)
          (dput ''progress'' (PDict progress) (compact_state context state))),
        dq_questions = dput p (advised requirements (dget p (compact_questions state (dq_questions q)))) (compact_questions state (dq_questions q)),
        dq_model = dq_model q\<rparr>"
      by (auto simp: shaped_request_def Let_def state_def [symmetric] requirements_def [symmetric] p rejected_def rbind_Inr_iff split: if_splits)
    have "dget p (compact_questions state (dq_questions q)) = dget p (dq_questions q)"
      unfolding dget_def p compact_questions_primary ..
    then have "choices p q' = choices p q" using advised_keys [OF sub] by (simp add: choices_def q')
    moreover have "\<forall>k v. k \<noteq> p \<longrightarrow> map_of (dq_questions q') k = Some v \<longrightarrow> map_of (dq_questions q) k = Some v"
    proof (intro allI impI)
      fix k v assume "k \<noteq> p" "map_of (dq_questions q') k = Some v"
      then have "map_of (compact_questions state (dq_questions q)) k = Some v" unfolding q' by simp
      then show "map_of (dq_questions q) k = Some v" by (rule compact_questions_subset)
    qed
    moreover have "dget k (dq_state q') = dget k (dq_state q)"
      if "k \<notin> {''party_complete'', ''last_op'', ''recent'', ''room'', ''request_format'', ''policy'', ''progress'', ''decision_context''}" for k
      using that compact_state_keeps [of k "context" state] state [of k] by (simp add: q')
    moreover have "dq_model q' = dq_model q" by (simp add: q')
    ultimately show ?thesis by (intro conjI) simp_all
  next
    case False
    with assms(1) have "q' = \<lparr>dq_state = dput ''request_format'' (PStr fmt) (if context \<noteq> [] then dput ''decision_context'' (PDict context) state else state),
        dq_questions = dq_questions q, dq_model = dq_model q\<rparr>"
      by (auto simp: shaped_request_def Let_def state_def [symmetric] requirements_def [symmetric] p rejected_def split: if_splits)
    then have "dq_state q' = dput ''request_format'' (PStr fmt) (if context \<noteq> [] then dput ''decision_context'' (PDict context) state else state)"
        "dq_questions q' = dq_questions q" "dq_model q' = dq_model q"
      by simp_all
    then show ?thesis by (cases "context = []") (simp_all add: choices_def state)
  qed
qed

text \<open>
  C37: The payload that an observation becomes is within the byte limit of its format, names the model of the
  invocation and the fence and id of the observation, and advertises exactly the observation's responses in its
  main question: neither the context of the caller nor the compact format adds or hides a choice.  Every other
  question of it is one of the observation's.
\<close>
theorem payload_advertises:
  assumes "observation_request ob model = Inr q" "structure_request rl fmt q = Inr q'"
  shows "(\<exists>encoded. canonical rl q' = Inr encoded \<and> utf8_length encoded \<le> request_limit fmt) \<and> dq_model q' = model
    \<and> choices (main_question ob) q' = set (observation_responses ob)
    \<and> dget ''fence'' (dq_state q') = dget ''fence'' (dq_state q) \<and> dget ''source_fence'' (dq_state q') = dget ''source_fence'' (dq_state q)
    \<and> dget ''observation_id'' (dq_state q') = dget ''observation_id'' (dq_state q)
    \<and> (\<forall>k v. k \<noteq> main_question ob \<longrightarrow> map_of (dq_questions q') k = Some v \<longrightarrow> map_of (dq_questions q) k = Some v)"
proof -
  from assms(2) obtain ctx encoded where s: "shaped_request fmt ctx q = Inr q'" "json_dumps rl compact_sorted (request_to_mapping q') = Inr encoded"
      "utf8_length encoded \<le> request_limit fmt"
    by (auto simp: structure_request_def rejected_def rbind_Inr_iff not_less split: if_splits)
  note r = request_primary [OF assms(1)]
  then have "main_question ob = primary_question (ddel ''decision_context'' (dq_state q))"
    by (auto simp: main_question_def primary_question_def payload_role split: decision_observation.splits)
  note k = shaped_keeps [OF s(1) this]
  have "\<exists>encoded. canonical rl q' = Inr encoded \<and> utf8_length encoded \<le> request_limit fmt" using s(2,3) by (simp add: canonical_def)
  then show ?thesis using k r by (elim conjE) (intro conjI; simp)
qed

lemma sample_structures: "case observation_request (Incident sample_incident) ''m'' of Inl _ \<Rightarrow> False | Inr q \<Rightarrow>
    (case structure_request 900 ''compact'' q of Inl _ \<Rightarrow> False | Inr q' \<Rightarrow> True)"
  by code_simp

theorem payload_advertises_witness:
  "\<exists>q q'. observation_request (Incident sample_incident) ''m'' = Inr q \<and> structure_request 900 ''compact'' q = Inr q'
    \<and> choices ''response'' q' = {''continue'', ''hold''}"
proof -
  from case_Inr [OF sample_structures] obtain q where q: "observation_request (Incident sample_incident) ''m'' = Inr q"
      "case structure_request 900 ''compact'' q of Inl _ \<Rightarrow> False | Inr q' \<Rightarrow> True" by (elim exE conjE)
  from case_Inr [OF q(2)] obtain q' where q': "structure_request 900 ''compact'' q = Inr q'" by (elim exE conjE)
  have "choices ''response'' q' = {''continue'', ''hold''}"
    using payload_advertises [OF q(1) q', THEN conjunct2, THEN conjunct2, THEN conjunct1]
    by (simp add: main_question_def observation_responses_def sample_incident_def)
  with q(1) q' show ?thesis by (intro exI conjI)
qed

section \<open>Answers that escape the error handling\<close>

definition odd_toolbox :: "pyval \<Rightarrow> pyval \<Rightarrow> (string \<times> pyval) list list toolbox" where
  \<comment> \<open>the provider of the sample with another choice and confidence\<close>
  "odd_toolbox choice confidence = sample_toolbox\<lparr>tb_provider := (\<lambda>q s. (s, q, Inr (Some (sample_response\<lparr>rw_answers :=
     PDict [(''response'', PDict [(''type'', PStr ''choice''), (''choice'', choice),
       (''probabilities'', PDict [(''continue'', PFloat (Fin (1 / 4))), (''hold'', PFloat (Fin (3 / 4)))]), (''confidence'', confidence)])]\<rparr>))))\<rparr>"

lemma list_choice_escapes:
  \<comment> \<open>no outcome and no audit record: \<open>choice not in options\<close> raises \<open>TypeError\<close>, which is not caught\<close>
  "case evaluate_invocation (odd_toolbox (PList []) (PInt 1)) False sample_invocation [] of
     (t, r) \<Rightarrow> t = [] \<and> (case r of Inl (Other (TypeError _)) \<Rightarrow> True | _ \<Rightarrow> False)"
  by code_simp

lemma huge_probability_escapes:
  \<comment> \<open>\<open>float(value)\<close> of an integer beyond the floats raises \<open>OverflowError\<close>, which is not caught\<close>
  "probability (PInt (2 ^ 1024)) label = Inl (Other OverflowError) \<and> provider_failure (Other OverflowError) = Inl (Other OverflowError)"
  by (simp add: probability_def plain_number_def beyond_float_def provider_failure_def)

section \<open>The acceptance report\<close>

lemma replay_all_length: "replay_all tb obs s = (t, Inr ocs) \<Longrightarrow> length ocs = length obs"
  by (induction obs arbitrary: s ocs) (auto simp: eff_Inr)

lemma count_mono: "(\<And>x. x \<in> set xs \<Longrightarrow> p x \<Longrightarrow> q x) \<Longrightarrow> count p xs \<le> count q xs"
  by (induction xs) (auto simp: count_def intro: le_SucI)

lemma count_le: "count p xs \<le> length xs"
  by (simp add: count_def)

lemma count_statuses:
  "count (\<lambda>oc. oc_status oc = Recommended) xs + count (\<lambda>oc. oc_status oc = ProviderError) xs + count (\<lambda>oc. oc_status oc = Rejected) xs
    + count (\<lambda>oc. oc_status oc = Unsupported) xs = length xs"
  by (induction xs) (auto simp: count_def, metis outcome_status.exhaust)

lemma count_map: "count p (map f xs) = count (p \<circ> f) xs"
  by (induction xs) (auto simp: count_def)

lemma unless_rejected: "(if b then rejected m else x) = Inr y \<longleftrightarrow> \<not> b \<and> x = Inr y"
  by (simp add: rejected_def)

lemma expectation_nonempty: "expectation_from_mapping k x = Inr e \<Longrightarrow> ex_recommendations e \<noteq> []"
  unfolding expectation_from_mapping_def rbind_Inr_iff rejected_def by (elim exE conjE) (simp split: if_splits add: rbind_Inr_iff, auto)

lemma loaded_expectations:
  assumes "acceptance_manifest v = Inr expectations" "map_of expectations k = Some e"
  shows "ex_recommendations e \<noteq> []"
proof -
  from assms(1) have "\<exists>raw. rfold (\<lambda>found (raw_id, x). rbind (dec_text (PStr raw_id) ''observation_id'' 512) (\<lambda>k.
       rbind (expectation_from_mapping k x) (\<lambda>e. Inr (dput k e found)))) [] raw = Inr expectations"
    unfolding acceptance_manifest_def rbind_Inr_iff unless_rejected by (elim exE conjE) (rule exI)
  then obtain raw where raw: "rfold (\<lambda>found (raw_id, x). rbind (dec_text (PStr raw_id) ''observation_id'' 512) (\<lambda>k.
       rbind (expectation_from_mapping k x) (\<lambda>e. Inr (dput k e found)))) [] raw = Inr expectations" ..
  have "\<forall>k e. map_of expectations k = Some e \<longrightarrow> ex_recommendations e \<noteq> []"
  proof (rule rfold_invariant [OF raw])
    fix found rx found' assume "\<forall>k e. map_of found k = Some e \<longrightarrow> ex_recommendations e \<noteq> []"
      "(case rx of (raw_id, x) \<Rightarrow> rbind (dec_text (PStr raw_id) ''observation_id'' 512) (\<lambda>k.
         rbind (expectation_from_mapping k x) (\<lambda>e. Inr (dput k e found)))) = Inr found'"
    moreover from this(2) obtain k e where "found' = dput k e found" "expectation_from_mapping k (snd rx) = Inr e"
      by (cases rx) (auto simp: rbind_Inr_iff)
    ultimately show "\<forall>k e. map_of found' k = Some e \<longrightarrow> ex_recommendations e \<noteq> []"
      using expectation_nonempty by (simp add: fun_upd_def)
  qed simp
  with assms(2) show ?thesis by blast
qed

lemma checked_observation: "check_observation role expectations ob = Inr u \<Longrightarrow> \<exists>e. map_of expectations (observation_id ob) = Some e"
  unfolding check_observation_def unless_rejected by (cases "map_of expectations (observation_id ob)") simp_all

lemma checked_observations:
  assumes "check_fixture observations expectations = Inr role" "ob \<in> set observations"
  shows "\<exists>e. map_of expectations (observation_id ob) = Some e"
proof -
  define ids where "ids = map observation_id observations"
  from assms(1) obtain us where us: "rmap (check_observation (case hd observations of Frame _ \<Rightarrow> Player | Incident _ \<Rightarrow> Supervisor) expectations) observations = Inr us"
    unfolding check_fixture_def Let_def ids_def [symmetric] unless_rejected
    by (cases "sort (filter (\<lambda>k. k \<notin> set (dkeys expectations)) ids)"; cases "sort (filter (\<lambda>k. k \<notin> set ids) (dkeys expectations))")
      (simp_all add: rejected_def rbind_Inr_iff, blast)
  have "list_all2 (\<lambda>ob _. \<exists>e. map_of expectations (observation_id ob) = Some e) observations us"
    using us unfolding rmap_def by (rule rmapi_list_all2) (rule checked_observation)
  then have "list_all (\<lambda>ob. \<exists>e. map_of expectations (observation_id ob) = Some e) observations"
    by (induction rule: list_all2_induct) simp_all
  with assms(2) show ?thesis by (simp add: list_all_iff)
qed

text \<open>
  The report of an acceptance run against a loaded manifest counts one evaluation for each observation and
  repetition.  The exact recommendations are among the acceptable ones, those and the three kinds of failure do not
  exceed the evaluations, and the matched targets are among the expected ones.
\<close>
theorem report_counts:
  assumes "acceptance_manifest v = Inr expectations"
    and "evaluate_acceptance tb observations expectations warmups repeats threshold s = (t, Inr r)"
  shows "rp_observations r = length observations \<and> rp_warmup_evaluations r = rp_warmup_repeats r * length observations
    \<and> rp_measured_evaluations r = rp_measured_repeats r * length observations \<and> 1 \<le> rp_measured_repeats r
    \<and> rp_exact r \<le> rp_acceptable r
    \<and> rp_acceptable r + rp_provider_errors r + rp_rejected r + rp_unsupported r \<le> rp_measured_evaluations r
    \<and> rp_target_matches r \<le> rp_target_expectations r \<and> rp_target_expectations r \<le> rp_measured_evaluations r"
proof -
  from assms(2) obtain w n limit role tb' warm outcomes s1 s2 where e:
      "int_within repeats 1 100 ''repeats'' = Inr n" "check_fixture observations expectations = Inr role"
      "replay_all tb' (concat (replicate w observations)) s1 = (s2, Inr warm)"
      "replay_all tb' (concat (replicate n observations)) s2 = (t, Inr outcomes)"
      "r = make_report tb' role (length observations) w n limit warm
        (zip (map (\<lambda>ob. the (map_of expectations (observation_id ob))) (concat (replicate n observations))) outcomes)"
    unfolding evaluate_acceptance_def abind_value areturn_value other_Inr Let_def by blast
  define measured where "measured = zip (map (\<lambda>ob. the (map_of expectations (observation_id ob))) (concat (replicate n observations))) outcomes"
  note r = e(5) [folded measured_def]
  have l: "length warm = w * length observations" "length outcomes = n * length observations" "length measured = n * length observations"
      "map snd measured = outcomes"
    using replay_all_length [OF e(3)] replay_all_length [OF e(4)] by (simp_all add: measured_def length_concat sum_list_replicate)
  have n: "1 \<le> n" using e(1) by (auto simp: int_within_def rejected_def split: pyval.splits if_splits)
  have some: "ex_recommendations (fst m) \<noteq> []" if "m \<in> set measured" for m
  proof -
    from that have "fst m \<in> set (map (\<lambda>ob. the (map_of expectations (observation_id ob))) (concat (replicate n observations)))"
      unfolding measured_def by (metis set_zip_leftD prod.collapse)
    then obtain ob where "ob \<in> set observations" "fst m = the (map_of expectations (observation_id ob))" by auto
    moreover from checked_observations [OF e(2) this(1)] obtain ex where "map_of expectations (observation_id ob) = Some ex" ..
    ultimately show ?thesis using loaded_expectations [OF assms(1)] by simp
  qed
  have x: "count exact_match measured \<le> count (\<lambda>m. recommended m \<and> acceptable m) measured"
    by (rule count_mono) (use some in \<open>force simp: exact_match_def recommended_def acceptable_def\<close>)
  have ok: "count (\<lambda>m. recommended m \<and> acceptable m) measured \<le> count (\<lambda>oc. oc_status oc = Recommended) outcomes"
    unfolding l(4) [symmetric] count_map by (rule count_mono) (auto simp: recommended_def)
  show ?thesis using count_statuses [of outcomes] l n x ok length_filter_le [of "\<lambda>(e, _). ex_target_id e \<noteq> None" measured]
    by (simp add: r make_report_def Let_def count_le)
qed

definition sample_manifest :: pyval where
  "sample_manifest = PDict [(''version'', PInt 1), (''expectations'',
     PDict [(''inc-a:v2'', PDict [(''recommendations'', PList [PStr ''hold''])])])]"

definition sample_expectations :: "(string, expectation) dict" where
  "sample_expectations = [(''inc-a:v2'', \<lparr>ex_recommendations = [''hold''], ex_target_id = None\<rparr>)]"

lemma sample_loads: "acceptance_manifest sample_manifest = Inr sample_expectations"
  by code_simp

lemma sample_report: "case evaluate_acceptance sample_toolbox [Incident sample_incident] sample_expectations (PInt 0) (PInt 1) (PFloat (Fin (4 / 5))) [] of
    (t, r) \<Rightarrow> (case r of Inl _ \<Rightarrow> False | Inr rp \<Rightarrow> rp_exact rp = 1 \<and> rp_low_confidence rp = 1)"
  by code_simp

theorem report_counts_witness:
  "\<exists>r. snd (evaluate_acceptance sample_toolbox [Incident sample_incident] sample_expectations (PInt 0) (PInt 1) (PFloat (Fin (4 / 5))) []) = Inr r
    \<and> rp_exact r = 1 \<and> rp_exact r \<le> rp_acceptable r"
proof -
  obtain t e where p: "evaluate_acceptance sample_toolbox [Incident sample_incident] sample_expectations (PInt 0) (PInt 1) (PFloat (Fin (4 / 5))) [] = (t, e)"
    by (cases "evaluate_acceptance sample_toolbox [Incident sample_incident] sample_expectations (PInt 0) (PInt 1) (PFloat (Fin (4 / 5))) []")
  from sample_report [unfolded p, unfolded prod.case] obtain r where r: "e = Inr r" "rp_exact r = 1"
    by (cases e) simp_all
  from report_counts [OF sample_loads p [unfolded r(1)]] have "rp_exact r \<le> rp_acceptable r" by (elim conjE)
  with r p show ?thesis by simp
qed

end
