(* ===== verification/HubAdapters.thy ===== *)
theory HubAdapters
  imports OperationState WorldState
begin

text \<open>
  The adapters of \<open>session_hub.py\<close> between the world state and the capability runner: the evidence adapter
  accepts only events that are attributed to the action that was expected, and the operation adapter turns the
  live snapshot into the state of a session.  The inventory is a function \<open>search\<close> from a character and a
  query to its items, and \<open>digest\<close> is the hexadecimal SHA-256 of a text.
\<close>

lemma float_of_number_code [code]:
  \<comment> \<open>small integers are told from those beyond the float range without computing its bound\<close>
  "float_of_number v = (case v of
      PInt i \<Rightarrow> Some (if \<bar>i\<bar> < 18446744073709551616 then Inr (Fin (of_int i))
        else if 2 ^ 1024 - 2 ^ 970 \<le> \<bar>i\<bar> then Inl OverflowError else Inr (Fin (of_int i)))
    | PFloat f \<Rightarrow> Some (Inr f)
    | _ \<Rightarrow> None)"
  by (simp add: float_of_number_def split: pyval.split)

section \<open>Evidence of items\<close>

record evidence_registration =
  eg_operation_id :: string
  eg_character :: string
  eg_generation :: string
  eg_method :: string
  eg_object_id :: string
  eg_cursor :: int

record controller_registration =
  cg_operation_id :: string
  cg_controller :: string
  cg_character :: string
  cg_generation :: string
  cg_cursor :: int

datatype registration = ItemRegistration evidence_registration | ControllerRegistration controller_registration

definition live_snapshot :: "string \<Rightarrow> (string \<Rightarrow> rat) \<Rightarrow> world_state \<Rightarrow> snapshot_view result" where
  "live_snapshot character age w = rbind (read_snapshot (PStr character) age w) (\<lambda>v. case v of
      None \<Rightarrow> Inl (ValidationError ''live snapshot is unavailable'') | Some current \<Rightarrow> Inr current)"

definition registration_cursor :: "string \<Rightarrow> string \<Rightarrow> (string \<Rightarrow> rat) \<Rightarrow> world_state \<Rightarrow> int result" where
  \<comment> \<open>the cursor of the log while the generation is the active one\<close>
  "registration_cursor character generation age w = rbind (live_snapshot character age w) (\<lambda>current.
     if dget ''generation'' (sv_snapshot current) \<noteq> PStr generation then Inl (ValidationError ''stale session generation'')
     else Inr (sv_cursor current))"

definition register_evidence :: "string \<Rightarrow> string \<Rightarrow> item_binding \<Rightarrow> (string \<Rightarrow> rat) \<Rightarrow> world_state \<Rightarrow> registration result" where
  "register_evidence operation_id method binding age w =
     rbind (registration_cursor (ib_character binding) (ib_generation binding) age w) (\<lambda>cursor.
     Inr (ItemRegistration \<lparr>eg_operation_id = operation_id, eg_character = ib_character binding, eg_generation = ib_generation binding,
       eg_method = method, eg_object_id = ib_object_id binding, eg_cursor = cursor\<rparr>))"

definition register_controller_evidence :: "string \<Rightarrow> string \<Rightarrow> string \<Rightarrow> string \<Rightarrow> (string \<Rightarrow> rat) \<Rightarrow> world_state \<Rightarrow> registration result" where
  "register_controller_evidence operation_id controller character generation age w =
     rbind (registration_cursor character generation age w) (\<lambda>cursor.
     Inr (ControllerRegistration \<lparr>cg_operation_id = operation_id, cg_controller = controller, cg_character = character,
       cg_generation = generation, cg_cursor = cursor\<rparr>))"

definition look :: "string \<Rightarrow> int \<Rightarrow> world_state \<Rightarrow> watch_reply result" where
  \<comment> \<open>\<open>watch(..., timeout=0)\<close>: one look at the log\<close>
  "look character cursor w = (case watch (PStr character) (PInt cursor) (PInt 0) 0 [(0, id)] w of
      Some (_, r) \<Rightarrow> r | None \<Rightarrow> Inr (watch_empty character None))"

definition drop_hash :: "string \<Rightarrow> string" where
  "drop_hash s = (if starts_with ''#'' s then tl s else s)"

definition is_diagnostic :: "evidence_registration \<Rightarrow> string \<Rightarrow> (string \<times> pyval) list \<Rightarrow> bool" where
  \<comment> \<open>the event belongs to the registered session, method and object, and names the action\<close>
  "is_diagnostic g action_id event = (case dget ''data'' event of
      PDict data \<Rightarrow> dget ''kind'' event = PStr ''item_diagnostic'' \<and> dget ''generation'' event = PStr (eg_generation g)
        \<and> casefold (py_str (dget_or ''method'' (PStr []) data)) = casefold (eg_method g)
        \<and> drop_hash (py_str (dget_or ''object_id'' (PStr []) data)) = eg_object_id g
        \<and> dget ''success'' data = PBool True \<and> action_id \<noteq> [] \<and> py_str (dget_or ''action_id'' (PStr []) data) = action_id
    | _ \<Rightarrow> False)"

definition dict_items_of :: "pyval \<Rightarrow> (string \<times> pyval) list" where
  "dict_items_of v = (case v of PDict d \<Rightarrow> d | _ \<Rightarrow> [])"

definition diagnostic_record :: "evidence_registration \<Rightarrow> string \<Rightarrow> (string \<times> pyval) list \<Rightarrow> evidence_record" where
  "diagnostic_record g action_id event = (let data = dict_items_of (dget ''data'' event);
       given = (case dget ''detail'' data of PStr s \<Rightarrow> if strip s = [] then None else Some s | _ \<Rightarrow> None);
       detail = (case given of Some s \<Rightarrow> s | None \<Rightarrow> py_str (dget_or ''summary'' (PStr ''diagnostic evidence observed'') event)) in
     \<lparr>ev_method = eg_method g, ev_generation = eg_generation g, ev_object_id = eg_object_id g, ev_detail = strip detail,
      ev_facts = dict_items_of (dget_or ''facts'' (PDict []) data), ev_action_id = Some action_id\<rparr>)"

definition verify_evidence :: "registration \<Rightarrow> string \<Rightarrow> world_state \<Rightarrow> evidence_record option result" where
  "verify_evidence registration action_id w = (case registration of
      ControllerRegistration _ \<Rightarrow> Inl (ValidationError ''evidence registration is invalid'')
    | ItemRegistration g \<Rightarrow> rbind (look (eg_character g) (eg_cursor g) w) (\<lambda>page.
        Inr (map_option (diagnostic_record g action_id) (List.find (is_diagnostic g action_id) (wr_events page)))))"

section \<open>Recovery receipts\<close>

definition is_receipt :: "string \<Rightarrow> string \<Rightarrow> (string \<times> pyval) list \<Rightarrow> bool" where
  "is_receipt generation action_id event = (dget ''kind'' event = PStr ''controller_recovery'' \<and> dget ''generation'' event = PStr generation
     \<and> (case dget ''data'' event of PDict data \<Rightarrow> dget ''action_id'' data = PStr action_id | _ \<Rightarrow> False))"

definition recovery_receipt :: "string \<Rightarrow> string \<Rightarrow> string \<Rightarrow> world_state \<Rightarrow> pyval result" where
  "recovery_receipt character generation action_id w = rbind (look character 0 w) (\<lambda>page.
     Inr (case List.find (is_receipt generation action_id) (rev (wr_events page)) of
       None \<Rightarrow> PNone | Some event \<Rightarrow> PDict (dict_items_of (dget ''data'' event))))"

definition text_or_null :: "string option \<Rightarrow> pyval" where
  "text_or_null s = (case s of None \<Rightarrow> PNone | Some t \<Rightarrow> PStr t)"

definition verify_recovery :: "recovery_claim \<Rightarrow> world_state \<Rightarrow> pyval result" where
  "verify_recovery claim w = rbind (recovery_receipt (rc_character claim) (rc_generation claim) (rc_action_id claim) w) (\<lambda>receipt.
     Inr (PBool (let d = dict_items_of receipt in
       d \<noteq> [] \<and> py_eq (dget ''controller'' d) (PStr (rc_controller claim))
       \<and> py_eq (dget ''previous_generation'' d) (PStr (rc_previous_generation claim))
       \<and> dget ''operator_confirmed'' d = PBool True \<and> py_eq (dget ''room_id'' d) (rc_room_id claim)
       \<and> py_eq (dget ''hands'' d) (PDict [(''left'', text_or_null (fst (rc_hands claim))), (''right'', text_or_null (snd (rc_hands claim)))]))))"

section \<open>Evidence of controllers\<close>

definition is_result :: "controller_registration \<Rightarrow> string \<Rightarrow> (string \<times> pyval) list \<Rightarrow> bool" where
  "is_result g action_id event = (case dget ''data'' event of
      PDict data \<Rightarrow> dget ''kind'' event = PStr ''controller_result'' \<and> dget ''generation'' event = PStr (cg_generation g)
        \<and> casefold (py_str (dget_or ''controller'' (PStr []) data)) = casefold (cg_controller g)
        \<and> py_str (dget_or ''action_id'' (PStr []) data) = action_id
    | _ \<Rightarrow> False)"

definition result_record :: "controller_registration \<Rightarrow> string \<Rightarrow> (string \<times> pyval) list \<Rightarrow> evidence_record result" where
  "result_record g action_id event = (let data = dict_items_of (dget ''data'' event) in
     case (dget ''ok'' data, dget ''code'' data, dget ''message'' data, dget ''details'' data) of
       (PBool ok, PStr code, PStr message, PDict details) \<Rightarrow>
         if strip code = [] \<or> strip message = [] then Inl (ValidationError ''controller result event is malformed'')
         else Inr \<lparr>ev_method = ''controller.'' @ cg_controller g, ev_generation = cg_generation g, ev_object_id = cg_controller g,
           ev_detail = strip message, ev_facts = [(''ok'', PBool ok), (''code'', PStr (strip code)), (''message'', PStr (strip message)),
             (''details'', PDict details)], ev_action_id = Some action_id\<rparr>
     | _ \<Rightarrow> Inl (ValidationError ''controller result event is malformed''))"

text \<open>
  \<open>verify_controller\<close> looks at the log again and again until the deadline.  A round is the clock reading for the
  remaining time, what happened to the world up to the watch, the watch's own clock and wake-ups, and the clock
  reading after it; None means that the call is still waiting when the rounds end.
\<close>

record evidence_round =
  er_tick :: rat
  er_before :: "world_state \<Rightarrow> world_state"
  er_watch_start :: rat
  er_wakeups :: "world_wakeup list"
  er_end_tick :: rat

fun verify_rounds :: "controller_registration \<Rightarrow> string \<Rightarrow> rat \<Rightarrow> evidence_round list \<Rightarrow> int \<Rightarrow> world_state
    \<Rightarrow> (world_state \<times> evidence_record option result) option" where
  "verify_rounds g action_id deadline [] cursor w = None"
| "verify_rounds g action_id deadline (r # rs) cursor w =
     (let w0 = er_before r w in
      case watch (PStr (cg_character g)) (PInt cursor) (PFloat (Fin (max 0 (min (deadline - er_tick r) (of_nat max_watch_timeout_seconds)))))
          (er_watch_start r) (er_wakeups r) w0 of
        None \<Rightarrow> None
      | Some (w1, Inl e) \<Rightarrow> Some (w1, Inl e)
      | Some (w1, Inr page) \<Rightarrow> (case List.find (is_result g action_id) (wr_events page) of
          Some event \<Rightarrow> Some (w1, rbind (result_record g action_id event) (\<lambda>x. Inr (Some x)))
        | None \<Rightarrow> if deadline \<le> er_end_tick r then Some (w1, Inr None)
            else verify_rounds g action_id deadline rs (wr_cursor page) w1))"

definition verify_controller_result :: "registration \<Rightarrow> string \<Rightarrow> pyfloat \<Rightarrow> rat \<Rightarrow> evidence_round list \<Rightarrow> world_state
    \<Rightarrow> (world_state \<times> evidence_record option result) option" where
  "verify_controller_result registration action_id timeout start rounds w = (case registration of
      ItemRegistration _ \<Rightarrow> Some (w, Inl (ValidationError ''controller evidence registration is invalid''))
    | ControllerRegistration g \<Rightarrow>
        if action_id = [] then Some (w, Inl (ValidationError ''controller action ID is unavailable''))
        else (case timeout of
            Fin t \<Rightarrow> verify_rounds g action_id (start + max 0 t) rounds (cg_cursor g) w
          | _ \<Rightarrow> Some (w, Inl (ValidationError ''controller evidence timeout must be finite''))))"

section \<open>The session state\<close>

record inventory_item =
  it_dossier_id :: string
  it_fingerprint :: string
  it_name :: string
  it_last_game_id :: "string option"

type_synonym inventory = "string \<Rightarrow> string \<Rightarrow> inventory_item list result"

definition matching_dossiers :: "inventory \<Rightarrow> string \<Rightarrow> string \<Rightarrow> inventory_item list result" where
  "matching_dossiers search character object_id = rbind (search character (''#'' @ object_id)) (\<lambda>candidates.
     Inr (filter (\<lambda>x. it_last_game_id x = Some object_id \<and> it_dossier_id x \<noteq> [] \<and> it_fingerprint x \<noteq> []) candidates))"

definition live_hand_identity :: "(string \<Rightarrow> string) \<Rightarrow> string \<Rightarrow> string \<Rightarrow> string \<Rightarrow> string \<Rightarrow> string \<Rightarrow> inventory_item" where
  "live_hand_identity digest character generation object_id side name =
     (let material = join [CHR 0x00] [''lich-live-hand-v1'', casefold character, generation, object_id, side,
            join '' '' (split_ws (casefold name))]; d = digest material in
      \<lparr>it_dossier_id = ''live-hand:'' @ take 24 d, it_fingerprint = ''lich-live-hand-v1:'' @ d, it_name = name,
       it_last_game_id = Some object_id\<rparr>)"

definition hand_location :: "string \<Rightarrow> string \<Rightarrow> owned_location" where
  "hand_location owner side = \<lparr>ol_location_id = side @ ''_hand'', ol_kind = side @ ''_hand'', ol_owner = owner, ol_verified_owned = True,
     ol_safety_rank = 100, ol_restore_command = None\<rparr>"

definition held_object :: "(string \<times> pyval) list \<Rightarrow> string \<Rightarrow> hand_item option" where
  \<comment> \<open>what one hand holds: its object id without the hash sign, and its name\<close>
  "held_object hands side = (case dget side hands of
      PDict held \<Rightarrow> (let object_id = drop_hash (py_str (dget_or ''id'' (PStr []) held)) in
        if object_id = [] then None else Some \<lparr>hi_object_id = object_id, hi_name = py_str (dget_or ''name'' (PStr []) held)\<rparr>)
    | _ \<Rightarrow> None)"

definition hand_items :: "inventory \<Rightarrow> (string \<Rightarrow> string) \<Rightarrow> string \<Rightarrow> (string \<times> pyval) list \<Rightarrow> (string \<times> pyval) list \<Rightarrow> string
    \<Rightarrow> item_state list result" where
  "hand_items search digest character snap hands side = (case held_object hands side of
      None \<Rightarrow> Inr []
    | Some h \<Rightarrow> rbind (matching_dossiers search character (hi_object_id h)) (\<lambda>found.
        let owner = py_str (dget ''character'' snap); dossiers = (if found \<noteq> [] then found
          else [live_hand_identity digest owner (py_str (dget ''generation'' snap)) (hi_object_id h) side (hi_name h)]) in
        Inr (map (\<lambda>x. \<lparr>im_object_id = hi_object_id h, im_dossier_id = it_dossier_id x, im_fingerprint = it_fingerprint x,
          im_location = hand_location owner side\<rparr>) dossiers)))"

definition nearby_objects :: "pyval \<Rightarrow> string \<Rightarrow> nearby_object list option" where
  "nearby_objects nearby kind = (case nearby of
      PDict d \<Rightarrow> (case dget kind d of
          PList xs \<Rightarrow> Some (List.map_filter (\<lambda>v. case v of
              PDict item \<Rightarrow> Some \<lparr>no_object_id = drop_hash (py_str (dget_or ''id'' (PStr []) item)),
                no_noun = py_str (dget_or ''noun'' (PStr []) item),
                no_name = (if dget ''name'' item = PNone then None else Some (py_str (dget ''name'' item)))\<rparr>
            | _ \<Rightarrow> None) xs)
        | _ \<Rightarrow> None)
    | _ \<Rightarrow> None)"

definition session_encumbrance :: "pyval \<Rightarrow> pyval result" where
  \<comment> \<open>an integer, or a text that \<open>str.isdigit\<close> accepts after its leading minus signs and \<open>int\<close> then reads\<close>
  "session_encumbrance v = (case v of
      PInt n \<Rightarrow> Inr (PInt n)
    | PStr s \<Rightarrow> (let t = strip s; minus = (take 1 t = ''-''); ds = (if minus then tl t else t) in
        if \<not> str_isdigit (dropWhile (\<lambda>c. c = CHR ''-'') t) then Inr PNone
        else if ds \<noteq> [] \<and> list_all is_ascii_digit ds
        then Inr (PInt (if minus then - int (digits_value ds) else int (digits_value ds)))
        else Inl (ValueError ''invalid literal for int() with base 10''))
    | _ \<Rightarrow> Inr PNone)"

definition bool_option :: "pyval \<Rightarrow> bool option" where
  "bool_option v = (case v of PBool b \<Rightarrow> Some b | _ \<Rightarrow> None)"

definition str_option :: "pyval \<Rightarrow> string option" where
  "str_option v = (case v of PStr s \<Rightarrow> Some s | _ \<Rightarrow> None)"

definition on_dict :: "((string \<times> pyval) list \<Rightarrow> 'a) \<Rightarrow> pyval \<Rightarrow> 'a option" where
  "on_dict f v = (case v of PDict d \<Rightarrow> Some (f d) | _ \<Rightarrow> None)"

definition session_snapshot :: "inventory \<Rightarrow> (string \<Rightarrow> string) \<Rightarrow> string \<Rightarrow> (string \<Rightarrow> rat) \<Rightarrow> world_state \<Rightarrow> session_state result" where
  "session_snapshot search digest character age w =
     rbind (live_snapshot character age w) (\<lambda>current.
     if sv_stale current then Inl (ValidationError ''live snapshot is stale'') else
     let snap = sv_snapshot current; hands = dget ''hands'' snap in
     case (case dget ''room'' snap of PDict room \<Rightarrow> dget ''id'' room | _ \<Rightarrow> PNone) of
       PStr room_id \<Rightarrow> if room_id = [] then Inl (ValidationError ''live room ID is unavailable'') else
         rbind (rmap (hand_items search digest character snap (dict_items_of hands)) [''right'', ''left'']) (\<lambda>items.
         rbind (session_encumbrance (dget ''encumbrance'' snap)) (\<lambda>encumbrance.
         Inr \<lparr>ss_character = py_str (dget ''character'' snap), ss_generation = py_str (dget ''generation'' snap), ss_room_id = room_id,
           ss_items = concat items, ss_fresh = Some True, ss_sequence = (case dget ''sequence'' snap of PInt n \<Rightarrow> Some n | _ \<Rightarrow> None),
           ss_dead = bool_option (dget ''dead'' snap), ss_stunned = bool_option (dget ''stunned'' snap),
           ss_wounds = on_dict (map (\<lambda>(k, v). (k, on_dict id v))) (dget ''wounds'' snap), ss_encumbrance = encumbrance,
           ss_hands = on_dict (\<lambda>d. map (\<lambda>side. (side, held_object d side)) [''right'', ''left'']) hands,
           ss_scripts = (case dget ''scripts'' snap of PList xs \<Rightarrow> Some (map py_str xs) | _ \<Rightarrow> None),
           ss_owners = on_dict (map (\<lambda>(k, v). (k, str_option v))) (dget ''owners'' snap),
           ss_nearby_creatures = nearby_objects (dget ''nearby'' snap) ''creatures'',
           ss_nearby_corpses = nearby_objects (dget ''nearby'' snap) ''corpses'',
           ss_script_status = on_dict (map (\<lambda>(k, v). (k, py_str v))) (dget ''script_status'' snap),
           ss_character_data = on_dict id (dget ''character_data'' snap)\<rparr>))
     | _ \<Rightarrow> Inl (ValidationError ''live room ID is unavailable''))"

definition safest_owned_locations :: "inventory \<Rightarrow> (string \<Rightarrow> string) \<Rightarrow> string \<Rightarrow> string \<Rightarrow> (string \<Rightarrow> rat) \<Rightarrow> world_state
    \<Rightarrow> owned_location list result" where
  "safest_owned_locations search digest character object_id age w = rbind (session_snapshot search digest character age w) (\<lambda>ss.
     Inr (map im_location (filter (\<lambda>x. im_object_id x = object_id) (ss_items ss))))"

end
