(* ===== verification/CombatReport.thy ===== *)
theory CombatReport
  imports Json
begin

text \<open>
  The combat report of an operation (\<open>combat_reports.py\<close>): the newest recorder evidence that the operation
  kept, validated, or the reason why there is none.  \<open>rl\<close> is the nesting that the recursion limit allows.
\<close>

definition as_dict :: "pyval \<Rightarrow> (string \<times> pyval) list option" where
  "as_dict v = (case v of PDict d \<Rightarrow> Some d | _ \<Rightarrow> None)"

definition retained_report :: "pyval \<Rightarrow> ((string \<times> pyval) list \<times> (string \<times> pyval) list) option" where
  \<comment> \<open>an evidence record with a combat report, and its details\<close>
  "retained_report v = (case as_dict v of None \<Rightarrow> None | Some evidence \<Rightarrow>
     (case as_dict (dget_or ''facts'' (PDict []) evidence) of None \<Rightarrow> None | Some facts \<Rightarrow>
     (case as_dict (dget_or ''details'' (PDict []) facts) of None \<Rightarrow> None | Some details \<Rightarrow>
       if dhas ''combat_report_json'' details then Some (evidence, details) else None)))"

definition report_statuses :: "string list" where
  "report_statuses = [''observed'', ''partial'', ''unavailable'']"

definition decoded_report :: "nat \<Rightarrow> pyval \<Rightarrow> (string \<times> pyval) list option" where
  \<comment> \<open>the body of the \<open>try\<close>: None when it raises\<close>
  "decoded_report rl encoded = (case encoded of
      PStr s \<Rightarrow> if 3500 < length s then None else
        (case json_loads rl \<lparr>jo_unique_keys = False, jo_constants = False\<rparr> s of
          Inr (PDict r) \<Rightarrow> if py_eq (dget ''version'' r) (PInt 1)
              \<and> (case dget ''status'' r of PStr t \<Rightarrow> t \<in> set report_statuses | _ \<Rightarrow> False)
              \<and> (case dget ''trials'' r of PList ts \<Rightarrow> length ts \<le> 5 | _ \<Rightarrow> False) then Some r else None
        | _ \<Rightarrow> None)
    | _ \<Rightarrow> None)"

definition report_base :: "(string \<times> pyval) list \<Rightarrow> (string \<times> pyval) list" where
  "report_base operation = [(''operation_id'', dget ''operation_id'' operation), (''character'', dget ''character'' operation),
     (''operation_status'', dget ''status'' operation), (''ended_at'', dget ''ended_at'' operation), (''historical'', PBool True)]"

definition no_report :: "(string \<times> pyval) list \<Rightarrow> string \<Rightarrow> (string \<times> pyval) list" where
  "no_report operation reason = report_base operation @ [(''status'', PStr ''unavailable''), (''reason'', PStr reason)]"

definition terminal_names :: "string list" where
  "terminal_names = [''succeeded'', ''failed'', ''timed_out'', ''interrupted'']"

definition operation_report :: "nat \<Rightarrow> (string \<times> pyval) list \<Rightarrow> (string \<times> pyval) list" where
  "operation_report rl operation =
     (if \<not> py_in (dget ''status'' operation) (map PStr terminal_names) then no_report operation ''operation_not_terminal''
      else case List.map_filter retained_report (rev (case dget_or ''evidence'' (PList []) operation of PList xs \<Rightarrow> xs | _ \<Rightarrow> [])) of
        [] \<Rightarrow> no_report operation ''no_retained_combat_report''
      | (evidence, details) # _ \<Rightarrow> (case decoded_report rl (dget ''combat_report_json'' details) of
          None \<Rightarrow> no_report operation ''invalid_combat_report''
        | Some report \<Rightarrow>
            let complete = (dget ''recovery_complete'' details = PBool True) in
            if dget ''status'' report \<noteq> PStr ''unavailable'' \<and> \<not> complete then no_report operation ''safe_handoff_unverified''
            else report_base operation @ [(''status'', dget ''status'' report), (''report'', PDict report),
              (''generation'', dget ''generation'' evidence), (''action_id'', dget ''action_id'' evidence),
              (''recovery_complete'', PBool complete)]))"

end
