(* ===== verification/SessionHub.thy ===== *)
theory SessionHub
  imports HubAdapters CombatReport OperationHandlers Watchers
begin

text \<open>
  The facade of \<open>session_hub.py\<close>: each request is validated, handed to the world state, the runner or the
  reducer, and its answer printed as a dictionary.  The inventory and the knowledge base are functions.  A
  request to the runner is a program over its state; between two accesses the other threads act.
\<close>

section \<open>Requests\<close>

definition hub_strict :: "string \<Rightarrow> string list \<Rightarrow> string list \<Rightarrow> pyval \<Rightarrow> (string \<times> pyval) list result" where
  "hub_strict label allowed required v = (case v of
      PDict d \<Rightarrow>
        if unknown_keys allowed d \<noteq> []
        then Inl (ValidationError (''unsupported '' @ label @ '' field(s): '' @ comma_join (unknown_keys allowed d)))
        else if missing_keys required d \<noteq> []
        then Inl (ValidationError (''missing '' @ label @ '' field(s): '' @ comma_join (missing_keys required d)))
        else Inr d
    | _ \<Rightarrow> Inl (ValidationError (label @ '' must be an object'')))"

definition hub_text :: "pyval \<Rightarrow> string \<Rightarrow> nat \<Rightarrow> string result" where
  "hub_text v field maximum = (case v of
      PStr s \<Rightarrow> (let t = strip (remove_nul s) in
        if t = [] then Inl (ValidationError (field @ '' must not be blank''))
        else if maximum < length t then Inl (ValidationError (field @ '' exceeds '' @ nat_str maximum @ '' characters''))
        else Inr t)
    | _ \<Rightarrow> Inl (ValidationError (field @ '' must be a string'')))"

definition hub_character :: "pyval \<Rightarrow> string result" where
  "hub_character v = hub_text v ''character'' 40"

fun digit_groups :: "string \<Rightarrow> bool" where
  \<comment> \<open>digits, with single underscores between them\<close>
  "digit_groups [] = False"
| "digit_groups [c] = is_ascii_digit c"
| "digit_groups (c # d # cs) = (is_ascii_digit c \<and> (if d = CHR ''_'' then digit_groups cs else digit_groups (d # cs)))"

definition int_of_text :: "string \<Rightarrow> int option" where
  \<comment> \<open>\<open>int(text)\<close>\<close>
  "int_of_text s = (let t = strip s; sign = (take 1 t = ''-'' \<or> take 1 t = ''+''); body = (if sign then tl t else t);
       ds = filter is_ascii_digit body in
     if digit_groups body \<and> length ds \<le> 4300
     then Some (if take 1 t = ''-'' then - int (digits_value ds) else int (digits_value ds)) else None)"

definition cursor_of :: "pyval \<Rightarrow> int result" where
  "cursor_of v = (case v of
      PInt n \<Rightarrow> Inr n
    | PStr s \<Rightarrow> (case int_of_text s of None \<Rightarrow> Inl (ValidationError ''cursor must be a nonnegative integer string'') | Some n \<Rightarrow> Inr n)
    | _ \<Rightarrow> Inl (ValidationError ''cursor must be a nonnegative integer string''))"

definition timeout_ms_of :: "pyval \<Rightarrow> int result" where
  "timeout_ms_of v = (case v of
      PInt n \<Rightarrow> if 0 \<le> n \<and> n \<le> 30000 then Inr n else Inl (ValidationError ''timeout_ms must be between 0 and 30000'')
    | _ \<Rightarrow> Inl (ValidationError ''timeout_ms must be an integer''))"

section \<open>Reads of the world state\<close>

definition freshness_mapping :: "snapshot_view \<Rightarrow> pyval" where
  "freshness_mapping v = PDict [(''observed_at'', PStr (sv_observed_at v)), (''age_seconds'', PFloat (Fin (sv_age_seconds v))),
     (''stale'', PBool (sv_stale v))]"

definition hub_snapshot :: "pyval \<Rightarrow> (string \<Rightarrow> rat) \<Rightarrow> world_state \<Rightarrow> (string \<times> pyval) list result" where
  "hub_snapshot payload age w =
     rbind (hub_strict ''snapshot request'' [''character''] [''character''] payload) (\<lambda>request.
     rbind (hub_character (dget ''character'' request)) (\<lambda>character.
     rbind (live_snapshot character age w) (\<lambda>current.
     Inr (dput ''freshness'' (freshness_mapping current) (dput ''cursor'' (PStr (int_str (sv_cursor current))) (sv_snapshot current))))))"

definition hub_watch :: "pyval \<Rightarrow> rat \<Rightarrow> world_wakeup list \<Rightarrow> world_state \<Rightarrow> (world_state \<times> (string \<times> pyval) list result) option" where
  "hub_watch payload start ws w =
     (case rbind (hub_strict ''watch request'' [''character'', ''cursor'', ''timeout_ms''] [''character''] payload) (\<lambda>request.
        rbind (hub_character (dget ''character'' request)) (\<lambda>character.
        rbind (cursor_of (dget_or ''cursor'' (PStr ''0'') request)) (\<lambda>cursor.
        rbind (timeout_ms_of (dget_or ''timeout_ms'' (PInt 0) request)) (\<lambda>ms. Inr (character, cursor, ms))))) of
        Inl e \<Rightarrow> Some (w, Inl e)
      | Inr (character, cursor, ms) \<Rightarrow>
          map_option (\<lambda>(w', r). (w', rbind r (\<lambda>page. Inr
             [(''items'', PList (map PDict (wr_events page))), (''total'', PInt (int (length (wr_events page)))),
              (''cursor'', PStr (int_str (wr_cursor page))), (''timed_out'', PBool (wr_timed_out page)),
              (''truncated'', PBool (wr_truncated page))])))
            (watch (PStr character) (PInt cursor) (PFloat (Fin (of_int ms / 1000))) start ws w))"

definition hub_alerts :: "pyval \<Rightarrow> reducer option \<Rightarrow> (string \<times> pyval) list result" where
  "hub_alerts payload watchers =
     rbind (hub_strict ''alerts request'' [''character''] [''character''] payload) (\<lambda>request.
     rbind (hub_character (dget ''character'' request)) (\<lambda>character.
     let items = (case watchers of None \<Rightarrow> [] | Some r \<Rightarrow> map (\<lambda>a. PDict (alert_to_mapping a)) (active_alerts character r)) in
     Inr [(''items'', PList items), (''total'', PInt (int (length items)))]))"

section \<open>Inventory and knowledge\<close>

definition hub_inventory_find :: "pyval \<Rightarrow> (string \<Rightarrow> string \<Rightarrow> (string \<times> pyval) list list result) \<Rightarrow> (string \<times> pyval) list result" where
  \<comment> \<open>the inventory gives its items as they are printed\<close>
  "hub_inventory_find payload search =
     rbind (hub_strict ''inventory find request'' [''character'', ''query''] [''character'', ''query''] payload) (\<lambda>request.
     rbind (hub_character (dget ''character'' request)) (\<lambda>character.
     rbind (hub_text (dget ''query'' request) ''query'' 200) (\<lambda>query.
     rbind (search character query) (\<lambda>items.
     Inr [(''items'', PList (map PDict items)), (''total'', PInt (int (length items)))]))))"

record excerpt =
  ex_authority :: string
  ex_title :: string
  ex_text :: string
  ex_source :: string
  ex_url :: "string option"
  ex_revision_id :: "int option"
  ex_retrieved_at :: "string option"

definition knowledge_mapping :: "excerpt \<Rightarrow> (string \<times> pyval) list" where
  "knowledge_mapping x = [(''authority'', PStr (ex_authority x)), (''title'', PStr (ex_title x)), (''text'', PStr (ex_text x)),
     (''source'', PStr (ex_source x)), (''url'', text_or_null (ex_url x)),
     (''revision_id'', case ex_revision_id x of None \<Rightarrow> PNone | Some n \<Rightarrow> PInt n), (''retrieved_at'', text_or_null (ex_retrieved_at x))]"

definition hub_wiki_search :: "pyval \<Rightarrow> (string \<Rightarrow> string \<Rightarrow> (excerpt list \<times> pyval list) result) \<Rightarrow> (string \<times> pyval) list result" where
  "hub_wiki_search payload search =
     rbind (hub_strict ''wiki search request'' [''query'', ''character'', ''limit''] [''query''] payload) (\<lambda>request.
     rbind (hub_text (dget ''query'' request) ''query'' 512) (\<lambda>query.
     rbind (if dget ''character'' request = PNone then Inr [] else hub_character (dget ''character'' request)) (\<lambda>character.
     case dget_or ''limit'' (PInt 20) request of
       PInt limit \<Rightarrow>
         if limit < 1 \<or> 20 < limit then Inl (ValidationError ''limit must be between 1 and 20'') else
         rbind (search character query) (\<lambda>(excerpts, diagnostics).
         Inr [(''items'', PList (map (\<lambda>x. PDict (knowledge_mapping x)) (take (nat limit) excerpts))),
           (''total'', PInt (int (length excerpts))), (''diagnostics'', PList diagnostics)])
     | _ \<Rightarrow> Inl (ValidationError ''limit must be an integer''))))"

section \<open>Printed operations\<close>

definition location_mapping :: "owned_location \<Rightarrow> pyval" where
  "location_mapping l = PDict [(''location_id'', PStr (ol_location_id l)), (''kind'', PStr (ol_kind l)), (''owner'', PStr (ol_owner l)),
     (''verified_owned'', PBool (ol_verified_owned l)), (''safety_rank'', PInt (ol_safety_rank l))]"

definition binding_mapping :: "item_binding option \<Rightarrow> pyval" where
  "binding_mapping binding = (case binding of None \<Rightarrow> PNone | Some b \<Rightarrow> PDict
     [(''character'', PStr (ib_character b)), (''generation'', PStr (ib_generation b)), (''object_id'', PStr (ib_object_id b)),
      (''dossier_id'', PStr (ib_dossier_id b)), (''fingerprint'', PStr (ib_fingerprint b)),
      (''original_location'', location_mapping (ib_original_location b))])"

definition item_mapping :: "item_state \<Rightarrow> pyval" where
  "item_mapping x = PDict [(''object_id'', PStr (im_object_id x)), (''dossier_id'', PStr (im_dossier_id x)),
     (''fingerprint'', PStr (im_fingerprint x)), (''location'', location_mapping (im_location x))]"

definition state_mapping :: "session_state option \<Rightarrow> pyval" where
  "state_mapping st = (case st of None \<Rightarrow> PNone | Some ss \<Rightarrow> PDict
     ([(''character'', PStr (ss_character ss)), (''generation'', PStr (ss_generation ss)), (''room_id'', PStr (ss_room_id ss))]
      @ (case ss_character_data ss of None \<Rightarrow> [] | Some d \<Rightarrow> [(''character_data'', PDict d),
          (''sequence'', case ss_sequence ss of None \<Rightarrow> PNone | Some n \<Rightarrow> PInt n)])
      @ [(''items'', PList (map item_mapping (ss_items ss)))]))"

definition evidence_mapping :: "evidence_record \<Rightarrow> pyval" where
  "evidence_mapping e = PDict [(''method'', PStr (ev_method e)), (''generation'', PStr (evidence_record.ev_generation e)),
     (''object_id'', PStr (ev_object_id e)), (''action_id'', text_or_null (ev_action_id e)), (''detail'', PStr (ev_detail e)),
     (''facts'', PDict (ev_facts e))]"

definition operation_event_mapping :: "operation_event \<Rightarrow> pyval" where
  "operation_event_mapping e = PDict [(''cursor'', PInt (int (oev_cursor e))), (''status'', PStr (op_status_str (oev_status e))),
     (''detail'', PStr (oev_detail e)), (''timestamp'', PFloat (Fin (oev_timestamp e)))]"

definition time_or_null :: "rat option \<Rightarrow> pyval" where
  "time_or_null t = (case t of None \<Rightarrow> PNone | Some r \<Rightarrow> PFloat (Fin r))"

definition operation_mapping :: "operation \<Rightarrow> (string \<times> pyval) list" where
  "operation_mapping r =
     [(''operation_id'', PStr (op_operation_id r)), (''capability'', PStr (op_capability r)), (''character'', PStr (op_character r)),
      (''args'', PDict (op_arguments r)), (''status'', PStr (op_status_str (op_status r))),
      (''requested_at'', PFloat (Fin (op_requested_at r))), (''admitted_at'', time_or_null (op_admitted_at r)),
      (''started_at'', time_or_null (op_started_at r)), (''ended_at'', time_or_null (op_ended_at r)),
      (''binding'', binding_mapping (op_binding r)), (''start_state'', state_mapping (op_start_state r)),
      (''end_state'', state_mapping (op_end_state r)), (''evidence'', PList (map evidence_mapping (op_evidence r))),
      (''progress'', PList (map operation_event_mapping (op_events r))), (''alerts'', PList (map PStr (op_alerts r))),
      (''explanation'', PStr (op_explanation r))]"

section \<open>Operations\<close>

definition rx_capability :: rx where
  \<comment> \<open>\<open>[a-z][a-z0-9_.-]{0,63}\<close>\<close>
  "rx_capability = Cat (cls [(CHR ''a'', CHR ''z'')]) (UpTo 63 (cls [(CHR ''a'', CHR ''z''), (CHR ''0'', CHR ''9''), (CHR ''_'', CHR ''_''),
     (CHR ''.'', CHR ''.''), (CHR ''-'', CHR ''-'')]))"

definition perform_timeout :: "(string \<times> pyval) list \<Rightarrow> pyval result" where
  \<comment> \<open>the given timeout as a float, or the default of the runner; \<open>math.isfinite\<close> overflows on an integer beyond the floats\<close>
  "perform_timeout request = (if \<not> dhas ''timeout_seconds'' request then Inr (PFloat (Fin 30))
     else case dget ''timeout_seconds'' request of
       PInt n \<Rightarrow> if overflows_float n then Inl OverflowError
         else if 0 < n \<and> n \<le> 300 then Inr (PFloat (Fin (of_int n)))
         else Inl (ValidationError ''timeout_seconds must be positive and at most 300'')
     | PFloat (Fin r) \<Rightarrow> if 0 < r \<and> r \<le> 300 then Inr (PFloat (Fin r))
         else Inl (ValidationError ''timeout_seconds must be positive and at most 300'')
     | _ \<Rightarrow> Inl (ValidationError ''timeout_seconds must be positive and at most 300''))"

definition perform_request :: "pyval \<Rightarrow> operation_request result" where
  "perform_request payload =
     rbind (hub_strict ''perform request'' [''character'', ''capability'', ''args'', ''expected_generation'', ''timeout_seconds'']
       [''character'', ''capability''] payload) (\<lambda>request.
     rbind (hub_character (dget ''character'' request)) (\<lambda>character.
     rbind (hub_text (dget ''capability'' request) ''capability'' 64) (\<lambda>capability.
     if \<not> rx_full False rx_capability capability then Inl (ValidationError ''capability has invalid syntax'') else
     case dget_or ''args'' (PDict []) request of
       PDict arguments \<Rightarrow>
         rbind (if \<not> dhas ''expected_generation'' request then Inr PNone
           else rbind (hub_text (dget ''expected_generation'' request) ''expected_generation'' 128) (\<lambda>g. Inr (PStr g))) (\<lambda>generation.
         rbind (perform_timeout request) (\<lambda>timeout.
         Inr \<lparr>or_character = PStr character, or_capability = PStr capability, or_arguments = arguments, or_timeout_seconds = timeout,
           or_expected_generation = generation\<rparr>))
     | _ \<Rightarrow> Inl (ValidationError ''args must be an object''))))"

definition printed :: "('s, 'g) operation_env \<Rightarrow> nat \<Rightarrow> ('s, (string \<times> pyval) list) prog" where
  \<comment> \<open>\<open>_operation_mapping\<close> of the live record\<close>
  "printed env i = abind (others env) (\<lambda>_. with_op i (\<lambda>r. areturn (Inr (operation_mapping r))))"

definition hub_perform :: "('s, 'g) operation_env \<Rightarrow> nat \<Rightarrow> pyval \<Rightarrow> ('s, (string \<times> pyval) list) prog" where
  "hub_perform env fuel payload = abind (areturn (raised (perform_request payload))) (\<lambda>q.
     abind (perform env fuel q) (\<lambda>i. printed env i))"

definition hub_start_operation :: "('s, 'g) operation_env \<Rightarrow> pyval \<Rightarrow> ('s, (string \<times> pyval) list) prog" where
  \<comment> \<open>the worker thread that is started is one of the others from now on\<close>
  "hub_start_operation env payload = abind (areturn (raised (perform_request payload))) (\<lambda>q.
     abind (create_operation env q) (\<lambda>i. printed env i))"

definition view_mapping :: "capability_view \<Rightarrow> pyval" where
  "view_mapping v = PDict [(''name'', PStr (vw_name v)), (''summary'', PStr (vw_summary v)), (''arguments'', vw_arguments v),
     (''supported_characters'', PList (map PStr (vw_supported_characters v))),
     (''available'', case vw_available v of None \<Rightarrow> PNone | Some b \<Rightarrow> PBool b)]"

definition hub_capability_catalog :: "('s, 'g) operation_env \<Rightarrow> pyval \<Rightarrow> (string \<times> pyval) list result" where
  "hub_capability_catalog env payload =
     rbind (hub_strict ''capabilities request'' [''character''] [] payload) (\<lambda>request.
     rbind (if dget ''character'' request = PNone then Inr None
       else rbind (hub_character (dget ''character'' request)) (\<lambda>c. Inr (Some c))) (\<lambda>character.
     let items = map view_mapping (describe_capabilities (oe_capabilities env) character) in
     Inr [(''character'', text_or_null character), (''items'', PList items), (''total'', PInt (int (length items)))]))"

definition hub_watch_operation :: "pyval \<Rightarrow> rat \<Rightarrow> (rat \<times> ('s runner \<Rightarrow> 's runner)) list \<Rightarrow> ('s runner \<Rightarrow> 's runner) \<Rightarrow> 's runner
    \<Rightarrow> ('s runner \<times> (string \<times> pyval) list result) option" where
  \<comment> \<open>\<open>act\<close> is what the other threads do before the answer is printed\<close>
  "hub_watch_operation payload start ws act s =
     (case rbind (hub_strict ''operation watch request'' [''operation_id'', ''cursor'', ''timeout_ms''] [''operation_id''] payload) (\<lambda>request.
        rbind (hub_text (dget ''operation_id'' request) ''operation_id'' 64) (\<lambda>k.
        rbind (cursor_of (dget_or ''cursor'' (PInt 0) request)) (\<lambda>cursor.
        if cursor < 0 then Inl (ValidationError ''cursor must be nonnegative'') else
        rbind (timeout_ms_of (dget_or ''timeout_ms'' (PInt 0) request)) (\<lambda>ms. Inr (k, cursor, ms))))) of
        Inl e \<Rightarrow> Some (s, Inl e)
      | Inr (k, cursor, ms) \<Rightarrow> (case operation_wait k (PInt cursor) (PFloat (Fin (of_int ms / 1000))) start ws s of
          None \<Rightarrow> None
        | Some (s1, Inl e) \<Rightarrow> Some (s1, Inl e)
        | Some (s1, Inr (events, i)) \<Rightarrow> (let s2 = act s1 in Some (s2, Inr
            [(''operation'', PDict (operation_mapping (rn_records s2 ! i))), (''items'', PList (map operation_event_mapping events)),
             (''total'', PInt (int (length events))),
             (''cursor'', PStr (int_str (if events = [] then cursor else int (oev_cursor (last events))))),
             (''timed_out'', PBool (events = []))]))))"

definition not_stopped :: "string \<Rightarrow> string option \<Rightarrow> string \<Rightarrow> (string \<times> pyval) list" where
  "not_stopped character k reason = [(''character'', PStr character), (''stopped'', PBool False)]
     @ (case k of None \<Rightarrow> [] | Some i \<Rightarrow> [(''operation_id'', PStr i)]) @ [(''reason'', PStr reason)]"

definition bound_generation :: "operation \<Rightarrow> string option" where
  "bound_generation r = (case op_start_state r of Some ss \<Rightarrow> Some (ss_generation ss) | None \<Rightarrow> op_expected_generation r)"

definition stop_exact :: "('s, 'g) operation_env \<Rightarrow> string \<Rightarrow> string \<Rightarrow> string \<Rightarrow> ('s, (string \<times> pyval) list) prog" where
  \<comment> \<open>the operation is named together with its session generation\<close>
  "stop_exact env character k generation =
     abind (others env) (\<lambda>_. abind (lookup_operation k) (\<lambda>i.
     abind (others env) (\<lambda>_. abind (with_op i (\<lambda>r. aguard (casefold (op_character r) = casefold character \<and> bound_generation r = Some generation)
       (validation ''stop identity does not match the operation''))) (\<lambda>_.
     abind (others env) (\<lambda>_. abind (with_op i (\<lambda>r. areturn (Inr (terminal (op_status r))))) (\<lambda>over.
     if over then areturn (Inr (not_stopped character (Some k) ''operation_already_terminal''))
     else abind (interrupt env k) (\<lambda>_. areturn (Inr [(''character'', PStr character), (''stopped'', PBool True),
       (''stop_requested'', PBool True), (''operation_id'', PStr k)]))))))))"

definition history_of_character :: "string \<Rightarrow> 's runner \<Rightarrow> nat list" where
  \<comment> \<open>\<open>history(character)\<close>: the records themselves\<close>
  "history_of_character character s =
     filter (\<lambda>i. casefold (op_character (rn_records s ! i)) = casefold character) (map snd (rn_operations s))"

definition stop_single :: "('s, 'g) operation_env \<Rightarrow> string \<Rightarrow> ('s, (string \<times> pyval) list) prog" where
  \<comment> \<open>the only active operation of the character\<close>
  "stop_single env character =
     abind (others env) (\<lambda>_. abind (aread (history_of_character character)) (\<lambda>records.
     abind (others env) (\<lambda>_. abind (aread (\<lambda>s. filter (\<lambda>i. \<not> terminal (op_status (rn_records s ! i))) records)) (\<lambda>active.
     case active of
       [] \<Rightarrow> areturn (Inr (not_stopped character None ''no_active_operation''))
     | [i] \<Rightarrow> with_op i (\<lambda>r.
         if is_test_operation env r then areturn (Inl (validation ''test run stop requires operation_id and expected_generation''))
         else abind (interrupt env (op_operation_id r)) (\<lambda>_. areturn (Inr [(''character'', PStr character), (''stopped'', PBool True),
           (''operation_id'', PStr (op_operation_id r))])))
     | _ \<Rightarrow> areturn (Inl (validation ''multiple active operations require explicit inspection''))))))"

definition hub_stop_operation :: "('s, 'g) operation_env \<Rightarrow> pyval \<Rightarrow> ('s, (string \<times> pyval) list) prog" where
  "hub_stop_operation env payload =
     abind (areturn (raised (hub_strict ''operation stop request'' [''character'', ''operation_id'', ''expected_generation''] [''character''] payload))) (\<lambda>request.
     abind (areturn (raised (hub_character (dget ''character'' request)))) (\<lambda>character.
     if dhas ''operation_id'' request \<or> dhas ''expected_generation'' request then
       (if \<not> (dhas ''operation_id'' request \<and> dhas ''expected_generation'' request)
        then areturn (Inl (validation ''exact stop requires operation_id and expected_generation'')) else
        abind (areturn (raised (hub_text (dget ''operation_id'' request) ''operation_id'' 64))) (\<lambda>k.
        abind (areturn (raised (hub_text (dget ''expected_generation'' request) ''expected_generation'' 128))) (\<lambda>generation.
        stop_exact env character k generation)))
     else stop_single env character))"

definition control_mapping :: "control_reply \<Rightarrow> (string \<times> pyval) list" where
  "control_mapping c = [(''operation_id'', PStr (cr_operation_id c)), (''run_id'', PStr (cr_run_id c)), (''control'', PStr (cr_control c)),
     (''applied'', PNone), (''action'', PDict (cr_action c))]"

definition hub_control_operation :: "('s, 'g) operation_env \<Rightarrow> pyval \<Rightarrow> ('s, (string \<times> pyval) list) prog" where
  "hub_control_operation env payload = (let fields = [''character'', ''operation_id'', ''expected_generation'', ''control''] in
     abind (areturn (raised (hub_strict ''operation control request'' fields fields payload))) (\<lambda>request.
     abind (areturn (raised (hub_text (dget ''operation_id'' request) ''operation_id'' 64))) (\<lambda>k.
     abind (areturn (raised (hub_character (dget ''character'' request)))) (\<lambda>character.
     abind (areturn (raised (hub_text (dget ''expected_generation'' request) ''expected_generation'' 128))) (\<lambda>generation.
     abind (areturn (raised (hub_text (dget ''control'' request) ''control'' 16))) (\<lambda>ctl.
     abind (control_controller env k (PStr character) (PStr generation) (PStr ctl)) (\<lambda>reply.
     areturn (Inr (control_mapping reply)))))))))"

section \<open>The combat report\<close>

definition hub_combat_report :: "('s, 'g) operation_env \<Rightarrow> nat \<Rightarrow> pyval \<Rightarrow> ('s, (string \<times> pyval) list) prog" where
  "hub_combat_report env rl payload =
     abind (areturn (raised (hub_strict ''combat report request'' [''character'', ''operation_id''] [''character''] payload))) (\<lambda>request.
     abind (areturn (raised (hub_character (dget ''character'' request)))) (\<lambda>character.
     if dhas ''operation_id'' request then
       (case dget ''operation_id'' request of
          PStr k \<Rightarrow> if \<not> rx_full False rx_run_id k then areturn (Inl (validation ''operation_id must be a LAB operation ID'')) else
            abind (others env) (\<lambda>_. abind (lookup_operation k) (\<lambda>i.
            abind (with_op i (\<lambda>r. aguard (casefold (op_character r) = casefold character \<and> starts_with ''controller.'' (op_capability r))
              (validation ''operation was not found for this character''))) (\<lambda>_.
            abind (printed env i) (\<lambda>m. areturn (Inr (operation_report rl m))))))
        | _ \<Rightarrow> areturn (Inl (validation ''operation_id must be a LAB operation ID'')))
     else
       abind (others env) (\<lambda>_. abind (aread (\<lambda>s. filter (\<lambda>i. starts_with ''controller.'' (op_capability (rn_records s ! i)))
         (history_of_character character s))) (\<lambda>records.
       if records = [] then areturn (Inr [(''character'', PStr character), (''status'', PStr ''unavailable''),
         (''reason'', PStr ''no_retained_controller_operation'')])
       else abind (printed env (last records)) (\<lambda>m. areturn (Inr (operation_report rl m)))))))"

end
