(* ===== verification/HubProperties.thy ===== *)
theory HubProperties
  imports SessionHub WorldProperties
begin

text \<open>
  The properties of the facade: evidence is attributed to the action that was registered, and the session
  state of an operation is the live snapshot.
\<close>

section \<open>Evidence\<close>

lemma map_option_Some: "map_option f x = Some y \<longleftrightarrow> (\<exists>z. x = Some z \<and> y = f z)"
  by (cases x) auto

lemma live_snapshot_Inr:
  assumes "live_snapshot character age w = Inr v"
  obtains key st snap where "character_key (PStr character) = Inr key" "find_state key w = Some st" "cs_snapshot st = Some snap"
    "snapshot_to_mapping snap = Inr (sv_snapshot v)" "sv_cursor v = cs_cursor st"
    "sv_stale v = (ws_freshness_seconds w < max 0 (age (sn_observed_at snap)))"
proof -
  from assms have "read_snapshot (PStr character) age w = Inr (Some v)"
    by (auto simp: live_snapshot_def rbind_Inr_iff split: option.splits)
  then obtain key where key: "character_key (PStr character) = Inr key" "read_snapshot (PStr character) age w = Inr (Some v)"
    by (auto simp: read_snapshot_def rbind_Inr_iff)
  then obtain st snap where "find_state key w = Some st" "cs_snapshot st = Some snap" by (auto simp: read_snapshot_def split: option.splits)
  with key that show thesis by (auto simp: read_snapshot_def rbind_Inr_iff Let_def)
qed

lemma printed_scalars:
  assumes "snapshot_to_mapping s = Inr m"
  shows "dget ''character'' m = PStr (sn_character s)" "dget ''generation'' m = PStr (sn_generation s)"
    "dget ''sequence'' m = PInt (sn_sequence s)"
  using assms by (auto simp: snapshot_to_mapping_def rbind_Inr_iff dget_def)

lemma printed_event:
  assumes "stored_to_mapping x = Inr m"
  shows "dget ''kind'' m = PStr (ev_kind (se_event x))" "dget ''generation'' m = PStr (meaningful_event.ev_generation (se_event x))"
    "bounded_json (ev_data (se_event x)) ''data'' 0 = Inr (dget ''data'' m)"
  using assms by (auto simp: stored_to_mapping_def event_to_mapping_def rbind_Inr_iff dget_def)

lemma rmap_member: "rmap f xs = Inr ys \<Longrightarrow> y \<in> set ys \<Longrightarrow> \<exists>x \<in> set xs. f x = Inr y"
proof -
  have "rmapi (\<lambda>_. f) i xs = Inr ys \<Longrightarrow> y \<in> set ys \<Longrightarrow> \<exists>x \<in> set xs. f x = Inr y" for i
  proof (induction xs arbitrary: i ys)
    case (Cons x xs)
    then obtain z zs where "f x = Inr z" "rmapi (\<lambda>_. f) (Suc i) xs = Inr zs" "ys = z # zs" by (auto simp: rbind_Inr_iff)
    with Cons show ?case by auto
  qed simp
  then show "rmap f xs = Inr ys \<Longrightarrow> y \<in> set ys \<Longrightarrow> \<exists>x \<in> set xs. f x = Inr y" unfolding rmap_def by blast
qed

lemma look_events:
  assumes "look character cursor w = Inr page" "m \<in> set (wr_events page)"
  shows "\<exists>key st x. character_key (PStr character) = Inr key \<and> find_state key w = Some st \<and> x \<in> set (cs_events st)
    \<and> cursor < se_cursor x \<and> stored_to_mapping x = Inr m"
proof -
  define looked where "looked = watch_arguments (PStr character) (PInt cursor) (PInt 0)"
  show ?thesis
  proof (cases looked)
    case (Inl e)
    with assms show ?thesis by (simp add: look_def watch_def looked_def)
  next
    case (Inr kct)
    obtain key c t where kct: "kct = (key, c, t)" by (cases kct)
    note k = watch_arguments_Inr [OF Inr [unfolded looked_def kct]]
    show ?thesis
    proof (cases "available_events cursor (find_state key w)")
      case Nil
      with assms Inr k show ?thesis
        by (auto simp: look_def watch_def looked_def kct watch_empty_def split: option.splits if_splits)
    next
      case (Cons x xs)
      then obtain st where st: "find_state key w = Some st" by (auto simp: available_events_def split: option.splits)
      with assms(1) Inr k Cons have "watch_found cursor st (available_events cursor (Some st)) = Inr page"
        by (simp add: look_def watch_def looked_def kct)
      then have "rmap stored_to_mapping (available_events cursor (Some st)) = Inr (wr_events page)"
        by (auto simp: watch_found_def rbind_Inr_iff)
      from rmap_member [OF this assms(2)] obtain y where "y \<in> set (available_events cursor (Some st))" "stored_to_mapping y = Inr m" ..
      with k(1) st show ?thesis by (auto simp: available_events_def)
    qed
  qed
qed

definition attributed :: "item_binding \<Rightarrow> string \<Rightarrow> string \<Rightarrow> stored_event \<Rightarrow> bool" where
  \<comment> \<open>a successful diagnostic of the session, method, object and action\<close>
  "attributed binding method action_id x = (ev_kind (se_event x) = ''item_diagnostic''
     \<and> meaningful_event.ev_generation (se_event x) = ib_generation binding
     \<and> (\<exists>data. bounded_json (ev_data (se_event x)) ''data'' 0 = Inr (PDict data) \<and> dget ''success'' data = PBool True
       \<and> casefold (py_str (dget_or ''method'' (PStr []) data)) = casefold method
       \<and> drop_hash (py_str (dget_or ''object_id'' (PStr []) data)) = ib_object_id binding
       \<and> py_str (dget_or ''action_id'' (PStr []) data) = action_id))"

lemma diagnostic_attributed:
  assumes "stored_to_mapping x = Inr m" "is_diagnostic g action_id m" "eg_generation g = ib_generation b" "eg_object_id g = ib_object_id b"
  shows "attributed b (eg_method g) action_id x \<and> action_id \<noteq> []"
  using assms printed_event [OF assms(1)] by (auto simp: is_diagnostic_def attributed_def split: pyval.splits)

text \<open>
  C15: Evidence of an item is attributed.  What a verification accepts is a successful diagnostic in the log of the
  character of the binding, of the session, method, object and nonempty action id that were registered, and it is newer
  than the log was at the registration, when the session generation of the binding was the active one.
\<close>
theorem evidence_is_attributed:
  assumes "register_evidence k method binding age w0 = Inr registration" "verify_evidence registration action_id w1 = Inr (Some e)"
  shows "\<exists>key st0 snap st1 x. character_key (PStr (ib_character binding)) = Inr key
    \<and> find_state key w0 = Some st0 \<and> cs_snapshot st0 = Some snap \<and> sn_generation snap = ib_generation binding
    \<and> find_state key w1 = Some st1 \<and> x \<in> set (cs_events st1) \<and> cs_cursor st0 < se_cursor x
    \<and> attributed binding method action_id x \<and> action_id \<noteq> []
    \<and> ev_method e = method \<and> evidence_record.ev_generation e = ib_generation binding \<and> ev_object_id e = ib_object_id binding
    \<and> ev_action_id e = Some action_id"
proof -
  from assms(1) obtain v where v: "live_snapshot (ib_character binding) age w0 = Inr v" "dget ''generation'' (sv_snapshot v) = PStr (ib_generation binding)"
      "registration = ItemRegistration \<lparr>eg_operation_id = k, eg_character = ib_character binding, eg_generation = ib_generation binding,
         eg_method = method, eg_object_id = ib_object_id binding, eg_cursor = sv_cursor v\<rparr>"
    by (auto simp: register_evidence_def registration_cursor_def rbind_Inr_iff split: if_splits)
  define g where "g = \<lparr>eg_operation_id = k, eg_character = ib_character binding, eg_generation = ib_generation binding,
         eg_method = method, eg_object_id = ib_object_id binding, eg_cursor = sv_cursor v\<rparr>"
  note v = v [folded g_def]
  from v(1) obtain key st0 snap where s: "character_key (PStr (ib_character binding)) = Inr key" "find_state key w0 = Some st0"
      "cs_snapshot st0 = Some snap" "snapshot_to_mapping snap = Inr (sv_snapshot v)" "sv_cursor v = cs_cursor st0"
    by (rule live_snapshot_Inr)
  from assms(2) v(3) obtain page m where p: "look (eg_character g) (eg_cursor g) w1 = Inr page"
      "List.find (is_diagnostic g action_id) (wr_events page) = Some m" "e = diagnostic_record g action_id m"
    by (auto simp: verify_evidence_def rbind_Inr_iff map_option_Some)
  from p(2) have m: "m \<in> set (wr_events page)" "is_diagnostic g action_id m" by (auto simp: find_Some_iff)
  from look_events [OF p(1) m(1)] s(1) obtain st1 x where x: "find_state key w1 = Some st1" "x \<in> set (cs_events st1)"
      "sv_cursor v < se_cursor x" "stored_to_mapping x = Inr m"
    by (auto simp: g_def)
  from diagnostic_attributed [OF x(4) m(2), of binding] have "attributed binding method action_id x \<and> action_id \<noteq> []" by (simp add: g_def)
  moreover have "sn_generation snap = ib_generation binding" using v(2) printed_scalars(2) [OF s(4)] by simp
  ultimately show ?thesis using s x by (auto simp: p(3) diagnostic_record_def Let_def g_def)
qed

section \<open>The session state\<close>

definition in_hand :: "(string \<times> pyval) list \<Rightarrow> string \<Rightarrow> item_state \<Rightarrow> bool" where
  \<comment> \<open>the item is the object that one hand of the snapshot holds, and is located there\<close>
  "in_hand snap owner x = (\<exists>side \<in> {''right'', ''left''}. \<exists>h. held_object (dict_items_of (dget ''hands'' snap)) side = Some h
     \<and> im_object_id x = hi_object_id h \<and> im_location x = hand_location owner side)"

lemma hand_items_in_hand:
  assumes "hand_items search digest character snap (dict_items_of (dget ''hands'' snap)) side = Inr xs" "side \<in> {''right'', ''left''}" "x \<in> set xs"
  shows "in_hand snap (py_str (dget ''character'' snap)) x"
  using assms by (auto simp: hand_items_def in_hand_def rbind_Inr_iff Let_def split: option.splits)

lemma session_snapshot_parts:
  assumes "session_snapshot search digest character age w = Inr ss"
  obtains v items encumbrance where "live_snapshot character age w = Inr v" "\<not> sv_stale v"
    "rmap (hand_items search digest character (sv_snapshot v) (dict_items_of (dget ''hands'' (sv_snapshot v)))) [''right'', ''left''] = Inr items"
    "ss_character ss = py_str (dget ''character'' (sv_snapshot v))" "ss_generation ss = py_str (dget ''generation'' (sv_snapshot v))"
    "ss_items ss = concat items" "ss_fresh ss = Some True"
    "ss_sequence ss = (case dget ''sequence'' (sv_snapshot v) of PInt n \<Rightarrow> Some n | _ \<Rightarrow> None)"
    "\<exists>room. dget ''room'' (sv_snapshot v) = PDict room \<and> dget ''id'' room = PStr (ss_room_id ss) \<and> ss_room_id ss \<noteq> []"
proof -
  from assms obtain v where v: "live_snapshot character age w = Inr v" "\<not> sv_stale v"
    by (auto simp: session_snapshot_def rbind_Inr_iff split: if_splits)
  obtain room_id where room: "(case dget ''room'' (sv_snapshot v) of PDict room \<Rightarrow> dget ''id'' room | _ \<Rightarrow> PNone) = PStr room_id"
    using assms v by (cases "case dget ''room'' (sv_snapshot v) of PDict room \<Rightarrow> dget ''id'' room | _ \<Rightarrow> PNone")
      (simp_all add: session_snapshot_def Let_def)
  from assms v have r: "room_id \<noteq> []" by (auto simp: session_snapshot_def Let_def room)
  have "\<exists>d. dget ''room'' (sv_snapshot v) = PDict d \<and> dget ''id'' d = PStr room_id"
    using room by (cases "dget ''room'' (sv_snapshot v)") simp_all
  with that v r assms room show thesis by (auto simp: session_snapshot_def Let_def rbind_Inr_iff)
qed

text \<open>
  C16: The state of a session that the runner is given is the live snapshot.  It is that of the newest stored snapshot
  of the character, not older than the freshness bound, with its character, generation, sequence and room; and every
  item of it is the object in one of the hands of that snapshot, owned by the character, never a remembered location.
\<close>
theorem session_state_is_live:
  assumes "session_snapshot search digest character age w = Inr ss"
  shows "\<exists>key st snap m. character_key (PStr character) = Inr key \<and> find_state key w = Some st \<and> cs_snapshot st = Some snap
    \<and> snapshot_to_mapping snap = Inr m \<and> age (sn_observed_at snap) \<le> ws_freshness_seconds w
    \<and> ss_character ss = sn_character snap \<and> ss_generation ss = sn_generation snap \<and> ss_sequence ss = Some (sn_sequence snap)
    \<and> (\<exists>room. dget ''room'' m = PDict room \<and> dget ''id'' room = PStr (ss_room_id ss)) \<and> ss_room_id ss \<noteq> []
    \<and> (\<forall>x \<in> set (ss_items ss). in_hand m (sn_character snap) x)"
proof -
  from assms obtain v items where v: "live_snapshot character age w = Inr v" "\<not> sv_stale v"
    "rmap (hand_items search digest character (sv_snapshot v) (dict_items_of (dget ''hands'' (sv_snapshot v)))) [''right'', ''left''] = Inr items"
    "ss_character ss = py_str (dget ''character'' (sv_snapshot v))" "ss_generation ss = py_str (dget ''generation'' (sv_snapshot v))"
    "ss_items ss = concat items"
    "ss_sequence ss = (case dget ''sequence'' (sv_snapshot v) of PInt n \<Rightarrow> Some n | _ \<Rightarrow> None)"
    "\<exists>room. dget ''room'' (sv_snapshot v) = PDict room \<and> dget ''id'' room = PStr (ss_room_id ss) \<and> ss_room_id ss \<noteq> []"
    by (rule session_snapshot_parts)
  from v(1) obtain key st snap where s: "character_key (PStr character) = Inr key" "find_state key w = Some st" "cs_snapshot st = Some snap"
      "snapshot_to_mapping snap = Inr (sv_snapshot v)" "sv_stale v = (ws_freshness_seconds w < max 0 (age (sn_observed_at snap)))"
    by (rule live_snapshot_Inr)
  have "in_hand (sv_snapshot v) (sn_character snap) x" if "x \<in> set (ss_items ss)" for x
  proof -
    from that v(6) obtain xs where xs: "xs \<in> set items" "x \<in> set xs" by auto
    from rmap_member [OF v(3) xs(1)] obtain side where "side \<in> {''right'', ''left''}"
        "hand_items search digest character (sv_snapshot v) (dict_items_of (dget ''hands'' (sv_snapshot v))) side = Inr xs" by auto
    with hand_items_in_hand xs(2) have "in_hand (sv_snapshot v) (py_str (dget ''character'' (sv_snapshot v))) x" by blast
    then show ?thesis by (simp add: printed_scalars [OF s(4)])
  qed
  moreover have "age (sn_observed_at snap) \<le> ws_freshness_seconds w" using v(2) s(5) by simp
  ultimately show ?thesis using s v(4,5,7,8) by (auto simp: printed_scalars [OF s(4)])
qed

section \<open>The combat report\<close>

lemma decoded_report_valid:
  assumes "decoded_report rl encoded = Some r"
  shows "py_eq (dget ''version'' r) (PInt 1) \<and> (\<exists>t \<in> set report_statuses. dget ''status'' r = PStr t)
    \<and> (\<exists>ts. dget ''trials'' r = PList ts \<and> length ts \<le> 5)"
proof -
  from assms obtain s where s: "encoded = PStr s" by (cases encoded) (simp_all add: decoded_report_def)
  with assms obtain v where v: "json_loads rl \<lparr>jo_unique_keys = False, jo_constants = False\<rparr> s = Inr v"
    by (auto simp: decoded_report_def split: if_splits sum.splits)
  with assms s obtain d where "v = PDict d" by (cases v) (auto simp: decoded_report_def split: if_splits)
  with assms s v show ?thesis by (auto simp: decoded_report_def split: if_splits pyval.splits)
qed

lemma shown_report:
  \<comment> \<open>a report is shown for a terminal operation after a safe handoff, and is a valid one\<close>
  assumes "dget ''status'' (operation_report rl operation) \<noteq> PStr ''unavailable''"
  shows "py_in (dget ''status'' operation) (map PStr terminal_names)
    \<and> dget ''recovery_complete'' (operation_report rl operation) = PBool True
    \<and> (\<exists>r. dget ''report'' (operation_report rl operation) = PDict r \<and> py_eq (dget ''version'' r) (PInt 1)
      \<and> dget ''status'' r = dget ''status'' (operation_report rl operation))"
proof -
  have n: "dget ''status'' (no_report operation reason) = PStr ''unavailable''" for reason
    by (simp add: no_report_def report_base_def dget_def)
  obtain evidence details where e: "py_in (dget ''status'' operation) (map PStr terminal_names)"
      "operation_report rl operation = (case decoded_report rl (dget ''combat_report_json'' details) of
          None \<Rightarrow> no_report operation ''invalid_combat_report''
        | Some report \<Rightarrow>
            let complete = (dget ''recovery_complete'' details = PBool True) in
            if dget ''status'' report \<noteq> PStr ''unavailable'' \<and> \<not> complete then no_report operation ''safe_handoff_unverified''
            else report_base operation @ [(''status'', dget ''status'' report), (''report'', PDict report),
              (''generation'', dget ''generation'' evidence), (''action_id'', dget ''action_id'' evidence),
              (''recovery_complete'', PBool complete)])"
    using assms n by (auto simp: operation_report_def split: if_splits list.splits)
  then obtain report where r: "decoded_report rl (dget ''combat_report_json'' details) = Some report"
    using assms n by (cases "decoded_report rl (dget ''combat_report_json'' details)") simp_all
  show ?thesis
  proof (cases "dget ''status'' report \<noteq> PStr ''unavailable'' \<and> dget ''recovery_complete'' details \<noteq> PBool True")
    case True
    with assms n e(2) r show ?thesis by (simp add: Let_def)
  next
    case False
    then have o: "operation_report rl operation = report_base operation @ [(''status'', dget ''status'' report), (''report'', PDict report),
              (''generation'', dget ''generation'' evidence), (''action_id'', dget ''action_id'' evidence),
              (''recovery_complete'', PBool (dget ''recovery_complete'' details = PBool True))]"
      using e(2) r by (auto simp: Let_def)
    then have "dget ''status'' (operation_report rl operation) = dget ''status'' report" "dget ''report'' (operation_report rl operation) = PDict report"
        "dget ''recovery_complete'' (operation_report rl operation) = PBool (dget ''recovery_complete'' details = PBool True)"
      by (simp_all add: report_base_def dget_def)
    with assms False e(1) decoded_report_valid [OF r] show ?thesis by auto
  qed
qed

section \<open>A sample\<close>

definition hub_sample_snapshot :: character_snapshot where
  "hub_sample_snapshot = demo_snapshot\<lparr>sn_hands := PDict [(''right'', PDict [(''id'', PStr ''#77''), (''name'', PStr ''a steel sword'')]), (''left'', PNone)]\<rparr>"

definition hub_world0 :: world_state where "hub_world0 = fst (publish_snapshot hub_sample_snapshot world0)"

definition hub_sample_event :: meaningful_event where
  "hub_sample_event = \<lparr>ev_character = ''Ann'', ev_generation = ''g1'', ev_observed_at = ''2026-01-02T03:04:06Z'',
     ev_kind = ''item_diagnostic'', ev_summary = ''inspected'', ev_data = PDict [(''method'', PStr ''inspect''), (''object_id'', PStr ''#77''),
       (''success'', PBool True), (''action_id'', PStr ''a1''), (''detail'', PStr ''It is sharp.'')]\<rparr>"

definition hub_world1 :: world_state where "hub_world1 = fst (publish_event hub_sample_event hub_world0)"

definition hub_sample_binding :: item_binding where
  "hub_sample_binding = \<lparr>ib_character = ''Ann'', ib_generation = ''g1'', ib_object_id = ''77'', ib_dossier_id = ''d'', ib_fingerprint = ''f'',
     ib_original_location = hand_location ''Ann'' ''right''\<rparr>"

definition hub_sample_registration :: registration where
  "hub_sample_registration = ItemRegistration \<lparr>eg_operation_id = ''o1'', eg_character = ''Ann'', eg_generation = ''g1'', eg_method = ''inspect'',
     eg_object_id = ''77'', eg_cursor = 1\<rparr>"

lemma hub_sample_registers: "register_evidence ''o1'' ''inspect'' hub_sample_binding (\<lambda>_. 1) hub_world0 = Inr hub_sample_registration"
  by code_simp

lemma hub_sample_verifies: "verify_evidence hub_sample_registration ''a1'' hub_world1 = Inr (Some \<lparr>ev_method = ''inspect'', ev_generation = ''g1'',
    ev_object_id = ''77'', ev_detail = ''It is sharp.'', ev_facts = [], ev_action_id = Some ''a1''\<rparr>)"
  by code_simp

lemma hub_sample_session: "case session_snapshot (\<lambda>_ _. Inr []) (\<lambda>_. ''ab'') ''Ann'' (\<lambda>_. 1) hub_world0 of Inl _ \<Rightarrow> False
    | Inr ss \<Rightarrow> map im_object_id (ss_items ss) = [''77''] \<and> ss_room_id ss = ''228''"
  by code_simp

theorem evidence_is_attributed_witness:
  "\<exists>st x. find_state ''ann'' hub_world1 = Some st \<and> x \<in> set (cs_events st) \<and> attributed hub_sample_binding ''inspect'' ''a1'' x"
proof -
  have "character_key (PStr (ib_character hub_sample_binding)) = Inr ''ann''" by code_simp
  with evidence_is_attributed [OF hub_sample_registers hub_sample_verifies] show ?thesis by force
qed

theorem session_state_is_live_witness:
  "\<exists>ss. session_snapshot (\<lambda>_ _. Inr []) (\<lambda>_. ''ab'') ''Ann'' (\<lambda>_. 1) hub_world0 = Inr ss \<and> ss_room_id ss \<noteq> []
    \<and> (\<exists>st snap. find_state ''ann'' hub_world0 = Some st \<and> cs_snapshot st = Some snap \<and> ss_sequence ss = Some (sn_sequence snap))"
proof -
  obtain ss where ss: "session_snapshot (\<lambda>_ _. Inr []) (\<lambda>_. ''ab'') ''Ann'' (\<lambda>_. 1) hub_world0 = Inr ss"
    using hub_sample_session by (cases "session_snapshot (\<lambda>_ _. Inr []) (\<lambda>_. ''ab'') ''Ann'' (\<lambda>_. 1) hub_world0") simp_all
  have "character_key (PStr ''Ann'') = Inr ''ann''" by code_simp
  with session_state_is_live [OF ss] ss show ?thesis by force
qed

section \<open>Inputs that escape the validation\<close>

lemma double_minus_raises:
  \<comment> \<open>\<open>lstrip\<close> drops every minus sign before \<open>isdigit\<close> looks, \<open>int\<close> then refuses the text\<close>
  "session_encumbrance (PStr ''--5'') = Inl (ValueError ''invalid literal for int() with base 10'')"
  by code_simp

lemma huge_timeout_overflows:
  \<comment> \<open>\<open>math.isfinite\<close> of an integer beyond the floats\<close>
  "perform_timeout [(''timeout_seconds'', PInt (2 ^ 1024))] = Inl OverflowError"
  by (simp add: perform_timeout_def overflows_float_def dhas_def dget_def)

end
