(* ===== verification/Spec2Isabelle.thy ===== *)
theory Spec2Isabelle
  imports BrokerCommands ManifestProperties ProtocolProperties WorldProperties WatcherProperties Question ContextBuffer
    EvidenceBudget CopilotProperties OperationProperties DecisionProperties HubProperties
begin

text \<open>
  The verification library of the Lich agent bridge, the Python sidecar under \<open>src/src/lich_agent_bridge\<close>.
  The sidecar stands between a language model and a game client: the client publishes what it sees, a
  model or an operator proposes commands, and a command reaches the game only if the sidecar admits it.

  \<^bold>\<open>The parts and how they interact.\<close>
  The client publishes snapshots, events and observations (\<open>protocol.py\<close>) into the world state
  (\<open>world_state.py\<close>), which fences them by session generation and sequence number, keeps a bounded event
  log and feeds the alert reducer (\<open>watchers.py\<close>).  A proposal (\<open>actions.py\<close>) is classified by the command
  policy, which knows the registered scripts of the controller manifest (\<open>controller_manifest.py\<close>); the
  action broker holds it through approval, room binding and expiry and hands it to the client at most
  once.  The capability runner (\<open>operations.py\<close>, \<open>script_adapters.py\<close>) executes whole plans, such as a
  journey, an item audit or a controller run, as sequences of broker actions whose effect it verifies in
  fresh session states before it reports success.  The session hub (\<open>session_hub.py\<close>, \<open>combat_reports.py\<close>) is
  the facade of these parts: its adapters give the runner the live snapshot as the state of a session and
  the events of the log as evidence, and its handlers validate requests and print the answers.  Questions go to the engine (\<open>engine.py\<close>, \<open>question.py\<close>,
  \<open>context.py\<close>), which bounds the questions in flight and the memory of a conversation, and to the
  evidence loop (\<open>evidence_loop.py\<close>, \<open>evidence_workspace.py\<close>), which lets the model ask for evidence
  within fixed budgets.  Decisions (\<open>decisions.py\<close>, \<open>decision_context.py\<close>) ask a provider for one of the
  responses that a player frame or an incident advertises; they run in the shadow and execute nothing.

  \<^bold>\<open>Theories and sources.\<close>
  \<^item> \<open>Prelude\<close>, \<open>PyVal\<close>, \<open>Json\<close>, \<open>Regex\<close>, \<open>IsoTime\<close>, \<open>Effects\<close>: the errors of \<open>errors.py\<close> and results as sums, Python's
    values, dictionaries in insertion order, \<open>str\<close> methods, \<open>json\<close>, \<open>re\<close> and \<open>datetime.fromisoformat\<close> as far as the sources
    use them, and programs with a state and errors, their Hoare triples (\<open>spec\<close>) and contracts (\<open>keeps\<close>).
    \<open>RegexLanguage\<close> and \<open>JsonLaws\<close> relate the matcher to the language of its pattern and the printer to the parser.
  \<^item> \<open>ControllerManifest\<close> (\<open>controller_manifest.py\<close>: \<open>ControllerParameter\<close>, \<open>ControllerAction\<close>,
    \<open>ControllerDefinition\<close>, \<open>ControllerManifest\<close>), with \<open>ManifestSafety\<close>, \<open>ManifestReading\<close> (a matched
    command is rebuilt letter by letter but for its case, and commands with the same letters and the same
    action ids are read alike) and \<open>ManifestProperties\<close>.
  \<^item> \<open>ActionRequests\<close>, \<open>CommandPolicy\<close>, \<open>ActionBroker\<close> (\<open>actions.py\<close>): the request messages, \<open>CommandPolicy\<close>,
    and every operation of \<open>ActionBroker\<close> as a function on the record \<open>broker\<close>.  \<open>PolicyProperties\<close>,
    \<open>BrokerLifecycle\<close>, \<open>BrokerSpec\<close> (the abstract machine of one action and the refinement), \<open>BrokerSafety\<close>,
    \<open>BrokerProperties\<close>, \<open>BrokerRequests\<close>, \<open>BrokerCommands\<close>.
  \<^item> \<open>Protocol\<close> (\<open>protocol.py\<close>), with \<open>ProtocolLaws\<close>, \<open>ProtocolErrors\<close>, \<open>ProtocolProperties\<close>.
  \<^item> \<open>WorldState\<close> (\<open>world_state.py\<close>) with \<open>WorldProperties\<close>; \<open>Watchers\<close> (\<open>watchers.py\<close>) with \<open>WatcherProperties\<close>.
  \<^item> \<open>Question\<close> (\<open>question.py\<close>), \<open>ContextBuffer\<close> (\<open>context.py\<close>), \<open>Copilot\<close> (\<open>engine.py\<close>) with \<open>CopilotProperties\<close>.
  \<^item> \<open>EvidenceWorkspace\<close>, \<open>EvidenceLoop\<close> with \<open>EvidenceProperties\<close> and \<open>EvidenceBudget\<close>.
  \<^item> \<open>ScriptAdapters\<close>, \<open>Capabilities\<close>, \<open>OperationState\<close>, \<open>OperationControl\<close>, \<open>OperationChecks\<close>,
    \<open>OperationSteps\<close>, \<open>OperationHandlers\<close> (\<open>script_adapters.py\<close>, \<open>operations.py\<close>: the definitions and data
    classes; the records and primitives of \<open>CapabilityRunner\<close>; interrupt, controls and finish; the checks of
    states and evidence; one broker step, the item audit and the cleanup; the eight handlers and
    \<open>_execute_operation\<close>).  \<open>OperationContracts\<close>, \<open>OperationInvariant\<close>, \<open>OperationEnding\<close>, \<open>OperationSuccess\<close>,
    \<open>OperationOwnAction\<close> (the submissions that a run of the travel handler made and the broker's replies to them), \<open>OperationSamples\<close>, \<open>OperationProperties\<close>.
  \<^item> \<open>DecisionContext\<close> (\<open>decision_context.py\<close>), \<open>Decisions\<close>, \<open>DecisionToolbox\<close>, \<open>DecisionAcceptance\<close> (\<open>decisions.py\<close>: the
    fence, frames, incidents and invocations; the validation of an answer and \<open>DecisionToolbox._evaluate\<close>; the
    acceptance run), with \<open>DecisionProperties\<close>.
  \<^item> \<open>HubAdapters\<close>, \<open>SessionHub\<close> (\<open>session_hub.py\<close>: the adapters and the printed request handlers), \<open>CombatReport\<close>
    (\<open>combat_reports.py\<close>), with \<open>HubProperties\<close>.

  \<^bold>\<open>What the lemmas show.\<close>
  The state of each component is a record and each operation a function on it that returns the new state
  and a value or an error, so that an operation that raises keeps the effects it had before.  A component
  that several callers share has a step relation whose steps are all of its operations with any
  arguments; invariants are proved once for it (the locales \<open>invariant_system\<close> and \<open>evolving_system\<close> of the
  prelude, interpreted on the broker, the world state, the reducer, the question control and the engine).
  The broker is refined to an abstract machine of guarded transitions.  The policy promises the broker its
  \<open>command_gate\<close>; the validators of the protocol are \<open>retraction\<close>s; each rule of the reducer is a \<open>reporter\<close>.
  The runner has many programs over one shared state, so its statements are contracts: a contract says
  what a program may assume of the state it starts in, how it may move it, and what it may raise.  The
  locales \<open>quiet_worker\<close>, \<open>worker\<close>, \<open>patient_worker\<close>, \<open>writing_worker\<close>, \<open>handler_worker\<close> and \<open>lone_worker\<close> prove once
  that every program of the runner keeps a contract that its primitives keep, and are interpreted for the
  contracts \<open>evolving\<close> (records evolve and the runner stays well formed), \<open>timed\<close> (the clock moves towards
  the deadline and a wait of enough polls ends) and \<open>steady\<close> (the core of a record is left alone).

  The evaluation of a decision is a program over the calls of its surroundings (\<open>toolbox_call\<close>): what stands
  behind a recommendation, live or replayed, is stated as the calls it was preceded and followed by.  For the hub the lemmas trace
  what the runner is given, a session state or a piece of evidence, back to the snapshot and the event of the
  world state behind it.

  \<^bold>\<open>Concurrency.\<close>
  The locked methods of the broker, the world state, the reducer and the buffers are atomic steps.  The
  engine is a transition system of threads.  In the runner \<open>oe_others\<close> stands before every access that the
  lock does not protect and changes the state as the other threads do, and \<open>oe_bridge\<close> changes the broker
  even while the lock is held; the properties assume of them only that they evolve the runner (\<open>rely\<close>),
  which every program of the runner is proved to do itself, or that they leave the operation's own data
  alone (\<open>undisturbed\<close>), which holds since only the worker of an operation writes them.  The statement
  about travel also assumes that they leave every action under its own id (\<open>keeps_files\<close>), which every
  operation of the broker is proved to do, and that the tokens of action ids are hexadecimal, as the source
  draws them; its go2 submission is read off the parts of the handler, which \<open>go2_splits\<close> proves to make up
  the whole.

  \<^bold>\<open>Bounds and fuel.\<close>
  Loops that wait are given the list of their wake-ups (the broker's poll, the watch, the wait of an
  operation); they return None when the list ends before the loop does, and the properties say when it
  cannot.  The two polling loops of a worker take a number of polls, after which the worker is
  \<open>StillRunning\<close>, an outcome that no handler of the code can catch; \<open>in_reach\<close> asks for as many polls as the
  deadline is poll intervals away, plus one, and then the worker has returned.  The evidence loop is total
  by a measure on its calls and rounds; a prompt keeps to its byte limit unless the bare manifests of the
  evidence, with no record left in them, already exceed it.  The scanner of \<open>json.loads\<close> is bounded by the length of its
  text and by the recursion limit of the interpreter, which is an argument.  A float prints the digits of
  its decimal expansion, at most 400 places of it.

  \<^bold>\<open>Conventions.\<close>
  Strings are of characters below \<open>U+0100\<close>; floats are exact rationals, with infinities and not-a-number
  apart; integers have at most the 4300 digits that \<open>int\<close> and \<open>str\<close> convert.  Clock readings, random
  tokens, digests and the order in which Python enumerates a set are arguments.  Callbacks are opaque and
  do not call back into the component that runs them.

  \<^bold>\<open>Not modelled.\<close>
  Sockets, files, SQLite, subprocesses and argument parsing: the HTTP server, the model adapters, the
  stores and indexes, the command-line tools, and the modules whose logic is in their SQL or in
  floating-point ranking.  Of the engine, what a worker computes for its answer; of the runner, log lines
  of timings and the failure to start a thread; of the decisions, the HTTP transport, the fixture and audit
  files and the readiness checks, whose results are arguments; of the hub, its log lines of timings and the
  wiring of its parts, while the inventory and the knowledge base behind it are functions.  The Ruby scripts in the client are outside: what they
  promise appears as arguments.
\<close>

end
